(* ===== verification/Base.thy ===== *)
theory Base
  imports Main "HOL-Library.Sublist"
begin

text \<open>
  Shared vocabulary of the development: error values, the tables of the store and the
  queries the services issue against them, runs of a step relation, and the
  interfaces (\<open>invariant_system\<close>, \<open>monotone_system\<close>, \<open>unique_insert\<close>) that the component
  theories interpret.

  A table is the list of its rows. The services reach it only through the ORM, whose
  documented meaning is written out here once: \<open>find\<close> (\<open>findFirst\<close>, \<open>findUnique\<close>),
  \<open>filter\<close> (\<open>findMany\<close>), \<open>update_where\<close> (\<open>update\<close>, \<open>updateMany\<close>), appending a row
  (\<open>create\<close>). The \<open>where\<close> and \<open>data\<close> clauses are the source's own and are translated in
  the component theories.
\<close>

named_theorems store_simps \<open>rewriting table queries and updates\<close>
named_theorems invariant_intros \<open>one preservation lemma per operation\<close>

section \<open>Errors as values\<close>

text \<open>The exceptions the services throw (\<open>@nestjs/common\<close>) with their message. \<open>Internal\<close>
  stands for a plain \<open>Error\<close> or a rejected call, which the framework answers with status 500.\<close>

datatype http_error =
    BadRequest string
  | Unauthorized string
  | Forbidden string
  | NotFound string
  | Conflict string
  | Internal string

type_synonym 'a outcome = "http_error + 'a"

fun is_ok :: "'a outcome \<Rightarrow> bool" where
  "is_ok (Inl _) = False"
| "is_ok (Inr _) = True"

lemma is_ok_iff: "is_ok r \<longleftrightarrow> (\<exists>v. r = Inr v)"
  by (cases r) auto

section \<open>Tables\<close>

definition update_where :: "('r \<Rightarrow> bool) \<Rightarrow> ('r \<Rightarrow> 'r) \<Rightarrow> 'r list \<Rightarrow> 'r list" where
  "update_where P f t = map (\<lambda>r. if P r then f r else r) t"

definition count_where :: "('r \<Rightarrow> bool) \<Rightarrow> 'r list \<Rightarrow> nat" where
  "count_where P t = length (filter P t)"

lemma update_where_Nil [simp, store_simps]: "update_where P f [] = []"
  by (simp add: update_where_def)

lemma update_where_Cons [simp, store_simps]:
  "update_where P f (r # t) = (if P r then f r else r) # update_where P f t"
  by (simp add: update_where_def)

lemma length_update_where [simp, store_simps]: "length (update_where P f t) = length t"
  by (simp add: update_where_def)

lemma update_where_append [store_simps]:
  "update_where P f (t @ u) = update_where P f t @ update_where P f u"
  by (simp add: update_where_def)

lemma in_update_where:
  "r \<in> set (update_where P f t) \<longleftrightarrow>
     (\<exists>q \<in> set t. r = (if P q then f q else q))"
  by (auto simp: update_where_def)

lemma update_where_id:
  assumes "\<And>r. r \<in> set t \<Longrightarrow> P r \<Longrightarrow> f r = r"
  shows "update_where P f t = t"
  using assms by (induction t) auto

lemma update_where_none:
  assumes "\<And>r. r \<in> set t \<Longrightarrow> \<not> P r"
  shows "update_where P f t = t"
  using assms by (induction t) auto

lemma map_update_where:
  assumes "\<And>r. P r \<Longrightarrow> key (f r) = key r"
  shows "map key (update_where P f t) = map key t"
  using assms by (induction t) auto

lemma find_update_where_key:
  assumes "\<And>r. key (f r) = key r"
  shows "find (\<lambda>r. key r = k) (update_where (\<lambda>r. key r = k') f t) =
    (if k = k' then map_option f (find (\<lambda>r. key r = k) t) else find (\<lambda>r. key r = k) t)"
  using assms by (induction t) auto

lemma find_key_in: "find (\<lambda>r. key r = k) t = Some r \<Longrightarrow> r \<in> set t \<and> key r = k"
  by (induction t) (auto split: if_splits)

lemma find_in: "find P t = Some r \<Longrightarrow> r \<in> set t \<and> P r"
  by (induction t) (auto split: if_splits)

lemma find_None_in: "find P t = None \<Longrightarrow> r \<in> set t \<Longrightarrow> \<not> P r"
  by (induction t) (auto split: if_splits)

lemma find_distinct_key:
  assumes "distinct (map key t)" and "r \<in> set t" and "key r = k"
  shows "find (\<lambda>r. key r = k) t = Some r"
  using assms by (induction t) force+

lemma find_unique:
  assumes "r \<in> set t" and "P r" and "\<And>q. q \<in> set t \<Longrightarrow> P q \<Longrightarrow> q = r"
  shows "find P t = Some r"
proof (cases "find P t")
  case None
  with assms(1,2) show ?thesis by (auto dest: find_None_in)
next
  case (Some q)
  with find_in [OF Some] assms(3) show ?thesis by simp
qed

lemma distinct_key_eq:
  assumes "distinct (map key t)" and "r \<in> set t" and "q \<in> set t" and "key r = key q"
  shows "r = q"
  using assms by (induction t) (auto simp: image_iff dest: sym)

lemma find_append_fresh:
  assumes "\<And>r. r \<in> set t \<Longrightarrow> \<not> P r"
  shows "find P (t @ [q]) = (if P q then Some q else None)"
  using assms by (induction t) auto

lemma count_where_update_le:
  assumes "\<And>r. P r \<Longrightarrow> \<not> Q r \<Longrightarrow> \<not> Q (f r)"
  shows "count_where Q (update_where P f t) \<le> count_where Q t"
  using assms by (induction t) (auto simp: count_where_def)

text \<open>A query by a list of distinct keys returns as many rows as keys exactly when every key
  has a row.\<close>

lemma selected_rows_length:
  assumes "distinct (map key t)" and "distinct xs"
  shows "length (filter (\<lambda>r. key r \<in> set xs \<and> Q r) t) = length xs \<longleftrightarrow>
    set xs \<subseteq> key ` {r \<in> set t. Q r}"
proof -
  let ?f = "filter (\<lambda>r. key r \<in> set xs \<and> Q r) t" and ?B = "key ` {r \<in> set t. Q r}"
  have "distinct (map key ?f)" using assms(1) by (rule distinct_map_filter)
  then have "length ?f = card (set (map key ?f))" using distinct_card by fastforce
  also have "set (map key ?f) = set xs \<inter> ?B" by auto
  finally have "length ?f = card (set xs \<inter> ?B)" .
  moreover have "length xs = card (set xs)" using assms(2) by (simp add: distinct_card)
  moreover have "card (set xs \<inter> ?B) = card (set xs) \<longleftrightarrow> set xs \<subseteq> ?B"
    using card_subset_eq [of "set xs" "set xs \<inter> ?B"] by (auto simp: Int_absorb2)
  ultimately show ?thesis by simp
qed

lemma set_map_filter_option: "y \<in> set (List.map_filter f xs) \<longleftrightarrow> (\<exists>x \<in> set xs. f x = Some y)"
  by (induction xs) (auto simp: List.map_filter_def)

lemma fst_map_filter_key:
  assumes "\<And>r. r \<in> set t \<Longrightarrow> g r \<noteq> None"
  shows "fst ` set (List.map_filter (\<lambda>r. map_option (\<lambda>b. (key r, b)) (g r)) t) = key ` set t"
proof (intro set_eqI iffI)
  fix k assume "k \<in> key ` set t"
  then obtain r where r: "r \<in> set t" "k = key r" by blast
  with assms obtain b where "g r = Some b" by blast
  with r have "(k, b) \<in> set (List.map_filter (\<lambda>r. map_option (\<lambda>b. (key r, b)) (g r)) t)"
    by (auto simp: set_map_filter_option)
  then show "k \<in> fst ` set (List.map_filter (\<lambda>r. map_option (\<lambda>b. (key r, b)) (g r)) t)" by force
qed (auto simp: set_map_filter_option)

section \<open>Duplicates removed as \<open>[...new Set(xs)]\<close> removes them\<close>

text \<open>The first occurrence of each element is kept, in order.\<close>

fun dedupe_from :: "'a list \<Rightarrow> 'a list \<Rightarrow> 'a list" where
  "dedupe_from seen [] = []"
| "dedupe_from seen (x # xs) =
     (if x \<in> set seen then dedupe_from seen xs else x # dedupe_from (x # seen) xs)"

definition dedupe :: "'a list \<Rightarrow> 'a list" where
  "dedupe xs = dedupe_from [] xs"

lemma set_dedupe_from: "set (dedupe_from seen xs) = set xs - set seen"
  by (induction xs arbitrary: seen) auto

lemma set_dedupe [simp]: "set (dedupe xs) = set xs"
  by (simp add: dedupe_def set_dedupe_from)

lemma distinct_dedupe_from: "distinct (dedupe_from seen xs)"
  by (induction xs arbitrary: seen) (auto simp: set_dedupe_from)

lemma distinct_dedupe [simp]: "distinct (dedupe xs)"
  by (simp add: dedupe_def distinct_dedupe_from)

lemma dedupe_from_distinct: "distinct xs \<Longrightarrow> set xs \<inter> set seen = {} \<Longrightarrow> dedupe_from seen xs = xs"
  by (induction xs arbitrary: seen) auto

lemma dedupe_id: "distinct xs \<Longrightarrow> dedupe xs = xs"
  by (simp add: dedupe_def dedupe_from_distinct)

section \<open>Runs of a step relation\<close>

inductive run :: "('s \<Rightarrow> 's \<Rightarrow> bool) \<Rightarrow> 's \<Rightarrow> 's \<Rightarrow> bool" for step where
  run_refl: "run step s s"
| run_step: "run step s t \<Longrightarrow> step t u \<Longrightarrow> run step s u"

lemma run_trans: "run step t u \<Longrightarrow> run step s t \<Longrightarrow> run step s u"
  by (induction rule: run.induct) (auto intro: run.intros)

text \<open>The interface of a component with a step relation: a predicate that every step keeps.\<close>

locale invariant_system =
  fixes step :: "'s \<Rightarrow> 's \<Rightarrow> bool"
    and inv :: "'s \<Rightarrow> bool"
  assumes step_inv: "inv s \<Longrightarrow> step s t \<Longrightarrow> inv t"
begin

lemma run_inv: "run step s t \<Longrightarrow> inv s \<Longrightarrow> inv t"
  by (induction rule: run.induct) (auto intro: step_inv)

end

text \<open>The interface of a preorder that every step moves along (a log that only grows, a
  status that only advances): whole runs move along it too.\<close>

locale monotone_system =
  fixes step :: "'s \<Rightarrow> 's \<Rightarrow> bool"
    and le :: "'s \<Rightarrow> 's \<Rightarrow> bool"
  assumes le_refl: "le s s"
    and le_trans: "le s t \<Longrightarrow> le t u \<Longrightarrow> le s u"
    and step_le: "step s t \<Longrightarrow> le s t"
begin

lemma run_le: "run step s t \<Longrightarrow> le s t"
  by (induction rule: run.induct) (auto intro: le_refl le_trans step_le)

end

section \<open>Inserting under a unique index\<close>

text \<open>
  The interface behind every idempotency check of the code: a table with a unique key,
  into which a row is inserted by \<open>add\<close>; \<open>None\<close> is the unique-constraint violation
  (Prisma's \<open>P2002\<close>). The client lemmas say that a key is accepted exactly once.
\<close>

locale unique_insert =
  fixes keys :: "'s \<Rightarrow> 'k set"
    and add :: "'k \<Rightarrow> 's \<Rightarrow> 's option"
  assumes add_None: "add k s = None \<longleftrightarrow> k \<in> keys s"
    and add_Some: "add k s = Some s' \<Longrightarrow> keys s' = insert k (keys s)"
begin

lemma add_again: "add k s = Some s' \<Longrightarrow> add k s' = None"
  using add_Some add_None by auto

lemma add_fresh: "k \<notin> keys s \<Longrightarrow> \<exists>s'. add k s = Some s'"
  using add_None by (cases "add k s") auto

lemma add_keeps: "add k s = Some s' \<Longrightarrow> k' \<in> keys s \<Longrightarrow> add k' s' = None"
  using add_Some add_None by auto

end

definition table_insert :: "('r \<Rightarrow> 'k) \<Rightarrow> 'r \<Rightarrow> 'r list \<Rightarrow> 'r list option" where
  "table_insert key r t = (if key r \<in> key ` set t then None else Some (t @ [r]))"

lemma table_insert_None: "table_insert key r t = None \<longleftrightarrow> key r \<in> key ` set t"
  by (simp add: table_insert_def)

lemma table_insert_Some:
  "table_insert key r t = Some t' \<longleftrightarrow> key r \<notin> key ` set t \<and> t' = t @ [r]"
  by (auto simp: table_insert_def)

section \<open>Strings\<close>

definition ascii_upper :: "char \<Rightarrow> char" where
  "ascii_upper c = (if 97 \<le> (of_char c :: nat) \<and> (of_char c :: nat) \<le> 122
     then char_of ((of_char c :: nat) - 32) else c)"

definition ascii_lower :: "char \<Rightarrow> char" where
  "ascii_lower c = (if 65 \<le> (of_char c :: nat) \<and> (of_char c :: nat) \<le> 90
     then char_of ((of_char c :: nat) + 32) else c)"

text \<open>\<open>toUpperCase\<close>, \<open>toLowerCase\<close> on ASCII text.\<close>

definition to_upper :: "string \<Rightarrow> string" where
  "to_upper s = map ascii_upper s"

definition to_lower :: "string \<Rightarrow> string" where
  "to_lower s = map ascii_lower s"

text \<open>\<open>x || y\<close> on an optional string: \<open>undefined\<close>, \<open>null\<close> and the empty string are falsy.\<close>

definition or_str :: "string option \<Rightarrow> string \<Rightarrow> string" where
  "or_str x y = (case x of None \<Rightarrow> y | Some v \<Rightarrow> if v = [] then y else v)"

definition truthy :: "string option \<Rightarrow> bool" where
  "truthy x \<longleftrightarrow> (case x of None \<Rightarrow> False | Some v \<Rightarrow> v \<noteq> [])"

lemma truthy_simps [simp]: "\<not> truthy None" "truthy (Some v) \<longleftrightarrow> v \<noteq> []"
  by (simp_all add: truthy_def)

lemma truthyD: "truthy x \<Longrightarrow> \<exists>v. x = Some v \<and> v \<noteq> []"
  by (cases x) auto

end
