(* ===== verification/BookingStates.thy ===== *)
theory BookingStates
  imports Base
begin

text \<open>
  The booking status and its transition table, from
  \<open>backend/src/bookings/bookings-state.machine.ts\<close>. The source keys its table by strings;
  every caller passes a \<open>BookingStatus\<close> value, so the statuses are a datatype here. The
  arrow of the error message is written in ASCII.
\<close>

datatype booking_status =
    PENDING | LOCKED | PAYMENT_IN_PROGRESS | CONFIRMED | FAILED | EXPIRED | CANCELLED
  | REFUND_INITIATED | REFUNDED | REFUND_FAILED

fun status_name :: "booking_status \<Rightarrow> string" where
  "status_name PENDING = ''PENDING''"
| "status_name LOCKED = ''LOCKED''"
| "status_name PAYMENT_IN_PROGRESS = ''PAYMENT_IN_PROGRESS''"
| "status_name CONFIRMED = ''CONFIRMED''"
| "status_name FAILED = ''FAILED''"
| "status_name EXPIRED = ''EXPIRED''"
| "status_name CANCELLED = ''CANCELLED''"
| "status_name REFUND_INITIATED = ''REFUND_INITIATED''"
| "status_name REFUNDED = ''REFUNDED''"
| "status_name REFUND_FAILED = ''REFUND_FAILED''"

lemma status_name_inject: "status_name a = status_name b \<longleftrightarrow> a = b"
  by (cases a; cases b) simp_all

fun allowed_transitions :: "booking_status \<Rightarrow> booking_status list" where
  "allowed_transitions PENDING = [LOCKED]"
| "allowed_transitions LOCKED = [PAYMENT_IN_PROGRESS, EXPIRED, FAILED, CANCELLED]"
| "allowed_transitions PAYMENT_IN_PROGRESS = [CONFIRMED, FAILED, REFUND_INITIATED]"
| "allowed_transitions CONFIRMED = [CANCELLED, REFUND_INITIATED]"
| "allowed_transitions FAILED = [REFUND_INITIATED]"
| "allowed_transitions EXPIRED = [REFUND_INITIATED]"
| "allowed_transitions CANCELLED = [REFUND_INITIATED]"
| "allowed_transitions REFUND_INITIATED = [REFUNDED, REFUND_FAILED]"
| "allowed_transitions REFUNDED = []"
| "allowed_transitions REFUND_FAILED = [REFUND_INITIATED]"

definition validateTransition :: "booking_status \<Rightarrow> booking_status \<Rightarrow> unit outcome" where
  "validateTransition from to =
     (if to \<notin> set (allowed_transitions from)
      then Inl (BadRequest (''Invalid booking state transition: '' @ status_name from
             @ '' -> '' @ status_name to))
      else Inr ())"

definition isTerminalState :: "booking_status \<Rightarrow> bool" where
  "isTerminalState s \<longleftrightarrow> s \<in> set [CONFIRMED, FAILED, EXPIRED, REFUNDED]"

section \<open>The machine the table describes\<close>

definition status_step :: "booking_status \<Rightarrow> booking_status \<Rightarrow> bool" where
  "status_step a b \<longleftrightarrow> is_ok (validateTransition a b)"

lemma status_step_iff: "status_step a b \<longleftrightarrow> b \<in> set (allowed_transitions a)"
  by (simp add: status_step_def validateTransition_def)

text \<open>A refund has been started: none of these statuses leads back to a paid booking.\<close>

definition refund_phase :: "booking_status \<Rightarrow> bool" where
  "refund_phase s \<longleftrightarrow> s \<in> {REFUND_INITIATED, REFUNDED, REFUND_FAILED}"

definition dead_phase :: "booking_status \<Rightarrow> bool" where
  "dead_phase s \<longleftrightarrow> refund_phase s \<or> s \<in> {FAILED, EXPIRED, CANCELLED}"

lemma refund_phase_step: "refund_phase a \<Longrightarrow> status_step a b \<Longrightarrow> refund_phase b"
  by (cases a) (auto simp: refund_phase_def status_step_iff)

lemma dead_phase_step: "dead_phase a \<Longrightarrow> status_step a b \<Longrightarrow> dead_phase b"
  by (cases a) (auto simp: dead_phase_def refund_phase_def status_step_iff)

interpretation refunds: invariant_system status_step refund_phase
  by unfold_locales (rule refund_phase_step)

interpretation deads: invariant_system status_step dead_phase
  by unfold_locales (rule dead_phase_step)

text \<open>How far a booking has advanced. Every transition advances, but for the retry of a
  failed refund.\<close>

fun status_rank :: "booking_status \<Rightarrow> nat" where
  "status_rank PENDING = 0"
| "status_rank LOCKED = 1"
| "status_rank PAYMENT_IN_PROGRESS = 2"
| "status_rank CONFIRMED = 3"
| "status_rank CANCELLED = 4"
| "status_rank FAILED = 4"
| "status_rank EXPIRED = 4"
| "status_rank REFUND_INITIATED = 5"
| "status_rank REFUND_FAILED = 6"
| "status_rank REFUNDED = 7"

lemma status_rank_step:
  "status_step a b \<Longrightarrow> status_rank a < status_rank b \<or> (a = REFUND_FAILED \<and> b = REFUND_INITIATED)"
  by (cases a) (auto simp: status_step_iff)

definition status_advance :: "booking_status \<Rightarrow> booking_status \<Rightarrow> bool" where
  "status_advance a b \<longleftrightarrow> status_rank (if a = REFUND_FAILED then REFUND_INITIATED else a) \<le> status_rank b"

lemma status_advance_trans: "status_advance a b \<Longrightarrow> status_advance b c \<Longrightarrow> status_advance a c"
  by (cases a; cases b; cases c) (simp_all add: status_advance_def)

interpretation advances: monotone_system status_step status_advance
proof unfold_locales
  show "status_advance s s" for s
    by (cases s) (simp_all add: status_advance_def)
  show "status_advance s t \<Longrightarrow> status_advance t u \<Longrightarrow> status_advance s u" for s t u
    by (rule status_advance_trans)
  show "status_step s t \<Longrightarrow> status_advance s t" for s t
    by (cases s) (auto simp: status_advance_def status_step_iff)
qed

lemma into_CONFIRMED: "status_step a CONFIRMED \<Longrightarrow> a = PAYMENT_IN_PROGRESS"
  by (cases a) (auto simp: status_step_iff)

lemma stuck_iff: "(\<forall>b. \<not> status_step a b) \<longleftrightarrow> a = REFUNDED"
  by (cases a) (auto simp: status_step_iff)

text \<open>
  C13. Once a booking has died (failed, expired, cancelled) or its refund has been started,
  no sequence of transitions that \<open>validateTransition\<close> accepts makes it confirmed, locked
  or payable again.
\<close>

theorem dead_bookings_stay_dead:
  assumes "run status_step a b" and "dead_phase a"
  shows "dead_phase b \<and> b \<notin> {PENDING, LOCKED, PAYMENT_IN_PROGRESS, CONFIRMED}"
  using deads.run_inv [OF assms] by (auto simp: dead_phase_def refund_phase_def)

theorem dead_bookings_stay_dead_witness:
  "dead_phase REFUND_INITIATED \<and> REFUND_INITIATED \<notin> {PENDING, LOCKED, PAYMENT_IN_PROGRESS, CONFIRMED}"
proof -
  have "run status_step FAILED REFUND_INITIATED"
    by (rule run_step [OF run_refl]) (simp add: status_step_iff)
  then show ?thesis
    by (rule dead_bookings_stay_dead) (simp add: dead_phase_def)
qed

end
