(* ===== verification/SeatUpdates.thy ===== *)
theory SeatUpdates
  imports Base
begin

text \<open>
  The socket gateway of \<open>backend/src/realtime/seat-updates.gateway.ts\<close>: clients join the room
  of an event, and every seat update is emitted to one room. The gateway's state is the list
  of memberships (client, room) and the list of emitted messages (room, message), oldest first.
\<close>

datatype unlock_reason = User | Expired | System

text \<open>The messages, with the fields the source sends: \<open>seatId\<close> or \<open>seatIds\<close>, then
  \<open>userId\<close> or \<open>reason\<close> where present, \<open>eventId\<close>, \<open>tenantSlug\<close>.\<close>

datatype seat_update =
    SEAT_LOCKED string string string string
  | SEAT_UNLOCKED string string string unlock_reason
  | SEATS_RESERVED_PENDING_PAYMENT "string list" string string
  | BOOKING_CONFIRMED "string list" string string
  | BOOKING_EXPIRED "string list" string string

record gateway =
  gw_rooms :: "(string \<times> string) list"
  gw_sent :: "(string \<times> seat_update) list"

definition buildRoom :: "string \<Rightarrow> string \<Rightarrow> string" where
  "buildRoom tenantSlug eventId = tenantSlug @ '':'' @ eventId"

definition handleJoinEvent :: "string \<Rightarrow> string \<Rightarrow> string \<Rightarrow> gateway \<Rightarrow> gateway" where
  "handleJoinEvent client tenantSlug eventId g =
     g\<lparr>gw_rooms := List.insert (client, buildRoom tenantSlug eventId) (gw_rooms g)\<rparr>"

definition emit_to :: "string \<Rightarrow> seat_update \<Rightarrow> gateway \<Rightarrow> gateway" where
  "emit_to room msg g = g\<lparr>gw_sent := gw_sent g @ [(room, msg)]\<rparr>"

definition emitSeatLocked :: "string \<Rightarrow> string \<Rightarrow> string \<Rightarrow> string \<Rightarrow> gateway \<Rightarrow> gateway" where
  "emitSeatLocked tenantSlug eventId seatId userId =
     emit_to (buildRoom tenantSlug eventId) (SEAT_LOCKED seatId userId eventId tenantSlug)"

definition emitSeatUnlocked ::
  "string \<Rightarrow> string \<Rightarrow> string \<Rightarrow> unlock_reason \<Rightarrow> gateway \<Rightarrow> gateway" where
  "emitSeatUnlocked tenantSlug eventId seatId reason =
     emit_to (buildRoom tenantSlug eventId) (SEAT_UNLOCKED seatId eventId tenantSlug reason)"

definition emitSeatsReserved :: "string \<Rightarrow> string \<Rightarrow> string list \<Rightarrow> gateway \<Rightarrow> gateway" where
  "emitSeatsReserved tenantSlug eventId seatIds =
     emit_to (buildRoom tenantSlug eventId)
       (SEATS_RESERVED_PENDING_PAYMENT seatIds eventId tenantSlug)"

definition emitBookingConfirmed :: "string \<Rightarrow> string \<Rightarrow> string list \<Rightarrow> gateway \<Rightarrow> gateway" where
  "emitBookingConfirmed tenantSlug eventId seatIds =
     emit_to (buildRoom tenantSlug eventId) (BOOKING_CONFIRMED seatIds eventId tenantSlug)"

definition emitBookingExpired :: "string \<Rightarrow> string \<Rightarrow> string list \<Rightarrow> gateway \<Rightarrow> gateway" where
  "emitBookingExpired tenantSlug eventId seatIds =
     emit_to (buildRoom tenantSlug eventId) (BOOKING_EXPIRED seatIds eventId tenantSlug)"

text \<open>What one client has been sent, given the memberships.\<close>

definition delivered :: "string \<Rightarrow> gateway \<Rightarrow> seat_update list" where
  "delivered client g =
     map snd (filter (\<lambda>(room, _). (client, room) \<in> set (gw_rooms g)) (gw_sent g))"

fun update_scope :: "seat_update \<Rightarrow> string \<times> string" where
  "update_scope (SEAT_LOCKED _ _ ev tn) = (tn, ev)"
| "update_scope (SEAT_UNLOCKED _ ev tn _) = (tn, ev)"
| "update_scope (SEATS_RESERVED_PENDING_PAYMENT _ ev tn) = (tn, ev)"
| "update_scope (BOOKING_CONFIRMED _ ev tn) = (tn, ev)"
| "update_scope (BOOKING_EXPIRED _ ev tn) = (tn, ev)"

text \<open>Every message travels in the room of the tenant and event it names.\<close>

definition rooms_match :: "gateway \<Rightarrow> bool" where
  "rooms_match g \<longleftrightarrow>
     (\<forall>(room, m) \<in> set (gw_sent g). room = buildRoom (fst (update_scope m)) (snd (update_scope m)))"

lemmas emit_defs = emitSeatLocked_def emitSeatUnlocked_def emitSeatsReserved_def
  emitBookingConfirmed_def emitBookingExpired_def

lemma gw_rooms_emit [simp]:
  "gw_rooms (emitSeatLocked t e s u g) = gw_rooms g"
  "gw_rooms (emitSeatUnlocked t e s r g) = gw_rooms g"
  "gw_rooms (emitSeatsReserved t e ss g) = gw_rooms g"
  "gw_rooms (emitBookingConfirmed t e ss g) = gw_rooms g"
  "gw_rooms (emitBookingExpired t e ss g) = gw_rooms g"
  by (simp_all add: emit_defs emit_to_def)

lemma rooms_match_emit [simp, invariant_intros]:
  "rooms_match (emitSeatLocked t e s u g) \<longleftrightarrow> rooms_match g"
  "rooms_match (emitSeatUnlocked t e s r g) \<longleftrightarrow> rooms_match g"
  "rooms_match (emitSeatsReserved t e ss g) \<longleftrightarrow> rooms_match g"
  "rooms_match (emitBookingConfirmed t e ss g) \<longleftrightarrow> rooms_match g"
  "rooms_match (emitBookingExpired t e ss g) \<longleftrightarrow> rooms_match g"
  by (auto simp: emit_defs emit_to_def rooms_match_def)

lemma rooms_match_join [simp]: "rooms_match (handleJoinEvent c t e g) = rooms_match g"
  by (simp add: handleJoinEvent_def rooms_match_def)

section \<open>Names joined with a colon\<close>

text \<open>Rooms and lock keys join their parts with \<open>:\<close>. The parts can be read back when all
  but the last hold no colon.\<close>

lemma colon_join_inject:
  assumes "CHR '':'' \<notin> set a" and "CHR '':'' \<notin> set a'" and "a @ CHR '':'' # b = a' @ CHR '':'' # b'"
  shows "a = a' \<and> b = b'"
  using assms
proof (induction a arbitrary: a')
  case Nil
  then show ?case by (cases a') auto
next
  case (Cons x a)
  then show ?case by (cases a') auto
qed

lemma buildRoom_inject:
  assumes "CHR '':'' \<notin> set t" and "CHR '':'' \<notin> set t'" and "buildRoom t e = buildRoom t' e'"
  shows "t = t' \<and> e = e'"
  using colon_join_inject [of t t' e e'] assms by (simp add: buildRoom_def)

lemma buildRoom_collision: "buildRoom ''a:b'' ''c'' = buildRoom ''a'' ''b:c''"
  by (simp add: buildRoom_def)

lemma delivered_scope:
  assumes "rooms_match g" and "m \<in> set (delivered c g)"
  obtains t e where "update_scope m = (t, e)" and "(c, buildRoom t e) \<in> set (gw_rooms g)"
  using assms by (force simp: delivered_def rooms_match_def)

end
