(* ===== verification/SeatLocks.thy ===== *)
theory SeatLocks
  imports SeatUpdates "HOL-Library.AList"
begin

text \<open>
  The seat locks of \<open>backend/src/seat-locks/seat-locks.service.ts\<close>. A lock is a Redis key with
  an expiry time; the Redis commands the service issues (\<open>SET PX NX\<close>, \<open>GET\<close>, \<open>DEL\<close>,
  \<open>PTTL\<close>, \<open>KEYS\<close>, \<open>MGET\<close>) are written out with their documented meaning on an association
  list of keys. The payload is stored as JSON and parsed back; the model keeps the record.
  Times are milliseconds; each command that reads the clock takes the time at which it runs.
  The pattern matcher of \<open>KEYS\<close> is a parameter.
\<close>

record SeatLockPayload =
  lp_tenantSlug :: string
  lp_eventId :: string
  lp_seatId :: string
  lp_userId :: string
  lp_token :: string
  lp_lockedAt :: int

record SeatLockExpiryJobData =
  job_tenantSlug :: string
  job_eventId :: string
  job_seatId :: string
  job_token :: string

section \<open>The Redis commands\<close>

record redis_entry =
  re_value :: SeatLockPayload
  re_expireAt :: int

type_synonym redis = "(string \<times> redis_entry) list"

definition redis_live :: "int \<Rightarrow> redis \<Rightarrow> string \<Rightarrow> redis_entry option" where
  "redis_live now r k = (case map_of r k of None \<Rightarrow> None
     | Some e \<Rightarrow> if now < re_expireAt e then Some e else None)"

definition redis_get :: "int \<Rightarrow> redis \<Rightarrow> string \<Rightarrow> SeatLockPayload option" where
  "redis_get now r k = map_option re_value (redis_live now r k)"

definition redis_set_px_nx ::
  "int \<Rightarrow> redis \<Rightarrow> string \<Rightarrow> SeatLockPayload \<Rightarrow> int \<Rightarrow> redis option" where
  "redis_set_px_nx now r k v px = (case redis_live now r k of
     None \<Rightarrow> Some (AList.update k \<lparr>re_value = v, re_expireAt = now + px\<rparr> r)
   | Some _ \<Rightarrow> None)"

definition redis_del :: "redis \<Rightarrow> string \<Rightarrow> redis" where
  "redis_del r k = AList.delete k r"

definition redis_pttl :: "int \<Rightarrow> redis \<Rightarrow> string \<Rightarrow> int" where
  "redis_pttl now r k = (case redis_live now r k of None \<Rightarrow> - 2 | Some e \<Rightarrow> re_expireAt e - now)"

definition redis_keys :: "int \<Rightarrow> redis \<Rightarrow> (string \<Rightarrow> bool) \<Rightarrow> string list" where
  "redis_keys now r match = filter (\<lambda>k. match k \<and> redis_live now r k \<noteq> None) (remdups (map fst r))"

section \<open>The service\<close>

record queued_job =
  qj_jobId :: string
  qj_delay :: int
  qj_data :: SeatLockExpiryJobData

record lock_state =
  ls_redis :: redis
  ls_queue :: "queued_job list"
  ls_gateway :: gateway

record lock_reply =
  lr_seatId :: string
  lr_eventId :: string
  lr_expiresInSeconds :: int

definition getLockKey :: "string \<Rightarrow> string \<Rightarrow> string \<Rightarrow> string" where
  "getLockKey tenantSlug eventId seatId =
     ''seat-lock:'' @ tenantSlug @ '':'' @ eventId @ '':'' @ seatId"

text \<open>\<open>lockSeat\<close>; Redis refuses a non-positive expiry, so \<open>set\<close> rejects there.\<close>

definition lockSeat ::
  "int \<Rightarrow> int \<Rightarrow> string \<Rightarrow> string \<Rightarrow> string \<Rightarrow> string \<Rightarrow> string \<Rightarrow> lock_state \<Rightarrow>
   lock_state \<times> lock_reply outcome" where
  "lockSeat ttlSeconds now token tenantSlug eventId seatId userId s =
     (let key = getLockKey tenantSlug eventId seatId;
          payload = \<lparr>lp_tenantSlug = tenantSlug, lp_eventId = eventId, lp_seatId = seatId,
                     lp_userId = userId, lp_token = token, lp_lockedAt = now\<rparr>
      in if ttlSeconds * 1000 \<le> 0
         then (s, Inl (Internal ''ERR invalid expire time in 'set' command''))
         else case redis_set_px_nx now (ls_redis s) key payload (ttlSeconds * 1000) of
           None \<Rightarrow> (s, Inl (Conflict ''Seat is already locked''))
         | Some r \<Rightarrow>
             (s\<lparr>ls_redis := r,
                ls_queue := ls_queue s @
                  [\<lparr>qj_jobId = key @ '':'' @ token, qj_delay = ttlSeconds * 1000,
                    qj_data = \<lparr>job_tenantSlug = tenantSlug, job_eventId = eventId,
                               job_seatId = seatId, job_token = token\<rparr>\<rparr>],
                ls_gateway := emitSeatLocked tenantSlug eventId seatId userId (ls_gateway s)\<rparr>,
              Inr \<lparr>lr_seatId = seatId, lr_eventId = eventId, lr_expiresInSeconds = ttlSeconds\<rparr>))"

definition unlockSeat ::
  "int \<Rightarrow> string \<Rightarrow> string \<Rightarrow> string \<Rightarrow> string \<Rightarrow> bool \<Rightarrow> lock_state \<Rightarrow>
   lock_state \<times> bool outcome" where
  "unlockSeat now tenantSlug eventId seatId userId force s =
     (let key = getLockKey tenantSlug eventId seatId
      in case redis_get now (ls_redis s) key of
           None \<Rightarrow> (s, Inr False)
         | Some lock \<Rightarrow>
             if \<not> force \<and> lp_userId lock \<noteq> userId
             then (s, Inl (Forbidden ''Cannot unlock seats locked by another user''))
             else (s\<lparr>ls_redis := redis_del (ls_redis s) key,
                     ls_gateway := emitSeatUnlocked tenantSlug eventId seatId
                       (if force then System else User) (ls_gateway s)\<rparr>, Inr True))"

definition validateLocksOwned ::
  "int \<Rightarrow> string \<Rightarrow> string \<Rightarrow> string list \<Rightarrow> string \<Rightarrow> lock_state \<Rightarrow> unit outcome" where
  "validateLocksOwned now tenantSlug eventId seatIds userId s =
     (let locks = map (\<lambda>seatId. redis_get now (ls_redis s) (getLockKey tenantSlug eventId seatId)) seatIds
      in if list_ex (\<lambda>lock. case lock of None \<Rightarrow> True | Some l \<Rightarrow> lp_userId l \<noteq> userId) locks
         then Inl (Conflict ''All seats must be actively locked by the same user before booking'')
         else Inr ())"

text \<open>\<open>releaseMany\<close> starts one forced unlock per seat; distinct seats have distinct keys, so
  their order is of no consequence beyond the order of the messages.\<close>

definition releaseMany ::
  "int \<Rightarrow> string \<Rightarrow> string \<Rightarrow> string list \<Rightarrow> string \<Rightarrow> lock_state \<Rightarrow> lock_state" where
  "releaseMany now tenantSlug eventId seatIds userId s =
     fold (\<lambda>seatId s. fst (unlockSeat now tenantSlug eventId seatId userId True s)) seatIds s"

definition getLocksForEvent ::
  "(string \<Rightarrow> string \<Rightarrow> bool) \<Rightarrow> int \<Rightarrow> string \<Rightarrow> string \<Rightarrow> lock_state \<Rightarrow> SeatLockPayload list" where
  "getLocksForEvent glob now tenantSlug eventId s =
     (let keys = redis_keys now (ls_redis s)
                   (glob (''seat-lock:'' @ tenantSlug @ '':'' @ eventId @ '':*''))
      in if keys = [] then []
         else List.map_filter (redis_get now (ls_redis s)) keys)"

text \<open>\<open>handleExpiryJob\<close> reads the lock at one time and its remaining life at a later one.\<close>

definition handleExpiryJob ::
  "int \<Rightarrow> int \<Rightarrow> SeatLockExpiryJobData \<Rightarrow> lock_state \<Rightarrow> lock_state" where
  "handleExpiryJob t_get t_pttl data s =
     (let key = getLockKey (job_tenantSlug data) (job_eventId data) (job_seatId data);
          unlocked = emitSeatUnlocked (job_tenantSlug data) (job_eventId data) (job_seatId data) Expired
      in case redis_get t_get (ls_redis s) key of
           None \<Rightarrow> s\<lparr>ls_gateway := unlocked (ls_gateway s)\<rparr>
         | Some lock \<Rightarrow>
             if lp_token lock = job_token data \<and> redis_pttl t_pttl (ls_redis s) key \<le> 0
             then s\<lparr>ls_redis := redis_del (ls_redis s) key,
                    ls_gateway := unlocked (ls_gateway s)\<rparr>
             else s)"

definition lock_owner :: "int \<Rightarrow> string \<Rightarrow> string \<Rightarrow> string \<Rightarrow> lock_state \<Rightarrow> string option" where
  "lock_owner now tenantSlug eventId seatId s =
     map_option lp_userId (redis_get now (ls_redis s) (getLockKey tenantSlug eventId seatId))"

section \<open>Keys\<close>

lemma getLockKey_seat [simp]: "getLockKey tn ev x = getLockKey tn ev y \<longleftrightarrow> x = y"
  by (simp add: getLockKey_def)

lemma getLockKey_inject:
  assumes "CHR '':'' \<notin> set tn" and "CHR '':'' \<notin> set tn'"
    and "CHR '':'' \<notin> set ev" and "CHR '':'' \<notin> set ev'"
    and "getLockKey tn ev x = getLockKey tn' ev' x'"
  shows "tn = tn' \<and> ev = ev' \<and> x = x'"
proof -
  from assms(5) have "tn @ CHR '':'' # (ev @ CHR '':'' # x) = tn' @ CHR '':'' # (ev' @ CHR '':'' # x')"
    by (simp add: getLockKey_def)
  with assms(1,2) have "tn = tn'" and "ev @ CHR '':'' # x = ev' @ CHR '':'' # x'"
    using colon_join_inject by blast+
  with assms(3,4) colon_join_inject [of ev ev' x x'] show ?thesis by simp
qed

lemma getLockKey_collision: "getLockKey ''t'' ''e:1'' ''2'' = getLockKey ''t'' ''e'' ''1:2''"
  by (simp add: getLockKey_def)

section \<open>What each command does to one key\<close>

lemma redis_live_update:
  "redis_live now (AList.update k e r) k' =
     (if k' = k then (if now < re_expireAt e then Some e else None) else redis_live now r k')"
  by (simp add: redis_live_def update_conv')

lemma redis_live_del: "redis_live now (redis_del r k) k' = (if k' = k then None else redis_live now r k')"
  by (simp add: redis_live_def redis_del_def delete_conv')

lemma redis_get_del: "redis_get now (redis_del r k) k' = (if k' = k then None else redis_get now r k')"
  by (simp add: redis_get_def redis_live_del)

lemma set_redis_keys: "k \<in> set (redis_keys now r m) \<longleftrightarrow> m k \<and> redis_live now r k \<noteq> None"
proof -
  have "redis_live now r k \<noteq> None \<Longrightarrow> k \<in> fst ` set r"
    by (auto simp: redis_live_def split: option.splits dest!: map_of_SomeD) force
  then show ?thesis by (auto simp: redis_keys_def)
qed

lemma redis_mget_keys:
  "l \<in> set (if redis_keys now r m = [] then []
             else List.map_filter (redis_get now r) (redis_keys now r m)) \<longleftrightarrow>
     (\<exists>k. m k \<and> redis_get now r k = Some l)"
proof -
  have "l \<in> set (if redis_keys now r m = [] then []
             else List.map_filter (redis_get now r) (redis_keys now r m)) \<longleftrightarrow>
     (\<exists>k \<in> set (redis_keys now r m). redis_get now r k = Some l)"
    by (simp add: set_map_filter_option)
  then show ?thesis by (auto simp: set_redis_keys redis_get_def)
qed

lemma redis_get_later: "redis_get now r k = None \<Longrightarrow> now \<le> now' \<Longrightarrow> redis_get now' r k = None"
  by (auto simp: redis_get_def redis_live_def split: option.splits if_splits)

lemma redis_pttl_live:
  "redis_live now r k = Some e \<Longrightarrow> redis_pttl now r k = re_expireAt e - now \<and> 0 < redis_pttl now r k"
  by (auto simp: redis_pttl_def redis_live_def split: option.splits if_splits)

lemmas redis_simps [store_simps] = redis_live_update redis_live_del redis_get_del

section \<open>Every operation, branch by branch\<close>

lemma lockSeat_free:
  assumes "0 < ttl" and "lock_owner now tn ev x s = None"
  shows "is_ok (snd (lockSeat ttl now token tn ev x u s))"
    and "lock_owner now' tn ev x (fst (lockSeat ttl now token tn ev x u s)) =
           (if now' < now + ttl * 1000 then Some u else None)"
  using assms
  by (simp_all add: lockSeat_def lock_owner_def redis_set_px_nx_def redis_get_def
      redis_live_update Let_def)

lemma lockSeat_held:
  assumes "0 < ttl" and "lock_owner now tn ev x s = Some v"
  shows "lockSeat ttl now token tn ev x u s = (s, Inl (Conflict ''Seat is already locked''))"
  using assms
  by (auto simp: lockSeat_def lock_owner_def redis_set_px_nx_def redis_get_def Let_def)

lemma lockSeat_other_key:
  "getLockKey tn ev x \<noteq> k \<Longrightarrow>
   redis_live now' (ls_redis (fst (lockSeat ttl now token tn ev x u s))) k = redis_live now' (ls_redis s) k"
  by (auto simp: lockSeat_def redis_set_px_nx_def redis_live_update Let_def split: option.splits)

lemma lockSeat_ok_iff:
  "is_ok (snd (lockSeat ttl now token tn ev x u s)) \<longleftrightarrow> 0 < ttl \<and> lock_owner now tn ev x s = None"
proof (cases "0 < ttl")
  case True
  then show ?thesis
    using lockSeat_free(1) [of ttl now tn ev x s] lockSeat_held [of ttl now tn ev x s]
    by (cases "lock_owner now tn ev x s") auto
next
  case False
  then show ?thesis by (simp add: lockSeat_def Let_def)
qed

lemma unlockSeat_none:
  "lock_owner now tn ev x s = None \<Longrightarrow> unlockSeat now tn ev x u f s = (s, Inr False)"
  by (simp add: unlockSeat_def lock_owner_def)

lemma unlockSeat_foreign:
  "lock_owner now tn ev x s = Some v \<Longrightarrow> v \<noteq> u \<Longrightarrow>
   unlockSeat now tn ev x u False s =
     (s, Inl (Forbidden ''Cannot unlock seats locked by another user''))"
  by (auto simp: unlockSeat_def lock_owner_def)

lemma unlockSeat_frees:
  assumes "lock_owner now tn ev x s = Some v" and "f \<or> v = u"
  shows "snd (unlockSeat now tn ev x u f s) = Inr True"
    and "lock_owner now' tn ev x (fst (unlockSeat now tn ev x u f s)) = None"
  using assms by (auto simp: unlockSeat_def lock_owner_def redis_get_del Let_def)

lemma unlockSeat_other_key:
  "getLockKey tn ev x \<noteq> k \<Longrightarrow>
   redis_live now' (ls_redis (fst (unlockSeat now tn ev x u f s))) k = redis_live now' (ls_redis s) k"
  by (auto simp: unlockSeat_def redis_live_del Let_def split: option.splits)

lemma unlockSeat_owner_other:
  "y \<noteq> x \<Longrightarrow> lock_owner now' tn ev y (fst (unlockSeat now tn ev x u f s)) = lock_owner now' tn ev y s"
  by (simp add: lock_owner_def redis_get_def unlockSeat_other_key)

lemma unlockSeat_forced:
  "now \<le> now' \<Longrightarrow> lock_owner now' tn ev x (fst (unlockSeat now tn ev x u True s)) = None"
proof (cases "lock_owner now tn ev x s")
  case None
  then have "redis_get now (ls_redis s) (getLockKey tn ev x) = None" by (simp add: lock_owner_def)
  moreover assume "now \<le> now'"
  ultimately show ?thesis
    using None by (simp add: unlockSeat_none lock_owner_def redis_get_later)
next
  case (Some v)
  then show ?thesis by (simp add: unlockSeat_frees)
qed

lemma validateLocksOwned_iff:
  "is_ok (validateLocksOwned now tn ev seats u s) \<longleftrightarrow>
     (\<forall>x \<in> set seats. lock_owner now tn ev x s = Some u)"
  by (auto simp: validateLocksOwned_def lock_owner_def list_ex_iff Let_def split: option.splits)

lemma releaseMany_owner:
  "now \<le> now' \<Longrightarrow>
   lock_owner now' tn ev x (releaseMany now tn ev seats u s) =
     (if x \<in> set seats then None else lock_owner now' tn ev x s)"
proof (induction seats arbitrary: s)
  case Nil
  then show ?case by (simp add: releaseMany_def)
next
  case (Cons y seats)
  let ?s = "fst (unlockSeat now tn ev y u True s)"
  have "releaseMany now tn ev (y # seats) u s = releaseMany now tn ev seats u ?s"
    by (simp add: releaseMany_def)
  with Cons show ?case
    by (auto simp: unlockSeat_forced unlockSeat_owner_other)
qed

section \<open>The contract the booking service relies on\<close>

text \<open>A provider of seat locks for one event: who owns a seat at a time, the ownership check
  and the release of a list of seats.\<close>

locale lock_provider =
  fixes owner :: "int \<Rightarrow> string \<Rightarrow> 'st \<Rightarrow> string option"
    and validate :: "int \<Rightarrow> string list \<Rightarrow> string \<Rightarrow> 'st \<Rightarrow> unit outcome"
    and release :: "int \<Rightarrow> string list \<Rightarrow> string \<Rightarrow> 'st \<Rightarrow> 'st"
  assumes validate_ok: "is_ok (validate t seats u s) \<longleftrightarrow> (\<forall>x \<in> set seats. owner t x s = Some u)"
    and release_owner: "t \<le> t' \<Longrightarrow>
      owner t' x (release t seats u s) = (if x \<in> set seats then None else owner t' x s)"
begin

lemma validated_users_disjoint:
  assumes "is_ok (validate t seats u s)" and "is_ok (validate t seats' u' s)" and "u \<noteq> u'"
  shows "set seats \<inter> set seats' = {}"
  using assms by (force simp: validate_ok)

lemma released_not_validated:
  assumes "t \<le> t'" and "set seats \<inter> set seats' \<noteq> {}"
  shows "\<not> is_ok (validate t' seats' u' (release t seats u s))"
  using assms by (force simp: validate_ok release_owner)

lemma release_keeps_validated:
  assumes "t \<le> t'" and "set seats \<inter> set seats' = {}"
  shows "is_ok (validate t' seats' u' (release t seats u s)) \<longleftrightarrow> is_ok (validate t' seats' u' s)"
  using assms by (auto simp: validate_ok release_owner)

end

interpretation seat_locks: lock_provider
  "\<lambda>t x s. lock_owner t tn ev x s"
  "\<lambda>t seats u s. validateLocksOwned t tn ev seats u s"
  "\<lambda>t seats u s. releaseMany t tn ev seats u s" for tn ev
  by unfold_locales (auto simp: validateLocksOwned_iff releaseMany_owner)

section \<open>The keys name the payloads\<close>

text \<open>Every stored entry sits under the key built from its payload, whose tenant and event
  hold no colon (slugs and ids never do), and no key is stored twice.\<close>

definition entry_wf :: "string \<times> redis_entry \<Rightarrow> bool" where
  "entry_wf ke \<longleftrightarrow> (let v = re_value (snd ke) in
     fst ke = getLockKey (lp_tenantSlug v) (lp_eventId v) (lp_seatId v)
     \<and> CHR '':'' \<notin> set (lp_tenantSlug v) \<and> CHR '':'' \<notin> set (lp_eventId v))"

definition locks_wf :: "lock_state \<Rightarrow> bool" where
  "locks_wf s \<longleftrightarrow> distinct (map fst (ls_redis s)) \<and> (\<forall>ke \<in> set (ls_redis s). entry_wf ke)"

lemma set_update_subset: "set (AList.update k v r) \<subseteq> insert (k, v) (set r)"
  by (induction r) auto

lemma distinct_update: "distinct (map fst r) \<Longrightarrow> distinct (map fst (AList.update k v r))"
  by (simp add: distinct_update)

lemma locks_wf_lockSeat [invariant_intros]:
  assumes "locks_wf s" and "CHR '':'' \<notin> set tn" and "CHR '':'' \<notin> set ev"
  shows "locks_wf (fst (lockSeat ttl now token tn ev x u s))"
proof -
  let ?e = "\<lparr>re_value = \<lparr>lp_tenantSlug = tn, lp_eventId = ev, lp_seatId = x, lp_userId = u,
     lp_token = token, lp_lockedAt = now\<rparr>, re_expireAt = now + ttl * 1000\<rparr>"
  have "entry_wf (getLockKey tn ev x, ?e)" using assms(2,3) by (simp add: entry_wf_def)
  then have "distinct (map fst (AList.update (getLockKey tn ev x) ?e (ls_redis s))) \<and>
      (\<forall>ke \<in> set (AList.update (getLockKey tn ev x) ?e (ls_redis s)). entry_wf ke)"
    using assms(1) set_update_subset [of "getLockKey tn ev x" ?e "ls_redis s"]
    by (auto simp: locks_wf_def distinct_update)
  then show ?thesis using assms(1)
    by (auto simp: lockSeat_def redis_set_px_nx_def locks_wf_def Let_def split: option.splits)
qed

lemma locks_wf_del:
  "locks_wf s \<Longrightarrow> locks_wf (s\<lparr>ls_redis := redis_del (ls_redis s) k\<rparr>)"
  by (auto simp: locks_wf_def redis_del_def AList.delete_eq distinct_map_filter)

lemma locks_wf_gateway [simp]: "locks_wf (s\<lparr>ls_gateway := g\<rparr>) \<longleftrightarrow> locks_wf s"
  by (simp add: locks_wf_def)

lemma locks_wf_unlockSeat [invariant_intros]:
  "locks_wf s \<Longrightarrow> locks_wf (fst (unlockSeat now tn ev x u f s))"
  by (auto simp: unlockSeat_def locks_wf_del Let_def split: option.splits)

lemma locks_wf_releaseMany [invariant_intros]:
  "locks_wf s \<Longrightarrow> locks_wf (releaseMany now tn ev xs u s)"
  by (induction xs arbitrary: s) (auto simp: releaseMany_def locks_wf_unlockSeat)

lemma locks_wf_handleExpiryJob [invariant_intros]:
  "locks_wf s \<Longrightarrow> locks_wf (handleExpiryJob t t' d s)"
  by (auto simp: handleExpiryJob_def locks_wf_del Let_def split: option.splits)

text \<open>The pattern matcher agrees with prefix matching on patterns that end in their only
  star.\<close>

definition glob_ok :: "(string \<Rightarrow> string \<Rightarrow> bool) \<Rightarrow> bool" where
  "glob_ok glob \<longleftrightarrow> (\<forall>p k. set p \<inter> set ''*?[]^'' = {} \<and> CHR 0x5C \<notin> set p \<longrightarrow>
     glob (p @ ''*'') k = prefix p k)"

definition plain_name :: "string \<Rightarrow> bool" where
  "plain_name p \<longleftrightarrow> set p \<inter> set ''*?[]^:'' = {} \<and> CHR 0x5C \<notin> set p"

lemma locks_for_event:
  assumes wf: "locks_wf s" and glob: "glob_ok glob"
    and plain: "plain_name tn" "plain_name ev"
  shows "l \<in> set (getLocksForEvent glob now tn ev s) \<longleftrightarrow>
    (\<exists>x. redis_get now (ls_redis s) (getLockKey tn ev x) = Some l \<and> lp_seatId l = x)"
proof -
  let ?p = "''seat-lock:'' @ tn @ '':'' @ ev @ '':''"
  have "set ?p \<inter> set ''*?[]^'' = {}" "CHR 0x5C \<notin> set ?p"
    using plain by (auto simp: plain_name_def)
  then have "glob (?p @ ''*'') k = prefix ?p k" for k
    using glob unfolding glob_ok_def by blast
  then have g: "glob (''seat-lock:'' @ tn @ '':'' @ ev @ '':*'') k = prefix ?p k" for k
    by simp
  have key: "k = getLockKey tn ev (lp_seatId (re_value e))"
    if "(k, e) \<in> set (ls_redis s)" and "prefix ?p k" for k e
  proof -
    let ?v = "re_value e"
    from wf that(1) have w: "entry_wf (k, e)" by (auto simp: locks_wf_def)
    from that(2) obtain x where "k = getLockKey tn ev x"
      by (auto simp: prefix_def getLockKey_def)
    with w have "getLockKey tn ev x = getLockKey (lp_tenantSlug ?v) (lp_eventId ?v) (lp_seatId ?v)"
      by (simp add: entry_wf_def Let_def)
    with w plain have "tn = lp_tenantSlug ?v \<and> ev = lp_eventId ?v"
      using getLockKey_inject [of tn "lp_tenantSlug ?v" ev "lp_eventId ?v"]
      by (auto simp: entry_wf_def plain_name_def Let_def)
    with w show ?thesis by (simp add: entry_wf_def Let_def)
  qed
  have get: "redis_get now (ls_redis s) k = Some l \<Longrightarrow> \<exists>e. (k, e) \<in> set (ls_redis s) \<and> re_value e = l" for k
    by (auto simp: redis_get_def redis_live_def split: option.splits if_splits dest: map_of_SomeD)
  have pk: "prefix ?p (getLockKey tn ev x)" for x by (simp add: getLockKey_def prefix_def)
  have mem: "l \<in> set (getLocksForEvent glob now tn ev s) \<longleftrightarrow>
      (\<exists>k. prefix ?p k \<and> redis_get now (ls_redis s) k = Some l)"
    unfolding getLocksForEvent_def Let_def redis_mget_keys g ..
  show ?thesis
  proof
    assume "l \<in> set (getLocksForEvent glob now tn ev s)"
    then obtain k where "prefix ?p k" and k: "redis_get now (ls_redis s) k = Some l" using mem by blast
    with get key have "k = getLockKey tn ev (lp_seatId l)" by blast
    with k show "\<exists>x. redis_get now (ls_redis s) (getLockKey tn ev x) = Some l \<and> lp_seatId l = x" by auto
  next
    assume "\<exists>x. redis_get now (ls_redis s) (getLockKey tn ev x) = Some l \<and> lp_seatId l = x"
    with pk mem show "l \<in> set (getLocksForEvent glob now tn ev s)" by blast
  qed
qed

section \<open>A lock is kept until it expires or its owner gives it up\<close>

text \<open>The requests that reach the service: \<open>POST\<close> and \<open>DELETE /seat-locks\<close>, and the
  expiry job.\<close>

datatype lock_request =
    Lock_Request int string string string string string
  | Unlock_Request int string string string string
  | Expiry_Job int int SeatLockExpiryJobData

fun serve :: "int \<Rightarrow> lock_request \<Rightarrow> lock_state \<Rightarrow> lock_state" where
  "serve ttl (Lock_Request now token tn ev x u) s = fst (lockSeat ttl now token tn ev x u s)"
| "serve ttl (Unlock_Request now tn ev x u) s = fst (unlockSeat now tn ev x u False s)"
| "serve ttl (Expiry_Job t_get t_pttl d) s = handleExpiryJob t_get t_pttl d s"

definition serve_all :: "int \<Rightarrow> lock_request list \<Rightarrow> lock_state \<Rightarrow> lock_state" where
  "serve_all ttl = fold (serve ttl)"

text \<open>The request is served before \<open>deadline\<close> and is not user \<open>u\<close>'s own unlock of key \<open>k\<close>.\<close>

fun harmless :: "int \<Rightarrow> string \<Rightarrow> string \<Rightarrow> lock_request \<Rightarrow> bool" where
  "harmless deadline k u (Lock_Request now _ _ _ _ _) \<longleftrightarrow> now < deadline"
| "harmless deadline k u (Unlock_Request now tn ev x v) \<longleftrightarrow>
     now < deadline \<and> (getLockKey tn ev x = k \<longrightarrow> v \<noteq> u)"
| "harmless deadline k u (Expiry_Job t_get t_pttl _) \<longleftrightarrow> t_get < deadline \<and> t_pttl < deadline"

lemma map_of_redis_del: "map_of (redis_del r k) k' = (if k' = k then None else map_of r k')"
  by (simp add: redis_del_def delete_conv')

lemma serve_keeps_entry:
  assumes e: "map_of (ls_redis s) k = Some e" and h: "harmless (re_expireAt e) k (lp_userId (re_value e)) q"
  shows "map_of (ls_redis (serve ttl q s)) k = Some e"
proof (cases q)
  case (Lock_Request now token tn ev x u)
  with e h show ?thesis
    by (auto simp: lockSeat_def redis_set_px_nx_def redis_live_def update_conv' Let_def
        split: option.splits if_splits)
next
  case (Unlock_Request now tn ev x u)
  with e h show ?thesis
    by (auto simp: unlockSeat_def redis_get_def redis_live_def map_of_redis_del Let_def
        split: option.splits if_splits)
next
  case (Expiry_Job t_get t_pttl d)
  with e h show ?thesis
    by (auto simp: handleExpiryJob_def redis_get_def redis_live_def redis_pttl_def
        map_of_redis_del Let_def split: option.splits if_splits)
qed

lemma serve_all_keeps_entry:
  assumes "map_of (ls_redis s) k = Some e"
    and "\<forall>q \<in> set qs. harmless (re_expireAt e) k (lp_userId (re_value e)) q"
  shows "map_of (ls_redis (serve_all ttl qs s)) k = Some e"
  using assms
proof (induction qs arbitrary: s)
  case Nil
  then show ?case by (simp add: serve_all_def)
next
  case (Cons q qs)
  from Cons.prems have "map_of (ls_redis (serve ttl q s)) k = Some e"
    by (simp add: serve_keeps_entry)
  with Cons show ?case by (simp add: serve_all_def)
qed

lemma lockSeat_entry:
  assumes "is_ok (snd (lockSeat ttl t token tn ev x u s))"
  shows "map_of (ls_redis (fst (lockSeat ttl t token tn ev x u s))) (getLockKey tn ev x) =
    Some \<lparr>re_value = \<lparr>lp_tenantSlug = tn, lp_eventId = ev, lp_seatId = x, lp_userId = u,
                       lp_token = token, lp_lockedAt = t\<rparr>, re_expireAt = t + ttl * 1000\<rparr>"
  using assms
  by (auto simp: lockSeat_def redis_set_px_nx_def update_conv' Let_def split: option.splits if_splits)


definition empty_locks :: lock_state where
  "empty_locks = \<lparr>ls_redis = [], ls_queue = [], ls_gateway = \<lparr>gw_rooms = [], gw_sent = []\<rparr>\<rparr>"

lemma empty_locks_no_owner [simp]: "lock_owner now tn ev x empty_locks = None"
  by (simp add: empty_locks_def lock_owner_def redis_get_def redis_live_def)


text \<open>
  An expiry job only ever removes the lock it was queued for: a later lock of the same seat
  has another token, and the job leaves the store as it is.
\<close>

theorem expiry_job_spares_newer_lock:
  assumes "redis_get t_get (ls_redis s)
      (getLockKey (job_tenantSlug d) (job_eventId d) (job_seatId d)) = Some lock"
    and "lp_token lock \<noteq> job_token d"
  shows "handleExpiryJob t_get t_pttl d s = s"
  using assms by (simp add: handleExpiryJob_def)

theorem expiry_job_spares_newer_lock_witness:
  "handleExpiryJob 6000 6000 \<lparr>job_tenantSlug = ''t'', job_eventId = ''e'', job_seatId = ''s1'', job_token = ''k1''\<rparr>
     (fst (lockSeat 5 5500 ''k2'' ''t'' ''e'' ''s1'' ''bob'' empty_locks)) =
   fst (lockSeat 5 5500 ''k2'' ''t'' ''e'' ''s1'' ''bob'' empty_locks)"
proof -
  let ?s = "fst (lockSeat 5 5500 ''k2'' ''t'' ''e'' ''s1'' ''bob'' empty_locks)"
  let ?d = "\<lparr>job_tenantSlug = ''t'', job_eventId = ''e'', job_seatId = ''s1'', job_token = ''k1''\<rparr>"
  have "redis_get 6000 (ls_redis ?s) (getLockKey (job_tenantSlug ?d) (job_eventId ?d) (job_seatId ?d)) =
    Some \<lparr>lp_tenantSlug = ''t'', lp_eventId = ''e'', lp_seatId = ''s1'', lp_userId = ''bob'',
           lp_token = ''k2'', lp_lockedAt = 5500\<rparr>"
    by (simp add: lockSeat_def redis_set_px_nx_def redis_get_def redis_live_def empty_locks_def
        update_conv' Let_def)
  then show ?thesis by (rule expiry_job_spares_newer_lock) simp
qed

text \<open>
  \<open>releaseMany\<close> unlocks with \<open>force\<close>, so it also drops a lock another user has taken on the
  seat after the first one expired.
\<close>

lemma releaseMany_drops_foreign_lock:
  "lock_owner 5600 ''t'' ''e'' ''s1''
     (fst (lockSeat 5 5500 ''k2'' ''t'' ''e'' ''s1'' ''bob'' empty_locks)) = Some ''bob''
   \<and> lock_owner 5600 ''t'' ''e'' ''s1''
     (releaseMany 5600 ''t'' ''e'' [''s1''] ''ann''
        (fst (lockSeat 5 5500 ''k2'' ''t'' ''e'' ''s1'' ''bob'' empty_locks))) = None"
  by (simp add: releaseMany_owner lockSeat_free)

end
