(* ===== verification/Store.thy ===== *)
theory Store
  imports BookingStates SeatLocks Texts
begin

text \<open>
  The data model of the running service: the tables of \<open>backend/prisma/schema.prisma\<close> that
  the booking flow reads and writes, the seat locks with their gateway, and the queue of
  booking expiry jobs. A foreign key is followed by looking its row up. Dates are
  milliseconds. The columns no operation of the flow reads or writes (\<open>updatedAt\<close>, row ids
  of \<open>BookingSeat\<close> and of the webhook events) are left out.
\<close>

record tenant_row =
  tn_id :: string
  tn_slug :: string
  tn_name :: string

record user_row =
  us_id :: string
  us_email :: string
  us_name :: string
  us_passwordHash :: string

record event_row =
  ev_id :: string
  ev_tenantId :: string
  ev_name :: string
  ev_startsAt :: int
  ev_totalSeats :: int
  ev_createdAt :: int

record seat_row =
  st_id :: string
  st_eventId :: string
  st_seatNumber :: int

record booking_row =
  bk_id :: string
  bk_tenantId :: string
  bk_userId :: string
  bk_eventId :: string
  bk_status :: booking_status
  bk_amount :: int
  bk_currency :: string
  bk_razorpayOrderId :: "string option"
  bk_razorpayPaymentId :: "string option"
  bk_razorpaySignature :: "string option"
  bk_ticketCode :: "string option"
  bk_ticketQrData :: "string option"
  bk_expiresAt :: int
  bk_createdAt :: int

record booking_seat_row =
  bs_bookingId :: string
  bs_seatId :: string

text \<open>The parts of a webhook body the handlers read: \<open>event\<close>, and
  \<open>payload.payment.entity\<close> with its \<open>id\<close> and \<open>order_id\<close>.\<close>

record payment_entity =
  pe_id :: "string option"
  pe_order_id :: "string option"

record webhook_body =
  wb_event :: "string option"
  wb_entity :: "payment_entity option"

record webhook_event_row =
  we_eventId :: string
  we_eventType :: string
  we_paymentId :: "string option"
  we_orderId :: "string option"
  we_payload :: webhook_body

record expiry_job =
  xj_jobId :: string
  xj_delay :: int
  xj_bookingId :: string

record store =
  db_tenants :: "tenant_row list"
  db_users :: "user_row list"
  db_events :: "event_row list"
  db_seats :: "seat_row list"
  db_bookings :: "booking_row list"
  db_bookingSeats :: "booking_seat_row list"
  db_webhookEvents :: "webhook_event_row list"
  db_locks :: lock_state
  db_expiryQueue :: "expiry_job list"

definition empty_store :: store where
  "empty_store = \<lparr>db_tenants = [], db_users = [], db_events = [], db_seats = [], db_bookings = [],
     db_bookingSeats = [], db_webhookEvents = [], db_locks = empty_locks, db_expiryQueue = []\<rparr>"

definition emit_update :: "(gateway \<Rightarrow> gateway) \<Rightarrow> store \<Rightarrow> store" where
  "emit_update f s = s\<lparr>db_locks := (db_locks s)\<lparr>ls_gateway := f (ls_gateway (db_locks s))\<rparr>\<rparr>"

definition find_booking :: "string \<Rightarrow> store \<Rightarrow> booking_row option" where
  "find_booking i s = find (\<lambda>b. bk_id b = i) (db_bookings s)"

definition seat_ids :: "string \<Rightarrow> booking_seat_row list \<Rightarrow> string list" where
  "seat_ids i rows = map bs_seatId (filter (\<lambda>r. bs_bookingId r = i) rows)"

definition seats_of :: "string \<Rightarrow> store \<Rightarrow> string list" where
  "seats_of i s = seat_ids i (db_bookingSeats s)"

definition slug_of :: "string \<Rightarrow> store \<Rightarrow> string" where
  "slug_of i s = (case find (\<lambda>t. tn_id t = i) (db_tenants s) of None \<Rightarrow> [] | Some t \<Rightarrow> tn_slug t)"

lemma emit_update_tables [simp]:
  "db_tenants (emit_update f s) = db_tenants s"
  "db_users (emit_update f s) = db_users s"
  "db_events (emit_update f s) = db_events s"
  "db_seats (emit_update f s) = db_seats s"
  "db_bookings (emit_update f s) = db_bookings s"
  "db_bookingSeats (emit_update f s) = db_bookingSeats s"
  "db_webhookEvents (emit_update f s) = db_webhookEvents s"
  "db_expiryQueue (emit_update f s) = db_expiryQueue s"
  by (simp_all add: emit_update_def)

lemma lock_owner_emit_update [simp]:
  "lock_owner now tn ev x (db_locks (emit_update f s)) = lock_owner now tn ev x (db_locks s)"
  by (simp add: emit_update_def lock_owner_def)

lemma in_seat_ids: "x \<in> set (seat_ids i rows) \<longleftrightarrow> \<lparr>bs_bookingId = i, bs_seatId = x\<rparr> \<in> set rows"
proof (induction rows)
  case Nil
  then show ?case by (simp add: seat_ids_def)
next
  case (Cons r rows)
  then show ?case by (cases r) (auto simp: seat_ids_def)
qed

lemma seat_ids_append [simp]: "seat_ids i (rows @ rows') = seat_ids i rows @ seat_ids i rows'"
  by (simp add: seat_ids_def)

lemma seat_ids_new [simp]:
  "seat_ids i (map (\<lambda>x. \<lparr>bs_bookingId = j, bs_seatId = x\<rparr>) xs) = (if i = j then xs else [])"
  by (induction xs) (auto simp: seat_ids_def)

lemma find_booking_in: "find_booking i s = Some b \<Longrightarrow> b \<in> set (db_bookings s) \<and> bk_id b = i"
  unfolding find_booking_def by (rule find_key_in)

text \<open>The message of a unique-constraint violation, \<open>P2002\<close>.\<close>

definition p2002 :: http_error where
  "p2002 = Internal ''Unique constraint failed''"

text \<open>A nullable unique column: no other row holds the value.\<close>

definition unique_free :: "('r \<Rightarrow> string option) \<Rightarrow> string option \<Rightarrow> 'r list \<Rightarrow> bool" where
  "unique_free col v t \<longleftrightarrow> v = None \<or> (\<forall>r \<in> set t. col r \<noteq> v)"

lemma unique_free_code [code]:
  "unique_free col v t \<longleftrightarrow> v = None \<or> list_all (\<lambda>r. col r \<noteq> v) t"
  by (simp add: unique_free_def list_all_iff)

section \<open>Well-formed stores\<close>

text \<open>What the database's unique indexes and foreign keys promise about bookings.\<close>

definition unique_column :: "('r \<Rightarrow> string option) \<Rightarrow> 'r list \<Rightarrow> bool" where
  "unique_column col t \<longleftrightarrow> distinct (filter (\<lambda>v. v \<noteq> None) (map col t))"

lemma unique_column_Cons [simp]:
  "unique_column col []"
  "unique_column col (r # t) \<longleftrightarrow> unique_free col (col r) t \<and> unique_column col t"
  by (auto simp: unique_column_def unique_free_def) (metis image_eqI)

lemma unique_free_append [simp]:
  "unique_free col v (t @ u) \<longleftrightarrow> unique_free col v t \<and> unique_free col v u"
  by (auto simp: unique_free_def)

lemma unique_free_None [simp]: "unique_free col None t"
  by (simp add: unique_free_def)

lemma unique_free_Nil [simp]: "unique_free col v []"
  by (simp add: unique_free_def)

lemma unique_column_append1:
  "unique_column col (t @ [r]) \<longleftrightarrow> unique_column col t \<and> unique_free col (col r) t"
  by (induction t) (auto simp: unique_free_def)

lemma unique_columnD:
  assumes "unique_column col t" and "r \<in> set t" and "q \<in> set t" and "col r = col q" and "col r \<noteq> None"
  shows "r = q"
  using assms by (induction t) (auto simp: unique_free_def)

text \<open>Updating the row with a key to a value no other row holds keeps the column unique.\<close>

lemma unique_column_update:
  assumes "unique_column col t" and "distinct (map key t)"
    and "\<And>r. col (f r) = v \<or> col (f r) = col r"
    and "\<forall>r \<in> set t. key r \<noteq> k \<longrightarrow> v = None \<or> col r \<noteq> v"
  shows "unique_column col (update_where (\<lambda>r. key r = k) f t)"
  using assms
proof (induction t)
  case Nil
  then show ?case by simp
next
  case (Cons x t)
  have ih: "unique_column col (update_where (\<lambda>r. key r = k) f t)" using Cons by simp
  show ?case
  proof (cases "key x = k")
    case True
    then have "update_where (\<lambda>r. key r = k) f t = t"
      using Cons.prems(2) by (intro update_where_none) (auto simp: image_iff)
    moreover have "unique_free col (col (f x)) t"
    proof -
      have "\<forall>r \<in> set t. key r \<noteq> k" using Cons.prems(2) True by (auto simp: image_iff)
      then have "unique_free col v t" using Cons.prems(4) by (auto simp: unique_free_def)
      moreover have "unique_free col (col x) t" using Cons.prems(1) by simp
      ultimately show ?thesis using Cons.prems(3) [of x] by auto
    qed
    ultimately show ?thesis using True Cons.prems(1) by simp
  next
    case False
    have "unique_free col (col x) (update_where (\<lambda>r. key r = k) f t)"
      unfolding unique_free_def
    proof (intro disjCI ballI)
      fix r assume n: "\<not> (\<forall>r \<in> set (update_where (\<lambda>r. key r = k) f t). col r \<noteq> col x)"
      then obtain q where q: "q \<in> set t" "col (if key q = k then f q else q) = col x"
        by (auto simp: in_update_where split: if_splits)
      then have "col q = col x \<or> v = col x" using Cons.prems(3) [of q] by (auto split: if_splits)
      then show "col x = None"
        using Cons.prems(1,4) q False by (auto simp: unique_free_def)
    qed
    then show ?thesis using False ih by simp
  qed
qed

end
