(* ===== verification/Accounts.thy ===== *)
theory Accounts
  imports Store
begin

text \<open>
  Registration, login, tenants and the tenant guard:
  \<open>backend/src/auth/auth.service.ts\<close>, \<open>auth/jwt.strategy.ts\<close>,
  \<open>tenants/tenants.service.ts\<close> and \<open>common/guards/tenant.guard.ts\<close>. Password hashing
  (\<open>bcrypt\<close>) and token signing (\<open>JwtService\<close>) are parameters; the salt of a hash is an argument.
\<close>

record RegisterDto =
  rd_email :: string
  rd_name :: string
  rd_password :: string

record LoginDto =
  ld_email :: string
  ld_password :: string

record jwt_claims =
  jw_sub :: string
  jw_email :: string

record public_user =
  pu_id :: string
  pu_email :: string
  pu_name :: string

definition find_user_by_email :: "string \<Rightarrow> store \<Rightarrow> user_row option" where
  "find_user_by_email e s = find (\<lambda>u. us_email u = e) (db_users s)"

definition register ::
  "(string \<Rightarrow> string) \<Rightarrow> (jwt_claims \<Rightarrow> string) \<Rightarrow> string \<Rightarrow> RegisterDto \<Rightarrow> store \<Rightarrow>
   store \<times> (public_user \<times> string) outcome" where
  "register hash sign newId dto s =
     (let email = to_lower (rd_email dto)
      in case find_user_by_email email s of
           Some _ \<Rightarrow> (s, Inl (Conflict ''Email already registered''))
         | None \<Rightarrow>
             if newId \<in> us_id ` set (db_users s) then (s, Inl p2002)
             else (s\<lparr>db_users := db_users s @
                       [\<lparr>us_id = newId, us_email = email, us_name = rd_name dto,
                         us_passwordHash = hash (rd_password dto)\<rparr>]\<rparr>,
                   Inr (\<lparr>pu_id = newId, pu_email = email, pu_name = rd_name dto\<rparr>,
                        sign \<lparr>jw_sub = newId, jw_email = email\<rparr>)))"

definition login ::
  "(string \<Rightarrow> string \<Rightarrow> bool) \<Rightarrow> (jwt_claims \<Rightarrow> string) \<Rightarrow> LoginDto \<Rightarrow> store \<Rightarrow>
   (public_user \<times> string) outcome" where
  "login compare sign dto s =
     (case find_user_by_email (to_lower (ld_email dto)) s of
        None \<Rightarrow> Inl (Unauthorized ''Invalid credentials'')
      | Some u \<Rightarrow>
          if \<not> compare (ld_password dto) (us_passwordHash u)
          then Inl (Unauthorized ''Invalid credentials'')
          else Inr (\<lparr>pu_id = us_id u, pu_email = us_email u, pu_name = us_name u\<rparr>,
                    sign \<lparr>jw_sub = us_id u, jw_email = us_email u\<rparr>))"

text \<open>\<open>JwtStrategy.validate\<close>: the request's user from the verified claims.\<close>

definition validate_claims :: "jwt_claims \<Rightarrow> string \<times> string" where
  "validate_claims payload = (jw_sub payload, jw_email payload)"

section \<open>Tenants\<close>

record CreateTenantDto =
  td_slug :: string
  td_name :: "string option"

definition find_tenant_by_slug :: "string \<Rightarrow> store \<Rightarrow> tenant_row option" where
  "find_tenant_by_slug slug s = find (\<lambda>t. tn_slug t = slug) (db_tenants s)"

definition create_tenant :: "string \<Rightarrow> CreateTenantDto \<Rightarrow> store \<Rightarrow> store \<times> tenant_row outcome" where
  "create_tenant newId dto s =
     (let slug = to_lower (td_slug dto)
      in case find_tenant_by_slug slug s of
           Some _ \<Rightarrow> (s, Inl (Conflict ''Tenant slug already exists''))
         | None \<Rightarrow>
             let t = \<lparr>tn_id = newId, tn_slug = slug, tn_name = or_str (td_name dto) slug\<rparr>
             in if newId \<in> tn_id ` set (db_tenants s) then (s, Inl p2002)
                else (s\<lparr>db_tenants := db_tenants s @ [t]\<rparr>, Inr t))"

text \<open>The controller lowers the slug before \<open>getBySlug\<close>; the guard does not.\<close>

definition getBySlug :: "string \<Rightarrow> store \<Rightarrow> tenant_row option" where
  "getBySlug slug s = find_tenant_by_slug slug s"

definition tenant_controller_getBySlug :: "string \<Rightarrow> store \<Rightarrow> tenant_row option" where
  "tenant_controller_getBySlug slug s = getBySlug (to_lower slug) s"

datatype header = Absent | One string | Many "string list"

fun header_slug :: "header \<Rightarrow> string option" where
  "header_slug Absent = None"
| "header_slug (One v) = Some v"
| "header_slug (Many []) = None"
| "header_slug (Many (v # vs)) = Some v"

definition tenant_guard :: "header \<Rightarrow> store \<Rightarrow> (string \<times> string) outcome" where
  "tenant_guard h s =
     (if \<not> truthy (header_slug h) then Inl (BadRequest ''x-tenant-slug header is required'')
      else case find_tenant_by_slug (the (header_slug h)) s of
        None \<Rightarrow> Inl (NotFound ''Tenant not found'')
      | Some t \<Rightarrow> Inr (tn_id t, tn_slug t))"

section \<open>What the flow relies on\<close>

definition accounts_wf :: "store \<Rightarrow> bool" where
  "accounts_wf s \<longleftrightarrow> distinct (map us_id (db_users s)) \<and> distinct (map us_email (db_users s))
     \<and> distinct (map tn_id (db_tenants s)) \<and> distinct (map tn_slug (db_tenants s))
     \<and> (\<forall>u \<in> set (db_users s). to_lower (us_email u) = us_email u)
     \<and> (\<forall>t \<in> set (db_tenants s). to_lower (tn_slug t) = tn_slug t)"

lemma ascii_lower_idem: "ascii_lower (ascii_lower c) = ascii_lower c"
  by (auto simp: ascii_lower_def of_char_of)

lemma to_lower_idem [simp]: "to_lower (to_lower s) = to_lower s"
  by (simp add: to_lower_def ascii_lower_idem)

lemma find_user_None: "find_user_by_email e s = None \<longleftrightarrow> e \<notin> us_email ` set (db_users s)"
  by (auto simp: find_user_by_email_def find_None_iff)

lemma find_tenant_None: "find_tenant_by_slug e s = None \<longleftrightarrow> e \<notin> tn_slug ` set (db_tenants s)"
  by (auto simp: find_tenant_by_slug_def find_None_iff)

lemma accounts_wf_register [invariant_intros]:
  "accounts_wf s \<Longrightarrow> accounts_wf (fst (register hash sign newId dto s))"
  by (auto simp: register_def accounts_wf_def Let_def find_user_None split: option.splits)

lemma accounts_wf_create_tenant [invariant_intros]:
  "accounts_wf s \<Longrightarrow> accounts_wf (fst (create_tenant newId dto s))"
  by (auto simp: create_tenant_def accounts_wf_def Let_def find_tenant_None split: option.splits)

lemma find_append: "find P (xs @ ys) = (case find P xs of None \<Rightarrow> find P ys | Some x \<Rightarrow> Some x)"
  by (induction xs) auto

text \<open>
  C14. Registration and login round trip. A registered user logs in with the same password and
  any letter case of the e-mail, and gets the identity and the token that registration
  returned; a second registration of the e-mail, in any letter case, is refused.
\<close>

theorem register_login_roundtrip:
  assumes "snd (register hash sign newId dto s) = Inr (user, token)"
    and "to_lower (ld_email l) = to_lower (rd_email dto)"
    and "compare (ld_password l) (hash (rd_password dto))"
  shows "login compare sign l (fst (register hash sign newId dto s)) = Inr (user, token)
    \<and> (to_lower (rd_email dto') = to_lower (rd_email dto) \<longrightarrow>
        snd (register hash' sign' i dto' (fst (register hash sign newId dto s))) =
          Inl (Conflict ''Email already registered''))"
  using assms
  by (auto simp: register_def login_def find_user_by_email_def find_append Let_def
      split: option.splits if_splits)

theorem register_login_roundtrip_witness:
  "login (\<lambda>p h. h = ''#'' @ p) jw_sub \<lparr>ld_email = ''ann@x'', ld_password = ''password''\<rparr>
     (fst (register (\<lambda>p. ''#'' @ p) jw_sub ''u1''
        \<lparr>rd_email = ''Ann@X'', rd_name = ''Ann'', rd_password = ''password''\<rparr> empty_store)) =
   Inr (\<lparr>pu_id = ''u1'', pu_email = ''ann@x'', pu_name = ''Ann''\<rparr>, ''u1'')"
proof -
  have "to_lower ''Ann@X'' = ''ann@x''" and "to_lower ''ann@x'' = ''ann@x''" by code_simp+
  then show ?thesis
    by (intro register_login_roundtrip [THEN conjunct1])
      (simp_all add: register_def find_user_by_email_def empty_store_def Let_def)
qed

text \<open>
  A created tenant is the one the guard resolves from its slug, the lookup by slug finds it
  in any letter case, and every other tenant is resolved as before.
\<close>

theorem created_tenant_is_resolved:
  assumes "snd (create_tenant newId dto s) = Inr t" and "td_slug dto \<noteq> []"
  shows "tenant_guard (One (to_lower (td_slug dto))) (fst (create_tenant newId dto s)) =
      Inr (newId, to_lower (td_slug dto))
    \<and> tenant_controller_getBySlug (td_slug dto) (fst (create_tenant newId dto s)) = Some t
    \<and> (find_tenant_by_slug slug s = Some t' \<longrightarrow>
        find_tenant_by_slug slug (fst (create_tenant newId dto s)) = Some t')"
  using assms
  by (auto simp: create_tenant_def tenant_guard_def tenant_controller_getBySlug_def getBySlug_def
      find_tenant_by_slug_def find_append to_lower_def Let_def split: option.splits if_splits)

theorem created_tenant_is_resolved_witness:
  "tenant_guard (One ''acme'') (fst (create_tenant ''t1'' \<lparr>td_slug = ''acme'', td_name = None\<rparr> empty_store)) =
     Inr (''t1'', ''acme'')"
  using created_tenant_is_resolved [of "''t1''" "\<lparr>td_slug = ''acme'', td_name = None\<rparr>" empty_store
      "\<lparr>tn_id = ''t1'', tn_slug = ''acme'', tn_name = ''acme''\<rparr>"]
  by (simp add: create_tenant_def find_tenant_by_slug_def empty_store_def to_lower_def ascii_lower_def
      or_str_def Let_def)

end
