(* ===== verification/Bookings.thy ===== *)
theory Bookings
  imports Store
begin

text \<open>
  The booking flow of \<open>backend/src/bookings/bookings.service.ts\<close>: a user who holds the locks of
  some seats initiates a booking (a pending row, an order at the payment provider, an expiry
  job), the provider's webhook confirms it, the expiry job ends it. Each operation is one
  definition, split where the source awaits the provider. What the source gets from outside is
  an argument: the provider's \<open>orders.create\<close>, HMAC-SHA256, the QR encoder, random hex strings,
  the database's fresh ids, and the clock readings.
\<close>

record TenantContext =
  tc_id :: string
  tc_slug :: string

record InitiateBookingDto =
  ib_eventId :: string
  ib_seatIds :: "string list"
  ib_amount :: int
  ib_currency :: "string option"

record order_request =
  oq_amount :: int
  oq_currency :: string
  oq_receipt :: string
  oq_notes :: "(string \<times> string) list"

record order =
  or_id :: string
  or_amount :: int
  or_currency :: string

text \<open>The clock readings of one \<open>initiateBooking\<close>: in the lock check, \<open>now\<close>, the receipt's,
  at the row's creation, the queue delay's, in the release of the locks.\<close>

record initiate_clock =
  ic_locks :: int
  ic_now :: int
  ic_receipt :: int
  ic_created :: int
  ic_queue :: int
  ic_release :: int

record initiate_reply =
  ir_bookingId :: string
  ir_status :: booking_status
  ir_expiresAt :: int
  ir_order :: order

section \<open>\<open>initiateBooking\<close>\<close>

text \<open>The filter on bookings that hold their seats: confirmed, or pending and not expired.\<close>

definition holds_seats :: "int \<Rightarrow> booking_row \<Rightarrow> bool" where
  "holds_seats now b \<longleftrightarrow>
     bk_status b = CONFIRMED \<or> bk_status b = PENDING \<and> now < bk_expiresAt b"

definition busy_seat_rows ::
  "int \<Rightarrow> string \<Rightarrow> string \<Rightarrow> string list \<Rightarrow> store \<Rightarrow> booking_seat_row list" where
  "busy_seat_rows now tenantId eventId seatIds s =
     filter (\<lambda>r. bs_seatId r \<in> set seatIds \<and>
         (case find_booking (bs_bookingId r) s of None \<Rightarrow> False
          | Some b \<Rightarrow> bk_tenantId b = tenantId \<and> bk_eventId b = eventId \<and> holds_seats now b))
       (db_bookingSeats s)"

text \<open>Everything up to the call of the provider: the deduplicated seats, or the refusal.\<close>

definition initiate_checks ::
  "initiate_clock \<Rightarrow> TenantContext \<Rightarrow> string \<Rightarrow> InitiateBookingDto \<Rightarrow> store \<Rightarrow>
   string list outcome" where
  "initiate_checks clk tenant userId dto s =
     (let seatIds = dedupe (ib_seatIds dto);
          event = find (\<lambda>e. ev_id e = ib_eventId dto \<and> ev_tenantId e = tc_id tenant) (db_events s);
          seats = filter (\<lambda>x. st_id x \<in> set seatIds \<and> st_eventId x = ib_eventId dto) (db_seats s)
      in if event = None then Inl (NotFound ''Event not found'')
         else if length seats \<noteq> length seatIds
         then Inl (Conflict ''Invalid seats selected for this event'')
         else case validateLocksOwned (ic_locks clk) (tc_slug tenant) (ib_eventId dto) seatIds userId
                     (db_locks s) of
           Inl e \<Rightarrow> Inl e
         | Inr _ \<Rightarrow>
             if length (busy_seat_rows (ic_now clk) (tc_id tenant) (ib_eventId dto) seatIds s) > 0
             then Inl (Conflict ''Some seats are no longer available'')
             else Inr seatIds)"

definition initiate_currency :: "InitiateBookingDto \<Rightarrow> string" where
  "initiate_currency dto = to_upper (or_str (ib_currency dto) ''INR'')"

definition initiate_order ::
  "initiate_clock \<Rightarrow> string \<Rightarrow> TenantContext \<Rightarrow> string \<Rightarrow> InitiateBookingDto \<Rightarrow> order_request" where
  "initiate_order clk rnd tenant userId dto =
     \<lparr>oq_amount = ib_amount dto, oq_currency = initiate_currency dto,
      oq_receipt = ''bk_'' @ show_int (ic_receipt clk) @ ''_'' @ rnd,
      oq_notes = [(''tenantSlug'', tc_slug tenant), (''eventId'', ib_eventId dto), (''userId'', userId)]\<rparr>"

text \<open>The nested \<open>booking.create\<close>: the row and its seats, or the unique-index violation.\<close>

definition create_booking :: "booking_row \<Rightarrow> string list \<Rightarrow> store \<Rightarrow> store outcome" where
  "create_booking b seatIds s =
     (if bk_id b \<in> bk_id ` set (db_bookings s)
         \<or> \<not> unique_free bk_razorpayOrderId (bk_razorpayOrderId b) (db_bookings s)
      then Inl p2002
      else Inr (s\<lparr>db_bookings := db_bookings s @ [b],
                  db_bookingSeats := db_bookingSeats s @
                    map (\<lambda>x. \<lparr>bs_bookingId = bk_id b, bs_seatId = x\<rparr>) seatIds\<rparr>))"

text \<open>Everything after the provider has created the order.\<close>

definition initiate_commit ::
  "int \<Rightarrow> initiate_clock \<Rightarrow> string \<Rightarrow> TenantContext \<Rightarrow> string \<Rightarrow> InitiateBookingDto \<Rightarrow> string list \<Rightarrow>
   order \<Rightarrow> store \<Rightarrow> store \<times> initiate_reply outcome" where
  "initiate_commit ttlMinutes clk newId tenant userId dto seatIds order s =
     (let expiresAt = ic_now clk + ttlMinutes * 60 * 1000;
          booking = \<lparr>bk_id = newId, bk_tenantId = tc_id tenant, bk_userId = userId,
            bk_eventId = ib_eventId dto, bk_status = PENDING, bk_amount = ib_amount dto,
            bk_currency = initiate_currency dto, bk_razorpayOrderId = Some (or_id order),
            bk_razorpayPaymentId = None, bk_razorpaySignature = None, bk_ticketCode = None,
            bk_ticketQrData = None, bk_expiresAt = expiresAt, bk_createdAt = ic_created clk\<rparr>
      in case create_booking booking seatIds s of
           Inl e \<Rightarrow> (s, Inl e)
         | Inr s1 \<Rightarrow>
             let s2 = s1\<lparr>db_expiryQueue := db_expiryQueue s1 @
                   [\<lparr>xj_jobId = ''booking-expiry:'' @ newId,
                     xj_delay = max (expiresAt - ic_queue clk) 0, xj_bookingId = newId\<rparr>]\<rparr>;
                 s3 = s2\<lparr>db_locks := releaseMany (ic_release clk) (tc_slug tenant) (ib_eventId dto)
                            seatIds userId (db_locks s2)\<rparr>;
                 s4 = emit_update (emitSeatsReserved (tc_slug tenant) (ib_eventId dto) seatIds) s3
             in (s4, Inr \<lparr>ir_bookingId = newId, ir_status = PENDING, ir_expiresAt = expiresAt,
                          ir_order = \<lparr>or_id = or_id order, or_amount = or_amount order,
                                      or_currency = or_currency order\<rparr>\<rparr>))"

definition initiateBooking ::
  "(order_request \<Rightarrow> order outcome) \<Rightarrow> int \<Rightarrow> initiate_clock \<Rightarrow> string \<Rightarrow> string \<Rightarrow>
   TenantContext \<Rightarrow> string \<Rightarrow> InitiateBookingDto \<Rightarrow> store \<Rightarrow> store \<times> initiate_reply outcome" where
  "initiateBooking createOrder ttlMinutes clk rnd newId tenant userId dto s =
     (case initiate_checks clk tenant userId dto s of
        Inl e \<Rightarrow> (s, Inl e)
      | Inr seatIds \<Rightarrow>
          (case createOrder (initiate_order clk rnd tenant userId dto) of
             Inl e \<Rightarrow> (s, Inl e)
           | Inr order \<Rightarrow> initiate_commit ttlMinutes clk newId tenant userId dto seatIds order s))"

section \<open>Reads\<close>

text \<open>\<open>orderBy createdAt desc\<close>; rows with equal times keep the table's order.\<close>

definition listMyBookings :: "string \<Rightarrow> string \<Rightarrow> store \<Rightarrow> booking_row list" where
  "listMyBookings tenantId userId s =
     sort_key (\<lambda>b. - bk_createdAt b)
       (filter (\<lambda>b. bk_tenantId b = tenantId \<and> bk_userId b = userId) (db_bookings s))"

definition getTicketByBookingId :: "string \<Rightarrow> string \<Rightarrow> string \<Rightarrow> store \<Rightarrow> booking_row outcome" where
  "getTicketByBookingId tenantId bookingId userId s =
     (case find (\<lambda>b. bk_id b = bookingId \<and> bk_tenantId b = tenantId \<and> bk_userId b = userId)
             (db_bookings s) of
        None \<Rightarrow> Inl (NotFound ''Booking not found'')
      | Some b \<Rightarrow> if bk_status b \<noteq> CONFIRMED
                 then Inl (Conflict ''Booking is not confirmed yet'') else Inr b)"

definition verifyTicket :: "string \<Rightarrow> string \<Rightarrow> store \<Rightarrow> booking_row outcome" where
  "verifyTicket tenantId code s =
     (case find (\<lambda>b. bk_tenantId b = tenantId \<and> bk_ticketCode b = Some code \<and> bk_status b = CONFIRMED)
             (db_bookings s) of
        None \<Rightarrow> Inl (NotFound ''Ticket not found or invalid'')
      | Some b \<Rightarrow> Inr b)"

section \<open>\<open>processPaymentWebhook\<close>\<close>

text \<open>What the process is configured with and gets from its libraries.\<close>

record payment_env =
  py_hmac :: "string \<Rightarrow> string \<Rightarrow> string"
  py_secret :: string
  py_qr :: "string \<Rightarrow> string outcome"

definition verifyWebhookSignature :: "payment_env \<Rightarrow> string \<Rightarrow> string \<Rightarrow> bool" where
  "verifyWebhookSignature env rawBody signature =
     (let expected = py_hmac env (py_secret env) rawBody
      in if length expected \<noteq> length signature then False else expected = signature)"

definition generateTicketCode :: "string \<Rightarrow> string" where
  "generateTicketCode rnd = ''OMX-'' @ to_upper rnd"

datatype webhook_status =
    Wh_duplicate | Wh_ignored | Wh_booking_not_found | Wh_already_confirmed | Wh_not_pending
  | Wh_confirmed

definition webhook_event_id :: "string \<Rightarrow> string option \<Rightarrow> string option \<Rightarrow> string option \<Rightarrow> string" where
  "webhook_event_id rnd header eventType paymentId =
     or_str header (or_str eventType ''unknown'' @ '':'' @ or_str paymentId rnd)"

definition record_webhook_event :: "webhook_event_row \<Rightarrow> store \<Rightarrow> store option" where
  "record_webhook_event e s =
     (case table_insert we_eventId e (db_webhookEvents s) of
        None \<Rightarrow> None | Some t \<Rightarrow> Some (s\<lparr>db_webhookEvents := t\<rparr>))"

definition confirm_row :: "string \<Rightarrow> string \<Rightarrow> string \<Rightarrow> string \<Rightarrow> booking_row \<Rightarrow> booking_row" where
  "confirm_row paymentId signature ticketCode qr b =
     b\<lparr>bk_status := CONFIRMED, bk_razorpayPaymentId := Some paymentId,
       bk_razorpaySignature := Some signature, bk_ticketCode := Some ticketCode,
       bk_ticketQrData := Some qr\<rparr>"

text \<open>From the signed ids on: the booking with the order id is confirmed when it is pending.
  The update fails when another row holds the payment id or the ticket code.\<close>

definition confirm_order ::
  "payment_env \<Rightarrow> string \<Rightarrow> string \<Rightarrow> string \<Rightarrow> string \<Rightarrow> store \<Rightarrow> store \<times> webhook_status outcome" where
  "confirm_order env rnd signature orderId paymentId s =
     (case find (\<lambda>b. bk_razorpayOrderId b = Some orderId) (db_bookings s) of
        None \<Rightarrow> (s, Inr Wh_booking_not_found)
      | Some b \<Rightarrow>
          if bk_status b = CONFIRMED then (s, Inr Wh_already_confirmed)
          else if bk_status b \<noteq> PENDING then (s, Inr Wh_not_pending)
          else
            let ticketCode = generateTicketCode rnd;
                others = filter (\<lambda>r. bk_id r \<noteq> bk_id b) (db_bookings s)
            in case py_qr env (json_object [(''bookingId'', json_string (bk_id b)),
                   (''tenantSlug'', json_string (slug_of (bk_tenantId b) s)),
                   (''ticketCode'', json_string ticketCode)]) of
                 Inl e \<Rightarrow> (s, Inl e)
               | Inr qr \<Rightarrow>
                   if \<not> unique_free bk_razorpayPaymentId (Some paymentId) others
                      \<or> \<not> unique_free bk_ticketCode (Some ticketCode) others
                   then (s, Inl p2002)
                   else (emit_update (emitBookingConfirmed (slug_of (bk_tenantId b) s) (bk_eventId b)
                             (seats_of (bk_id b) s))
                           (s\<lparr>db_bookings := update_where (\<lambda>r. bk_id r = bk_id b)
                                (confirm_row paymentId signature ticketCode qr) (db_bookings s)\<rparr>),
                         Inr Wh_confirmed))"

definition processPaymentWebhook ::
  "payment_env \<Rightarrow> string \<Rightarrow> string \<Rightarrow> string \<Rightarrow> string \<Rightarrow> string option \<Rightarrow> webhook_body \<Rightarrow> store \<Rightarrow>
   store \<times> webhook_status outcome" where
  "processPaymentWebhook env rndEvent rndCode rawBody signature header payload s =
     (if rawBody = [] \<or> signature = [] then (s, Inl (Unauthorized ''Invalid webhook request''))
      else if \<not> verifyWebhookSignature env rawBody signature
      then (s, Inl (Unauthorized ''Webhook signature verification failed''))
      else
        let paymentId = Option.bind (wb_entity payload) pe_id;
            orderId = Option.bind (wb_entity payload) pe_order_id;
            eventType = wb_event payload;
            row = \<lparr>we_eventId = webhook_event_id rndEvent header eventType paymentId,
                   we_eventType = or_str eventType ''unknown'', we_paymentId = paymentId,
                   we_orderId = orderId, we_payload = payload\<rparr>
        in case record_webhook_event row s of
             None \<Rightarrow> (s, Inr Wh_duplicate)
           | Some s1 \<Rightarrow>
               if \<not> truthy orderId \<or> \<not> truthy paymentId then (s1, Inr Wh_ignored)
               else confirm_order env rndCode signature (the orderId) (the paymentId) s1)"

section \<open>\<open>expirePendingBooking\<close>\<close>

definition expire_row :: "booking_row \<Rightarrow> booking_row" where
  "expire_row b = b\<lparr>bk_status := EXPIRED\<rparr>"

definition expirePendingBooking :: "int \<Rightarrow> string \<Rightarrow> store \<Rightarrow> store" where
  "expirePendingBooking now bookingId s =
     (case find_booking bookingId s of
        None \<Rightarrow> s
      | Some b \<Rightarrow>
          if bk_status b \<noteq> PENDING then s
          else if now < bk_expiresAt b then s
          else emit_update (emitBookingExpired (slug_of (bk_tenantId b) s) (bk_eventId b)
                   (seats_of (bk_id b) s))
                 (s\<lparr>db_bookings := update_where (\<lambda>r. bk_id r = bk_id b) expire_row (db_bookings s)\<rparr>))"

section \<open>Every branch of the operations\<close>

lemma holds_seats_earlier: "holds_seats now' b \<Longrightarrow> now \<le> now' \<Longrightarrow> holds_seats now b"
  by (auto simp: holds_seats_def)

lemma initiate_checks_ok:
  "initiate_checks clk tenant u dto s = Inr xs \<longleftrightarrow>
     xs = dedupe (ib_seatIds dto) \<and>
     find (\<lambda>e. ev_id e = ib_eventId dto \<and> ev_tenantId e = tc_id tenant) (db_events s) \<noteq> None \<and>
     length (filter (\<lambda>x. st_id x \<in> set (ib_seatIds dto) \<and> st_eventId x = ib_eventId dto) (db_seats s))
       = length (dedupe (ib_seatIds dto)) \<and>
     (\<forall>x \<in> set (ib_seatIds dto).
        lock_owner (ic_locks clk) (tc_slug tenant) (ib_eventId dto) x (db_locks s) = Some u) \<and>
     busy_seat_rows (ic_now clk) (tc_id tenant) (ib_eventId dto) (dedupe (ib_seatIds dto)) s = []"
proof -
  have v: "validateLocksOwned (ic_locks clk) (tc_slug tenant) (ib_eventId dto) (dedupe (ib_seatIds dto)) u
      (db_locks s) = Inr () \<longleftrightarrow> (\<forall>x \<in> set (ib_seatIds dto).
        lock_owner (ic_locks clk) (tc_slug tenant) (ib_eventId dto) x (db_locks s) = Some u)"
    using validateLocksOwned_iff [of "ic_locks clk" "tc_slug tenant" "ib_eventId dto"
        "dedupe (ib_seatIds dto)" u "db_locks s"] by (simp add: is_ok_iff)
  show ?thesis
    unfolding v [symmetric]
    by (auto simp: initiate_checks_def Let_def split: sum.splits)
qed

lemma initiate_checks_overlap:
  assumes "is_ok (initiate_checks clk tenant u dto s)" and "is_ok (initiate_checks clk' tenant v dto' s)"
    and "ic_locks clk = ic_locks clk'" and "ib_eventId dto = ib_eventId dto'" and "u \<noteq> v"
  shows "set (ib_seatIds dto) \<inter> set (ib_seatIds dto') = {}"
  using assms by (force simp: is_ok_iff initiate_checks_ok)

text \<open>The row a successful \<open>initiateBooking\<close> writes.\<close>

definition new_booking ::
  "int \<Rightarrow> initiate_clock \<Rightarrow> string \<Rightarrow> TenantContext \<Rightarrow> string \<Rightarrow> InitiateBookingDto \<Rightarrow> order \<Rightarrow>
   booking_row" where
  "new_booking ttlMinutes clk newId tenant userId dto order =
     \<lparr>bk_id = newId, bk_tenantId = tc_id tenant, bk_userId = userId,
      bk_eventId = ib_eventId dto, bk_status = PENDING, bk_amount = ib_amount dto,
      bk_currency = initiate_currency dto, bk_razorpayOrderId = Some (or_id order),
      bk_razorpayPaymentId = None, bk_razorpaySignature = None, bk_ticketCode = None,
      bk_ticketQrData = None, bk_expiresAt = ic_now clk + ttlMinutes * 60 * 1000,
      bk_createdAt = ic_created clk\<rparr>"

lemma initiate_commit_cases:
  obtains (refused) "initiate_commit ttl clk newId tenant u dto xs order s = (s, Inl p2002)"
    "newId \<in> bk_id ` set (db_bookings s) \<or>
     (\<exists>b \<in> set (db_bookings s). bk_razorpayOrderId b = Some (or_id order))"
  | (created) s' r where "initiate_commit ttl clk newId tenant u dto xs order s = (s', Inr r)"
    "newId \<notin> bk_id ` set (db_bookings s)"
    "unique_free bk_razorpayOrderId (Some (or_id order)) (db_bookings s)"
    "db_bookings s' = db_bookings s @ [new_booking ttl clk newId tenant u dto order]"
    "db_bookingSeats s' = db_bookingSeats s @ map (\<lambda>x. \<lparr>bs_bookingId = newId, bs_seatId = x\<rparr>) xs"
    "db_events s' = db_events s" "db_seats s' = db_seats s" "db_tenants s' = db_tenants s"
    "db_users s' = db_users s" "db_webhookEvents s' = db_webhookEvents s"
    "\<And>tn ev x t. lock_owner t tn ev x (db_locks s') =
       lock_owner t tn ev x (releaseMany (ic_release clk) (tc_slug tenant) (ib_eventId dto) xs u (db_locks s))"
    "db_expiryQueue s' = db_expiryQueue s @ [\<lparr>xj_jobId = ''booking-expiry:'' @ newId,
       xj_delay = max (ic_now clk + ttl * 60 * 1000 - ic_queue clk) 0, xj_bookingId = newId\<rparr>]"
    "ir_bookingId r = newId" "ir_expiresAt r = ic_now clk + ttl * 60 * 1000"
    "ir_status r = PENDING" "or_id (ir_order r) = or_id order"
proof (cases "newId \<in> bk_id ` set (db_bookings s)
    \<or> \<not> unique_free bk_razorpayOrderId (Some (or_id order)) (db_bookings s)")
  case True
  then show thesis
    by (intro refused) (auto simp: initiate_commit_def create_booking_def unique_free_def Let_def)
next
  case False
  then show thesis
    by (intro created [of "fst (initiate_commit ttl clk newId tenant u dto xs order s)"
          "projr (snd (initiate_commit ttl clk newId tenant u dto xs order s))"])
      (simp_all add: initiate_commit_def create_booking_def new_booking_def Let_def)
qed

lemma initiateBooking_cases:
  obtains (error) e where "initiateBooking co ttl clk rnd newId tenant u dto s = (s, Inl e)"
  | (booked) xs order where "initiate_checks clk tenant u dto s = Inr xs"
    "co (initiate_order clk rnd tenant u dto) = Inr order"
    "initiateBooking co ttl clk rnd newId tenant u dto s =
       initiate_commit ttl clk newId tenant u dto xs order s"
    "is_ok (snd (initiate_commit ttl clk newId tenant u dto xs order s))"
proof (cases "initiate_checks clk tenant u dto s")
  case (Inl e)
  then show thesis by (intro error [of e]) (simp add: initiateBooking_def)
next
  case checks: (Inr xs)
  show thesis
  proof (cases "co (initiate_order clk rnd tenant u dto)")
    case (Inl e)
    with checks show thesis by (intro error [of e]) (simp add: initiateBooking_def)
  next
    case (Inr order)
    with checks have eq: "initiateBooking co ttl clk rnd newId tenant u dto s =
        initiate_commit ttl clk newId tenant u dto xs order s"
      by (simp add: initiateBooking_def)
    show thesis
      by (rule initiate_commit_cases [of ttl clk newId tenant u dto xs order s])
        (use eq checks Inr error booked in auto)
  qed
qed

lemma confirm_order_cases:
  obtains (kept) r where "confirm_order env rnd sig oid pid s = (s, r)" "r \<noteq> Inr Wh_confirmed"
  | (confirmed) b qr where "b \<in> set (db_bookings s)" "bk_razorpayOrderId b = Some oid"
    "bk_status b = PENDING"
    "unique_free bk_razorpayPaymentId (Some pid) (filter (\<lambda>r. bk_id r \<noteq> bk_id b) (db_bookings s))"
    "unique_free bk_ticketCode (Some (generateTicketCode rnd))
       (filter (\<lambda>r. bk_id r \<noteq> bk_id b) (db_bookings s))"
    "confirm_order env rnd sig oid pid s =
       (emit_update (emitBookingConfirmed (slug_of (bk_tenantId b) s) (bk_eventId b) (seats_of (bk_id b) s))
         (s\<lparr>db_bookings := update_where (\<lambda>r. bk_id r = bk_id b)
              (confirm_row pid sig (generateTicketCode rnd) qr) (db_bookings s)\<rparr>), Inr Wh_confirmed)"
proof (cases "find (\<lambda>b. bk_razorpayOrderId b = Some oid) (db_bookings s)")
  case None
  then show thesis by (intro kept [of "Inr Wh_booking_not_found"]) (simp_all add: confirm_order_def)
next
  case (Some b)
  note b = find_in [OF Some]
  show thesis
  proof (cases "bk_status b = PENDING")
    case False
    with Some show thesis
      by (intro kept [of "Inr (if bk_status b = CONFIRMED then Wh_already_confirmed else Wh_not_pending)"])
        (simp_all add: confirm_order_def)
  next
    case pending: True
    let ?q = "py_qr env (json_object [(''bookingId'', json_string (bk_id b)),
                   (''tenantSlug'', json_string (slug_of (bk_tenantId b) s)),
                   (''ticketCode'', json_string (generateTicketCode rnd))])"
    show thesis
    proof (cases ?q)
      case (Inl e)
      with Some pending show thesis
        by (intro kept [of "Inl e"]) (simp_all add: confirm_order_def Let_def)
    next
      case (Inr qr)
      let ?others = "filter (\<lambda>r. bk_id r \<noteq> bk_id b) (db_bookings s)"
      show thesis
      proof (cases "unique_free bk_razorpayPaymentId (Some pid) ?others
          \<and> unique_free bk_ticketCode (Some (generateTicketCode rnd)) ?others")
        case True
        with Some pending b Inr show thesis
          by (intro confirmed [of b qr]) (simp_all add: confirm_order_def Let_def)
      next
        case False
        with Some pending Inr show thesis
          by (intro kept [of "Inl p2002"]) (auto simp: confirm_order_def Let_def)
      qed
    qed
  qed
qed

end
