(* ===== verification/Events.thy ===== *)
theory Events
  imports Bookings
begin

text \<open>
  Events and the seat map, \<open>backend/src/events/events.service.ts\<close>. The date parser
  (\<open>new Date(text)\<close>, \<open>None\<close> for an invalid date) and the database's fresh ids are arguments.
\<close>

record CreateEventDto =
  ce_name :: string
  ce_startsAt :: string
  ce_totalSeats :: nat
  ce_seatStartNumber :: "int option"

text \<open>The seats of the nested \<open>createMany\<close>: numbers from \<open>seatStartNumber ?? 1\<close>.\<close>

definition seat_entries :: "(nat \<Rightarrow> string) \<Rightarrow> string \<Rightarrow> CreateEventDto \<Rightarrow> seat_row list" where
  "seat_entries newSeatId eventId dto =
     (let start = (case ce_seatStartNumber dto of None \<Rightarrow> 1 | Some n \<Rightarrow> n)
      in map (\<lambda>i. \<lparr>st_id = newSeatId i, st_eventId = eventId, st_seatNumber = start + int i\<rparr>)
           [0 ..< ce_totalSeats dto])"

definition createEvent ::
  "(string \<Rightarrow> int option) \<Rightarrow> int \<Rightarrow> string \<Rightarrow> (nat \<Rightarrow> string) \<Rightarrow> string \<Rightarrow> CreateEventDto \<Rightarrow> store \<Rightarrow>
   store \<times> event_row outcome" where
  "createEvent parseDate now newId newSeatId tenantId dto s =
     (case parseDate (ce_startsAt dto) of
        None \<Rightarrow> (s, Inl (Conflict ''Invalid startsAt date''))
      | Some startsAt \<Rightarrow>
          let e = \<lparr>ev_id = newId, ev_tenantId = tenantId, ev_name = ce_name dto,
                   ev_startsAt = startsAt, ev_totalSeats = int (ce_totalSeats dto), ev_createdAt = now\<rparr>;
              seats = seat_entries newSeatId newId dto
          in if newId \<in> ev_id ` set (db_events s)
                \<or> \<not> distinct (map st_id (db_seats s @ seats))
             then (s, Inl p2002)
             else (s\<lparr>db_events := db_events s @ [e], db_seats := db_seats s @ seats\<rparr>, Inr e))"

definition listEvents :: "string \<Rightarrow> store \<Rightarrow> event_row list" where
  "listEvents tenantId s = sort_key ev_startsAt (filter (\<lambda>e. ev_tenantId e = tenantId) (db_events s))"

section \<open>The seat map\<close>

datatype seat_status = BOOKED | PENDING_PAYMENT | LOCKED_BY_ME | LOCKED_SEAT | AVAILABLE

record seat_view =
  sv_id :: string
  sv_seatNumber :: int
  sv_status :: seat_status
  sv_mine :: bool

text \<open>\<open>new Map(entries)\<close>: the last entry of a key counts.\<close>

definition js_map :: "('k \<times> 'v) list \<Rightarrow> 'k \<Rightarrow> 'v option" where
  "js_map entries = map_of (rev entries)"

definition seat_view_of ::
  "(string \<Rightarrow> booking_row option) \<Rightarrow> (string \<Rightarrow> SeatLockPayload option) \<Rightarrow> string option \<Rightarrow> seat_row \<Rightarrow>
   seat_view" where
  "seat_view_of busySeatMap lockMap userId seat =
     (case busySeatMap (st_id seat) of
        Some booked \<Rightarrow>
          \<lparr>sv_id = st_id seat, sv_seatNumber = st_seatNumber seat,
           sv_status = (if bk_status booked = CONFIRMED then BOOKED else PENDING_PAYMENT),
           sv_mine = (Some (bk_userId booked) = userId)\<rparr>
      | None \<Rightarrow>
          (case lockMap (st_id seat) of
             Some lock \<Rightarrow>
               \<lparr>sv_id = st_id seat, sv_seatNumber = st_seatNumber seat,
                sv_status = (if Some (lp_userId lock) = userId then LOCKED_BY_ME else LOCKED_SEAT),
                sv_mine = (Some (lp_userId lock) = userId)\<rparr>
           | None \<Rightarrow>
               \<lparr>sv_id = st_id seat, sv_seatNumber = st_seatNumber seat, sv_status = AVAILABLE,
                sv_mine = False\<rparr>))"

text \<open>The bookings are read at \<open>now\<close>, the locks at \<open>t_locks\<close>.\<close>

definition getSeatMap ::
  "(string \<Rightarrow> string \<Rightarrow> bool) \<Rightarrow> int \<Rightarrow> int \<Rightarrow> string \<Rightarrow> string \<Rightarrow> string \<Rightarrow> string option \<Rightarrow> store \<Rightarrow>
   (event_row \<times> seat_view list) outcome" where
  "getSeatMap glob now t_locks tenantId tenantSlug eventId userId s =
     (case find (\<lambda>e. ev_id e = eventId \<and> ev_tenantId e = tenantId) (db_events s) of
        None \<Rightarrow> Inl (NotFound ''Event not found'')
      | Some event \<Rightarrow>
          let event_seats = sort_key st_seatNumber (filter (\<lambda>x. st_eventId x = ev_id event) (db_seats s));
              busySeatRows = busy_seat_rows now tenantId eventId (map st_id event_seats) s;
              lockedSeats = getLocksForEvent glob t_locks tenantSlug eventId (db_locks s);
              busySeatMap = js_map (List.map_filter
                (\<lambda>r. map_option (\<lambda>b. (bs_seatId r, b)) (find_booking (bs_bookingId r) s)) busySeatRows);
              lockMap = js_map (map (\<lambda>lock. (lp_seatId lock, lock)) lockedSeats)
          in Inr (event, map (seat_view_of busySeatMap lockMap userId) event_seats))"

section \<open>What a view says\<close>

lemma js_map_None: "js_map xs k = None \<longleftrightarrow> k \<notin> fst ` set xs"
  by (simp add: js_map_def map_of_eq_None_iff)

lemma js_map_Some: "js_map xs k = Some v \<Longrightarrow> (k, v) \<in> set xs"
  by (auto simp: js_map_def dest: map_of_SomeD)

lemma lockMap_get:
  assumes "locks_wf s" and "glob_ok glob" and "plain_name tn" and "plain_name ev"
  shows "js_map (map (\<lambda>lock. (lp_seatId lock, lock)) (getLocksForEvent glob t tn ev s)) x =
    redis_get t (ls_redis s) (getLockKey tn ev x)"
proof (cases "js_map (map (\<lambda>lock. (lp_seatId lock, lock)) (getLocksForEvent glob t tn ev s)) x")
  case None
  have "redis_get t (ls_redis s) (getLockKey tn ev x) = None"
  proof (rule ccontr)
    assume "redis_get t (ls_redis s) (getLockKey tn ev x) \<noteq> None"
    then obtain l where l: "redis_get t (ls_redis s) (getLockKey tn ev x) = Some l" by blast
    then obtain e where e: "(getLockKey tn ev x, e) \<in> set (ls_redis s)" "re_value e = l"
      by (auto simp: redis_get_def redis_live_def split: option.splits if_splits dest: map_of_SomeD)
    then have "entry_wf (getLockKey tn ev x, e)" using assms(1) by (auto simp: locks_wf_def)
    then have "lp_seatId l = x"
      using e(2) getLockKey_inject [of tn "lp_tenantSlug l" ev "lp_eventId l" x "lp_seatId l"] assms(3,4)
      by (auto simp: entry_wf_def plain_name_def Let_def)
    with l have "l \<in> set (getLocksForEvent glob t tn ev s)" and "lp_seatId l = x"
      using locks_for_event [OF assms] by blast+
    with None show False by (force simp: js_map_None)
  qed
  with None show ?thesis by simp
next
  case (Some l)
  then show ?thesis
    using locks_for_event [OF assms] by (auto dest!: js_map_Some)
qed

lemma busy_row_booking:
  "r \<in> set (busy_seat_rows now t e xs s) \<Longrightarrow> \<exists>b. find_booking (bs_bookingId r) s = Some b \<and> holds_seats now b"
  by (auto simp: busy_seat_rows_def split: option.splits)

lemma busySeatMap_None:
  "js_map (List.map_filter (\<lambda>r. map_option (\<lambda>b. (bs_seatId r, b)) (find_booking (bs_bookingId r) s))
     (busy_seat_rows now t e xs s)) x = None \<longleftrightarrow>
   (\<forall>r \<in> set (busy_seat_rows now t e xs s). bs_seatId r \<noteq> x)"
proof -
  have "find_booking (bs_bookingId r) s \<noteq> None" if "r \<in> set (busy_seat_rows now t e xs s)" for r
    using busy_row_booking [OF that] by auto
  then show ?thesis by (subst js_map_None, subst fst_map_filter_key) auto
qed

lemma busy_row_restrict:
  "x \<in> set xs \<Longrightarrow> x \<in> set ys \<Longrightarrow>
   (\<exists>r \<in> set (busy_seat_rows now t e xs s). bs_seatId r = x) \<longleftrightarrow>
   (\<exists>r \<in> set (busy_seat_rows now t e ys s). bs_seatId r = x)"
  by (auto simp: busy_seat_rows_def)

lemma busy_rows_Nil:
  "busy_seat_rows now t e xs s = [] \<longleftrightarrow>
   (\<forall>x \<in> set xs. \<not> (\<exists>r \<in> set (busy_seat_rows now t e xs s). bs_seatId r = x))"
  by (auto simp: busy_seat_rows_def filter_empty_conv)

lemma locked_by_me_iff:
  "sv_status (seat_view_of busyMap lockMap (Some u) seat) = LOCKED_BY_ME \<longleftrightarrow>
     busyMap (st_id seat) = None \<and> map_option lp_userId (lockMap (st_id seat)) = Some u"
  by (auto simp: seat_view_of_def split: option.splits)

lemma sv_id_view [simp]: "sv_id (seat_view_of busyMap lockMap u seat) = st_id seat"
  by (simp add: seat_view_of_def split: option.splits)

text \<open>Each view of the map, from the store's bookings and locks.\<close>

lemma getSeatMap_views:
  assumes "getSeatMap glob now t_locks tid tn ev (Some u) s = Inr (event, views)"
    and "locks_wf (db_locks s)" and "glob_ok glob" and "plain_name tn" and "plain_name ev"
  shows "find (\<lambda>e. ev_id e = ev \<and> ev_tenantId e = tid) (db_events s) = Some event"
    and "sv_id ` set views = st_id ` {x \<in> set (db_seats s). st_eventId x = ev}"
    and "\<And>v. v \<in> set views \<Longrightarrow> sv_status v = LOCKED_BY_ME \<longleftrightarrow>
      (\<forall>r \<in> set (busy_seat_rows now tid ev [sv_id v] s). bs_seatId r \<noteq> sv_id v)
      \<and> lock_owner t_locks tn ev (sv_id v) (db_locks s) = Some u"
proof -
  let ?seats = "sort_key st_seatNumber (filter (\<lambda>x. st_eventId x = ev) (db_seats s))"
  let ?busy = "js_map (List.map_filter (\<lambda>r. map_option (\<lambda>b. (bs_seatId r, b)) (find_booking (bs_bookingId r) s))
     (busy_seat_rows now tid ev (map st_id ?seats) s))"
  let ?lock = "js_map (map (\<lambda>lock. (lp_seatId lock, lock)) (getLocksForEvent glob t_locks tn ev (db_locks s)))"
  from assms(1) show ev: "find (\<lambda>e. ev_id e = ev \<and> ev_tenantId e = tid) (db_events s) = Some event"
    by (simp add: getSeatMap_def Let_def split: option.splits)
  then have "ev_id event = ev" by (auto dest: find_in)
  with assms(1) ev have views: "views = map (seat_view_of ?busy ?lock (Some u)) ?seats"
    by (simp add: getSeatMap_def Let_def)
  then show "sv_id ` set views = st_id ` {x \<in> set (db_seats s). st_eventId x = ev}"
    by (simp add: image_image)
  fix v assume "v \<in> set views"
  then obtain x where x: "x \<in> set ?seats" "v = seat_view_of ?busy ?lock (Some u) x"
    using views by auto
  then have "sv_status v = LOCKED_BY_ME \<longleftrightarrow>
      ?busy (st_id x) = None \<and> map_option lp_userId (?lock (st_id x)) = Some u"
    by (simp only: locked_by_me_iff)
  also have "?lock (st_id x) = redis_get t_locks (ls_redis (db_locks s)) (getLockKey tn ev (st_id x))"
    by (rule lockMap_get [OF assms(2-5)])
  also have "?busy (st_id x) = None \<longleftrightarrow>
      \<not> (\<exists>r \<in> set (busy_seat_rows now tid ev (map st_id ?seats) s). bs_seatId r = st_id x)"
    unfolding busySeatMap_None by blast
  also have "(\<exists>r \<in> set (busy_seat_rows now tid ev (map st_id ?seats) s). bs_seatId r = st_id x) \<longleftrightarrow>
      (\<exists>r \<in> set (busy_seat_rows now tid ev [st_id x] s). bs_seatId r = st_id x)"
    by (rule busy_row_restrict) (use x(1) in auto)
  finally show "sv_status v = LOCKED_BY_ME \<longleftrightarrow>
      (\<forall>r \<in> set (busy_seat_rows now tid ev [sv_id v] s). bs_seatId r \<noteq> sv_id v)
      \<and> lock_owner t_locks tn ev (sv_id v) (db_locks s) = Some u"
    using x(2) by (auto simp: lock_owner_def)
qed

text \<open>
  C11. The seat map and the booking check agree. For seats of the event, a booking by the user
  at the time of the map passes every check of \<open>initiateBooking\<close> exactly when the map shows
  each of the seats as locked by this user.
\<close>

theorem seat_map_agrees_with_booking_check:
  assumes "getSeatMap glob (ic_now clk) (ic_locks clk) (tc_id tenant) (tc_slug tenant) (ib_eventId dto)
      (Some u) s = Inr (event, views)"
    and "locks_wf (db_locks s)" and "glob_ok glob" and "plain_name (tc_slug tenant)"
    and "plain_name (ib_eventId dto)" and "distinct (map st_id (db_seats s))"
    and "set (ib_seatIds dto) \<subseteq> sv_id ` set views"
  shows "is_ok (initiate_checks clk tenant u dto s) \<longleftrightarrow>
    (\<forall>v \<in> set views. sv_id v \<in> set (ib_seatIds dto) \<longrightarrow> sv_status v = LOCKED_BY_ME)"
proof -
  note m = getSeatMap_views [OF assms(1-5)]
  let ?xs = "dedupe (ib_seatIds dto)" and ?ev = "ib_eventId dto"
  have "length (filter (\<lambda>x. st_id x \<in> set ?xs \<and> st_eventId x = ?ev) (db_seats s)) = length ?xs"
    using selected_rows_length [OF assms(6), of ?xs "\<lambda>x. st_eventId x = ?ev"] assms(7) m(2) by simp
  then have "is_ok (initiate_checks clk tenant u dto s) \<longleftrightarrow>
      (\<forall>x \<in> set (ib_seatIds dto). lock_owner (ic_locks clk) (tc_slug tenant) ?ev x (db_locks s) = Some u) \<and>
      busy_seat_rows (ic_now clk) (tc_id tenant) ?ev ?xs s = []"
    using m(1) by (auto simp: is_ok_iff initiate_checks_ok)
  also have "busy_seat_rows (ic_now clk) (tc_id tenant) ?ev ?xs s = [] \<longleftrightarrow>
      (\<forall>x \<in> set (ib_seatIds dto).
        \<forall>r \<in> set (busy_seat_rows (ic_now clk) (tc_id tenant) ?ev [x] s). bs_seatId r \<noteq> x)"
    unfolding busy_rows_Nil [of _ _ _ ?xs] using busy_row_restrict [of _ ?xs "[_]"] by auto
  finally show ?thesis using m(3) assms(7) by (auto simp: image_iff subset_iff)
qed

text \<open>A small store: one tenant, one event of two seats, two users, seat \<open>s1\<close> locked by the
  first.\<close>

definition star_glob :: "string \<Rightarrow> string \<Rightarrow> bool" where
  "star_glob p k = prefix (butlast p) k"

lemma star_glob_ok: "glob_ok star_glob"
  by (simp add: glob_ok_def star_glob_def)

definition demo_locks :: lock_state where
  "demo_locks = fst (lockSeat 300 1000 ''k1'' ''acme'' ''e1'' ''s1'' ''ann'' empty_locks)"

definition demo_store :: store where
  "demo_store = empty_store\<lparr>
     db_tenants := [\<lparr>tn_id = ''t1'', tn_slug = ''acme'', tn_name = ''Acme''\<rparr>],
     db_users := [\<lparr>us_id = ''ann'', us_email = ''ann@x'', us_name = ''Ann'', us_passwordHash = ''h''\<rparr>,
                  \<lparr>us_id = ''bob'', us_email = ''bob@x'', us_name = ''Bob'', us_passwordHash = ''h''\<rparr>],
     db_events := [\<lparr>ev_id = ''e1'', ev_tenantId = ''t1'', ev_name = ''Show'', ev_startsAt = 900000,
                    ev_totalSeats = 2, ev_createdAt = 0\<rparr>],
     db_seats := [\<lparr>st_id = ''s1'', st_eventId = ''e1'', st_seatNumber = 1\<rparr>,
                  \<lparr>st_id = ''s2'', st_eventId = ''e1'', st_seatNumber = 2\<rparr>],
     db_locks := demo_locks\<rparr>"

definition demo_clock :: "int \<Rightarrow> initiate_clock" where
  "demo_clock t = \<lparr>ic_locks = t, ic_now = t, ic_receipt = t, ic_created = t, ic_queue = t, ic_release = t\<rparr>"

definition demo_dto :: InitiateBookingDto where
  "demo_dto = \<lparr>ib_eventId = ''e1'', ib_seatIds = [''s1''], ib_amount = 500, ib_currency = None\<rparr>"

definition demo_tenant :: TenantContext where
  "demo_tenant = \<lparr>tc_id = ''t1'', tc_slug = ''acme''\<rparr>"

lemma locks_wf_demo: "locks_wf demo_locks"
  unfolding demo_locks_def
  by (rule locks_wf_lockSeat) (simp_all add: locks_wf_def empty_locks_def)

lemma plain_demo: "plain_name ''acme''" "plain_name ''e1''"
  by (simp_all add: plain_name_def)

theorem seat_map_agrees_with_booking_check_witness:
  "is_ok (initiate_checks (demo_clock 2000) demo_tenant ''ann'' demo_dto demo_store)"
proof -
  have m: "getSeatMap star_glob (ic_now (demo_clock 2000)) (ic_locks (demo_clock 2000)) (tc_id demo_tenant)
      (tc_slug demo_tenant) (ib_eventId demo_dto) (Some ''ann'') demo_store =
    Inr (\<lparr>ev_id = ''e1'', ev_tenantId = ''t1'', ev_name = ''Show'', ev_startsAt = 900000,
          ev_totalSeats = 2, ev_createdAt = 0\<rparr>,
         [\<lparr>sv_id = ''s1'', sv_seatNumber = 1, sv_status = LOCKED_BY_ME, sv_mine = True\<rparr>,
          \<lparr>sv_id = ''s2'', sv_seatNumber = 2, sv_status = AVAILABLE, sv_mine = False\<rparr>])"
    by code_simp
  have "db_locks demo_store = demo_locks" by (simp add: demo_store_def)
  then show ?thesis
    using seat_map_agrees_with_booking_check [OF m _ star_glob_ok]
    by (simp add: locks_wf_demo plain_demo demo_tenant_def demo_dto_def demo_store_def)
qed

end
