(* ===== verification/BookingSystem.thy ===== *)
theory BookingSystem
  imports Accounts Events
begin

text \<open>
  The running service: every request that changes the store, as one step, and what every run
  keeps. A step serves one request to its end; all clock readings of the request lie between
  the times before and after it. The interleaving of two \<open>initiateBooking\<close> calls at the await
  of the payment provider is treated separately, with the two halves of the operation.
\<close>

record service_config =
  sc_lockTtl :: int
  sc_bookingTtl :: int
  sc_createOrder :: "order_request \<Rightarrow> order outcome"
  sc_payment :: payment_env
  sc_hash :: "string \<Rightarrow> string"
  sc_sign :: "jwt_claims \<Rightarrow> string"
  sc_parseDate :: "string \<Rightarrow> int option"

datatype request =
    Seat_Lock lock_request
  | Register string RegisterDto
  | Create_Tenant string CreateTenantDto
  | Create_Event int string "nat \<Rightarrow> string" string CreateEventDto
  | Initiate initiate_clock string string TenantContext string InitiateBookingDto
  | Payment_Webhook int string string string string "string option" webhook_body
  | Expire_Booking int string

fun handle :: "service_config \<Rightarrow> request \<Rightarrow> store \<Rightarrow> store" where
  "handle cfg (Seat_Lock q) s = s\<lparr>db_locks := serve (sc_lockTtl cfg) q (db_locks s)\<rparr>"
| "handle cfg (Register newId dto) s = fst (register (sc_hash cfg) (sc_sign cfg) newId dto s)"
| "handle cfg (Create_Tenant newId dto) s = fst (create_tenant newId dto s)"
| "handle cfg (Create_Event now newId newSeatId tenantId dto) s =
     fst (createEvent (sc_parseDate cfg) now newId newSeatId tenantId dto s)"
| "handle cfg (Initiate clk rnd newId tenant u dto) s =
     fst (initiateBooking (sc_createOrder cfg) (sc_bookingTtl cfg) clk rnd newId tenant u dto s)"
| "handle cfg (Payment_Webhook now rndEvent rndCode body sig header payload) s =
     fst (processPaymentWebhook (sc_payment cfg) rndEvent rndCode body sig header payload s)"
| "handle cfg (Expire_Booking now i) s = expirePendingBooking now i s"

fun readings :: "request \<Rightarrow> int list" where
  "readings (Seat_Lock (Lock_Request now _ _ _ _ _)) = [now]"
| "readings (Seat_Lock (Unlock_Request now _ _ _ _)) = [now]"
| "readings (Seat_Lock (Expiry_Job t t' _)) = [t, t']"
| "readings (Register _ _) = []"
| "readings (Create_Tenant _ _) = []"
| "readings (Create_Event now _ _ _ _) = [now]"
| "readings (Initiate clk _ _ _ _ _) =
     [ic_locks clk, ic_now clk, ic_receipt clk, ic_created clk, ic_queue clk, ic_release clk]"
| "readings (Payment_Webhook now _ _ _ _ _ _) = [now]"
| "readings (Expire_Booking now _) = [now]"

text \<open>A payment is prompt when the booking it pays has not expired yet.\<close>

fun prompt :: "request \<Rightarrow> store \<Rightarrow> bool" where
  "prompt (Payment_Webhook now _ _ _ _ _ payload) s \<longleftrightarrow>
     (\<forall>b \<in> set (db_bookings s). bk_razorpayOrderId b = Option.bind (wb_entity payload) pe_order_id
        \<and> bk_status b = PENDING \<longrightarrow> now < bk_expiresAt b)"
| "prompt _ s \<longleftrightarrow> True"

inductive service_step :: "service_config \<Rightarrow> int \<times> store \<Rightarrow> int \<times> store \<Rightarrow> bool" for cfg where
  served: "t \<le> t' \<Longrightarrow> \<forall>c \<in> set (readings q). t \<le> c \<and> c \<le> t' \<Longrightarrow>
    service_step cfg (t, s) (t', handle cfg q s)"

inductive prompt_step :: "service_config \<Rightarrow> int \<times> store \<Rightarrow> int \<times> store \<Rightarrow> bool" for cfg where
  served_promptly: "t \<le> t' \<Longrightarrow> \<forall>c \<in> set (readings q). t \<le> c \<and> c \<le> t' \<Longrightarrow> prompt q s \<Longrightarrow>
    prompt_step cfg (t, s) (t', handle cfg q s)"

inductive_cases service_stepE: "service_step cfg c d"
inductive_cases prompt_stepE: "prompt_step cfg c d"

section \<open>Well-formed stores\<close>

definition booking_wf :: "booking_row \<Rightarrow> bool" where
  "booking_wf b \<longleftrightarrow> bk_status b \<in> {PENDING, CONFIRMED, EXPIRED}
     \<and> (bk_status b = CONFIRMED \<longleftrightarrow> bk_ticketCode b \<noteq> None)
     \<and> (bk_status b = CONFIRMED \<longleftrightarrow> bk_razorpayPaymentId b \<noteq> None)"

definition bookings_wf :: "booking_row list \<Rightarrow> bool" where
  "bookings_wf bks \<longleftrightarrow> distinct (map bk_id bks) \<and> unique_column bk_razorpayOrderId bks
     \<and> unique_column bk_razorpayPaymentId bks \<and> unique_column bk_ticketCode bks
     \<and> (\<forall>b \<in> set bks. booking_wf b)"

definition booking_place :: "booking_row \<Rightarrow> string \<times> string \<times> string" where
  "booking_place b = (bk_id b, bk_eventId b, bk_tenantId b)"

text \<open>Every booked seat is a seat of the booking's event, every booking's event one of its
  tenant's.\<close>

definition places_wf ::
  "(string \<times> string \<times> string) list \<Rightarrow> booking_seat_row list \<Rightarrow> seat_row list \<Rightarrow> event_row list \<Rightarrow> bool" where
  "places_wf ps rows seats events \<longleftrightarrow> distinct (map st_id seats) \<and> distinct (map ev_id events)
     \<and> (\<forall>r \<in> set rows. \<exists>p \<in> set ps. fst p = bs_bookingId r
          \<and> (\<exists>x \<in> set seats. st_id x = bs_seatId r \<and> st_eventId x = fst (snd p)))
     \<and> (\<forall>p \<in> set ps. \<exists>e \<in> set events. ev_id e = fst (snd p) \<and> ev_tenantId e = snd (snd p))"

definition store_wf :: "store \<Rightarrow> bool" where
  "store_wf s \<longleftrightarrow> bookings_wf (db_bookings s)
     \<and> places_wf (map booking_place (db_bookings s)) (db_bookingSeats s) (db_seats s) (db_events s)"

text \<open>No seat is held by two bookings.\<close>

definition exclusive :: "int \<Rightarrow> booking_row list \<Rightarrow> booking_seat_row list \<Rightarrow> bool" where
  "exclusive now bks rows \<longleftrightarrow>
     (\<forall>b \<in> set bks. \<forall>c \<in> set bks. b \<noteq> c \<and> holds_seats now b \<and> holds_seats now c \<longrightarrow>
        set (seat_ids (bk_id b) rows) \<inter> set (seat_ids (bk_id c) rows) = {})"

section \<open>What an update of one booking keeps\<close>

lemma bookings_wf_update:
  assumes "bookings_wf bks" and "b \<in> set bks" and "bk_id b = k"
    and same: "\<And>r. bk_id (f r) = bk_id r" "\<And>r. bk_razorpayOrderId (f r) = bk_razorpayOrderId r"
    and pay: "\<And>r. bk_razorpayPaymentId (f r) = pid \<or> bk_razorpayPaymentId (f r) = bk_razorpayPaymentId r"
      "unique_free bk_razorpayPaymentId pid (filter (\<lambda>r. bk_id r \<noteq> k) bks)"
    and code: "\<And>r. bk_ticketCode (f r) = tc \<or> bk_ticketCode (f r) = bk_ticketCode r"
      "unique_free bk_ticketCode tc (filter (\<lambda>r. bk_id r \<noteq> k) bks)"
    and wf: "booking_wf (f b)"
  shows "bookings_wf (update_where (\<lambda>r. bk_id r = k) f bks)"
proof -
  let ?t = "update_where (\<lambda>r. bk_id r = k) f bks"
  have d: "distinct (map bk_id bks)" using assms(1) by (simp add: bookings_wf_def)
  have "map bk_id ?t = map bk_id bks" by (rule map_update_where) (rule same)
  moreover have "unique_column bk_razorpayOrderId ?t"
    using assms(1) d same(2)
    by (intro unique_column_update [where v = None]) (simp_all add: bookings_wf_def)
  moreover have "unique_column bk_razorpayPaymentId ?t"
    using assms(1) d pay
    by (intro unique_column_update [where v = pid]) (auto simp: bookings_wf_def unique_free_def)
  moreover have "unique_column bk_ticketCode ?t"
    using assms(1) d code
    by (intro unique_column_update [where v = tc]) (auto simp: bookings_wf_def unique_free_def)
  moreover have "booking_wf r" if "r \<in> set ?t" for r
  proof -
    from that obtain q where q: "q \<in> set bks" "r = (if bk_id q = k then f q else q)"
      by (auto simp: in_update_where)
    show ?thesis
    proof (cases "bk_id q = k")
      case True
      then have "q = b" using distinct_key_eq [OF d q(1) assms(2)] assms(3) by simp
      with True q wf show ?thesis by simp
    next
      case False
      with q assms(1) show ?thesis by (simp add: bookings_wf_def)
    qed
  qed
  ultimately show ?thesis using d by (simp add: bookings_wf_def)
qed

lemma exclusive_update:
  assumes "exclusive now bks rows"
    and "\<And>r. bk_id (f r) = bk_id r"
    and "\<And>r. r \<in> set bks \<Longrightarrow> bk_id r = k \<Longrightarrow> holds_seats now (f r) \<Longrightarrow> holds_seats now r"
  shows "exclusive now (update_where (\<lambda>r. bk_id r = k) f bks) rows"
  unfolding exclusive_def
proof (intro ballI impI, elim conjE)
  fix b c assume bc: "b \<in> set (update_where (\<lambda>r. bk_id r = k) f bks)"
    "c \<in> set (update_where (\<lambda>r. bk_id r = k) f bks)" "b \<noteq> c" "holds_seats now b" "holds_seats now c"
  then obtain b' c' where q: "b' \<in> set bks" "b = (if bk_id b' = k then f b' else b')"
    "c' \<in> set bks" "c = (if bk_id c' = k then f c' else c')" by (auto simp: in_update_where)
  with bc assms(3) have "holds_seats now b'" "holds_seats now c'" "b' \<noteq> c'" by (auto split: if_splits)
  moreover have "bk_id b = bk_id b'" "bk_id c = bk_id c'" using q assms(2) by auto
  ultimately show "set (seat_ids (bk_id b) rows) \<inter> set (seat_ids (bk_id c) rows) = {}"
    using assms(1) q by (auto simp: exclusive_def)
qed

lemma exclusive_later: "exclusive now bks rows \<Longrightarrow> now \<le> now' \<Longrightarrow> exclusive now' bks rows"
  unfolding exclusive_def using holds_seats_earlier by blast

lemma exclusive_new:
  assumes ex: "exclusive now bks rows" and fresh: "bk_id n \<notin> bk_id ` set bks"
    and rows: "\<And>r. r \<in> set rows \<Longrightarrow> bs_bookingId r \<noteq> bk_id n"
    and free: "\<And>b. b \<in> set bks \<Longrightarrow> holds_seats now b \<Longrightarrow> set (seat_ids (bk_id b) rows) \<inter> set xs = {}"
  shows "exclusive now (bks @ [n]) (rows @ map (\<lambda>x. \<lparr>bs_bookingId = bk_id n, bs_seatId = x\<rparr>) xs)"
proof -
  have "seat_ids (bk_id n) rows = []" using rows by (auto simp: seat_ids_def filter_empty_conv)
  moreover have "bk_id b \<noteq> bk_id n" if "b \<in> set bks" for b using that fresh by (metis image_eqI)
  ultimately show ?thesis using ex free by (auto simp: exclusive_def disjoint_iff)
qed

section \<open>What each operation keeps\<close>

lemma confirm_row_simps [simp]:
  "bk_id (confirm_row p g c q b) = bk_id b" "bk_status (confirm_row p g c q b) = CONFIRMED"
  "bk_razorpayOrderId (confirm_row p g c q b) = bk_razorpayOrderId b"
  "bk_razorpayPaymentId (confirm_row p g c q b) = Some p" "bk_ticketCode (confirm_row p g c q b) = Some c"
  "bk_tenantId (confirm_row p g c q b) = bk_tenantId b" "bk_eventId (confirm_row p g c q b) = bk_eventId b"
  "bk_expiresAt (confirm_row p g c q b) = bk_expiresAt b" "bk_userId (confirm_row p g c q b) = bk_userId b"
  by (simp_all add: confirm_row_def)

lemma expire_row_simps [simp]:
  "bk_id (expire_row b) = bk_id b" "bk_status (expire_row b) = EXPIRED"
  "bk_razorpayOrderId (expire_row b) = bk_razorpayOrderId b"
  "bk_razorpayPaymentId (expire_row b) = bk_razorpayPaymentId b"
  "bk_ticketCode (expire_row b) = bk_ticketCode b"
  "bk_tenantId (expire_row b) = bk_tenantId b" "bk_eventId (expire_row b) = bk_eventId b"
  by (simp_all add: expire_row_def)

lemma store_wf_cong:
  "db_bookings s' = db_bookings s \<Longrightarrow> db_bookingSeats s' = db_bookingSeats s \<Longrightarrow>
   db_seats s' = db_seats s \<Longrightarrow> db_events s' = db_events s \<Longrightarrow> store_wf s' = store_wf s"
  by (simp add: store_wf_def)

lemma store_wf_update_booking:
  assumes "store_wf s" and "\<And>r. booking_place (f r) = booking_place r"
    and "bookings_wf (update_where (\<lambda>r. bk_id r = k) f (db_bookings s))"
  shows "store_wf (s\<lparr>db_bookings := update_where (\<lambda>r. bk_id r = k) f (db_bookings s)\<rparr>)"
  using assms by (simp add: store_wf_def map_update_where)

lemma store_wf_createEvent [invariant_intros]:
  assumes "store_wf s"
  shows "store_wf (fst (createEvent parse now i newSeat tid dto s))"
proof -
  have "places_wf ps rows seats events \<Longrightarrow> distinct (map st_id (seats @ more)) \<Longrightarrow>
      i \<notin> ev_id ` set events \<Longrightarrow> ev_id e = i \<Longrightarrow> places_wf ps rows (seats @ more) (events @ [e])"
    for ps rows seats events more e
    unfolding places_wf_def by (auto; blast)
  with assms show ?thesis
    by (auto simp: createEvent_def store_wf_def Let_def split: option.splits)
qed

lemma confirm_order_tables:
  "db_bookingSeats (fst (confirm_order env rnd g o' p s)) = db_bookingSeats s"
  "db_seats (fst (confirm_order env rnd g o' p s)) = db_seats s"
  "db_events (fst (confirm_order env rnd g o' p s)) = db_events s"
  "db_webhookEvents (fst (confirm_order env rnd g o' p s)) = db_webhookEvents s"
  by (rule confirm_order_cases [of env rnd g o' p s]; simp)+

lemma store_wf_confirm_order [invariant_intros]:
  assumes "store_wf s"
  shows "store_wf (fst (confirm_order env rnd g o' p s))"
proof (cases rule: confirm_order_cases [of env rnd g o' p s])
  case (kept r)
  with assms show ?thesis by simp
next
  case (confirmed b qr)
  let ?f = "confirm_row p g (generateTicketCode rnd) qr"
  have "bookings_wf (update_where (\<lambda>r. bk_id r = bk_id b) ?f (db_bookings s))"
    using assms confirmed
    by (intro bookings_wf_update [where b = b and pid = "Some p" and tc = "Some (generateTicketCode rnd)"])
      (auto simp: store_wf_def booking_wf_def)
  then have "store_wf (s\<lparr>db_bookings := update_where (\<lambda>r. bk_id r = bk_id b) ?f (db_bookings s)\<rparr>)"
    using assms by (intro store_wf_update_booking) (simp_all add: booking_place_def)
  then show ?thesis using confirmed(6) by (simp add: store_wf_def)
qed

text \<open>A webhook is either answered without touching the bookings, or it is \<open>confirm_order\<close>
  after its event has been recorded.\<close>

lemma processPaymentWebhook_cases:
  obtains (quiet) s1 r where "processPaymentWebhook env re rc body g h pl s = (s1, r)"
    "s1 = s \<or> (\<exists>t. s1 = s\<lparr>db_webhookEvents := t\<rparr> \<and> set (db_webhookEvents s) \<subseteq> set t)"
    "r \<noteq> Inr Wh_confirmed"
  | (paid) t oid pid where "verifyWebhookSignature env body g" "body \<noteq> []" "g \<noteq> []"
    "Option.bind (wb_entity pl) pe_order_id = Some oid" "Option.bind (wb_entity pl) pe_id = Some pid"
    "set (db_webhookEvents s) \<subseteq> set t"
    "processPaymentWebhook env re rc body g h pl s = confirm_order env rc g oid pid (s\<lparr>db_webhookEvents := t\<rparr>)"
proof (cases "body = [] \<or> g = [] \<or> \<not> verifyWebhookSignature env body g")
  case True
  then have "\<exists>e. processPaymentWebhook env re rc body g h pl s = (s, Inl e)"
    by (auto simp: processPaymentWebhook_def)
  with quiet show thesis by blast
next
  case signed: False
  define pid where "pid = Option.bind (wb_entity pl) pe_id"
  define oid where "oid = Option.bind (wb_entity pl) pe_order_id"
  define row where "row = \<lparr>we_eventId = webhook_event_id re h (wb_event pl) pid,
    we_eventType = or_str (wb_event pl) ''unknown'', we_paymentId = pid, we_orderId = oid, we_payload = pl\<rparr>"
  have eq: "processPaymentWebhook env re rc body g h pl s =
      (case record_webhook_event row s of None \<Rightarrow> (s, Inr Wh_duplicate)
       | Some s1 \<Rightarrow> if \<not> truthy oid \<or> \<not> truthy pid then (s1, Inr Wh_ignored)
                   else confirm_order env rc g (the oid) (the pid) s1)"
    unfolding row_def pid_def oid_def using signed by (simp add: processPaymentWebhook_def Let_def)
  show thesis
  proof (cases "record_webhook_event row s")
    case None
    with eq show thesis by (intro quiet [of s "Inr Wh_duplicate"]) simp_all
  next
    case (Some s1)
    then have s1: "s1 = s\<lparr>db_webhookEvents := db_webhookEvents s @ [row]\<rparr>"
      by (auto simp: record_webhook_event_def table_insert_Some split: option.splits)
    show thesis
    proof (cases "truthy oid \<and> truthy pid")
      case True
      then show thesis
        using eq Some s1 signed
        by (intro paid [of "the oid" "the pid" "db_webhookEvents s @ [row]"])
          (auto simp: pid_def oid_def dest!: truthyD)
    next
      case False
      then have "processPaymentWebhook env re rc body g h pl s = (s1, Inr Wh_ignored)"
        using eq Some by auto
      then show thesis
        by (rule quiet) (use s1 in auto)
    qed
  qed
qed

lemma store_wf_webhook [invariant_intros]:
  assumes "store_wf s"
  shows "store_wf (fst (processPaymentWebhook env re rc body g h pl s))"
proof (cases rule: processPaymentWebhook_cases [of env re rc body g h pl s])
  case (quiet s1 r)
  with assms show ?thesis by (auto simp: store_wf_def)
next
  case (paid t oid pid)
  have "store_wf (s\<lparr>db_webhookEvents := t\<rparr>)" using assms by (simp add: store_wf_def)
  with paid(7) show ?thesis by (simp add: store_wf_confirm_order)
qed

lemma store_wf_expire [invariant_intros]:
  assumes "store_wf s"
  shows "store_wf (expirePendingBooking now i s)"
proof (cases "find_booking i s")
  case None
  with assms show ?thesis by (simp add: expirePendingBooking_def)
next
  case (Some b)
  note b = find_booking_in [OF Some]
  show ?thesis
  proof (cases "bk_status b \<noteq> PENDING \<or> now < bk_expiresAt b")
    case True
    with Some assms show ?thesis by (auto simp: expirePendingBooking_def)
  next
    case False
    have "bookings_wf (update_where (\<lambda>r. bk_id r = bk_id b) expire_row (db_bookings s))"
      using assms b False
      by (intro bookings_wf_update [where b = b and pid = None and tc = None])
        (auto simp: store_wf_def booking_wf_def bookings_wf_def)
    then have "store_wf (s\<lparr>db_bookings := update_where (\<lambda>r. bk_id r = bk_id b) expire_row (db_bookings s)\<rparr>)"
      using assms by (intro store_wf_update_booking) (simp_all add: booking_place_def)
    with Some False show ?thesis by (simp add: expirePendingBooking_def store_wf_def)
  qed
qed

lemma seats_of_event:
  assumes "store_wf s" and "initiate_checks clk tenant u dto s = Inr xs"
  shows "distinct xs" and "\<forall>x \<in> set xs. \<exists>q \<in> set (db_seats s). st_id q = x \<and> st_eventId q = ib_eventId dto"
    and "\<exists>e \<in> set (db_events s). ev_id e = ib_eventId dto \<and> ev_tenantId e = tc_id tenant"
proof -
  from assms(2) have i: "xs = dedupe (ib_seatIds dto)"
    "find (\<lambda>e. ev_id e = ib_eventId dto \<and> ev_tenantId e = tc_id tenant) (db_events s) \<noteq> None"
    "length (filter (\<lambda>x. st_id x \<in> set xs \<and> st_eventId x = ib_eventId dto) (db_seats s)) = length xs"
    by (simp_all add: initiate_checks_ok)
  then show d: "distinct xs" by simp
  from assms(1) have "distinct (map st_id (db_seats s))" by (simp add: store_wf_def places_wf_def)
  from selected_rows_length [OF this d] i(3)
  show "\<forall>x \<in> set xs. \<exists>q \<in> set (db_seats s). st_id q = x \<and> st_eventId q = ib_eventId dto" by auto
  from i(2) show "\<exists>e \<in> set (db_events s). ev_id e = ib_eventId dto \<and> ev_tenantId e = tc_id tenant"
    by (auto dest: find_in)
qed

lemma store_wf_initiate [invariant_intros]:
  assumes wf: "store_wf s"
  shows "store_wf (fst (initiateBooking co ttl clk rnd i tenant u dto s))"
proof (cases rule: initiateBooking_cases [of co ttl clk rnd i tenant u dto s])
  case (error e)
  with wf show ?thesis by simp
next
  case (booked xs order)
  note x = seats_of_event [OF wf booked(1)]
  show ?thesis
  proof (cases rule: initiate_commit_cases [of ttl clk i tenant u dto xs order s])
    case refused
    with booked wf show ?thesis by simp
  next
    case (created s' r)
    let ?n = "new_booking ttl clk i tenant u dto order"
    have "bookings_wf (db_bookings s @ [?n])"
      using wf created(2,3)
      by (auto simp: store_wf_def bookings_wf_def unique_column_append1 booking_wf_def new_booking_def
          unique_free_def)
    moreover have "places_wf (map booking_place (db_bookings s) @ [booking_place ?n])
        (db_bookingSeats s @ map (\<lambda>x. \<lparr>bs_bookingId = i, bs_seatId = x\<rparr>) xs) (db_seats s) (db_events s)"
      using wf x by (auto simp: store_wf_def places_wf_def booking_place_def new_booking_def)
    ultimately show ?thesis using booked(3) created(1,4-7) by (simp add: store_wf_def)
  qed
qed

lemma store_wf_accounts [invariant_intros]:
  "store_wf s \<Longrightarrow> store_wf (fst (register hash sign i dto s))"
  "store_wf s \<Longrightarrow> store_wf (fst (create_tenant i dto' s))"
  by (auto simp: register_def create_tenant_def Let_def store_wf_def split: option.splits)

lemma store_wf_locks [simp]: "store_wf (s\<lparr>db_locks := l\<rparr>) \<longleftrightarrow> store_wf s"
  by (simp add: store_wf_def)

lemma store_wf_handle: "store_wf s \<Longrightarrow> store_wf (handle cfg q s)"
  by (cases q) (simp_all add: invariant_intros)

interpretation service: invariant_system "service_step cfg" "\<lambda>(t, s). store_wf s" for cfg
  by unfold_locales (auto elim!: service_stepE simp: store_wf_handle)

section \<open>No seat is sold twice while payments are prompt\<close>

lemma held_seat_is_busy:
  assumes wf: "store_wf s" and checks: "initiate_checks clk tenant u dto s = Inr xs"
    and b: "b \<in> set (db_bookings s)" "holds_seats now b" and now: "now = ic_now clk"
  shows "set (seat_ids (bk_id b) (db_bookingSeats s)) \<inter> set xs = {}"
proof (rule ccontr)
  assume "\<not> ?thesis"
  then obtain x where x: "x \<in> set xs" "\<lparr>bs_bookingId = bk_id b, bs_seatId = x\<rparr> \<in> set (db_bookingSeats s)"
    by (auto simp: in_seat_ids)
  let ?r = "\<lparr>bs_bookingId = bk_id b, bs_seatId = x\<rparr>"
  note w = wf [unfolded store_wf_def places_wf_def bookings_wf_def]
  have find: "find_booking (bk_id b) s = Some b"
    using w b(1) by (auto simp: find_booking_def intro: find_distinct_key)
  from w x(2) obtain p y where p: "p \<in> set (db_bookings s)" "bk_id p = bk_id b" "y \<in> set (db_seats s)"
    "st_id y = x" "st_eventId y = bk_eventId p" by (fastforce simp: booking_place_def)
  moreover have "p = b" using w p(1,2) b(1) by (auto dest: distinct_key_eq)
  moreover from seats_of_event(2) [OF wf checks] x(1) obtain q where "q \<in> set (db_seats s)" "st_id q = x"
    "st_eventId q = ib_eventId dto" by auto
  moreover from calculation w have "q = y" by (metis distinct_key_eq)
  ultimately have ev: "bk_eventId b = ib_eventId dto" by simp
  from w b(1) obtain e where e: "e \<in> set (db_events s)" "ev_id e = bk_eventId b" "ev_tenantId e = bk_tenantId b"
    by (fastforce simp: booking_place_def)
  moreover from seats_of_event(3) [OF wf checks] obtain e' where "e' \<in> set (db_events s)"
    "ev_id e' = ib_eventId dto" "ev_tenantId e' = tc_id tenant" by auto
  moreover from calculation w ev have "e = e'" by (metis distinct_key_eq)
  ultimately have "bk_tenantId b = tc_id tenant" by simp
  with x b(2) find ev now have "?r \<in> set (busy_seat_rows (ic_now clk) (tc_id tenant) (ib_eventId dto) xs s)"
    by (simp add: busy_seat_rows_def)
  moreover from checks have "busy_seat_rows (ic_now clk) (tc_id tenant) (ib_eventId dto) xs s = []"
    by (simp add: initiate_checks_ok)
  ultimately show False by simp
qed

abbreviation seats_exclusive :: "int \<Rightarrow> store \<Rightarrow> bool" where
  "seats_exclusive now s \<equiv> exclusive now (db_bookings s) (db_bookingSeats s)"

lemma exclusive_initiate:
  assumes wf: "store_wf s" and ex: "seats_exclusive (ic_now clk) s"
  shows "seats_exclusive (ic_now clk) (fst (initiateBooking co ttl clk rnd i tenant u dto s))"
proof (cases rule: initiateBooking_cases [of co ttl clk rnd i tenant u dto s])
  case (error e)
  with ex show ?thesis by simp
next
  case (booked xs order)
  show ?thesis
  proof (cases rule: initiate_commit_cases [of ttl clk i tenant u dto xs order s])
    case refused
    with booked ex show ?thesis by simp
  next
    case (created s' r)
    let ?n = "new_booking ttl clk i tenant u dto order"
    have n: "bk_id ?n = i" by (simp add: new_booking_def)
    have "bs_bookingId r \<in> bk_id ` set (db_bookings s)" if "r \<in> set (db_bookingSeats s)" for r
      using wf that by (force simp: store_wf_def places_wf_def booking_place_def)
    then have "exclusive (ic_now clk) (db_bookings s @ [?n])
        (db_bookingSeats s @ map (\<lambda>x. \<lparr>bs_bookingId = bk_id ?n, bs_seatId = x\<rparr>) xs)"
      using ex created(2) held_seat_is_busy [OF wf booked(1)]
      by (intro exclusive_new) (auto simp: n)
    with booked(3) created(1,4,5) n show ?thesis by simp
  qed
qed

lemma exclusive_webhook:
  assumes wf: "store_wf s" and ex: "seats_exclusive now s"
    and prompt: "prompt (Payment_Webhook now re rc body g h pl) s"
  shows "seats_exclusive now (fst (processPaymentWebhook env re rc body g h pl s))"
proof (cases rule: processPaymentWebhook_cases [of env re rc body g h pl s])
  case (quiet s1 r)
  with ex show ?thesis by auto
next
  case (paid t oid pid)
  let ?s = "s\<lparr>db_webhookEvents := t\<rparr>"
  show ?thesis
  proof (cases rule: confirm_order_cases [of env rc g oid pid ?s])
    case (kept r)
    with paid(7) ex show ?thesis by simp
  next
    case (confirmed b qr)
    have d: "distinct (map bk_id (db_bookings s))" using wf by (simp add: store_wf_def bookings_wf_def)
    have "holds_seats now b" using prompt confirmed(1-3) paid(4) by (simp add: holds_seats_def)
    then have "exclusive now (update_where (\<lambda>r. bk_id r = bk_id b)
        (confirm_row pid g (generateTicketCode rc) qr) (db_bookings s)) (db_bookingSeats s)"
      using ex confirmed(1) distinct_key_eq [OF d] by (intro exclusive_update) auto
    with paid(7) confirmed(6) show ?thesis by simp
  qed
qed

lemma exclusive_expire:
  assumes "seats_exclusive t s"
  shows "seats_exclusive t (expirePendingBooking now i s)"
proof -
  have "exclusive t (update_where (\<lambda>r. bk_id r = k) expire_row (db_bookings s)) (db_bookingSeats s)" for k
    using assms by (intro exclusive_update) (auto simp: holds_seats_def)
  with assms show ?thesis
    by (auto simp: expirePendingBooking_def split: option.splits)
qed

lemma exclusive_other:
  "seats_exclusive t (fst (register hash sign i dto s)) = seats_exclusive t s"
  "seats_exclusive t (fst (create_tenant i dto' s)) = seats_exclusive t s"
  "seats_exclusive t (fst (createEvent parse now i newSeat tid dto'' s)) = seats_exclusive t s"
  by (auto simp: register_def create_tenant_def createEvent_def Let_def split: option.splits)

lemma exclusive_handle:
  assumes "store_wf s" and "seats_exclusive t s" and "t \<le> t'"
    and "\<forall>c \<in> set (readings q). t \<le> c \<and> c \<le> t'" and "prompt q s"
  shows "seats_exclusive t' (handle cfg q s)"
proof (cases q)
  case (Initiate clk rnd i tenant u dto)
  with assms(4) have "t \<le> ic_now clk" "ic_now clk \<le> t'" by auto
  with assms(1,2) Initiate show ?thesis
    using exclusive_later exclusive_initiate by (metis handle.simps(5))
next
  case (Payment_Webhook now re rc body g h pl)
  with assms(4) have "t \<le> now" "now \<le> t'" by auto
  with assms(1,2,5) Payment_Webhook show ?thesis
    using exclusive_later exclusive_webhook by (metis handle.simps(6))
qed (use assms exclusive_later in \<open>auto simp: exclusive_other exclusive_expire\<close>)

interpretation prompt_service: invariant_system "prompt_step cfg"
  "\<lambda>(t, s). store_wf s \<and> seats_exclusive t s" for cfg
  by unfold_locales (auto elim!: prompt_stepE simp: store_wf_handle exclusive_handle)

section \<open>Bookings are never lost, and settled ones never change\<close>

definition booking_follows :: "booking_row \<Rightarrow> booking_row \<Rightarrow> bool" where
  "booking_follows b c \<longleftrightarrow> bk_id c = bk_id b \<and> bk_tenantId c = bk_tenantId b \<and> bk_userId c = bk_userId b
     \<and> bk_eventId c = bk_eventId b \<and> bk_amount c = bk_amount b \<and> bk_expiresAt c = bk_expiresAt b
     \<and> bk_razorpayOrderId c = bk_razorpayOrderId b
     \<and> (if bk_status b = PENDING then bk_status c \<in> {PENDING, CONFIRMED, EXPIRED} else c = b)"

lemma booking_follows_refl [simp]: "booking_follows b b"
  by (simp add: booking_follows_def)

lemma booking_follows_trans: "booking_follows a b \<Longrightarrow> booking_follows b c \<Longrightarrow> booking_follows a c"
  by (auto simp: booking_follows_def split: if_splits)

definition bookings_follow :: "store \<Rightarrow> store \<Rightarrow> bool" where
  "bookings_follow s s' \<longleftrightarrow> (store_wf s \<longrightarrow> store_wf s' \<and>
     (\<forall>b \<in> set (db_bookings s). \<exists>c \<in> set (db_bookings s'). booking_follows b c))"

lemma follow_update:
  assumes "distinct (map bk_id bks)" and "b \<in> set bks" and "booking_follows b (f b)"
    and "a \<in> set bks"
  shows "\<exists>c \<in> set (update_where (\<lambda>r. bk_id r = bk_id b) f bks). booking_follows a c"
proof (cases "bk_id a = bk_id b")
  case True
  then have "a = b" using assms(1,2,4) by (rule_tac distinct_key_eq)
  with assms show ?thesis by (auto simp: in_update_where intro!: bexI)
next
  case False
  with assms(4) show ?thesis by (auto simp: in_update_where intro!: bexI [of _ a])
qed

lemma follow_confirm_order:
  assumes "store_wf s" and "a \<in> set (db_bookings s)"
  shows "\<exists>c \<in> set (db_bookings (fst (confirm_order env rnd g oid pid s))). booking_follows a c"
proof (cases rule: confirm_order_cases [of env rnd g oid pid s])
  case (kept r)
  with assms show ?thesis by (auto intro!: bexI [of _ a])
next
  case (confirmed b qr)
  have "distinct (map bk_id (db_bookings s))" using assms(1) by (simp add: store_wf_def bookings_wf_def)
  from follow_update [OF this confirmed(1), of "confirm_row pid g (generateTicketCode rnd) qr" a]
    confirmed(3,6) assms(2) show ?thesis
    by (simp add: booking_follows_def confirm_row_def)
qed

lemma follow_expire:
  assumes "store_wf s" and "a \<in> set (db_bookings s)"
  shows "\<exists>c \<in> set (db_bookings (expirePendingBooking now i s)). booking_follows a c"
proof (cases "find_booking i s")
  case (Some b)
  note b = find_booking_in [OF Some]
  have d: "distinct (map bk_id (db_bookings s))" using assms(1) by (simp add: store_wf_def bookings_wf_def)
  show ?thesis
  proof (cases "bk_status b \<noteq> PENDING \<or> now < bk_expiresAt b")
    case False
    with follow_update [OF d conjunct1 [OF b], of expire_row a] assms(2) Some show ?thesis
      by (simp add: expirePendingBooking_def booking_follows_def expire_row_def)
  qed (use Some assms in \<open>auto simp: expirePendingBooking_def intro!: bexI [of _ a]\<close>)
qed (use assms in \<open>auto simp: expirePendingBooking_def intro!: bexI [of _ a]\<close>)

lemma bookings_initiate:
  "\<exists>more. db_bookings (fst (initiateBooking co ttl clk rnd i tenant u dto s)) = db_bookings s @ more
     \<and> (\<forall>m \<in> set more. bk_status m = PENDING)"
proof (cases rule: initiateBooking_cases [of co ttl clk rnd i tenant u dto s])
  case (booked xs order)
  then show ?thesis
    by (cases rule: initiate_commit_cases [of ttl clk i tenant u dto xs order s])
      (auto simp: new_booking_def)
qed auto

lemma follow_handle:
  assumes "store_wf s" and "a \<in> set (db_bookings s)"
  shows "\<exists>c \<in> set (db_bookings (handle cfg q s)). booking_follows a c"
proof (cases q)
  case (Initiate clk rnd i tenant u dto)
  with assms(2) bookings_initiate [of "sc_createOrder cfg" "sc_bookingTtl cfg" clk rnd i tenant u dto s]
  show ?thesis by (auto intro!: bexI [of _ a])
next
  case (Payment_Webhook now re rc body g h pl)
  show ?thesis
  proof (cases rule: processPaymentWebhook_cases [of "sc_payment cfg" re rc body g h pl s])
    case (quiet s1 r)
    with Payment_Webhook assms(2) show ?thesis by (auto intro!: bexI [of _ a])
  next
    case (paid t oid pid)
    have "store_wf (s\<lparr>db_webhookEvents := t\<rparr>)" using assms(1) by (simp add: store_wf_def)
    from follow_confirm_order [OF this, of a] assms(2) Payment_Webhook paid(7) show ?thesis by simp
  qed
next
  case (Expire_Booking now i)
  with assms show ?thesis by (simp add: follow_expire)
qed (use assms in \<open>auto simp: register_def create_tenant_def createEvent_def Let_def
  intro!: bexI [of _ a] split: option.splits\<close>)

lemma bookings_follow_trans: "bookings_follow s t \<Longrightarrow> bookings_follow t u \<Longrightarrow> bookings_follow s u"
  unfolding bookings_follow_def using booking_follows_trans by meson

interpretation history: monotone_system "service_step cfg" "\<lambda>c d. bookings_follow (snd c) (snd d)" for cfg
proof unfold_locales
  show "bookings_follow (snd c) (snd c)" for c :: "int \<times> store"
    by (auto simp: bookings_follow_def intro: booking_follows_refl)
  show "bookings_follow (snd c) (snd d) \<Longrightarrow> bookings_follow (snd d) (snd e) \<Longrightarrow>
    bookings_follow (snd c) (snd e)" for c d e :: "int \<times> store"
    by (rule bookings_follow_trans)
  show "service_step cfg c d \<Longrightarrow> bookings_follow (snd c) (snd d)" for c d
    by (auto elim!: service_stepE simp: bookings_follow_def store_wf_handle follow_handle)
qed

end
