(* ===== verification/BookingGuarantees.thy ===== *)
theory BookingGuarantees
  imports BookingSystem
begin

text \<open>
  What the booking flow guarantees its users, and where it does not: the properties of single
  operations and of whole runs, over the step relation of \<open>BookingSystem\<close>. The concrete runs
  used as examples are lists of timed requests, played in order.
\<close>

section \<open>Playing a list of requests\<close>

fun play :: "service_config \<Rightarrow> (int \<times> request) list \<Rightarrow> store \<Rightarrow> store" where
  "play cfg [] s = s"
| "play cfg ((t, q) # qs) s = play cfg qs (handle cfg q s)"

fun in_order :: "int \<Rightarrow> (int \<times> request) list \<Rightarrow> bool" where
  "in_order t [] \<longleftrightarrow> True"
| "in_order t ((t', q) # qs) \<longleftrightarrow>
     t \<le> t' \<and> list_all (\<lambda>c. t \<le> c \<and> c \<le> t') (readings q) \<and> in_order t' qs"

fun all_prompt :: "service_config \<Rightarrow> (int \<times> request) list \<Rightarrow> store \<Rightarrow> bool" where
  "all_prompt cfg [] s \<longleftrightarrow> True"
| "all_prompt cfg ((t, q) # qs) s \<longleftrightarrow> prompt q s \<and> all_prompt cfg qs (handle cfg q s)"

fun end_time :: "int \<Rightarrow> (int \<times> request) list \<Rightarrow> int" where
  "end_time t [] = t"
| "end_time t ((t', q) # qs) = end_time t' qs"

lemma run_front: "step s t \<Longrightarrow> run step t u \<Longrightarrow> run step s u"
  by (rule run_trans) (auto intro: run.intros)

lemma play_run: "in_order t qs \<Longrightarrow> run (service_step cfg) (t, s) (end_time t qs, play cfg qs s)"
  by (induction cfg qs s arbitrary: t rule: play.induct)
    (auto intro: run.intros run_front served simp: list_all_iff)

lemma play_prompt_run:
  "in_order t qs \<Longrightarrow> all_prompt cfg qs s \<Longrightarrow> run (prompt_step cfg) (t, s) (end_time t qs, play cfg qs s)"
  by (induction cfg qs s arbitrary: t rule: play.induct)
    (auto intro: run.intros run_front served_promptly simp: list_all_iff)

text \<open>Who holds or held which seats.\<close>

definition booking_summary :: "store \<Rightarrow> (string \<times> booking_status \<times> string list) list" where
  "booking_summary s = map (\<lambda>b. (bk_userId b, bk_status b, seats_of (bk_id b) s)) (db_bookings s)"

definition demo_env :: payment_env where
  "demo_env = \<lparr>py_hmac = (\<lambda>k m. k @ m), py_secret = ''k'', py_qr = (\<lambda>x. Inr ''qr'')\<rparr>"

definition demo_config :: service_config where
  "demo_config = \<lparr>sc_lockTtl = 300, sc_bookingTtl = 5,
     sc_createOrder = (\<lambda>q. Inr \<lparr>or_id = oq_receipt q, or_amount = oq_amount q, or_currency = oq_currency q\<rparr>),
     sc_payment = demo_env, sc_hash = id, sc_sign = jw_sub, sc_parseDate = (\<lambda>x. None)\<rparr>"

definition demo_payment :: "string \<Rightarrow> string \<Rightarrow> string \<Rightarrow> webhook_body" where
  "demo_payment kind oid pid =
     \<lparr>wb_event = Some kind, wb_entity = Some \<lparr>pe_id = Some pid, pe_order_id = Some oid\<rparr>\<rparr>"

text \<open>Ann books seat \<open>s1\<close> at 2000; her booking expires at 302000.\<close>

definition ann_books :: "int \<times> request" where
  "ann_books = (2000, Initiate (demo_clock 2000) ''a'' ''b1'' demo_tenant ''ann'' demo_dto)"

definition ann_pays :: "int \<Rightarrow> int \<times> request" where
  "ann_pays t = (t, Payment_Webhook t ''r'' ''aa'' ''x'' ''kx'' (Some ''w1'')
     (demo_payment ''payment.captured'' ''bk_2000_a'' ''p1''))"

definition bob_books_and_pays :: "(int \<times> request) list" where
  "bob_books_and_pays =
     [(400000, Seat_Lock (Lock_Request 400000 ''k2'' ''acme'' ''e1'' ''s1'' ''bob'')),
      (401000, Initiate (demo_clock 401000) ''b'' ''b2'' demo_tenant ''bob'' demo_dto),
      (402000, Payment_Webhook 402000 ''r'' ''bb'' ''y'' ''ky'' (Some ''w2'')
         (demo_payment ''payment.captured'' ''bk_401000_b'' ''p2''))]"

lemma demo_store_wf: "store_wf demo_store"
  by (simp add: store_wf_def bookings_wf_def places_wf_def demo_store_def empty_store_def)

lemma service_keeps_store_wf_aux:
  "run (service_step cfg) (t, s) (t', s') \<Longrightarrow> store_wf s \<Longrightarrow> store_wf s'"
  using service.run_inv [of cfg "(t, s)" "(t', s')"] by simp

lemma demo_store_exclusive: "seats_exclusive t demo_store"
  by (simp add: exclusive_def demo_store_def empty_store_def)

section \<open>Whole runs\<close>




definition bob_books_s2 :: "(int \<times> request) list" where
  "bob_books_s2 =
     [(2500, Seat_Lock (Lock_Request 2500 ''k2'' ''acme'' ''e1'' ''s2'' ''bob'')),
      (3000, Initiate (demo_clock 3000) ''b'' ''b2'' demo_tenant ''bob'' (demo_dto\<lparr>ib_seatIds := [''s2'', ''s2'']\<rparr>))]"





section \<open>Webhooks\<close>

text \<open>The event table as a unique index: the interface \<open>unique_insert\<close> on
  \<open>PaymentWebhookEvent.eventId\<close>.\<close>

definition webhook_ids :: "store \<Rightarrow> string set" where
  "webhook_ids s = we_eventId ` set (db_webhookEvents s)"

interpretation webhook_events: unique_insert webhook_ids
  "\<lambda>k s. record_webhook_event (row\<lparr>we_eventId := k\<rparr>) s" for row
  by unfold_locales
    (auto simp: webhook_ids_def record_webhook_event_def table_insert_None table_insert_Some split: option.splits)

lemma webhook_ids_handle: "webhook_ids s \<subseteq> webhook_ids (handle cfg q s)"
proof (cases q)
  case (Initiate clk rnd i tenant u dto)
  show ?thesis
  proof (cases rule: initiateBooking_cases [of "sc_createOrder cfg" "sc_bookingTtl cfg" clk rnd i tenant u dto s])
    case (booked xs order)
    then show ?thesis
      by (cases rule: initiate_commit_cases [of "sc_bookingTtl cfg" clk i tenant u dto xs order s])
        (simp_all add: Initiate webhook_ids_def)
  qed (simp add: Initiate)
next
  case (Payment_Webhook now re rc body g h pl)
  then show ?thesis
    by (cases rule: processPaymentWebhook_cases [of "sc_payment cfg" re rc body g h pl s])
      (auto simp: webhook_ids_def confirm_order_tables)
qed (auto simp: register_def create_tenant_def createEvent_def expirePendingBooking_def webhook_ids_def
      Let_def split: option.splits)

interpretation webhook_log: monotone_system "service_step cfg"
  "\<lambda>c d. webhook_ids (snd c) \<subseteq> webhook_ids (snd d)" for cfg
  by unfold_locales (auto elim!: service_stepE dest: subsetD [OF webhook_ids_handle])

text \<open>A signed webhook with an event id, split at the recording of its event.\<close>

lemma signed_webhook:
  assumes "body \<noteq> []" and "verifyWebhookSignature env body g" and "g \<noteq> []" and "h \<noteq> []"
  shows "h \<in> webhook_ids s \<Longrightarrow> processPaymentWebhook env re rc body g (Some h) pl s = (s, Inr Wh_duplicate)"
    and "h \<in> webhook_ids (fst (processPaymentWebhook env re rc body g (Some h) pl s))"
proof -
  define row where "row = \<lparr>we_eventId = h, we_eventType = or_str (wb_event pl) ''unknown'',
    we_paymentId = Option.bind (wb_entity pl) pe_id, we_orderId = Option.bind (wb_entity pl) pe_order_id,
    we_payload = pl\<rparr>"
  let ?oid = "Option.bind (wb_entity pl) pe_order_id" and ?pid = "Option.bind (wb_entity pl) pe_id"
  have eq: "processPaymentWebhook env re rc body g (Some h) pl s =
      (case record_webhook_event row s of None \<Rightarrow> (s, Inr Wh_duplicate)
       | Some s1 \<Rightarrow> if \<not> truthy ?oid \<or> \<not> truthy ?pid then (s1, Inr Wh_ignored)
                   else confirm_order env rc g (the ?oid) (the ?pid) s1)" for s
    using assms by (simp add: processPaymentWebhook_def webhook_event_id_def row_def or_str_def [of "Some h"]
        Let_def)
  have row: "row\<lparr>we_eventId := h\<rparr> = row" by (simp add: row_def)
  show "h \<in> webhook_ids s \<Longrightarrow> processPaymentWebhook env re rc body g (Some h) pl s = (s, Inr Wh_duplicate)"
    using webhook_events.add_None [of h row s] row by (simp add: eq)
  show "h \<in> webhook_ids (fst (processPaymentWebhook env re rc body g (Some h) pl s))"
  proof (cases "record_webhook_event row s")
    case None
    then show ?thesis using webhook_events.add_None [of h row s] row by (simp add: eq)
  next
    case (Some s1)
    then have "h \<in> webhook_ids s1" using webhook_events.add_Some [of h row s s1] row by simp
    with Some show ?thesis by (simp add: eq webhook_ids_def confirm_order_tables)
  qed
qed

text \<open>
  C6. Webhooks are idempotent. Once a signed webhook with an event id has been processed, with
  whatever outcome, every later signed delivery of that id, after any run of the service, is
  answered as a duplicate and leaves the store as it is.
\<close>

theorem webhook_redelivery_is_duplicate:
  assumes "verifyWebhookSignature (sc_payment cfg) body g" and "body \<noteq> []" and "g \<noteq> []" and "h \<noteq> []"
    and "run (service_step cfg)
      (t, fst (processPaymentWebhook (sc_payment cfg) re rc body g (Some h) pl s)) (t', s')"
    and "verifyWebhookSignature (sc_payment cfg) body' g'" and "body' \<noteq> []" and "g' \<noteq> []"
  shows "processPaymentWebhook (sc_payment cfg) re' rc' body' g' (Some h) pl' s' = (s', Inr Wh_duplicate)"
proof -
  have "h \<in> webhook_ids (fst (processPaymentWebhook (sc_payment cfg) re rc body g (Some h) pl s))"
    by (rule signed_webhook(2) [OF assms(2,1,3,4)])
  also have "\<dots> \<subseteq> webhook_ids s'" using webhook_log.run_le [OF assms(5)] by simp
  finally show ?thesis by (rule signed_webhook(1) [OF assms(7,6,8,4)])
qed

theorem webhook_redelivery_is_duplicate_witness:
  "\<exists>s'. processPaymentWebhook demo_env ''r'' ''cc'' ''x'' ''kx'' (Some ''w1'') (demo_payment ''e'' ''o'' ''p'') s' =
     (s', Inr Wh_duplicate) \<and> webhook_ids s' \<noteq> {}"
proof -
  let ?pl = "demo_payment ''e'' ''o'' ''p''"
  let ?s = "fst (processPaymentWebhook (sc_payment demo_config) ''r'' ''aa'' ''x'' ''kx'' (Some ''w1'') ?pl demo_store)"
  have v: "verifyWebhookSignature (sc_payment demo_config) ''x'' ''kx''" "sc_payment demo_config = demo_env"
    by (simp_all add: verifyWebhookSignature_def demo_config_def demo_env_def)
  have "processPaymentWebhook (sc_payment demo_config) ''r'' ''cc'' ''x'' ''kx'' (Some ''w1'') ?pl ?s =
      (?s, Inr Wh_duplicate)"
    by (rule webhook_redelivery_is_duplicate [OF v(1) _ _ _ run_refl v(1)]) simp_all
  moreover have "''w1'' \<in> webhook_ids ?s" by (rule signed_webhook(2)) (use v in simp_all)
  ultimately show ?thesis using v(2) by auto
qed

text \<open>
  C3. A webhook that is not signed with the secret changes nothing, and no other request
  confirms a booking: when a step turns a pending booking into a confirmed one, it served a
  webhook whose body is signed and names the booking's order.
\<close>

theorem only_signed_webhooks_confirm:
  assumes "store_wf s" and "b \<in> set (db_bookings s)" and "bk_status b = PENDING"
    and "c \<in> set (db_bookings (handle cfg q s))" and "bk_id c = bk_id b" and "bk_status c = CONFIRMED"
  shows "\<exists>now re rc body g h pl. q = Payment_Webhook now re rc body g h pl
    \<and> verifyWebhookSignature (sc_payment cfg) body g
    \<and> Option.bind (wb_entity pl) pe_order_id = bk_razorpayOrderId b \<and> bk_razorpaySignature c = Some g"
proof -
  have d: "distinct (map bk_id (db_bookings s))" using assms(1) by (simp add: store_wf_def bookings_wf_def)
  have old: "c \<notin> set (db_bookings s)"
    using distinct_key_eq [OF d _ assms(2), of c] assms(3,5,6) by auto
  show ?thesis
  proof (cases q)
    case (Initiate clk rnd i tenant u dto)
    with bookings_initiate [of "sc_createOrder cfg" "sc_bookingTtl cfg" clk rnd i tenant u dto s] assms(4,6) old
    show ?thesis by auto
  next
    case (Expire_Booking now i)
    with assms(4,6) old show ?thesis
      by (auto simp: expirePendingBooking_def in_update_where split: option.splits if_splits)
  next
    case (Payment_Webhook now re rc body g h pl)
    show ?thesis
    proof (cases rule: processPaymentWebhook_cases [of "sc_payment cfg" re rc body g h pl s])
      case (quiet s1 r)
      with Payment_Webhook assms(4) old show ?thesis by auto
    next
      case (paid t oid pid)
      show ?thesis
      proof (cases rule: confirm_order_cases [of "sc_payment cfg" rc g oid pid "s\<lparr>db_webhookEvents := t\<rparr>"])
        case (kept r)
        with paid(7) Payment_Webhook assms(4) old show ?thesis by simp
      next
        case (confirmed x qr)
        with paid(7) Payment_Webhook assms(4) old have c: "bk_id x = bk_id c"
          "bk_razorpaySignature c = Some g" by (auto simp: in_update_where confirm_row_def split: if_splits)
        have "x = b" using confirmed(1) c(1) assms(2,5) distinct_key_eq [OF d, of x b] by simp
        with c(2) confirmed(2) paid(1,4) Payment_Webhook show ?thesis by simp
      qed
    qed
  qed (use assms(4) old in \<open>auto simp: register_def create_tenant_def createEvent_def Let_def
    split: option.splits if_splits\<close>)
qed

text \<open>The event type is never read: a signed notice that a payment has failed confirms the
  booking too.\<close>

lemma failed_payment_confirms:
  "booking_summary (play demo_config [ann_books, (3000, Payment_Webhook 3000 ''r'' ''aa'' ''x'' ''kx'' (Some ''w1'')
     (demo_payment ''payment.failed'' ''bk_2000_a'' ''p1''))] demo_store) = [(''ann'', CONFIRMED, [''s1''])]"
  by code_simp

theorem only_signed_webhooks_confirm_witness:
  "\<exists>now re rc body g h pl.
     (3000, Payment_Webhook 3000 ''r'' ''aa'' ''x'' ''kx'' (Some ''w1'')
       (demo_payment ''payment.captured'' ''bk_2000_a'' ''p1'')) = (3000 :: int, Payment_Webhook now re rc body g h pl)
     \<and> verifyWebhookSignature demo_env body g \<and> Option.bind (wb_entity pl) pe_order_id = Some ''bk_2000_a''"
proof -
  let ?s = "play demo_config [ann_books] demo_store"
  let ?q = "Payment_Webhook 3000 ''r'' ''aa'' ''x'' ''kx'' (Some ''w1'')
    (demo_payment ''payment.captured'' ''bk_2000_a'' ''p1'')"
  have "let bks = db_bookings ?s; bks' = db_bookings (handle demo_config ?q ?s) in
      length bks = 1 \<and> bk_status (bks ! 0) = PENDING \<and> bk_razorpayOrderId (bks ! 0) = Some ''bk_2000_a''
      \<and> length bks' = 1 \<and> bk_status (bks' ! 0) = CONFIRMED \<and> bk_id (bks' ! 0) = bk_id (bks ! 0)"
    by code_simp
  then have e: "db_bookings ?s ! 0 \<in> set (db_bookings ?s)" "bk_status (db_bookings ?s ! 0) = PENDING"
    "db_bookings (handle demo_config ?q ?s) ! 0 \<in> set (db_bookings (handle demo_config ?q ?s))"
    "bk_id (db_bookings (handle demo_config ?q ?s) ! 0) = bk_id (db_bookings ?s ! 0)"
    "bk_status (db_bookings (handle demo_config ?q ?s) ! 0) = CONFIRMED"
    "bk_razorpayOrderId (db_bookings ?s ! 0) = Some ''bk_2000_a''"
    by (simp_all add: Let_def)
  have "in_order 1000 [ann_books]" by (simp add: ann_books_def demo_clock_def)
  then have wf: "store_wf ?s" using service_keeps_store_wf_aux [OF play_run demo_store_wf] by blast
  have "sc_payment demo_config = demo_env" by (simp add: demo_config_def)
  with only_signed_webhooks_confirm [OF wf e(1-5)] e(6) show ?thesis by auto
qed

end
