(* ===== verification/BookingOperations.thy ===== *)
theory BookingOperations
  imports BookingGuarantees
begin

text \<open>
  The operations of the booking flow one by one: what a successful \<open>initiateBooking\<close>
  establishes and what its refusals leave, who can pass its checks at one time, what the gap
  between its checks and its commit allows, what its expiry job ends, and that a confirmed
  payment yields a ticket that verifies.
\<close>



text \<open>
  C9. Two users can never pass the checks of \<open>initiateBooking\<close> at the same time for overlapping
  seats, and after a booking has been initiated nobody, the same user included, passes them
  for any of its seats until the seat has been locked again.
\<close>

theorem checks_are_mutually_exclusive:
  assumes "is_ok (initiate_checks clk tenant u dto s)"
    and "ib_eventId dto' = ib_eventId dto"
    and "set (ib_seatIds dto) \<inter> set (ib_seatIds dto') \<noteq> {}"
  shows "(ic_locks clk' = ic_locks clk \<and> v \<noteq> u \<longrightarrow> \<not> is_ok (initiate_checks clk' tenant v dto' s)) \<and>
    (is_ok (snd (initiateBooking co ttl clk rnd newId tenant u dto s)) \<and> ic_release clk \<le> ic_locks clk' \<longrightarrow>
      \<not> is_ok (initiate_checks clk' tenant v dto' (fst (initiateBooking co ttl clk rnd newId tenant u dto s))))"
proof (rule conjI)
  show "ic_locks clk' = ic_locks clk \<and> v \<noteq> u \<longrightarrow> \<not> is_ok (initiate_checks clk' tenant v dto' s)"
    using initiate_checks_overlap assms by metis
  show "is_ok (snd (initiateBooking co ttl clk rnd newId tenant u dto s)) \<and> ic_release clk \<le> ic_locks clk' \<longrightarrow>
      \<not> is_ok (initiate_checks clk' tenant v dto' (fst (initiateBooking co ttl clk rnd newId tenant u dto s)))"
  proof (intro impI, elim conjE)
    assume ok: "is_ok (snd (initiateBooking co ttl clk rnd newId tenant u dto s))"
      and t: "ic_release clk \<le> ic_locks clk'"
    let ?s = "fst (initiateBooking co ttl clk rnd newId tenant u dto s)"
    obtain x where x: "x \<in> set (ib_seatIds dto)" "x \<in> set (ib_seatIds dto')" using assms(3) by blast
    have "lock_owner (ic_locks clk') (tc_slug tenant) (ib_eventId dto) x (db_locks ?s) = None"
    proof (cases rule: initiateBooking_cases [of co ttl clk rnd newId tenant u dto s])
      case (error e)
      with ok show ?thesis by simp
    next
      case (booked xs order)
      then have xs: "xs = dedupe (ib_seatIds dto)" by (simp add: initiate_checks_ok)
      show ?thesis
      proof (cases rule: initiate_commit_cases [of ttl clk newId tenant u dto xs order s])
        case (created s' r)
        with booked(3) xs x t show ?thesis by (simp add: seat_locks.release_owner)
      qed (use booked(4) in simp)
    qed
    with x(2) assms(2) show "\<not> is_ok (initiate_checks clk' tenant v dto' ?s)"
      by (auto simp: is_ok_iff initiate_checks_ok)
  qed
qed

theorem checks_are_mutually_exclusive_witness:
  "is_ok (initiate_checks (demo_clock 2000) demo_tenant ''ann'' demo_dto demo_store) \<and>
   \<not> is_ok (initiate_checks (demo_clock 2000) demo_tenant ''bob'' demo_dto demo_store)"
proof -
  have "is_ok (initiate_checks (demo_clock 2000) demo_tenant ''ann'' demo_dto demo_store)" by code_simp
  with checks_are_mutually_exclusive [OF this, of demo_dto "demo_clock 2000" "''bob''"] show ?thesis
    by (simp add: demo_dto_def)
qed

text \<open>
  The checks and the commit of \<open>initiateBooking\<close> are not atomic: when one user submits the
  same seats twice, both calls can pass their checks before either commits, both commits
  succeed, and the seat is held by two pending bookings.
\<close>

theorem double_submit_race:
  "\<exists>xs s1 r1 s2 r2.
     initiate_checks (demo_clock 2000) demo_tenant ''ann'' demo_dto demo_store = Inr xs \<and>
     initiate_commit 5 (demo_clock 2000) ''b1'' demo_tenant ''ann'' demo_dto xs
       \<lparr>or_id = ''o1'', or_amount = 500, or_currency = ''INR''\<rparr> demo_store = (s1, Inr r1) \<and>
     initiate_commit 5 (demo_clock 2000) ''b2'' demo_tenant ''ann'' demo_dto xs
       \<lparr>or_id = ''o2'', or_amount = 500, or_currency = ''INR''\<rparr> s1 = (s2, Inr r2) \<and>
     store_wf s2 \<and> \<not> seats_exclusive 2000 s2"
proof -
  have checks: "initiate_checks (demo_clock 2000) demo_tenant ''ann'' demo_dto demo_store = Inr [''s1'']"
    by code_simp
  let ?o1 = "\<lparr>or_id = ''o1'', or_amount = 500, or_currency = ''INR''\<rparr>"
  let ?o2 = "\<lparr>or_id = ''o2'', or_amount = 500, or_currency = ''INR''\<rparr>"
  let ?c1 = "initiate_commit 5 (demo_clock 2000) ''b1'' demo_tenant ''ann'' demo_dto [''s1''] ?o1 demo_store"
  let ?c2 = "initiate_commit 5 (demo_clock 2000) ''b2'' demo_tenant ''ann'' demo_dto [''s1''] ?o2 (fst ?c1)"
  have b: "db_bookings demo_store = []" "db_bookingSeats demo_store = []"
    by (simp_all add: demo_store_def empty_store_def)
  show ?thesis
  proof (cases rule: initiate_commit_cases [of 5 "demo_clock 2000" "''b1''" demo_tenant "''ann''" demo_dto
        "[''s1'']" ?o1 demo_store])
    case refused
    with b show ?thesis by simp
  next
    case one: (created s1 r1)
    show ?thesis
    proof (cases rule: initiate_commit_cases [of 5 "demo_clock 2000" "''b2''" demo_tenant "''ann''" demo_dto
          "[''s1'']" ?o2 s1])
      case refused
      with b one show ?thesis by (simp add: new_booking_def)
    next
      case two: (created s2 r2)
      have "store_wf s2" using b one two
        by (simp add: store_wf_def bookings_wf_def places_wf_def new_booking_def booking_wf_def
            unique_free_def booking_place_def demo_tenant_def demo_dto_def demo_store_def empty_store_def)
      moreover have "\<not> seats_exclusive 2000 s2"
        using b one two by (simp add: exclusive_def new_booking_def holds_seats_def demo_clock_def seat_ids_def)
      ultimately show ?thesis using checks one(1) two(1) by blast
    qed
  qed
qed

text \<open>
  C10. A booking never stays pending past its expiry job. Whatever is served between a
  successful \<open>initiateBooking\<close> and the time its expiry job is due, when the job runs the
  booking is still there and ends up confirmed or expired; an expired one holds no seat.
\<close>

theorem expiry_job_settles_booking:
  assumes "store_wf s"
    and "initiateBooking (sc_createOrder cfg) (sc_bookingTtl cfg) clk rnd newId tenant u dto s = (s1, Inr r)"
    and "run (service_step cfg) (t, s1) (t', s2)"
    and "j \<in> set (db_expiryQueue s1)" and "xj_bookingId j = newId"
    and "\<forall>k \<in> set (db_expiryQueue s). xj_bookingId k \<noteq> newId"
    and "ic_queue clk + xj_delay j \<le> now"
  shows "\<exists>b. find_booking newId (expirePendingBooking now newId s2) = Some b \<and> bk_userId b = u
    \<and> (bk_status b = CONFIRMED \<or> bk_status b = EXPIRED \<and> (\<forall>later. \<not> holds_seats later b))"
proof -
  let ?co = "sc_createOrder cfg" and ?ttl = "sc_bookingTtl cfg"
  have "\<exists>b. b \<in> set (db_bookings s1) \<and> bk_id b = newId \<and> bk_userId b = u \<and> bk_status b = PENDING
      \<and> bk_expiresAt b \<le> ic_queue clk + xj_delay j"
  proof (cases rule: initiateBooking_cases [of ?co ?ttl clk rnd newId tenant u dto s])
    case (error e)
    with assms(2) show ?thesis by simp
  next
    case (booked xs order)
    show ?thesis
    proof (cases rule: initiate_commit_cases [of ?ttl clk newId tenant u dto xs order s])
      case refused
      with booked(4) show ?thesis by simp
    next
      case (created s1' r')
      with booked(3) assms(2) have "s1' = s1" by simp
      with created assms(4-6) show ?thesis
        by (intro exI [of _ "new_booking ?ttl clk newId tenant u dto order"])
          (auto simp: new_booking_def)
    qed
  qed
  then obtain b where b: "b \<in> set (db_bookings s1)" "bk_id b = newId" "bk_userId b = u"
    "bk_status b = PENDING" "bk_expiresAt b \<le> ic_queue clk + xj_delay j" by blast
  have wf1: "store_wf s1"
    using store_wf_initiate [OF assms(1), of ?co ?ttl clk rnd newId tenant u dto] assms(2) by simp
  with history.run_le [OF assms(3)] b(1) obtain c where c: "c \<in> set (db_bookings s2)" "booking_follows b c"
    by (auto simp: bookings_follow_def)
  have d: "distinct (map bk_id (db_bookings s2))"
    using service_keeps_store_wf_aux [OF assms(3) wf1] by (simp add: store_wf_def bookings_wf_def)
  have c': "bk_id c = newId" "bk_userId c = u" "bk_status c \<in> {PENDING, CONFIRMED, EXPIRED}"
    "bk_expiresAt c \<le> now"
    using c(2) b assms(7) by (auto simp: booking_follows_def)
  have find: "find_booking newId s2 = Some c"
    unfolding find_booking_def using find_distinct_key [OF d c(1) c'(1)] .
  show ?thesis
  proof (cases "bk_status c = PENDING")
    case True
    then have "find_booking newId (expirePendingBooking now newId s2) = Some (expire_row c)"
      using find c'(1,4) find_update_where_key [of bk_id expire_row newId newId "db_bookings s2"]
      by (simp add: expirePendingBooking_def find_booking_def)
    then show ?thesis using c'(2) by (simp add: holds_seats_def expire_row_def)
  next
    case False
    with find have "find_booking newId (expirePendingBooking now newId s2) = Some c"
      by (simp add: expirePendingBooking_def)
    with False c' show ?thesis by (auto simp: holds_seats_def)
  qed
qed

theorem expiry_job_settles_booking_witness:
  "\<exists>b. find_booking ''b1'' (expirePendingBooking 302000 ''b1'' (play demo_config [ann_books] demo_store)) = Some b
    \<and> bk_userId b = ''ann'' \<and> (bk_status b = CONFIRMED \<or> bk_status b = EXPIRED)"
proof -
  let ?r = "initiateBooking (sc_createOrder demo_config) (sc_bookingTtl demo_config) (demo_clock 2000) ''a'' ''b1''
    demo_tenant ''ann'' demo_dto demo_store"
  have e: "is_ok (snd ?r) \<and> db_expiryQueue (fst ?r) =
      [\<lparr>xj_jobId = ''booking-expiry:b1'', xj_delay = 300000, xj_bookingId = ''b1''\<rparr>]"
    by code_simp
  then obtain r where r: "?r = (fst ?r, Inr r)" by (cases ?r) (auto simp: is_ok_iff)
  have s: "play demo_config [ann_books] demo_store = fst ?r" by (simp add: ann_books_def)
  have "db_expiryQueue demo_store = []" by (simp add: demo_store_def empty_store_def)
  with expiry_job_settles_booking [OF demo_store_wf r run_refl,
      of "\<lparr>xj_jobId = ''booking-expiry:b1'', xj_delay = 300000, xj_bookingId = ''b1''\<rparr>" 302000] e
  show ?thesis unfolding s by (auto simp: demo_clock_def)
qed

text \<open>
  A confirmed payment yields a ticket that verifies. When a webhook confirms, the booking
  with the paid order, pending until then, gets a ticket code under which \<open>verifyTicket\<close> finds
  exactly this booking in its own tenant and nothing in any other, and its user can fetch
  the ticket.
\<close>

theorem confirmed_payment_yields_ticket:
  assumes "store_wf s" and "confirm_order env rnd g oid pid s = (s', Inr Wh_confirmed)"
  shows "\<exists>b \<in> set (db_bookings s). \<exists>c. bk_razorpayOrderId b = Some oid \<and> bk_status b = PENDING
    \<and> bk_status c = CONFIRMED \<and> bk_razorpayPaymentId c = Some pid
    \<and> verifyTicket (bk_tenantId b) (generateTicketCode rnd) s' = Inr c
    \<and> getTicketByBookingId (bk_tenantId b) (bk_id b) (bk_userId b) s' = Inr c
    \<and> (\<forall>tid. tid \<noteq> bk_tenantId b \<longrightarrow> \<not> is_ok (verifyTicket tid (generateTicketCode rnd) s'))"
proof (cases rule: confirm_order_cases [of env rnd g oid pid s])
  case (kept r)
  with assms(2) show ?thesis by simp
next
  case (confirmed b qr)
  let ?f = "confirm_row pid g (generateTicketCode rnd) qr" and ?code = "Some (generateTicketCode rnd)"
  have s': "db_bookings s' = update_where (\<lambda>r. bk_id r = bk_id b) ?f (db_bookings s)"
    using confirmed(6) assms(2) by auto
  have wf: "store_wf s'" using store_wf_confirm_order [OF assms(1), of env rnd g oid pid] assms(2) by simp
  have d: "distinct (map bk_id (db_bookings s'))" and u: "unique_column bk_ticketCode (db_bookings s')"
    using wf by (simp_all add: store_wf_def bookings_wf_def)
  have c: "?f b \<in> set (db_bookings s')" using confirmed(1) by (force simp: s' in_update_where)
  have only: "q = ?f b" if "q \<in> set (db_bookings s')" "bk_ticketCode q = ?code" for q
    using unique_columnD [OF u that(1) c] that(2) by simp
  have only': "q = ?f b" if "q \<in> set (db_bookings s')" "bk_id q = bk_id b" for q
    using distinct_key_eq [OF d that(1) c] that(2) by simp
  have "verifyTicket (bk_tenantId b) (generateTicketCode rnd) s' = Inr (?f b)"
    unfolding verifyTicket_def by (subst find_unique [OF c]) (auto dest: only)
  moreover have "getTicketByBookingId (bk_tenantId b) (bk_id b) (bk_userId b) s' = Inr (?f b)"
    unfolding getTicketByBookingId_def by (subst find_unique [OF c]) (auto dest: only')
  moreover have "\<not> is_ok (verifyTicket tid (generateTicketCode rnd) s')" if "tid \<noteq> bk_tenantId b" for tid
  proof (cases "find (\<lambda>r. bk_tenantId r = tid \<and> bk_ticketCode r = ?code \<and> bk_status r = CONFIRMED)
      (db_bookings s')")
    case (Some q)
    with find_in [OF Some] only [of q] that show ?thesis by simp
  qed (simp add: verifyTicket_def)
  ultimately show ?thesis using confirmed(1-3) by (intro bexI [of _ b] exI [of _ "?f b"]) simp_all
qed

text \<open>
  C7. A confirmation that fails after its event has been recorded is lost: when the QR encoder
  rejects, the delivery ends in an error, so that the provider retries it; the retry is taken
  for a duplicate and acknowledged, while the paid booking stays as it was.
\<close>

theorem failed_confirmation_is_not_retried:
  assumes "verifyWebhookSignature env body g" and "body \<noteq> []" and "g \<noteq> []" and "h \<noteq> []"
    and "h \<notin> webhook_ids s"
    and "Option.bind (wb_entity pl) pe_order_id = Some oid" and "oid \<noteq> []"
    and "Option.bind (wb_entity pl) pe_id = Some pid" and "pid \<noteq> []"
    and "find (\<lambda>b. bk_razorpayOrderId b = Some oid) (db_bookings s) = Some b" and "bk_status b = PENDING"
    and "\<forall>text. py_qr env text = Inl e"
  shows "\<exists>s'. processPaymentWebhook env re rc body g (Some h) pl s = (s', Inl e)
    \<and> db_bookings s' = db_bookings s
    \<and> (\<forall>env' re' rc'. py_hmac env' = py_hmac env \<and> py_secret env' = py_secret env \<longrightarrow>
         processPaymentWebhook env' re' rc' body g (Some h) pl s' = (s', Inr Wh_duplicate))"
proof -
  define row where "row = \<lparr>we_eventId = h, we_eventType = or_str (wb_event pl) ''unknown'',
    we_paymentId = Some pid, we_orderId = Some oid, we_payload = pl\<rparr>"
  let ?s = "s\<lparr>db_webhookEvents := db_webhookEvents s @ [row]\<rparr>"
  have "record_webhook_event row s = Some ?s"
    using assms(5) by (simp add: record_webhook_event_def table_insert_def row_def webhook_ids_def)
  then have first: "processPaymentWebhook env re rc body g (Some h) pl s = confirm_order env rc g oid pid ?s"
    using assms(1-4,6-9)
    by (simp add: processPaymentWebhook_def webhook_event_id_def or_str_def [of "Some h"] row_def Let_def)
  have "confirm_order env rc g oid pid ?s = (?s, Inl e)"
    using assms(10-12) by (simp add: confirm_order_def Let_def)
  moreover have "h \<in> webhook_ids ?s" by (simp add: webhook_ids_def row_def)
  moreover have "verifyWebhookSignature env' body g"
    if "py_hmac env' = py_hmac env" "py_secret env' = py_secret env" for env'
    using assms(1) that by (simp add: verifyWebhookSignature_def)
  ultimately show ?thesis
    using first signed_webhook(1) [OF assms(2) _ assms(3,4)] by (intro exI [of _ ?s]) auto
qed

theorem failed_confirmation_is_not_retried_witness:
  "\<exists>s' b. processPaymentWebhook (demo_env\<lparr>py_qr := \<lambda>x. Inl (Internal ''qr'')\<rparr>) ''r'' ''aa'' ''x'' ''kx'' (Some ''w1'')
       (demo_payment ''payment.captured'' ''bk_2000_a'' ''p1'') (play demo_config [ann_books] demo_store) =
     (s', Inl (Internal ''qr''))
   \<and> processPaymentWebhook demo_env ''r'' ''bb'' ''x'' ''kx'' (Some ''w1'')
       (demo_payment ''payment.captured'' ''bk_2000_a'' ''p1'') s' = (s', Inr Wh_duplicate)
   \<and> b \<in> set (db_bookings s') \<and> bk_status b = PENDING"
proof -
  let ?s = "play demo_config [ann_books] demo_store"
  let ?env = "demo_env\<lparr>py_qr := \<lambda>x. Inl (Internal ''qr'')\<rparr>"
  have "let bks = db_bookings ?s in length bks = 1 \<and> bk_status (bks ! 0) = PENDING
      \<and> bk_razorpayOrderId (bks ! 0) = Some ''bk_2000_a'' \<and> db_webhookEvents ?s = []"
    by code_simp
  then obtain b where b: "db_bookings ?s = [b]" "bk_status b = PENDING" "bk_razorpayOrderId b = Some ''bk_2000_a''"
    "db_webhookEvents ?s = []"
    by (auto simp: Let_def length_Suc_conv)
  have v: "verifyWebhookSignature ?env ''x'' ''kx''" by (simp add: verifyWebhookSignature_def demo_env_def)
  have e: "py_hmac demo_env = py_hmac ?env" "py_secret demo_env = py_secret ?env" by simp_all
  have "\<exists>s'. processPaymentWebhook ?env ''r'' ''aa'' ''x'' ''kx'' (Some ''w1'')
       (demo_payment ''payment.captured'' ''bk_2000_a'' ''p1'') ?s = (s', Inl (Internal ''qr''))
    \<and> db_bookings s' = db_bookings ?s
    \<and> (\<forall>env' re' rc'. py_hmac env' = py_hmac ?env \<and> py_secret env' = py_secret ?env \<longrightarrow>
         processPaymentWebhook env' re' rc' ''x'' ''kx'' (Some ''w1'')
           (demo_payment ''payment.captured'' ''bk_2000_a'' ''p1'') s' = (s', Inr Wh_duplicate))"
    by (rule failed_confirmation_is_not_retried [OF v, where b = b and oid = "''bk_2000_a''" and pid = "''p1''"])
      (use b in \<open>simp_all add: webhook_ids_def demo_payment_def\<close>)
  then show ?thesis using e b(1,2) by (metis list.set_intros(1))
qed

theorem confirmed_payment_yields_ticket_witness:
  "\<exists>s' c. confirm_order demo_env ''aa'' ''kx'' ''bk_2000_a'' ''p1'' (play demo_config [ann_books] demo_store) =
      (s', Inr Wh_confirmed)
    \<and> verifyTicket ''t1'' ''OMX-AA'' s' = Inr c \<and> bk_status c = CONFIRMED"
proof -
  let ?r = "confirm_order demo_env ''aa'' ''kx'' ''bk_2000_a'' ''p1'' (play demo_config [ann_books] demo_store)"
  have "snd ?r = Inr Wh_confirmed \<and> generateTicketCode ''aa'' = ''OMX-AA''
      \<and> map bk_tenantId (db_bookings (play demo_config [ann_books] demo_store)) = [''t1'']" by code_simp
  moreover then have r: "?r = (fst ?r, Inr Wh_confirmed)" by (metis prod.collapse)
  moreover have "in_order 1000 [ann_books]" by (simp add: ann_books_def demo_clock_def)
  then have "store_wf (play demo_config [ann_books] demo_store)"
    using service_keeps_store_wf_aux [OF play_run demo_store_wf] by blast
  from confirmed_payment_yields_ticket [OF this r]
  obtain b c where "b \<in> set (db_bookings (play demo_config [ann_books] demo_store))" "bk_status c = CONFIRMED"
    "verifyTicket (bk_tenantId b) (generateTicketCode ''aa'') (fst ?r) = Inr c" by blast
  ultimately show ?thesis
    by (intro exI [of _ "fst ?r"] exI [of _ c]) (auto simp: length_Suc_conv)
qed

end
