(* ===== verification/Doubles.thy ===== *)
theory Doubles
  imports Complex_Main "HOL-Library.Log_Nat"
begin

text \<open>
  The arithmetic of the language's \<open>number\<close>: a double is a rational with a significand of 53
  bits, and each operation rounds the exact result to the nearest double, ties to the even
  significand. The amounts of the program are far from the overflow and the subnormal range,
  so neither is modelled. \<open>Math.round\<close>, \<open>toFixed(2)\<close> and the half-up rounding of the decimal
  library are here too.
\<close>

definition pow2 :: "int \<Rightarrow> rat" where
  "pow2 e = (if 0 \<le> e then 2 ^ nat e else 1 / 2 ^ nat (- e))"

definition round_half_even :: "rat \<Rightarrow> int" where
  "round_half_even x = (let f = \<lfloor>x\<rfloor>; d = x - of_int f in
     if d < 1 / 2 then f else if 1 / 2 < d then f + 1 else if even f then f else f + 1)"

text \<open>The exponent \<open>e\<close> with \<open>2 ^ e \<le> x < 2 ^ (e + 1)\<close> of a positive rational.\<close>

definition binary_exponent :: "rat \<Rightarrow> int" where
  "binary_exponent x = (let (p, q) = quotient_of x; e = bitlen p - bitlen q in
     if pow2 e \<le> x then e else e - 1)"

definition to_double :: "rat \<Rightarrow> rat" where
  "to_double x = (if x = 0 then 0
     else let e = binary_exponent \<bar>x\<bar> - 52 in of_int (round_half_even (x / pow2 e)) * pow2 e)"

definition d_add :: "rat \<Rightarrow> rat \<Rightarrow> rat" where "d_add x y = to_double (x + y)"
definition d_sub :: "rat \<Rightarrow> rat \<Rightarrow> rat" where "d_sub x y = to_double (x - y)"
definition d_mul :: "rat \<Rightarrow> rat \<Rightarrow> rat" where "d_mul x y = to_double (x * y)"
definition d_div :: "rat \<Rightarrow> rat \<Rightarrow> rat" where "d_div x y = to_double (x / y)"

text \<open>\<open>Math.round\<close>: halves go up.\<close>

definition math_round :: "rat \<Rightarrow> int" where
  "math_round x = \<lfloor>x + 1 / 2\<rfloor>"

text \<open>Rounding of the decimal library (\<open>ROUND_HALF_UP\<close>): halves go away from zero.\<close>

definition half_up :: "rat \<Rightarrow> int" where
  "half_up x = (if 0 \<le> x then \<lfloor>x + 1 / 2\<rfloor> else - \<lfloor>- x + 1 / 2\<rfloor>)"

text \<open>\<open>Number(x.toFixed(2))\<close>: the exact value to two decimals (the larger of two equally near
  for a positive one), read back as a double.\<close>

definition to_fixed2 :: "rat \<Rightarrow> rat" where
  "to_fixed2 x = to_double (of_int (half_up (x * 100)) / 100)"

section \<open>Exponents\<close>

lemma pow2_pos [simp]: "0 < pow2 e"
  by (simp add: pow2_def)

lemma pow2_Suc: "pow2 (e + 1) = 2 * pow2 e"
proof -
  consider "0 \<le> e" | "e = - 1" | "e < - 1" by linarith
  then show ?thesis
  proof cases
    case 1
    then have "nat (e + 1) = Suc (nat e)" by simp
    with 1 show ?thesis by (simp add: pow2_def)
  next
    case 3
    then have "nat (- e) = Suc (nat (- (e + 1)))" by simp
    with 3 show ?thesis by (simp add: pow2_def)
  qed (simp add: pow2_def)
qed

lemma pow2_nat_diff: "pow2 (int a - int b) = 2 ^ a / 2 ^ b"
proof (cases "b \<le> a")
  case True
  then show ?thesis by (simp add: pow2_def power_diff flip: of_nat_diff)
next
  case False
  then have "nat (int b - int a) = b - a" by simp
  with False show ?thesis by (auto simp: pow2_def power_diff)
qed

lemma bitlen_rat:
  assumes "0 < p"
  shows "(2 :: rat) ^ nat (bitlen p) \<le> 2 * of_int p" and "of_int p < (2 :: rat) ^ nat (bitlen p)"
proof -
  have b: "2 ^ nat (bitlen p - 1) \<le> p" "p < 2 ^ nat (bitlen p)" using bitlen_bounds [OF assms] by auto
  have "0 < bitlen p" using assms bitlen_eq_zero_iff [of p] bitlen_nonneg [of p] by linarith
  then have "nat (bitlen p) = Suc (nat (bitlen p - 1))" by simp
  with b(1) have "2 ^ nat (bitlen p) \<le> 2 * p" by simp
  then have "(of_int (2 ^ nat (bitlen p)) :: rat) \<le> of_int (2 * p)" by (simp only: of_int_le_iff)
  then show "(2 :: rat) ^ nat (bitlen p) \<le> 2 * of_int p" by simp
  from b(2) have "(of_int p :: rat) < of_int (2 ^ nat (bitlen p))" by (simp only: of_int_less_iff)
  then show "of_int p < (2 :: rat) ^ nat (bitlen p)" by simp
qed

lemma binary_exponent:
  assumes "0 < x"
  shows "pow2 (binary_exponent x) \<le> x \<and> x < 2 * pow2 (binary_exponent x)"
proof -
  obtain p q where pq: "quotient_of x = (p, q)" by force
  then have q: "0 < q" and x: "x = of_int p / of_int q"
    by (auto dest: quotient_of_denom_pos quotient_of_div)
  with assms have p: "0 < p" by (simp add: zero_less_divide_iff)
  let ?m = "bitlen p" and ?n = "bitlen q"
  have e: "pow2 (?m - ?n) = 2 ^ nat ?m / 2 ^ nat ?n"
    using pow2_nat_diff [of "nat ?m" "nat ?n"] by (simp add: bitlen_nonneg)
  note bp = bitlen_rat [OF p] and bq = bitlen_rat [OF q]
  have "x < 2 ^ nat ?m / of_int q" using bp(2) q by (simp add: x divide_strict_right_mono)
  also have "\<dots> \<le> 2 ^ nat ?m / (2 ^ nat ?n / 2)" using bq(1) q by (intro divide_left_mono) auto
  finally have up: "x < 2 * pow2 (?m - ?n)" using e by (simp add: mult.commute)
  have "pow2 (?m - ?n) / 2 = (2 ^ nat ?m / 2) / 2 ^ nat ?n" using e by simp
  also have "\<dots> \<le> of_int p / 2 ^ nat ?n" using bp(1) by (intro divide_right_mono) auto
  also have "\<dots> \<le> x" using bq(2) p q unfolding x by (intro divide_left_mono) auto
  finally have low: "pow2 (?m - ?n) / 2 \<le> x" .
  have "pow2 (?m - ?n) = 2 * pow2 (?m - ?n - 1)" using pow2_Suc [of "?m - ?n - 1"] by simp
  with up low show ?thesis by (auto simp: binary_exponent_def pq Let_def bitlen_nonneg not_le)
qed

section \<open>Rounding errors\<close>

lemma round_half_even_error: "\<bar>of_int (round_half_even x) - x\<bar> \<le> 1 / 2"
proof -
  have "of_int \<lfloor>x\<rfloor> \<le> x" "x < of_int \<lfloor>x\<rfloor> + 1" by linarith+
  then show ?thesis by (auto simp: round_half_even_def Let_def)
qed

lemma round_half_even_int [simp]: "round_half_even (of_int n) = n"
  by (simp add: round_half_even_def Let_def)

lemma to_double_error: "\<bar>to_double x - x\<bar> \<le> \<bar>x\<bar> / 2 ^ 53"
proof (cases "x = 0")
  case False
  let ?e = "binary_exponent \<bar>x\<bar>"
  let ?u = "pow2 (?e - 52)"
  have u: "2 ^ 52 * ?u = pow2 ?e"
  proof -
    have "2 ^ n * pow2 (?e - int n) = pow2 ?e" for n
    proof (induction n)
      case (Suc n)
      have "pow2 (?e - int n) = 2 * pow2 (?e - int (Suc n))"
        using pow2_Suc [of "?e - int (Suc n)"] by simp
      with Suc show ?case by simp
    qed simp
    from this [of 52] show ?thesis by simp
  qed
  have "to_double x - x = (of_int (round_half_even (x / ?u)) - x / ?u) * ?u"
    using False by (simp add: to_double_def Let_def left_diff_distrib order_less_imp_not_eq2)
  then have "\<bar>to_double x - x\<bar> = \<bar>of_int (round_half_even (x / ?u)) - x / ?u\<bar> * ?u"
    by (simp add: abs_mult order_less_imp_le)
  also have "\<dots> \<le> 1 / 2 * ?u"
    using round_half_even_error by (intro mult_right_mono) (auto simp: order_less_imp_le)
  also have "\<dots> = pow2 ?e / 2 ^ 53" using u by (simp add: field_simps)
  also have "\<dots> \<le> \<bar>x\<bar> / 2 ^ 53" using binary_exponent [of "\<bar>x\<bar>"] False by (intro divide_right_mono) auto
  finally show ?thesis .
qed (simp add: to_double_def)

text \<open>Integers below \<open>2 ^ 53\<close> are doubles.\<close>

lemma to_double_int [simp]:
  assumes "\<bar>n\<bar> < 2 ^ 53"
  shows "to_double (of_int n) = of_int n"
proof (cases "n = 0")
  case False
  let ?e = "binary_exponent \<bar>of_int n\<bar>"
  have b: "pow2 ?e \<le> of_int \<bar>n\<bar>" using binary_exponent [of "\<bar>of_int n\<bar>"] False by simp
  have "(of_int \<bar>n\<bar> :: rat) < of_int (2 ^ 53)" using assms by (simp only: of_int_less_iff)
  with b have lt: "pow2 ?e < 2 ^ 53" by simp
  have "?e < 53"
  proof (rule ccontr)
    assume "\<not> ?e < 53"
    then have "(2 :: rat) ^ 53 \<le> 2 ^ nat ?e" by (intro power_increasing) auto
    with lt \<open>\<not> ?e < 53\<close> show False by (simp add: pow2_def)
  qed
  then have "(of_int n :: rat) / pow2 (?e - 52) = of_int (n * 2 ^ nat (52 - ?e))"
    by (auto simp: pow2_def)
  then have "round_half_even (of_int n / pow2 (?e - 52)) = n * 2 ^ nat (52 - ?e)"
    by (simp only: round_half_even_int)
  with False \<open>of_int n / pow2 (?e - 52) = of_int (n * 2 ^ nat (52 - ?e))\<close> show ?thesis
    by (simp add: to_double_def Let_def nonzero_divide_eq_eq order_less_imp_not_eq2)
qed (simp add: to_double_def)

lemma seven_hundredths: "d_mul (to_double (7 / 100)) 100 \<noteq> 7"
  by code_simp

lemma half_up_error: "\<bar>of_int (half_up x) - x\<bar> \<le> 1 / 2"
proof (cases "0 \<le> x")
  case True
  then have "half_up x = \<lfloor>x + 1 / 2\<rfloor>" by (simp add: half_up_def)
  moreover have "of_int \<lfloor>x + 1 / 2\<rfloor> \<le> x + 1 / 2" "x + 1 / 2 < of_int \<lfloor>x + 1 / 2\<rfloor> + 1" by linarith+
  ultimately show ?thesis by (intro abs_leI) linarith+
next
  case False
  then have "of_int (half_up x) = - (of_int \<lfloor>- x + 1 / 2\<rfloor> :: rat)" by (simp add: half_up_def)
  moreover have "of_int \<lfloor>- x + 1 / 2\<rfloor> \<le> - x + 1 / 2" "- x + 1 / 2 < of_int \<lfloor>- x + 1 / 2\<rfloor> + 1"
    by linarith+
  ultimately show ?thesis by (intro abs_leI) linarith+
qed

section \<open>Rounding is monotone\<close>

lemma round_half_even_mono:
  assumes "x \<le> y"
  shows "round_half_even x \<le> round_half_even y"
proof (cases "\<lfloor>x\<rfloor> = \<lfloor>y\<rfloor>")
  case True
  then have "x - of_int \<lfloor>x\<rfloor> \<le> y - of_int \<lfloor>y\<rfloor>" using assms by simp
  with True show ?thesis by (auto simp: round_half_even_def Let_def)
next
  case False
  then have "\<lfloor>x\<rfloor> + 1 \<le> \<lfloor>y\<rfloor>" using floor_mono [OF assms] by linarith
  moreover have "round_half_even x \<le> \<lfloor>x\<rfloor> + 1" "\<lfloor>y\<rfloor> \<le> round_half_even y"
    by (auto simp: round_half_even_def Let_def)
  ultimately show ?thesis by linarith
qed

lemma pow2_scale: "2 ^ n * pow2 (e - int n) = pow2 e"
proof (induction n)
  case (Suc n)
  have "pow2 (e - int n) = 2 * pow2 (e - int (Suc n))"
    using pow2_Suc [of "e - int (Suc n)"] by simp
  with Suc show ?case by simp
qed simp

lemma pow2_mono: "e \<le> f \<Longrightarrow> pow2 e \<le> pow2 f"
proof (induction rule: int_ge_induct)
  case (step f)
  have "pow2 f \<le> pow2 (f + 1)" using pow2_pos [of f] by (simp add: pow2_Suc)
  with step show ?case by linarith
qed simp

lemma to_double_bounds:
  assumes "0 < x"
  shows "pow2 (binary_exponent x) \<le> to_double x" "to_double x \<le> pow2 (binary_exponent x + 1)"
proof -
  let ?e = "binary_exponent x" and ?u = "pow2 (binary_exponent x - 52)"
  have u: "0 < ?u" "of_int (2 ^ 52) * ?u = pow2 ?e" "of_int (2 ^ 53) * ?u = pow2 (?e + 1)"
    using pow2_scale [of 52 ?e] pow2_scale [of 53 "?e + 1"] by simp_all
  have x: "pow2 ?e \<le> x" "x \<le> pow2 (?e + 1)" using binary_exponent [OF assms] by (simp_all add: pow2_Suc)
  have d: "to_double x = of_int (round_half_even (x / ?u)) * ?u" using assms by (simp add: to_double_def Let_def)
  have "of_int (2 ^ 52) \<le> x / ?u" "x / ?u \<le> of_int (2 ^ 53)"
    using x u by (simp_all add: pos_le_divide_eq pos_divide_le_eq)
  then have "2 ^ 52 \<le> round_half_even (x / ?u)" "round_half_even (x / ?u) \<le> 2 ^ 53"
    using round_half_even_mono round_half_even_int by metis+
  then have "(of_int (2 ^ 52) :: rat) \<le> of_int (round_half_even (x / ?u))" "of_int (round_half_even (x / ?u)) \<le> (of_int (2 ^ 53) :: rat)"
    by (simp_all only: of_int_le_iff)
  then have "of_int (2 ^ 52) * ?u \<le> to_double x" "to_double x \<le> of_int (2 ^ 53) * ?u"
    unfolding d using u(1) by (simp_all only: mult_right_mono order_less_imp_le)
  then show "pow2 ?e \<le> to_double x" "to_double x \<le> pow2 (?e + 1)" unfolding u(2,3) .
qed

lemma to_double_mono:
  assumes "0 \<le> x" "x \<le> y"
  shows "to_double x \<le> to_double y"
proof (cases "x = 0")
  case True
  have "0 \<le> to_double y" if "0 < y"
    using to_double_bounds(1) [OF that] pow2_pos [of "binary_exponent y"] by linarith
  moreover have "to_double 0 = 0" by (simp add: to_double_def)
  ultimately show ?thesis using True assms by (cases "y = 0") auto
next
  case False
  with assms have pos: "0 < x" "0 < y" by simp_all
  let ?e = "binary_exponent x" and ?f = "binary_exponent y"
  have "\<not> ?f < ?e"
  proof
    assume "?f < ?e"
    then have "pow2 (?f + 1) \<le> pow2 ?e" by (intro pow2_mono) simp
    with binary_exponent [OF pos(1)] binary_exponent [OF pos(2)] assms(2) show False by (simp add: pow2_Suc)
  qed
  then consider "?e = ?f" | "?e + 1 \<le> ?f" by linarith
  then show ?thesis
  proof cases
    case 1
    have "round_half_even (x / pow2 (?e - 52)) \<le> round_half_even (y / pow2 (?e - 52))"
      using assms(2) by (intro round_half_even_mono divide_right_mono) (simp_all add: order_less_imp_le)
    then show ?thesis using pos 1 by (simp add: to_double_def Let_def mult_right_mono order_less_imp_le)
  next
    case 2
    then show ?thesis
      using to_double_bounds(2) [OF pos(1)] to_double_bounds(1) [OF pos(2)] pow2_mono [OF 2] by linarith
  qed
qed

end
