(* ===== verification/PaymentStore.thy ===== *)
theory PaymentStore
  imports BookingStates Texts Doubles
begin

text \<open>
  The data model of the payment generation of the backend (\<open>backend/src/payments\<close>,
  \<open>discount\<close>, \<open>pricing\<close>, the sweeping workers): the tables its services read and write, as
  the SQL migrations under \<open>backend/prisma/migrations\<close> declare them. A \<open>DECIMAL(10,2)\<close> column
  is an integer number of hundredths, so that the \<open>mul(100).toNumber()\<close> of the source, and
  the \<open>Math.round\<close> around it, read the integer. JSON payloads that are stored and never read
  back are left out.

  Operations inside \<open>prisma.$transaction\<close> are functions into \<open>outcome\<close>: on an error nothing
  is stored. The interface \<open>lawful_operation\<close> at the end is the contract that the booking
  status only moves along the transition table and that the ledger is append-only.
\<close>

datatype seat_lock_status = Lk_LOCKED | Lk_CONFIRMED | Lk_RELEASED

datatype seat_availability = Sa_AVAILABLE | Sa_LOCKED | Sa_BOOKED

datatype ledger_type = Lt_PAYMENT | Lt_REFUND

datatype ledger_status = Ls_SUCCESS | Ls_REFUND_INITIATED | Ls_FAILED

record pay_booking =
  pb_id :: string
  pb_tenantId :: "string option"
  pb_userId :: string
  pb_showId :: string
  pb_status :: booking_status
  pb_totalAmount :: int
  pb_ticketAmount :: int
  pb_couponDiscountAmount :: int
  pb_giftCardDiscountAmount :: int
  pb_discountAmount :: int
  pb_finalAmount :: int
  pb_couponId :: "string option"
  pb_giftCardId :: "string option"
  pb_orderCreatedAt :: "int option"
  pb_razorpayOrderId :: "string option"
  pb_razorpayPaymentId :: "string option"
  pb_razorpaySignature :: "string option"
  pb_razorpayRefundId :: "string option"
  pb_refundAmount :: int
  pb_refundedSeatsCount :: int
  pb_expiresAt :: "int option"
  pb_createdAt :: int
  pb_paymentCapturedAt :: "int option"
  pb_refundInitiatedAt :: "int option"
  pb_refundCompletedAt :: "int option"
  pb_refundedAt :: "int option"

record seat_lock_row =
  sl_id :: string
  sl_showId :: string
  sl_seatNumber :: string
  sl_bookingId :: string
  sl_expiresAt :: int
  sl_status :: seat_lock_status

record pay_seat_row =
  px_bookingId :: string
  px_seatId :: string
  px_showId :: "string option"
  px_status :: "booking_status option"

record availability_row =
  av_showId :: string
  av_seatId :: string
  av_status :: seat_availability
  av_lockedUntil :: "int option"
  av_userId :: "string option"

record ledger_row =
  lg_bookingId :: string
  lg_amount :: int
  lg_type :: ledger_type
  lg_razorpayId :: string
  lg_status :: ledger_status
  lg_tenantId :: string

record payment_event_row =
  pv_razorpayEventId :: string
  pv_bookingId :: string
  pv_eventType :: string
  pv_tenantId :: string
  pv_processed :: bool

record dead_letter_row =
  dl_type :: string
  dl_reason :: http_error
  dl_bookingId :: string
  dl_razorpayEventId :: "string option"
  dl_tenantId :: string
  dl_retryCount :: nat

record system_event_row =
  sy_eventType :: string
  sy_entityId :: string

record payment_log_row =
  pl_bookingId :: string
  pl_razorpayOrderId :: string
  pl_razorpayPaymentId :: string
  pl_verified :: bool
  pl_amount :: int
  pl_tenantId :: string

record revenue_row =
  rv_tenantId :: string
  rv_monthlyRevenue :: int

text \<open>A show with its price (a double), its start and the size of its screen.\<close>

record show_row =
  sw_id :: string
  sw_price :: rat
  sw_startTime :: int
  sw_screen :: "(int \<times> int) option"

record pay_store =
  ps_bookings :: "pay_booking list"
  ps_seatLocks :: "seat_lock_row list"
  ps_bookingSeats :: "pay_seat_row list"
  ps_availability :: "availability_row list"
  ps_ledger :: "ledger_row list"
  ps_webhookEvents :: "string list"
  ps_paymentEvents :: "payment_event_row list"
  ps_deadLetters :: "dead_letter_row list"
  ps_systemEvents :: "system_event_row list"
  ps_paymentLogs :: "payment_log_row list"
  ps_tenants :: "revenue_row list"
  ps_shows :: "show_row list"

section \<open>Queries and updates the services share\<close>

definition find_pay :: "string \<Rightarrow> pay_store \<Rightarrow> pay_booking option" where
  "find_pay i s = find (\<lambda>b. pb_id b = i) (ps_bookings s)"

definition update_pay :: "string \<Rightarrow> (pay_booking \<Rightarrow> pay_booking) \<Rightarrow> pay_store \<Rightarrow> pay_store" where
  "update_pay i f s = s\<lparr>ps_bookings := update_where (\<lambda>b. pb_id b = i) f (ps_bookings s)\<rparr>"

definition set_status :: "booking_status \<Rightarrow> pay_booking \<Rightarrow> pay_booking" where
  "set_status st b = b\<lparr>pb_status := st\<rparr>"

text \<open>A unique column refuses a value another row holds.\<close>

definition column_free :: "(pay_booking \<Rightarrow> string option) \<Rightarrow> string \<Rightarrow> string \<Rightarrow> pay_store \<Rightarrow> bool" where
  "column_free col i v s \<longleftrightarrow> list_all (\<lambda>b. pb_id b = i \<or> col b \<noteq> Some v) (ps_bookings s)"

definition append_ledger :: "ledger_row list \<Rightarrow> pay_store \<Rightarrow> pay_store" where
  "append_ledger rows s = s\<lparr>ps_ledger := ps_ledger s @ rows\<rparr>"

definition append_dead_letter :: "dead_letter_row \<Rightarrow> pay_store \<Rightarrow> pay_store" where
  "append_dead_letter row s = s\<lparr>ps_deadLetters := ps_deadLetters s @ [row]\<rparr>"

definition log_system_event :: "string \<Rightarrow> string \<Rightarrow> pay_store \<Rightarrow> pay_store" where
  "log_system_event t i s = s\<lparr>ps_systemEvents := ps_systemEvents s @ [\<lparr>sy_eventType = t, sy_entityId = i\<rparr>]\<rparr>"

text \<open>\<open>seatLock.updateMany where bookingId, status LOCKED\<close> and
  \<open>bookingSeat.updateMany where bookingId\<close>.\<close>

definition move_seat_locks :: "string \<Rightarrow> seat_lock_status \<Rightarrow> pay_store \<Rightarrow> pay_store" where
  "move_seat_locks i st s = s\<lparr>ps_seatLocks :=
     update_where (\<lambda>l. sl_bookingId l = i \<and> sl_status l = Lk_LOCKED) (\<lambda>l. l\<lparr>sl_status := st\<rparr>) (ps_seatLocks s)\<rparr>"

definition move_booking_seats :: "string \<Rightarrow> booking_status \<Rightarrow> pay_store \<Rightarrow> pay_store" where
  "move_booking_seats i st s = s\<lparr>ps_bookingSeats :=
     update_where (\<lambda>x. px_bookingId x = i) (\<lambda>x. x\<lparr>px_status := Some st\<rparr>) (ps_bookingSeats s)\<rparr>"

text \<open>\<open>Math.round(new Decimal(finalAmount || totalAmount).mul(100).toNumber())\<close>: \<open>finalAmount\<close> is a
  \<open>Decimal\<close> object of a required column, which is never falsy, so it is always taken.\<close>

definition ledger_amount :: "pay_booking \<Rightarrow> int" where
  "ledger_amount b = pb_finalAmount b"

definition payment_row :: "pay_booking \<Rightarrow> int \<Rightarrow> string \<Rightarrow> string \<Rightarrow> ledger_row" where
  "payment_row b amount pid tid = \<lparr>lg_bookingId = pb_id b, lg_amount = amount, lg_type = Lt_PAYMENT,
     lg_razorpayId = pid, lg_status = Ls_SUCCESS, lg_tenantId = tid\<rparr>"

definition refund_row :: "pay_booking \<Rightarrow> int \<Rightarrow> string \<Rightarrow> ledger_status \<Rightarrow> string \<Rightarrow> ledger_row" where
  "refund_row b amount rid st tid = \<lparr>lg_bookingId = pb_id b, lg_amount = amount, lg_type = Lt_REFUND,
     lg_razorpayId = rid, lg_status = st, lg_tenantId = tid\<rparr>"

lemmas pay_defs = update_pay_def append_ledger_def append_dead_letter_def log_system_event_def
  move_seat_locks_def move_booking_seats_def

lemma ps_bookings_simps [simp]:
  "ps_bookings (append_ledger rows s) = ps_bookings s"
  "ps_bookings (append_dead_letter d s) = ps_bookings s"
  "ps_bookings (log_system_event t i s) = ps_bookings s"
  "ps_bookings (move_seat_locks i ls s) = ps_bookings s"
  "ps_bookings (move_booking_seats i st s) = ps_bookings s"
  "ps_bookings (update_pay i f s) = update_where (\<lambda>b. pb_id b = i) f (ps_bookings s)"
  by (simp_all add: pay_defs)

lemma ps_ledger_simps [simp]:
  "ps_ledger (append_ledger rows s) = ps_ledger s @ rows"
  "ps_ledger (append_dead_letter d s) = ps_ledger s"
  "ps_ledger (log_system_event t i s) = ps_ledger s"
  "ps_ledger (move_seat_locks i ls s) = ps_ledger s"
  "ps_ledger (move_booking_seats i st s) = ps_ledger s"
  "ps_ledger (update_pay i f s) = ps_ledger s"
  by (simp_all add: pay_defs)

lemma find_pay_in: "find_pay i s = Some b \<Longrightarrow> b \<in> set (ps_bookings s) \<and> pb_id b = i"
  unfolding find_pay_def by (rule find_key_in)

lemma find_pay_update:
  "(\<And>b. pb_id (f b) = pb_id b) \<Longrightarrow> find (\<lambda>b. pb_id b = i) (update_where (\<lambda>b. pb_id b = j) f t) =
     (if i = j then map_option f (find (\<lambda>b. pb_id b = i) t) else find (\<lambda>b. pb_id b = i) t)"
  by (rule find_update_where_key)

lemma pb_set_status [simp]:
  "pb_id (set_status st b) = pb_id b" "pb_status (set_status st b) = st"
  by (simp_all add: set_status_def)

section \<open>The contract: statuses follow the table, the ledger is append-only\<close>

definition pay_status :: "string \<Rightarrow> pay_store \<Rightarrow> booking_status option" where
  "pay_status i s = map_option pb_status (find_pay i s)"

inductive status_path :: "booking_status option \<Rightarrow> booking_status option \<Rightarrow> bool" where
  no_booking: "status_path None None"
| booking_path: "run status_step a b \<Longrightarrow> status_path (Some a) (Some b)"

inductive_simps status_path_simps [simp]:
  "status_path None y" "status_path (Some a) (Some b)" "status_path (Some a) None"

lemma status_path_refl [simp]: "status_path x x"
  by (cases x) (auto intro: run_refl)

lemma status_path_trans: "status_path x y \<Longrightarrow> status_path y z \<Longrightarrow> status_path x z"
  by (cases x; cases y; cases z) (auto intro: run_trans)

definition lawful_change :: "pay_store \<Rightarrow> pay_store \<Rightarrow> bool" where
  "lawful_change s s' \<longleftrightarrow> prefix (ps_ledger s) (ps_ledger s')
     \<and> map pb_id (ps_bookings s') = map pb_id (ps_bookings s)
     \<and> (\<forall>i. status_path (pay_status i s) (pay_status i s'))"

lemma lawful_refl [simp]: "lawful_change s s"
  by (simp add: lawful_change_def)

lemma lawful_trans: "lawful_change s t \<Longrightarrow> lawful_change t u \<Longrightarrow> lawful_change s u"
  unfolding lawful_change_def by (metis prefix_order.trans status_path_trans)

lemma lawful_cong:
  "ps_bookings s' = ps_bookings s \<Longrightarrow> prefix (ps_ledger s) (ps_ledger s') \<Longrightarrow> lawful_change s s'"
  by (simp add: lawful_change_def pay_status_def find_pay_def)

text \<open>An update of one booking along the table, with ledger rows appended, is lawful.\<close>

lemma lawful_update:
  assumes "find_pay i s = Some b" and "run status_step (pb_status b) (pb_status (f b))"
    and "\<And>r. pb_id (f r) = pb_id r"
    and "ps_bookings s' = update_where (\<lambda>b. pb_id b = i) f (ps_bookings s)"
    and "prefix (ps_ledger s) (ps_ledger s')"
  shows "lawful_change s s'"
  using assms by (simp add: lawful_change_def pay_status_def find_pay_def find_pay_update map_update_where)

locale lawful_operation =
  fixes op :: "'a \<Rightarrow> pay_store \<Rightarrow> pay_store"
  assumes op_lawful: "lawful_change s (op x s)"
begin

lemma sweep_lawful: "lawful_change s (fold op xs s)"
proof (induction xs arbitrary: s)
  case (Cons x xs)
  from op_lawful [of s x] Cons [of "op x s"] show ?case by (auto intro: lawful_trans)
qed simp

lemma dead_stays_dead:
  assumes "pay_status i s = Some st" and "dead_phase st"
  shows "\<exists>st'. pay_status i (fold op xs s) = Some st' \<and> dead_phase st'"
proof -
  have "status_path (Some st) (pay_status i (fold op xs s))"
    using sweep_lawful [of s xs] assms(1) by (auto simp: lawful_change_def dest: spec [of _ i])
  then show ?thesis using assms(2) deads.run_inv by (cases "pay_status i (fold op xs s)") auto
qed

lemma ledger_kept: "prefix (ps_ledger s) (ps_ledger (fold op xs s))"
  using sweep_lawful [of s xs] by (simp add: lawful_change_def)

end

section \<open>A store with one booking\<close>

definition demo_booking :: "booking_status \<Rightarrow> pay_booking" where
  "demo_booking st = \<lparr>pb_id = ''b1'', pb_tenantId = Some ''t1'', pb_userId = ''ann'', pb_showId = ''sh1'',
     pb_status = st, pb_totalAmount = 12199, pb_ticketAmount = 10000, pb_couponDiscountAmount = 0,
     pb_giftCardDiscountAmount = 0, pb_discountAmount = 0, pb_finalAmount = 12199, pb_couponId = None,
     pb_giftCardId = None, pb_orderCreatedAt = None, pb_razorpayOrderId = Some ''o1'',
     pb_razorpayPaymentId = Some ''p1'', pb_razorpaySignature = None, pb_razorpayRefundId = None,
     pb_refundAmount = 0, pb_refundedSeatsCount = 0, pb_expiresAt = Some 600000, pb_createdAt = 0,
     pb_paymentCapturedAt = None, pb_refundInitiatedAt = None, pb_refundCompletedAt = None,
     pb_refundedAt = None\<rparr>"

definition demo_pay_store :: "pay_booking \<Rightarrow> pay_store" where
  "demo_pay_store b = \<lparr>ps_bookings = [b], ps_seatLocks = [], ps_bookingSeats = [], ps_availability = [],
     ps_ledger = [], ps_webhookEvents = [], ps_paymentEvents = [], ps_deadLetters = [], ps_systemEvents = [],
     ps_paymentLogs = [], ps_tenants = [\<lparr>rv_tenantId = ''t1'', rv_monthlyRevenue = 0\<rparr>],
     ps_shows = []\<rparr>"

lemma find_demo [simp]:
  "find_pay i (demo_pay_store b) = (if pb_id b = i then Some b else None)"
  by (simp add: find_pay_def demo_pay_store_def)

lemma demo_pay_store_simps [simp]:
  "ps_bookings (demo_pay_store b) = [b]" "ps_ledger (demo_pay_store b) = []"
  "ps_paymentLogs (demo_pay_store b) = []" "ps_webhookEvents (demo_pay_store b) = []"
  "ps_tenants (demo_pay_store b) = [\<lparr>rv_tenantId = ''t1'', rv_monthlyRevenue = 0\<rparr>]"
  by (simp_all add: demo_pay_store_def)

lemma demo_booking_simps [simp]:
  "pb_id (demo_booking st) = ''b1''" "pb_status (demo_booking st) = st"
  "pb_tenantId (demo_booking st) = Some ''t1''" "pb_razorpayPaymentId (demo_booking st) = Some ''p1''"
  "pb_finalAmount (demo_booking st) = 12199" "pb_razorpayOrderId (demo_booking st) = Some ''o1''"
  by (simp_all add: demo_booking_def)

end
