(* ===== verification/PaymentProcessor.thy ===== *)
theory PaymentProcessor
  imports PaymentStore
begin

text \<open>
  \<open>processPaymentSuccess\<close> of \<open>backend/src/payments/payments-processor.service.ts\<close> and
  \<open>processRefund\<close> of \<open>refund.service.ts\<close>. The provider's refund call is a parameter; the time
  of an update is an argument.
\<close>

section \<open>A captured payment\<close>

record processed =
  pr_requiresRefund :: bool
  pr_successfulBookingId :: "string option"
  pr_successfulShowId :: "string option"
  pr_successfulTenantId :: "string option"

definition confirm_pay :: "int \<Rightarrow> string \<Rightarrow> string option \<Rightarrow> pay_booking \<Rightarrow> pay_booking" where
  "confirm_pay now pid signature b =
     b\<lparr>pb_status := CONFIRMED, pb_razorpayPaymentId := Some pid,
       pb_razorpaySignature := (case signature of None \<Rightarrow> pb_razorpaySignature b | Some g \<Rightarrow> Some g),
       pb_paymentCapturedAt := Some now\<rparr>"

definition processPaymentSuccess ::
  "int \<Rightarrow> string \<Rightarrow> string \<Rightarrow> string \<Rightarrow> string \<Rightarrow> pay_store \<Rightarrow> (pay_store \<times> processed) outcome" where
  "processPaymentSuccess now bookingId razorpayPaymentId signature tenantId s =
     (let nothing = \<lparr>pr_requiresRefund = False, pr_successfulBookingId = None,
                     pr_successfulShowId = None, pr_successfulTenantId = None\<rparr>
      in case find_pay bookingId s of
        None \<Rightarrow> Inl (Internal ''Booking not found or tenant mismatch'')
      | Some booking \<Rightarrow>
          if pb_tenantId booking \<noteq> Some tenantId
          then Inl (Internal ''Booking not found or tenant mismatch'')
          else if pb_status booking = PAYMENT_IN_PROGRESS \<or> pb_status booking = LOCKED then
            (if \<not> column_free pb_razorpayPaymentId bookingId razorpayPaymentId s
             then Inl (Internal ''Unique constraint failed'')
             else Inr
               (append_ledger [payment_row booking (ledger_amount booking) razorpayPaymentId tenantId]
                 (move_booking_seats bookingId CONFIRMED
                   (move_seat_locks bookingId Lk_CONFIRMED
                     (update_pay bookingId (confirm_pay now razorpayPaymentId (Some signature)) s))),
                \<lparr>pr_requiresRefund = False, pr_successfulBookingId = Some bookingId,
                 pr_successfulShowId = Some (pb_showId booking), pr_successfulTenantId = Some tenantId\<rparr>))
          else if pb_status booking = EXPIRED then
            Inr (append_ledger
                   [payment_row booking (ledger_amount booking) razorpayPaymentId tenantId,
                    refund_row booking (ledger_amount booking) razorpayPaymentId Ls_REFUND_INITIATED tenantId] s,
                 nothing\<lparr>pr_requiresRefund := True\<rparr>)
          else Inr (s, nothing))"

section \<open>A refund\<close>

record refund_request =
  rq_paymentId :: string
  rq_amount :: int
  rq_bookingId :: string
  rq_tenantId :: string

definition handleRefundFailure ::
  "string \<Rightarrow> string \<Rightarrow> string \<Rightarrow> int \<Rightarrow> http_error \<Rightarrow> nat \<Rightarrow> pay_booking \<Rightarrow> pay_store \<Rightarrow> pay_store" where
  "handleRefundFailure bookingId paymentId tenantId amount error retryCount booking s =
     (let s1 = (case find_pay bookingId s of
            None \<Rightarrow> s
          | Some bk \<Rightarrow> if pb_status bk = REFUND_INITIATED
                      then (case validateTransition (pb_status bk) REFUND_FAILED of
                              Inl e \<Rightarrow> s
                            | Inr _ \<Rightarrow> update_pay bookingId (set_status REFUND_FAILED) s)
                      else s)
      in append_dead_letter
           \<lparr>dl_type = ''REFUND_API_FAILED'', dl_reason = Internal ''External API Call Failed'',
            dl_bookingId = bookingId, dl_razorpayEventId = Some paymentId, dl_tenantId = tenantId,
            dl_retryCount = retryCount + 1\<rparr>
           (append_ledger [refund_row booking amount paymentId Ls_FAILED tenantId] s1))"

text \<open>The transaction after a successful refund call; it fails when another booking holds the
  refund id.\<close>

definition refund_succeeded ::
  "int \<Rightarrow> string \<Rightarrow> string \<Rightarrow> int \<Rightarrow> string \<Rightarrow> pay_booking \<Rightarrow> pay_store \<Rightarrow> pay_store outcome" where
  "refund_succeeded now bookingId tenantId amount refundId booking s =
     (let row = refund_row booking amount
            (if refundId = [] then the (pb_razorpayPaymentId booking) else refundId) Ls_SUCCESS tenantId
      in case find_pay bookingId s of
           None \<Rightarrow> Inr (append_ledger [row] s)
         | Some latestBk \<Rightarrow>
             if pb_status latestBk \<noteq> REFUND_INITIATED then Inr (append_ledger [row] s)
             else case validateTransition (pb_status latestBk) REFUNDED of
               Inl e \<Rightarrow> Inl e
             | Inr _ \<Rightarrow>
                 if \<not> column_free pb_razorpayRefundId bookingId refundId s
                 then Inl (Internal ''Unique constraint failed'')
                 else Inr (append_ledger [row]
                        (update_pay bookingId
                          (\<lambda>b. b\<lparr>pb_status := REFUNDED, pb_razorpayRefundId := Some refundId,
                                 pb_refundCompletedAt := Some now, pb_refundedAt := Some now\<rparr>) s)))"

definition processRefund ::
  "(refund_request \<Rightarrow> string outcome) \<Rightarrow> int \<Rightarrow> string \<Rightarrow> string \<Rightarrow> nat \<Rightarrow> pay_store \<Rightarrow> pay_store \<times> bool" where
  "processRefund refundApi now bookingId tenantId retryCount s =
     (case find_pay bookingId s of
        None \<Rightarrow> (s, False)
      | Some booking \<Rightarrow>
          if pb_tenantId booking \<noteq> Some tenantId then (s, False)
          else if \<not> truthy (pb_razorpayPaymentId booking) then (s, False)
          else if pb_status booking \<noteq> REFUND_INITIATED then (s, False)
          else
            let paymentId = the (pb_razorpayPaymentId booking); amount = ledger_amount booking
            in case refundApi \<lparr>rq_paymentId = paymentId, rq_amount = amount, rq_bookingId = pb_id booking,
                               rq_tenantId = tenantId\<rparr> of
                 Inl error \<Rightarrow>
                   (handleRefundFailure bookingId paymentId tenantId amount error retryCount booking s, False)
               | Inr refundId \<Rightarrow>
                   (case refund_succeeded now bookingId tenantId amount refundId booking s of
                      Inr s' \<Rightarrow> (s', True)
                    | Inl dbError \<Rightarrow>
                        (append_dead_letter
                           \<lparr>dl_type = ''REFUND_SYNC_FAILED'', dl_reason = dbError, dl_bookingId = bookingId,
                            dl_razorpayEventId = Some paymentId, dl_tenantId = tenantId,
                            dl_retryCount = retryCount\<rparr> s, False)))"

section \<open>Both keep the contract\<close>

lemma run_status_via: "b \<in> set (allowed_transitions a) \<Longrightarrow> run status_step a b"
  by (rule run_step [OF run_refl]) (simp add: status_step_iff)

lemma run_LOCKED_CONFIRMED: "run status_step LOCKED CONFIRMED"
  by (rule run_step [OF run_status_via [of PAYMENT_IN_PROGRESS]]) (simp_all add: status_step_iff)

lemma confirm_pay_simps [simp]:
  "pb_id (confirm_pay now p g b) = pb_id b" "pb_status (confirm_pay now p g b) = CONFIRMED"
  by (simp_all add: confirm_pay_def)

lemma lawful_processPaymentSuccess:
  assumes "processPaymentSuccess now i p g tid s = Inr (s', r)"
  shows "lawful_change s s'"
proof (cases "find_pay i s")
  case None
  with assms show ?thesis by (simp add: processPaymentSuccess_def Let_def)
next
  case (Some b)
  consider "pb_status b = PAYMENT_IN_PROGRESS \<or> pb_status b = LOCKED" | "pb_status b = EXPIRED"
    | "pb_status b \<notin> {PAYMENT_IN_PROGRESS, LOCKED, EXPIRED}" by blast
  then show ?thesis
  proof cases
    case 1
    then have "run status_step (pb_status b) CONFIRMED"
      using run_LOCKED_CONFIRMED run_status_via [of CONFIRMED PAYMENT_IN_PROGRESS] by auto
    then show ?thesis
      using assms Some 1
      by (intro lawful_update [where b = b and i = i and f = "confirm_pay now p (Some g)"])
        (auto simp: processPaymentSuccess_def Let_def split: if_splits)
  next
    case 2
    with assms Some show ?thesis
      by (intro lawful_cong) (auto simp: processPaymentSuccess_def Let_def split: if_splits)
  next
    case 3
    with assms Some show ?thesis
      by (auto simp: processPaymentSuccess_def Let_def split: if_splits)
  qed
qed

lemma lawful_handleRefundFailure: "lawful_change s (handleRefundFailure i p tid amount e n b s)"
proof (cases "find_pay i s")
  case None
  then show ?thesis by (intro lawful_cong) (simp_all add: handleRefundFailure_def)
next
  case (Some bk)
  show ?thesis
  proof (cases "pb_status bk = REFUND_INITIATED")
    case True
    then have "is_ok (validateTransition (pb_status bk) REFUND_FAILED)"
      by (simp add: validateTransition_def)
    with Some True show ?thesis
      by (intro lawful_update [where b = bk and i = i and f = "set_status REFUND_FAILED"])
        (auto simp: handleRefundFailure_def is_ok_iff intro!: run_status_via)
  next
    case False
    with Some show ?thesis by (intro lawful_cong) (simp_all add: handleRefundFailure_def)
  qed
qed

lemma lawful_refund_succeeded:
  assumes "refund_succeeded now i tid amount rid b s = Inr s'"
  shows "lawful_change s s'"
proof (cases "find_pay i s")
  case None
  with assms show ?thesis by (intro lawful_cong) (auto simp: refund_succeeded_def Let_def)
next
  case (Some bk)
  show ?thesis
  proof (cases "pb_status bk = REFUND_INITIATED")
    case True
    then have "is_ok (validateTransition (pb_status bk) REFUNDED)" by (simp add: validateTransition_def)
    with assms Some True show ?thesis
      by (intro lawful_update [where b = bk and i = i and f = "\<lambda>b. b\<lparr>pb_status := REFUNDED,
            pb_razorpayRefundId := Some rid, pb_refundCompletedAt := Some now, pb_refundedAt := Some now\<rparr>"])
        (auto simp: refund_succeeded_def Let_def is_ok_iff split: if_splits intro!: run_status_via)
  next
    case False
    with assms Some show ?thesis by (intro lawful_cong) (auto simp: refund_succeeded_def Let_def)
  qed
qed

lemma lawful_processRefund: "lawful_change s (fst (processRefund api now i tid n s))"
  by (auto simp: processRefund_def Let_def lawful_handleRefundFailure
      intro: lawful_refund_succeeded lawful_cong split: option.splits sum.splits)

interpretation refund_op: lawful_operation
  "\<lambda>(now, i, tid, n) s. fst (processRefund api now i tid n s)" for api
  by unfold_locales (auto simp: lawful_processRefund split: prod.splits)

interpretation payment_op: lawful_operation
  "\<lambda>(now, i, p, g, tid) s. case processPaymentSuccess now i p g tid s of Inl e \<Rightarrow> s | Inr r \<Rightarrow> fst r"
  by unfold_locales (auto split: prod.splits sum.splits dest: lawful_processPaymentSuccess)

end
