(* ===== verification/PaymentWebhook.thy ===== *)
theory PaymentWebhook
  imports PaymentProcessor
begin

text \<open>
  The webhook controller of the payment generation,
  \<open>backend/src/payments/payments.webhook.controller.ts\<close>. The body is parsed by the framework;
  the fields the handler reads are a record. HMAC-SHA256 and the serialization of a body whose
  raw text is missing are parameters. The captured branch runs \<open>processPaymentSuccess\<close> in a
  transaction of its own inside the controller's transaction: its effects stay even when the
  outer transaction is rolled back.
\<close>

record webhook_payment =
  wp_id :: string
  wp_order_id :: "string option"
  wp_notes_bookingId :: "string option"
  wp_notes_tenantId :: "string option"

record webhook_refund =
  wr_id :: "string option"
  wr_payment_id :: "string option"

record webhook_event =
  wv_id :: "string option"
  wv_event :: string
  wv_payment :: "webhook_payment option"
  wv_refund :: "webhook_refund option"

record webhook_env =
  wx_hmac :: "string \<Rightarrow> string \<Rightarrow> string"
  wx_secret :: "string option"
  wx_stringify :: "webhook_event \<Rightarrow> string"

datatype webhook_answer = Wa_ignored | Wa_ignored_no_booking_id | Wa_ok

definition resolve_booking_id :: "webhook_payment \<Rightarrow> pay_store \<Rightarrow> string option" where
  "resolve_booking_id p s =
     (if truthy (wp_notes_bookingId p) then wp_notes_bookingId p
      else if truthy (wp_order_id p)
      then map_option pb_id (find (\<lambda>b. pb_razorpayOrderId b = wp_order_id p) (ps_bookings s))
      else wp_notes_bookingId p)"

text \<open>The outer transaction of \<open>payment.captured\<close>. The result is the store that is committed
  and the error that leaves it, if any.\<close>

definition captured_transaction ::
  "int \<Rightarrow> string \<Rightarrow> string \<Rightarrow> webhook_payment \<Rightarrow> webhook_event \<Rightarrow> pay_store \<Rightarrow> pay_store \<times> http_error option" where
  "captured_transaction now bookingId signature p event s =
     (let eventId = or_str (wv_id event) (wp_id p)
      in if eventId \<in> set (ps_webhookEvents s) then (s, None)
         else if \<not> truthy (wp_notes_tenantId p) then (s, Some (BadRequest ''Missing tenantId in notes''))
         else
           let tenantId = the (wp_notes_tenantId p)
           in if eventId \<in> pv_razorpayEventId ` set (ps_paymentEvents s)
              then (s, Some (Internal ''Unique constraint failed''))
              else case processPaymentSuccess now bookingId (wp_id p) signature tenantId s of
                Inl e \<Rightarrow> (s, Some e)
              | Inr (s1, _) \<Rightarrow>
                  (s1\<lparr>ps_webhookEvents := ps_webhookEvents s1 @ [eventId],
                      ps_paymentEvents := ps_paymentEvents s1 @
                        [\<lparr>pv_razorpayEventId = eventId, pv_bookingId = bookingId,
                          pv_eventType = wv_event event, pv_tenantId = tenantId, pv_processed = True\<rparr>]\<rparr>, None))"

definition handle_captured ::
  "int \<Rightarrow> string \<Rightarrow> string \<Rightarrow> webhook_payment \<Rightarrow> webhook_event \<Rightarrow> pay_store \<Rightarrow> pay_store \<times> webhook_answer outcome" where
  "handle_captured now bookingId signature p event s =
     (case captured_transaction now bookingId signature p event s of
        (s1, None) \<Rightarrow> (s1, Inr Wa_ok)
      | (s1, Some err) \<Rightarrow>
          (append_dead_letter
             \<lparr>dl_type = wv_event event, dl_reason = err, dl_bookingId = bookingId,
              dl_razorpayEventId = wv_id event, dl_tenantId = or_str (wp_notes_tenantId p) ''UNKNOWN'',
              dl_retryCount = 0\<rparr> s1, Inl err))"

definition find_by_payment :: "string option \<Rightarrow> pay_store \<Rightarrow> pay_booking option" where
  "find_by_payment pid s =
     (if truthy pid then find (\<lambda>b. pb_razorpayPaymentId b = pid) (ps_bookings s) else None)"

text \<open>The refund branches write without a transaction: a failing update leaves nothing.\<close>

definition handle_refund_processed :: "int \<Rightarrow> webhook_refund option \<Rightarrow> pay_store \<Rightarrow> pay_store \<times> webhook_answer outcome" where
  "handle_refund_processed now refund s =
     (case find_by_payment (Option.bind refund wr_payment_id) s of
        None \<Rightarrow> (s, Inr Wa_ok)
      | Some b \<Rightarrow>
          if pb_status b \<noteq> REFUND_INITIATED
          then (log_system_event ''WEBHOOK_REPLAY'' (pb_id b) s, Inr Wa_ok)
          else
            let refundId = Option.bind refund wr_id
            in if (case refundId of None \<Rightarrow> False | Some r \<Rightarrow> \<not> column_free pb_razorpayRefundId (pb_id b) r s)
               then (s, Inl (Internal ''Unique constraint failed''))
               else (log_system_event ''REFUND_COMPLETED'' (pb_id b)
                      (update_pay (pb_id b)
                        (\<lambda>b. b\<lparr>pb_status := REFUNDED, pb_refundedAt := Some now,
                               pb_razorpayRefundId :=
                                 (case refundId of None \<Rightarrow> pb_razorpayRefundId b | Some r \<Rightarrow> Some r)\<rparr>) s),
                     Inr Wa_ok))"

definition handle_refund_failed :: "webhook_refund option \<Rightarrow> pay_store \<Rightarrow> pay_store \<times> webhook_answer outcome" where
  "handle_refund_failed refund s =
     (case find_by_payment (Option.bind refund wr_payment_id) s of
        None \<Rightarrow> (s, Inr Wa_ok)
      | Some b \<Rightarrow>
          (log_system_event ''REFUND_FAILED'' (pb_id b) (update_pay (pb_id b) (set_status REFUND_FAILED) s),
           Inr Wa_ok))"

definition handleWebhook ::
  "webhook_env \<Rightarrow> int \<Rightarrow> string option \<Rightarrow> string \<Rightarrow> webhook_event \<Rightarrow> pay_store \<Rightarrow> pay_store \<times> webhook_answer outcome" where
  "handleWebhook env now rawBody signature event s =
     (let bodyForVerification = (case rawBody of None \<Rightarrow> wx_stringify env event | Some b \<Rightarrow> b)
      in if \<not> truthy (wx_secret env) then (s, Inl (BadRequest ''Webhook secret not configured''))
         else if wx_hmac env (the (wx_secret env)) bodyForVerification \<noteq> signature
         then (s, Inl (BadRequest ''Invalid signature''))
         else case wv_payment event of
           None \<Rightarrow> (s, Inr Wa_ignored)
         | Some p \<Rightarrow>
             if \<not> truthy (resolve_booking_id p s) then (s, Inr Wa_ignored_no_booking_id)
             else if wv_event event = ''payment.captured''
             then handle_captured now (the (resolve_booking_id p s)) signature p event s
             else if wv_event event = ''payment.failed'' then (s, Inr Wa_ok)
             else if wv_event event = ''refund.processed'' then handle_refund_processed now (wv_refund event) s
             else if wv_event event = ''refund.failed'' then handle_refund_failed (wv_refund event) s
             else (s, Inr Wa_ok))"

section \<open>The parts keep the contract, the failed refund aside\<close>

lemma lawful_dead_letter: "lawful_change s (append_dead_letter d s)"
  by (rule lawful_cong) simp_all

lemma lawful_captured: "lawful_change s (fst (handle_captured now i g p ev s))"
proof -
  have "lawful_change s (fst (captured_transaction now i g p ev s))"
  proof (cases "processPaymentSuccess now i (wp_id p) g (the (wp_notes_tenantId p)) s")
    case (Inl e)
    then show ?thesis by (simp add: captured_transaction_def Let_def)
  next
    case (Inr r)
    obtain s1 r' where r: "r = (s1, r')" by (cases r)
    with Inr have "lawful_change s s1" by (auto dest: lawful_processPaymentSuccess)
    moreover have "lawful_change s1 (s1\<lparr>ps_webhookEvents := w, ps_paymentEvents := v\<rparr>)" for w v
      by (rule lawful_cong) simp_all
    ultimately show ?thesis
      using Inr r by (auto simp: captured_transaction_def Let_def intro: lawful_trans)
  qed
  then show ?thesis
    by (auto simp: handle_captured_def intro: lawful_trans lawful_dead_letter split: prod.splits option.splits)
qed

lemma find_by_payment_in:
  "find_by_payment pid s = Some b \<Longrightarrow> b \<in> set (ps_bookings s) \<and> pb_razorpayPaymentId b = pid"
  by (auto simp: find_by_payment_def dest: find_in split: if_splits)

text \<open>\<open>refund.processed\<close> is guarded by the status, so it follows the table as well.\<close>

lemma lawful_refund_processed:
  assumes "distinct (map pb_id (ps_bookings s))"
  shows "lawful_change s (fst (handle_refund_processed now rf s))"
proof (cases "find_by_payment (Option.bind rf wr_payment_id) s")
  case None
  then show ?thesis by (simp add: handle_refund_processed_def)
next
  case (Some b)
  then have b: "find_pay (pb_id b) s = Some b"
    using find_distinct_key [OF assms] find_by_payment_in unfolding find_pay_def by blast
  show ?thesis
  proof (cases "pb_status b = REFUND_INITIATED")
    case False
    with Some show ?thesis by (intro lawful_cong) (simp_all add: handle_refund_processed_def)
  next
    case True
    let ?rid = "Option.bind rf wr_id"
    let ?f = "\<lambda>b. b\<lparr>pb_status := REFUNDED, pb_refundedAt := Some now,
      pb_razorpayRefundId := (case ?rid of None \<Rightarrow> pb_razorpayRefundId b | Some r \<Rightarrow> Some r)\<rparr>"
    have "lawful_change s (log_system_event ''REFUND_COMPLETED'' (pb_id b) (update_pay (pb_id b) ?f s))"
      using True by (intro lawful_update [OF b, where f = ?f]) (auto intro!: run_status_via)
    with Some True show ?thesis by (auto simp: handle_refund_processed_def Let_def)
  qed
qed

end
