(* ===== verification/Reconciliation.thy ===== *)
theory Reconciliation
  imports PaymentProcessor Doubles
begin

text \<open>
  The sweeps that repair missed webhooks: \<open>backend/src/payments/reconciliation.worker.ts\<close>
  (every five minutes) and the server-side verification of
  \<open>payments-reconciliation.service.ts\<close>. The provider's \<open>orders.fetchPayments\<close> and
  \<open>payments.fetch\<close> are parameters. A sweep works on the rows it read at its start; each
  booking is processed against the store as it is by then.
\<close>

record provider_payment =
  pp_id :: string
  pp_status :: string
  pp_order_id :: string
  pp_amount :: int

section \<open>The worker\<close>

definition captured_payment :: "provider_payment list \<Rightarrow> provider_payment option" where
  "captured_payment items = find (\<lambda>p. pp_status p = ''captured'') items"

text \<open>The transaction for a payment that is not in the ledger yet.\<close>

definition sync_payment :: "int \<Rightarrow> string \<Rightarrow> string \<Rightarrow> int \<Rightarrow> string \<Rightarrow> pay_store \<Rightarrow> pay_store outcome" where
  "sync_payment now bookingId tenantId finalAmount paymentId s =
     (case find_pay bookingId s of
        None \<Rightarrow> Inr s
      | Some bk \<Rightarrow>
          if pb_status bk = PAYMENT_IN_PROGRESS then
            (case validateTransition (pb_status bk) CONFIRMED of Inl e \<Rightarrow> Inl e
             | Inr _ \<Rightarrow>
                 if \<not> column_free pb_razorpayPaymentId bookingId paymentId s
                 then Inl (Internal ''Unique constraint failed'')
                 else Inr (append_ledger [payment_row bk finalAmount paymentId tenantId]
                        (move_booking_seats bookingId CONFIRMED
                          (move_seat_locks bookingId Lk_CONFIRMED
                            (update_pay bookingId (confirm_pay now paymentId None) s)))))
          else if pb_status bk \<in> set [EXPIRED, CANCELLED, FAILED] then
            (case validateTransition (pb_status bk) REFUND_INITIATED of Inl e \<Rightarrow> Inl e
             | Inr _ \<Rightarrow>
                 if \<not> column_free pb_razorpayPaymentId bookingId paymentId s
                 then Inl (Internal ''Unique constraint failed'')
                 else Inr (append_ledger
                        [payment_row bk finalAmount paymentId tenantId,
                         refund_row bk finalAmount paymentId Ls_REFUND_INITIATED tenantId]
                        (update_pay bookingId
                          (\<lambda>b. b\<lparr>pb_status := REFUND_INITIATED, pb_razorpayPaymentId := Some paymentId,
                                 pb_paymentCapturedAt := Some now, pb_refundInitiatedAt := Some now\<rparr>) s)))
          else Inr s)"

text \<open>The transaction for an order without a captured payment.\<close>

definition fail_unpaid :: "string \<Rightarrow> pay_store \<Rightarrow> pay_store outcome" where
  "fail_unpaid bookingId s =
     (case find_pay bookingId s of
        None \<Rightarrow> Inr s
      | Some bk \<Rightarrow>
          if pb_status bk = PAYMENT_IN_PROGRESS then
            (case validateTransition (pb_status bk) FAILED of Inl e \<Rightarrow> Inl e
             | Inr _ \<Rightarrow> Inr (move_seat_locks bookingId Lk_RELEASED (update_pay bookingId (set_status FAILED) s)))
          else Inr s)"

text \<open>\<open>booking.update\<close> on a \<open>where\<close> that matches no row rejects (\<open>P2025\<close>).\<close>

definition reconcileBooking ::
  "(string \<Rightarrow> provider_payment list outcome) \<Rightarrow> int \<Rightarrow> string \<Rightarrow> string option \<Rightarrow> string \<Rightarrow> int \<Rightarrow>
   pay_store \<Rightarrow> pay_store outcome" where
  "reconcileBooking fetchPayments now bookingId razorpayOrderId tenantId finalAmount s =
     (if \<not> truthy razorpayOrderId then
        (if find_pay bookingId s = None then Inl (Internal ''Record to update not found'')
         else Inr (update_pay bookingId (set_status FAILED) s))
      else case fetchPayments (the razorpayOrderId) of
        Inl e \<Rightarrow> Inr s
      | Inr items \<Rightarrow>
          (case captured_payment items of
             Some p \<Rightarrow>
               if list_ex (\<lambda>l. lg_razorpayId l = pp_id p \<and> lg_status l = Ls_SUCCESS) (ps_ledger s)
               then (case find_pay bookingId s of
                   Some bk \<Rightarrow> if pb_status bk = PAYMENT_IN_PROGRESS
                             then Inr (update_pay bookingId (set_status CONFIRMED) s)
                             else Inl (Internal ''Record to update not found'')
                 | None \<Rightarrow> Inl (Internal ''Record to update not found''))
               else sync_payment now bookingId tenantId finalAmount (pp_id p) s
           | None \<Rightarrow> fail_unpaid bookingId s))"

text \<open>\<open>findMany where \<dots> orderBy createdAt asc, take 50\<close>.\<close>

definition stale_bookings :: "int \<Rightarrow> pay_store \<Rightarrow> pay_booking list" where
  "stale_bookings cutoff s = take 50 (sort_key pb_createdAt
     (filter (\<lambda>b. pb_status b = PAYMENT_IN_PROGRESS \<and> pb_createdAt b < cutoff) (ps_bookings s)))"

definition pending_refunds :: "pay_store \<Rightarrow> pay_booking list" where
  "pending_refunds s = take 50 (sort_key pb_createdAt
     (filter (\<lambda>b. pb_status b = REFUND_INITIATED) (ps_bookings s)))"

text \<open>One turn of each loop: a booking without a tenant is skipped, an error is logged only.\<close>

definition reconcile_one ::
  "(string \<Rightarrow> provider_payment list outcome) \<Rightarrow> int \<Rightarrow> pay_booking \<Rightarrow> pay_store \<Rightarrow> pay_store" where
  "reconcile_one fetchPayments now b s =
     (if \<not> truthy (pb_tenantId b) then s
      else case reconcileBooking fetchPayments now (pb_id b) (pb_razorpayOrderId b) (the (pb_tenantId b))
                  (pb_finalAmount b) s of
        Inl e \<Rightarrow> s | Inr s' \<Rightarrow> s')"

definition refund_one :: "(refund_request \<Rightarrow> string outcome) \<Rightarrow> int \<Rightarrow> pay_booking \<Rightarrow> pay_store \<Rightarrow> pay_store" where
  "refund_one refundApi now b s =
     (if \<not> truthy (pb_tenantId b) then s
      else fst (processRefund refundApi now (pb_id b) (the (pb_tenantId b)) 0 s))"

definition sweepPendingRefunds :: "(refund_request \<Rightarrow> string outcome) \<Rightarrow> int \<Rightarrow> pay_store \<Rightarrow> pay_store" where
  "sweepPendingRefunds refundApi now s = fold (refund_one refundApi now) (pending_refunds s) s"

text \<open>A guard of the process skips a sweep while another runs; the pending refunds are swept
  only when there was a stale booking.\<close>

definition handleReconciliation ::
  "(string \<Rightarrow> provider_payment list outcome) \<Rightarrow> (refund_request \<Rightarrow> string outcome) \<Rightarrow> int \<Rightarrow> bool \<Rightarrow>
   pay_store \<Rightarrow> bool \<times> pay_store" where
  "handleReconciliation fetchPayments refundApi now isReconciling s =
     (if isReconciling then (isReconciling, s)
      else
        let staleBookings = stale_bookings (now - 10 * 60 * 1000) s
        in if staleBookings = [] then (False, s)
           else (False, sweepPendingRefunds refundApi now (fold (reconcile_one fetchPayments now) staleBookings s)))"

section \<open>The server-side verification\<close>

text \<open>\<open>Number(payment.amount) === expectedAmount * 100\<close> on doubles; \<open>Number(finalAmount)\<close> is the
  double nearest to the decimal.\<close>

definition verifyPayment ::
  "(string \<Rightarrow> provider_payment outcome) \<Rightarrow> string \<Rightarrow> string \<Rightarrow> rat \<Rightarrow> bool" where
  "verifyPayment fetchPayment paymentId orderId expectedAmount =
     (case fetchPayment paymentId of
        Inl e \<Rightarrow> False
      | Inr payment \<Rightarrow> pp_status payment = ''captured'' \<and> pp_order_id payment = orderId
          \<and> of_int (pp_amount payment) = d_mul expectedAmount 100)"

definition reconcile_verified ::
  "(string \<Rightarrow> provider_payment outcome) \<Rightarrow> int \<Rightarrow> string \<Rightarrow> string \<Rightarrow> string \<Rightarrow> string \<Rightarrow> pay_store \<Rightarrow>
   pay_store outcome" where
  "reconcile_verified fetchPayment now bookingId razorpayOrderId razorpayPaymentId tenantId s =
     (if razorpayPaymentId \<in> pl_razorpayPaymentId ` set (ps_paymentLogs s) then Inr s
      else case find_pay bookingId s of
        None \<Rightarrow> Inr s
      | Some booking \<Rightarrow>
          let isVerified = verifyPayment fetchPayment razorpayPaymentId razorpayOrderId
                (to_double (of_int (pb_finalAmount booking) / 100));
              s1 = s\<lparr>ps_paymentLogs := ps_paymentLogs s @
                     [\<lparr>pl_bookingId = bookingId, pl_razorpayOrderId = razorpayOrderId,
                       pl_razorpayPaymentId = razorpayPaymentId, pl_verified = isVerified,
                       pl_amount = pb_finalAmount booking, pl_tenantId = tenantId\<rparr>]\<rparr>
          in if isVerified then
               (if \<not> column_free pb_razorpayPaymentId bookingId razorpayPaymentId s
                then Inl (Internal ''Unique constraint failed'')
                else if tenantId \<notin> rv_tenantId ` set (ps_tenants s)
                then Inl (Internal ''Record to update not found'')
                else Inr ((update_pay bookingId (confirm_pay now razorpayPaymentId None) s1)
                       \<lparr>ps_tenants := update_where (\<lambda>t. rv_tenantId t = tenantId)
                          (\<lambda>t. t\<lparr>rv_monthlyRevenue := rv_monthlyRevenue t + pb_finalAmount booking\<rparr>)
                          (ps_tenants s)\<rparr>))
             else Inr (update_pay bookingId (set_status FAILED) s1))"

section \<open>The worker keeps the contract\<close>

lemma transition_ok: "b \<in> set (allowed_transitions a) \<Longrightarrow> validateTransition a b = Inr ()"
  by (simp add: validateTransition_def)

lemma lawful_sync_payment:
  assumes "sync_payment now i tid amount pid s = Inr s'"
  shows "lawful_change s s'"
proof (cases "find_pay i s")
  case None
  with assms show ?thesis by (simp add: sync_payment_def)
next
  case (Some b)
  consider "pb_status b = PAYMENT_IN_PROGRESS" | "pb_status b \<in> set [EXPIRED, CANCELLED, FAILED]"
    | "pb_status b \<notin> set [PAYMENT_IN_PROGRESS, EXPIRED, CANCELLED, FAILED]" by auto
  then show ?thesis
  proof cases
    case 1
    with assms Some show ?thesis
      by (intro lawful_update [where b = b and i = i and f = "confirm_pay now pid None"])
        (auto simp: sync_payment_def transition_ok split: if_splits intro!: run_status_via)
  next
    case 2
    then have t: "REFUND_INITIATED \<in> set (allowed_transitions (pb_status b))" "pb_status b \<noteq> PAYMENT_IN_PROGRESS"
      by auto
    with assms Some 2 show ?thesis
      by (intro lawful_update [where b = b and i = i and f = "\<lambda>b. b\<lparr>pb_status := REFUND_INITIATED,
            pb_razorpayPaymentId := Some pid, pb_paymentCapturedAt := Some now, pb_refundInitiatedAt := Some now\<rparr>"])
        (auto simp: sync_payment_def transition_ok split: if_splits intro!: run_status_via)
  next
    case 3
    with assms Some show ?thesis by (simp add: sync_payment_def)
  qed
qed

lemma lawful_fail_unpaid:
  assumes "fail_unpaid i s = Inr s'"
  shows "lawful_change s s'"
proof (cases "find_pay i s")
  case None
  with assms show ?thesis by (simp add: fail_unpaid_def)
next
  case (Some b)
  show ?thesis
  proof (cases "pb_status b = PAYMENT_IN_PROGRESS")
    case True
    with assms Some show ?thesis
      by (intro lawful_update [where b = b and i = i and f = "set_status FAILED"])
        (auto simp: fail_unpaid_def transition_ok intro!: run_status_via)
  next
    case False
    with assms Some show ?thesis by (simp add: fail_unpaid_def)
  qed
qed

lemma lawful_reconcileBooking:
  assumes "reconcileBooking fp now i oid tid amount s = Inr s'" and "truthy oid"
  shows "lawful_change s s'"
proof (cases "fp (the oid)")
  case (Inl e)
  with assms show ?thesis by (simp add: reconcileBooking_def)
next
  case items: (Inr items)
  show ?thesis
  proof (cases "captured_payment items")
    case None
    with assms items show ?thesis by (auto simp: reconcileBooking_def intro: lawful_fail_unpaid)
  next
    case (Some p)
    show ?thesis
    proof (cases "list_ex (\<lambda>l. lg_razorpayId l = pp_id p \<and> lg_status l = Ls_SUCCESS) (ps_ledger s)")
      case False
      with assms items Some show ?thesis by (auto simp: reconcileBooking_def intro: lawful_sync_payment)
    next
      case True
      with assms items Some obtain b where "find_pay i s = Some b" "pb_status b = PAYMENT_IN_PROGRESS"
        "s' = update_pay i (set_status CONFIRMED) s"
        by (auto simp: reconcileBooking_def split: option.splits if_splits)
      then show ?thesis
        by (intro lawful_update [where b = b and i = i and f = "set_status CONFIRMED"])
          (auto intro!: run_status_via)
    qed
  qed
qed

interpretation reconcile_op: lawful_operation
  "\<lambda>b s. if truthy (pb_razorpayOrderId b) then reconcile_one fp now b s else s" for fp now
  by unfold_locales (auto simp: reconcile_one_def intro: lawful_reconcileBooking split: sum.splits)

interpretation sweep_op: lawful_operation "\<lambda>b s. refund_one api now b s" for api now
  by unfold_locales (auto simp: refund_one_def lawful_processRefund)

end
