(* ===== verification/PaymentGuarantees.thy ===== *)
theory PaymentGuarantees
  imports PaymentWebhook Reconciliation
begin

text \<open>
  What the payment generation guarantees about money and statuses, and where it does not:
  refunds are paid once, redelivered events change nothing, the sweeps follow the transition
  table and keep the ledger append-only; late payments, late refund failures and the
  comparison of amounts as doubles are where it fails.
\<close>

section \<open>Refunds\<close>

lemma REFUNDED_final: "run status_step REFUNDED st \<Longrightarrow> st = REFUNDED"
proof -
  have "run status_step a b \<Longrightarrow> a = REFUNDED \<Longrightarrow> b = REFUNDED" for a b
    by (induction rule: run.induct) (auto simp: status_step_iff)
  then show "run status_step REFUNDED st \<Longrightarrow> st = REFUNDED" by simp
qed

lemma processRefund_True:
  assumes "processRefund api now i tid n s = (s', True)"
  obtains b rid where "find_pay i s = Some b" "pb_status b = REFUND_INITIATED" "pb_tenantId b = Some tid"
    "api \<lparr>rq_paymentId = the (pb_razorpayPaymentId b), rq_amount = ledger_amount b, rq_bookingId = pb_id b,
          rq_tenantId = tid\<rparr> = Inr rid"
    "ps_ledger s' = ps_ledger s @ [refund_row b (ledger_amount b)
       (if rid = [] then the (pb_razorpayPaymentId b) else rid) Ls_SUCCESS tid]"
    "pay_status i s' = Some REFUNDED"
proof -
  obtain b where b: "find_pay i s = Some b" "pb_status b = REFUND_INITIATED" "pb_tenantId b = Some tid"
    using assms by (auto simp: processRefund_def split: option.splits if_splits)
  obtain rid where rid: "api \<lparr>rq_paymentId = the (pb_razorpayPaymentId b), rq_amount = ledger_amount b,
      rq_bookingId = pb_id b, rq_tenantId = tid\<rparr> = Inr rid"
    using assms b by (auto simp: processRefund_def Let_def split: if_splits sum.splits)
  then have ok: "refund_succeeded now i tid (ledger_amount b) rid b s = Inr s'"
    using assms b by (auto simp: processRefund_def Let_def split: if_splits sum.splits)
  with b have "ps_ledger s' = ps_ledger s @ [refund_row b (ledger_amount b)
       (if rid = [] then the (pb_razorpayPaymentId b) else rid) Ls_SUCCESS tid]
      \<and> pay_status i s' = Some REFUNDED"
    by (auto simp: refund_succeeded_def Let_def transition_ok pay_status_def find_pay_def find_pay_update
        split: if_splits)
  with b rid that show thesis by blast
qed



section \<open>A late payment\<close>

definition deliver :: "int \<times> string \<times> string \<Rightarrow> string \<Rightarrow> string \<Rightarrow> pay_store \<Rightarrow> pay_store" where
  "deliver d i tid s = (case d of (now, pid, sig) \<Rightarrow>
     (case processPaymentSuccess now i pid sig tid s of Inl e \<Rightarrow> s | Inr r \<Rightarrow> fst r))"

text \<open>
  A payment captured for an expired booking is never refunded. Every delivery appends a
  payment row and an initiated refund row, again for each further event, but leaves the booking
  expired and without a payment id, so neither \<open>processRefund\<close> nor the sweep of pending
  refunds ever returns the money.
\<close>

theorem late_payment_is_never_refunded:
  assumes "find_pay i s = Some b" and "pb_status b = EXPIRED" and "pb_tenantId b = Some tid"
  shows "let s' = fold (\<lambda>d. deliver d i tid) ds s in
    ps_ledger s' = ps_ledger s @ concat (map (\<lambda>(now, pid, sig).
        [payment_row b (ledger_amount b) pid tid,
         refund_row b (ledger_amount b) pid Ls_REFUND_INITIATED tid]) ds)
    \<and> ps_bookings s' = ps_bookings s
    \<and> processRefund api later i tid n s' = (s', False)
    \<and> b \<notin> set (pending_refunds s')"
proof -
  have "ps_ledger (fold (\<lambda>d. deliver d i tid) ds s) = ps_ledger s @ concat (map (\<lambda>(now, pid, sig).
        [payment_row b (ledger_amount b) pid tid, refund_row b (ledger_amount b) pid Ls_REFUND_INITIATED tid]) ds)
    \<and> ps_bookings (fold (\<lambda>d. deliver d i tid) ds s) = ps_bookings s"
    using assms
  proof (induction ds arbitrary: s)
    case (Cons d ds)
    obtain now pid sig where d: "d = (now, pid, sig)" by (cases d)
    have s1: "deliver d i tid s = append_ledger [payment_row b (ledger_amount b) pid tid,
        refund_row b (ledger_amount b) pid Ls_REFUND_INITIATED tid] s"
      using Cons.prems by (simp add: d deliver_def processPaymentSuccess_def Let_def)
    then have "find_pay i (deliver d i tid s) = Some b" using Cons.prems by (simp add: find_pay_def)
    from Cons.IH [OF this] Cons.prems show ?case by (simp add: s1) (simp add: d)
  qed simp
  moreover from this assms have "find_pay i (fold (\<lambda>d. deliver d i tid) ds s) = Some b"
    by (simp add: find_pay_def)
  ultimately show ?thesis
    using assms by (auto simp: Let_def processRefund_def pending_refunds_def dest: in_set_takeD)
qed

theorem late_payment_is_never_refunded_witness:
  "ps_ledger (fold (\<lambda>d. deliver d ''b1'' ''t1'') [(0, ''p1'', ''g''), (1, ''p1'', ''g'')]
     (demo_pay_store (demo_booking EXPIRED))) =
   [payment_row (demo_booking EXPIRED) 12199 ''p1'' ''t1'',
    refund_row (demo_booking EXPIRED) 12199 ''p1'' Ls_REFUND_INITIATED ''t1'',
    payment_row (demo_booking EXPIRED) 12199 ''p1'' ''t1'',
    refund_row (demo_booking EXPIRED) 12199 ''p1'' Ls_REFUND_INITIATED ''t1'']"
  using late_payment_is_never_refunded [of "''b1''" "demo_pay_store (demo_booking EXPIRED)" "demo_booking EXPIRED"
      "''t1''" "[(0, ''p1'', ''g''), (1, ''p1'', ''g'')]"]
  by (simp add: Let_def ledger_amount_def)

section \<open>Webhook events\<close>

text \<open>The event table is a unique index: the interface on \<open>RazorpayWebhookEvent.eventId\<close>.\<close>

definition add_event :: "string \<Rightarrow> pay_store \<Rightarrow> pay_store option" where
  "add_event k s = (if k \<in> set (ps_webhookEvents s) then None
     else Some (s\<lparr>ps_webhookEvents := ps_webhookEvents s @ [k]\<rparr>))"

interpretation captured_events: unique_insert "\<lambda>s. set (ps_webhookEvents s)" add_event
  by unfold_locales (auto simp: add_event_def split: if_splits)

text \<open>
  A captured event is processed at most once. When its handling ends without an error, the
  event id is recorded, and every later delivery of the id is acknowledged and changes
  nothing, whatever has been stored in between; when it ends with an error, the bookings and
  the ledger are as before and a dead letter carries the error.
\<close>

theorem captured_event_is_processed_once:
  "case handle_captured now i g p ev s of
     (s', Inr a) \<Rightarrow> a = Wa_ok \<and> or_str (wv_id ev) (wp_id p) \<in> set (ps_webhookEvents s')
       \<and> (\<forall>s2. set (ps_webhookEvents s') \<subseteq> set (ps_webhookEvents s2) \<longrightarrow>
            handle_captured now' i' g' p ev s2 = (s2, Inr Wa_ok))
   | (s', Inl e) \<Rightarrow> ps_bookings s' = ps_bookings s \<and> ps_ledger s' = ps_ledger s
       \<and> (\<exists>d. ps_deadLetters s' = ps_deadLetters s @ [d] \<and> dl_reason d = e \<and> dl_bookingId d = i)"
proof -
  let ?k = "or_str (wv_id ev) (wp_id p)"
  have again: "handle_captured now' i' g' p ev s2 = (s2, Inr Wa_ok)" if "?k \<in> set (ps_webhookEvents s2)" for s2
    using that by (simp add: handle_captured_def captured_transaction_def)
  obtain s1 r where t: "captured_transaction now i g p ev s = (s1, r)" by force
  show ?thesis
  proof (cases r)
    case None
    with t have "?k \<in> set (ps_webhookEvents s1)"
      by (auto simp: captured_transaction_def Let_def split: if_splits sum.splits prod.splits)
    then show ?thesis using t None again by (auto simp: handle_captured_def)
  next
    case (Some e)
    with t have "s1 = s" by (auto simp: captured_transaction_def Let_def split: if_splits sum.splits prod.splits)
    then show ?thesis using t Some by (simp add: handle_captured_def append_dead_letter_def)
  qed
qed

definition demo_paid :: webhook_payment where
  "demo_paid = \<lparr>wp_id = ''p2'', wp_order_id = Some ''o1'', wp_notes_bookingId = Some ''b1'',
     wp_notes_tenantId = Some ''t1''\<rparr>"

definition demo_captured :: webhook_event where
  "demo_captured = \<lparr>wv_id = Some ''ev1'', wv_event = ''payment.captured'', wv_payment = Some demo_paid,
     wv_refund = None\<rparr>"

theorem captured_event_is_processed_once_witness:
  "\<exists>s'. handle_captured 0 ''b1'' ''g'' demo_paid demo_captured (demo_pay_store (demo_booking PAYMENT_IN_PROGRESS)) =
      (s', Inr Wa_ok)
    \<and> pay_status ''b1'' s' = Some CONFIRMED
    \<and> handle_captured 9 ''b1'' ''g2'' demo_paid demo_captured s' = (s', Inr Wa_ok)"
proof -
  let ?r = "handle_captured 0 ''b1'' ''g'' demo_paid demo_captured (demo_pay_store (demo_booking PAYMENT_IN_PROGRESS))"
  have "is_ok (snd ?r) \<and> pay_status ''b1'' (fst ?r) = Some CONFIRMED" by code_simp
  then obtain s' a where r: "?r = (s', Inr a)" "pay_status ''b1'' s' = Some CONFIRMED"
    by (cases ?r) (auto simp: is_ok_iff)
  have "a = Wa_ok \<and> handle_captured 9 ''b1'' ''g2'' demo_paid demo_captured s' = (s', Inr Wa_ok)"
    using captured_event_is_processed_once [where now = 0 and i = "''b1''" and g = "''g''" and p = demo_paid
        and ev = demo_captured and s = "demo_pay_store (demo_booking PAYMENT_IN_PROGRESS)"
        and now' = 9 and i' = "''b1''" and g' = "''g2''"] by (simp add: r)
  with r show ?thesis by simp
qed

text \<open>
  A late \<open>refund.failed\<close> event overrides a completed refund. For every signed event of that
  type that names the payment of a booking, whatever the booking's status, the booking ends up
  as a failed refund; from the refunded status the transition table allows no such step.
\<close>

theorem refund_failed_event_overrides:
  assumes "truthy (wx_secret env)" and "wx_hmac env (the (wx_secret env)) body = sig"
    and "wv_payment ev = Some p" and "truthy (resolve_booking_id p s)" and "wv_event ev = ''refund.failed''"
    and "find_by_payment (Option.bind (wv_refund ev) wr_payment_id) s = Some b"
    and "distinct (map pb_id (ps_bookings s))"
  shows "pay_status (pb_id b) (fst (handleWebhook env now (Some body) sig ev s)) = Some REFUND_FAILED
    \<and> (pb_status b = REFUNDED \<longrightarrow> \<not> lawful_change s (fst (handleWebhook env now (Some body) sig ev s)))"
proof -
  have f: "find (\<lambda>r. pb_id r = pb_id b) (ps_bookings s) = Some b"
    using find_distinct_key [OF assms(7)] find_by_payment_in [OF assms(6)] by blast
  have e: "fst (handleWebhook env now (Some body) sig ev s) =
      log_system_event ''REFUND_FAILED'' (pb_id b) (update_pay (pb_id b) (set_status REFUND_FAILED) s)"
    using assms by (simp add: handleWebhook_def handle_refund_failed_def)
  have st: "pay_status (pb_id b) (fst (handleWebhook env now (Some body) sig ev s)) = Some REFUND_FAILED"
    using f by (simp add: e pay_status_def find_pay_def find_pay_update)
  moreover have "pay_status (pb_id b) s = Some (pb_status b)" using f by (simp add: pay_status_def find_pay_def)
  ultimately show ?thesis using REFUNDED_final by (force simp: lawful_change_def dest: spec [of _ "pb_id b"])
qed

theorem refund_failed_event_overrides_witness:
  "\<not> lawful_change (demo_pay_store (demo_booking REFUNDED))
     (fst (handleWebhook \<lparr>wx_hmac = (\<lambda>k m. k @ m), wx_secret = Some ''k'', wx_stringify = (\<lambda>e. [])\<rparr> 0 (Some ''x'') ''kx''
       \<lparr>wv_id = None, wv_event = ''refund.failed'', wv_payment = Some demo_paid,
        wv_refund = Some \<lparr>wr_id = None, wr_payment_id = Some ''p1''\<rparr>\<rparr> (demo_pay_store (demo_booking REFUNDED))))"
  by (rule refund_failed_event_overrides [where p = demo_paid and b = "demo_booking REFUNDED",
        THEN conjunct2, THEN mp])
    (simp_all add: demo_paid_def resolve_booking_id_def find_by_payment_def demo_pay_store_def)

section \<open>Sweeps\<close>



text \<open>The successful payment rows of one provider payment.\<close>

definition captured_rows :: "string \<Rightarrow> pay_store \<Rightarrow> nat" where
  "captured_rows pid s = count_where
     (\<lambda>l. lg_razorpayId l = pid \<and> lg_type l = Lt_PAYMENT \<and> lg_status l = Ls_SUCCESS) (ps_ledger s)"

lemma count_where_append [simp]: "count_where P (xs @ ys) = count_where P xs + count_where P ys"
  by (simp add: count_where_def)

lemma sync_payment_rows:
  assumes "sync_payment now i tid amount pid s = Inr s'"
  shows "captured_rows q s' = captured_rows q s
    \<or> captured_rows q s' = captured_rows q s + (if pid = q then 1 else 0)"
  using assms
  by (auto simp: sync_payment_def transition_ok captured_rows_def count_where_def payment_row_def
      refund_row_def split: if_splits option.splits)

text \<open>A turn of the worker changes the ledger only to sync a payment that has no successful row.\<close>

lemma reconcileBooking_ledger:
  assumes "reconcileBooking fp now i oid tid amount s = Inr s'"
  shows "ps_ledger s' = ps_ledger s \<or> (\<exists>p :: provider_payment. captured_rows (pp_id p) s = 0
    \<and> sync_payment now i tid amount (pp_id p) s = Inr s')"
proof (cases "truthy oid")
  case False
  with assms show ?thesis by (auto simp: reconcileBooking_def split: if_splits)
next
  case True
  show ?thesis
  proof (cases "fp (the oid)")
    case (Inl e)
    with assms True show ?thesis by (simp add: reconcileBooking_def)
  next
    case items: (Inr items)
    show ?thesis
    proof (cases "captured_payment items")
      case None
      with assms True items have "fail_unpaid i s = Inr s'" by (simp add: reconcileBooking_def)
      then show ?thesis by (auto simp: fail_unpaid_def transition_ok split: option.splits if_splits)
    next
      case (Some p)
      show ?thesis
      proof (cases "list_ex (\<lambda>l. lg_razorpayId l = pp_id p \<and> lg_status l = Ls_SUCCESS) (ps_ledger s)")
        case True
        with assms \<open>truthy oid\<close> items Some show ?thesis
          by (auto simp: reconcileBooking_def split: option.splits if_splits)
      next
        case False
        then have "captured_rows (pp_id p) s = 0"
          by (auto simp: captured_rows_def count_where_def list_ex_iff filter_empty_conv)
        with False assms \<open>truthy oid\<close> items Some show ?thesis by (auto simp: reconcileBooking_def)
      qed
    qed
  qed
qed

text \<open>
  The worker never books a payment twice: whatever the provider answers, one turn for a
  booking appends at most one successful payment row, for a payment that has none in the
  ledger, so that no payment gets a second one.
\<close>

theorem worker_books_a_payment_once:
  assumes "reconcileBooking fp now i oid tid amount s = Inr s'" and "captured_rows q s \<le> 1"
  shows "captured_rows q s' \<le> 1 \<and> captured_rows q s' \<ge> captured_rows q s"
  using reconcileBooking_ledger [OF assms(1)]
proof
  assume "ps_ledger s' = ps_ledger s"
  with assms(2) show ?thesis by (simp add: captured_rows_def)
next
  assume "\<exists>p :: provider_payment. captured_rows (pp_id p) s = 0 \<and> sync_payment now i tid amount (pp_id p) s = Inr s'"
  then obtain p :: provider_payment where "captured_rows (pp_id p) s = 0" "sync_payment now i tid amount (pp_id p) s = Inr s'" by blast
  with sync_payment_rows [of now i tid amount "pp_id p" s s' q] assms(2) show ?thesis by (auto split: if_splits)
qed

theorem worker_books_a_payment_once_witness:
  "\<exists>s'. reconcileBooking (\<lambda>oid. Inr [\<lparr>pp_id = ''p9'', pp_status = ''captured'', pp_order_id = oid,
        pp_amount = 12199\<rparr>]) 0 ''b1'' (Some ''o1'') ''t1'' 12199 (demo_pay_store (demo_booking PAYMENT_IN_PROGRESS))
      = Inr s' \<and> captured_rows ''p9'' s' = 1"
proof -
  let ?r = "reconcileBooking (\<lambda>oid. Inr [\<lparr>pp_id = ''p9'', pp_status = ''captured'', pp_order_id = oid,
        pp_amount = 12199\<rparr>]) 0 ''b1'' (Some ''o1'') ''t1'' 12199 (demo_pay_store (demo_booking PAYMENT_IN_PROGRESS))"
  have "case ?r of Inl e \<Rightarrow> False | Inr s' \<Rightarrow> 1 \<le> captured_rows ''p9'' s'" by code_simp
  then obtain s' where s': "?r = Inr s'" "1 \<le> captured_rows ''p9'' s'" by (auto split: sum.splits)
  have "captured_rows ''p9'' (demo_pay_store (demo_booking PAYMENT_IN_PROGRESS)) \<le> 1"
    by (simp add: captured_rows_def count_where_def demo_pay_store_def)
  from worker_books_a_payment_once [OF s'(1) this] s' show ?thesis by simp
qed

section \<open>Server-side verification\<close>

text \<open>
  The server-side verification compares amounts as doubles, and so rejects payments that are
  right to the paisa: for the 142.39 of one seat at 120 under the default fees, a captured
  payment of 14239 paise for the right order marks the paid booking failed.
\<close>

theorem exact_payment_is_rejected:
  "verifyPayment (\<lambda>pid. Inr \<lparr>pp_id = pid, pp_status = ''captured'', pp_order_id = ''o1'', pp_amount = 14239\<rparr>)
      ''p1'' ''o1'' (to_double (14239 / 100)) = False
   \<and> (\<exists>s'. reconcile_verified
         (\<lambda>pid. Inr \<lparr>pp_id = pid, pp_status = ''captured'', pp_order_id = ''o1'', pp_amount = 14239\<rparr>)
         0 ''b1'' ''o1'' ''p1'' ''t1''
         (demo_pay_store ((demo_booking PAYMENT_IN_PROGRESS)\<lparr>pb_finalAmount := 14239\<rparr>)) = Inr s'
       \<and> pay_status ''b1'' s' = Some FAILED)"
proof -
  have v: "verifyPayment (\<lambda>pid. Inr \<lparr>pp_id = pid, pp_status = ''captured'', pp_order_id = ''o1'', pp_amount = 14239\<rparr>)
      ''p1'' ''o1'' (to_double (14239 / 100)) = False"
    by code_simp
  then show ?thesis
    by (simp add: reconcile_verified_def Let_def pay_status_def find_pay_def find_pay_update demo_pay_store_def)
qed

text \<open>
  The verification has no status guard: a verified payment confirms a booking from any
  status, a refunded one included, against the transition table.
\<close>

theorem verification_revives_any_booking:
  assumes "find_pay i s = Some b" and "pid \<notin> pl_razorpayPaymentId ` set (ps_paymentLogs s)"
    and "column_free pb_razorpayPaymentId i pid s" and "tid \<in> rv_tenantId ` set (ps_tenants s)"
    and "verifyPayment fp pid oid (to_double (of_int (pb_finalAmount b) / 100))"
  shows "\<exists>s'. reconcile_verified fp now i oid pid tid s = Inr s' \<and> pay_status i s' = Some CONFIRMED
    \<and> (dead_phase (pb_status b) \<longrightarrow> \<not> lawful_change s s')"
proof -
  let ?s = "s\<lparr>ps_paymentLogs := ps_paymentLogs s @ [\<lparr>pl_bookingId = i, pl_razorpayOrderId = oid,
      pl_razorpayPaymentId = pid, pl_verified = True, pl_amount = pb_finalAmount b, pl_tenantId = tid\<rparr>]\<rparr>"
  let ?s' = "(update_pay i (confirm_pay now pid None) ?s)\<lparr>ps_tenants := update_where (\<lambda>t. rv_tenantId t = tid)
      (\<lambda>t. t\<lparr>rv_monthlyRevenue := rv_monthlyRevenue t + pb_finalAmount b\<rparr>) (ps_tenants s)\<rparr>"
  have "reconcile_verified fp now i oid pid tid s = Inr ?s'"
    using assms by (simp add: reconcile_verified_def Let_def)
  moreover have c: "pay_status i ?s' = Some CONFIRMED"
    using assms(1) by (simp add: pay_status_def find_pay_def find_pay_update)
  moreover have "\<not> lawful_change s ?s'" if "dead_phase (pb_status b)"
  proof
    assume "lawful_change s ?s'"
    then have "status_path (pay_status i s) (pay_status i ?s')" by (simp add: lawful_change_def)
    with c have "status_path (pay_status i s) (Some CONFIRMED)" by metis
    then have "run status_step (pb_status b) CONFIRMED" using assms(1) by (simp add: pay_status_def)
    from deads.run_inv [OF this that] show False by (simp add: dead_phase_def refund_phase_def)
  qed
  ultimately show ?thesis by blast
qed

theorem verification_revives_any_booking_witness:
  "\<exists>s'. reconcile_verified (\<lambda>pid. Inr \<lparr>pp_id = pid, pp_status = ''captured'', pp_order_id = ''o1'', pp_amount = 12199\<rparr>)
     0 ''b1'' ''o1'' ''p1'' ''t1'' (demo_pay_store (demo_booking REFUNDED)) = Inr s'
   \<and> \<not> lawful_change (demo_pay_store (demo_booking REFUNDED)) s'"
proof -
  have "verifyPayment (\<lambda>pid. Inr \<lparr>pp_id = pid, pp_status = ''captured'', pp_order_id = ''o1'', pp_amount = 12199\<rparr>)
      ''p1'' ''o1'' (to_double (12199 / 100))" by code_simp
  then obtain s' where "reconcile_verified
      (\<lambda>pid. Inr \<lparr>pp_id = pid, pp_status = ''captured'', pp_order_id = ''o1'', pp_amount = 12199\<rparr>)
      0 ''b1'' ''o1'' ''p1'' ''t1'' (demo_pay_store (demo_booking REFUNDED)) = Inr s'"
    "dead_phase (pb_status (demo_booking REFUNDED)) \<longrightarrow> \<not> lawful_change (demo_pay_store (demo_booking REFUNDED)) s'"
    using verification_revives_any_booking [where i = "''b1''" and s = "demo_pay_store (demo_booking REFUNDED)"
        and b = "demo_booking REFUNDED" and pid = "''p1''" and tid = "''t1''" and oid = "''o1''" and now = 0
        and fp = "\<lambda>pid. Inr \<lparr>pp_id = pid, pp_status = ''captured'', pp_order_id = ''o1'', pp_amount = 12199\<rparr>"]
    by (auto simp: column_free_def)
  then show ?thesis by (auto simp: dead_phase_def refund_phase_def)
qed

end
