(* ===== verification/Pricing.thy ===== *)
theory Pricing
  imports PaymentStore Doubles
begin

text \<open>
  The pricing engine, \<open>backend/src/pricing/pricing.service.ts\<close>. Prices are doubles; every
  operation rounds as the language does (theory \<open>Doubles\<close>).
\<close>

record pricing_config =
  pc_fixedFee :: rat
  pc_percentageFee :: rat

text \<open>The defaults: \<open>parseFloat('19.99')\<close> and \<open>parseFloat('2') / 100\<close>.\<close>

definition default_pricing :: pricing_config where
  "default_pricing = \<lparr>pc_fixedFee = to_double (1999 / 100), pc_percentageFee = d_div (to_double 2) 100\<rparr>"

section \<open>\<open>calculateTotal\<close>\<close>

datatype price_argument =
    Named rat int
  | Positional rat "int option"

record price_total =
  pt_baseTotal :: rat
  pt_convenienceFee :: rat
  pt_serviceFee :: rat
  pt_total :: rat

fun price_base :: "price_argument \<Rightarrow> rat" where
  "price_base (Named p q) = p"
| "price_base (Positional p q) = p"

fun price_quantity :: "price_argument \<Rightarrow> int" where
  "price_quantity (Named p q) = q"
| "price_quantity (Positional p q) = (case q of None \<Rightarrow> 1 | Some n \<Rightarrow> n)"

text \<open>The legacy keys \<open>baseAmount\<close>, \<open>totalAmount\<close> and \<open>breakdown\<close> repeat these values.\<close>

definition calculateTotal :: "pricing_config \<Rightarrow> price_argument \<Rightarrow> price_total" where
  "calculateTotal cfg arg =
     (let basePrice = price_base arg; quantity = price_quantity arg;
          baseTotal = d_mul basePrice (of_int quantity);
          convenienceFee = d_mul (pc_fixedFee cfg) (of_int quantity);
          serviceFee = d_mul baseTotal (pc_percentageFee cfg);
          total = to_fixed2 (d_add (d_add baseTotal convenienceFee) serviceFee)
      in \<lparr>pt_baseTotal = baseTotal, pt_convenienceFee = to_fixed2 convenienceFee,
          pt_serviceFee = to_fixed2 serviceFee, pt_total = total\<rparr>)"

text \<open>\<open>new Decimal(total)\<close> of a total that \<open>toFixed(2)\<close> has produced, in hundredths.\<close>

definition total_hundredths :: "price_total \<Rightarrow> int" where
  "total_hundredths t = half_up (pt_total t * 100)"

record pricing_summary =
  pg_base :: rat
  pg_fixedFee :: rat
  pg_percentageFee :: rat
  pg_fees :: rat
  pg_total :: rat

definition calculatePricing :: "pricing_config \<Rightarrow> rat \<Rightarrow> int \<Rightarrow> pricing_summary" where
  "calculatePricing cfg showBasePrice seatCount =
     (let res = calculateTotal cfg (Positional showBasePrice (Some seatCount))
      in \<lparr>pg_base = pt_baseTotal res, pg_fixedFee = pc_fixedFee cfg, pg_percentageFee = pt_serviceFee res,
          pg_fees = d_add (pt_convenienceFee res) (pt_serviceFee res), pg_total = pt_total res\<rparr>)"

section \<open>\<open>getDynamicPrices\<close>\<close>

record dynamic_price =
  dp_showId :: string
  dp_basePrice :: rat
  dp_finalPrice :: int
  dp_demandRatio :: rat
  dp_demandFactor :: rat
  dp_hoursRemaining :: rat
  dp_timeFactor :: rat

definition time_factor :: "rat \<Rightarrow> rat" where
  "time_factor hoursRemaining =
     (if hoursRemaining < 2 then to_double (5 / 10)
      else if hoursRemaining < 24 then to_double (2 / 10)
      else if hoursRemaining < 48 then to_double (1 / 10) else 0)"

definition demand_factor :: "rat \<Rightarrow> rat" where
  "demand_factor demandRatio =
     (if to_double (8 / 10) < demandRatio then to_double (3 / 10)
      else if to_double (5 / 10) < demandRatio then to_double (1 / 10) else 0)"

definition getDynamicPrices :: "int \<Rightarrow> string \<Rightarrow> pay_store \<Rightarrow> dynamic_price outcome" where
  "getDynamicPrices now showId s =
     (case find (\<lambda>w. sw_id w = showId) (ps_shows s) of
        None \<Rightarrow> Inl (NotFound ''Show not found'')
      | Some show \<Rightarrow>
          let totalSeats = (case sw_screen show of None \<Rightarrow> 0 | Some (totalRows, seatsPerRow) \<Rightarrow> totalRows * seatsPerRow);
              occupiedCount = count_where (\<lambda>a. av_showId a = showId \<and> av_status a \<in> {Sa_LOCKED, Sa_BOOKED})
                (ps_availability s);
              demandRatio = (if 0 < totalSeats then d_div (of_nat occupiedCount) (of_int totalSeats) else 0);
              hoursRemaining = d_div (of_int (sw_startTime show - now)) (1000 * 60 * 60);
              timeFactor = time_factor hoursRemaining;
              demandFactor = demand_factor demandRatio
          in Inr \<lparr>dp_showId = showId, dp_basePrice = sw_price show,
                  dp_finalPrice = math_round (d_mul (sw_price show) (d_add (d_add 1 demandFactor) timeFactor)),
                  dp_demandRatio = demandRatio, dp_demandFactor = demandFactor,
                  dp_hoursRemaining = hoursRemaining, dp_timeFactor = timeFactor\<rparr>)"

section \<open>How far a total is from the exact sum\<close>

text \<open>The exact price: base, 19.99 for each seat, two percent of the base.\<close>

definition exact_total :: "rat \<Rightarrow> int \<Rightarrow> rat" where
  "exact_total p q = p * of_int q + 1999 / 100 * of_int q + p * of_int q * 2 / 100"

lemma to_double_near:
  assumes "\<bar>x - y\<bar> \<le> \<delta>" and "\<bar>y\<bar> \<le> M" and "\<delta> \<le> M"
  shows "\<bar>to_double x - y\<bar> \<le> \<delta> + M / 2 ^ 52"
proof -
  have "\<bar>x\<bar> \<le> 2 * M" using assms by linarith
  then have "\<bar>x\<bar> / 2 ^ 53 \<le> M / 2 ^ 52" by (simp add: divide_simps)
  with to_double_error [of x] assms(1) show ?thesis by linarith
qed

lemma to_fixed2_near:
  assumes "\<bar>x - y\<bar> \<le> \<delta>" and "\<bar>y\<bar> \<le> M" and "\<delta> + 1 / 200 \<le> M"
  shows "\<bar>to_fixed2 x - y\<bar> \<le> \<delta> + 1 / 200 + M / 2 ^ 52"
  unfolding to_fixed2_def
proof (rule to_double_near)
  have "\<bar>of_int (half_up (x * 100)) - x * 100\<bar> \<le> 1 / 2" by (rule half_up_error)
  with assms(1) show "\<bar>of_int (half_up (x * 100)) / 100 - y\<bar> \<le> \<delta> + 1 / 200" by linarith
qed (use assms in auto)

text \<open>
  C17. The total is right to half a paisa and a rounding error below a thousandth of it: for a
  price of at most ten million and at most a thousand seats, with a base total of at most ten
  million, it differs from the exact sum by less than 0.00501.
\<close>

theorem calculateTotal_accurate:
  assumes "0 \<le> p" and "0 \<le> q" and "q \<le> 1000" and "p * of_int q \<le> 10000000"
  shows "\<bar>pt_total (calculateTotal default_pricing (Named p q)) - exact_total p q\<bar> < 501 / 100000"
proof -
  let ?q = "of_int q :: rat"
  let ?M = "20000000 :: rat" and ?u = "1 / 2 ^ 52 :: rat"
  have q: "0 \<le> ?q" "?q \<le> 1000" using assms(2,3) by auto
  have b0: "0 \<le> p * ?q" using assms(1) q by simp
  define f where "f = pc_fixedFee default_pricing"
  define r where "r = pc_percentageFee default_pricing"
  have f: "\<bar>f - 1999 / 100\<bar> \<le> 20 * ?u" unfolding f_def default_pricing_def by code_simp
  have r: "\<bar>r - 2 / 100\<bar> \<le> ?u / 50" unfolding r_def default_pricing_def by code_simp
  have r1: "\<bar>r\<bar> \<le> 1"
  proof -
    have "?u / 50 \<le> 1 / 2" by simp
    with r show ?thesis by linarith
  qed
  have base: "\<bar>d_mul p ?q - p * ?q\<bar> \<le> ?M * ?u"
    unfolding d_mul_def using to_double_near [of "p * ?q" "p * ?q" 0 ?M] b0 assms(4) by simp
  have "f * ?q - 1999 / 100 * ?q = (f - 1999 / 100) * ?q" by (simp add: left_diff_distrib)
  then have "\<bar>f * ?q - 1999 / 100 * ?q\<bar> = \<bar>f - 1999 / 100\<bar> * ?q" using q by (simp only: abs_mult)
  also have "\<dots> \<le> 20 * ?u * 1000" using f q by (intro mult_mono) auto
  finally have conv0: "\<bar>f * ?q - 1999 / 100 * ?q\<bar> \<le> 20000 * ?u" by simp
  have conv: "\<bar>d_mul f ?q - 1999 / 100 * ?q\<bar> \<le> 20000 * ?u + ?M * ?u"
    unfolding d_mul_def using to_double_near [OF conv0, of ?M] q by simp
  have "d_mul p ?q * r - p * ?q * 2 / 100 = (d_mul p ?q - p * ?q) * r + p * ?q * (r - 2 / 100)"
    by (simp add: algebra_simps)
  then have "\<bar>d_mul p ?q * r - p * ?q * 2 / 100\<bar> \<le> \<bar>d_mul p ?q - p * ?q\<bar> * \<bar>r\<bar> + \<bar>p * ?q\<bar> * \<bar>r - 2 / 100\<bar>"
    using abs_triangle_ineq [of "(d_mul p ?q - p * ?q) * r" "p * ?q * (r - 2 / 100)"] by (simp only: abs_mult)
  also have "\<dots> \<le> (?M * ?u) * 1 + 10000000 * (?u / 50)"
    using base r r1 b0 assms(4) by (intro add_mono mult_mono) auto
  finally have serv0: "\<bar>d_mul p ?q * r - p * ?q * 2 / 100\<bar> \<le> 21000000 * ?u" by simp
  have serv: "\<bar>d_mul (d_mul p ?q) r - p * ?q * 2 / 100\<bar> \<le> 21000000 * ?u + ?M * ?u"
    unfolding d_mul_def [of "d_mul p ?q"] using to_double_near [OF serv0, of ?M] b0 assms(4) by simp
  let ?y = "p * ?q + 1999 / 100 * ?q"
  have s1: "\<bar>d_mul p ?q + d_mul f ?q - ?y\<bar> \<le> 41000000 * ?u" using base conv by linarith
  have s1': "\<bar>d_add (d_mul p ?q) (d_mul f ?q) - ?y\<bar> \<le> 41000000 * ?u + ?M * ?u"
    unfolding d_add_def using to_double_near [OF s1, of ?M] b0 q assms(4) by simp
  have s2: "\<bar>d_add (d_mul p ?q) (d_mul f ?q) + d_mul (d_mul p ?q) r - exact_total p q\<bar> \<le> 110000000 * ?u"
    unfolding exact_total_def using s1' serv by linarith
  have ex: "\<bar>exact_total p q\<bar> \<le> ?M" using b0 q assms(4) by (simp add: exact_total_def)
  have s3: "\<bar>d_add (d_add (d_mul p ?q) (d_mul f ?q)) (d_mul (d_mul p ?q) r) - exact_total p q\<bar> \<le> 130000000 * ?u"
    unfolding d_add_def [of "d_add (d_mul p ?q) (d_mul f ?q)"] using to_double_near [OF s2 ex] by simp
  have "\<bar>to_fixed2 (d_add (d_add (d_mul p ?q) (d_mul f ?q)) (d_mul (d_mul p ?q) r)) - exact_total p q\<bar>
      \<le> 130000000 * ?u + 1 / 200 + ?M * ?u"
    using to_fixed2_near [OF s3 ex] by simp
  also have "\<dots> < 501 / 100000" by simp
  finally show ?thesis by (simp add: calculateTotal_def Let_def f_def r_def)
qed

theorem calculateTotal_accurate_witness:
  "\<bar>pt_total (calculateTotal default_pricing (Named 100 3)) - exact_total 100 3\<bar> < 501 / 100000"
  by (rule calculateTotal_accurate) simp_all

end
