(* ===== verification/Discounts.thy ===== *)
theory Discounts
  imports Pricing
begin

text \<open>
  Coupons and gift cards, \<open>backend/src/discount/discount.service.ts\<close>. Coupon and gift-card
  amounts are doubles read into decimals, modelled as rationals in currency units; the
  booking's columns are hundredths. Decimal arithmetic is exact here: the amounts have at most
  ten digits and the library keeps twenty.
\<close>

datatype discount_type = PERCENTAGE | FLAT

record coupon =
  cp_id :: string
  cp_code :: string
  cp_discountType :: discount_type
  cp_discountValue :: rat
  cp_minOrderAmount :: rat
  cp_maxDiscount :: "rat option"
  cp_usageLimit :: "int option"
  cp_usageCount :: int
  cp_isActive :: bool
  cp_expiresAt :: "int option"

record gift_card =
  gc_id :: string
  gc_code :: string
  gc_balance :: rat
  gc_isActive :: bool
  gc_expiresAt :: "int option"

record discount_breakdown =
  db_totalAmount :: int
  db_couponDiscountAmount :: int
  db_giftCardDiscountAmount :: int
  db_discountAmount :: int
  db_finalAmount :: int

definition units :: "int \<Rightarrow> rat" where
  "units h = of_int h / 100"

text \<open>\<open>toDecimalPlaces(2)\<close>, in hundredths.\<close>

definition to_hundredths :: "rat \<Rightarrow> int" where
  "to_hundredths x = half_up (x * 100)"

definition coupon_discount :: "int \<Rightarrow> coupon \<Rightarrow> int" where
  "coupon_discount amount c =
     (case cp_discountType c of
        PERCENTAGE \<Rightarrow>
          let raw = units amount * cp_discountValue c / 100
          in to_hundredths (case cp_maxDiscount c of None \<Rightarrow> raw | Some m \<Rightarrow> min raw m)
      | FLAT \<Rightarrow> to_hundredths (min (cp_discountValue c) (units amount)))"

definition check_coupon :: "int \<Rightarrow> int \<Rightarrow> string \<Rightarrow> coupon list \<Rightarrow> coupon outcome" where
  "check_coupon now amount code coupons =
     (case find (\<lambda>c. cp_code c = code) coupons of
        None \<Rightarrow> Inl (BadRequest (''Coupon not found''))
      | Some c \<Rightarrow>
          if \<not> cp_isActive c then Inl (BadRequest ''Coupon is not active'')
          else if (case cp_expiresAt c of None \<Rightarrow> False | Some e \<Rightarrow> e < now)
          then Inl (BadRequest ''Coupon has expired'')
          else if (case cp_usageLimit c of None \<Rightarrow> False | Some n \<Rightarrow> n \<le> cp_usageCount c)
          then Inl (BadRequest ''Coupon has reached its usage limit'')
          else if units amount < cp_minOrderAmount c
          then Inl (BadRequest ''Order total is below the minimum'')
          else Inr c)"

definition check_gift_card :: "int \<Rightarrow> string \<Rightarrow> gift_card list \<Rightarrow> gift_card outcome" where
  "check_gift_card now code cards =
     (case find (\<lambda>g. gc_code g = code) cards of
        None \<Rightarrow> Inl (BadRequest ''Gift card not found'')
      | Some g \<Rightarrow>
          if \<not> gc_isActive g then Inl (BadRequest ''Gift card is not active'')
          else if (case gc_expiresAt g of None \<Rightarrow> False | Some e \<Rightarrow> e < now)
          then Inl (BadRequest ''Gift card has expired'')
          else if gc_balance g \<le> 0 then Inl (BadRequest ''Gift card has no remaining balance'')
          else Inr g)"

text \<open>An optional code that is missing or empty is skipped.\<close>

definition optional_check :: "(string \<Rightarrow> 'a outcome) \<Rightarrow> string option \<Rightarrow> 'a option outcome" where
  "optional_check check code =
     (if \<not> truthy code then Inr None
      else case check (the code) of Inl e \<Rightarrow> Inl e | Inr c \<Rightarrow> Inr (Some c))"

definition guard_booking :: "string option \<Rightarrow> string option \<Rightarrow> pay_booking \<Rightarrow> unit outcome" where
  "guard_booking couponCode giftCardCode b =
     (if pb_status b \<noteq> LOCKED
      then Inl (BadRequest (''Discounts can only be applied to a LOCKED booking (current: '' @
             status_name (pb_status b) @ '')''))
      else if pb_orderCreatedAt b \<noteq> None \<or> truthy (pb_razorpayOrderId b)
      then Inl (BadRequest ''Cannot modify discounts after a payment order has been created'')
      else if truthy couponCode \<and> truthy (pb_couponId b)
      then Inl (BadRequest ''A coupon has already been applied to this booking'')
      else if truthy giftCardCode \<and> truthy (pb_giftCardId b)
      then Inl (BadRequest ''A gift card has already been applied to this booking'')
      else Inr ())"

definition breakdown :: "int \<Rightarrow> coupon option \<Rightarrow> gift_card option \<Rightarrow> discount_breakdown" where
  "breakdown amount coupon giftCard =
     (let couponDiscount = (case coupon of None \<Rightarrow> 0 | Some c \<Rightarrow> coupon_discount amount c);
          afterCoupon = amount - couponDiscount;
          giftCardDiscount = (case giftCard of None \<Rightarrow> 0
            | Some g \<Rightarrow> to_hundredths (min (gc_balance g) (units afterCoupon)));
          runningTotal = afterCoupon - giftCardDiscount
      in \<lparr>db_totalAmount = amount, db_couponDiscountAmount = couponDiscount,
          db_giftCardDiscountAmount = giftCardDiscount,
          db_discountAmount = couponDiscount + giftCardDiscount, db_finalAmount = max 0 runningTotal\<rparr>)"

definition store_discounts ::
  "discount_breakdown \<Rightarrow> coupon option \<Rightarrow> gift_card option \<Rightarrow> pay_booking \<Rightarrow> pay_booking" where
  "store_discounts d coupon giftCard b =
     b\<lparr>pb_couponDiscountAmount := db_couponDiscountAmount d,
       pb_giftCardDiscountAmount := db_giftCardDiscountAmount d,
       pb_discountAmount := db_discountAmount d, pb_finalAmount := db_finalAmount d,
       pb_couponId := (case coupon of None \<Rightarrow> pb_couponId b | Some c \<Rightarrow> Some (cp_id c)),
       pb_giftCardId := (case giftCard of None \<Rightarrow> pb_giftCardId b | Some g \<Rightarrow> Some (gc_id g))\<rparr>"

definition applyDiscounts ::
  "int \<Rightarrow> coupon list \<Rightarrow> gift_card list \<Rightarrow> string \<Rightarrow> string option \<Rightarrow> string option \<Rightarrow> pay_store \<Rightarrow>
   (pay_store \<times> discount_breakdown) outcome" where
  "applyDiscounts now coupons cards bookingId couponCode giftCardCode s =
     (case find_pay bookingId s of
        None \<Rightarrow> Inl (NotFound ''Booking not found'')
      | Some b \<Rightarrow>
          (case guard_booking couponCode giftCardCode b of Inl e \<Rightarrow> Inl e
           | Inr _ \<Rightarrow>
          (case optional_check (\<lambda>code. check_coupon now (pb_totalAmount b) code coupons) couponCode of
             Inl e \<Rightarrow> Inl e
           | Inr coupon \<Rightarrow>
          (case optional_check (\<lambda>code. check_gift_card now code cards) giftCardCode of
             Inl e \<Rightarrow> Inl e
           | Inr giftCard \<Rightarrow>
               let d = breakdown (pb_totalAmount b) coupon giftCard
               in Inr (update_pay bookingId (store_discounts d coupon giftCard) s, d)))))"

section \<open>Rounding keeps the order of amounts\<close>

lemma half_up_mono: "x \<le> y \<Longrightarrow> half_up x \<le> half_up y"
proof -
  assume xy: "x \<le> y"
  consider "0 \<le> x" | "x < 0" "0 \<le> y" | "y < 0" using xy by linarith
  then show ?thesis
  proof cases
    case 1
    with xy show ?thesis by (simp add: half_up_def floor_mono)
  next
    case 2
    then have "0 \<le> \<lfloor>- x + 1 / 2\<rfloor>" "0 \<le> \<lfloor>y + 1 / 2\<rfloor>" by simp_all
    moreover have "half_up x = - \<lfloor>- x + 1 / 2\<rfloor>" "half_up y = \<lfloor>y + 1 / 2\<rfloor>" using 2 by (simp_all add: half_up_def)
    ultimately show ?thesis by linarith
  next
    case 3
    with xy show ?thesis by (simp add: half_up_def floor_mono)
  qed
qed

lemma half_up_int [simp]: "half_up (of_int n) = n"
proof -
  have "\<lfloor>of_int n + 1 / 2 :: rat\<rfloor> = n" "\<lfloor>- of_int n + 1 / 2 :: rat\<rfloor> = - n"
    by (simp_all add: floor_eq_iff)
  then show ?thesis by (simp add: half_up_def)
qed

lemma to_hundredths_units [simp]: "to_hundredths (units h) = h"
  by (simp add: to_hundredths_def units_def)

lemma to_hundredths_mono: "x \<le> y \<Longrightarrow> to_hundredths x \<le> to_hundredths y"
  by (simp add: to_hundredths_def half_up_mono)

lemma to_hundredths_bounds:
  assumes "0 \<le> x" and "x \<le> units h"
  shows "0 \<le> to_hundredths x \<and> to_hundredths x \<le> h"
proof -
  have "to_hundredths 0 = 0" using to_hundredths_units [of 0] by (simp add: units_def)
  with to_hundredths_mono [OF assms(1)] to_hundredths_mono [OF assms(2)] show ?thesis by simp
qed

text \<open>A coupon that takes a part of the total: a percentage up to one hundred, a value and a cap
  that are not negative.\<close>

definition sane_coupon :: "coupon \<Rightarrow> bool" where
  "sane_coupon c \<longleftrightarrow> 0 \<le> cp_discountValue c \<and> (cp_discountType c = PERCENTAGE \<longrightarrow> cp_discountValue c \<le> 100)
     \<and> (case cp_maxDiscount c of None \<Rightarrow> True | Some m \<Rightarrow> 0 \<le> m)"

lemma coupon_discount_bounds:
  assumes "sane_coupon c" and "0 \<le> amount"
  shows "0 \<le> coupon_discount amount c \<and> coupon_discount amount c \<le> amount"
proof (cases "cp_discountType c")
  case PERCENTAGE
  let ?raw = "units amount * cp_discountValue c / 100"
  have u: "0 \<le> units amount" using assms(2) by (simp add: units_def)
  have "0 \<le> ?raw" using assms(1) u by (simp add: sane_coupon_def)
  moreover have "units amount * cp_discountValue c \<le> units amount * 100"
    using assms(1) u PERCENTAGE by (intro mult_left_mono) (auto simp: sane_coupon_def)
  then have "?raw \<le> units amount" by simp
  ultimately show ?thesis
    using assms(1) PERCENTAGE
    by (cases "cp_maxDiscount c")
      (auto simp: coupon_discount_def sane_coupon_def Let_def intro!: to_hundredths_bounds)
next
  case FLAT
  with assms show ?thesis
    by (simp add: coupon_discount_def)
      (intro to_hundredths_bounds; simp add: sane_coupon_def units_def)
qed

lemma optional_check_Some:
  "optional_check check code = Inr (Some c) \<Longrightarrow> truthy code \<and> check (the code) = Inr c"
  by (auto simp: optional_check_def split: if_splits sum.splits)

lemma check_coupon_in: "check_coupon now amount code cs = Inr c \<Longrightarrow> c \<in> set cs \<and> cp_code c = code"
  by (auto simp: check_coupon_def dest!: find_in split: option.splits if_splits)

lemma check_gift_card_in:
  "check_gift_card now code gs = Inr g \<Longrightarrow> g \<in> set gs \<and> 0 < gc_balance g"
  by (auto simp: check_gift_card_def dest!: find_in split: option.splits if_splits)

lemma applyDiscounts_ok:
  assumes "applyDiscounts now cs gs i cc gc s = Inr (s', d)"
  obtains b coupon card where "find_pay i s = Some b" "guard_booking cc gc b = Inr ()"
    "optional_check (\<lambda>code. check_coupon now (pb_totalAmount b) code cs) cc = Inr coupon"
    "optional_check (\<lambda>code. check_gift_card now code gs) gc = Inr card"
    "d = breakdown (pb_totalAmount b) coupon card" "s' = update_pay i (store_discounts d coupon card) s"
  using assms by (auto simp: applyDiscounts_def Let_def split: option.splits sum.splits)

text \<open>
  C18. Discounts conserve the total. With sane coupons, applying a coupon and a gift card to a
  booking splits its total exactly into the discount and the final amount, both between zero
  and the total, stores this split in the booking and touches no other booking; it is refused
  unless the booking is locked and has no order.
\<close>

theorem discounts_conserve_total:
  assumes "applyDiscounts now cs gs i cc gc s = Inr (s', d)"
    and "\<forall>c \<in> set cs. sane_coupon c" and "\<forall>b \<in> set (ps_bookings s). 0 \<le> pb_totalAmount b"
  shows "\<exists>b b'. find_pay i s = Some b \<and> pb_status b = LOCKED \<and> \<not> truthy (pb_razorpayOrderId b)
    \<and> find_pay i s' = Some b' \<and> pb_totalAmount b' = pb_totalAmount b
    \<and> pb_discountAmount b' + pb_finalAmount b' = pb_totalAmount b
    \<and> 0 \<le> pb_discountAmount b' \<and> 0 \<le> pb_finalAmount b'
    \<and> pb_couponDiscountAmount b' + pb_giftCardDiscountAmount b' = pb_discountAmount b'
    \<and> (\<forall>j. j \<noteq> i \<longrightarrow> find_pay j s' = find_pay j s)"
proof -
  obtain b coupon card where *: "find_pay i s = Some b" "guard_booking cc gc b = Inr ()"
    "optional_check (\<lambda>code. check_coupon now (pb_totalAmount b) code cs) cc = Inr coupon"
    "optional_check (\<lambda>code. check_gift_card now code gs) gc = Inr card"
    "d = breakdown (pb_totalAmount b) coupon card" "s' = update_pay i (store_discounts d coupon card) s"
    by (rule applyDiscounts_ok [OF assms(1)])
  have amount: "0 \<le> pb_totalAmount b" using find_pay_in [OF *(1)] assms(3) by blast
  have cd: "0 \<le> db_couponDiscountAmount d \<and> db_couponDiscountAmount d \<le> pb_totalAmount b"
  proof (cases coupon)
    case (Some c)
    have "sane_coupon c"
      using optional_check_Some [OF *(3) [unfolded Some]] assms(2) by (auto dest: check_coupon_in)
    from coupon_discount_bounds [OF this amount] Some show ?thesis by (simp add: *(5) breakdown_def Let_def)
  qed (simp add: *(5) breakdown_def Let_def amount)
  have gd: "0 \<le> db_giftCardDiscountAmount d
      \<and> db_giftCardDiscountAmount d \<le> pb_totalAmount b - db_couponDiscountAmount d"
  proof (cases card)
    case (Some g)
    let ?rest = "pb_totalAmount b - db_couponDiscountAmount d"
    have "0 < gc_balance g"
      using optional_check_Some [OF *(4) [unfolded Some]] by (auto dest: check_gift_card_in)
    then have "0 \<le> min (gc_balance g) (units ?rest)" using cd by (simp add: units_def)
    from to_hundredths_bounds [OF this, of ?rest] Some show ?thesis by (simp add: *(5) breakdown_def Let_def)
  qed (use cd in \<open>simp add: *(5) breakdown_def Let_def\<close>)
  have sum: "db_discountAmount d = db_couponDiscountAmount d + db_giftCardDiscountAmount d"
    "db_finalAmount d = max 0 (pb_totalAmount b - db_couponDiscountAmount d - db_giftCardDiscountAmount d)"
    by (simp_all add: *(5) breakdown_def Let_def)
  let ?b' = "store_discounts d coupon card b"
  have id: "pb_id (store_discounts d coupon card r) = pb_id r" for r by (simp add: store_discounts_def)
  have "find_pay i s' = Some ?b'" and "\<forall>j. j \<noteq> i \<longrightarrow> find_pay j s' = find_pay j s"
    using *(1) by (simp_all add: *(6) find_pay_def find_pay_update id)
  moreover have "pb_status b = LOCKED" "\<not> truthy (pb_razorpayOrderId b)"
    using *(2) by (auto simp: guard_booking_def split: if_splits)
  ultimately show ?thesis
    using *(1) cd gd sum by (intro exI [of _ b] exI [of _ ?b']) (simp add: store_discounts_def)
qed

definition demo_coupons :: "coupon list" where
  "demo_coupons = [\<lparr>cp_id = ''c1'', cp_code = ''TEN'', cp_discountType = PERCENTAGE, cp_discountValue = 10,
     cp_minOrderAmount = 0, cp_maxDiscount = None, cp_usageLimit = None, cp_usageCount = 0,
     cp_isActive = True, cp_expiresAt = None\<rparr>]"

definition demo_cards :: "gift_card list" where
  "demo_cards = [\<lparr>gc_id = ''g1'', gc_code = ''GIFT'', gc_balance = 20, gc_isActive = True, gc_expiresAt = None\<rparr>]"

definition unpaid_booking :: pay_booking where
  "unpaid_booking = (demo_booking LOCKED)\<lparr>pb_razorpayOrderId := None, pb_razorpayPaymentId := None\<rparr>"

theorem discounts_conserve_total_witness:
  "\<exists>s' b'. applyDiscounts 0 demo_coupons demo_cards ''b1'' (Some ''TEN'') (Some ''GIFT'') (demo_pay_store unpaid_booking)
      = Inr (s', \<lparr>db_totalAmount = 12199, db_couponDiscountAmount = 1220, db_giftCardDiscountAmount = 2000,
                 db_discountAmount = 3220, db_finalAmount = 8979\<rparr>)
    \<and> find_pay ''b1'' s' = Some b' \<and> pb_discountAmount b' + pb_finalAmount b' = 12199"
proof -
  let ?r = "applyDiscounts 0 demo_coupons demo_cards ''b1'' (Some ''TEN'') (Some ''GIFT'') (demo_pay_store unpaid_booking)"
  have "case ?r of Inl e \<Rightarrow> False | Inr r \<Rightarrow> snd r = \<lparr>db_totalAmount = 12199, db_couponDiscountAmount = 1220,
      db_giftCardDiscountAmount = 2000, db_discountAmount = 3220, db_finalAmount = 8979\<rparr>"
    by code_simp
  then obtain s' where r: "?r = Inr (s', \<lparr>db_totalAmount = 12199, db_couponDiscountAmount = 1220,
      db_giftCardDiscountAmount = 2000, db_discountAmount = 3220, db_finalAmount = 8979\<rparr>)"
    by (cases ?r) auto
  have "pb_totalAmount unpaid_booking = 12199" "pb_id unpaid_booking = ''b1''"
    by (simp_all add: unpaid_booking_def demo_booking_def)
  with discounts_conserve_total [OF r] show ?thesis
    unfolding r by (force simp: demo_coupons_def sane_coupon_def)
qed

text \<open>
  A second call loses the coupon. The guards allow a gift card after a coupon, in two
  calls; the second call then stores a coupon discount of zero and a final amount without it,
  while the booking keeps the coupon's id, so that no coupon can be applied to it any more.
\<close>

theorem second_call_loses_coupon:
  assumes "applyDiscounts now cs gs i cc None s = Inr (s1, d1)" and "truthy cc"
    and "\<forall>c \<in> set cs. cp_id c \<noteq> []" and "gc \<noteq> []"
    and "applyDiscounts now' cs gs i None (Some gc) s1 = Inr (s2, d2)"
  shows "db_couponDiscountAmount d2 = 0 \<and> db_discountAmount d2 = db_giftCardDiscountAmount d2
    \<and> db_finalAmount d2 = max 0 (db_totalAmount d1 - db_giftCardDiscountAmount d2)
    \<and> (\<forall>later code gc'. code \<noteq> [] \<longrightarrow> \<not> is_ok (applyDiscounts later cs gs i (Some code) gc' s2))"
proof -
  obtain b coupon card where one: "find_pay i s = Some b" "guard_booking cc None b = Inr ()"
    "optional_check (\<lambda>code. check_coupon now (pb_totalAmount b) code cs) cc = Inr coupon"
    "optional_check (\<lambda>code. check_gift_card now code gs) None = Inr card"
    "d1 = breakdown (pb_totalAmount b) coupon card" "s1 = update_pay i (store_discounts d1 coupon card) s"
    by (rule applyDiscounts_ok [OF assms(1)])
  obtain b1 coupon' card' where two: "find_pay i s1 = Some b1" "guard_booking None (Some gc) b1 = Inr ()"
    "optional_check (\<lambda>code. check_coupon now' (pb_totalAmount b1) code cs) None = Inr coupon'"
    "optional_check (\<lambda>code. check_gift_card now' code gs) (Some gc) = Inr card'"
    "d2 = breakdown (pb_totalAmount b1) coupon' card'" "s2 = update_pay i (store_discounts d2 coupon' card') s1"
    by (rule applyDiscounts_ok [OF assms(5)])
  obtain c where c: "coupon = Some c" "c \<in> set cs"
    using one(3) assms(2) by (auto simp: optional_check_def split: sum.splits dest: check_coupon_in)
  have id: "pb_id (store_discounts d x y r) = pb_id r" for d x y r by (simp add: store_discounts_def)
  have b1: "b1 = store_discounts d1 coupon card b"
    using one(1,6) two(1) by (simp add: find_pay_def find_pay_update id)
  have none: "coupon' = None" using two(3) by (simp add: optional_check_def)
  have "pb_couponId (store_discounts d2 coupon' card' b1) = Some (cp_id c)"
    by (simp add: none b1 c(1) store_discounts_def)
  moreover have "find_pay i s2 = Some (store_discounts d2 coupon' card' b1)"
    using two(1,6) by (simp add: find_pay_def find_pay_update id)
  ultimately have "\<not> is_ok (applyDiscounts later cs gs i (Some code) gc' s2)" if "code \<noteq> []" for later code gc'
    using that assms(3) c(2) by (simp add: applyDiscounts_def guard_booking_def)
  moreover have "pb_totalAmount b1 = db_totalAmount d1"
    by (simp add: b1 store_discounts_def one(5) breakdown_def Let_def)
  ultimately show ?thesis by (simp add: two(5) none breakdown_def Let_def)
qed

theorem second_call_loses_coupon_witness:
  "\<exists>s1 d1 s2 d2. applyDiscounts 0 demo_coupons demo_cards ''b1'' (Some ''TEN'') None (demo_pay_store unpaid_booking) = Inr (s1, d1)
    \<and> db_couponDiscountAmount d1 = 1220
    \<and> applyDiscounts 0 demo_coupons demo_cards ''b1'' None (Some ''GIFT'') s1 = Inr (s2, d2)
    \<and> db_couponDiscountAmount d2 = 0"
proof -
  let ?r = "applyDiscounts 0 demo_coupons demo_cards ''b1'' (Some ''TEN'') None (demo_pay_store unpaid_booking)"
  have e: "case ?r of Inl e \<Rightarrow> False | Inr r \<Rightarrow> db_couponDiscountAmount (snd r) = 1220
      \<and> is_ok (applyDiscounts 0 demo_coupons demo_cards ''b1'' None (Some ''GIFT'') (fst r))"
    by code_simp
  then obtain s1 d1 where r1: "?r = Inr (s1, d1)" "db_couponDiscountAmount d1 = 1220"
    "is_ok (applyDiscounts 0 demo_coupons demo_cards ''b1'' None (Some ''GIFT'') s1)"
    by (cases ?r) auto
  then obtain s2 d2 where r2: "applyDiscounts 0 demo_coupons demo_cards ''b1'' None (Some ''GIFT'') s1 = Inr (s2, d2)"
    by (auto simp: is_ok_iff)
  have "db_couponDiscountAmount d2 = 0"
    using second_call_loses_coupon [OF r1(1) _ _ _ r2] by (simp add: demo_coupons_def)
  with r1 r2 show ?thesis by blast
qed

end
