(* ===== verification/Payments.thy ===== *)
theory Payments
  imports PaymentProcessor Pricing
begin

text \<open>
  The payment service, \<open>backend/src/payments/payments.service.ts\<close>: the circuit breaker around
  the provider, the creation of an order, the older webhook handler, refunds and signature
  checks. Parameters: the provider's calls, HMAC-SHA256, the JSON parser, random strings, and
  \<open>confirmBookingFromRazorpay\<close> and \<open>releaseSeatsSafely\<close> of a booking service that is not in
  the repository.
\<close>

section \<open>The circuit breaker\<close>

datatype circuit_state = CLOSED | OPEN | HALF_OPEN

record breaker =
  cb_state :: circuit_state
  cb_failureCount :: nat
  cb_lastErrorTime :: int

definition initial_breaker :: breaker where
  "initial_breaker = \<lparr>cb_state = CLOSED, cb_failureCount = 0, cb_lastErrorTime = 0\<rparr>"

definition checkCircuit :: "int \<Rightarrow> breaker \<Rightarrow> breaker outcome" where
  "checkCircuit now c =
     (if cb_state c = OPEN then
        (if 120000 < now - cb_lastErrorTime c then Inr (c\<lparr>cb_state := HALF_OPEN\<rparr>)
         else Inl (Internal ''Payment service temporarily unavailable.''))
      else Inr c)"

definition recordFailure :: "int \<Rightarrow> breaker \<Rightarrow> breaker" where
  "recordFailure now c =
     (let count = (if 60000 < now - cb_lastErrorTime c then 0 else cb_failureCount c) + 1
      in c\<lparr>cb_failureCount := count, cb_lastErrorTime := now,
           cb_state := (if 5 \<le> count then OPEN else cb_state c)\<rparr>)"

definition recordSuccess :: "breaker \<Rightarrow> breaker" where
  "recordSuccess c = c\<lparr>cb_failureCount := 0, cb_state := CLOSED\<rparr>"

section \<open>Creating an order\<close>

record pay_config =
  pf_keyId :: "string option"
  pf_keySecret :: "string option"
  pf_webhookSecret :: "string option"
  pf_provider :: "string option"
  pf_pricing :: pricing_config

record rp_order =
  ro_id :: string
  ro_amount :: int
  ro_currency :: string

record rp_request =
  rr_amount :: int
  rr_currency :: string
  rr_receipt :: string
  rr_bookingId :: string

record order_reply =
  oy_orderId :: string
  oy_amount :: int
  oy_currency :: string
  oy_keyId :: "string option"

definition check_order ::
  "pay_config \<Rightarrow> int \<Rightarrow> string \<Rightarrow> string \<Rightarrow> pay_store \<Rightarrow> pay_booking outcome" where
  "check_order cfg now bookingId userId s =
     (if \<not> truthy (pf_keyId cfg) \<or> \<not> truthy (pf_keySecret cfg)
      then Inl (BadRequest ''Payment configuration error'')
      else case find_pay bookingId s of
        None \<Rightarrow> Inl (NotFound ''Booking not found'')
      | Some booking \<Rightarrow>
          if pb_userId booking \<noteq> userId then Inl (BadRequest ''Unauthorized booking access'')
          else if pb_status booking \<noteq> LOCKED
          then Inl (BadRequest (''Booking is in '' @ status_name (pb_status booking) @ '' state''))
          else if (case pb_expiresAt booking of None \<Rightarrow> False | Some e \<Rightarrow> e < now)
          then Inl (BadRequest ''Booking expired'')
          else Inr booking)"

text \<open>A total that is not set is computed from the show's price and the booked seats, and stored
  before anything else; a missing show is a type error.\<close>

definition ensure_total :: "pay_config \<Rightarrow> pay_booking \<Rightarrow> pay_store \<Rightarrow> (pay_store \<times> int) outcome" where
  "ensure_total cfg booking s =
     (if pb_totalAmount booking \<le> 0 then
        (let bookingSeatsCount = count_where (\<lambda>x. px_bookingId x = pb_id booking) (ps_bookingSeats s)
         in case find (\<lambda>w. sw_id w = pb_showId booking) (ps_shows s) of
              None \<Rightarrow> Inl (Internal ''Cannot read properties of null'')
            | Some show \<Rightarrow>
                let t = total_hundredths (calculateTotal (pf_pricing cfg)
                          (Positional (sw_price show) (Some (int bookingSeatsCount))))
                in Inr (update_pay (pb_id booking) (\<lambda>b. b\<lparr>pb_totalAmount := t\<rparr>) s, t))
      else Inr (s, pb_totalAmount booking))"

definition charge_amount :: "pay_booking \<Rightarrow> int \<Rightarrow> int" where
  "charge_amount booking totalAmount =
     (if 0 < pb_discountAmount booking then pb_finalAmount booking else totalAmount)"

text \<open>\<open>err.message || 'Failed to create Razorpay order'\<close>; a structured provider answer puts its
  description in the message.\<close>

fun error_message :: "http_error \<Rightarrow> string" where
  "error_message (BadRequest m) = m"
| "error_message (Unauthorized m) = m"
| "error_message (Forbidden m) = m"
| "error_message (NotFound m) = m"
| "error_message (Conflict m) = m"
| "error_message (Internal m) = m"

definition order_failure :: "http_error \<Rightarrow> http_error" where
  "order_failure e =
     BadRequest (if error_message e = [] then ''Failed to create Razorpay order'' else error_message e)"

definition place_order ::
  "(rp_request \<Rightarrow> rp_order outcome) \<Rightarrow> pay_config \<Rightarrow> int \<Rightarrow> string \<Rightarrow> pay_booking \<Rightarrow> int \<Rightarrow> rp_order outcome" where
  "place_order createOrder cfg t_receipt rnd booking amountInPaise =
     (if pf_provider cfg = Some ''mock''
      then Inr \<lparr>ro_id = ''order_mock_'' @ rnd, ro_amount = amountInPaise, ro_currency = ''INR''\<rparr>
      else createOrder \<lparr>rr_amount = amountInPaise, rr_currency = ''INR'',
             rr_receipt = ''bk_'' @ show_int t_receipt @ ''_'' @ take 8 (pb_id booking),
             rr_bookingId = pb_id booking\<rparr>)"

definition createRazorpayOrder ::
  "(rp_request \<Rightarrow> rp_order outcome) \<Rightarrow> pay_config \<Rightarrow> int \<Rightarrow> string \<Rightarrow> string \<Rightarrow> string \<Rightarrow> breaker \<times> pay_store \<Rightarrow>
   (breaker \<times> pay_store) \<times> order_reply outcome" where
  "createRazorpayOrder createOrder cfg now rnd bookingId userId cs =
     (let (c, s) = cs in
      case check_order cfg now bookingId userId s of
        Inl e \<Rightarrow> ((c, s), Inl e)
      | Inr booking \<Rightarrow>
          (case ensure_total cfg booking s of
             Inl e \<Rightarrow> ((c, s), Inl e)
           | Inr (s1, totalAmount) \<Rightarrow>
               let amountInPaise = charge_amount booking totalAmount
               in case checkCircuit now c of
                    Inl e \<Rightarrow> ((c, s1), Inl e)
                  | Inr c1 \<Rightarrow>
                      if truthy (pb_razorpayOrderId booking)
                      then ((c1, s1), Inr \<lparr>oy_orderId = the (pb_razorpayOrderId booking), oy_amount = amountInPaise,
                                          oy_currency = ''INR'', oy_keyId = pf_keyId cfg\<rparr>)
                      else case place_order createOrder cfg now rnd booking amountInPaise of
                        Inl e \<Rightarrow> ((recordFailure now c1, s1), Inl (order_failure e))
                      | Inr order \<Rightarrow>
                          if \<not> column_free pb_razorpayOrderId bookingId (ro_id order) s1
                          then ((recordFailure now c1, s1), Inl (order_failure (Internal ''Unique constraint failed'')))
                          else ((recordSuccess c1,
                                 update_pay bookingId
                                   (\<lambda>b. b\<lparr>pb_razorpayOrderId := Some (ro_id order), pb_status := PAYMENT_IN_PROGRESS\<rparr>) s1),
                                Inr \<lparr>oy_orderId = ro_id order, oy_amount = ro_amount order,
                                     oy_currency = ro_currency order, oy_keyId = pf_keyId cfg\<rparr>)))"

section \<open>The older webhook handler\<close>

record captured_entity =
  ce_id :: string
  ce_order_id :: "string option"
  ce_bookingId :: "string option"

record parsed_event =
  pe_event :: string
  pe_entity :: "captured_entity option"

text \<open>Every outcome but a configuration error, a bad signature and a malformed body is
  acknowledged; a failing confirmation is only logged.\<close>

definition handlePaymentWebhook ::
  "(string \<Rightarrow> string \<Rightarrow> string) \<Rightarrow> (string \<Rightarrow> parsed_event option) \<Rightarrow>
   (string \<Rightarrow> string \<Rightarrow> string \<Rightarrow> pay_store \<Rightarrow> pay_store outcome) \<Rightarrow> pay_config \<Rightarrow> string \<Rightarrow> string \<Rightarrow> pay_store \<Rightarrow>
   pay_store \<times> unit outcome" where
  "handlePaymentWebhook hmac parse confirmBooking cfg rawBody signature s =
     (if \<not> truthy (pf_webhookSecret cfg) then (s, Inl (BadRequest ''Webhook secret not configured''))
      else if hmac (the (pf_webhookSecret cfg)) rawBody \<noteq> signature
      then (s, Inl (BadRequest ''Invalid signature''))
      else case parse rawBody of
        None \<Rightarrow> (s, Inl (BadRequest ''Malformed webhook body''))
      | Some event \<Rightarrow>
          if pe_event event \<noteq> ''payment.captured'' then (s, Inr ())
          else case pe_entity event of
            None \<Rightarrow> (s, Inr ())
          | Some p \<Rightarrow>
              let bookingId = (if truthy (ce_bookingId p) then ce_bookingId p
                    else if truthy (ce_order_id p)
                    then map_option pb_id (find (\<lambda>b. pb_razorpayOrderId b = ce_order_id p) (ps_bookings s))
                    else ce_bookingId p)
              in if \<not> truthy bookingId then (s, Inr ())
                 else case confirmBooking (the bookingId) (ce_id p) signature s of
                   Inl e \<Rightarrow> (s, Inr ())
                 | Inr s' \<Rightarrow> (s', Inr ()))"

section \<open>Refunds\<close>

text \<open>An amount is either hundredths or not finite (\<open>None\<close>), which the provider sees as such.\<close>

definition initiateRefund ::
  "(string \<Rightarrow> int option \<Rightarrow> string outcome) \<Rightarrow> pay_config \<Rightarrow> string \<Rightarrow> string \<Rightarrow> int option \<Rightarrow> string outcome" where
  "initiateRefund refundApi cfg rnd razorpayPaymentId amountInPaise =
     (if pf_provider cfg = Some ''mock'' then Inr (''refund_mock_'' @ rnd)
      else refundApi razorpayPaymentId amountInPaise)"

text \<open>\<open>ticketAmount.mul(n).div(totalSeats).toDecimalPlaces(2)\<close>.\<close>

definition refund_share :: "int \<Rightarrow> int \<Rightarrow> int \<Rightarrow> int option" where
  "refund_share ticketAmount n totalSeats =
     (if totalSeats = 0 then None
      else Some (half_up (of_int (ticketAmount * n) / of_int totalSeats)))"

definition refundPayment ::
  "(string \<Rightarrow> int option \<Rightarrow> string outcome) \<Rightarrow> (string \<Rightarrow> pay_store \<Rightarrow> pay_store outcome) \<Rightarrow> pay_config \<Rightarrow> int \<Rightarrow>
   string \<Rightarrow> string \<Rightarrow> int option \<Rightarrow> pay_store \<Rightarrow> pay_store \<times> (string \<times> int) outcome" where
  "refundPayment refundApi releaseSeats cfg now rnd bookingId seatsToRefund s =
     (case find_pay bookingId s of
        None \<Rightarrow> (s, Inl (BadRequest ''Refund failed: No Razorpay payment ID found''))
      | Some booking \<Rightarrow>
          if \<not> truthy (pb_razorpayPaymentId booking)
          then (s, Inl (BadRequest ''Refund failed: No Razorpay payment ID found''))
          else if pb_status booking \<noteq> CONFIRMED \<and> pb_status booking \<noteq> CANCELLED
          then (s, Inl (BadRequest ''Only confirmed or cancelled bookings can be refunded''))
          else
            let totalSeats = int (count_where (\<lambda>x. px_bookingId x = bookingId) (ps_bookingSeats s));
                refunded = pb_refundedSeatsCount booking;
                requesting = (case seatsToRefund of None \<Rightarrow> totalSeats - refunded | Some n \<Rightarrow> n)
            in if totalSeats < requesting + refunded
               then (s, Inl (BadRequest ''Double-refund exploit detected: Requested seats exceed booked seats''))
               else
                 let refundAmount = refund_share (pb_ticketAmount booking) requesting totalSeats
                 in case initiateRefund refundApi cfg rnd (the (pb_razorpayPaymentId booking)) refundAmount of
                      Inl e \<Rightarrow> (s, Inl e)
                    | Inr refundId \<Rightarrow>
                        (case refundAmount of
                           None \<Rightarrow> (s, Inl (Internal ''Invalid value for refundAmount''))
                         | Some amount \<Rightarrow>
                             if \<not> column_free pb_razorpayRefundId bookingId refundId s
                             then (s, Inl (Internal ''Unique constraint failed''))
                             else
                               let s1 = update_pay bookingId
                                     (\<lambda>b. b\<lparr>pb_status := REFUND_INITIATED, pb_razorpayRefundId := Some refundId,
                                            pb_refundAmount := pb_refundAmount b + amount,
                                            pb_refundedSeatsCount := pb_refundedSeatsCount b + requesting,
                                            pb_refundedAt := Some now\<rparr>) s
                               in case releaseSeats bookingId s1 of
                                    Inl e \<Rightarrow> (s1, Inl e)
                                  | Inr s2 \<Rightarrow> (s2, Inr (refundId, amount))))"

section \<open>Signatures\<close>

definition verify_webhook_signature :: "(string \<Rightarrow> string \<Rightarrow> string) \<Rightarrow> string \<Rightarrow> string \<Rightarrow> string \<Rightarrow> bool" where
  "verify_webhook_signature hmac secret rawBody signature \<longleftrightarrow> hmac secret rawBody = signature"

definition verifyPaymentSignature ::
  "(string \<Rightarrow> string \<Rightarrow> string) \<Rightarrow> pay_config \<Rightarrow> string \<Rightarrow> string \<Rightarrow> string \<Rightarrow> bool" where
  "verifyPaymentSignature hmac cfg orderId paymentId signature =
     (if \<not> truthy (pf_keySecret cfg) then False
      else hmac (the (pf_keySecret cfg)) (orderId @ ''|'' @ paymentId) = signature)"

section \<open>The breaker\<close>

text \<open>Successive times at most a window apart.\<close>

definition close_times :: "int list \<Rightarrow> bool" where
  "close_times ts \<longleftrightarrow> (\<forall>i < length ts - 1. ts ! (i + 1) - ts ! i \<le> 60000)"

lemma close_times_simps [simp]:
  "close_times []" "close_times [t]"
  "close_times (t # u # ts) \<longleftrightarrow> u - t \<le> 60000 \<and> close_times (u # ts)"
  by (auto simp: close_times_def nth_Cons less_Suc_eq_0_disj split: nat.split)

lemma recordFailure_simps [simp]:
  "cb_lastErrorTime (recordFailure now c) = now"
  "cb_failureCount (recordFailure now c) =
     (if 60000 < now - cb_lastErrorTime c then 1 else cb_failureCount c + 1)"
  "cb_state (recordFailure now c) =
     (if 60000 < now - cb_lastErrorTime c \<or> cb_failureCount c < 4 then cb_state c else OPEN)"
  by (auto simp: recordFailure_def Let_def)

lemma failures_count:
  "close_times (cb_lastErrorTime c # ts) \<Longrightarrow>
   cb_failureCount (fold recordFailure ts c) = cb_failureCount c + length ts \<and>
   cb_lastErrorTime (fold recordFailure ts c) = last (cb_lastErrorTime c # ts) \<and>
   (cb_state c = OPEN \<or> ts \<noteq> [] \<and> 5 \<le> cb_failureCount c + length ts \<longrightarrow>
      cb_state (fold recordFailure ts c) = OPEN)"
  by (induction ts arbitrary: c) (auto split: if_splits)

end
