(* ===== verification/OrderGuarantees.thy ===== *)
theory OrderGuarantees
  imports Payments
begin

text \<open>
  What the payment service guarantees about orders and refunds: the breaker's timing, the amount
  that is charged against the amount that is booked, and the single refund of a booking.
\<close>

section \<open>The circuit breaker\<close>

lemma five_failures_open:
  assumes "close_times ts" and "5 \<le> length ts"
  shows "cb_state (fold recordFailure ts c) = OPEN"
    and "cb_lastErrorTime (fold recordFailure ts c) = last ts"
proof -
  obtain t us where ts: "ts = t # us" using assms(2) by (cases ts) auto
  let ?c = "recordFailure t c"
  have "close_times (cb_lastErrorTime ?c # us)" using assms(1) ts by simp
  note count = failures_count [OF this]
  have "us \<noteq> []" "5 \<le> cb_failureCount ?c + length us" using assms(2) ts by auto
  then show "cb_state (fold recordFailure ts c) = OPEN" using count ts by simp
  show "cb_lastErrorTime (fold recordFailure ts c) = last ts" using count ts by simp
qed

lemma open_circuit_calls_nobody:
  assumes "cb_state c = OPEN" and "now \<le> cb_lastErrorTime c + 120000"
  shows "createRazorpayOrder createOrder cfg now rnd b u (c, s) = createRazorpayOrder other cfg now rnd' b u (c, s)
    \<and> fst (fst (createRazorpayOrder createOrder cfg now rnd b u (c, s))) = c
    \<and> \<not> is_ok (snd (createRazorpayOrder createOrder cfg now rnd b u (c, s)))"
  using assms unfolding createRazorpayOrder_def checkCircuit_def Let_def
  by (auto split: sum.splits)

text \<open>C19. The circuit breaker, first half. After five failures, each within a minute of the one
  before, whatever the breaker's state was, no order is created for two minutes: every call is
  refused with the breaker unchanged and the answer does not depend on the provider.\<close>

theorem breaker_protects_provider:
  assumes "close_times ts" and "5 \<le> length ts" and "now \<le> last ts + 120000"
  shows "createRazorpayOrder createOrder cfg now rnd b u (fold recordFailure ts c, s) =
           createRazorpayOrder other cfg now rnd' b u (fold recordFailure ts c, s)
       \<and> fst (fst (createRazorpayOrder createOrder cfg now rnd b u (fold recordFailure ts c, s))) = fold recordFailure ts c
       \<and> \<not> is_ok (snd (createRazorpayOrder createOrder cfg now rnd b u (fold recordFailure ts c, s)))"
  by (rule open_circuit_calls_nobody) (use assms five_failures_open [of ts c] in simp_all)

theorem breaker_protects_provider_witness:
  "\<not> is_ok (snd (createRazorpayOrder (\<lambda>r. Inr \<lparr>ro_id = ''o'', ro_amount = 1, ro_currency = ''INR''\<rparr>)
      \<lparr>pf_keyId = Some ''k'', pf_keySecret = Some ''x'', pf_webhookSecret = None, pf_provider = None,
       pf_pricing = default_pricing\<rparr> 160000 ''r'' ''b1'' ''ann''
      (fold recordFailure [0, 10000, 20000, 30000, 40000] initial_breaker, demo_pay_store (demo_booking LOCKED))))"
  by (rule breaker_protects_provider [where ts = "[0, 10000, 20000, 30000, 40000]",
        THEN conjunct2, THEN conjunct2]) simp_all

text \<open>The circuit breaker, second half: a failing trial does not reopen it. Once the two minutes
  are over, the call that tries the provider again finds the breaker half open, and if that trial
  fails the breaker stays half open: the failure count restarts at one, because the window is
  shorter than the cool-down, and the next four calls all reach the provider.\<close>

theorem failed_trial_does_not_reopen:
  assumes "cb_state c = OPEN" and "cb_lastErrorTime c + 120000 < now" and "now \<le> t"
    and "set ts \<subseteq> {t..t + 60000}" and "length ts < 4" and "sorted ts"
  shows "\<exists>c1. checkCircuit now c = Inr c1 \<and> cb_state c1 = HALF_OPEN
           \<and> cb_state (fold recordFailure ts (recordFailure t c1)) = HALF_OPEN
           \<and> checkCircuit now' (fold recordFailure ts (recordFailure t c1)) =
               Inr (fold recordFailure ts (recordFailure t c1))"
proof -
  let ?c1 = "c\<lparr>cb_state := HALF_OPEN\<rparr>"
  have few: "cb_state (fold recordFailure xs d) = HALF_OPEN"
    if "cb_state d = HALF_OPEN" "cb_failureCount d + length xs < 5" "sorted xs" "set xs \<subseteq> {t..t + 60000}" for xs d
    using that by (induction xs arbitrary: d) auto
  have "cb_state (fold recordFailure ts (recordFailure t ?c1)) = HALF_OPEN"
    by (rule few) (use assms in auto)
  then show ?thesis using assms by (auto simp: checkCircuit_def)
qed

theorem failed_trial_does_not_reopen_witness:
  "\<exists>c1. checkCircuit 160001 (fold recordFailure [0, 10000, 20000, 30000, 40000] initial_breaker) = Inr c1
     \<and> cb_state c1 = HALF_OPEN \<and> cb_state (fold recordFailure [160003] (recordFailure 160002 c1)) = HALF_OPEN
     \<and> checkCircuit 160004 (fold recordFailure [160003] (recordFailure 160002 c1)) =
         Inr (fold recordFailure [160003] (recordFailure 160002 c1))"
  by (rule failed_trial_does_not_reopen) (simp_all add: initial_breaker_def)

section \<open>Charged and booked amounts\<close>

lemma check_order_Inr:
  "check_order cfg now b u s = Inr booking \<Longrightarrow>
   find_pay b s = Some booking \<and> pb_status booking = LOCKED \<and> pb_userId booking = u \<and> pb_id booking = b"
  by (auto simp: check_order_def dest: find_pay_in split: option.splits if_splits)

lemma ensure_total_set [simp]:
  "0 < pb_totalAmount booking \<Longrightarrow> ensure_total cfg booking s = Inr (s, pb_totalAmount booking)"
  by (simp add: ensure_total_def)

text \<open>A successful call on a booking with a total and no order.\<close>

lemma new_order_effect:
  assumes "createRazorpayOrder createOrder cfg now rnd b u (c, s) = ((c', s'), Inr reply)"
    and "find_pay b s = Some booking" and "0 < pb_totalAmount booking" and "pb_razorpayOrderId booking = None"
    and echo: "\<And>r order. createOrder r = Inr order \<Longrightarrow> ro_amount order = rr_amount r"
  shows "s' = update_pay b (\<lambda>b. b\<lparr>pb_razorpayOrderId := Some (oy_orderId reply), pb_status := PAYMENT_IN_PROGRESS\<rparr>) s
    \<and> oy_amount reply = charge_amount booking (pb_totalAmount booking)
    \<and> c' = recordSuccess c' \<and> pb_status booking = LOCKED"
proof -
  have "check_order cfg now b u s = Inr booking"
    using assms(1,2) by (cases "check_order cfg now b u s") (auto simp: createRazorpayOrder_def dest: check_order_Inr)
  moreover from this have "pb_status booking = LOCKED" "pb_id booking = b" by (auto dest: check_order_Inr)
  ultimately show ?thesis using assms(1,3,4)
    by (cases "pf_provider cfg = Some ''mock''")
      (auto simp: createRazorpayOrder_def Let_def place_order_def recordSuccess_def dest!: echo split: sum.splits if_splits)
qed

text \<open>What is charged and what is booked. When an order is created for a booking whose total is
  set, and the payment of it is later processed, the ledger books the booking's final amount,
  while the customer was charged the final amount only if a discount was applied and the total
  otherwise: the two agree exactly when there is a discount or the final amount is the total.\<close>

theorem charge_agrees_with_ledger:
  assumes "createRazorpayOrder createOrder cfg now rnd b u (c, s) = ((c', s'), Inr reply)"
    and "find_pay b s = Some booking" and "0 < pb_totalAmount booking" and "pb_razorpayOrderId booking = None"
    and "\<And>r order. createOrder r = Inr order \<Longrightarrow> ro_amount order = rr_amount r"
    and "processPaymentSuccess later b pid signature tid s' = Inr (s'', result)"
  shows "\<exists>row. ps_ledger s'' = ps_ledger s @ [row] \<and> lg_bookingId row = b \<and> lg_amount row = pb_finalAmount booking
     \<and> (lg_amount row = oy_amount reply \<longleftrightarrow>
          0 < pb_discountAmount booking \<or> pb_finalAmount booking = pb_totalAmount booking)"
proof -
  note effect = new_order_effect [OF assms(1-5)]
  from effect assms(2) have found: "find_pay b s' = Some (booking\<lparr>pb_razorpayOrderId := Some (oy_orderId reply),
      pb_status := PAYMENT_IN_PROGRESS\<rparr>)"
    by (simp add: find_pay_def find_pay_update)
  from assms(2) have "pb_id booking = b" by (auto dest: find_pay_in)
  then show ?thesis using assms(6) effect found
    by (auto simp: processPaymentSuccess_def Let_def payment_row_def ledger_amount_def charge_amount_def split: if_splits)
qed

definition demo_pay_config :: pay_config where
  "demo_pay_config = \<lparr>pf_keyId = Some ''k'', pf_keySecret = Some ''x'', pf_webhookSecret = None,
     pf_provider = None, pf_pricing = default_pricing\<rparr>"

definition demo_create_order :: "rp_request \<Rightarrow> rp_order outcome" where
  "demo_create_order r = Inr \<lparr>ro_id = ''o2'', ro_amount = rr_amount r, ro_currency = ''INR''\<rparr>"

definition demo_new_booking :: pay_booking where
  "demo_new_booking = (demo_booking LOCKED)\<lparr>pb_razorpayOrderId := None, pb_finalAmount := 0\<rparr>"

definition demo_order_reply :: order_reply where
  "demo_order_reply = \<lparr>oy_orderId = ''o2'', oy_amount = 12199, oy_currency = ''INR'', oy_keyId = Some ''k''\<rparr>"

definition demo_ordered_store :: pay_store where
  "demo_ordered_store =
     demo_pay_store (demo_new_booking\<lparr>pb_razorpayOrderId := Some ''o2'', pb_status := PAYMENT_IN_PROGRESS\<rparr>)"

lemma demo_order:
  "createRazorpayOrder demo_create_order demo_pay_config 5 ''r'' ''b1'' ''ann''
     (initial_breaker, demo_pay_store demo_new_booking) = ((initial_breaker, demo_ordered_store), Inr demo_order_reply)"
  by code_simp

text \<open>A booking whose final amount was never set is charged in full and booked with nothing.\<close>

theorem charge_agrees_with_ledger_witness:
  "\<exists>s'' result row. processPaymentSuccess 9 ''b1'' ''p2'' ''g'' ''t1'' demo_ordered_store = Inr (s'', result)
     \<and> ps_ledger s'' = [row] \<and> lg_amount row = 0 \<and> oy_amount demo_order_reply = 12199"
proof -
  have "is_ok (processPaymentSuccess 9 ''b1'' ''p2'' ''g'' ''t1'' demo_ordered_store)" by code_simp
  then obtain s'' result where
    paid: "processPaymentSuccess 9 ''b1'' ''p2'' ''g'' ''t1'' demo_ordered_store = Inr (s'', result)"
    by (auto simp: is_ok_iff)
  show ?thesis
    using charge_agrees_with_ledger [OF demo_order _ _ _ _ paid, of demo_new_booking] paid
    by (auto simp: demo_new_booking_def demo_booking_def demo_create_order_def demo_order_reply_def)
qed

section \<open>A refund\<close>

lemma half_up_nonneg: "0 \<le> x \<Longrightarrow> 0 \<le> half_up x"
  by (simp add: half_up_def)

lemma half_up_mono_bound:
  assumes "0 \<le> x" and "x \<le> of_int n" shows "half_up x \<le> n"
proof -
  have "\<lfloor>x + 1 / 2\<rfloor> < n + 1" by (rule floor_less_iff [THEN iffD2]) (use assms(2) in simp)
  then show ?thesis using assms(1) by (simp add: half_up_def)
qed

lemma refund_share_bounds:
  assumes "0 \<le> t" and "0 \<le> n" and "n \<le> k" and "refund_share t n k = Some a"
  shows "0 \<le> a \<and> a \<le> t"
proof -
  have k: "0 < k" using assms(2-4) by (auto simp: refund_share_def split: if_splits)
  have "t * n \<le> t * k" using assms(1,3) by (simp add: mult_left_mono)
  then have "(of_int (t * n) / of_int k :: rat) \<le> of_int t"
    using k by (simp add: divide_le_eq del: of_int_mult) (simp flip: of_int_mult)
  moreover have "(0 :: rat) \<le> of_int (t * n) / of_int k" using assms(1,2) k by simp
  ultimately show ?thesis
    using assms(4) k by (auto simp: refund_share_def intro: half_up_nonneg half_up_mono_bound)
qed

text \<open>A successful refund, in one equation.\<close>

lemma refundPayment_effect:
  assumes "refundPayment api release cfg now rnd i n s = (s', Inr (rid, amount))"
  obtains booking where "find_pay i s = Some booking"
    and "pb_status booking \<in> {CONFIRMED, CANCELLED}"
    and "refund_share (pb_ticketAmount booking)
           (case n of None \<Rightarrow> int (count_where (\<lambda>x. px_bookingId x = i) (ps_bookingSeats s)) - pb_refundedSeatsCount booking
            | Some m \<Rightarrow> m)
           (int (count_where (\<lambda>x. px_bookingId x = i) (ps_bookingSeats s))) = Some amount"
    and "(case n of None \<Rightarrow> int (count_where (\<lambda>x. px_bookingId x = i) (ps_bookingSeats s)) - pb_refundedSeatsCount booking
            | Some m \<Rightarrow> m) + pb_refundedSeatsCount booking
           \<le> int (count_where (\<lambda>x. px_bookingId x = i) (ps_bookingSeats s))"
    and "\<exists>s1. pay_status i s1 = Some REFUND_INITIATED \<and> release i s1 = Inr s'"
proof -
  obtain booking where booking: "find_pay i s = Some booking"
    using assms by (auto simp: refundPayment_def split: option.splits)
  let ?s1 = "\<lambda>m. update_pay i (\<lambda>b. b\<lparr>pb_status := REFUND_INITIATED, pb_razorpayRefundId := Some rid,
      pb_refundAmount := pb_refundAmount b + amount, pb_refundedSeatsCount := pb_refundedSeatsCount b + m,
      pb_refundedAt := Some now\<rparr>) s"
  have "pay_status i (?s1 m) = Some REFUND_INITIATED" for m
    using booking by (simp add: pay_status_def find_pay_def find_pay_update)
  then show thesis using that [OF booking] assms booking
    by (auto simp: refundPayment_def Let_def split: if_splits sum.splits option.splits)
qed

text \<open>A refund through \<open>refundPayment\<close>. It returns between nothing and the ticket amount, when the
  seats asked for are not negative, and it happens once: afterwards, whatever seats are asked for,
  every other refund of the booking is refused and the provider is not called again, as long as
  releasing the seats leaves the booking's status alone. The counter of refunded seats therefore
  never admits a second, partial refund.\<close>

theorem refundPayment_once:
  assumes "refundPayment api release cfg now rnd i n s = (s', Inr (rid, amount))"
    and "\<And>s1 s2. release i s1 = Inr s2 \<Longrightarrow> pay_status i s2 = pay_status i s1"
  shows "(\<forall>booking. find_pay i s = Some booking \<and> 0 \<le> pb_ticketAmount booking \<and> 0 \<le> pb_refundedSeatsCount booking
            \<and> (\<forall>m. n = Some m \<longrightarrow> 0 \<le> m) \<and>
            pb_refundedSeatsCount booking \<le> int (count_where (\<lambda>x. px_bookingId x = i) (ps_bookingSeats s)) \<longrightarrow>
            0 \<le> amount \<and> amount \<le> pb_ticketAmount booking)
     \<and> fst (refundPayment api' release' cfg' later rnd' i n' s') = s'
     \<and> \<not> is_ok (snd (refundPayment api' release' cfg' later rnd' i n' s'))"
proof (rule refundPayment_effect [OF assms(1)])
  fix booking
  assume found: "find_pay i s = Some booking" "\<exists>s1. pay_status i s1 = Some REFUND_INITIATED \<and> release i s1 = Inr s'"
    and share: "refund_share (pb_ticketAmount booking)
           (case n of None \<Rightarrow> int (count_where (\<lambda>x. px_bookingId x = i) (ps_bookingSeats s)) - pb_refundedSeatsCount booking
            | Some m \<Rightarrow> m)
           (int (count_where (\<lambda>x. px_bookingId x = i) (ps_bookingSeats s))) = Some amount"
    and enough: "(case n of None \<Rightarrow> int (count_where (\<lambda>x. px_bookingId x = i) (ps_bookingSeats s)) - pb_refundedSeatsCount booking
            | Some m \<Rightarrow> m) + pb_refundedSeatsCount booking
           \<le> int (count_where (\<lambda>x. px_bookingId x = i) (ps_bookingSeats s))"
  have "pay_status i s' = Some REFUND_INITIATED" using found(2) assms(2) by fastforce
  then obtain b' where "find_pay i s' = Some b'" "pb_status b' = REFUND_INITIATED"
    by (auto simp: pay_status_def)
  then have "fst (refundPayment api' release' cfg' later rnd' i n' s') = s'
     \<and> \<not> is_ok (snd (refundPayment api' release' cfg' later rnd' i n' s'))"
    by (auto simp: refundPayment_def)
  moreover have "0 \<le> amount \<and> amount \<le> pb_ticketAmount booking"
    if "0 \<le> pb_ticketAmount booking" "0 \<le> pb_refundedSeatsCount booking" "\<forall>m. n = Some m \<longrightarrow> 0 \<le> m"
      "pb_refundedSeatsCount booking \<le> int (count_where (\<lambda>x. px_bookingId x = i) (ps_bookingSeats s))"
    by (rule refund_share_bounds [OF that(1) _ _ share]) (use that enough in \<open>auto split: option.splits\<close>)
  ultimately show ?thesis using found(1) by auto
qed

definition demo_refund_store :: pay_store where
  "demo_refund_store = (demo_pay_store (demo_booking CONFIRMED))\<lparr>ps_bookingSeats :=
     [\<lparr>px_bookingId = ''b1'', px_seatId = ''A1'', px_showId = None, px_status = None\<rparr>,
      \<lparr>px_bookingId = ''b1'', px_seatId = ''A2'', px_showId = None, px_status = None\<rparr>,
      \<lparr>px_bookingId = ''b1'', px_seatId = ''A3'', px_showId = None, px_status = None\<rparr>]\<rparr>"

text \<open>One seat of three, a third of 100.00: the other two can no longer be refunded.\<close>

theorem refundPayment_once_witness:
  "\<exists>s'. refundPayment (\<lambda>p a. Inr ''rf1'') (\<lambda>i s. Inr s) demo_pay_config 9 [] ''b1'' (Some 1) demo_refund_store =
       (s', Inr (''rf1'', 3333))
     \<and> \<not> is_ok (snd (refundPayment (\<lambda>p a. Inr ''rf2'') (\<lambda>i s. Inr s) demo_pay_config 10 [] ''b1'' (Some 2) s'))"
proof -
  let ?r = "refundPayment (\<lambda>p a. Inr ''rf1'') (\<lambda>i s. Inr s) demo_pay_config 9 [] ''b1'' (Some 1) demo_refund_store"
  have "snd ?r = Inr (''rf1'', 3333)" by code_simp
  then have first: "?r = (fst ?r, Inr (''rf1'', 3333))" by (simp add: prod_eq_iff)
  show ?thesis
    by (rule exI [of _ "fst ?r"], rule conjI, rule first)
      (rule refundPayment_once [OF first, THEN conjunct2, THEN conjunct2], simp)
qed

end
