(* ===== verification/Expiry.thy ===== *)
theory Expiry
  imports PaymentProcessor
begin

text \<open>
  The timed sweeps: \<open>backend/src/seat-locks/seat-lock.worker.ts\<close>, which releases expired seat
  locks in batches, \<open>backend/src/bookings/bookings-expiry.service.ts\<close>, which expires locked
  bookings and fails abandoned ones, and \<open>bookings.processor.ts\<close>, the queue's version of it.
  \<open>releaseSeatsSafely\<close> of the booking service, which is not in the repository, is a parameter.
  Rows with equal times are taken in table order, where the database may take any. The guard
  against overlapping sweeps is the boolean of the state.
\<close>

section \<open>The seat-lock worker\<close>

definition expired_lock :: "int \<Rightarrow> seat_lock_row \<Rightarrow> bool" where
  "expired_lock now l \<longleftrightarrow> sl_status l = Lk_LOCKED \<and> sl_expiresAt l \<le> now"

definition expired_locks :: "int \<Rightarrow> pay_store \<Rightarrow> seat_lock_row list" where
  "expired_locks now s = take 200 (sort_key sl_expiresAt (filter (expired_lock now) (ps_seatLocks s)))"

definition release_lock :: "seat_lock_row \<Rightarrow> seat_lock_row" where
  "release_lock l = l\<lparr>sl_status := Lk_RELEASED\<rparr>"

text \<open>The seats of one booking; only the show of its first seat is looked at.\<close>

definition free_booking_seats :: "string \<Rightarrow> pay_store \<Rightarrow> pay_store" where
  "free_booking_seats bookingId s =
     (let bookingSeats = filter (\<lambda>x. px_bookingId x = bookingId) (ps_bookingSeats s);
          seatIds = map px_seatId bookingSeats
      in if bookingSeats \<noteq> [] \<and> truthy (px_showId (hd bookingSeats)) then
           move_booking_seats bookingId EXPIRED
             (s\<lparr>ps_availability := update_where
                  (\<lambda>a. Some (av_showId a) = px_showId (hd bookingSeats) \<and> av_seatId a \<in> set seatIds
                        \<and> av_status a = Sa_LOCKED)
                  (\<lambda>a. a\<lparr>av_status := Sa_AVAILABLE, av_lockedUntil := None, av_userId := None\<rparr>)
                  (ps_availability s)\<rparr>)
         else s)"

definition release_batch :: "seat_lock_row list \<Rightarrow> pay_store \<Rightarrow> pay_store" where
  "release_batch expired s =
     (let bookingIds = dedupe (map sl_bookingId expired); lockIds = map sl_id expired
      in fold free_booking_seats bookingIds
           (s\<lparr>ps_seatLocks := update_where (\<lambda>l. sl_id l \<in> set lockIds) release_lock (ps_seatLocks s),
              ps_bookings := update_where (\<lambda>b. pb_id b \<in> set bookingIds \<and> pb_status b = LOCKED)
                               (set_status EXPIRED) (ps_bookings s)\<rparr>))"

lemma free_booking_seats_simps [simp]:
  "ps_seatLocks (free_booking_seats i s) = ps_seatLocks s"
  "ps_bookings (free_booking_seats i s) = ps_bookings s"
  "ps_ledger (free_booking_seats i s) = ps_ledger s"
  by (simp_all add: free_booking_seats_def Let_def move_booking_seats_def)

lemma fold_free_simps [simp]:
  "ps_seatLocks (fold free_booking_seats ids s) = ps_seatLocks s"
  "ps_bookings (fold free_booking_seats ids s) = ps_bookings s"
  "ps_ledger (fold free_booking_seats ids s) = ps_ledger s"
  by (induction ids arbitrary: s) simp_all

lemma release_batch_simps [simp]:
  "ps_seatLocks (release_batch ls s) = update_where (\<lambda>l. sl_id l \<in> sl_id ` set ls) release_lock (ps_seatLocks s)"
  "ps_bookings (release_batch ls s) =
     update_where (\<lambda>b. pb_id b \<in> sl_bookingId ` set ls \<and> pb_status b = LOCKED) (set_status EXPIRED) (ps_bookings s)"
  "ps_ledger (release_batch ls s) = ps_ledger s"
  by (simp_all add: release_batch_def Let_def)

lemma release_lock_simps [simp]:
  "sl_id (release_lock l) = sl_id l" "sl_bookingId (release_lock l) = sl_bookingId l"
  "sl_status (release_lock l) = Lk_RELEASED" "sl_expiresAt (release_lock l) = sl_expiresAt l"
  "\<not> expired_lock now (release_lock l)"
  by (simp_all add: release_lock_def expired_lock_def)

lemma set_expired_locks: "l \<in> set (expired_locks now s) \<Longrightarrow> l \<in> set (ps_seatLocks s) \<and> expired_lock now l"
  unfolding expired_locks_def by (drule in_set_takeD) simp

lemma update_length_less:
  "\<exists>l \<in> set t. Q l \<and> P l \<Longrightarrow> (\<And>l. P l \<Longrightarrow> \<not> Q (f l)) \<Longrightarrow>
   length (filter Q (update_where P f t)) < length (filter Q t)"
proof (induction t)
  case (Cons r t)
  have "length (filter Q (update_where P f t)) \<le> length (filter Q t)"
    by (induction t) (use Cons.prems(2) in auto)
  with Cons show ?case by auto
qed simp

function sweep_locks :: "int \<Rightarrow> pay_store \<Rightarrow> pay_store" where
  "sweep_locks now s =
     (let expired = expired_locks now s
      in if expired = [] then s
         else let s' = release_batch expired s
              in if length expired < 200 then s' else sweep_locks now s')"
  by pat_completeness auto

termination
proof (relation "measure (\<lambda>(now, s). length (filter (expired_lock now) (ps_seatLocks s)))")
  fix now s expired s'
  assume batch: "expired = expired_locks now s" "expired \<noteq> []" "s' = release_batch expired s"
  then have "hd expired \<in> set expired" by simp
  with batch(1) have "\<exists>l \<in> set (ps_seatLocks s). expired_lock now l \<and> sl_id l \<in> sl_id ` set expired"
    using set_expired_locks by blast
  then show "((now, s'), now, s) \<in> measure (\<lambda>(now, s). length (filter (expired_lock now) (ps_seatLocks s)))"
    using batch(3) by (simp add: update_length_less)
qed simp

declare sweep_locks.simps [simp del]

definition releaseExpiredLocks :: "int \<Rightarrow> bool \<times> pay_store \<Rightarrow> bool \<times> pay_store" where
  "releaseExpiredLocks now st = (case st of (isSweeping, s) \<Rightarrow> if isSweeping then (isSweeping, s) else (False, sweep_locks now s))"

lemma sweep_locks_rec:
  "expired_locks now s \<noteq> [] \<Longrightarrow> 200 \<le> length (expired_locks now s) \<Longrightarrow>
   sweep_locks now s = sweep_locks now (release_batch (expired_locks now s) s)"
  by (subst sweep_locks.simps) (simp add: Let_def)

text \<open>A short batch holds every expired lock.\<close>

lemma short_batch:
  assumes "length (expired_locks now s) < 200"
  shows "set (expired_locks now s) = {l \<in> set (ps_seatLocks s). expired_lock now l}"
proof -
  have "length (sort_key sl_expiresAt (filter (expired_lock now) (ps_seatLocks s))) < 200"
    using assms by (simp add: expired_locks_def)
  then have "expired_locks now s = sort_key sl_expiresAt (filter (expired_lock now) (ps_seatLocks s))"
    by (simp add: expired_locks_def)
  then show ?thesis by auto
qed

lemma release_batch_Nil [simp]: "release_batch [] s = s"
  by (simp add: release_batch_def update_where_none dedupe_def)

lemma sweep_locks_last:
  "length (expired_locks now s) < 200 \<Longrightarrow> sweep_locks now s = release_batch (expired_locks now s) s"
  by (cases "expired_locks now s = []") (simp_all add: Let_def sweep_locks.simps [of now s])

section \<open>The sweep against one update of the table\<close>

lemma ids_select:
  assumes "distinct (map sl_id t)" and "set ls \<subseteq> set t" and "l \<in> set t"
  shows "sl_id l \<in> sl_id ` set ls \<longleftrightarrow> l \<in> set ls"
  using assms by (auto simp: distinct_map inj_on_def)

lemma distinct_release [simp]:
  "map sl_id (update_where P release_lock t) = map sl_id t"
  by (rule map_update_where) simp

lemma release_compose:
  assumes "distinct (map sl_id t)" and "set ls \<subseteq> {l \<in> set t. expired_lock now l}"
  shows "update_where (expired_lock now) release_lock
           (update_where (\<lambda>l. sl_id l \<in> sl_id ` set ls) release_lock t) = update_where (expired_lock now) release_lock t"
  using assms ids_select [OF assms(1), of ls] unfolding update_where_def
  by (auto simp del: image_iff)

lemma expired_subset: "set (expired_locks now s) \<subseteq> {l \<in> set (ps_seatLocks s). expired_lock now l}"
  using set_expired_locks by blast

lemma sweep_seatLocks:
  "distinct (map sl_id (ps_seatLocks s)) \<Longrightarrow>
   ps_seatLocks (sweep_locks now s) = update_where (expired_lock now) release_lock (ps_seatLocks s)"
proof (induction now s rule: sweep_locks.induct)
  case (1 now s)
  let ?e = "expired_locks now s"
  note compose = release_compose [OF 1(2) expired_subset]
  show ?case
  proof (cases "length ?e < 200")
    case True
    have "sl_id l \<in> sl_id ` set ?e \<longleftrightarrow> expired_lock now l" if "l \<in> set (ps_seatLocks s)" for l
      using ids_select [OF 1(2) _ that, of ?e] short_batch [OF True] that by auto
    then show ?thesis using sweep_locks_last [OF True] by (simp add: update_where_def cong: map_cong)
  next
    case False
    then have "?e \<noteq> []" by auto
    then show ?thesis using 1(1) [OF refl _ refl] 1(2) False sweep_locks_rec [of now s] compose by simp
  qed
qed

definition lapsed :: "int \<Rightarrow> pay_store \<Rightarrow> pay_booking \<Rightarrow> bool" where
  "lapsed now s b \<longleftrightarrow> pb_status b = LOCKED
     \<and> list_ex (\<lambda>l. expired_lock now l \<and> sl_bookingId l = pb_id b) (ps_seatLocks s)"

lemma sweep_bookings:
  "distinct (map sl_id (ps_seatLocks s)) \<Longrightarrow>
   ps_bookings (sweep_locks now s) = update_where (lapsed now s) (set_status EXPIRED) (ps_bookings s)"
proof (induction now s rule: sweep_locks.induct)
  case (1 now s)
  let ?e = "expired_locks now s"
  show ?case
  proof (cases "length ?e < 200")
    case True
    have "pb_id b \<in> sl_bookingId ` set ?e \<and> pb_status b = LOCKED \<longleftrightarrow> lapsed now s b" for b
      using short_batch [OF True] by (auto simp: lapsed_def list_ex_iff intro: rev_image_eqI)
    then show ?thesis using sweep_locks_last [OF True] by simp
  next
    case False
    then have "?e \<noteq> []" by auto
    let ?s' = "release_batch ?e s"
    have rest: "lapsed now ?s' b \<longleftrightarrow> pb_status b = LOCKED \<and>
        (\<exists>l \<in> set (ps_seatLocks s) - set ?e. expired_lock now l \<and> sl_bookingId l = pb_id b)" for b
      using ids_select [OF 1(2), of ?e] expired_subset [of now s]
      by (auto simp: lapsed_def list_ex_iff update_where_def)
    have here: "lapsed now s b \<longleftrightarrow> pb_status b = LOCKED \<and> (pb_id b \<in> sl_bookingId ` set ?e \<or>
        (\<exists>l \<in> set (ps_seatLocks s) - set ?e. expired_lock now l \<and> sl_bookingId l = pb_id b))" for b
      using expired_subset [of now s] by (auto simp: lapsed_def list_ex_iff intro: rev_image_eqI)
    have "update_where (lapsed now ?s') (set_status EXPIRED) (ps_bookings ?s')
        = update_where (lapsed now s) (set_status EXPIRED) (ps_bookings s)"
      by (auto simp: update_where_def rest here)
    then show ?thesis
      using 1(1) [OF refl \<open>?e \<noteq> []\<close> refl] 1(2) False sweep_locks_rec [OF \<open>?e \<noteq> []\<close>] by simp
  qed
qed

section \<open>The booking sweeps\<close>

definition stale_locked :: "int \<Rightarrow> pay_booking \<Rightarrow> bool" where
  "stale_locked now b \<longleftrightarrow> pb_status b = LOCKED \<and> (case pb_expiresAt b of None \<Rightarrow> False | Some e \<Rightarrow> e < now)
     \<and> pb_razorpayPaymentId b = None"

text \<open>One booking's transaction: what it read before is checked again, and a failing release of the
  seats undoes the update.\<close>

definition expire_one :: "(string \<Rightarrow> pay_store \<Rightarrow> pay_store outcome) \<Rightarrow> string \<Rightarrow> pay_store \<Rightarrow> pay_store" where
  "expire_one releaseSeats i s =
     (case find_pay i s of
        None \<Rightarrow> s
      | Some current \<Rightarrow>
          if pb_status current \<noteq> LOCKED \<or> truthy (pb_razorpayPaymentId current) then s
          else case releaseSeats i (update_pay i (set_status EXPIRED) s) of
                 Inl e \<Rightarrow> s
               | Inr s' \<Rightarrow> s')"

definition handleAutoExpiry ::
  "(string \<Rightarrow> pay_store \<Rightarrow> pay_store outcome) \<Rightarrow> int \<Rightarrow> bool \<times> pay_store \<Rightarrow> bool \<times> pay_store" where
  "handleAutoExpiry releaseSeats now st =
     (case st of (isExpiryRunning, s) \<Rightarrow>
        if isExpiryRunning then (isExpiryRunning, s)
        else let staleBookings = take 100 (sort_key (\<lambda>b. the (pb_expiresAt b)) (filter (stale_locked now) (ps_bookings s)))
             in (False, fold (expire_one releaseSeats) (map pb_id staleBookings) s))"

definition stale_pending :: "int \<Rightarrow> pay_booking \<Rightarrow> bool" where
  "stale_pending cutoff b \<longleftrightarrow> pb_status b = PENDING \<and> pb_createdAt b < cutoff"

definition fail_one :: "string \<Rightarrow> pay_store \<Rightarrow> pay_store" where
  "fail_one i s =
     (case find_pay i s of
        None \<Rightarrow> s
      | Some current \<Rightarrow>
          if pb_status current \<noteq> PENDING then s else update_pay i (set_status FAILED) s)"

definition handleInitiatedCleanup :: "int \<Rightarrow> bool \<times> pay_store \<Rightarrow> bool \<times> pay_store" where
  "handleInitiatedCleanup now st =
     (case st of (isCleanupRunning, s) \<Rightarrow>
        if isCleanupRunning then (isCleanupRunning, s)
        else let stalePending = take 100 (sort_key pb_createdAt (filter (stale_pending (now - 15 * 60 * 1000)) (ps_bookings s)))
             in (False, fold fail_one (map pb_id stalePending) s))"

text \<open>The jobs of the booking queue. Sending the mail is the notification queue's, here a list; the
  refund job only waits.\<close>

datatype booking_job = Cleanup_expired | Send_email string | Process_refund string | Other_job string

definition handleExpiredBookings :: "int \<Rightarrow> pay_store \<Rightarrow> pay_store" where
  "handleExpiredBookings now s =
     (let expired = filter (\<lambda>b. pb_status b = LOCKED
            \<and> (case pb_expiresAt b of None \<Rightarrow> False | Some e \<Rightarrow> e < now)) (ps_bookings s)
      in fold (\<lambda>booking. update_pay (pb_id booking) (set_status EXPIRED)) expired s)"

fun process_booking_job :: "int \<Rightarrow> booking_job \<Rightarrow> pay_store \<times> string list \<Rightarrow> pay_store \<times> string list" where
  "process_booking_job now Cleanup_expired (s, mails) = (handleExpiredBookings now s, mails)"
| "process_booking_job now (Send_email i) (s, mails) = (s, mails @ [i])"
| "process_booking_job now (Process_refund i) (s, mails) = (s, mails)"
| "process_booking_job now (Other_job n) (s, mails) = (s, mails)"

end
