(* ===== verification/ExpiryGuarantees.thy ===== *)
theory ExpiryGuarantees
  imports Expiry
begin

text \<open>
  What the sweeps guarantee: the batched sweep of seat locks is one update of the table, it is
  lawful, and what it does to a booking that is being paid; the booking sweep expires exactly the
  stale bookings.
\<close>

section \<open>Seat locks\<close>


definition demo_lock :: "string \<Rightarrow> int \<Rightarrow> seat_lock_row" where
  "demo_lock i e = \<lparr>sl_id = i, sl_showId = ''sh1'', sl_seatNumber = ''A1'', sl_bookingId = ''b1'',
     sl_expiresAt = e, sl_status = Lk_LOCKED\<rparr>"

definition demo_locked_store :: "booking_status \<Rightarrow> pay_store" where
  "demo_locked_store st = (demo_pay_store (demo_booking st))\<lparr>ps_seatLocks := [demo_lock ''l1'' 100, demo_lock ''l2'' 900]\<rparr>"

lemma demo_locked_store_simps [simp]:
  "ps_seatLocks (demo_locked_store st) = [demo_lock ''l1'' 100, demo_lock ''l2'' 900]"
  "ps_bookings (demo_locked_store st) = [demo_booking st]"
  "find_pay i (demo_locked_store st) = (if i = ''b1'' then Some (demo_booking st) else None)"
  "sl_id (demo_lock i e) = i" "sl_bookingId (demo_lock i e) = ''b1''"
  "expired_lock now (demo_lock i e) \<longleftrightarrow> e \<le> now"
  by (simp_all add: demo_locked_store_def demo_lock_def expired_lock_def find_pay_def)


lemma sweep_lawful_aux: "lawful_change s (sweep_locks now s)"
proof (induction now s rule: sweep_locks.induct)
  case (1 now s)
  let ?e = "expired_locks now s"
  have batch: "lawful_change s (release_batch ?e s)"
  proof -
    have "status_path (pay_status i s) (pay_status i (release_batch ?e s))" for i
    proof (cases "find_pay i s")
      case (Some b)
      let ?f = "\<lambda>b. if pb_id b \<in> sl_bookingId ` set ?e \<and> pb_status b = LOCKED then set_status EXPIRED b else b"
      have "ps_bookings (release_batch ?e s) = map ?f (ps_bookings s)" by (simp add: update_where_def)
      moreover have "find (\<lambda>b. pb_id b = i) (map ?f t) = map_option ?f (find (\<lambda>b. pb_id b = i) t)" for t
        by (induction t) auto
      ultimately have "find_pay i (release_batch ?e s) = Some (?f b)" using Some by (simp add: find_pay_def)
      moreover have "run status_step LOCKED EXPIRED"
        by (rule run_step [OF run_refl]) (simp add: status_step_iff)
      ultimately show ?thesis using Some by (auto simp: pay_status_def run_refl)
    next
      case None
      then have "find_pay i (release_batch ?e s) = None"
        by (auto simp: find_pay_def find_None_iff in_update_where)
      then show ?thesis using None by (simp add: pay_status_def)
    qed
    then show ?thesis by (simp add: lawful_change_def map_update_where)
  qed
  show ?case
  proof (cases "length ?e < 200")
    case True
    then show ?thesis using batch sweep_locks_last by simp
  next
    case False
    then have "?e \<noteq> []" by auto
    then show ?thesis
      using 1 [OF refl _ refl] False sweep_locks_rec [of now s] batch by (auto intro: lawful_trans)
  qed
qed

interpretation lock_worker: lawful_operation sweep_locks
  by unfold_locales (rule sweep_lawful_aux)

lemma pay_status_find: "find_pay i s = Some b \<Longrightarrow> pay_status i s = Some (pb_status b)"
  by (simp add: pay_status_def)

lemma find_pay_map:
  "ps_bookings s' = map f (ps_bookings s) \<Longrightarrow> (\<And>b. pb_id (f b) = pb_id b) \<Longrightarrow>
   find_pay i s' = map_option f (find_pay i s)"
proof -
  assume s': "ps_bookings s' = map f (ps_bookings s)" and key: "\<And>b. pb_id (f b) = pb_id b"
  have "find (\<lambda>b. pb_id b = i) (map f t) = map_option f (find (\<lambda>b. pb_id b = i) t)" for t
    by (induction t) (auto simp: key)
  with s' show ?thesis by (simp add: find_pay_def)
qed

text \<open>A payment that is under way does not protect its seats. When the lock of a booking expires
  while the booking is in payment, the sweep releases the lock and leaves the booking as it is;
  a payment captured afterwards still confirms the booking, while its lock stays released, so that
  the index of active locks lets another booking lock the same seat meanwhile.\<close>

theorem paid_booking_loses_its_lock:
  assumes "distinct (map sl_id (ps_seatLocks s))" and "find_pay b s = Some booking"
    and "pb_status booking = PAYMENT_IN_PROGRESS" and "pb_tenantId booking = Some tid"
    and "l \<in> set (ps_seatLocks s)" and "expired_lock now l"
    and "\<forall>r \<in> set (ps_bookings s). pb_razorpayPaymentId r \<noteq> Some pid"
  shows "\<exists>s' result. processPaymentSuccess later b pid signature tid (snd (releaseExpiredLocks now (False, s))) = Inr (s', result)
    \<and> pay_status b s' = Some CONFIRMED \<and> pr_successfulBookingId result = Some b
    \<and> (\<forall>l' \<in> set (ps_seatLocks s'). sl_id l' = sl_id l \<longrightarrow> sl_status l' = Lk_RELEASED)"
proof -
  let ?s = "snd (releaseExpiredLocks now (False, s))"
  have bookings: "ps_bookings ?s = map (\<lambda>b. if lapsed now s b then set_status EXPIRED b else b) (ps_bookings s)"
    and locks: "ps_seatLocks ?s = update_where (expired_lock now) release_lock (ps_seatLocks s)"
    using assms(1) by (simp_all add: releaseExpiredLocks_def sweep_bookings sweep_seatLocks update_where_def)
  have found: "find_pay b ?s = Some booking"
    using find_pay_map [OF bookings, of b] assms(2,3) by (simp add: lapsed_def)
  have free: "column_free pb_razorpayPaymentId b pid ?s"
    using assms(7) by (auto simp: column_free_def list_all_iff bookings set_status_def)
  let ?t = "update_pay b (confirm_pay later pid (Some signature)) ?s"
  have confirmed: "pay_status b ?t = Some CONFIRMED"
    using found by (simp add: pay_status_def find_pay_def find_pay_update confirm_pay_def)
  have gone: "sl_status l' = Lk_RELEASED" if "l' \<in> set (ps_seatLocks ?s)" "sl_id l' = sl_id l" for l'
  proof -
    note row = that
    obtain q where q: "q \<in> set (ps_seatLocks s)" "l' = (if expired_lock now q then release_lock q else q)"
      using row(1) unfolding locks in_update_where by blast
    then have "sl_id q = sl_id l" using row(2) by (auto split: if_splits)
    then have "q = l" using distinct_key_eq [OF assms(1) q(1) assms(5)] by simp
    then show ?thesis using q(2) assms(6) by simp
  qed
  show ?thesis
    using assms(3,4) found free confirmed gone
    by (auto simp: processPaymentSuccess_def Let_def pay_status_def find_pay_def move_seat_locks_def
        in_update_where append_ledger_def move_booking_seats_def update_pay_def)
qed

theorem paid_booking_loses_its_lock_witness:
  "\<exists>s' result. processPaymentSuccess 600 ''b1'' ''p9'' ''g'' ''t1''
       (snd (releaseExpiredLocks 500 (False, demo_locked_store PAYMENT_IN_PROGRESS))) = Inr (s', result)
    \<and> pay_status ''b1'' s' = Some CONFIRMED \<and> pr_successfulBookingId result = Some ''b1''
    \<and> (\<forall>l' \<in> set (ps_seatLocks s'). sl_id l' = ''l1'' \<longrightarrow> sl_status l' = Lk_RELEASED)"
  using paid_booking_loses_its_lock [where s = "demo_locked_store PAYMENT_IN_PROGRESS" and b = "''b1''"
      and booking = "demo_booking PAYMENT_IN_PROGRESS" and tid = "''t1''" and l = "demo_lock ''l1'' 100"
      and now = 500 and pid = "''p9''" and later = 600 and signature = "''g''"]
  by simp

section \<open>Booking sweeps\<close>

text \<open>Updating listed rows one at a time, under a guard, is one update.\<close>

lemma expire_one_bookings:
  assumes "distinct (map pb_id (ps_bookings s))"
    and "\<And>s. \<exists>s'. release i s = Inr s' \<and> ps_bookings s' = ps_bookings s"
  shows "ps_bookings (expire_one release i s) =
    update_where (\<lambda>b. pb_id b = i \<and> pb_status b = LOCKED \<and> \<not> truthy (pb_razorpayPaymentId b)) (set_status EXPIRED)
      (ps_bookings s)"
proof (cases "find_pay i s")
  case None
  then have "pb_id b \<noteq> i" if "b \<in> set (ps_bookings s)" for b
    using that by (auto simp: find_pay_def find_None_iff)
  then show ?thesis using None by (simp add: expire_one_def update_where_none)
next
  case (Some b)
  have same: "r = b" if "r \<in> set (ps_bookings s)" "pb_id r = i" for r
    using distinct_key_eq [OF assms(1) that(1), of b] find_pay_in [OF Some] that(2) by blast
  obtain s' where "release i (update_pay i (set_status EXPIRED) s) = Inr s'"
    "ps_bookings s' = update_where (\<lambda>b. pb_id b = i) (set_status EXPIRED) (ps_bookings s)"
    using assms(2) [of "update_pay i (set_status EXPIRED) s"] by auto
  moreover have "pb_id r = i \<and> pb_status r = LOCKED \<and> \<not> truthy (pb_razorpayPaymentId r) \<longleftrightarrow>
      pb_id r = i \<and> pb_status b = LOCKED \<and> \<not> truthy (pb_razorpayPaymentId b)" if "r \<in> set (ps_bookings s)" for r
    using same that by blast
  ultimately show ?thesis using Some
    by (cases "pb_status b = LOCKED \<and> \<not> truthy (pb_razorpayPaymentId b)")
      (auto simp: expire_one_def update_where_def cong: map_cong intro!: map_idI [symmetric])
qed

lemma fold_expire_bookings:
  assumes "distinct (map pb_id (ps_bookings s))"
    and "\<And>i s. \<exists>s'. release i s = Inr s' \<and> ps_bookings s' = ps_bookings s"
  shows "ps_bookings (fold (expire_one release) ids s) =
    update_where (\<lambda>b. pb_id b \<in> set ids \<and> pb_status b = LOCKED \<and> \<not> truthy (pb_razorpayPaymentId b)) (set_status EXPIRED)
      (ps_bookings s)"
  using assms(1)
proof (induction ids arbitrary: s)
  case (Cons i ids)
  note one = expire_one_bookings [OF Cons.prems, of release i, OF assms(2)]
  then have "distinct (map pb_id (ps_bookings (expire_one release i s)))"
    using Cons.prems by (simp add: map_update_where)
  from Cons.IH [OF this] show ?case by (simp add: one update_where_def set_status_def)
qed (simp add: update_where_none)

text \<open>The expiry of locked bookings. As long as releasing seats succeeds and leaves the bookings
  alone, a sweep that finds at most a hundred stale bookings expires exactly the locked bookings
  whose time is over and that have no payment, and leaves every other booking as it is.\<close>

theorem auto_expiry_is_one_update:
  assumes "distinct (map pb_id (ps_bookings s))" and "count_where (stale_locked now) (ps_bookings s) \<le> 100"
    and "\<And>i s. \<exists>s'. release i s = Inr s' \<and> ps_bookings s' = ps_bookings s"
  shows "ps_bookings (snd (handleAutoExpiry release now (False, s))) =
    map (\<lambda>b. if stale_locked now b then set_status EXPIRED b else b) (ps_bookings s)"
proof -
  let ?ids = "map pb_id (take 100 (sort_key (\<lambda>b. the (pb_expiresAt b)) (filter (stale_locked now) (ps_bookings s))))"
  have all: "set ?ids = pb_id ` {b \<in> set (ps_bookings s). stale_locked now b}"
    using assms(2) by (simp add: count_where_def)
  have "pb_id b \<in> set ?ids \<and> pb_status b = LOCKED \<and> \<not> truthy (pb_razorpayPaymentId b) \<longleftrightarrow> stale_locked now b"
    if "b \<in> set (ps_bookings s)" for b
    using distinct_key_eq [OF assms(1) that] that unfolding all by (auto simp: stale_locked_def)
  then show ?thesis
    using fold_expire_bookings [where ids = ?ids, OF assms(1,3)]
    by (simp add: handleAutoExpiry_def Let_def update_where_def cong: map_cong del: set_map)
qed

theorem auto_expiry_is_one_update_witness:
  "map pb_status (ps_bookings (snd (handleAutoExpiry (\<lambda>i s. Inr s) 600001
      (False, demo_pay_store ((demo_booking LOCKED)\<lparr>pb_razorpayPaymentId := None\<rparr>))))) = [EXPIRED]"
proof -
  let ?s = "demo_pay_store ((demo_booking LOCKED)\<lparr>pb_razorpayPaymentId := None\<rparr>)"
  have "distinct (map pb_id (ps_bookings ?s))" "count_where (stale_locked 600001) (ps_bookings ?s) \<le> 100"
    by (simp_all add: count_where_def)
  from auto_expiry_is_one_update [where release = "\<lambda>i s. Inr s", OF this] show ?thesis
    by (simp add: stale_locked_def demo_booking_def)
qed

end
