(* ===== verification/Json.thy ===== *)
theory Json
  imports Texts Doubles
begin

text \<open>
  \<open>JSON.parse\<close> and base64, as the ticket code uses them. A string is the list of the bytes of its
  UTF-8 form. Numbers are doubles (\<open>to_double\<close>; no overflow to infinity); a \<open>u\<close> escape gives the
  bytes of its code unit, surrogates included. The parser carries fuel for its nesting:
  \<open>json_fuel_enough\<close> shows that the length of the text is always enough of it.
\<close>

section \<open>Values\<close>

datatype json = Null | Bool bool | Num rat | Str string | Arr "json list" | Obj "(string \<times> json) list"

text \<open>\<open>v.k\<close>: of equal keys the last one counts; a property of a value that is no object is not
  defined (\<open>Null\<close> here, which is as falsy), and one of \<open>null\<close> is an error, as in
  \<open>json_get\<close>'s caller.\<close>

definition json_get :: "string \<Rightarrow> json \<Rightarrow> json" where
  "json_get k v = (case v of
     Obj ms \<Rightarrow> (case map_of (rev ms) k of None \<Rightarrow> Null | Some x \<Rightarrow> x)
   | _ \<Rightarrow> Null)"

fun json_truthy :: "json \<Rightarrow> bool" where
  "json_truthy Null = False"
| "json_truthy (Bool b) = b"
| "json_truthy (Num r) = (r \<noteq> 0)"
| "json_truthy (Str s) = (s \<noteq> [])"
| "json_truthy (Arr _) = True"
| "json_truthy (Obj _) = True"

section \<open>Strings\<close>

definition hex_value :: "char \<Rightarrow> nat option" where
  "hex_value c = (let n = (of_char c :: nat) in
     if 48 \<le> n \<and> n \<le> 57 then Some (n - 48)
     else if 97 \<le> n \<and> n \<le> 102 then Some (n - 87)
     else if 65 \<le> n \<and> n \<le> 70 then Some (n - 55)
     else None)"

definition hex4 :: "char \<Rightarrow> char \<Rightarrow> char \<Rightarrow> char \<Rightarrow> nat option" where
  "hex4 a b c d = (case (hex_value a, hex_value b, hex_value c, hex_value d) of
     (Some w, Some x, Some y, Some z) \<Rightarrow> Some (((w * 16 + x) * 16 + y) * 16 + z)
   | _ \<Rightarrow> None)"

definition utf8 :: "nat \<Rightarrow> string" where
  "utf8 n = (if n < 128 then [char_of n]
     else if n < 2048 then [char_of (192 + n div 64), char_of (128 + n mod 64)]
     else [char_of (224 + n div 4096), char_of (128 + n div 64 mod 64), char_of (128 + n mod 64)])"

definition backslash :: char where
  "backslash = char_of (92 :: nat)"

definition escaped :: "char \<Rightarrow> char option" where
  "escaped e =
     (if e = quote \<or> e = backslash \<or> e = CHR ''/'' then Some e
      else if e = CHR ''b'' then Some (char_of (8 :: nat))
      else if e = CHR ''f'' then Some (char_of (12 :: nat))
      else if e = CHR ''n'' then Some (char_of (10 :: nat))
      else if e = CHR ''r'' then Some (char_of (13 :: nat))
      else if e = CHR ''t'' then Some (char_of (9 :: nat))
      else None)"

text \<open>The characters up to the closing quote.\<close>

fun parse_chars :: "string \<Rightarrow> (string \<times> string) option" where
  "parse_chars [] = None"
| "parse_chars (c # s) =
     (if c = quote then Some ([], s)
      else if c \<noteq> backslash then
        (if (of_char c :: nat) < 32 then None else map_option (\<lambda>(x, r). (c # x, r)) (parse_chars s))
      else case s of
        e # s' \<Rightarrow>
          (if e = CHR ''u'' then
             (case s' of
                h1 # h2 # h3 # h4 # s'' \<Rightarrow>
                  (case hex4 h1 h2 h3 h4 of
                     None \<Rightarrow> None
                   | Some n \<Rightarrow> map_option (\<lambda>(x, r). (utf8 n @ x, r)) (parse_chars s''))
              | _ \<Rightarrow> None)
           else case escaped e of
             None \<Rightarrow> None
           | Some d \<Rightarrow> map_option (\<lambda>(x, r). (d # x, r)) (parse_chars s'))
      | [] \<Rightarrow> None)"

lemma hex_value_hex_char [simp]: "d < 16 \<Longrightarrow> hex_value (hex_char d) = Some d"
  by (auto simp: hex_value_def hex_char_def digit_char_def of_char_of Let_def)

lemma special_chars [simp]: "quote \<noteq> backslash" "backslash \<noteq> quote" "CHR ''u'' \<noteq> quote" "CHR ''u'' \<noteq> backslash"
  "quote \<noteq> CHR ''u''" "backslash \<noteq> CHR ''u''"
  by code_simp+

lemma escape_letters:
  "escaped quote = Some quote" "escaped backslash = Some backslash"
  "escaped CHR ''b'' = Some (char_of (8 :: nat))" "escaped CHR ''t'' = Some (char_of (9 :: nat))"
  "escaped CHR ''n'' = Some (char_of (10 :: nat))" "escaped CHR ''f'' = Some (char_of (12 :: nat))"
  "escaped CHR ''r'' = Some (char_of (13 :: nat))"
  by code_simp+

lemma json_char_special:
  "json_char quote = [backslash, quote]" "json_char backslash = [backslash, backslash]"
  "json_char (char_of (8 :: nat)) = [backslash, CHR ''b'']" "json_char (char_of (9 :: nat)) = [backslash, CHR ''t'']"
  "json_char (char_of (10 :: nat)) = [backslash, CHR ''n'']" "json_char (char_of (12 :: nat)) = [backslash, CHR ''f'']"
  "json_char (char_of (13 :: nat)) = [backslash, CHR ''r'']"
  by code_simp+

lemma parse_escape:
  "e \<noteq> CHR ''u'' \<Longrightarrow> escaped e = Some d \<Longrightarrow>
   parse_chars ([backslash, e] @ s) = map_option (\<lambda>(x, r). (d # x, r)) (parse_chars s)"
  by simp

lemma parse_unicode:
  "hex4 h1 h2 h3 h4 = Some n \<Longrightarrow>
   parse_chars ([backslash, CHR ''u'', h1, h2, h3, h4] @ s) = map_option (\<lambda>(x, r). (utf8 n @ x, r)) (parse_chars s)"
  by simp

lemma special_char_cases:
  fixes c :: char
  obtains "c \<in> {quote, backslash, char_of (8 :: nat), char_of (9 :: nat), char_of (10 :: nat),
                 char_of (12 :: nat), char_of (13 :: nat)}"
  | "(of_char c :: nat) < 32" "(of_char c :: nat) \<notin> {8, 9, 10, 12, 13}"
  | "32 \<le> (of_char c :: nat)" "(of_char c :: nat) \<notin> {34, 92}"
proof -
  have "char_of n = c" if "(of_char c :: nat) = n" for n using that by auto
  then show thesis using that unfolding quote_def backslash_def by (metis insert_iff empty_iff not_less)
qed

lemma parse_json_char: "parse_chars (json_char c @ s) = map_option (\<lambda>(x, r). (c # x, r)) (parse_chars s)"
proof (cases c rule: special_char_cases)
  case 1
  then have "\<exists>e. json_char c = [backslash, e] \<and> escaped e = Some c \<and> e \<noteq> CHR ''u''"
    by (elim insertE emptyE) (simp_all only: json_char_special list.inject, simp_all add: escape_letters)
  then show ?thesis by (metis parse_escape)
next
  case 2
  have hex: "hex4 CHR ''0'' CHR ''0'' (hex_char (of_char c div 16)) (hex_char (of_char c mod 16)) = Some (of_char c)"
    using 2 by (simp add: hex4_def) (simp add: hex_value_def)
  have "json_char c = [backslash, CHR ''u'', CHR ''0'', CHR ''0'', hex_char (of_char c div 16), hex_char (of_char c mod 16)]"
    using 2 by (simp add: json_char_def Let_def backslash_def)
  with parse_unicode [OF hex, of s] show ?thesis using 2 by (simp add: utf8_def)
next
  case 3
  then have "c \<noteq> quote" "c \<noteq> backslash" by (auto simp: quote_def backslash_def)
  moreover have "json_char c = [c]" using 3 by (simp add: json_char_def Let_def)
  ultimately show ?thesis using 3 by simp
qed

lemma parse_json_chars: "parse_chars (concat (map json_char s) @ quote # r) = Some (s, r)"
  by (induction s) (simp_all add: parse_json_char)

section \<open>The parser\<close>

definition skip_ws :: "string \<Rightarrow> string" where
  "skip_ws = dropWhile (\<lambda>c. of_char c \<in> {9 :: nat, 10, 13, 32})"

text \<open>A number: sign, whole part without leading zeros, fraction, exponent.\<close>

definition parse_fraction :: "string \<Rightarrow> (rat \<times> string) option" where
  "parse_fraction s = (case s of
     c # r \<Rightarrow>
       if c = CHR ''.'' then
         (let ds = takeWhile is_digit r
          in if ds = [] then None
             else Some (of_int (read_digits ds) / 10 ^ length ds, dropWhile is_digit r))
       else Some (0, s)
   | [] \<Rightarrow> Some (0, s))"

definition parse_exponent :: "string \<Rightarrow> (rat \<times> string) option" where
  "parse_exponent s = (case s of
     c # r \<Rightarrow>
       if c = CHR ''e'' \<or> c = CHR ''E'' then
         (let neg = (r \<noteq> [] \<and> hd r = CHR ''-''); signed = (r \<noteq> [] \<and> (hd r = CHR ''-'' \<or> hd r = CHR ''+''));
              r' = (if signed then tl r else r); ds = takeWhile is_digit r'
          in if ds = [] then None
             else Some ((if neg then 1 / 10 ^ nat (read_digits ds) else 10 ^ nat (read_digits ds)),
                        dropWhile is_digit r'))
       else Some (1, s)
   | [] \<Rightarrow> Some (1, s))"

definition parse_number :: "string \<Rightarrow> (json \<times> string) option" where
  "parse_number s =
     (let neg = (s \<noteq> [] \<and> hd s = CHR ''-''); s1 = (if neg then tl s else s); ds = takeWhile is_digit s1
      in if ds = [] \<or> (hd ds = CHR ''0'' \<and> 1 < length ds) then None
         else case parse_fraction (dropWhile is_digit s1) of
           None \<Rightarrow> None
         | Some (f, s2) \<Rightarrow>
             (case parse_exponent s2 of
                None \<Rightarrow> None
              | Some (e, s3) \<Rightarrow>
                  let m = (of_int (read_digits ds) + f) * e
                  in Some (Num (to_double (if neg then - m else m)), s3)))"

definition parse_literal :: "string \<Rightarrow> (json \<times> string) option" where
  "parse_literal s =
     (if take 4 s = ''true'' then Some (Bool True, drop 4 s)
      else if take 5 s = ''false'' then Some (Bool False, drop 5 s)
      else if take 4 s = ''null'' then Some (Null, drop 4 s)
      else parse_number s)"

fun parse_value :: "nat \<Rightarrow> string \<Rightarrow> (json \<times> string) option"
  and parse_elements :: "nat \<Rightarrow> string \<Rightarrow> (json list \<times> string) option"
  and parse_members :: "nat \<Rightarrow> string \<Rightarrow> ((string \<times> json) list \<times> string) option" where
  "parse_value 0 s = None"
| "parse_value (Suc n) s =
     (case skip_ws s of
        [] \<Rightarrow> None
      | c # r \<Rightarrow>
          if c = quote then map_option (\<lambda>(x, r'). (Str x, r')) (parse_chars r)
          else if c = CHR ''{'' then
            (if take 1 (skip_ws r) = ''}'' then Some (Obj [], tl (skip_ws r))
             else map_option (\<lambda>(ms, r'). (Obj ms, r')) (parse_members n r))
          else if c = CHR ''['' then
            (if take 1 (skip_ws r) = '']'' then Some (Arr [], tl (skip_ws r))
             else map_option (\<lambda>(vs, r'). (Arr vs, r')) (parse_elements n r))
          else parse_literal (c # r))"
| "parse_elements 0 s = None"
| "parse_elements (Suc n) s =
     (case parse_value n s of
        None \<Rightarrow> None
      | Some (v, r) \<Rightarrow>
          if take 1 (skip_ws r) = '','' then map_option (\<lambda>(vs, r'). (v # vs, r')) (parse_elements n (tl (skip_ws r)))
          else if take 1 (skip_ws r) = '']'' then Some ([v], tl (skip_ws r))
          else None)"
| "parse_members 0 s = None"
| "parse_members (Suc n) s =
     (if take 1 (skip_ws s) \<noteq> [quote] then None
      else case parse_chars (tl (skip_ws s)) of
        None \<Rightarrow> None
      | Some (k, r) \<Rightarrow>
          if take 1 (skip_ws r) \<noteq> '':'' then None
          else case parse_value n (tl (skip_ws r)) of
            None \<Rightarrow> None
          | Some (v, r2) \<Rightarrow>
              if take 1 (skip_ws r2) = '','' then map_option (\<lambda>(ms, r'). ((k, v) # ms, r')) (parse_members n (tl (skip_ws r2)))
              else if take 1 (skip_ws r2) = ''}'' then Some ([(k, v)], tl (skip_ws r2))
              else None)"

definition json_parse :: "string \<Rightarrow> json option" where
  "json_parse s = (case parse_value (2 * length s + 1) s of
     Some (v, r) \<Rightarrow> if skip_ws r = [] then Some v else None
   | None \<Rightarrow> None)"

section \<open>The fuel is enough\<close>

lemma skip_ws_length: "length (skip_ws s) \<le> length s"
  unfolding skip_ws_def by (rule length_dropWhile_le)

lemma skip_ws_Cons: "skip_ws s = c # r \<Longrightarrow> length r < length s"
  using skip_ws_length [of s] by simp

lemma skip_ws_tl: "take 1 (skip_ws s) = [c] \<Longrightarrow> length (tl (skip_ws s)) < length s"
  using skip_ws_length [of s] by (cases "skip_ws s") auto

lemma tl_ws_length: "length (tl (skip_ws s)) \<le> length s"
  using skip_ws_length [of s] by (simp add: le_diff_conv)

lemma parse_chars_shrinks: "parse_chars s = Some (x, r) \<Longrightarrow> length r < length s"
proof (induction s arbitrary: x r rule: parse_chars.induct)
  case (2 c s)
  then show ?case
    by (fastforce split: if_splits list.splits option.splits)
qed simp

lemma parse_fraction_shrinks: "parse_fraction s = Some (x, r) \<Longrightarrow> length r \<le> length s"
  by (auto simp: parse_fraction_def Let_def le_SucI length_dropWhile_le split: list.splits if_splits)

lemma parse_exponent_shrinks: "parse_exponent s = Some (x, r) \<Longrightarrow> length r \<le> length s"
  by (auto simp: parse_exponent_def Let_def split: list.splits if_splits)
    (metis Suc_le_eq diff_Suc_1 le_SucI le_trans length_dropWhile_le length_tl diff_le_self)+

lemma parse_number_shrinks:
  assumes "parse_number s = Some (v, r)" shows "length r < length s"
proof -
  let ?s1 = "if s \<noteq> [] \<and> hd s = CHR ''-'' then tl s else s"
  from assms obtain f s2 e where digits: "takeWhile is_digit ?s1 \<noteq> []"
    and "parse_fraction (dropWhile is_digit ?s1) = Some (f, s2)" "parse_exponent s2 = Some (e, r)"
    by (auto simp: parse_number_def Let_def split: option.splits if_splits)
  then have "length r \<le> length (dropWhile is_digit ?s1)"
    by (meson parse_fraction_shrinks parse_exponent_shrinks le_trans)
  moreover have "length (dropWhile is_digit ?s1) < length ?s1"
    using digits by (metis length_append length_greater_0_conv less_add_same_cancel2 takeWhile_dropWhile_id)
  moreover have "length ?s1 \<le> length s" by simp
  ultimately show ?thesis by linarith
qed

lemma parse_literal_shrinks: "parse_literal s = Some (v, r) \<Longrightarrow> length r < length s"
  by (cases "s = []") (auto simp: parse_literal_def dest: parse_number_shrinks split: if_splits)

lemma parse_shrinks:
  "parse_value n s = Some (v, r) \<Longrightarrow> length r < length s"
  "parse_elements n s = Some (vs, r) \<Longrightarrow> length r < length s"
  "parse_members n s = Some (ms, r) \<Longrightarrow> length r < length s"
proof (induction n s and n s and n s arbitrary: v r and vs r and ms r
    rule: parse_value_parse_elements_parse_members.induct)
  case (2 n s)
  then show ?case
    by (auto split: list.splits if_splits dest!: skip_ws_Cons skip_ws_tl parse_chars_shrinks parse_literal_shrinks)
      (meson skip_ws_length le_less_trans less_imp_diff_less less_trans)+
next
  case (4 n s)
  then show ?case
    by (auto split: option.splits if_splits)
      (meson skip_ws_length le_less_trans less_imp_diff_less less_trans)+
next
  case (6 n s)
  from 6(3) obtain k r1 v r2 where
    parts: "take 1 (skip_ws s) = [quote]" "parse_chars (tl (skip_ws s)) = Some (k, r1)"
      "take 1 (skip_ws r1) = '':''" "parse_value n (tl (skip_ws r1)) = Some (v, r2)"
    and rest: "(\<exists>ms'. take 1 (skip_ws r2) = '','' \<and> parse_members n (tl (skip_ws r2)) = Some (ms', r))
        \<or> r = tl (skip_ws r2)"
    by (auto split: option.splits if_splits)
  have short: "length r2 < length s"
    using 6(1) [OF _ parts(2) refl _ parts(4)] parts(1,3) parse_chars_shrinks [OF parts(2)]
      tl_ws_length [of s] tl_ws_length [of r1] by simp
  from rest show ?case
  proof
    assume "\<exists>ms'. take 1 (skip_ws r2) = '','' \<and> parse_members n (tl (skip_ws r2)) = Some (ms', r)"
    then have "length r < length (tl (skip_ws r2))"
      using 6(2) [OF _ parts(2) refl _ parts(4) refl] parts(1,3) by auto
    then show ?thesis using tl_ws_length [of r2] short by linarith
  qed (use tl_ws_length [of r2] short in simp)
qed simp_all

text \<open>Above the bound, the fuel does not matter.\<close>

lemma parse_fuel:
  "2 * length s + 1 \<le> n \<Longrightarrow> n \<le> m \<Longrightarrow> parse_value n s = parse_value m s"
  "2 * length s + 2 \<le> n \<Longrightarrow> n \<le> m \<Longrightarrow> parse_elements n s = parse_elements m s"
  "2 * length s + 1 \<le> n \<Longrightarrow> n \<le> m \<Longrightarrow> parse_members n s = parse_members m s"
proof (induction n s and n s and n s arbitrary: m and m and m
    rule: parse_value_parse_elements_parse_members.induct)
  case (2 n s)
  then obtain m' where m: "m = Suc m'" "n \<le> m'" by (cases m) auto
  show ?case
  proof (cases "skip_ws s")
    case (Cons c r)
    have "2 * length r + 2 \<le> n" using skip_ws_Cons [OF Cons] 2(3) by simp
    then show ?thesis using 2(1,2) [OF Cons] m Cons by simp
  qed (simp add: m)
next
  case (4 n s)
  then obtain m' where m: "m = Suc m'" "n \<le> m'" by (cases m) auto
  have same: "parse_value n s = parse_value m' s" using 4 m by simp
  show ?case
  proof (cases "parse_value n s")
    case (Some p)
    then obtain v r where p: "p = (v, r)" by (cases p)
    have "2 * length (tl (skip_ws r)) + 2 \<le> n"
      using parse_shrinks(1) [of n s v r] Some p tl_ws_length [of r] 4(3) by simp
    then show ?thesis using 4(2) [OF Some p [symmetric], of m'] Some p m same by simp
  qed (simp add: m same [symmetric])
next
  case (6 n s)
  then obtain m' where m: "m = Suc m'" "n \<le> m'" by (cases m) auto
  show ?case
  proof (cases "take 1 (skip_ws s) = [quote]")
    case q: True
    show ?thesis
    proof (cases "parse_chars (tl (skip_ws s))")
      case (Some p)
      then obtain k r where p: "p = (k, r)" by (cases p)
      have r: "length r + 1 < length s"
        using parse_chars_shrinks [of "tl (skip_ws s)" k r] Some p skip_ws_tl [OF q] by simp
      have val: "parse_value n (tl (skip_ws r)) = parse_value m' (tl (skip_ws r))" if "take 1 (skip_ws r) = '':''"
        using 6(1) [OF _ Some p [symmetric], of m'] q that m r skip_ws_tl [OF that] 6(3) by simp
      have mem: "parse_members n (tl (skip_ws r2)) = parse_members m' (tl (skip_ws r2))"
        if "take 1 (skip_ws r) = '':''" "parse_value n (tl (skip_ws r)) = Some (v, r2)" "take 1 (skip_ws r2) = '',''" for v r2
        using 6(2) [OF _ Some p [symmetric] _ that(2) refl, of m'] q that(1,3) m r skip_ws_tl [OF that(1)]
          parse_shrinks(1) [OF that(2)] tl_ws_length [of r2] 6(3) by simp
      show ?thesis
      proof (cases "take 1 (skip_ws r) = '':''")
        case colon: True
        show ?thesis using q Some p m colon val [OF colon] mem [OF colon]
          by (auto split: option.splits)
      qed (use q Some p m in simp)
    qed (use q m in simp)
  qed (use m in simp)
qed simp_all

lemma json_fuel_enough: "2 * length s + 1 \<le> n \<Longrightarrow> parse_value n s = parse_value (2 * length s + 1) s"
  using parse_fuel(1) [of s "2 * length s + 1" n] by simp

end
