(* ===== verification/Base64.thy ===== *)
theory Base64
  imports Json
begin

text \<open>
  \<open>Buffer.from(s).toString('base64')\<close> and \<open>Buffer.from(s, 'base64').toString('utf8')\<close>: groups of
  three bytes are four digits of six bits, with padding. The decoder skips characters outside
  the alphabet, takes the URL-safe digits too and ends at the padding.
\<close>

definition b64_char :: "nat \<Rightarrow> char" where
  "b64_char n = (if n < 26 then char_of (65 + n) else if n < 52 then char_of (71 + n)
     else if n < 62 then char_of (n - 4) else if n = 62 then CHR ''+'' else CHR ''/'')"

definition b64_value :: "char \<Rightarrow> nat option" where
  "b64_value c = (let n = (of_char c :: nat) in
     if 65 \<le> n \<and> n \<le> 90 then Some (n - 65)
     else if 97 \<le> n \<and> n \<le> 122 then Some (n - 71)
     else if 48 \<le> n \<and> n \<le> 57 then Some (n + 4)
     else if c = CHR ''+'' \<or> c = CHR ''-'' then Some 62
     else if c = CHR ''/'' \<or> c = CHR ''_'' then Some 63
     else None)"

fun to_sextets :: "nat list \<Rightarrow> nat list" where
  "to_sextets [] = []"
| "to_sextets [a] = [a div 4, a mod 4 * 16]"
| "to_sextets [a, b] = [a div 4, a mod 4 * 16 + b div 16, b mod 16 * 4]"
| "to_sextets (a # b # c # r) =
     a div 4 # (a mod 4 * 16 + b div 16) # (b mod 16 * 4 + c div 64) # c mod 64 # to_sextets r"

fun from_sextets :: "nat list \<Rightarrow> nat list" where
  "from_sextets (a # b # c # d # r) =
     (a * 4 + b div 16) # (b mod 16 * 16 + c div 4) # (c mod 4 * 64 + d) # from_sextets r"
| "from_sextets [a, b, c] = [a * 4 + b div 16, b mod 16 * 16 + c div 4]"
| "from_sextets [a, b] = [a * 4 + b div 16]"
| "from_sextets [a] = []"
| "from_sextets [] = []"

definition padding :: "nat \<Rightarrow> string" where
  "padding n = replicate ((3 - n mod 3) mod 3) (CHR ''='')"

definition base64_encode :: "string \<Rightarrow> string" where
  "base64_encode s = map b64_char (to_sextets (map of_char s)) @ padding (length s)"

definition base64_decode :: "string \<Rightarrow> string" where
  "base64_decode s = map char_of (from_sextets (List.map_filter b64_value (takeWhile (\<lambda>c. c \<noteq> CHR ''='') s)))"

lemma b64_char_facts [simp]:
  assumes "n < 64"
  shows "b64_value (b64_char n) = Some n" "b64_char n \<noteq> CHR ''=''" "b64_char n \<noteq> CHR ''.''"
  using assms by (auto simp: b64_char_def b64_value_def of_char_of Let_def
      dest!: arg_cong [where f = "of_char :: char \<Rightarrow> nat"])

lemma to_sextets_bound: "(\<And>x. x \<in> set xs \<Longrightarrow> x < 256) \<Longrightarrow> y \<in> set (to_sextets xs) \<Longrightarrow> y < 64"
proof (induction xs rule: to_sextets.induct)
  case (4 a b c r)
  then have "a < 256" "b < 256" "c < 256" by auto
  moreover have "a mod 4 \<le> 3" "b mod 16 \<le> 15" by presburger+
  ultimately have "a div 4 < 64" "a mod 4 * 16 + b div 16 < 64" "b mod 16 * 4 + c div 64 < 64" by linarith+
  with 4 show ?case by auto
next
  case (3 a b)
  then have "a < 256" "b < 256" by auto
  moreover have "a mod 4 \<le> 3" "b mod 16 \<le> 15" by presburger+
  ultimately show ?case using 3(2) by auto
next
  case (2 a)
  then have "a < 256" by auto
  moreover have "a mod 4 \<le> 3" by presburger
  ultimately show ?case using 2(2) by auto
qed simp

lemma sextet_arith:
  fixes a b c :: nat
  assumes "b < 256" "c < 256"
  shows "a div 4 * 4 + (a mod 4 * 16 + b div 16) div 16 = a"
    and "(a mod 4 * 16 + b div 16) mod 16 * 16 + (b mod 16 * 4 + c div 64) div 4 = b"
    and "(b mod 16 * 4 + c div 64) mod 4 * 64 + c mod 64 = c"
proof -
  have small: "b div 16 < 16" "c div 64 < 4" using assms by auto
  then have "(a mod 4 * 16 + b div 16) div 16 = a mod 4" "(a mod 4 * 16 + b div 16) mod 16 = b div 16"
    "(b mod 16 * 4 + c div 64) div 4 = b mod 16" "(b mod 16 * 4 + c div 64) mod 4 = c div 64"
    by simp_all
  then show "a div 4 * 4 + (a mod 4 * 16 + b div 16) div 16 = a"
    "(a mod 4 * 16 + b div 16) mod 16 * 16 + (b mod 16 * 4 + c div 64) div 4 = b"
    "(b mod 16 * 4 + c div 64) mod 4 * 64 + c mod 64 = c"
    by simp_all
qed

lemma from_to_sextets: "(\<And>x. x \<in> set xs \<Longrightarrow> x < 256) \<Longrightarrow> from_sextets (to_sextets xs) = xs"
proof (induction xs rule: to_sextets.induct)
  case (4 a b c r)
  then have "b < 256" "c < 256" by auto
  with 4 show ?case using sextet_arith(1,2) [of b c a] sextet_arith(3) [of b c] by simp
next
  case (3 a b)
  then show ?case using sextet_arith(1,2) [of b 0 a] by simp
next
  case (2 a)
  then show ?case using sextet_arith(1) [of 0 0 a] by simp
qed simp

lemma map_filter_b64: "(\<And>n. n \<in> set ns \<Longrightarrow> n < 64) \<Longrightarrow> List.map_filter b64_value (map b64_char ns) = ns"
  by (induction ns) (simp_all add: List.map_filter_simps)

lemma takeWhile_padding:
  "(\<And>c. c \<in> set ds \<Longrightarrow> c \<noteq> CHR ''='') \<Longrightarrow> takeWhile (\<lambda>c. c \<noteq> CHR ''='') (ds @ padding k) = ds"
  by (cases "(3 - k mod 3) mod 3") (simp_all add: takeWhile_append padding_def takeWhile_eq_all_conv [THEN iffD2])

lemma base64_roundtrip: "base64_decode (base64_encode s) = s"
proof -
  let ?bytes = "map of_char s :: nat list"
  have bytes: "x < 256" if "x \<in> set ?bytes" for x
    using that by (auto simp: nat_of_char_less_256)
  note bound = to_sextets_bound [of ?bytes, OF bytes]
  have "takeWhile (\<lambda>c. c \<noteq> CHR ''='') (base64_encode s) = map b64_char (to_sextets ?bytes)"
    unfolding base64_encode_def by (rule takeWhile_padding) (use bound in auto)
  moreover have "from_sextets (to_sextets ?bytes) = ?bytes" by (rule from_to_sextets) (use bytes in simp)
  ultimately show ?thesis
    using map_filter_b64 [of "to_sextets ?bytes", OF bound] by (simp add: base64_decode_def comp_def)
qed

lemma base64_no_dot: "CHR ''.'' \<notin> set (base64_encode s)"
proof -
  have "CHR ''.'' \<noteq> b64_char n" if "n \<in> set (to_sextets (map of_char s))" for n
  proof -
    have "n < 64" by (rule to_sextets_bound [OF _ that]) (auto simp: nat_of_char_less_256)
    then show ?thesis by (metis b64_char_facts(3))
  qed
  then show ?thesis by (auto simp: base64_encode_def padding_def)
qed

end
