(* ===== verification/QrTokens.thy ===== *)
theory QrTokens
  imports Base64
begin

text \<open>
  \<open>backend/src/tickets/qr.util.ts\<close>: the signed token of a ticket, \<open>v1.payload.signature\<close>. The
  HMAC and SHA-256 digests (as hex text) are parameters. The payload that a validation returns
  holds the members of the parsed object as they are, whatever their types.
\<close>

record qr_payload =
  qp_t :: string
  qp_s :: string
  qp_exp :: int

record parsed_payload =
  vp_t :: json
  vp_s :: json
  vp_exp :: json

definition stringify_payload :: "qr_payload \<Rightarrow> string" where
  "stringify_payload p = json_object
     [(''t'', json_string (qp_t p)), (''s'', json_string (qp_s p)), (''exp'', show_int (qp_exp p))]"

definition generateSignedToken :: "(string \<Rightarrow> string \<Rightarrow> string) \<Rightarrow> qr_payload \<Rightarrow> string \<Rightarrow> string" where
  "generateSignedToken hmac payload secret =
     (let base64Payload = base64_encode (stringify_payload payload)
      in ''v1.'' @ base64Payload @ ''.'' @ hmac secret base64Payload)"

definition hashToken :: "(string \<Rightarrow> string) \<Rightarrow> string \<Rightarrow> string" where
  "hashToken sha rawToken = sha rawToken"

text \<open>The comparison of buffers of equal length is equality; a payload that does not parse or lacks
  a truthy member is invalid.\<close>

definition validateToken :: "(string \<Rightarrow> string \<Rightarrow> string) \<Rightarrow> string \<Rightarrow> string \<Rightarrow> parsed_payload option" where
  "validateToken hmac token secret =
     (if token = [] then None
      else case split_on (CHR ''.'') token of
        [version, base64Payload, incomingSignature] \<Rightarrow>
          (if version \<noteq> ''v1'' then None
           else if hmac secret base64Payload \<noteq> incomingSignature then None
           else case json_parse (base64_decode base64Payload) of
             None \<Rightarrow> None
           | Some v \<Rightarrow>
               if \<not> json_truthy (json_get ''t'' v) \<or> \<not> json_truthy (json_get ''s'' v) \<or> \<not> json_truthy (json_get ''exp'' v)
               then None
               else Some \<lparr>vp_t = json_get ''t'' v, vp_s = json_get ''s'' v, vp_exp = json_get ''exp'' v\<rparr>)
      | _ \<Rightarrow> None)"

section \<open>Printed values parse back\<close>

text \<open>A text prints a value when the parser reads it back before a comma or a closing brace.\<close>

definition prints :: "string \<Rightarrow> json \<Rightarrow> bool" where
  "prints v j \<longleftrightarrow> (\<forall>n c r. c = CHR '','' \<or> c = CHR ''}'' \<longrightarrow> parse_value (Suc n) (v @ c # r) = Some (j, c # r))"

lemma skip_ws_quote [simp]: "skip_ws (quote # r) = quote # r"
  by (simp add: skip_ws_def quote_def)

lemma skip_ws_marks [simp]:
  "skip_ws (CHR '','' # r) = CHR '','' # r" "skip_ws (CHR ''}'' # r) = CHR ''}'' # r"
  "skip_ws (CHR '':'' # r) = CHR '':'' # r" "skip_ws (CHR ''{'' # r) = CHR ''{'' # r" "skip_ws [] = []"
  by (simp_all add: skip_ws_def)

lemma quote_marks [simp]: "CHR ''{'' \<noteq> quote" "CHR ''['' \<noteq> quote" "quote \<noteq> CHR ''}''"
  by code_simp+

lemma prints_string: "prints (json_string s) (Str s)"
  by (simp add: prints_def json_string_def parse_json_chars)

lemma digits_span:
  assumes "\<And>c. c \<in> set ds \<Longrightarrow> is_digit c" and "\<not> is_digit x"
  shows "takeWhile is_digit (ds @ x # r) = ds" "dropWhile is_digit (ds @ x # r) = x # r"
  using assms by (induction ds) auto

lemma not_digits [simp]: "\<not> is_digit CHR '',''" "\<not> is_digit CHR ''}''" "\<not> is_digit CHR ''-''" "\<not> is_digit quote"
    "\<not> is_digit CHR ''{''" "\<not> is_digit CHR ''[''" "\<not> is_digit CHR ''t''" "\<not> is_digit CHR ''f''" "\<not> is_digit CHR ''n''"
  by code_simp+

lemma digit_not_ws: "is_digit c \<Longrightarrow> skip_ws (c # r) = c # r"
  by (auto simp: skip_ws_def is_digit_def)

lemma show_digits_no_zero:
  assumes "0 \<le> n" shows "length (show_digits n) = 1 \<or> hd (show_digits n) \<noteq> CHR ''0''"
  using assms
proof (induction n rule: show_digits.induct)
  case (1 n)
  show ?case
  proof (cases "n < 10")
    case True
    then show ?thesis by (simp add: show_digits.simps [of n])
  next
    case False
    have zero: "digit_char d = CHR ''0'' \<Longrightarrow> d < 10 \<Longrightarrow> d = 0" for d
      using char_digit_char [of d] by (simp add: char_digit_def)
    have "hd (show_digits (n div 10)) \<noteq> CHR ''0''"
    proof (cases "n div 10 < 10")
      case True
      moreover have "1 \<le> n div 10" "nat (n div 10) < 10" using False True by linarith+
      ultimately show ?thesis using zero [of "nat (n div 10)"] by (auto simp: show_digits.simps [of "n div 10"])
    next
      case big: False
      then have "length (show_digits (n div 10)) \<noteq> 1"
        by (simp add: show_digits.simps [of "n div 10"])
      then show ?thesis using 1(1) [OF False] 1(2) by simp
    qed
    then show ?thesis using False by (simp add: show_digits.simps [of n])
  qed
qed

lemma prints_number:
  assumes "0 \<le> i" "i < 2 ^ 53"
  shows "prints (show_int i) (Num (of_int i))"
proof (unfold prints_def, intro allI impI)
  fix n c and r :: string
  assume c: "c = CHR '','' \<or> c = CHR ''}''"
  let ?ds = "show_digits i"
  have digits: "is_digit d" if "d \<in> set ?ds" for d using show_digits_digits assms(1) that by blast
  have "\<not> is_digit c" using c by auto
  note span = digits_span [OF digits this, where r = r]
  obtain d ds where d: "?ds = d # ds" by (cases ?ds) simp_all
  then have "is_digit d" using digits by simp
  then have first: "d \<noteq> quote" "d \<noteq> CHR ''{''" "d \<noteq> CHR ''[''" "d \<noteq> CHR ''-''" "d \<noteq> CHR ''t''" "d \<noteq> CHR ''f''" "d \<noteq> CHR ''n''"
    using not_digits by metis+
  have "parse_number (?ds @ c # r) = Some (Num (of_int i), c # r)"
  proof -
    have "hd ?ds \<noteq> CHR ''-''" "hd ?ds \<noteq> CHR ''0'' \<or> length ?ds = 1"
      using first(4) show_digits_no_zero [OF assms(1)] by (auto simp: d)
    moreover have "to_double (of_int i) = (of_int i :: rat)" by (rule to_double_int) (use assms in simp)
    moreover have "parse_fraction (c # r) = Some (0, c # r)" "parse_exponent (c # r) = Some (1, c # r)"
      using c by (auto simp: parse_fraction_def parse_exponent_def)
    ultimately show ?thesis
      using assms(1) by (auto simp: parse_number_def span Let_def)
  qed
  then have "parse_literal (?ds @ c # r) = Some (Num (of_int i), c # r)"
    using first by (simp add: parse_literal_def d)
  then show "parse_value (Suc n) (show_int i @ c # r) = Some (Num (of_int i), c # r)"
    using assms(1) first \<open>is_digit d\<close> by (simp add: show_int_def d digit_not_ws)
qed

lemma take_quote [simp]: "take (Suc 0) (quote # r) = [quote]"
  by simp

lemma parse_printed_members:
  assumes "list_all2 (\<lambda>(k, v) (k', j). k' = k \<and> prints v j) ms js" and "ms \<noteq> []" and "length ms < n"
  shows "parse_members n (json_members ms @ CHR ''}'' # r) = Some (js, r)"
  using assms
proof (induction ms arbitrary: js n rule: json_members.induct)
  case (2 k v)
  then obtain j where j: "js = [(k, j)]" "prints v j" by (auto simp: list_all2_Cons1)
  obtain m where n: "n = Suc (Suc m)" using 2(3) by (cases n; cases "n - 1") auto
  have "parse_value (Suc m) (v @ CHR ''}'' # r) = Some (j, CHR ''}'' # r)"
    using j(2) by (simp add: prints_def)
  moreover have "parse_chars (tl (json_string k) @ CHR '':'' # v @ CHR ''}'' # r) = Some (k, CHR '':'' # v @ CHR ''}'' # r)"
    by (simp add: json_string_def parse_json_chars)
  ultimately show ?case by (simp add: n j(1) json_string_def)
next
  case (3 k v m' ms)
  then obtain j js' where j: "js = (k, j) # js'" "prints v j"
    "list_all2 (\<lambda>(k, v) (k', j). k' = k \<and> prints v j) (m' # ms) js'"
    by (auto simp: list_all2_Cons1)
  obtain m where n: "n = Suc (Suc m)" using 3(4) by (cases n; cases "n - 1") auto
  let ?rest = "json_members (m' # ms) @ CHR ''}'' # r"
  have "parse_value (Suc m) (v @ CHR '','' # ?rest) = Some (j, CHR '','' # ?rest)"
    using j(2) by (simp add: prints_def)
  moreover have "parse_chars (tl (json_string k) @ CHR '':'' # v @ CHR '','' # ?rest) = Some (k, CHR '':'' # v @ CHR '','' # ?rest)"
    by (simp add: json_string_def parse_json_chars)
  moreover have "parse_members (Suc m) ?rest = Some (js', r)"
    by (rule 3(1) [OF j(3)]) (use 3(4) n in auto)
  ultimately show ?case by (simp add: n j(1) json_string_def)
qed simp

lemma json_object_roundtrip:
  assumes "list_all2 (\<lambda>(k, v) (k', j). k' = k \<and> prints v j) ms js" and "ms \<noteq> []"
  shows "json_parse (json_object ms) = Some (Obj js)"
proof -
  let ?s = "json_object ms"
  obtain k v ms' where ms: "ms = (k, v) # ms'" using assms(2) by (cases ms) auto
  have "\<exists>x. json_members ms = quote # x"
    by (cases ms') (auto simp: ms json_string_def)
  then obtain x where x: "json_members ms = quote # x" by blast
  have "length ms < 2 * length ?s"
  proof -
    have "length ms \<le> length (json_members ms)"
      by (induction ms rule: json_members.induct) (auto simp: json_string_def)
    then show ?thesis by (simp add: json_object_def)
  qed
  then have members: "parse_members (2 * length ?s) (json_members ms @ CHR ''}'' # []) = Some (js, [])"
    using assms by (intro parse_printed_members) auto
  have "parse_value (Suc m) ?s = map_option (\<lambda>(ms, r'). (Obj ms, r')) (parse_members m (json_members ms @ ''}''))" for m
    by (simp add: json_object_def x del: parse_members.simps)
  then have "parse_value (2 * length ?s + 1) ?s = Some (Obj js, [])" using members by simp
  then show ?thesis by (simp add: json_parse_def del: parse_value.simps)
qed

lemma payload_roundtrip:
  assumes "0 \<le> qp_exp p" "qp_exp p < 2 ^ 53"
  shows "json_parse (stringify_payload p) = Some (Obj
    [(''t'', Str (qp_t p)), (''s'', Str (qp_s p)), (''exp'', Num (of_int (qp_exp p)))])"
  unfolding stringify_payload_def
  by (rule json_object_roundtrip) (simp_all add: prints_string prints_number [OF assms])

section \<open>The token\<close>

lemma split_token:
  assumes "CHR ''.'' \<notin> set b" and "CHR ''.'' \<notin> set g"
  shows "split_on (CHR ''.'') (''v1.'' @ b @ ''.'' @ g) = [''v1'', b, g]"
  using split_on_join [of "CHR ''.''" "''v1''" "b @ CHR ''.'' # g"] split_on_join [OF assms(1), of g] split_on_none [OF assms(2)]
  by simp

lemma validate_signed:
  assumes "\<And>k m. CHR ''.'' \<notin> set (hmac k m)" and "qp_t p \<noteq> []" and "qp_s p \<noteq> []"
    and "0 < qp_exp p" and "qp_exp p < 2 ^ 53"
  shows "validateToken hmac (generateSignedToken hmac p secret) secret =
    Some \<lparr>vp_t = Str (qp_t p), vp_s = Str (qp_s p), vp_exp = Num (of_int (qp_exp p))\<rparr>"
proof -
  let ?b = "base64_encode (stringify_payload p)"
  have token: "generateSignedToken hmac p secret = ''v1.'' @ ?b @ ''.'' @ hmac secret ?b"
    by (simp add: generateSignedToken_def Let_def)
  have split: "split_on (CHR ''.'') (generateSignedToken hmac p secret) = [''v1'', ?b, hmac secret ?b]"
    unfolding token by (rule split_token [OF base64_no_dot assms(1)])
  have "json_parse (base64_decode ?b) = Some (Obj
      [(''t'', Str (qp_t p)), (''s'', Str (qp_s p)), (''exp'', Num (of_int (qp_exp p)))])"
    unfolding base64_roundtrip by (rule payload_roundtrip) (use assms in simp_all)
  then show ?thesis
    using assms(2-4) unfolding validateToken_def split by (simp add: token json_get_def)
qed

text \<open>C23. A ticket's token is read back. For a digest printed without dots (hex), a payload with a
  ticket, a show and a positive expiry below the exact range of doubles is what validating its
  signed token with the same secret returns; the token hides neither through JSON escapes nor
  through base64 padding.\<close>

theorem signed_token_roundtrip:
  assumes "\<And>k m. CHR ''.'' \<notin> set (hmac k m)" and "qp_t p \<noteq> []" and "qp_s p \<noteq> []"
    and "0 < qp_exp p" and "qp_exp p < 2 ^ 53"
  shows "validateToken hmac (generateSignedToken hmac p secret) secret =
    Some \<lparr>vp_t = Str (qp_t p), vp_s = Str (qp_s p), vp_exp = Num (of_int (qp_exp p))\<rparr>"
  by (rule validate_signed [OF assms])

definition demo_hmac :: "string \<Rightarrow> string \<Rightarrow> string" where
  "demo_hmac k m = show_nat (length k) @ ''f'' @ show_nat (length m)"

lemma demo_hmac_no_dot: "CHR ''.'' \<notin> set (demo_hmac k m)"
proof -
  have "\<not> is_digit CHR ''.''" by code_simp
  then show ?thesis
    using show_digits_digits [of "int (length k)" "CHR ''.''"] show_digits_digits [of "int (length m)" "CHR ''.''"]
    by (auto simp: demo_hmac_def show_nat_def)
qed

theorem signed_token_roundtrip_witness:
  "validateToken demo_hmac
     (generateSignedToken demo_hmac \<lparr>qp_t = ''t-1'', qp_s = ''s-1'', qp_exp = 1800000000\<rparr> ''key'') ''key'' =
   Some \<lparr>vp_t = Str ''t-1'', vp_s = Str ''s-1'', vp_exp = Num 1800000000\<rparr>"
  using signed_token_roundtrip [where hmac = demo_hmac and secret = "''key''"
      and p = "\<lparr>qp_t = ''t-1'', qp_s = ''s-1'', qp_exp = 1800000000\<rparr>", OF demo_hmac_no_dot]
  by simp

text \<open>Only what is signed under the secret validates.\<close>

lemma join_split: "split_on d s = ps \<Longrightarrow> s = concat (map (\<lambda>p. p @ [d]) (butlast ps)) @ last ps"
proof (induction s arbitrary: ps)
  case (Cons c s)
  show ?case
  proof (cases "c = d")
    case True
    then show ?thesis using Cons by auto
  next
    case False
    obtain p qs where p: "split_on d s = p # qs" by (cases "split_on d s") simp_all
    then show ?thesis using Cons.IH [OF p] Cons.prems False by (cases qs) auto
  qed
qed simp

lemma valid_token_signed:
  assumes "validateToken hmac token secret = Some v"
  shows "\<exists>b. token = ''v1.'' @ b @ ''.'' @ hmac secret b"
proof -
  from assms obtain b where "split_on (CHR ''.'') token = [''v1'', b, hmac secret b]"
    by (auto simp: validateToken_def split: if_splits list.splits)
  from join_split [OF this] show ?thesis by auto
qed

end
