(* ===== verification/Tickets.thy ===== *)
theory Tickets
  imports QrTokens PaymentStore "HOL-Library.Char_ord" "HOL-Library.List_Lexorder"
begin

text \<open>
  \<open>backend/src/tickets/tickets.service.ts\<close>: tickets are generated for the seats of a confirmed
  booking and scanned at the gate. Parameters: the digests, the secret of the environment and
  the random ids, of which the \<open>n\<close>-th belongs to a table of \<open>n\<close> tickets. A scan is split where
  another request can run: the verdict reads the tables, the update of the ticket comes later.
  An expiry of a token that is not a number compares as NaN; only the holder of the secret can
  sign one.
\<close>

datatype ticket_status = Tk_ACTIVE | Tk_USED | Tk_OTHER string

datatype scan_status = SUCCESS | ALREADY_USED | INVALID | Scan_EXPIRED | WRONG_TENANT | NOT_OPEN_YET

datatype scan_source = STAFF | DEVICE

record ticket_row =
  tk_id :: string
  tk_bookingId :: string
  tk_showId :: string
  tk_seatNumber :: string
  tk_qrHash :: string
  tk_status :: ticket_status
  tk_scannedAt :: "int option"
  tk_scannedBy :: "string option"
  tk_tenantId :: string

text \<open>The results of a scan log: those of a scan at the gate and those of an offline scan.\<close>

datatype logged_result = Gate scan_status | Offline_SUCCESS | Offline_CONFLICT_ALREADY_USED | Offline_INVALID

record scan_log_row =
  tl_ticketId :: string
  tl_scannedBy :: string
  tl_deviceId :: "string option"
  tl_scanSource :: scan_source
  tl_result :: logged_result
  tl_tenantId :: string
  tl_createdAt :: int

record device_row =
  dv_id :: string
  dv_name :: string
  dv_deviceKey :: string
  dv_isActive :: bool
  dv_tenantId :: string
  dv_lastSeenAt :: "int option"

record offline_row =
  oq_ticketId :: string
  oq_deviceId :: string
  oq_scannedAt :: int
  oq_synced :: bool
  oq_result :: logged_result
  oq_tenantId :: string

text \<open>A booked seat with the row and the number of its seat.\<close>

record seat_place =
  sp_bookingId :: string
  sp_row :: string
  sp_number :: int
  sp_status :: "booking_status option"

record ticket_store =
  ts_tickets :: "ticket_row list"
  ts_scanLogs :: "scan_log_row list"
  ts_devices :: "device_row list"
  ts_offline :: "offline_row list"
  ts_places :: "seat_place list"
  ts_shows :: "show_row list"

record ticket_env =
  te_hmac :: "string \<Rightarrow> string \<Rightarrow> string"
  te_sha :: "string \<Rightarrow> string"
  te_secret :: "string option"
  te_newId :: "nat \<Rightarrow> string"

definition qr_secret :: "ticket_env \<Rightarrow> string" where
  "qr_secret env = or_str (te_secret env) ''dev_secret_unsecure_override''"

section \<open>Generating tickets\<close>

definition seat_name :: "seat_place \<Rightarrow> string" where
  "seat_name p = sp_row p @ show_int (sp_number p)"

definition ticket_expiry :: "show_row \<Rightarrow> int" where
  "ticket_expiry w = (sw_startTime w + 30 * 60 * 1000) div 1000"

definition ticket_token :: "ticket_env \<Rightarrow> string \<Rightarrow> string \<Rightarrow> int \<Rightarrow> string" where
  "ticket_token env i showId expiry =
     generateSignedToken (te_hmac env) \<lparr>qp_t = i, qp_s = showId, qp_exp = expiry\<rparr> (qr_secret env)"

definition new_ticket :: "ticket_env \<Rightarrow> string \<Rightarrow> string \<Rightarrow> string \<Rightarrow> int \<Rightarrow> string \<Rightarrow> string \<Rightarrow> ticket_row" where
  "new_ticket env bookingId showId tenantId expiry seat i =
     \<lparr>tk_id = i, tk_bookingId = bookingId, tk_showId = showId, tk_seatNumber = seat,
      tk_qrHash = hashToken (te_sha env) (ticket_token env i showId expiry), tk_status = Tk_ACTIVE,
      tk_scannedAt = None, tk_scannedBy = None, tk_tenantId = tenantId\<rparr>"

text \<open>\<open>ticket.create\<close>: the id and the hash are unique columns.\<close>

definition insert_ticket :: "ticket_row \<Rightarrow> ticket_row list \<Rightarrow> ticket_row list outcome" where
  "insert_ticket t ts =
     (if list_ex (\<lambda>r. tk_id r = tk_id t \<or> tk_qrHash r = tk_qrHash t) ts
      then Inl (Internal ''Unique constraint failed'') else Inr (ts @ [t]))"

fun make_tickets ::
  "ticket_env \<Rightarrow> string \<Rightarrow> string \<Rightarrow> string \<Rightarrow> int \<Rightarrow> seat_place list \<Rightarrow> ticket_row list \<Rightarrow>
   (ticket_row list \<times> ticket_row list \<times> string list) outcome" where
  "make_tickets env bookingId showId tenantId expiry [] ts = Inr (ts, [], [])"
| "make_tickets env bookingId showId tenantId expiry (p # ps) ts =
     (if list_ex (\<lambda>r. tk_bookingId r = bookingId \<and> tk_seatNumber r = seat_name p) ts
      then make_tickets env bookingId showId tenantId expiry ps ts
      else
        let i = te_newId env (length ts);
            t = new_ticket env bookingId showId tenantId expiry (seat_name p) i
        in case insert_ticket t ts of
             Inl e \<Rightarrow> Inl e
           | Inr ts' \<Rightarrow>
               (case make_tickets env bookingId showId tenantId expiry ps ts' of
                  Inl e \<Rightarrow> Inl e
                | Inr (ts'', made, tokens) \<Rightarrow> Inr (ts'', t # made, ticket_token env i showId expiry # tokens)))"

record generated =
  ge_tickets :: "ticket_row list"
  ge_tokens :: "string list"

definition generateTicketsForBooking ::
  "ticket_env \<Rightarrow> string \<Rightarrow> string \<Rightarrow> string \<Rightarrow> ticket_store \<Rightarrow> ticket_store \<times> generated outcome" where
  "generateTicketsForBooking env bookingId showId tenantId s =
     (let bookingSeats = filter (\<lambda>p. sp_bookingId p = bookingId \<and> sp_status p = Some CONFIRMED) (ts_places s)
      in case find (\<lambda>w. sw_id w = showId) (ts_shows s) of
           None \<Rightarrow> (s, Inl (Internal (''Show not found for generation: '' @ showId)))
         | Some w \<Rightarrow>
             (case make_tickets env bookingId showId tenantId (ticket_expiry w) bookingSeats (ts_tickets s) of
                Inl e \<Rightarrow> (s, Inl e)
              | Inr (ts', made, tokens) \<Rightarrow> (s\<lparr>ts_tickets := ts'\<rparr>, Inr \<lparr>ge_tickets = made, ge_tokens = tokens\<rparr>)))"

section \<open>Scanning\<close>

text \<open>What a scan has found out: the payload's ticket, the seat and the payload's show.\<close>

record scan_ctx =
  sx_ticketId :: "json option"
  sx_seat :: "string option"
  sx_showId :: "json option"

record scan_reply =
  sr_status :: scan_status
  sr_seat :: "string option"
  sr_showId :: "json option"
  sr_scannedAt :: int

record scan_request =
  sq_qrToken :: string
  sq_userId :: string
  sq_tenantId :: string
  sq_deviceId :: "string option"
  sq_source :: scan_source

definition no_ctx :: scan_ctx where
  "no_ctx = \<lparr>sx_ticketId = None, sx_seat = None, sx_showId = None\<rparr>"

text \<open>Every outcome is logged; a ticket id that is not a string makes the insertion fail.\<close>

definition finalizeScan ::
  "int \<Rightarrow> scan_request \<Rightarrow> scan_status \<Rightarrow> scan_ctx \<Rightarrow> ticket_store \<Rightarrow> ticket_store \<times> scan_reply outcome" where
  "finalizeScan now q status ctx s =
     (let row = (\<lambda>i. \<lparr>tl_ticketId = i, tl_scannedBy = sq_userId q, tl_deviceId = sq_deviceId q,
              tl_scanSource = sq_source q, tl_result = Gate status, tl_tenantId = sq_tenantId q, tl_createdAt = now\<rparr>);
          logged = (\<lambda>i. (s\<lparr>ts_scanLogs := ts_scanLogs s @ [row i]\<rparr>,
              Inr \<lparr>sr_status = status, sr_seat = sx_seat ctx, sr_showId = sx_showId ctx, sr_scannedAt = now\<rparr>))
      in case sx_ticketId ctx of
           None \<Rightarrow> logged ''UNKNOWN_OR_TAMPERED''
         | Some (Str i) \<Rightarrow> logged (if i = [] then ''UNKNOWN_OR_TAMPERED'' else i)
         | Some _ \<Rightarrow> (s, Inl (Internal ''Invalid value for argument ticketId'')))"

definition touch_device :: "int \<Rightarrow> string \<Rightarrow> ticket_store \<Rightarrow> ticket_store" where
  "touch_device now i s = s\<lparr>ts_devices := update_where (\<lambda>d. dv_id d = i) (\<lambda>d. d\<lparr>dv_lastSeenAt := Some now\<rparr>) (ts_devices s)\<rparr>"

definition active_device :: "string \<Rightarrow> string \<Rightarrow> ticket_store \<Rightarrow> device_row option" where
  "active_device i tenantId s = find (\<lambda>d. dv_id d = i \<and> dv_tenantId d = tenantId \<and> dv_isActive d) (ts_devices s)"

text \<open>Step 0; \<open>None\<close> when the device is unknown, inactive or another tenant's.\<close>

definition check_device :: "int \<Rightarrow> scan_request \<Rightarrow> ticket_store \<Rightarrow> ticket_store option" where
  "check_device now q s =
     (if sq_source q = DEVICE \<and> truthy (sq_deviceId q) then
        (case active_device (the (sq_deviceId q)) (sq_tenantId q) s of
           None \<Rightarrow> None
         | Some d \<Rightarrow> Some (touch_device now (the (sq_deviceId q)) s))
      else Some s)"

definition after_number :: "int \<Rightarrow> json \<Rightarrow> bool" where
  "after_number n v = (case v of Num r \<Rightarrow> r < of_int n | _ \<Rightarrow> False)"

text \<open>Steps 6 and 7: the window of the show and the ticket's status; \<open>None\<close> lets it through.\<close>

definition window_verdict :: "int \<Rightarrow> ticket_row \<Rightarrow> ticket_store \<Rightarrow> scan_status option" where
  "window_verdict now ticket s =
     (case find (\<lambda>w. sw_id w = tk_showId ticket) (ts_shows s) of
        None \<Rightarrow> None
      | Some w \<Rightarrow>
          if sw_startTime w + 30 * 60 * 1000 < now then Some Scan_EXPIRED
          else if now < sw_startTime w - 2 * 60 * 60 * 1000 then Some NOT_OPEN_YET
          else None)"

definition status_verdict :: "ticket_row \<Rightarrow> scan_status option" where
  "status_verdict ticket =
     (if tk_status ticket = Tk_USED then Some ALREADY_USED
      else if tk_status ticket \<noteq> Tk_ACTIVE then Some INVALID
      else None)"

text \<open>Steps 1 to 7: a final status, or the ticket that may be admitted.\<close>

definition scan_verdict ::
  "ticket_env \<Rightarrow> int \<Rightarrow> scan_request \<Rightarrow> ticket_store \<Rightarrow> (scan_status \<times> scan_ctx) + (ticket_row \<times> scan_ctx)" where
  "scan_verdict env now q s =
     (case validateToken (te_hmac env) (sq_qrToken q) (qr_secret env) of
        None \<Rightarrow> Inl (INVALID, no_ctx)
      | Some payload \<Rightarrow>
          let ctx = no_ctx\<lparr>sx_ticketId := Some (vp_t payload), sx_showId := Some (vp_s payload)\<rparr>
          in case find (\<lambda>t. tk_qrHash t = hashToken (te_sha env) (sq_qrToken q)) (ts_tickets s) of
               None \<Rightarrow> Inl (INVALID, ctx)
             | Some ticket \<Rightarrow>
                 let ctx = ctx\<lparr>sx_seat := Some (tk_seatNumber ticket)\<rparr>
                 in if tk_tenantId ticket \<noteq> sq_tenantId q then Inl (WRONG_TENANT, ctx)
                    else if after_number (now div 1000) (vp_exp payload) then Inl (Scan_EXPIRED, ctx)
                    else case window_verdict now ticket s of
                      Some v \<Rightarrow> Inl (v, ctx)
                    | None \<Rightarrow>
                        (case status_verdict ticket of
                           Some v \<Rightarrow> Inl (v, ctx)
                         | None \<Rightarrow> Inr (ticket, ctx)))"

text \<open>Step 8: \<open>updateMany where id, status ACTIVE\<close>, with whether a row was changed.\<close>

definition use_ticket :: "int \<Rightarrow> string \<Rightarrow> ticket_row \<Rightarrow> ticket_store \<Rightarrow> ticket_store \<times> bool" where
  "use_ticket now userId ticket s =
     (s\<lparr>ts_tickets := update_where (\<lambda>t. tk_id t = tk_id ticket \<and> tk_status t = Tk_ACTIVE)
          (\<lambda>t. t\<lparr>tk_status := Tk_USED, tk_scannedAt := Some now, tk_scannedBy := Some userId\<rparr>) (ts_tickets s)\<rparr>,
      list_ex (\<lambda>t. tk_id t = tk_id ticket \<and> tk_status t = Tk_ACTIVE) (ts_tickets s))"

definition admit ::
  "int \<Rightarrow> scan_request \<Rightarrow> ticket_row \<Rightarrow> scan_ctx \<Rightarrow> ticket_store \<Rightarrow> ticket_store \<times> scan_reply outcome" where
  "admit now q ticket ctx s =
     (let (s', updated) = use_ticket now (sq_userId q) ticket s
      in finalizeScan now q (if updated then SUCCESS else ALREADY_USED) ctx s')"

definition scanTicket :: "ticket_env \<Rightarrow> int \<Rightarrow> scan_request \<Rightarrow> ticket_store \<Rightarrow> ticket_store \<times> scan_reply outcome" where
  "scanTicket env now q s =
     (case check_device now q s of
        None \<Rightarrow> finalizeScan now q INVALID no_ctx s
      | Some s1 \<Rightarrow>
          (case scan_verdict env now q s1 of
             Inl (status, ctx) \<Rightarrow> finalizeScan now q status ctx s1
           | Inr (ticket, ctx) \<Rightarrow> admit now q ticket ctx s1))"

text \<open>In the order of the seat numbers as texts.\<close>

definition getTicketsForBooking :: "string \<Rightarrow> string \<Rightarrow> ticket_store \<Rightarrow> ticket_row list" where
  "getTicketsForBooking bookingId tenantId s =
     sort_key tk_seatNumber (filter (\<lambda>t. tk_bookingId t = bookingId \<and> tk_tenantId t = tenantId) (ts_tickets s))"

end
