(* ===== verification/Devices.thy ===== *)
theory Devices
  imports Tickets
begin

text \<open>
  \<open>backend/src/devices/devices.service.ts\<close>, \<open>device-jwt.strategy.ts\<close>: scanner devices and the
  upload of scans they made offline. bcrypt, the token signer, random keys and ids are
  parameters. \<open>scannedAt\<close> is the instant that \<open>new Date\<close> reads, or \<open>None\<close> for an invalid date.
  The transaction of one scan is split into what it reads and what it writes, since the
  database's default isolation lets another one run between.
\<close>

section \<open>Devices\<close>

record device_env =
  de_hash :: "string \<Rightarrow> string"
  de_compare :: "string \<Rightarrow> string \<Rightarrow> bool"
  de_sign :: "string \<times> string \<times> string \<Rightarrow> string"

record registered_device =
  rd_deviceId :: string
  rd_deviceKey :: string
  rd_name :: string
  rd_tenantId :: string

definition registerDevice ::
  "device_env \<Rightarrow> string \<Rightarrow> string \<Rightarrow> string \<Rightarrow> string \<Rightarrow> ticket_store \<Rightarrow> ticket_store \<times> registered_device outcome" where
  "registerDevice env newId rawKey name tenantId s =
     (let hashedKey = de_hash env rawKey
      in if list_ex (\<lambda>d. dv_id d = newId \<or> dv_deviceKey d = hashedKey) (ts_devices s)
         then (s, Inl (Internal ''Unique constraint failed''))
         else (s\<lparr>ts_devices := ts_devices s @ [\<lparr>dv_id = newId, dv_name = name, dv_deviceKey = hashedKey,
                   dv_isActive = True, dv_tenantId = tenantId, dv_lastSeenAt = None\<rparr>]\<rparr>,
               Inr \<lparr>rd_deviceId = newId, rd_deviceKey = rawKey, rd_name = name, rd_tenantId = tenantId\<rparr>))"

definition find_device :: "string \<Rightarrow> ticket_store \<Rightarrow> device_row option" where
  "find_device i s = find (\<lambda>d. dv_id d = i) (ts_devices s)"

record device_token =
  dt_accessToken :: string
  dt_expiresIn :: nat

definition authenticateDevice ::
  "device_env \<Rightarrow> int \<Rightarrow> string \<Rightarrow> string \<Rightarrow> ticket_store \<Rightarrow> ticket_store \<times> device_token outcome" where
  "authenticateDevice env now deviceId rawKey s =
     (case find_device deviceId s of
        None \<Rightarrow> (s, Inl (Unauthorized ''Invalid device credentials''))
      | Some device \<Rightarrow>
          if \<not> dv_isActive device then (s, Inl (Unauthorized ''Device is deactivated''))
          else if \<not> de_compare env rawKey (dv_deviceKey device)
          then (s, Inl (Unauthorized ''Invalid device credentials''))
          else (touch_device now deviceId s,
                Inr \<lparr>dt_accessToken = de_sign env (dv_id device, dv_tenantId device, ''SCANNER_DEVICE''), dt_expiresIn = 900\<rparr>))"

definition deactivateDevice :: "string \<Rightarrow> string \<Rightarrow> ticket_store \<Rightarrow> ticket_store \<times> unit outcome" where
  "deactivateDevice i tenantId s =
     (case find (\<lambda>d. dv_id d = i \<and> dv_tenantId d = tenantId) (ts_devices s) of
        None \<Rightarrow> (s, Inl (NotFound ''Device not found''))
      | Some device \<Rightarrow>
          (s\<lparr>ts_devices := update_where (\<lambda>d. dv_id d = i) (\<lambda>d. d\<lparr>dv_isActive := False\<rparr>) (ts_devices s)\<rparr>, Inr ()))"

definition validateDeviceActive :: "int \<Rightarrow> string \<Rightarrow> string \<Rightarrow> ticket_store \<Rightarrow> ticket_store \<times> bool" where
  "validateDeviceActive now i tenantId s =
     (case active_device i tenantId s of
        None \<Rightarrow> (s, False)
      | Some device \<Rightarrow> (touch_device now i s, True))"

text \<open>The claims of a device's token; the strategy accepts only its role.\<close>

record device_claims =
  dc_deviceId :: string
  dc_tenantId :: string
  dc_role :: string

definition validate_device_claims :: "device_claims \<Rightarrow> device_claims outcome" where
  "validate_device_claims payload =
     (if dc_role payload \<noteq> ''SCANNER_DEVICE'' then Inl (Unauthorized ''Invalid device token role'') else Inr payload)"

section \<open>Offline scans\<close>

record offline_scan =
  os_qrToken :: string
  os_scannedAt :: "int option"

datatype sync_status = Sync_INVALID | Sync_DUPLICATE_IGNORED | Sync_WRONG_TENANT | Sync_RESULT logged_result | Sync_ERROR

text \<open>What the transaction reads: an answer already, or the ticket and the time to write.\<close>

definition sync_read ::
  "ticket_env \<Rightarrow> string \<Rightarrow> string \<Rightarrow> offline_scan \<Rightarrow> ticket_store \<Rightarrow> sync_status + (ticket_row \<times> int)" where
  "sync_read env deviceId tenantId scan s =
     (case validateToken (te_hmac env) (os_qrToken scan) (qr_secret env) of
        None \<Rightarrow> Inl Sync_INVALID
      | Some payload \<Rightarrow>
          (case (vp_t payload, os_scannedAt scan) of
             (Str ticketId, Some instant) \<Rightarrow>
               if list_ex (\<lambda>l. tl_ticketId l = ticketId \<and> tl_deviceId l = Some deviceId \<and> tl_createdAt l = instant) (ts_scanLogs s)
               then Inl Sync_DUPLICATE_IGNORED
               else if list_ex (\<lambda>o'. oq_ticketId o' = ticketId \<and> oq_deviceId o' = deviceId \<and> oq_scannedAt o' = instant) (ts_offline s)
               then Inl Sync_DUPLICATE_IGNORED
               else (case find (\<lambda>t. tk_qrHash t = hashToken (te_sha env) (os_qrToken scan)) (ts_tickets s) of
                       None \<Rightarrow> Inl Sync_INVALID
                     | Some ticket \<Rightarrow>
                         if tk_tenantId ticket \<noteq> tenantId then Inl Sync_WRONG_TENANT else Inr (ticket, instant))
           | _ \<Rightarrow> Inl Sync_ERROR))"

definition offline_verdict :: "ticket_row \<Rightarrow> logged_result" where
  "offline_verdict ticket =
     (if tk_status ticket = Tk_USED then Offline_CONFLICT_ALREADY_USED
      else if tk_status ticket \<noteq> Tk_ACTIVE then Offline_INVALID
      else Offline_SUCCESS)"

definition sync_write :: "string \<Rightarrow> string \<Rightarrow> ticket_row \<Rightarrow> int \<Rightarrow> ticket_store \<Rightarrow> ticket_store" where
  "sync_write deviceId tenantId ticket instant s =
     (let finalStatus = offline_verdict ticket
      in s\<lparr>ts_tickets := (if finalStatus = Offline_SUCCESS
               then update_where (\<lambda>t. tk_id t = tk_id ticket)
                 (\<lambda>t. t\<lparr>tk_status := Tk_USED, tk_scannedAt := Some instant, tk_scannedBy := Some deviceId\<rparr>) (ts_tickets s)
               else ts_tickets s),
           ts_offline := ts_offline s @ [\<lparr>oq_ticketId = tk_id ticket, oq_deviceId = deviceId, oq_scannedAt = instant,
               oq_synced = True, oq_result = finalStatus, oq_tenantId = tenantId\<rparr>],
           ts_scanLogs := ts_scanLogs s @ [\<lparr>tl_ticketId = tk_id ticket, tl_scannedBy = deviceId,
               tl_deviceId = Some deviceId, tl_scanSource = DEVICE, tl_result = finalStatus,
               tl_tenantId = tenantId, tl_createdAt = instant\<rparr>]\<rparr>)"

definition sync_one ::
  "ticket_env \<Rightarrow> string \<Rightarrow> string \<Rightarrow> offline_scan \<Rightarrow> ticket_store \<Rightarrow> ticket_store \<times> sync_status" where
  "sync_one env deviceId tenantId scan s =
     (case sync_read env deviceId tenantId scan s of
        Inl st \<Rightarrow> (s, st)
      | Inr (ticket, instant) \<Rightarrow> (sync_write deviceId tenantId ticket instant s, Sync_RESULT (offline_verdict ticket)))"

fun sync_all ::
  "ticket_env \<Rightarrow> string \<Rightarrow> string \<Rightarrow> offline_scan list \<Rightarrow> ticket_store \<Rightarrow> ticket_store \<times> (string \<times> sync_status) list" where
  "sync_all env deviceId tenantId [] s = (s, [])"
| "sync_all env deviceId tenantId (scan # scans) s =
     (let (s', st) = sync_one env deviceId tenantId scan s;
          (s'', results) = sync_all env deviceId tenantId scans s'
      in (s'', (os_qrToken scan, st) # results))"

definition syncOfflineScans ::
  "ticket_env \<Rightarrow> int \<Rightarrow> string \<Rightarrow> string \<Rightarrow> offline_scan list \<Rightarrow> ticket_store \<Rightarrow>
   ticket_store \<times> (string \<times> sync_status) list outcome" where
  "syncOfflineScans env now deviceId tenantId scans s =
     (if 500 < length scans then (s, Inl (BadRequest ''Batch size exceeds maximum limit of 500''))
      else case active_device deviceId tenantId s of
        None \<Rightarrow> (s, Inl (Unauthorized ''Device inactive or unauthorized''))
      | Some device \<Rightarrow>
          (let (s', results) = sync_all env deviceId tenantId scans (touch_device now deviceId s)
           in (s', Inr results)))"

end
