(* ===== verification/TicketGuarantees.thy ===== *)
theory TicketGuarantees
  imports Devices
begin

text \<open>
  What tickets guarantee: generation is complete and idempotent, a generated ticket is admitted
  in its window and once only, whatever interleaving of scans and uploads, and an upload of
  offline scans can be repeated.
\<close>

section \<open>Generation\<close>

lemma insert_ticket_Inr:
  "insert_ticket t ts = Inr ts' \<longleftrightarrow> ts' = ts @ [t] \<and> tk_id t \<notin> tk_id ` set ts \<and> tk_qrHash t \<notin> tk_qrHash ` set ts"
  by (auto simp: insert_ticket_def list_ex_iff) (metis image_eqI)+

lemma new_ticket_simps [simp]:
  "tk_id (new_ticket env b w tid e seat i) = i" "tk_bookingId (new_ticket env b w tid e seat i) = b"
  "tk_seatNumber (new_ticket env b w tid e seat i) = seat" "tk_status (new_ticket env b w tid e seat i) = Tk_ACTIVE"
  "tk_qrHash (new_ticket env b w tid e seat i) = te_sha env (ticket_token env i w e)"
  "tk_showId (new_ticket env b w tid e seat i) = w" "tk_tenantId (new_ticket env b w tid e seat i) = tid"
  by (simp_all add: new_ticket_def hashToken_def)

lemma make_tickets_spec:
  assumes "make_tickets env b w tid e ps ts = Inr (ts', made, tokens)"
  shows "ts' = ts @ made
    \<and> tokens = map (\<lambda>t. ticket_token env (tk_id t) w e) made
    \<and> (\<forall>t \<in> set made. \<exists>p \<in> set ps. t = new_ticket env b w tid e (seat_name p) (tk_id t))
    \<and> (\<forall>p \<in> set ps. \<exists>t \<in> set ts'. tk_bookingId t = b \<and> tk_seatNumber t = seat_name p)"
  using assms
proof (induction env b w tid e ps ts arbitrary: ts' made tokens rule: make_tickets.induct)
  case (2 env b w tid e p ps ts)
  let ?seen = "list_ex (\<lambda>r. tk_bookingId r = b \<and> tk_seatNumber r = seat_name p) ts"
  show ?case
  proof (cases ?seen)
    case True
    with 2(3) have "make_tickets env b w tid e ps ts = Inr (ts', made, tokens)" by simp
    from 2(1) [OF True this] True show ?thesis by (auto simp: list_ex_iff)
  next
    case False
    let ?t = "new_ticket env b w tid e (seat_name p) (te_newId env (length ts))"
    from 2(3) False obtain made' tokens' where ins: "insert_ticket ?t ts = Inr (ts @ [?t])"
      and rest: "make_tickets env b w tid e ps (ts @ [?t]) = Inr (ts', made', tokens')"
      and made: "made = ?t # made'" "tokens = ticket_token env (te_newId env (length ts)) w e # tokens'"
      by (auto simp: Let_def insert_ticket_Inr split: sum.splits prod.splits)
    from ins have new: "tk_id ?t \<notin> tk_id ` set ts" "tk_qrHash ?t \<notin> tk_qrHash ` set ts"
      unfolding insert_ticket_Inr by blast+
    have "make_tickets env b w tid e ps (ts @ [?t]) = Inr (ts', made', tokens') \<Longrightarrow> ?thesis"
      using 2(2) [OF False refl refl ins, of ts' made' tokens'] made new by auto blast
    with rest show ?thesis by blast
  qed
qed auto

lemma make_tickets_distinct:
  assumes "make_tickets env b w tid e ps ts = Inr (ts', made, tokens)"
    and "\<And>t u u'. insert_ticket t u = Inr u' \<Longrightarrow> distinct (map key u) \<Longrightarrow> distinct (map key u')"
    and "distinct (map key ts)"
  shows "distinct (map key ts')"
  using assms(1,3)
proof (induction env b w tid e ps ts arbitrary: ts' made tokens rule: make_tickets.induct)
  case (2 env b w tid e p ps ts)
  then show ?case
    by (auto simp: Let_def split: if_splits sum.splits prod.splits dest: assms(2))
qed auto

lemma make_tickets_unique:
  assumes "make_tickets env b w tid e ps ts = Inr (ts', made, tokens)"
  shows "distinct (map tk_qrHash ts) \<Longrightarrow> distinct (map tk_qrHash ts')"
    and "distinct (map tk_id ts) \<Longrightarrow> distinct (map tk_id ts')"
  by (erule make_tickets_distinct [OF assms, rotated], simp add: insert_ticket_Inr)+

lemma make_tickets_again:
  assumes "\<And>p. p \<in> set ps \<Longrightarrow> \<exists>t \<in> set ts. tk_bookingId t = b \<and> tk_seatNumber t = seat_name p"
  shows "make_tickets env b w tid e ps ts = Inr (ts, [], [])"
  using assms by (induction ps) (auto simp: list_ex_iff)

section \<open>Admission\<close>

text \<open>The gate: any number of scans between their verdict and their update (\<open>pending\<close>), and the
  tickets admitted so far. A scan is decided on the tables as they are then, a pending one updates
  its ticket, an uploaded scan runs its transaction, tickets are generated, and everything else
  (logs, devices, bookings) leaves the tickets alone.\<close>

record gate =
  ga_store :: ticket_store
  ga_pending :: "(scan_request \<times> ticket_row \<times> scan_ctx) list"
  ga_admitted :: "string list"

fun admitted_by :: "ticket_row \<Rightarrow> scan_reply outcome \<Rightarrow> string list" where
  "admitted_by t (Inr r) = (if sr_status r = SUCCESS then [tk_id t] else [])"
| "admitted_by t (Inl e) = []"

inductive gate_step :: "ticket_env \<Rightarrow> gate \<Rightarrow> gate \<Rightarrow> bool" for env where
  decide: "scan_verdict env now q (ga_store g) = Inr (t, ctx) \<Longrightarrow>
    gate_step env g (g\<lparr>ga_pending := (q, t, ctx) # ga_pending g\<rparr>)"
| update: "(q, t, ctx) \<in> set (ga_pending g) \<Longrightarrow> admit now q t ctx (ga_store g) = (s', r) \<Longrightarrow>
    gate_step env g \<lparr>ga_store = s', ga_pending = remove1 (q, t, ctx) (ga_pending g),
                     ga_admitted = admitted_by t r @ ga_admitted g\<rparr>"
| upload: "sync_read env d tid scan (ga_store g) = Inr (t, instant) \<Longrightarrow>
    gate_step env g (g\<lparr>ga_store := sync_write d tid t instant (ga_store g),
                       ga_admitted := (if offline_verdict t = Offline_SUCCESS then [tk_id t] else []) @ ga_admitted g\<rparr>)"
| generate: "gate_step env g (g\<lparr>ga_store := fst (generateTicketsForBooking env b w tid (ga_store g))\<rparr>)"
| other: "ts_tickets s' = ts_tickets (ga_store g) \<Longrightarrow> gate_step env g (g\<lparr>ga_store := s'\<rparr>)"

definition admitted_ok :: "ticket_row list \<Rightarrow> string list \<Rightarrow> bool" where
  "admitted_ok ts a \<longleftrightarrow> distinct (map tk_id ts) \<and> distinct a
     \<and> (\<forall>i \<in> set a. \<exists>t \<in> set ts. tk_id t = i \<and> tk_status t = Tk_USED)"

definition gate_ok :: "gate \<Rightarrow> bool" where
  "gate_ok g \<longleftrightarrow> admitted_ok (ts_tickets (ga_store g)) (ga_admitted g)"

lemma finalizeScan_tickets [simp]: "ts_tickets (fst (finalizeScan now q st ctx s)) = ts_tickets s"
  by (simp add: finalizeScan_def Let_def split: option.splits json.splits)

lemma finalizeScan_status: "snd (finalizeScan now q st ctx s) = Inr r \<Longrightarrow> sr_status r = st"
  by (auto simp: finalizeScan_def Let_def split: option.splits json.splits)

lemma admit_cases:
  assumes "admit now q t ctx s = (s', r)"
  obtains "list_ex (\<lambda>u. tk_id u = tk_id t \<and> tk_status u = Tk_ACTIVE) (ts_tickets s)"
    and "ts_tickets s' = update_where (\<lambda>u. tk_id u = tk_id t \<and> tk_status u = Tk_ACTIVE)
          (\<lambda>u. u\<lparr>tk_status := Tk_USED, tk_scannedAt := Some now, tk_scannedBy := Some (sq_userId q)\<rparr>) (ts_tickets s)"
    and "admitted_by t r \<in> {[tk_id t], []}"
  | "ts_tickets s' = ts_tickets s" and "admitted_by t r = []"
proof -
  let ?u = "fst (use_ticket now (sq_userId q) t s)"
  let ?ex = "list_ex (\<lambda>u. tk_id u = tk_id t \<and> tk_status u = Tk_ACTIVE) (ts_tickets s)"
  have result: "(s', r) = finalizeScan now q (if ?ex then SUCCESS else ALREADY_USED) ctx ?u"
    using assms by (simp add: admit_def use_ticket_def)
  then have "ts_tickets s' = ts_tickets ?u"
    by (metis fst_conv finalizeScan_tickets)
  moreover have "admitted_by t r = []" if "\<not> ?ex"
    using result that finalizeScan_status [of now q ALREADY_USED ctx ?u] by (cases r) (auto dest: arg_cong [where f = snd])
  moreover have "admitted_by t r \<in> {[tk_id t], []}" by (cases r) auto
  moreover have "ts_tickets ?u = ts_tickets s" if "\<not> ?ex"
    using that by (auto simp: use_ticket_def list_ex_iff intro!: update_where_none)
  ultimately show thesis using that by (cases ?ex) (auto simp: use_ticket_def)
qed

text \<open>An active ticket is not among the admitted ones; using it keeps the invariant.\<close>

lemma admitted_use:
  assumes ok: "admitted_ok ts a" and t: "t \<in> set ts" "tk_id t = i" "tk_status t = Tk_ACTIVE"
    and P: "\<And>u. P u \<Longrightarrow> tk_id u = i" "P t"
    and f: "\<And>u. tk_id (f u) = tk_id u" "\<And>u. tk_status (f u) = Tk_USED"
  shows "admitted_ok (update_where P f ts) (i # a)" and "admitted_ok (update_where P f ts) a"
proof -
  have ids: "map tk_id (update_where P f ts) = map tk_id ts" by (rule map_update_where) (simp add: f)
  have same: "u = t" if "u \<in> set ts" "tk_id u = i" for u
    using distinct_key_eq [of tk_id ts u t] ok t that by (simp add: admitted_ok_def)
  have "i \<notin> set a" using ok same t(3) by (force simp: admitted_ok_def)
  moreover have kept: "\<exists>u \<in> set (update_where P f ts). tk_id u = j \<and> tk_status u = Tk_USED"
    if "\<exists>u \<in> set ts. tk_id u = j \<and> tk_status u = Tk_USED" for j
  proof -
    from that obtain u where u: "u \<in> set ts" "tk_id u = j" "tk_status u = Tk_USED" by blast
    then show ?thesis
      by (intro bexI [of _ "if P u then f u else u"]) (auto simp: f in_update_where)
  qed
  moreover have "\<exists>u \<in> set (update_where P f ts). tk_id u = i \<and> tk_status u = Tk_USED"
    by (rule bexI [of _ "f t"]) (use t P(2) f in \<open>auto simp: in_update_where\<close>)
  ultimately show "admitted_ok (update_where P f ts) (i # a)" "admitted_ok (update_where P f ts) a"
    using ok ids by (auto simp: admitted_ok_def)
qed

lemma admitted_ok_more: "admitted_ok ts a \<Longrightarrow> distinct (map tk_id (ts @ us)) \<Longrightarrow> admitted_ok (ts @ us) a"
  by (auto simp: admitted_ok_def)

lemma gate_step_ok: "gate_ok g \<Longrightarrow> gate_step env g g' \<Longrightarrow> gate_ok g'"
proof -
  assume ok: "gate_ok g" and "gate_step env g g'"
  from this(2) show ?thesis
  proof cases
    case (update q t ctx now s' r)
    from update(3) show ?thesis
    proof (cases rule: admit_cases)
      case 1
      from 1(1) obtain u where u: "u \<in> set (ts_tickets (ga_store g))" "tk_id u = tk_id t" "tk_status u = Tk_ACTIVE"
        by (auto simp: list_ex_iff)
      let ?P = "\<lambda>u. tk_id u = tk_id t \<and> tk_status u = Tk_ACTIVE"
      let ?f = "\<lambda>u. u\<lparr>tk_status := Tk_USED, tk_scannedAt := Some now, tk_scannedBy := Some (sq_userId q)\<rparr>"
      have "admitted_ok (update_where ?P ?f (ts_tickets (ga_store g))) (tk_id t # ga_admitted g)"
        "admitted_ok (update_where ?P ?f (ts_tickets (ga_store g))) (ga_admitted g)"
        by (rule admitted_use [OF ok [unfolded gate_ok_def] u]; simp add: u)+
      then show ?thesis using 1(2,3) update(1) by (auto simp: gate_ok_def)
    next
      case 2
      then show ?thesis using ok update(1) by (simp add: gate_ok_def)
    qed
  next
    case (upload d tid scan t instant)
    have t: "t \<in> set (ts_tickets (ga_store g))"
      using upload(2) by (auto simp: sync_read_def dest: find_in split: option.splits json.splits if_splits)
    show ?thesis
    proof (cases "offline_verdict t = Offline_SUCCESS")
      case True
      then have "tk_status t = Tk_ACTIVE" by (auto simp: offline_verdict_def split: if_splits)
      from admitted_use(1) [OF ok [unfolded gate_ok_def] t refl this, of "\<lambda>u. tk_id u = tk_id t"]
      show ?thesis using True upload(1) by (simp add: gate_ok_def sync_write_def Let_def)
    next
      case False
      then show ?thesis using ok upload(1) by (simp add: gate_ok_def sync_write_def Let_def)
    qed
  next
    case (generate b w tid)
    show ?thesis
    proof (cases "ts_tickets (fst (generateTicketsForBooking env b w tid (ga_store g))) = ts_tickets (ga_store g)")
      case False
      then obtain e ps ts' made tokens where make: "make_tickets env b w tid e ps (ts_tickets (ga_store g)) = Inr (ts', made, tokens)"
        and ts': "ts_tickets (fst (generateTicketsForBooking env b w tid (ga_store g))) = ts'"
        by (auto simp: generateTicketsForBooking_def Let_def split: option.splits sum.splits prod.splits)
      have "ts' = ts_tickets (ga_store g) @ made" using make_tickets_spec [OF make] by simp
      then show ?thesis
        using make_tickets_unique(2) [OF make] ts' ok generate(1) admitted_ok_more [of "ts_tickets (ga_store g)" "ga_admitted g" made]
        by (auto simp: gate_ok_def admitted_ok_def)
    qed (use ok generate(1) in \<open>simp add: gate_ok_def\<close>)
  qed (use ok in \<open>simp_all add: gate_ok_def\<close>)
qed

interpretation gates: invariant_system "gate_step env" gate_ok for env
  by unfold_locales (rule gate_step_ok)


definition demo_env :: ticket_env where
  "demo_env = \<lparr>te_hmac = demo_hmac, te_sha = (\<lambda>x. x), te_secret = None, te_newId = (\<lambda>n. ''t'' @ show_nat n)\<rparr>"

definition demo_show :: show_row where
  "demo_show = \<lparr>sw_id = ''s1'', sw_price = 100, sw_startTime = 10000000, sw_screen = None\<rparr>"

definition demo_ticket_store :: ticket_store where
  "demo_ticket_store = \<lparr>ts_tickets = [], ts_scanLogs = [], ts_devices = [], ts_offline = [],
     ts_places = [\<lparr>sp_bookingId = ''b1'', sp_row = ''A'', sp_number = 7, sp_status = Some CONFIRMED\<rparr>],
     ts_shows = [demo_show]\<rparr>"

definition demo_ticket :: ticket_row where
  "demo_ticket = new_ticket demo_env ''b1'' ''s1'' ''tn'' (ticket_expiry demo_show) ''A7'' ''t0''"

definition demo_sold_store :: ticket_store where
  "demo_sold_store = demo_ticket_store\<lparr>ts_tickets := [demo_ticket]\<rparr>"

definition demo_scan :: "string \<Rightarrow> scan_request" where
  "demo_scan u = \<lparr>sq_qrToken = ticket_token demo_env ''t0'' ''s1'' (ticket_expiry demo_show), sq_userId = u,
     sq_tenantId = ''tn'', sq_deviceId = None, sq_source = STAFF\<rparr>"

definition demo_ctx :: scan_ctx where
  "demo_ctx = \<lparr>sx_ticketId = Some (Str ''t0''), sx_seat = Some ''A7'', sx_showId = Some (Str ''s1'')\<rparr>"

lemma demo_generation:
  "generateTicketsForBooking demo_env ''b1'' ''s1'' ''tn'' demo_ticket_store =
     (demo_sold_store, Inr \<lparr>ge_tickets = [demo_ticket], ge_tokens = [sq_qrToken (demo_scan u)]\<rparr>)"
proof -
  have "te_newId demo_env 0 = ''t0''" "sp_row p @ show_int (sp_number p) = ''A7''"
    if "p = \<lparr>sp_bookingId = ''b1'', sp_row = ''A'', sp_number = 7, sp_status = Some CONFIRMED\<rparr>" for p
    unfolding that by code_simp+
  then show ?thesis
    by (simp add: generateTicketsForBooking_def demo_ticket_store_def demo_sold_store_def demo_ticket_def demo_scan_def
      demo_show_def seat_name_def insert_ticket_def Let_def)
qed

text \<open>What a scan of a generated token finds.\<close>

definition find_show :: "string \<Rightarrow> ticket_store \<Rightarrow> show_row option" where
  "find_show w s = find (\<lambda>r. sw_id r = w) (ts_shows s)"

lemma generated_verdict:
  assumes hmac: "\<And>k m. CHR ''.'' \<notin> set (te_hmac env k m)" and names: "tk_id t \<noteq> []" "w \<noteq> []"
    and shown: "find_show w s = Some sh" "1000 \<le> sw_startTime sh + 1800000" "ticket_expiry sh < 2 ^ 53"
    and stored: "t \<in> set (ts_tickets s)" "distinct (map tk_qrHash (ts_tickets s))"
      "tk_qrHash t = te_sha env (ticket_token env (tk_id t) w (ticket_expiry sh))" "tk_showId t = w"
    and q: "sq_qrToken q = ticket_token env (tk_id t) w (ticket_expiry sh)" "sq_tenantId q = tk_tenantId t"
    and window: "sw_startTime sh - 7200000 \<le> now" "now \<le> sw_startTime sh + 1800000"
  shows "scan_verdict env now q s =
    (let ctx = \<lparr>sx_ticketId = Some (Str (tk_id t)), sx_seat = Some (tk_seatNumber t), sx_showId = Some (Str w)\<rparr>
     in case status_verdict t of Some v \<Rightarrow> Inl (v, ctx) | None \<Rightarrow> Inr (t, ctx))"
proof -
  have "0 < ticket_expiry sh" using shown(2) by (simp add: ticket_expiry_def)
  then have valid: "validateToken (te_hmac env) (sq_qrToken q) (qr_secret env) =
      Some \<lparr>vp_t = Str (tk_id t), vp_s = Str w, vp_exp = Num (of_int (ticket_expiry sh))\<rparr>"
    unfolding q(1) ticket_token_def by (subst validate_signed) (use hmac names shown(3) in simp_all)
  have found: "find (\<lambda>r. tk_qrHash r = te_sha env (sq_qrToken q)) (ts_tickets s) = Some t"
    by (rule find_distinct_key) (use stored q(1) in simp_all)
  have "now div 1000 \<le> ticket_expiry sh"
    unfolding ticket_expiry_def by (rule zdiv_mono1) (use window in simp_all)
  then have "\<not> after_number (now div 1000) (Num (of_int (ticket_expiry sh)))" by (simp add: after_number_def)
  moreover have "window_verdict now t s = None"
    using shown(1) window stored(4) by (simp add: window_verdict_def find_show_def)
  ultimately show ?thesis
    using q(2) by (simp add: scan_verdict_def valid found hashToken_def no_ctx_def Let_def split: option.split)
qed

lemma generation_effect:
  assumes "generateTicketsForBooking env b w tid s = (s', Inr g)" and "find_show w s = Some sh"
    and "t \<in> set (ge_tickets g)" and "distinct (map tk_qrHash (ts_tickets s))"
  shows "t \<in> set (ts_tickets s')" "distinct (map tk_qrHash (ts_tickets s'))"
    "tk_qrHash t = te_sha env (ticket_token env (tk_id t) w (ticket_expiry sh))" "tk_showId t = w"
    "tk_tenantId t = tid" "tk_status t = Tk_ACTIVE" "ts_shows s' = ts_shows s"
    "ticket_token env (tk_id t) w (ticket_expiry sh) \<in> set (ge_tokens g)"
proof -
  from assms(1,2) obtain ps ts' made tokens where
    make: "make_tickets env b w tid (ticket_expiry sh) ps (ts_tickets s) = Inr (ts', made, tokens)"
    and s': "s' = s\<lparr>ts_tickets := ts'\<rparr>" "g = \<lparr>ge_tickets = made, ge_tokens = tokens\<rparr>"
    by (auto simp: generateTicketsForBooking_def find_show_def Let_def split: option.splits sum.splits)
  note spec = make_tickets_spec [OF make]
  from assms(3) have t: "t \<in> set made" by (simp add: s')
  with spec obtain p where p: "t = new_ticket env b w tid (ticket_expiry sh) (seat_name p) (tk_id t)" by blast
  from t spec show "t \<in> set (ts_tickets s')" "ticket_token env (tk_id t) w (ticket_expiry sh) \<in> set (ge_tokens g)"
    by (auto simp: s')
  show "distinct (map tk_qrHash (ts_tickets s'))" using make_tickets_unique(1) [OF make assms(4)] by (simp add: s')
  show "tk_qrHash t = te_sha env (ticket_token env (tk_id t) w (ticket_expiry sh))" "tk_showId t = w"
    "tk_tenantId t = tid" "tk_status t = Tk_ACTIVE"
    by (subst p; simp)+
  show "ts_shows s' = ts_shows s" by (simp add: s')
qed

text \<open>C22. A generated ticket opens the gate once. A token handed out for a confirmed booking is
  accepted by a member of the staff of its tenant at any time from two hours before the show to
  thirty minutes after its start, with the seat it was generated for, and the same token at any
  such time afterwards is answered as already used.\<close>

theorem generated_ticket_opens_once:
  assumes "generateTicketsForBooking env b w tid s = (s', Inr g)" and "find_show w s = Some sh"
    and "t \<in> set (ge_tickets g)" and "distinct (map tk_qrHash (ts_tickets s))" and "distinct (map tk_id (ts_tickets s'))"
    and "\<And>k m. CHR ''.'' \<notin> set (te_hmac env k m)" and "tk_id t \<noteq> []" and "w \<noteq> []"
    and "1000 \<le> sw_startTime sh + 1800000" and "ticket_expiry sh < 2 ^ 53"
    and "\<And>x. x \<in> {now, later} \<Longrightarrow> sw_startTime sh - 7200000 \<le> x \<and> x \<le> sw_startTime sh + 1800000"
    and "\<And>x. x \<in> {q, q'} \<Longrightarrow> sq_qrToken x = ticket_token env (tk_id t) w (ticket_expiry sh) \<and> sq_tenantId x = tid \<and> sq_source x = STAFF"
  shows "\<exists>s1 s2. scanTicket env now q s' = (s1, Inr \<lparr>sr_status = SUCCESS, sr_seat = Some (tk_seatNumber t),
              sr_showId = Some (Str w), sr_scannedAt = now\<rparr>)
    \<and> scanTicket env later q' s1 = (s2, Inr \<lparr>sr_status = ALREADY_USED, sr_seat = Some (tk_seatNumber t),
              sr_showId = Some (Str w), sr_scannedAt = later\<rparr>)"
proof -
  note made = generation_effect [OF assms(1-4)]
  let ?ctx = "\<lparr>sx_ticketId = Some (Str (tk_id t)), sx_seat = Some (tk_seatNumber t), sx_showId = Some (Str w)\<rparr>"
  have shown: "find_show w s' = Some sh" using assms(2) made(7) by (simp add: find_show_def)
  have q: "sq_qrToken q = ticket_token env (tk_id t) w (ticket_expiry sh)" "sq_tenantId q = tk_tenantId t" "sq_source q = STAFF"
    and q': "sq_qrToken q' = ticket_token env (tk_id t) w (ticket_expiry sh)" "sq_tenantId q' = tk_tenantId t" "sq_source q' = STAFF"
    using assms(12) [of q] assms(12) [of q'] made(5) by auto
  have window: "sw_startTime sh - 7200000 \<le> now" "now \<le> sw_startTime sh + 1800000"
    and window': "sw_startTime sh - 7200000 \<le> later" "later \<le> sw_startTime sh + 1800000"
    using assms(11) [of now] assms(11) [of later] by auto
  have "scan_verdict env now q s' = Inr (t, ?ctx)"
    unfolding generated_verdict [OF assms(6-8) shown assms(9,10) made(1-4) q(1,2) window]
    by (simp add: status_verdict_def made(6))
  moreover have active: "list_ex (\<lambda>u. tk_id u = tk_id t \<and> tk_status u = Tk_ACTIVE) (ts_tickets s')"
    using made(1,6) by (auto simp: list_ex_iff)
  ultimately obtain s1 where first: "scanTicket env now q s' = (s1, Inr \<lparr>sr_status = SUCCESS, sr_seat = Some (tk_seatNumber t),
              sr_showId = Some (Str w), sr_scannedAt = now\<rparr>)"
    and s1: "s1 = fst (finalizeScan now q SUCCESS ?ctx (fst (use_ticket now (sq_userId q) t s')))"
    using q(3) by (simp add: scanTicket_def check_device_def admit_def use_ticket_def finalizeScan_def Let_def)
  let ?f = "\<lambda>u. u\<lparr>tk_status := Tk_USED, tk_scannedAt := Some now, tk_scannedBy := Some (sq_userId q)\<rparr>"
  have tickets: "ts_tickets s1 = update_where (\<lambda>u. tk_id u = tk_id t \<and> tk_status u = Tk_ACTIVE) ?f (ts_tickets s')"
    by (simp add: s1 use_ticket_def)
  have "?f t \<in> set (ts_tickets s1)" unfolding tickets in_update_where by (rule bexI [OF _ made(1)]) (simp add: made(6))
  moreover have "distinct (map tk_qrHash (ts_tickets s1))" using made(2) by (simp add: tickets map_update_where)
  moreover have "find_show w s1 = Some sh"
    using shown by (simp add: s1 find_show_def finalizeScan_def use_ticket_def Let_def)
  ultimately have "scan_verdict env later q' s1 = Inl (ALREADY_USED, ?ctx)"
    using generated_verdict [of env "?f t" w s1 sh q' later] assms(6-10) made(3-5) q'(1,2) window'
    by (simp add: status_verdict_def)
  then have "\<exists>s2. scanTicket env later q' s1 = (s2, Inr \<lparr>sr_status = ALREADY_USED, sr_seat = Some (tk_seatNumber t),
              sr_showId = Some (Str w), sr_scannedAt = later\<rparr>)"
    using q'(3) by (simp add: scanTicket_def check_device_def finalizeScan_def Let_def)
  with first show ?thesis by blast
qed

lemma demo_facts:
  "find_show ''s1'' demo_ticket_store = Some demo_show" "sw_startTime demo_show = 10000000"
  "ticket_expiry demo_show = 11800" "tk_id demo_ticket = ''t0''" "tk_seatNumber demo_ticket = ''A7''"
  "ts_tickets demo_sold_store = [demo_ticket]" "ts_tickets demo_ticket_store = []"
  "te_hmac demo_env = demo_hmac" "te_sha demo_env = (\<lambda>x. x)" "tk_tenantId demo_ticket = ''tn''" "tk_status demo_ticket = Tk_ACTIVE"
  "tk_showId demo_ticket = ''s1''" "find_show ''s1'' demo_sold_store = Some demo_show"
  "tk_qrHash demo_ticket = ticket_token demo_env ''t0'' ''s1'' (ticket_expiry demo_show)"
  by (simp_all add: find_show_def demo_ticket_store_def demo_show_def ticket_expiry_def demo_ticket_def
      demo_sold_store_def demo_env_def)

lemma demo_scan_facts:
  "sq_qrToken (demo_scan u) = ticket_token demo_env ''t0'' ''s1'' (ticket_expiry demo_show)"
  "sq_tenantId (demo_scan u) = ''tn''" "sq_source (demo_scan u) = STAFF" "sq_userId (demo_scan u) = u"
  by (simp_all add: demo_scan_def)

theorem generated_ticket_opens_once_witness:
  "\<exists>s1 s2. scanTicket demo_env 9000000 (demo_scan ''ann'') demo_sold_store =
       (s1, Inr \<lparr>sr_status = SUCCESS, sr_seat = Some ''A7'', sr_showId = Some (Str ''s1''), sr_scannedAt = 9000000\<rparr>)
     \<and> scanTicket demo_env 9000005 (demo_scan ''bob'') s1 =
       (s2, Inr \<lparr>sr_status = ALREADY_USED, sr_seat = Some ''A7'', sr_showId = Some (Str ''s1''), sr_scannedAt = 9000005\<rparr>)"
proof -
  have window: "sw_startTime demo_show - 7200000 \<le> x \<and> x \<le> sw_startTime demo_show + 1800000" if "x \<in> {9000000, 9000005}" for x
    using that by (auto simp: demo_facts)
  have scans: "sq_qrToken x = ticket_token demo_env (tk_id demo_ticket) ''s1'' (ticket_expiry demo_show)
      \<and> sq_tenantId x = ''tn'' \<and> sq_source x = STAFF" if "x \<in> {demo_scan ''ann'', demo_scan ''bob''}" for x
    using that by (auto simp: demo_facts demo_scan_facts)
  have no_dot: "CHR ''.'' \<notin> set (te_hmac demo_env k m)" for k m by (simp add: demo_facts demo_hmac_no_dot)
  have "demo_ticket \<in> set (ge_tickets \<lparr>ge_tickets = [demo_ticket], ge_tokens = [sq_qrToken (demo_scan ''ann'')]\<rparr>)"
    "distinct (map tk_qrHash (ts_tickets demo_ticket_store))" "distinct (map tk_id (ts_tickets demo_sold_store))"
    "tk_id demo_ticket \<noteq> []" "''s1'' \<noteq> ([] :: string)" "1000 \<le> sw_startTime demo_show + 1800000" "ticket_expiry demo_show < 2 ^ 53"
    by (simp_all add: demo_facts)
  from generated_ticket_opens_once [OF demo_generation demo_facts(1) this(1-3) no_dot this(4-7) window scans]
  show ?thesis unfolding demo_facts .
qed

lemma demo_verdict:
  "scan_verdict demo_env 9000000 (demo_scan u) demo_sold_store = Inr (demo_ticket, demo_ctx)"
proof -
  have "scan_verdict demo_env 9000000 (demo_scan u) demo_sold_store =
    (let ctx = \<lparr>sx_ticketId = Some (Str (tk_id demo_ticket)), sx_seat = Some (tk_seatNumber demo_ticket), sx_showId = Some (Str ''s1'')\<rparr>
     in case status_verdict demo_ticket of Some v \<Rightarrow> Inl (v, ctx) | None \<Rightarrow> Inr (demo_ticket, ctx))"
    by (rule generated_verdict [where sh = demo_show])
      (simp_all add: demo_facts demo_scan_facts demo_hmac_no_dot)
  then show ?thesis by (simp add: status_verdict_def demo_facts demo_ctx_def)
qed


text \<open>Generating again for the same booking, however often, creates nothing.\<close>

lemma generation_idempotent:
  assumes "generateTicketsForBooking env b w tid s = (s', Inr g)"
  shows "generateTicketsForBooking env b w tid s' = (s', Inr \<lparr>ge_tickets = [], ge_tokens = []\<rparr>)"
proof -
  let ?ps = "filter (\<lambda>p. sp_bookingId p = b \<and> sp_status p = Some CONFIRMED) (ts_places s)"
  from assms obtain sh ts' made tokens where
    make: "make_tickets env b w tid (ticket_expiry sh) ?ps (ts_tickets s) = Inr (ts', made, tokens)"
    and s': "s' = s\<lparr>ts_tickets := ts'\<rparr>" and sh: "find (\<lambda>r. sw_id r = w) (ts_shows s) = Some sh"
    by (auto simp: generateTicketsForBooking_def Let_def split: option.splits sum.splits)
  have "make_tickets env b w tid (ticket_expiry sh) ?ps ts' = Inr (ts', [], [])"
    by (rule make_tickets_again) (use make_tickets_spec [OF make] in blast)
  then show ?thesis by (simp add: generateTicketsForBooking_def s' sh)
qed

section \<open>Uploads\<close>

text \<open>A later state of the tables as an upload leaves them: tickets keep their identity, logs only
  grow.\<close>

definition upload_later :: "ticket_store \<Rightarrow> ticket_store \<Rightarrow> bool" where
  "upload_later s s' \<longleftrightarrow> map (\<lambda>t. (tk_id t, tk_qrHash t, tk_tenantId t)) (ts_tickets s') =
       map (\<lambda>t. (tk_id t, tk_qrHash t, tk_tenantId t)) (ts_tickets s)
     \<and> set (ts_scanLogs s) \<subseteq> set (ts_scanLogs s') \<and> set (ts_offline s) \<subseteq> set (ts_offline s')"

lemma upload_later_refl: "upload_later s s"
  by (simp add: upload_later_def)

lemma upload_later_trans: "upload_later s t \<Longrightarrow> upload_later t u \<Longrightarrow> upload_later s u"
  by (auto simp: upload_later_def)

lemma find_same_hash:
  assumes "map (\<lambda>t. (tk_id t, tk_qrHash t, tk_tenantId t)) ts' = map (\<lambda>t. (tk_id t, tk_qrHash t, tk_tenantId t)) ts"
  shows "map_option (\<lambda>t. (tk_id t, tk_qrHash t, tk_tenantId t)) (find (\<lambda>t. tk_qrHash t = h) ts') =
         map_option (\<lambda>t. (tk_id t, tk_qrHash t, tk_tenantId t)) (find (\<lambda>t. tk_qrHash t = h) ts)"
  using assms
proof (induction ts arbitrary: ts')
  case (Cons t ts)
  then obtain t' us where "ts' = t' # us" "tk_qrHash t' = tk_qrHash t" "tk_id t' = tk_id t" "tk_tenantId t' = tk_tenantId t"
    "map (\<lambda>t. (tk_id t, tk_qrHash t, tk_tenantId t)) us = map (\<lambda>t. (tk_id t, tk_qrHash t, tk_tenantId t)) ts"
    by (cases ts') auto
  with Cons.IH show ?case by simp
qed simp

lemma settled_later:
  assumes "sync_read env d tid scan s = Inl st" and "upload_later s s'"
  shows "\<exists>st. sync_read env d tid scan s' = Inl st"
proof -
  let ?h = "hashToken (te_sha env) (os_qrToken scan)"
  have "map_option (\<lambda>t. (tk_id t, tk_qrHash t, tk_tenantId t)) (find (\<lambda>t. tk_qrHash t = ?h) (ts_tickets s')) =
      map_option (\<lambda>t. (tk_id t, tk_qrHash t, tk_tenantId t)) (find (\<lambda>t. tk_qrHash t = ?h) (ts_tickets s))"
    by (rule find_same_hash) (use assms(2) in \<open>simp add: upload_later_def\<close>)
  moreover have "list_ex P (ts_scanLogs s) \<Longrightarrow> list_ex P (ts_scanLogs s')" "list_ex Q (ts_offline s) \<Longrightarrow> list_ex Q (ts_offline s')"
    for P Q using assms(2) by (auto simp: upload_later_def list_ex_iff)
  ultimately show ?thesis using assms(1)
    by (auto simp: sync_read_def split: option.splits json.splits if_splits)
qed

lemma sync_write_later: "upload_later s (sync_write d tid t instant s)"
  by (auto simp: upload_later_def sync_write_def Let_def update_where_def)

lemma sync_one_later: "sync_one env d tid scan s = (s', st) \<Longrightarrow> upload_later s s'"
  by (auto simp: sync_one_def upload_later_refl sync_write_later split: sum.splits)

text \<open>The tickets of the tables carry the ids of their tokens, as generation makes them.\<close>

definition tokens_match :: "ticket_env \<Rightarrow> offline_scan list \<Rightarrow> ticket_store \<Rightarrow> bool" where
  "tokens_match env scans s \<longleftrightarrow> (\<forall>scan \<in> set scans. \<forall>t \<in> set (ts_tickets s). \<forall>v.
     validateToken (te_hmac env) (os_qrToken scan) (qr_secret env) = Some v \<longrightarrow>
     tk_qrHash t = hashToken (te_sha env) (os_qrToken scan) \<longrightarrow> vp_t v = Str (tk_id t))"

lemma tokens_match_later:
  assumes "tokens_match env scans s" and "upload_later s s'"
  shows "tokens_match env scans s'"
proof -
  have "\<exists>u \<in> set (ts_tickets s). tk_id u = tk_id t \<and> tk_qrHash u = tk_qrHash t" if "t \<in> set (ts_tickets s')" for t
  proof -
    have "(tk_id t, tk_qrHash t, tk_tenantId t) \<in> set (map (\<lambda>t. (tk_id t, tk_qrHash t, tk_tenantId t)) (ts_tickets s'))"
      using that by simp
    then have "(tk_id t, tk_qrHash t, tk_tenantId t) \<in> set (map (\<lambda>t. (tk_id t, tk_qrHash t, tk_tenantId t)) (ts_tickets s))"
      using assms(2) unfolding upload_later_def by argo
    then show ?thesis by auto
  qed
  then show ?thesis using assms(1) unfolding tokens_match_def by metis
qed

lemma sync_one_settles:
  assumes "sync_one env d tid scan s = (s', st)" and "tokens_match env [scan] s"
  shows "\<exists>st. sync_read env d tid scan s' = Inl st"
proof (cases "sync_read env d tid scan s")
  case (Inl a)
  then show ?thesis using assms(1) by (auto simp: sync_one_def)
next
  case (Inr p)
  then obtain t instant where p: "sync_read env d tid scan s = Inr (t, instant)" by (cases p) auto
  then obtain v where v: "validateToken (te_hmac env) (os_qrToken scan) (qr_secret env) = Some v"
    and t: "find (\<lambda>t. tk_qrHash t = hashToken (te_sha env) (os_qrToken scan)) (ts_tickets s) = Some t"
    and instant: "os_scannedAt scan = Some instant"
    by (auto simp: sync_read_def split: option.splits json.splits if_splits)
  have "vp_t v = Str (tk_id t)" using assms(2) v find_in [OF t] by (auto simp: tokens_match_def)
  moreover have "s' = sync_write d tid t instant s" using assms(1) p by (simp add: sync_one_def)
  ultimately show ?thesis using v instant by (auto simp: sync_read_def sync_write_def Let_def)
qed

lemma sync_all_later: "sync_all env d tid scans s = (s', res) \<Longrightarrow> upload_later s s'"
proof (induction scans arbitrary: s s' res)
  case (Cons scan scans)
  then obtain s1 st res1 where "sync_one env d tid scan s = (s1, st)" "sync_all env d tid scans s1 = (s', res1)"
    by (auto split: prod.splits)
  with Cons.IH sync_one_later show ?case by (blast intro: upload_later_trans)
qed (simp add: upload_later_refl)

lemma sync_all_settles:
  assumes "sync_all env d tid scans s = (s', res)" and "tokens_match env scans s" and "scan \<in> set scans"
  shows "\<exists>st. sync_read env d tid scan s' = Inl st"
  using assms
proof (induction scans arbitrary: s res)
  case (Cons x xs)
  then obtain s1 st res1 where x: "sync_one env d tid x s = (s1, st)" and xs: "sync_all env d tid xs s1 = (s', res1)"
    by (auto split: prod.splits)
  have match: "tokens_match env [x] s" "tokens_match env xs s1"
    using Cons.prems(2) tokens_match_later [of env xs s s1] sync_one_later [OF x] by (auto simp: tokens_match_def)
  show ?case
  proof (cases "scan \<in> set xs")
    case True
    then show ?thesis using Cons.IH [OF xs match(2)] by simp
  next
    case False
    then have "\<exists>st. sync_read env d tid scan s1 = Inl st" using sync_one_settles [OF x match(1)] Cons.prems(3) by auto
    then show ?thesis using settled_later sync_all_later [OF xs] by blast
  qed
qed simp

lemma sync_all_settled:
  assumes "\<And>scan. scan \<in> set scans \<Longrightarrow> \<exists>st. sync_read env d tid scan s = Inl st"
  shows "fst (sync_all env d tid scans s) = s"
  using assms
proof (induction scans)
  case (Cons scan scans)
  then have "fst (sync_one env d tid scan s) = s" by (force simp: sync_one_def)
  with Cons show ?case by (simp split: prod.splits) (metis fst_conv)
qed simp

lemma touch_device_simps [simp]:
  "ts_scanLogs (touch_device now i s) = ts_scanLogs s" "ts_offline (touch_device now i s) = ts_offline s"
  "ts_tickets (touch_device now i s) = ts_tickets s"
  by (simp_all add: touch_device_def)

lemma sync_read_touch [simp]: "sync_read env d tid scan (touch_device now i s) = sync_read env d tid scan s"
  unfolding sync_read_def touch_device_simps ..

text \<open>An upload can be repeated. When a device uploads the same batch again, because it did not
  see the answer, nothing but the time it was last seen changes: no ticket is used, no scan is
  logged or queued a second time, and every scan of it is answered as before or as a duplicate.
  The tickets must carry the ids of their tokens, which is how they are generated.\<close>

theorem upload_can_be_repeated:
  assumes "syncOfflineScans env now d tid scans s = (s', Inr results)" and "tokens_match env scans s"
    and "active_device d tid s' \<noteq> None"
  shows "\<exists>results'. syncOfflineScans env later d tid scans s' = (touch_device later d s', Inr results')"
proof -
  have short: "\<not> 500 < length scans" and all: "sync_all env d tid scans (touch_device now d s) = (s', results)"
    using assms(1) by (auto simp: syncOfflineScans_def split: if_splits option.splits prod.splits)
  have "tokens_match env scans (touch_device now d s)" using assms(2) by (simp add: tokens_match_def touch_device_def)
  then have "\<exists>st. sync_read env d tid scan s' = Inl st" if "scan \<in> set scans" for scan
    using sync_all_settles [OF all] that by blast
  then have "fst (sync_all env d tid scans (touch_device later d s')) = touch_device later d s'"
    by (intro sync_all_settled) simp
  then show ?thesis using short assms(3)
    by (auto simp: syncOfflineScans_def split: prod.splits)
qed

definition demo_device :: device_row where
  "demo_device = \<lparr>dv_id = ''d1'', dv_name = ''Gate'', dv_deviceKey = ''k'', dv_isActive = True, dv_tenantId = ''tn'',
     dv_lastSeenAt = None\<rparr>"

definition demo_upload :: "offline_scan list" where
  "demo_upload = [\<lparr>os_qrToken = sq_qrToken (demo_scan ''ann''), os_scannedAt = Some 8000000\<rparr>]"

theorem upload_can_be_repeated_witness:
  "\<exists>s' results results'. syncOfflineScans demo_env 1 ''d1'' ''tn'' demo_upload (demo_sold_store\<lparr>ts_devices := [demo_device]\<rparr>) =
       (s', Inr results) \<and> map snd results = [Sync_RESULT Offline_SUCCESS]
     \<and> syncOfflineScans demo_env 2 ''d1'' ''tn'' demo_upload s' = (touch_device 2 ''d1'' s', Inr results')"
proof -
  let ?s = "demo_sold_store\<lparr>ts_devices := [demo_device]\<rparr>"
  have "generateSignedToken (te_hmac demo_env) \<lparr>qp_t = ''t0'', qp_s = ''s1'', qp_exp = 11800\<rparr> (qr_secret demo_env) =
      sq_qrToken (demo_scan ''ann'')"
    by (simp add: demo_scan_facts ticket_token_def demo_facts)
  then have valid: "validateToken (te_hmac demo_env) (sq_qrToken (demo_scan ''ann'')) (qr_secret demo_env) =
      Some \<lparr>vp_t = Str ''t0'', vp_s = Str ''s1'', vp_exp = Num 11800\<rparr>"
    using validate_signed [of "te_hmac demo_env" "\<lparr>qp_t = ''t0'', qp_s = ''s1'', qp_exp = 11800\<rparr>" "qr_secret demo_env"]
    by (simp add: demo_facts demo_hmac_no_dot)
  have match: "tokens_match demo_env demo_upload ?s"
    using valid by (simp add: tokens_match_def demo_upload_def demo_facts)
  let ?t = "touch_device 1 ''d1'' ?s"
  have read: "sync_read demo_env ''d1'' ''tn'' (hd demo_upload) ?t = Inr (demo_ticket, 8000000)"
    unfolding sync_read_touch
    by (simp add: sync_read_def demo_upload_def valid hashToken_def)
      (simp add: demo_facts demo_scan_facts demo_sold_store_def demo_ticket_store_def)
  then have "sync_all demo_env ''d1'' ''tn'' demo_upload ?t =
      (sync_write ''d1'' ''tn'' demo_ticket 8000000 ?t, [(sq_qrToken (demo_scan ''ann''), Sync_RESULT Offline_SUCCESS)])"
    by (simp add: demo_upload_def sync_one_def offline_verdict_def demo_facts)
  moreover have "active_device ''d1'' ''tn'' ?s = Some demo_device"
    by (simp add: active_device_def demo_device_def)
  ultimately have first: "syncOfflineScans demo_env 1 ''d1'' ''tn'' demo_upload ?s =
      (sync_write ''d1'' ''tn'' demo_ticket 8000000 ?t, Inr [(sq_qrToken (demo_scan ''ann''), Sync_RESULT Offline_SUCCESS)])"
    by (simp add: syncOfflineScans_def demo_upload_def)
  have "active_device ''d1'' ''tn'' (sync_write ''d1'' ''tn'' demo_ticket 8000000 ?t) \<noteq> None"
    by (simp add: active_device_def sync_write_def Let_def touch_device_def demo_device_def)
  from upload_can_be_repeated [OF first match this, of 2] first show ?thesis by auto
qed

text \<open>Two uploads of the same ticket that both read before either writes both succeed: the
  update of the transaction has no condition on the status.\<close>

lemma concurrent_uploads_admit_twice:
  assumes "sync_read env d tid scan s = Inr (t, instant)" and "sync_read env d' tid scan' s = Inr (t, instant')"
    and "tk_status t = Tk_ACTIVE"
  shows "offline_verdict t = Offline_SUCCESS
    \<and> map oq_result (ts_offline (sync_write d' tid t instant' (sync_write d tid t instant s))) =
      map oq_result (ts_offline s) @ [Offline_SUCCESS, Offline_SUCCESS]"
  using assms(3) by (simp add: offline_verdict_def sync_write_def Let_def)

end
