(* ===== verification/Validation.thy ===== *)
theory Validation
  imports BookingStates Json
begin

text \<open>
  \<open>backend/src/validation/validation.service.ts\<close>: the older check of a booking's own QR token by
  an administrator. A token is read as hexadecimal bytes; reading stops at the first pair that is
  not hexadecimal.
\<close>

record checked_booking =
  cb_id :: string
  cb_status :: booking_status
  cb_scannedAt :: "int option"
  cb_validatedBy :: "string option"
  cb_qrToken :: "string option"
  cb_eventTitle :: string
  cb_userEmail :: string

datatype audit_entry = Scan_failed string string | Scan_success string string

record audit_row =
  au_entry :: audit_entry
  au_userId :: string

record validation_store =
  vs_bookings :: "checked_booking list"
  vs_audit :: "audit_row list"

record validation_reply =
  vr_scannedAt :: "int option"
  vr_event :: string
  vr_user :: string

fun hex_bytes :: "string \<Rightarrow> nat list" where
  "hex_bytes (a # b # r) =
     (case (hex_value a, hex_value b) of (Some x, Some y) \<Rightarrow> (16 * x + y) # hex_bytes r | _ \<Rightarrow> [])"
| "hex_bytes _ = []"

definition find_checked :: "string \<Rightarrow> validation_store \<Rightarrow> checked_booking option" where
  "find_checked i s = find (\<lambda>b. cb_id b = i) (vs_bookings s)"

definition log_audit :: "audit_entry \<Rightarrow> string \<Rightarrow> validation_store \<Rightarrow> validation_store" where
  "log_audit e user s = s\<lparr>vs_audit := vs_audit s @ [\<lparr>au_entry = e, au_userId = user\<rparr>]\<rparr>"

text \<open>The checks on the booking as it was read.\<close>

definition check_scannable :: "string \<Rightarrow> validation_store \<Rightarrow> (checked_booking \<times> string) outcome" where
  "check_scannable bookingId s =
     (case find_checked bookingId s of
        None \<Rightarrow> Inl (NotFound ''Booking not found'')
      | Some booking \<Rightarrow>
          if cb_status booking \<noteq> CONFIRMED then Inl (BadRequest ''Ticket is not confirmed'')
          else if cb_scannedAt booking \<noteq> None then Inl (BadRequest ''Ticket already scanned'')
          else if \<not> truthy (cb_qrToken booking) then Inl (Forbidden ''Ticket has no valid QR token generated'')
          else Inr (booking, the (cb_qrToken booking)))"

text \<open>The conditional update, which another request may have overtaken.\<close>

definition mark_scanned :: "int \<Rightarrow> string \<Rightarrow> checked_booking \<Rightarrow> validation_store \<Rightarrow> validation_store \<times> validation_reply outcome" where
  "mark_scanned now adminId booking s =
     (let unscanned = (\<lambda>b. cb_id b = cb_id booking \<and> cb_scannedAt b = None)
      in if \<not> list_ex unscanned (vs_bookings s)
         then (s, Inl (BadRequest ''Ticket already scanned (Race Condition Detected)''))
         else
           let s1 = s\<lparr>vs_bookings := update_where unscanned (\<lambda>b. b\<lparr>cb_scannedAt := Some now, cb_validatedBy := Some adminId\<rparr>) (vs_bookings s)\<rparr>
           in case find_checked (cb_id booking) s1 of
                None \<Rightarrow> (s1, Inl (NotFound ''Booking lost''))
              | Some updated \<Rightarrow>
                  (log_audit (Scan_success (cb_id booking) (cb_eventTitle booking)) adminId s1,
                   Inr \<lparr>vr_scannedAt = cb_scannedAt updated, vr_event = cb_eventTitle booking, vr_user = cb_userEmail booking\<rparr>))"

definition validateTicket ::
  "int \<Rightarrow> string \<Rightarrow> string \<Rightarrow> string \<Rightarrow> validation_store \<Rightarrow> validation_store \<times> validation_reply outcome" where
  "validateTicket now bookingId qrToken adminId s =
     (case check_scannable bookingId s of
        Inl e \<Rightarrow> (s, Inl e)
      | Inr (booking, token) \<Rightarrow>
          if hex_bytes token \<noteq> hex_bytes qrToken
          then (log_audit (Scan_failed bookingId ''Invalid Token'') adminId s, Inl (Forbidden ''Invalid QR Token''))
          else mark_scanned now adminId booking s)"

text \<open>The hundred latest scans.\<close>

definition getScanLogs :: "validation_store \<Rightarrow> checked_booking list" where
  "getScanLogs s =
     take 100 (sort_key (\<lambda>b. - the (cb_scannedAt b)) (filter (\<lambda>b. cb_scannedAt b \<noteq> None) (vs_bookings s)))"

text \<open>A validated booking is validated once: every later attempt is refused and changes no booking.\<close>

lemma validated_once:
  assumes "validateTicket now i tok admin s = (s', Inr r)" and "distinct (map cb_id (vs_bookings s))"
  shows "vr_scannedAt r = Some now
    \<and> vs_bookings (fst (validateTicket later i tok' admin' s')) = vs_bookings s'
    \<and> \<not> is_ok (snd (validateTicket later i tok' admin' s'))"
proof -
  from assms(1) obtain b where b: "find_checked i s = Some b" and mark: "mark_scanned now admin b s = (s', Inr r)"
    and scannable: "cb_scannedAt b = None" "cb_status b = CONFIRMED"
    by (auto simp: validateTicket_def check_scannable_def split: option.splits if_splits)
  have mem: "b \<in> set (vs_bookings s)" "cb_id b = i" using b unfolding find_checked_def by (blast dest: find_key_in)+
  let ?open = "\<lambda>u. cb_id u = cb_id b \<and> cb_scannedAt u = None"
  let ?f = "\<lambda>u. u\<lparr>cb_scannedAt := Some now, cb_validatedBy := Some admin\<rparr>"
  let ?rows = "update_where ?open ?f (vs_bookings s)"
  have "find (\<lambda>u. cb_id u = i) ?rows = Some (?f b)"
    by (rule find_distinct_key) (use assms(2) mem scannable in \<open>auto simp: map_update_where in_update_where\<close>)
  then have "find_checked i s' = Some (?f b)" "vr_scannedAt r = Some now"
    using mark mem scannable
    by (auto simp: mark_scanned_def find_checked_def log_audit_def Let_def split: if_splits)
  then show ?thesis by (simp add: validateTicket_def check_scannable_def)
qed

text \<open>Tokens that are not hexadecimal are compared up to their first other pair only.\<close>

lemma hex_prefix_suffices: "hex_value c = None \<Longrightarrow> hex_bytes (c # r) = hex_bytes (c # r')"
  by (cases r; cases r') auto

end
