(* ===== verification/TenantScope.thy ===== *)
theory TenantScope
  imports Base Json
begin

text \<open>
  Tenant scoping: \<open>backend/src/prisma/prisma-tenant.extension.ts\<close>, which rewrites the arguments
  of every query of a tenant's client, \<open>common/middleware/tenant.middleware.ts\<close> and
  \<open>common/services/tenant-context.service.ts\<close>. A row is an object with JSON values. The equality
  conditions of a \<open>where\<close> are its members; its other operators are a predicate on rows. What the
  database does with the arguments is written out for each operation, its constraints being a
  parameter.
\<close>

type_synonym db_row = "(string \<times> json) list"

definition put :: "string \<Rightarrow> json \<Rightarrow> db_row \<Rightarrow> db_row" where
  "put k v r = filter (\<lambda>p. fst p \<noteq> k) r @ [(k, v)]"

text \<open>\<open>{...r, ...data}\<close>.\<close>

definition spread :: "db_row \<Rightarrow> db_row \<Rightarrow> db_row" where
  "spread r data = foldl (\<lambda>q (k, v). put k v q) r data"

datatype db_operation = FindMany | FindFirst | FindUnique | Create | CreateMany | Update | UpdateMany
  | Upsert | Delete | DeleteMany | Aggregate | Count | GroupBy

record query_args =
  qa_where :: db_row
  qa_rest :: "db_row \<Rightarrow> bool"
  qa_data :: "db_row list"
  qa_create :: db_row
  qa_update :: db_row

definition global_models :: "string list" where
  "global_models = [''Tenant'', ''AuditLog'', ''FeatureFlag'', ''RazorpayWebhookEvent'', ''SystemEventLog'',
     ''PaymentEvent'', ''TheaterApplication'']"

section \<open>The extension\<close>

definition createTenantExtension :: "string option \<Rightarrow> string \<Rightarrow> db_operation \<Rightarrow> query_args \<Rightarrow> query_args" where
  "createTenantExtension tenantId model op args =
     (if op = FindUnique \<or> \<not> truthy tenantId \<or> model \<in> set global_models then args
      else
        let t = Str (the tenantId)
        in case op of
             Create \<Rightarrow> args\<lparr>qa_data := map (put ''tenantId'' t) (qa_data args)\<rparr>
           | CreateMany \<Rightarrow> args\<lparr>qa_data := map (put ''tenantId'' t) (qa_data args)\<rparr>
           | Upsert \<Rightarrow> args\<lparr>qa_create := put ''tenantId'' t (qa_create args), qa_update := put ''tenantId'' t (qa_update args)\<rparr>
           | _ \<Rightarrow> args\<lparr>qa_where := put ''tenantId'' t (qa_where args)\<rparr>)"

section \<open>The database\<close>

definition matches :: "query_args \<Rightarrow> db_row \<Rightarrow> bool" where
  "matches args r \<longleftrightarrow> list_all (\<lambda>(k, v). map_of r k = Some v) (qa_where args) \<and> qa_rest args r"

fun update_first :: "('r \<Rightarrow> bool) \<Rightarrow> ('r \<Rightarrow> 'r) \<Rightarrow> 'r list \<Rightarrow> 'r list" where
  "update_first P f [] = []"
| "update_first P f (r # t) = (if P r then f r # t else r # update_first P f t)"

fun delete_first :: "('r \<Rightarrow> bool) \<Rightarrow> 'r list \<Rightarrow> 'r list" where
  "delete_first P [] = []"
| "delete_first P (r # t) = (if P r then t else r # delete_first P t)"

definition stored :: "(db_row list \<Rightarrow> bool) \<Rightarrow> db_row list \<Rightarrow> db_row list \<Rightarrow> (db_row list \<times> db_row list) outcome" where
  "stored constraints rows' result =
     (if constraints rows' then Inr (rows', result) else Inl (Internal ''Unique constraint failed''))"

definition exec_query ::
  "(db_row list \<Rightarrow> bool) \<Rightarrow> db_operation \<Rightarrow> query_args \<Rightarrow> db_row list \<Rightarrow> (db_row list \<times> db_row list) outcome" where
  "exec_query constraints op args rows =
     (let P = matches args; found = filter P rows; upd = (\<lambda>r. spread r (qa_update args))
      in case op of
           FindMany \<Rightarrow> Inr (rows, found)
         | Aggregate \<Rightarrow> Inr (rows, found)
         | Count \<Rightarrow> Inr (rows, found)
         | GroupBy \<Rightarrow> Inr (rows, found)
         | FindFirst \<Rightarrow> Inr (rows, take 1 found)
         | FindUnique \<Rightarrow> Inr (rows, take 1 found)
         | Create \<Rightarrow> stored constraints (rows @ qa_data args) (qa_data args)
         | CreateMany \<Rightarrow> stored constraints (rows @ qa_data args) (qa_data args)
         | Update \<Rightarrow>
             (if found = [] then Inl (NotFound ''Record to update not found'')
              else stored constraints (update_first P upd rows) [upd (hd found)])
         | UpdateMany \<Rightarrow> stored constraints (update_where P upd rows) (map upd found)
         | Delete \<Rightarrow>
             (if found = [] then Inl (NotFound ''Record to delete does not exist'')
              else stored constraints (delete_first P rows) [hd found])
         | DeleteMany \<Rightarrow> stored constraints (filter (\<lambda>r. \<not> P r) rows) found
         | Upsert \<Rightarrow>
             (if found = [] then stored constraints (rows @ [qa_create args]) [qa_create args]
              else stored constraints (update_first P upd rows) [upd (hd found)]))"

section \<open>The middleware\<close>

record tenant_store =
  tn_tenantId :: "string option"
  tn_isSuperAdmin :: bool

record tenant_record =
  tr_id :: string
  tr_slug :: string
  tr_isActive :: bool

record tenant_request =
  tq_slug :: "string option"
  tq_authorization :: "string option"

text \<open>\<open>jwt.decode\<close> of the token library is a parameter: the role claim, without any check of the
  signature. An environment without a default slug has \<open>None\<close>.\<close>

definition bearer_token :: "string option \<Rightarrow> string option" where
  "bearer_token h = (case h of
     None \<Rightarrow> None
   | Some v \<Rightarrow> if take 7 v = ''Bearer '' then Some (split_on (CHR '' '') v ! 1) else None)"

definition resolve_tenant ::
  "(string \<Rightarrow> string option) \<Rightarrow> string option \<Rightarrow> tenant_record list \<Rightarrow> tenant_request \<Rightarrow> tenant_store outcome" where
  "resolve_tenant decodedRole defaultSlug tenants req =
     (let tenantSlug = (if truthy (tq_slug req) then tq_slug req else defaultSlug)
      in if \<not> truthy tenantSlug then Inl (BadRequest ''x-tenant-slug header is required (or set DEFAULT_TENANT_SLUG in .env)'')
         else case find (\<lambda>t. tr_slug t = the tenantSlug) tenants of
           None \<Rightarrow> Inl (Unauthorized ''Invalid or inactive tenant'')
         | Some tenant \<Rightarrow>
             if \<not> tr_isActive tenant then Inl (Unauthorized ''Invalid or inactive tenant'')
             else Inr \<lparr>tn_tenantId = Some (tr_id tenant),
                       tn_isSuperAdmin = (case bearer_token (tq_authorization req) of
                          None \<Rightarrow> False
                        | Some token \<Rightarrow> decodedRole token = Some ''SUPER_ADMIN'')\<rparr>)"

definition getTenantId :: "tenant_store option \<Rightarrow> string option" where
  "getTenantId st = (case st of None \<Rightarrow> None | Some s \<Rightarrow> if truthy (tn_tenantId s) then tn_tenantId s else None)"

definition isSuperAdmin :: "tenant_store option \<Rightarrow> bool" where
  "isSuperAdmin st = (case st of None \<Rightarrow> False | Some s \<Rightarrow> tn_isSuperAdmin s)"

section \<open>Isolation\<close>

definition owned_by :: "string \<Rightarrow> db_row \<Rightarrow> bool" where
  "owned_by t r \<longleftrightarrow> map_of r ''tenantId'' = Some (Str t)"

lemma map_of_put: "map_of (put k v r) k' = (if k' = k then Some v else map_of r k')"
  by (induction r) (auto simp: put_def map_of_eq_None_iff split: option.splits)

lemma owned_put [simp]: "owned_by t (put ''tenantId'' (Str t) r)"
  by (simp add: owned_by_def map_of_put)

lemma map_of_spread: "k \<notin> fst ` set data \<Longrightarrow> map_of (spread r data) k = map_of r k"
  unfolding spread_def
proof (induction data arbitrary: r)
  case (Cons p data)
  then show ?case by (cases p) (auto simp: map_of_put)
qed simp

lemma owned_spread: "''tenantId'' \<notin> fst ` set data \<Longrightarrow> owned_by t (spread r data) = owned_by t r"
  by (simp add: owned_by_def map_of_spread)

lemma matches_scoped: "matches (args\<lparr>qa_where := put ''tenantId'' (Str t) w\<rparr>) r \<Longrightarrow> owned_by t r"
  by (auto simp: matches_def owned_by_def put_def)

lemma foreign_update:
  "(\<And>r. P r \<Longrightarrow> \<not> F r) \<Longrightarrow> (\<And>r. P r \<Longrightarrow> \<not> F (f r)) \<Longrightarrow> filter F (update_first P f t) = filter F t"
  "(\<And>r. P r \<Longrightarrow> \<not> F r) \<Longrightarrow> (\<And>r. P r \<Longrightarrow> \<not> F (f r)) \<Longrightarrow> filter F (update_where P f t) = filter F t"
  by (induction t) auto

lemma foreign_delete:
  "(\<And>r. P r \<Longrightarrow> \<not> F r) \<Longrightarrow> filter F (delete_first P t) = filter F t"
  "(\<And>r. P r \<Longrightarrow> \<not> F r) \<Longrightarrow> filter F (filter (\<lambda>r. \<not> P r) t) = filter F t"
  by (induction t) auto

lemma scoped_args:
  assumes "t \<noteq> []" and "model \<notin> set global_models" and "op \<notin> {FindUnique, Upsert, Create, CreateMany}"
  shows "createTenantExtension (Some t) model op args = args\<lparr>qa_where := put ''tenantId'' (Str t) (qa_where args)\<rparr>"
  using assms by (cases op) (simp_all add: createTenantExtension_def)

lemma created_args:
  assumes "t \<noteq> []" and "model \<notin> set global_models" and "op \<in> {Create, CreateMany}"
  shows "createTenantExtension (Some t) model op args = args\<lparr>qa_data := map (put ''tenantId'' (Str t)) (qa_data args)\<rparr>"
  using assms by (auto simp: createTenantExtension_def)


definition demo_rows :: "db_row list" where
  "demo_rows = [[(''id'', Str ''1''), (''tenantId'', Str ''A'')], [(''id'', Str ''2''), (''tenantId'', Str ''B'')]]"

definition demo_args :: query_args where
  "demo_args = \<lparr>qa_where = [(''tenantId'', Str ''B'')], qa_rest = (\<lambda>r. True), qa_data = [], qa_create = [],
     qa_update = [(''title'', Str ''x'')]\<rparr>"


text \<open>The two operations that the theorem leaves out: \<open>findUnique\<close> reads any tenant's row, and
  \<open>upsert\<close> on another tenant's row moves it to the caller's.\<close>

lemma findUnique_is_not_scoped:
  "exec_query constraints FindUnique (createTenantExtension tid model FindUnique args) rows =
   exec_query constraints FindUnique args rows"
  by (simp add: createTenantExtension_def)

lemma upsert_takes_over:
  assumes "t \<noteq> []" and "model \<notin> set global_models" and "filter (matches args) rows = r # rs"
  shows "\<exists>r'. exec_query (\<lambda>r. True) Upsert (createTenantExtension (Some t) model Upsert args) rows =
      Inr (update_first (matches args) (\<lambda>q. spread q (put ''tenantId'' (Str t) (qa_update args))) rows, [r']) \<and> owned_by t r'"
proof -
  have same: "matches (createTenantExtension (Some t) model Upsert args) = matches args"
    by (rule ext) (simp add: createTenantExtension_def matches_def assms(1,2) truthy_def Let_def)
  have "spread q (put ''tenantId'' (Str t) u) = put ''tenantId'' (Str t) (spread q (filter (\<lambda>p. fst p \<noteq> ''tenantId'') u))" for q u
    by (simp add: spread_def put_def [of "''tenantId''" "Str t" u])
  then show ?thesis
    using assms unfolding exec_query_def same
    by (simp add: createTenantExtension_def stored_def Let_def)
qed

text \<open>A token that anyone can write makes the request a super administrator's in the tenant's
  context, since its signature is not checked here.\<close>

lemma unsigned_token_is_super_admin:
  assumes "find (\<lambda>t. tr_slug t = slug) tenants = Some tenant" and "tr_isActive tenant" and "slug \<noteq> []"
    and "CHR '' '' \<notin> set token" and "decodedRole token = Some ''SUPER_ADMIN''"
  shows "resolve_tenant decodedRole d tenants \<lparr>tq_slug = Some slug, tq_authorization = Some (''Bearer '' @ token)\<rparr> =
    Inr \<lparr>tn_tenantId = Some (tr_id tenant), tn_isSuperAdmin = True\<rparr>"
proof -
  have "split_on (CHR '' '') (''Bearer '' @ token) = [''Bearer'', token]"
    using split_on_none [OF assms(4)] by simp
  then show ?thesis using assms by (simp add: resolve_tenant_def bearer_token_def)
qed

end
