(* ===== verification/Portal.thy ===== *)
theory Portal
  imports Base64
begin

text \<open>
  The portals of the frontend: \<open>frontend/src/middleware.ts\<close>, which guards every page by the role of
  a verified token, the session of \<open>lib/authStore.ts\<close> and the client-side \<open>lib/portalGuard.tsx\<close>.
  The verification of a token is a parameter; decoding one without verification is written out.
  A role is not one of the names every object inherits.
\<close>

section \<open>Roles, routes and tokens\<close>

definition role_redirect :: "string \<Rightarrow> string option" where
  "role_redirect role = map_of
     [(''SUPER_ADMIN'', ''/super-admin''), (''ADMIN'', ''/admin''), (''THEATER_MANAGER'', ''/theatre''),
      (''USER'', ''/''), (''SCANNER_DEVICE'', ''/scanner'')] role"

definition route_guards :: "(string \<times> string list) list" where
  "route_guards = [(''/super-admin'', [''SUPER_ADMIN'']), (''/admin'', [''ADMIN'']),
     (''/theatre'', [''THEATER_MANAGER'']), (''/scanner'', [''SCANNER_DEVICE''])]"

definition public_paths :: "string list" where
  "public_paths = [''/login'', ''/signup'', ''/otp'', ''/_next'', ''/favicon'', ''/api'']"

definition startsWith :: "string \<Rightarrow> string \<Rightarrow> bool" where
  "startsWith s p \<longleftrightarrow> take (length p) s = p"

definition isPublic :: "string \<Rightarrow> bool" where
  "isPublic pathname \<longleftrightarrow> list_ex (startsWith pathname) public_paths"

record claims =
  cl_role :: string
  cl_tenantId :: "string option"
  cl_tenantSlug :: "string option"

definition url_digit :: "char \<Rightarrow> char" where
  "url_digit c = (if c = CHR ''-'' then CHR ''+'' else if c = CHR ''_'' then CHR ''/'' else c)"

text \<open>The role member as it is; \<open>Null\<close> when there is none.\<close>

definition decodeJwtRole :: "string \<Rightarrow> json" where
  "decodeJwtRole token =
     (case split_on (CHR ''.'') token of
        [h, p, g] \<Rightarrow> (case json_parse (base64_decode (map url_digit p)) of
                        None \<Rightarrow> Null
                      | Some payload \<Rightarrow> json_get ''role'' payload)
      | _ \<Rightarrow> Null)"

section \<open>The middleware\<close>

record page_request =
  pg_path :: string
  pg_cookie :: "string option"
  pg_authorization :: "string option"

datatype portal_answer =
    Next
  | Next_with "(string \<times> string) list"
  | Redirect string "(string \<times> string) list" bool

text \<open>A redirection carries its query and whether the cookie is deleted.\<close>

fun replace_first :: "string \<Rightarrow> string \<Rightarrow> string" where
  "replace_first p [] = (if p = [] then [] else [])"
| "replace_first p (c # s) = (if take (length p) (c # s) = p then drop (length p) (c # s) else c # replace_first p s)"

definition request_token :: "page_request \<Rightarrow> string option" where
  "request_token req =
     (if truthy (pg_cookie req) then pg_cookie req
      else map_option (replace_first ''Bearer '') (pg_authorization req))"

definition home_of :: "json \<Rightarrow> string" where
  "home_of role = (case role of Str r \<Rightarrow> (case role_redirect r of None \<Rightarrow> ''/'' | Some p \<Rightarrow> p) | _ \<Rightarrow> ''/'')"

definition login_page :: "(string \<Rightarrow> claims option) \<Rightarrow> page_request \<Rightarrow> portal_answer" where
  "login_page verifyToken req =
     (if truthy (pg_cookie req) then
        (let existingToken = the (pg_cookie req); role = decodeJwtRole existingToken
         in if json_truthy role \<and> verifyToken existingToken \<noteq> None \<and> home_of role \<noteq> ''/login''
            then Redirect (home_of role) [] False
            else Next)
      else Next)"

definition optional_header :: "string \<Rightarrow> string option \<Rightarrow> (string \<times> string) list" where
  "optional_header k v = (if truthy v then [(k, the v)] else [])"

definition forwarded_headers :: "claims \<Rightarrow> (string \<times> string) list" where
  "forwarded_headers c = [(''x-user-role'', cl_role c)] @ optional_header ''x-tenant-id'' (cl_tenantId c)
     @ optional_header ''x-tenant-slug'' (cl_tenantSlug c)
     @ (if cl_role c = ''SUPER_ADMIN'' then [(''x-bypass-rls'', ''true'')] else [])"

text \<open>The first guard whose prefix the path has decides.\<close>

definition check_guards :: "string \<Rightarrow> claims \<Rightarrow> portal_answer" where
  "check_guards pathname c =
     (case find (\<lambda>g. startsWith pathname (fst g)) route_guards of
        None \<Rightarrow> Next_with (forwarded_headers c)
      | Some (p, roles) \<Rightarrow>
          if cl_role c \<notin> set roles
          then Redirect (case role_redirect (cl_role c) of None \<Rightarrow> ''/'' | Some h \<Rightarrow> h) [] False
          else if cl_role c = ''ADMIN'' \<and> \<not> truthy (cl_tenantId c) \<and> \<not> truthy (cl_tenantSlug c)
          then Redirect ''/login'' [(''error'', ''no_tenant'')] False
          else Next_with (forwarded_headers c))"

definition middleware :: "(string \<Rightarrow> claims option) \<Rightarrow> page_request \<Rightarrow> portal_answer" where
  "middleware verifyToken req =
     (if pg_path req = ''/login'' then login_page verifyToken req
      else if isPublic (pg_path req) then Next
      else if \<not> truthy (request_token req) then Redirect ''/login'' [(''redirect'', pg_path req)] False
      else case verifyToken (the (request_token req)) of
        None \<Rightarrow> Redirect ''/login'' [] True
      | Some c \<Rightarrow> check_guards (pg_path req) c)"

section \<open>The session\<close>

record portal_user =
  us_role :: string
  us_tenantSlug :: "string option"

text \<open>The store with what it persists, the local storage entries it writes and the cookie.\<close>

record session =
  se_user :: "portal_user option"
  se_token :: "string option"
  se_hasHydrated :: bool
  se_persisted :: "portal_user option \<times> string option"
  se_localToken :: "string option"
  se_localSlug :: "string option"
  se_cookie :: "string option"

definition setAuth :: "portal_user \<Rightarrow> string \<Rightarrow> session \<Rightarrow> session" where
  "setAuth user token s = s\<lparr>se_user := Some user, se_token := Some token, se_persisted := (Some user, Some token),
     se_localToken := Some token,
     se_localSlug := (if truthy (us_tenantSlug user) then us_tenantSlug user else se_localSlug s),
     se_cookie := Some token\<rparr>"

definition logout :: "session \<Rightarrow> session" where
  "logout s = s\<lparr>se_user := None, se_token := None, se_persisted := (None, None), se_localToken := None,
     se_localSlug := None, se_cookie := None\<rparr>"

text \<open>Loading a page: the store takes what was persisted and writes the cookie again.\<close>

definition rehydrate :: "session \<Rightarrow> session" where
  "rehydrate s =
     (let (user, token) = se_persisted s
      in s\<lparr>se_user := user, se_token := token, se_hasHydrated := True,
           se_cookie := (if truthy token then token else se_cookie s)\<rparr>)"

definition getPortalHome :: "session \<Rightarrow> string" where
  "getPortalHome s =
     (case role_redirect (case se_user s of None \<Rightarrow> [] | Some u \<Rightarrow> us_role u) of None \<Rightarrow> ''/'' | Some p \<Rightarrow> p)"

text \<open>The client-side guard: where it sends the user, and whether the page is shown.\<close>

definition usePortalGuard :: "string list \<Rightarrow> session \<Rightarrow> string option \<times> bool" where
  "usePortalGuard allowedRoles s =
     ((if \<not> se_hasHydrated s then None
       else case se_user s of
         None \<Rightarrow> Some ''/login''
       | Some u \<Rightarrow>
           if \<not> truthy (se_token s) then Some ''/login''
           else if us_role u \<notin> set allowedRoles
           then Some (case role_redirect (us_role u) of None \<Rightarrow> ''/login'' | Some p \<Rightarrow> p)
           else None),
      se_hasHydrated s \<and> (case se_user s of None \<Rightarrow> False | Some u \<Rightarrow> us_role u \<in> set allowedRoles))"

end
