(* ===== verification/PortalGuards.thy ===== *)
theory PortalGuards
  imports Portal
begin

text \<open>
  What the portals of the frontend guarantee: a guarded page is served only to a verified token of its role,
  and the chain of redirections a browser follows ends, except for an administrator without a tenant.
\<close>

section \<open>Paths under a guard\<close>

lemma startsWith_append: "startsWith s p \<longleftrightarrow> (\<exists>r. s = p @ r)"
  unfolding startsWith_def by (metis append_eq_conv_conj append_take_drop_id)

lemma under_guard:
  assumes "(p, roles) \<in> set route_guards" "startsWith path p"
  obtains r where "path = p @ r" and
    "(p, roles) = (''/super-admin'', [''SUPER_ADMIN'']) \<or> (p, roles) = (''/admin'', [''ADMIN''])
     \<or> (p, roles) = (''/theatre'', [''THEATER_MANAGER'']) \<or> (p, roles) = (''/scanner'', [''SCANNER_DEVICE''])"
  using assms unfolding route_guards_def startsWith_append by force

lemma guarded_not_public:
  assumes "(p, roles) \<in> set route_guards" "startsWith path p"
  shows "path \<noteq> ''/login''" "\<not> isPublic path"
  by (rule under_guard[OF assms]; elim disjE; simp add: isPublic_def public_paths_def startsWith_def)+

lemma guard_of_path:
  assumes "(p, roles) \<in> set route_guards" "startsWith path p"
  shows "find (\<lambda>g. startsWith path (fst g)) route_guards = Some (p, roles)"
  by (rule under_guard[OF assms]; elim disjE; simp add: route_guards_def startsWith_def)

lemma no_guard_at_root [simp]: "find (\<lambda>g. startsWith ''/'' (fst g)) route_guards = None"
  by (simp add: route_guards_def startsWith_def)

definition has_tenant :: "claims \<Rightarrow> bool" where
  "has_tenant c \<longleftrightarrow> truthy (cl_tenantId c) \<or> truthy (cl_tenantSlug c)"

definition tenantless_admin :: "claims \<Rightarrow> bool" where
  "tenantless_admin c \<longleftrightarrow> cl_role c = ''ADMIN'' \<and> \<not> has_tenant c"

definition lets_through :: "portal_answer \<Rightarrow> bool" where
  "lets_through a = (case a of Redirect p q d \<Rightarrow> False | _ \<Rightarrow> True)"

lemma lets_through_simps [simp]: "lets_through Next" "lets_through (Next_with hs)" "\<not> lets_through (Redirect p q d)"
  by (simp_all add: lets_through_def)

lemma check_guards_admits:
  assumes "(p, roles) \<in> set route_guards" "startsWith path p"
  shows "lets_through (check_guards path c) \<longleftrightarrow> cl_role c \<in> set roles \<and> \<not> tenantless_admin c"
  unfolding check_guards_def guard_of_path[OF assms] tenantless_admin_def has_tenant_def by auto

text \<open>C25. A guarded page is served exactly when the request carries a token that verifies, with a role of the
  guard, and not that of an administrator without a tenant.\<close>

theorem guarded_pages_need_the_role:
  assumes "(p, roles) \<in> set route_guards" "startsWith (pg_path req) p"
  shows "lets_through (middleware verifyToken req) \<longleftrightarrow>
     truthy (request_token req) \<and>
     (\<exists>c. verifyToken (the (request_token req)) = Some c \<and> cl_role c \<in> set roles \<and> \<not> tenantless_admin c)"
  using guarded_not_public[OF assms] check_guards_admits[OF assms]
  by (auto simp: middleware_def split: option.splits)

lemma guarded_pages_need_the_role_witness:
  "lets_through (middleware (\<lambda>t. Some (\<lparr>cl_role = ''THEATER_MANAGER'', cl_tenantId = None, cl_tenantSlug = None\<rparr>))
      \<lparr>pg_path = ''/theatre/shows'', pg_cookie = Some ''t'', pg_authorization = None\<rparr>)
   \<and> \<not> lets_through (middleware (\<lambda>t. Some (\<lparr>cl_role = ''USER'', cl_tenantId = None, cl_tenantSlug = None\<rparr>))
      \<lparr>pg_path = ''/theatre/shows'', pg_cookie = Some ''t'', pg_authorization = None\<rparr>)"
proof -
  have g: "(''/theatre'', [''THEATER_MANAGER'']) \<in> set route_guards" by (simp add: route_guards_def)
  have s: "startsWith (pg_path \<lparr>pg_path = ''/theatre/shows'', pg_cookie = Some ''t'', pg_authorization = None\<rparr>) ''/theatre''"
    by (simp add: startsWith_append)
  show ?thesis
    unfolding guarded_pages_need_the_role[OF g s]
    by (simp add: request_token_def truthy_def tenantless_admin_def)
qed

section \<open>Chains of redirections\<close>

text \<open>The request a browser makes on a redirection: the same one at the new path, without the cookie when the
  answer deletes it.\<close>

definition redirected :: "page_request \<Rightarrow> string \<Rightarrow> bool \<Rightarrow> page_request" where
  "redirected req p del = req\<lparr>pg_path := p, pg_cookie := (if del then None else pg_cookie req)\<rparr>"

text \<open>What a browser ends at after at most the given number of answers.\<close>

fun browse :: "(string \<Rightarrow> claims option) \<Rightarrow> nat \<Rightarrow> page_request \<Rightarrow> portal_answer option" where
  "browse v 0 req = None"
| "browse v (Suc n) req =
     (case middleware v req of
        Redirect p q del \<Rightarrow> browse v n (redirected req p del)
      | a \<Rightarrow> Some a)"

lemma browse_through: "lets_through (middleware v req) \<Longrightarrow> browse v (Suc n) req \<noteq> None"
  by (simp add: lets_through_def split: portal_answer.splits)

lemma browse_more: "browse v n req \<noteq> None \<Longrightarrow> browse v (n + k) req = browse v n req"
  by (induction v n req rule: browse.induct) (auto split: portal_answer.splits)

lemma role_redirect_cases:
  assumes "role_redirect r = Some h"
  shows "h = ''/'' \<or> (\<exists>roles. (h, roles) \<in> set route_guards \<and> r \<in> set roles)"
proof -
  from assms have "(r, h) \<in> set [(''SUPER_ADMIN'', ''/super-admin''), (''ADMIN'', ''/admin''),
      (''THEATER_MANAGER'', ''/theatre''), (''USER'', ''/''), (''SCANNER_DEVICE'', ''/scanner'')]"
    unfolding role_redirect_def by (rule map_of_SomeD)
  then show ?thesis
    unfolding list.set insert_iff prod.inject empty_iff
    by (elim disjE conjE) (simp_all add: route_guards_def)
qed

text \<open>The home of a role lets its holder in.\<close>

lemma home_lets_in:
  assumes "\<not> tenantless_admin c"
  shows "lets_through (check_guards (case role_redirect (cl_role c) of None \<Rightarrow> ''/'' | Some h \<Rightarrow> h) c)"
proof (cases "role_redirect (cl_role c)")
  case None
  then show ?thesis by (simp add: check_guards_def)
next
  case (Some h)
  show ?thesis
  proof (cases "h = ''/''")
    case True
    then show ?thesis using Some by (simp add: check_guards_def)
  next
    case False
    then obtain roles where r: "(h, roles) \<in> set route_guards" "cl_role c \<in> set roles"
      using role_redirect_cases[OF Some] by blast
    then show ?thesis using Some assms check_guards_admits[OF r(1), of h c] by (simp add: startsWith_def)
  qed
qed

lemma homes_are_not_public:
  "\<not> isPublic (case role_redirect r of None \<Rightarrow> ''/'' | Some h \<Rightarrow> h)"
  "(case role_redirect r of None \<Rightarrow> ''/'' | Some h \<Rightarrow> h) \<noteq> ''/login''"
  by (auto simp: role_redirect_def isPublic_def public_paths_def startsWith_def)

lemma check_guards_goes_home:
  assumes "\<not> tenantless_admin c" "check_guards path c = Redirect p q del"
  shows "p = (case role_redirect (cl_role c) of None \<Rightarrow> ''/'' | Some h \<Rightarrow> h) \<and> \<not> del"
  using assms by (auto simp: check_guards_def tenantless_admin_def has_tenant_def split: option.splits if_splits)

lemma home_of_alt: "home_of j = (case role_redirect (case j of Str r \<Rightarrow> r | _ \<Rightarrow> []) of None \<Rightarrow> ''/'' | Some h \<Rightarrow> h)"
  by (auto simp: home_of_def role_redirect_def split: json.splits)

lemma home_of_is_protected: "\<not> isPublic (home_of j)" "home_of j \<noteq> ''/login''"
  using homes_are_not_public[of "case j of Str r \<Rightarrow> r | _ \<Rightarrow> []"] by (simp_all add: home_of_alt)

text \<open>A verified token at a protected page: at most one redirection.\<close>

lemma browse_verified:
  assumes "pg_path req \<noteq> ''/login''" "\<not> isPublic (pg_path req)" "truthy (request_token req)"
    "v (the (request_token req)) = Some c" "\<not> tenantless_admin c"
  shows "browse v (Suc (Suc n)) req \<noteq> None"
proof (cases "lets_through (middleware v req)")
  case True
  then show ?thesis by (rule browse_through)
next
  case False
  have m: "middleware v req = check_guards (pg_path req) c"
    using assms by (simp add: middleware_def)
  then obtain p q del where r: "middleware v req = Redirect p q del"
    using False by (cases "check_guards (pg_path req) c") auto
  have h: "p = (case role_redirect (cl_role c) of None \<Rightarrow> ''/'' | Some h \<Rightarrow> h)" "\<not> del"
    using check_guards_goes_home[OF assms(5), of "pg_path req" p q del] m r by simp_all
  define req' where "req' = redirected req p del"
  have "request_token req' = request_token req" "pg_path req' = p"
    using h(2) by (simp_all add: req'_def redirected_def request_token_def)
  then have "middleware v req' = check_guards p c"
    using assms homes_are_not_public[of "cl_role c"] h(1) by (simp add: middleware_def)
  then have "lets_through (middleware v req')"
    using home_lets_in[OF assms(5)] h(1) by simp
  then show ?thesis using r browse_through[of v req' n] by (simp add: req'_def)
qed

lemma browse_login_without_cookie:
  "\<not> truthy (pg_cookie req) \<Longrightarrow> pg_path req = ''/login'' \<Longrightarrow> browse v (Suc n) req = Some Next"
  by (simp add: middleware_def login_page_def)

lemma browse_login:
  assumes "pg_path req = ''/login''" "\<And>c. v (the (request_token req)) = Some c \<Longrightarrow> \<not> tenantless_admin c"
  shows "browse v (Suc (Suc (Suc n))) req \<noteq> None"
proof (cases "middleware v req")
  case (Redirect p q del)
  from Redirect assms(1) have t: "truthy (pg_cookie req)" "p = home_of (decodeJwtRole (the (pg_cookie req)))" "\<not> del"
    "v (the (pg_cookie req)) \<noteq> None"
    by (auto simp: middleware_def login_page_def Let_def split: if_splits)
  then obtain c where c: "v (the (pg_cookie req)) = Some c" by blast
  define req' where "req' = redirected req p del"
  have r: "request_token req' = pg_cookie req" "pg_path req' = p" "request_token req = pg_cookie req"
    using t by (simp_all add: req'_def redirected_def request_token_def)
  have "browse v (Suc (Suc n)) req' \<noteq> None"
    using browse_verified[of req' v c n] r t c home_of_is_protected assms(2)[of c] by simp
  then show ?thesis using Redirect by (simp add: req'_def)
qed (simp_all)

text \<open>C26. Every chain of redirections ends within four answers, whatever the page, the cookie and the verification
  of tokens, unless the token is that of an administrator without a tenant.\<close>

theorem redirections_end:
  assumes "\<And>c. verifyToken (the (request_token req)) = Some c \<Longrightarrow> \<not> tenantless_admin c"
  shows "\<exists>a. browse verifyToken 4 req = Some a"
proof -
  consider "pg_path req = ''/login''" | "isPublic (pg_path req)" "pg_path req \<noteq> ''/login''"
    | "\<not> isPublic (pg_path req)" "pg_path req \<noteq> ''/login''" by blast
  then have "browse verifyToken (Suc (Suc (Suc (Suc 0)))) req \<noteq> None"
  proof cases
    case 1
    then show ?thesis using browse_login assms by blast
  next
    case 2
    then show ?thesis by (intro browse_through) (simp add: middleware_def)
  next
    case 3
    consider "\<not> truthy (request_token req)" | "truthy (request_token req)" "verifyToken (the (request_token req)) = None"
      | c where "truthy (request_token req)" "verifyToken (the (request_token req)) = Some c" by blast
    then show ?thesis
    proof cases
      case a: 1
      then have "middleware verifyToken req = Redirect ''/login'' [(''redirect'', pg_path req)] False"
        using 3 by (simp add: middleware_def)
      moreover have "\<not> truthy (pg_cookie req)" using a by (auto simp: request_token_def split: if_splits)
      ultimately show ?thesis
        by (simp only: browse.simps portal_answer.case redirected_def)
          (simp add: middleware_def login_page_def)
    next
      case b: 2
      then have "middleware verifyToken req = Redirect ''/login'' [] True"
        using 3 by (simp add: middleware_def)
      then show ?thesis
        by (simp only: browse.simps portal_answer.case redirected_def)
          (simp add: middleware_def login_page_def truthy_def)
    next
      case c: 3
      then show ?thesis using 3 browse_verified assms by blast
    qed
  qed
  then show ?thesis by (simp add: numeral_eq_Suc)
qed

lemma redirections_end_witness:
  "\<exists>a. browse (\<lambda>t. if t = ''t'' then Some \<lparr>cl_role = ''USER'', cl_tenantId = None, cl_tenantSlug = None\<rparr> else None) 4
     \<lparr>pg_path = ''/admin'', pg_cookie = Some ''t'', pg_authorization = None\<rparr> = Some a"
  by (rule redirections_end) (auto simp: tenantless_admin_def split: if_splits)

section \<open>The administrator without a tenant\<close>

text \<open>An administrator without a tenant is sent from the login page to the portal and back without end.\<close>

lemma tenantless_admin_never_arrives:
  assumes "truthy (pg_cookie req)" "verifyToken (the (pg_cookie req)) = Some c" "tenantless_admin c"
    "decodeJwtRole (the (pg_cookie req)) = Str (cl_role c)"
  shows "pg_path req = ''/login'' \<or> pg_path req = ''/admin'' \<Longrightarrow> browse verifyToken n req = None"
  using assms
proof (induction n arbitrary: req)
  case 0
  then show ?case by simp
next
  case (Suc n)
  have c: "cl_role c = ''ADMIN''" "\<not> truthy (cl_tenantId c)" "\<not> truthy (cl_tenantSlug c)"
    using Suc.prems(4) by (simp_all add: tenantless_admin_def has_tenant_def)
  have g: "find (\<lambda>g. startsWith ''/admin'' (fst g)) route_guards = Some (''/admin'', [''ADMIN''])"
    by (rule guard_of_path) (simp_all add: route_guards_def startsWith_def)
  have p: "\<not> isPublic ''/admin''" by (simp add: isPublic_def public_paths_def startsWith_def)
  have "middleware verifyToken req = Redirect ''/admin'' [] False \<or>
        middleware verifyToken req = Redirect ''/login'' [(''error'', ''no_tenant'')] False"
    using Suc.prems c g p
    by (auto simp: middleware_def login_page_def Let_def home_of_def role_redirect_def request_token_def
        check_guards_def)
  then show ?case
  proof
    assume m: "middleware verifyToken req = Redirect ''/admin'' [] False"
    show ?thesis using m Suc.IH[of "redirected req ''/admin'' False"] Suc.prems by (simp add: redirected_def)
  next
    assume m: "middleware verifyToken req = Redirect ''/login'' [(''error'', ''no_tenant'')] False"
    show ?thesis using m Suc.IH[of "redirected req ''/login'' False"] Suc.prems by (simp add: redirected_def)
  qed
qed

section \<open>The session\<close>

text \<open>After a logout every guarded page leads to the login page, which is then shown.\<close>

definition page_of :: "session \<Rightarrow> string \<Rightarrow> page_request" where
  "page_of s path = \<lparr>pg_path = path, pg_cookie = se_cookie s, pg_authorization = None\<rparr>"

lemma logout_is_complete:
  assumes "(p, roles) \<in> set route_guards" "startsWith path p"
  shows "middleware v (page_of (logout s) path) = Redirect ''/login'' [(''redirect'', path)] False"
    "middleware v (page_of (logout s) ''/login'') = Next"
    "se_cookie (rehydrate (logout s)) = None"
  using guarded_not_public[OF assms]
  by (simp_all add: page_of_def logout_def middleware_def login_page_def request_token_def truthy_def rehydrate_def)

text \<open>A session set is the one a page load restores.\<close>

lemma session_survives_reload:
  assumes "token \<noteq> []"
  shows "se_user (rehydrate (setAuth u token s)) = Some u \<and> se_token (rehydrate (setAuth u token s)) = Some token
    \<and> se_cookie (rehydrate ((setAuth u token s)\<lparr>se_cookie := None\<rparr>)) = Some token"
  using assms by (simp add: rehydrate_def setAuth_def truthy_def)

text \<open>The client-side guard shows a page to the user of an allowed role also without a token: it redirects but
  does not hide the page.\<close>

lemma client_guard_shows_without_token:
  "se_hasHydrated s \<Longrightarrow> se_user s = Some u \<Longrightarrow> us_role u \<in> set rs \<Longrightarrow> \<not> truthy (se_token s) \<Longrightarrow>
   usePortalGuard rs s = (Some ''/login'', True)"
  by (simp add: usePortalGuard_def)

end
