(* ===== verification/Access.thy ===== *)
theory Access
  imports Json
begin

text \<open>
  Who may call what: the guards of \<open>backend/src/common/guards\<close>, \<open>auth/guards/roles.guard.ts\<close> and
  \<open>platform/guards\<close>, the feature flags of \<open>platform/feature.service.ts\<close>, and the two interceptors
  \<open>common/interceptors/idempotency.interceptor.ts\<close> and \<open>prisma-retry.interceptor.ts\<close>. The
  metadata of a route is an argument; the cache of the idempotency interceptor is a parameter.
\<close>

section \<open>Roles\<close>

record guard_user =
  gu_role :: string
  gu_tenantId :: "string option"
  gu_theaterId :: "string option"

record guard_request =
  gr_user :: "guard_user option"
  gr_tenantId :: "string option"
  gr_param_theater :: "string option"
  gr_body_theater :: "string option"
  gr_query_theater :: "string option"
  gr_method :: string
  gr_url :: string

text \<open>\<open>a || b\<close> on optional strings.\<close>

definition or_else :: "string option \<Rightarrow> string option \<Rightarrow> string option" where
  "or_else a b = (if truthy a then a else b)"

definition requested_theater :: "guard_request \<Rightarrow> string option" where
  "requested_theater req =
     or_else (or_else (gr_param_theater req) (gr_body_theater req)) (gr_query_theater req)"

definition role_guard :: "string list option \<Rightarrow> string option \<Rightarrow> guard_request \<Rightarrow> bool outcome" where
  "role_guard requiredRoles resolvedTenantId req =
     (case gr_user req of
        None \<Rightarrow> Inr True
      | Some user \<Rightarrow>
          if gu_role user = ''SUPER_ADMIN'' then Inr True
          else if truthy resolvedTenantId \<and> truthy (gu_tenantId user) \<and> gu_tenantId user \<noteq> resolvedTenantId
          then Inl (Forbidden ''Tenant mismatch between token and request'')
          else if (case requiredRoles of None \<Rightarrow> False | Some rs \<Rightarrow> \<not> list_ex (\<lambda>role. gu_role user = role) rs)
          then Inl (Forbidden ''Insufficient permissions'')
          else if gu_role user = ''THEATER_MANAGER'' \<or> gu_role user = ''STAFF'' then
            (let theaterId = requested_theater req
             in if truthy theaterId \<and> gu_theaterId user \<noteq> theaterId
                then Inl (Forbidden ''Access to this theater is restricted'') else Inr True)
          else Inr True)"

definition roles_guard :: "string list option \<Rightarrow> guard_request \<Rightarrow> bool" where
  "roles_guard requiredRoles req =
     (case requiredRoles of
        None \<Rightarrow> True
      | Some rs \<Rightarrow>
          (case gr_user req of
             None \<Rightarrow> False
           | Some user \<Rightarrow> gu_role user = ''SUPER_ADMIN'' \<or> list_ex (\<lambda>role. gu_role user = role) rs))"

definition super_admin_guard :: "guard_request \<Rightarrow> bool outcome" where
  "super_admin_guard req =
     (case gr_user req of
        None \<Rightarrow> Inl (Forbidden ''Authentication required'')
      | Some user \<Rightarrow> if gu_role user \<noteq> ''SUPER_ADMIN'' then Inl (Forbidden ''Super Admin access required'') else Inr True)"

text \<open>\<open>handleRequest\<close> of the optional guard: an error is thrown, a missing user is \<open>null\<close>.\<close>

fun optional_jwt :: "http_error option \<Rightarrow> guard_user option \<Rightarrow> guard_user option outcome" where
  "optional_jwt (Some err) user = Inl err"
| "optional_jwt None user = Inr user"

section \<open>Plans\<close>

record plan_tenant =
  pt_id :: string
  pt_status :: string
  pt_monthlyBookingCount :: int
  pt_bookingLimit :: int

definition guard_tenant :: "guard_request \<Rightarrow> string option" where
  "guard_tenant req =
     or_else (gr_tenantId req) (case gr_user req of None \<Rightarrow> None | Some u \<Rightarrow> gu_tenantId u)"

fun contains_text :: "string \<Rightarrow> string \<Rightarrow> bool" where
  "contains_text [] p = (p = [])"
| "contains_text (c # s) p = (take (length p) (c # s) = p \<or> contains_text s p)"

definition plan_guard :: "plan_tenant list \<Rightarrow> guard_request \<Rightarrow> bool outcome" where
  "plan_guard tenants req =
     (if \<not> truthy (guard_tenant req) then Inr True
      else case find (\<lambda>t. pt_id t = the (guard_tenant req)) tenants of
        None \<Rightarrow> Inr True
      | Some t \<Rightarrow>
          if pt_status t \<noteq> ''ACTIVE'' \<and> pt_status t \<noteq> ''TRIAL''
          then Inl (Forbidden ''Tenant access is suspended. Please contact billing.'')
          else if gr_method req = ''POST'' \<and> contains_text (gr_url req) ''/bookings''
               \<and> pt_monthlyBookingCount t \<ge> pt_bookingLimit t
          then Inl (Forbidden ''Monthly booking limit reached for your current plan. Please upgrade.'')
          else Inr True)"

section \<open>Feature flags\<close>

record feature_flag =
  ff_id :: string
  ff_key :: string
  ff_tenantId :: "string option"
  ff_enabled :: bool

definition find_flag :: "string \<Rightarrow> string option \<Rightarrow> feature_flag list \<Rightarrow> feature_flag option" where
  "find_flag k t flags = find (\<lambda>f. ff_key f = k \<and> ff_tenantId f = t) flags"

definition isEnabled :: "string \<Rightarrow> string option \<Rightarrow> feature_flag list \<Rightarrow> bool" where
  "isEnabled k tenantId flags =
     (let global = (case find_flag k None flags of None \<Rightarrow> False | Some f \<Rightarrow> ff_enabled f)
      in if truthy tenantId
         then (case find_flag k tenantId flags of Some f \<Rightarrow> ff_enabled f | None \<Rightarrow> global)
         else global)"

definition setFlag :: "string \<Rightarrow> string \<Rightarrow> bool \<Rightarrow> string option \<Rightarrow> feature_flag list \<Rightarrow> feature_flag list" where
  "setFlag newId k enabled tenantId flags =
     (case find_flag k tenantId flags of
        Some existing \<Rightarrow> update_where (\<lambda>f. ff_id f = ff_id existing) (\<lambda>f. f\<lparr>ff_enabled := enabled\<rparr>) flags
      | None \<Rightarrow> flags @ [\<lparr>ff_id = newId, ff_key = k, ff_tenantId = tenantId, ff_enabled = enabled\<rparr>])"

definition feature_guard :: "string option \<Rightarrow> feature_flag list \<Rightarrow> guard_request \<Rightarrow> bool outcome" where
  "feature_guard feature flags req =
     (if \<not> truthy feature then Inr True
      else if isEnabled (the feature) (guard_tenant req) flags then Inr True
      else Inl (Forbidden (''Feature '' @ [CHR 39] @ the feature @ [CHR 39] @ '' is currently disabled by platform'')))"

section \<open>Interceptors\<close>

text \<open>The handler's answer is an error or a value; a value is stored for five minutes once the handler is done.
  The lookup and the write are two steps, between which other requests are served.\<close>

definition idempotency_lookup :: "('c \<Rightarrow> string \<Rightarrow> json option) \<Rightarrow> string option \<Rightarrow> 'c \<Rightarrow> json option" where
  "idempotency_lookup get key c =
     (if truthy key then (case get c (the key) of Some v \<Rightarrow> if json_truthy v then Some v else None | None \<Rightarrow> None) else None)"

definition idempotency_store ::
  "(string \<Rightarrow> json \<Rightarrow> nat \<Rightarrow> 'c \<Rightarrow> 'c) \<Rightarrow> string option \<Rightarrow> json outcome \<Rightarrow> 'c \<Rightarrow> 'c" where
  "idempotency_store put key r c =
     (case r of Inl _ \<Rightarrow> c | Inr response \<Rightarrow> if truthy key then put (the key) response 300000 c else c)"

definition idempotent ::
  "('c \<Rightarrow> string \<Rightarrow> json option) \<Rightarrow> (string \<Rightarrow> json \<Rightarrow> nat \<Rightarrow> 'c \<Rightarrow> 'c) \<Rightarrow> ('s \<Rightarrow> 's \<times> json outcome) \<Rightarrow> string option \<Rightarrow>
   'c \<times> 's \<Rightarrow> ('c \<times> 's) \<times> json outcome" where
  "idempotent get put handle key cs =
     (case idempotency_lookup get key (fst cs) of
        Some v \<Rightarrow> (cs, Inr v)
      | None \<Rightarrow> (let (s', r) = handle (snd cs) in ((idempotency_store put key r (fst cs), s'), r)))"

text \<open>\<open>retry({ count: 1 })\<close> calls the handler again after an error, whatever the first call did.\<close>

definition prisma_retry :: "('s \<Rightarrow> 's \<times> 'a outcome) \<Rightarrow> 's \<Rightarrow> 's \<times> 'a outcome" where
  "prisma_retry handle s = (case handle s of (s', Inl _) \<Rightarrow> handle s' | r \<Rightarrow> r)"

definition errCodeIsNetwork :: "string option \<Rightarrow> bool" where
  "errCodeIsNetwork message =
     (let msg = or_str (map_option to_lower message) []
      in contains_text msg ''econnreset'' \<or> contains_text msg ''connection terminated'' \<or> contains_text msg ''pool timeout'')"

section \<open>What the guards admit\<close>

text \<open>A member of a theater's staff reaches no other theater, and no tenant but their own.\<close>

lemma role_guard_admits:
  assumes "role_guard requiredRoles resolved req = Inr b" "gr_user req = Some u" "gu_role u \<noteq> ''SUPER_ADMIN''"
  shows "truthy resolved \<Longrightarrow> truthy (gu_tenantId u) \<Longrightarrow> gu_tenantId u = resolved"
    "requiredRoles = Some rs \<Longrightarrow> gu_role u \<in> set rs"
    "gu_role u \<in> {''THEATER_MANAGER'', ''STAFF''} \<Longrightarrow> truthy (requested_theater req) \<Longrightarrow>
       gu_theaterId u = requested_theater req"
  using assms by (auto simp: role_guard_def Let_def list_ex_iff split: if_splits)

text \<open>The two role guards agree on a request of a user when the tenant and the theater are not at stake.\<close>

lemma role_guard_eq_roles_guard:
  assumes "gr_user req = Some u" "\<not> truthy resolved" "\<not> truthy (requested_theater req)"
  shows "is_ok (role_guard rs resolved req) = roles_guard rs req"
  using assms by (auto simp: role_guard_def roles_guard_def Let_def list_ex_iff split: option.splits)

text \<open>They differ on a request without a user.\<close>

lemma role_guard_without_user:
  "gr_user req = None \<Longrightarrow> role_guard rs resolved req = Inr True \<and> (roles_guard (Some r) req = False)"
  by (simp add: role_guard_def roles_guard_def)

text \<open>A user without a tenant passes the tenant check of every tenant.\<close>

lemma role_guard_without_tenant:
  assumes "gr_user req = Some u" "\<not> truthy (gu_tenantId u)" "gu_role u \<in> set rs" "\<not> truthy (requested_theater req)"
  shows "role_guard (Some rs) resolved req = Inr True"
  using assms by (auto simp: role_guard_def Let_def list_ex_iff)

lemma super_admin_guard_iff:
  "is_ok (super_admin_guard req) \<longleftrightarrow> (\<exists>u. gr_user req = Some u \<and> gu_role u = ''SUPER_ADMIN'')"
  by (auto simp: super_admin_guard_def split: option.splits)

lemma contains_text_iff: "contains_text s p \<longleftrightarrow> (\<exists>a b. s = a @ p @ b)"
proof (induction s p rule: contains_text.induct)
  case (2 c s p)
  have "take (length p) (c # s) = p \<longleftrightarrow> (\<exists>b. c # s = p @ b)"
    by (metis append_eq_conv_conj append_take_drop_id)
  moreover have "(\<exists>a b. c # s = a @ p @ b) \<longleftrightarrow> (\<exists>b. c # s = p @ b) \<or> (\<exists>a b. s = a @ p @ b)"
    by (metis append_Cons append_Nil list.inject neq_Nil_conv)
  ultimately show ?case using 2 by simp
qed auto

text \<open>Over its limit a tenant takes no booking, whatever the path before and after.\<close>

lemma plan_guard_limit:
  assumes "find (\<lambda>t. pt_id t = tid) tenants = Some t" "pt_monthlyBookingCount t \<ge> pt_bookingLimit t"
    "guard_tenant req = Some tid" "tid \<noteq> []" "gr_method req = ''POST''" "gr_url req = a @ ''/bookings'' @ b"
  shows "\<not> is_ok (plan_guard tenants req)"
proof -
  have "contains_text (gr_url req) ''/bookings''" unfolding contains_text_iff using assms(6) by blast
  then show ?thesis using assms by (simp add: plan_guard_def)
qed

lemma plan_guard_suspended:
  assumes "find (\<lambda>t. pt_id t = tid) tenants = Some t" "pt_status t \<notin> {''ACTIVE'', ''TRIAL''}"
    "guard_tenant req = Some tid" "tid \<noteq> []"
  shows "plan_guard tenants req = Inl (Forbidden ''Tenant access is suspended. Please contact billing.'')"
  using assms by (simp add: plan_guard_def)

section \<open>What a flag decides\<close>

lemma find_flag_update:
  assumes "distinct (map ff_id flags)" "find_flag k t flags = Some f"
  shows "find_flag k' t' (update_where (\<lambda>g. ff_id g = ff_id f) (\<lambda>g. g\<lparr>ff_enabled := e\<rparr>) flags) =
    (if k' = k \<and> t' = t then Some (f\<lparr>ff_enabled := e\<rparr>) else find_flag k' t' flags)"
  using assms
proof (induction flags)
  case Nil
  then show ?case by (simp add: find_flag_def)
next
  case (Cons g flags)
  show ?case
  proof (cases "ff_key g = k \<and> ff_tenantId g = t")
    case True
    then have f: "f = g" using Cons.prems(2) by (simp add: find_flag_def)
    have "update_where (\<lambda>h. ff_id h = ff_id g) (\<lambda>h. h\<lparr>ff_enabled := e\<rparr>) flags = flags"
      using Cons.prems(1) by (intro update_where_none) (auto simp: image_iff)
    then show ?thesis using True f by (auto simp: find_flag_def)
  next
    case False
    then have s: "find_flag k t flags = Some f"
      using Cons.prems(2) unfolding find_flag_def find.simps by (simp only: if_False)
    then have "f \<in> set flags" by (auto simp: find_flag_def dest: find_in)
    then have "ff_id g \<noteq> ff_id f" using Cons.prems(1) by force
    then show ?thesis using Cons.IH[OF _ s] Cons.prems(1) False by (auto simp: find_flag_def)
  qed
qed

lemma find_flag_set:
  assumes "distinct (map ff_id flags)"
  shows "map_option ff_enabled (find_flag k' t' (setFlag i k e t flags)) =
    (if k' = k \<and> t' = t then Some e else map_option ff_enabled (find_flag k' t' flags))"
proof (cases "find_flag k t flags")
  case None
  have "find_flag k' t' (flags @ [r]) = (case find_flag k' t' flags of Some f \<Rightarrow> Some f
      | None \<Rightarrow> find_flag k' t' [r])" for r
    by (induction flags) (auto simp: find_flag_def)
  then show ?thesis using None by (auto simp: setFlag_def find_flag_def split: option.splits)
next
  case (Some f)
  then show ?thesis using find_flag_update[OF assms Some] by (simp add: setFlag_def)
qed

lemma isEnabled_alt:
  "isEnabled k t flags = (case (if truthy t then map_option ff_enabled (find_flag k t flags) else None) of
     Some b \<Rightarrow> b | None \<Rightarrow> (case map_option ff_enabled (find_flag k None flags) of Some b \<Rightarrow> b | None \<Rightarrow> False))"
  by (auto simp: isEnabled_def Let_def split: option.splits)

text \<open>Setting a flag decides the feature for the tenant it is set for, or, set for all, for every tenant without
  a flag of its own; every other answer stays.\<close>

theorem setFlag_decides:
  assumes "distinct (map ff_id flags)"
  shows "isEnabled k' t' (setFlag i k e t flags) =
    (if k' = k \<and> (t' = t \<and> truthy t \<or> t = None \<and> (truthy t' \<longrightarrow> find_flag k t' flags = None))
     then e else isEnabled k' t' flags)"
  unfolding isEnabled_alt find_flag_set[OF assms]
  by (auto split: option.splits)

lemma setFlag_decides_witness:
  "isEnabled ''SCANNER'' (Some ''t1'') (setFlag ''f2'' ''SCANNER'' True None
      [\<lparr>ff_id = ''f1'', ff_key = ''SCANNER'', ff_tenantId = Some ''t2'', ff_enabled = False\<rparr>])
   \<and> \<not> isEnabled ''SCANNER'' (Some ''t2'') (setFlag ''f2'' ''SCANNER'' True None
      [\<lparr>ff_id = ''f1'', ff_key = ''SCANNER'', ff_tenantId = Some ''t2'', ff_enabled = False\<rparr>])"
  by (subst setFlag_decides, simp, subst setFlag_decides, simp) (simp add: isEnabled_def find_flag_def)

text \<open>A flag keeps its identity: a feature has one flag per tenant however often it is set.\<close>

lemma setFlag_unique:
  assumes "distinct (map (\<lambda>f. (ff_key f, ff_tenantId f)) flags)"
  shows "distinct (map (\<lambda>f. (ff_key f, ff_tenantId f)) (setFlag i k e t flags))"
proof (cases "find_flag k t flags")
  case None
  then have "\<forall>f \<in> set flags. (ff_key f, ff_tenantId f) \<noteq> (k, t)"
    by (auto simp: find_flag_def find_None_iff)
  then show ?thesis using assms None by (auto simp: setFlag_def image_iff)
next
  case (Some f)
  then show ?thesis using assms by (simp add: setFlag_def map_update_where)
qed

section \<open>Idempotency keys\<close>

text \<open>A second request with the key of an answered one is answered from the cache: the handler is not called.\<close>

lemma replay_is_not_handled:
  assumes "key = Some k" "k \<noteq> []" "idempotency_lookup get key c = None" "handle s = (s', Inr v)" "json_truthy v"
    and cache: "\<And>w c'. get (put k w 300000 c') k = Some w"
  shows "idempotent get put handle' key (fst (idempotent get put handle key (c, s))) =
    (fst (idempotent get put handle key (c, s)), Inr v)"
  using assms by (simp add: idempotent_def idempotency_store_def idempotency_lookup_def)

text \<open>The key is the header alone: the answer is replayed to any handler and user that sends the same key.\<close>

lemma replay_crosses_handlers:
  assumes "k \<noteq> []" "get c k = Some v" "json_truthy v"
  shows "idempotent get put handle' (Some k) (c, s) = ((c, s), Inr v)"
  using assms by (simp add: idempotent_def idempotency_lookup_def)

text \<open>The key is not reserved while its request is handled: of two requests that both look it up before either
  is stored, both are handled and the second answer replaces the first.\<close>

lemma concurrent_requests_both_handled:
  assumes "idempotency_lookup get key c = None" "handle s = (s', r)" "handle s' = (s'', r')"
  shows "let after_first = idempotency_store put key r c
    in idempotent get put handle key (c, s) = ((after_first, s'), r)
     \<and> idempotent get put handle key (c, s') = ((idempotency_store put key r' c, s''), r')"
  using assms by (simp add: idempotent_def)

text \<open>The retry repeats the effects of a failed call.\<close>

lemma retry_repeats_effects:
  "prisma_retry (\<lambda>n. (n + 1, Inl e)) (n :: nat) = (n + 2, Inl e)"
  by (simp add: prisma_retry_def)

lemma retry_no_error: "handle s = (s', Inr v) \<Longrightarrow> prisma_retry handle s = (s', Inr v)"
  by (simp add: prisma_retry_def)

end
