(* ===== verification/Anomalies.thy ===== *)
theory Anomalies
  imports Base
begin

text \<open>
  Anomaly detection: \<open>backend/src/platform/anomaly-detection.service.ts\<close>. For every tenant the
  service keeps the times of the bookings and of the payment failures of the last minute; the
  specification below keeps every event for ever. Times are milliseconds; the clock is read when an
  event is recorded and again when the window is evaluated.
\<close>

section \<open>The service\<close>

record tenant_metrics =
  tm_bookingCount :: "int list"
  tm_failureCount :: "int list"
  tm_lastWindowReset :: int

type_synonym detector = "string \<Rightarrow> tenant_metrics option"

definition bookings_per_minute :: nat where
  "bookings_per_minute = 50"

definition failures_per_minute :: nat where
  "failures_per_minute = 30"

definition getMetrics :: "string \<Rightarrow> int \<Rightarrow> detector \<Rightarrow> tenant_metrics" where
  "getMetrics tenantId now metrics =
     (case metrics tenantId of
        None \<Rightarrow> \<lparr>tm_bookingCount = [], tm_failureCount = [], tm_lastWindowReset = now\<rparr>
      | Some m \<Rightarrow> m)"

definition over_threshold :: "nat \<Rightarrow> nat \<Rightarrow> bool" where
  "over_threshold bookings failures \<longleftrightarrow> bookings > bookings_per_minute \<or> failures > failures_per_minute"

definition pruned :: "int \<Rightarrow> tenant_metrics \<Rightarrow> tenant_metrics" where
  "pruned now m =
     (let minuteAgo = now - 60000
      in m\<lparr>tm_bookingCount := filter (\<lambda>t. t > minuteAgo) (tm_bookingCount m),
           tm_failureCount := filter (\<lambda>t. t > minuteAgo) (tm_failureCount m)\<rparr>)"

definition evaluate :: "string \<Rightarrow> int \<Rightarrow> tenant_metrics \<Rightarrow> detector \<Rightarrow> detector \<times> bool" where
  "evaluate tenantId now m metrics =
     (let m' = pruned now m
      in (metrics(tenantId \<mapsto> m'), over_threshold (length (tm_bookingCount m')) (length (tm_failureCount m'))))"

definition trackBooking :: "string \<Rightarrow> int \<Rightarrow> int \<Rightarrow> detector \<Rightarrow> detector \<times> bool" where
  "trackBooking tenantId recorded now metrics =
     (let m = getMetrics tenantId recorded metrics
      in evaluate tenantId now (m\<lparr>tm_bookingCount := tm_bookingCount m @ [recorded]\<rparr>) metrics)"

definition trackFailure :: "string \<Rightarrow> int \<Rightarrow> int \<Rightarrow> detector \<Rightarrow> detector \<times> bool" where
  "trackFailure tenantId recorded now metrics =
     (let m = getMetrics tenantId recorded metrics
      in evaluate tenantId now (m\<lparr>tm_failureCount := tm_failureCount m @ [recorded]\<rparr>) metrics)"

record health =
  he_anomalyFlag :: bool
  he_bookings :: nat
  he_failures :: nat

definition getHealth :: "string \<Rightarrow> int \<Rightarrow> detector \<Rightarrow> health" where
  "getHealth tenantId now metrics =
     (case metrics tenantId of
        None \<Rightarrow> \<lparr>he_anomalyFlag = False, he_bookings = 0, he_failures = 0\<rparr>
      | Some m \<Rightarrow>
          (let minuteAgo = now - 60000;
               bRate = length (filter (\<lambda>t. t > minuteAgo) (tm_bookingCount m));
               fRate = length (filter (\<lambda>t. t > minuteAgo) (tm_failureCount m))
           in \<lparr>he_anomalyFlag = over_threshold bRate fRate, he_bookings = bRate, he_failures = fRate\<rparr>))"

section \<open>The specification: every event is kept\<close>

datatype observation = Booking | Failure

record observed =
  ob_kind :: observation
  ob_tenant :: string
  ob_recorded :: int
  ob_evaluated :: int

definition recorded_times :: "observation \<Rightarrow> string \<Rightarrow> observed list \<Rightarrow> int list" where
  "recorded_times k tenantId es = map ob_recorded (filter (\<lambda>e. ob_kind e = k \<and> ob_tenant e = tenantId) es)"

definition rate :: "observation \<Rightarrow> string \<Rightarrow> int \<Rightarrow> observed list \<Rightarrow> nat" where
  "rate k tenantId now es = length (filter (\<lambda>t. t > now - 60000) (recorded_times k tenantId es))"

definition anomalous :: "string \<Rightarrow> int \<Rightarrow> observed list \<Rightarrow> bool" where
  "anomalous tenantId now es \<longleftrightarrow> over_threshold (rate Booking tenantId now es) (rate Failure tenantId now es)"

definition track :: "observed \<Rightarrow> detector \<Rightarrow> detector \<times> bool" where
  "track e metrics =
     (case ob_kind e of
        Booking \<Rightarrow> trackBooking (ob_tenant e) (ob_recorded e) (ob_evaluated e) metrics
      | Failure \<Rightarrow> trackFailure (ob_tenant e) (ob_recorded e) (ob_evaluated e) metrics)"

definition track_all :: "observed list \<Rightarrow> detector" where
  "track_all es = foldl (\<lambda>m e. fst (track e m)) (\<lambda>_. None) es"

text \<open>The clock does not go back between the calls.\<close>

definition clocked :: "observed list \<Rightarrow> bool" where
  "clocked es \<longleftrightarrow> sorted (map ob_evaluated es)"

section \<open>The window agrees with the history\<close>

text \<open>What a tenant's window holds: the recorded times later than some cut that no later question looks behind.\<close>

definition windowed :: "detector \<Rightarrow> observed list \<Rightarrow> int \<Rightarrow> string \<Rightarrow> bool" where
  "windowed m es now tid \<longleftrightarrow>
     (case m tid of
        None \<Rightarrow> recorded_times Booking tid es = [] \<and> recorded_times Failure tid es = []
      | Some w \<Rightarrow> (\<exists>c \<le> now - 60000. tm_bookingCount w = filter (\<lambda>t. t > c) (recorded_times Booking tid es)
                               \<and> tm_failureCount w = filter (\<lambda>t. t > c) (recorded_times Failure tid es)))"

lemma filter_later: "c \<le> (d :: int) \<Longrightarrow> filter (\<lambda>t. c < t \<and> d < t) ts = filter ((<) d) ts"
  by (rule filter_cong) auto

lemma recorded_times_snoc:
  "recorded_times k tid (es @ [e]) =
     recorded_times k tid es @ (if ob_kind e = k \<and> ob_tenant e = tid then [ob_recorded e] else [])"
  by (simp add: recorded_times_def)

lemma windowed_later:
  assumes "windowed m es now tid" "now \<le> now'"
  shows "windowed m es now' tid"
proof -
  have "c \<le> now' - 60000" if "c \<le> now - 60000" for c using assms(2) that by simp
  then show ?thesis using assms(1) unfolding windowed_def by (cases "m tid") (simp, simp, blast)
qed

lemma other_times_snoc:
  "ob_tenant e \<noteq> tid \<Longrightarrow> recorded_times k tid (es @ [e]) = recorded_times k tid es"
  by (simp add: recorded_times_snoc)

lemma windowed_health:
  assumes "windowed m es now tid"
  shows "getHealth tid now m =
    \<lparr>he_anomalyFlag = anomalous tid now es, he_bookings = rate Booking tid now es, he_failures = rate Failure tid now es\<rparr>"
proof (cases "m tid")
  case None
  with assms show ?thesis
    by (simp add: windowed_def getHealth_def anomalous_def rate_def over_threshold_def)
next
  case (Some w)
  with assms obtain c where c: "c \<le> now - 60000"
    "tm_bookingCount w = filter (\<lambda>t. t > c) (recorded_times Booking tid es)"
    "tm_failureCount w = filter (\<lambda>t. t > c) (recorded_times Failure tid es)"
    by (auto simp: windowed_def)
  show ?thesis
    using Some by (simp add: getHealth_def anomalous_def rate_def Let_def c(2,3) filter_later[OF c(1)])
qed

text \<open>The window of the tenant of an event, with the event recorded in it.\<close>

definition recorded_in :: "observed \<Rightarrow> detector \<Rightarrow> tenant_metrics" where
  "recorded_in e m =
     (let w = getMetrics (ob_tenant e) (ob_recorded e) m
      in case ob_kind e of
           Booking \<Rightarrow> w\<lparr>tm_bookingCount := tm_bookingCount w @ [ob_recorded e]\<rparr>
         | Failure \<Rightarrow> w\<lparr>tm_failureCount := tm_failureCount w @ [ob_recorded e]\<rparr>)"

lemma track_alt: "track e m = evaluate (ob_tenant e) (ob_evaluated e) (recorded_in e m) m"
  by (simp add: track_def trackBooking_def trackFailure_def recorded_in_def Let_def split: observation.splits)

lemma recorded_in_window:
  assumes "windowed m es (ob_evaluated e) (ob_tenant e)"
  shows "pruned (ob_evaluated e) (recorded_in e m) =
    \<lparr>tm_bookingCount = filter (\<lambda>t. t > ob_evaluated e - 60000) (recorded_times Booking (ob_tenant e) (es @ [e])),
     tm_failureCount = filter (\<lambda>t. t > ob_evaluated e - 60000) (recorded_times Failure (ob_tenant e) (es @ [e])),
     tm_lastWindowReset = tm_lastWindowReset (recorded_in e m)\<rparr>"
proof (cases "m (ob_tenant e)")
  case None
  with assms show ?thesis
    by (cases "ob_kind e") (simp_all add: windowed_def pruned_def recorded_in_def getMetrics_def recorded_times_snoc Let_def)
next
  case (Some w)
  with assms obtain c where c: "c \<le> ob_evaluated e - 60000"
    "tm_bookingCount w = filter (\<lambda>t. t > c) (recorded_times Booking (ob_tenant e) es)"
    "tm_failureCount w = filter (\<lambda>t. t > c) (recorded_times Failure (ob_tenant e) es)"
    by (auto simp: windowed_def)
  show ?thesis
    using Some
    by (cases "ob_kind e")
      (simp_all add: pruned_def recorded_in_def getMetrics_def recorded_times_snoc Let_def c(2,3) filter_later[OF c(1)])
qed

lemma track_windowed:
  assumes "\<And>tid. windowed m es (ob_evaluated e) tid"
  shows "windowed (fst (track e m)) (es @ [e]) (ob_evaluated e) tid"
proof (cases "tid = ob_tenant e")
  case True
  then show ?thesis
    using recorded_in_window[OF assms]
    by (auto simp: track_alt evaluate_def Let_def windowed_def)
next
  case False
  then show ?thesis
    using assms[of tid] False[symmetric] by (simp add: track_alt evaluate_def Let_def windowed_def other_times_snoc cong: option.case_cong)
qed

lemma track_all_windowed:
  assumes "clocked es" "\<And>e. e \<in> set es \<Longrightarrow> ob_evaluated e \<le> now"
  shows "windowed (track_all es) es now tid"
  using assms
proof (induction es arbitrary: now tid rule: rev_induct)
  case Nil
  then show ?case by (simp add: track_all_def windowed_def recorded_times_def)
next
  case (snoc e es now tid)
  have "clocked es" "\<And>e'. e' \<in> set es \<Longrightarrow> ob_evaluated e' \<le> ob_evaluated e"
    using snoc.prems(1) by (auto simp: clocked_def sorted_append)
  then have "windowed (track_all es) es (ob_evaluated e) tid'" for tid'
    by (rule snoc.IH)
  then have "windowed (track_all (es @ [e])) (es @ [e]) (ob_evaluated e) tid"
    using track_windowed[of "track_all es" es e tid] by (simp add: track_all_def)
  then show ?case by (rule windowed_later) (simp add: snoc.prems(2))
qed

text \<open>C27. The service answers every call, and every question about a tenant's health, as if it had kept every event:
  forgetting what is older than a minute loses nothing, for any number of tenants and events.\<close>

theorem detector_refines_history:
  assumes "clocked (es @ [e])" "ob_evaluated e \<le> now"
  shows "snd (track e (track_all es)) = anomalous (ob_tenant e) (ob_evaluated e) (es @ [e])
    \<and> getHealth tid now (track_all (es @ [e])) =
      \<lparr>he_anomalyFlag = anomalous tid now (es @ [e]), he_bookings = rate Booking tid now (es @ [e]),
       he_failures = rate Failure tid now (es @ [e])\<rparr>"
proof
  have c: "clocked es" "\<And>e'. e' \<in> set es \<Longrightarrow> ob_evaluated e' \<le> ob_evaluated e"
    using assms(1) by (auto simp: clocked_def sorted_append)
  have "windowed (track_all es) es (ob_evaluated e) (ob_tenant e)"
    using c by (rule track_all_windowed)
  then show "snd (track e (track_all es)) = anomalous (ob_tenant e) (ob_evaluated e) (es @ [e])"
    using recorded_in_window by (simp add: track_alt evaluate_def anomalous_def rate_def Let_def)
  have "ob_evaluated e' \<le> now" if "e' \<in> set (es @ [e])" for e'
    using c(2)[of e'] assms(2) that by auto
  then show "getHealth tid now (track_all (es @ [e])) =
      \<lparr>he_anomalyFlag = anomalous tid now (es @ [e]), he_bookings = rate Booking tid now (es @ [e]),
       he_failures = rate Failure tid now (es @ [e])\<rparr>"
    by (intro windowed_health track_all_windowed assms(1))
qed

lemma detector_refines_history_witness:
  "snd (track \<lparr>ob_kind = Failure, ob_tenant = ''t'', ob_recorded = 70000, ob_evaluated = 70001\<rparr>
     (track_all [\<lparr>ob_kind = Booking, ob_tenant = ''t'', ob_recorded = 5, ob_evaluated = 5\<rparr>])) = False"
  using detector_refines_history[of "[\<lparr>ob_kind = Booking, ob_tenant = ''t'', ob_recorded = 5, ob_evaluated = 5\<rparr>]"
      "\<lparr>ob_kind = Failure, ob_tenant = ''t'', ob_recorded = 70000, ob_evaluated = 70001\<rparr>" 70001 "''t''"]
  by (simp add: clocked_def anomalous_def rate_def recorded_times_def over_threshold_def failures_per_minute_def
      bookings_per_minute_def)

text \<open>The window never holds an event of more than a minute before the last evaluation.\<close>

lemma window_is_recent:
  "\<exists>w. fst (track e m) (ob_tenant e) = Some w
     \<and> (\<forall>t \<in> set (tm_bookingCount w) \<union> set (tm_failureCount w). t > ob_evaluated e - 60000)"
  by (auto simp: track_alt evaluate_def pruned_def Let_def)

end
