(* ===== verification/Slugs.thy ===== *)
theory Slugs
  imports Base
begin

text \<open>
  Slugs: \<open>backend/src/utils/slugify.ts\<close>, its five replacements as functions on text, and the
  normal form they reach.
\<close>

section \<open>The replacements\<close>

definition is_space :: "char \<Rightarrow> bool" where
  "is_space c \<longleftrightarrow> (of_char c :: nat) \<in> {9, 10, 11, 12, 13, 32, 160}"

definition is_word :: "char \<Rightarrow> bool" where
  "is_word c \<longleftrightarrow> (let n = (of_char c :: nat)
     in 97 \<le> n \<and> n \<le> 122 \<or> 65 \<le> n \<and> n \<le> 90 \<or> 48 \<le> n \<and> n \<le> 57 \<or> n = 95)"

abbreviation dash :: char where
  "dash \<equiv> CHR ''-''"

text \<open>\<open>trim\<close>.\<close>

definition trim_text :: "string \<Rightarrow> string" where
  "trim_text s = rev (dropWhile is_space (rev (dropWhile is_space s)))"

text \<open>Every run of characters of a class becomes one character.\<close>

function replace_runs :: "(char \<Rightarrow> bool) \<Rightarrow> char \<Rightarrow> string \<Rightarrow> string" where
  "replace_runs P d [] = []"
| "replace_runs P d (c # s) =
     (if P c then d # replace_runs P d (dropWhile P s) else c # replace_runs P d s)"
  by pat_completeness auto
termination
  by (relation "measure (\<lambda>(P, d, s). length s)") (auto simp: le_imp_less_Suc length_dropWhile_le)

definition trim_dashes :: "string \<Rightarrow> string" where
  "trim_dashes s = rev (dropWhile (\<lambda>c. c = dash) (rev (dropWhile (\<lambda>c. c = dash) s)))"

definition slugify :: "string \<Rightarrow> string" where
  "slugify text =
     (let a = trim_text (to_lower text);
          b = replace_runs is_space dash a;
          c = filter (\<lambda>x. is_word x \<or> x = dash) b;
          d = replace_runs (\<lambda>x. x = dash) dash c
      in trim_dashes d)"

section \<open>The normal form\<close>

definition is_upper :: "char \<Rightarrow> bool" where
  "is_upper c \<longleftrightarrow> 65 \<le> (of_char c :: nat) \<and> (of_char c :: nat) \<le> 90"

definition apart :: "string \<Rightarrow> bool" where
  "apart s \<longleftrightarrow> successively (\<lambda>a b. \<not> (a = dash \<and> b = dash)) s"

text \<open>Lower case word characters in groups that single dashes separate.\<close>

definition is_slug :: "string \<Rightarrow> bool" where
  "is_slug s \<longleftrightarrow> list_all (\<lambda>c. (is_word c \<or> c = dash) \<and> \<not> is_upper c) s \<and> apart s
     \<and> (s \<noteq> [] \<longrightarrow> hd s \<noteq> dash \<and> last s \<noteq> dash)"

lemma lower_not_upper: "\<not> is_upper (ascii_lower c)"
  by (auto simp: is_upper_def ascii_lower_def of_char_of)

lemma lower_id: "\<not> is_upper c \<Longrightarrow> ascii_lower c = c"
  by (auto simp: is_upper_def ascii_lower_def)

lemma dash_is_lower: "\<not> is_upper dash" "\<not> is_space dash"
  by (simp_all add: is_upper_def is_space_def)

lemma word_not_space: "is_word c \<Longrightarrow> \<not> is_space c"
  by (auto simp: is_word_def is_space_def Let_def)

lemma set_replace_runs: "set (replace_runs P d s) \<subseteq> insert d (set s)"
  by (induction P d s rule: replace_runs.induct) (auto dest: set_dropWhileD)

lemma replace_runs_hd: "s \<noteq> [] \<Longrightarrow> hd (replace_runs P d s) = (if P (hd s) then d else hd s)"
  by (cases s) auto

lemma replace_runs_Nil [simp]: "replace_runs P d s = [] \<longleftrightarrow> s = []"
  by (cases s) auto

lemma successively_replace_runs:
  assumes "\<And>c. P c \<longleftrightarrow> c = d"
  shows "successively (\<lambda>a b. \<not> (a = d \<and> b = d)) (replace_runs P d s)"
  using assms
proof (induction P d s rule: replace_runs.induct)
  case (2 P d c s)
  have "hd (replace_runs P d (dropWhile P s)) \<noteq> d" if "dropWhile P s \<noteq> []"
    using replace_runs_hd[OF that, of P d] hd_dropWhile[OF that] 2(3)[of "hd (dropWhile P s)"] by metis
  note h = this
  show ?case
  proof (cases "P c")
    case True
    from 2(1)[OF True 2(3)] h True show ?thesis by (simp add: successively_Cons) blast
  next
    case False
    then have "c \<noteq> d" using 2(3) by simp
    with 2(2)[OF False 2(3)] False show ?thesis by (simp add: successively_Cons)
  qed
qed simp

lemma replace_runs_id:
  assumes "list_all (\<lambda>c. \<not> P c) s"
  shows "replace_runs P d s = s"
  using assms by (induction s) auto

lemma collapse_id: "apart s \<Longrightarrow> replace_runs (\<lambda>x. x = dash) dash s = s"
proof (induction s rule: induct_list012)
  case (3 a b s)
  then show ?case by (auto simp: apart_def)
qed (auto simp: apart_def)

lemma dropWhile_none: "list_all (\<lambda>c. \<not> P c) xs \<Longrightarrow> dropWhile P xs = xs"
  by (cases xs) auto

lemma trim_text_id: "list_all (\<lambda>c. \<not> is_space c) s \<Longrightarrow> trim_text s = s"
  using dropWhile_none[of is_space s] dropWhile_none[of is_space "rev s"] by (simp add: trim_text_def)

lemma trim_dashes_id: "s \<noteq> [] \<longrightarrow> hd s \<noteq> dash \<and> last s \<noteq> dash \<Longrightarrow> trim_dashes s = s"
  using dropWhile_eq_self_iff[of "\<lambda>c. c = dash" s] dropWhile_eq_self_iff[of "\<lambda>c. c = dash" "rev s"]
  by (auto simp: trim_dashes_def hd_rev)

lemma set_trim_dashes: "set (trim_dashes s) \<subseteq> set s"
  by (auto simp: trim_dashes_def dest!: set_dropWhileD)

lemma set_trim_text: "set (trim_text s) \<subseteq> set s"
  by (auto simp: trim_text_def dest!: set_dropWhileD)

lemma apart_dropWhile: "apart s \<Longrightarrow> apart (dropWhile P s)"
  unfolding apart_def by (metis successively_append_iff takeWhile_dropWhile_id)

lemma apart_rev: "apart (rev s) = apart s"
  unfolding apart_def successively_rev by (rule arg_cong[where f = "\<lambda>p. successively p s"]) auto

lemma apart_trim_dashes: "apart s \<Longrightarrow> apart (trim_dashes s)"
  by (simp add: trim_dashes_def apart_rev apart_dropWhile)

lemma trim_dashes_ends: "trim_dashes s \<noteq> [] \<Longrightarrow> hd (trim_dashes s) \<noteq> dash \<and> last (trim_dashes s) \<noteq> dash"
proof -
  assume n: "trim_dashes s \<noteq> []"
  let ?d = "dropWhile (\<lambda>c. c = dash) s" and ?e = "\<lambda>xs. dropWhile (\<lambda>c. c = dash) xs"
  have l: "last (trim_dashes s) = hd (?e (rev ?d))" "?e (rev ?d) \<noteq> []"
    using n by (simp_all add: trim_dashes_def last_rev)
  obtain p where p: "?d = trim_dashes s @ p"
    unfolding trim_dashes_def by (metis rev_append rev_rev_ident takeWhile_dropWhile_id)
  have "hd (trim_dashes s) = hd ?d" "?d \<noteq> []" using p n by (metis hd_append2, simp)
  then show ?thesis using l hd_dropWhile[of "\<lambda>c. c = dash"] by metis
qed

text \<open>\<open>slugify\<close> always gives a slug, and leaves a slug as it is; applying it again changes nothing.\<close>

lemma slugify_chars:
  assumes "c \<in> set (slugify t)"
  shows "(is_word c \<or> c = dash) \<and> \<not> is_upper c"
proof -
  let ?a = "trim_text (to_lower t)"
  let ?c = "filter (\<lambda>x. is_word x \<or> x = dash) (replace_runs is_space dash ?a)"
  from assms have "c \<in> insert dash (set ?c)"
    unfolding slugify_def Let_def
    using set_trim_dashes set_replace_runs by (meson subsetD)
  then have c: "c = dash \<or> (is_word c \<and> c \<in> set (replace_runs is_space dash ?a))" by auto
  moreover have "c = dash \<or> c \<in> set (to_lower t)" if "c \<in> set (replace_runs is_space dash ?a)"
    using that set_replace_runs[of is_space dash ?a] set_trim_text[of "to_lower t"] by blast
  ultimately show ?thesis
    using lower_not_upper dash_is_lower by (auto simp: to_lower_def)
qed

lemma slugify_is_slug: "is_slug (slugify t)"
proof -
  have "apart (slugify t)"
    unfolding slugify_def Let_def
    unfolding apart_def
    by (rule apart_trim_dashes[unfolded apart_def]) (rule successively_replace_runs, rule refl)
  moreover have "list_all (\<lambda>c. (is_word c \<or> c = dash) \<and> \<not> is_upper c) (slugify t)"
    using slugify_chars by (simp add: list_all_iff)
  moreover have "slugify t \<noteq> [] \<longrightarrow> hd (slugify t) \<noteq> dash \<and> last (slugify t) \<noteq> dash"
    unfolding slugify_def Let_def using trim_dashes_ends by blast
  ultimately show ?thesis by (simp add: is_slug_def)
qed

lemma slugify_slug:
  assumes "is_slug s"
  shows "slugify s = s"
proof -
  have w: "list_all (\<lambda>c. is_word c \<or> c = dash) s" and u: "list_all (\<lambda>c. \<not> is_upper c) s"
    using assms by (simp_all add: is_slug_def list_all_iff)
  have n: "list_all (\<lambda>c. \<not> is_space c) s"
    using w word_not_space dash_is_lower(2) by (auto simp: list_all_iff)
  have "to_lower s = s"
    using u lower_id by (simp add: to_lower_def list_all_iff map_idI)
  moreover have "filter (\<lambda>x. is_word x \<or> x = dash) s = s"
    using w by (simp add: list_all_iff)
  ultimately show ?thesis
    using assms n
    by (simp add: slugify_def trim_text_id replace_runs_id collapse_id trim_dashes_id is_slug_def)
qed

theorem slugify_normal_form: "is_slug (slugify t) \<and> (slugify t = t \<longleftrightarrow> is_slug t)"
  using slugify_is_slug slugify_slug by metis

lemma slugify_idempotent: "slugify (slugify t) = slugify t"
  by (rule slugify_slug[OF slugify_is_slug])

text \<open>A name without a word character has the empty slug.\<close>

lemma slug_of_symbols: "list_all (\<lambda>c. \<not> is_word c) t \<Longrightarrow> slugify t = []"
proof -
  assume n: "list_all (\<lambda>c. \<not> is_word c) t"
  have word_lower: "is_word (ascii_lower c) \<longleftrightarrow> is_word c" for c
    by (auto simp: is_word_def ascii_lower_def of_char_of Let_def)
  have d: "c = dash" if "c \<in> set (slugify t)" for c
  proof -
    let ?a = "trim_text (to_lower t)"
    let ?c = "filter (\<lambda>x. is_word x \<or> x = dash) (replace_runs is_space dash ?a)"
    from that have "c \<in> insert dash (set ?c)"
      unfolding slugify_def Let_def using set_trim_dashes set_replace_runs by (meson subsetD)
    moreover have "\<not> is_word c \<or> c = dash" if "c \<in> set (replace_runs is_space dash ?a)"
      using that set_replace_runs[of is_space dash ?a] set_trim_text[of "to_lower t"] n
      by (auto simp: to_lower_def list_all_iff word_lower)
    ultimately show ?thesis by auto
  qed
  show ?thesis
  proof (rule ccontr)
    assume s: "slugify t \<noteq> []"
    then have "hd (slugify t) = dash" by (intro d) simp
    then show False using slugify_is_slug[of t] s by (simp add: is_slug_def)
  qed
qed

end
