(* ===== verification/Onboarding.thy ===== *)
theory Onboarding
  imports Complex_Main Slugs
begin

text \<open>
  Onboarding of theaters: \<open>backend/src/theater-onboarding/theater-onboarding.service.ts\<close> on the tables
  it uses, with the unique indexes of the migrations (slug of a tenant, email of a user, email and
  status of an application). The identities the database gives, the temporary password, its hash and
  the times are arguments.
\<close>

section \<open>Tables\<close>

datatype application_status = Ap_PENDING | Ap_APPROVED | Ap_REJECTED

record theater_application =
  ap_id :: string
  ap_theaterName :: string
  ap_theaterSlug :: string
  ap_ownerName :: string
  ap_email :: string
  ap_phone :: string
  ap_address :: string
  ap_city :: string
  ap_state :: string
  ap_gstNumber :: "string option"
  ap_status :: application_status
  ap_reviewNotes :: "string option"
  ap_reviewedById :: "string option"
  ap_reviewedAt :: "int option"
  ap_createdAt :: int

record onboarded_tenant =
  ot_id :: string
  ot_name :: string
  ot_slug :: string
  ot_isActive :: bool
  ot_platformFeeEnabled :: bool
  ot_platformFeeType :: string
  ot_platformFeeValue :: rat

record onboarded_theater =
  oh_id :: string
  oh_name :: string
  oh_address :: string
  oh_city :: string
  oh_tenantId :: string

record onboarded_user =
  ou_email :: string
  ou_password :: string
  ou_name :: string
  ou_role :: string
  ou_tenantId :: "string option"
  ou_theaterId :: "string option"
  ou_forcePasswordReset :: bool

record fee_change =
  fc_tenantId :: string
  fc_newFeeType :: string
  fc_newPercentage :: rat
  fc_changedByUserId :: string

datatype review_entry = Approve_application string string | Reject_application string "string option"

record review_audit =
  ra_userId :: string
  ra_action :: review_entry

record onboarding =
  on_applications :: "theater_application list"
  on_tenants :: "onboarded_tenant list"
  on_theaters :: "onboarded_theater list"
  on_users :: "onboarded_user list"
  on_feeChanges :: "fee_change list"
  on_audit :: "review_audit list"

definition unique_violation :: http_error where
  "unique_violation = Internal ''Unique constraint failed''"

section \<open>Applying\<close>

record application_dto =
  ad_theaterName :: string
  ad_ownerName :: string
  ad_email :: string
  ad_phone :: string
  ad_address :: string
  ad_city :: string
  ad_state :: string
  ad_gstNumber :: "string option"

definition new_application :: "string \<Rightarrow> int \<Rightarrow> application_dto \<Rightarrow> theater_application" where
  "new_application newId now dto =
     \<lparr>ap_id = newId, ap_theaterName = ad_theaterName dto, ap_theaterSlug = slugify (ad_theaterName dto),
      ap_ownerName = ad_ownerName dto, ap_email = ad_email dto, ap_phone = ad_phone dto, ap_address = ad_address dto,
      ap_city = ad_city dto, ap_state = ad_state dto, ap_gstNumber = ad_gstNumber dto, ap_status = Ap_PENDING,
      ap_reviewNotes = None, ap_reviewedById = None, ap_reviewedAt = None, ap_createdAt = now\<rparr>"

definition application_reply :: "theater_application \<Rightarrow> string \<times> application_status \<times> int" where
  "application_reply a = (ap_theaterName a, ap_status a, ap_createdAt a)"

definition apply_theater ::
  "string \<Rightarrow> int \<Rightarrow> application_dto \<Rightarrow> onboarding \<Rightarrow> onboarding \<times> (string \<times> application_status \<times> int) outcome" where
  "apply_theater newId now dto s =
     (let theaterSlug = slugify (ad_theaterName dto)
      in if find (\<lambda>t. ot_slug t = theaterSlug) (on_tenants s) \<noteq> None
         then (s, Inl (Conflict ''Theater name is already taken''))
         else if find (\<lambda>u. ou_email u = ad_email dto) (on_users s) \<noteq> None
         then (s, Inl (Conflict ''Email is already registered''))
         else if find (\<lambda>a. ap_email a = ad_email dto \<and> ap_status a = Ap_PENDING) (on_applications s) \<noteq> None
         then (s, Inl (Conflict ''An application with this email is already pending review''))
         else if newId \<in> ap_id ` set (on_applications s) then (s, Inl unique_violation)
         else (s\<lparr>on_applications := on_applications s @ [new_application newId now dto]\<rparr>,
               Inr (application_reply (new_application newId now dto))))"

text \<open>The newest first; \<open>sort_key\<close> is stable.\<close>

definition getApplications :: "application_status option \<Rightarrow> nat \<Rightarrow> nat \<Rightarrow> onboarding \<Rightarrow> theater_application list" where
  "getApplications status skip n s =
     take n (drop skip (sort_key (\<lambda>a. - ap_createdAt a)
       (filter (\<lambda>a. case status of None \<Rightarrow> True | Some st \<Rightarrow> ap_status a = st) (on_applications s))))"

section \<open>Reviewing\<close>

record review_ids =
  ri_tenantId :: string
  ri_theaterId :: string
  ri_tempPassword :: string
  ri_now :: int

datatype review_action = APPROVE | REJECT

datatype review_reply =
    Approved string string string
  | Rejected theater_application

definition review_data :: "application_status \<Rightarrow> string \<Rightarrow> string option \<Rightarrow> int \<Rightarrow> theater_application \<Rightarrow> theater_application" where
  "review_data st reviewerId notes now a =
     a\<lparr>ap_status := st, ap_reviewNotes := (if notes = None then ap_reviewNotes a else notes),
       ap_reviewedById := Some reviewerId, ap_reviewedAt := Some now\<rparr>"

text \<open>Updating the status of an application by its id, under the unique index on email and status.\<close>

definition set_review ::
  "string \<Rightarrow> application_status \<Rightarrow> string \<Rightarrow> string option \<Rightarrow> int \<Rightarrow> onboarding \<Rightarrow> onboarding outcome" where
  "set_review appId st reviewerId notes now s =
     (case find (\<lambda>a. ap_id a = appId) (on_applications s) of
        None \<Rightarrow> Inl (NotFound ''Record to update not found'')
      | Some a \<Rightarrow>
          if list_ex (\<lambda>b. ap_id b \<noteq> appId \<and> ap_email b = ap_email a \<and> ap_status b = st) (on_applications s)
          then Inl unique_violation
          else Inr (s\<lparr>on_applications := update_where (\<lambda>b. ap_id b = appId) (review_data st reviewerId notes now)
                 (on_applications s)\<rparr>))"

definition onboard :: "(string \<Rightarrow> string) \<Rightarrow> review_ids \<Rightarrow> theater_application \<Rightarrow> string \<Rightarrow> onboarding \<Rightarrow> onboarding" where
  "onboard hash ids a reviewerId s =
     s\<lparr>on_tenants := on_tenants s @
         [\<lparr>ot_id = ri_tenantId ids, ot_name = ap_theaterName a, ot_slug = ap_theaterSlug a, ot_isActive = True,
           ot_platformFeeEnabled = True, ot_platformFeeType = ''PERCENTAGE'', ot_platformFeeValue = 2\<rparr>],
       on_feeChanges := on_feeChanges s @
         [\<lparr>fc_tenantId = ri_tenantId ids, fc_newFeeType = ''PERCENTAGE'', fc_newPercentage = 2,
           fc_changedByUserId = reviewerId\<rparr>],
       on_theaters := on_theaters s @
         [\<lparr>oh_id = ri_theaterId ids, oh_name = ap_theaterName a, oh_address = ap_address a, oh_city = ap_city a,
           oh_tenantId = ri_tenantId ids\<rparr>],
       on_users := on_users s @
         [\<lparr>ou_email = ap_email a, ou_password = hash (ri_tempPassword ids), ou_name = ap_ownerName a,
           ou_role = ''TENANT_ADMIN'', ou_tenantId = Some (ri_tenantId ids), ou_theaterId = Some (ri_theaterId ids),
           ou_forcePasswordReset = True\<rparr>]\<rparr>"

text \<open>The application is the row read before the transaction. An error inside the transaction rolls it back.\<close>

definition approveApplication ::
  "(string \<Rightarrow> string) \<Rightarrow> review_ids \<Rightarrow> theater_application \<Rightarrow> string \<Rightarrow> string option \<Rightarrow> onboarding \<Rightarrow>
   onboarding \<times> review_reply outcome" where
  "approveApplication hash ids a reviewerId notes s =
     (if find (\<lambda>t. ot_slug t = ap_theaterSlug a) (on_tenants s) \<noteq> None
      then (s, Inl (Conflict ''Theater slug became unavailable''))
      else if find (\<lambda>u. ou_email u = ap_email a) (on_users s) \<noteq> None
      then (s, Inl (Conflict ''User email became unavailable''))
      else if ri_tenantId ids \<in> ot_id ` set (on_tenants s) \<or> ri_theaterId ids \<in> oh_id ` set (on_theaters s)
      then (s, Inl unique_violation)
      else case set_review (ap_id a) Ap_APPROVED reviewerId notes (ri_now ids) (onboard hash ids a reviewerId s) of
             Inl e \<Rightarrow> (s, Inl e)
           | Inr s' \<Rightarrow>
               (s'\<lparr>on_audit := on_audit s' @
                  [\<lparr>ra_userId = reviewerId, ra_action = Approve_application (ap_id a) (ri_tenantId ids)\<rparr>]\<rparr>,
                Inr (Approved (ap_email a) (ri_tempPassword ids) (ri_tenantId ids))))"

definition rejectApplication ::
  "string \<Rightarrow> string \<Rightarrow> string option \<Rightarrow> int \<Rightarrow> onboarding \<Rightarrow> onboarding \<times> review_reply outcome" where
  "rejectApplication appId reviewerId notes now s =
     (case set_review appId Ap_REJECTED reviewerId notes now s of
        Inl e \<Rightarrow> (s, Inl e)
      | Inr s' \<Rightarrow>
          (case find (\<lambda>a. ap_id a = appId) (on_applications s') of
             None \<Rightarrow> (s, Inl (NotFound ''Record to update not found''))
           | Some a \<Rightarrow>
               (s'\<lparr>on_audit := on_audit s' @ [\<lparr>ra_userId = reviewerId, ra_action = Reject_application appId notes\<rparr>]\<rparr>,
                Inr (Rejected a))))"

text \<open>The two halves of a review: the checks read one state, the transaction runs in a later one.\<close>

definition check_review :: "string \<Rightarrow> onboarding \<Rightarrow> theater_application outcome" where
  "check_review appId s =
     (case find (\<lambda>a. ap_id a = appId) (on_applications s) of
        None \<Rightarrow> Inl (NotFound ''Application not found'')
      | Some a \<Rightarrow> if ap_status a \<noteq> Ap_PENDING then Inl (BadRequest ''Application has already been reviewed'') else Inr a)"

definition decide_review ::
  "(string \<Rightarrow> string) \<Rightarrow> review_ids \<Rightarrow> theater_application \<Rightarrow> string \<Rightarrow> review_action \<Rightarrow> string option \<Rightarrow> onboarding \<Rightarrow>
   onboarding \<times> review_reply outcome" where
  "decide_review hash ids a reviewerId action notes s =
     (case action of
        APPROVE \<Rightarrow> approveApplication hash ids a reviewerId notes s
      | REJECT \<Rightarrow> rejectApplication (ap_id a) reviewerId notes (ri_now ids) s)"

definition reviewApplication ::
  "(string \<Rightarrow> string) \<Rightarrow> review_ids \<Rightarrow> string \<Rightarrow> string \<Rightarrow> review_action \<Rightarrow> string option \<Rightarrow> onboarding \<Rightarrow>
   onboarding \<times> review_reply outcome" where
  "reviewApplication hash ids appId reviewerId action notes s =
     (case check_review appId s of
        Inl e \<Rightarrow> (s, Inl e)
      | Inr a \<Rightarrow> decide_review hash ids a reviewerId action notes s)"

section \<open>The invariant\<close>

text \<open>An approved application has its tenant, that tenant's theater and an administrator who must change the
  password.\<close>

definition onboarded :: "theater_application \<Rightarrow> onboarding \<Rightarrow> bool" where
  "onboarded a s \<longleftrightarrow> list_ex (\<lambda>t. ot_slug t = ap_theaterSlug a \<and> ot_isActive t
     \<and> list_ex (\<lambda>h. oh_tenantId h = ot_id t
         \<and> list_ex (\<lambda>u. ou_email u = ap_email a \<and> ou_role u = ''TENANT_ADMIN'' \<and> ou_tenantId u = Some (ot_id t)
              \<and> ou_theaterId u = Some (oh_id h)) (on_users s)) (on_theaters s)) (on_tenants s)"

definition onboarding_wf :: "onboarding \<Rightarrow> bool" where
  "onboarding_wf s \<longleftrightarrow> distinct (map ap_id (on_applications s)) \<and> distinct (map ot_id (on_tenants s))
     \<and> distinct (map ot_slug (on_tenants s)) \<and> distinct (map ou_email (on_users s))
     \<and> distinct (map (\<lambda>a. (ap_email a, ap_status a)) (on_applications s))
     \<and> list_all (\<lambda>a. is_slug (ap_theaterSlug a)) (on_applications s)
     \<and> list_all (\<lambda>a. ap_status a = Ap_APPROVED \<longrightarrow> onboarded a s) (on_applications s)"

lemma review_data_simps [simp]:
  "ap_id (review_data st r n now a) = ap_id a" "ap_email (review_data st r n now a) = ap_email a"
  "ap_theaterSlug (review_data st r n now a) = ap_theaterSlug a" "ap_status (review_data st r n now a) = st"
  by (simp_all add: review_data_def)

lemma onboarded_cong:
  "ap_theaterSlug a = ap_theaterSlug b \<Longrightarrow> ap_email a = ap_email b \<Longrightarrow> on_users s = on_users t \<Longrightarrow>
   on_theaters s = on_theaters t \<Longrightarrow> on_tenants s = on_tenants t \<Longrightarrow> onboarded a s = onboarded b t"
  by (simp add: onboarded_def)

lemma onboarded_mono: "onboarded a s \<Longrightarrow> onboarded a (onboard hash ids b r s)"
  by (force simp: onboarded_def onboard_def list_ex_iff)

lemma onboard_onboarded: "onboarded a (onboard hash ids a r s)"
  by (auto simp: onboarded_def onboard_def list_ex_iff)

lemma apply_wf:
  assumes "onboarding_wf s"
  shows "onboarding_wf (fst (apply_theater newId now dto s))"
proof -
  have "(ad_email dto, Ap_PENDING) \<notin> (\<lambda>a. (ap_email a, ap_status a)) ` set (on_applications s)"
    if "find (\<lambda>a. ap_email a = ad_email dto \<and> ap_status a = Ap_PENDING) (on_applications s) = None"
    using that by (auto simp: find_None_iff)
  moreover have "onboarded a (s\<lparr>on_applications := as\<rparr>) = onboarded a s" for a as
    by (simp add: onboarded_def)
  ultimately show ?thesis
    using assms slugify_is_slug
    by (auto simp: apply_theater_def Let_def onboarding_wf_def new_application_def list_all_iff)
qed

lemma distinct_update_pair:
  assumes "distinct (map ap_id t)" "distinct (map (\<lambda>a. (ap_email a, ap_status a)) t)" "a \<in> set t" "ap_id a = i"
    "\<not> (\<exists>b \<in> set t. ap_id b \<noteq> i \<and> ap_email b = ap_email a \<and> ap_status b = st)"
  shows "distinct (map (\<lambda>a. (ap_email a, ap_status a)) (update_where (\<lambda>b. ap_id b = i) (review_data st r n now) t))"
  using assms
proof (induction t)
  case (Cons b t)
  show ?case
  proof (cases "ap_id b = i")
    case True
    then have "update_where (\<lambda>b. ap_id b = i) (review_data st r n now) t = t"
      using Cons.prems(1) by (intro update_where_none) (auto simp: image_iff)
    moreover have "b = a" using True Cons.prems(1,3,4) by (auto simp: image_iff)
    ultimately show ?thesis using Cons.prems True by (auto simp: image_iff) metis
  next
    case False
    then have a: "a \<in> set t" using Cons.prems(3,4) by auto
    let ?p = "\<lambda>a. (ap_email a, ap_status a)"
    have c: "c = a" if "c \<in> set t" "ap_id c = i" for c
      using Cons.prems(1,4) a that distinct_key_eq[of ap_id t c a] by simp
    have "?p ` set (update_where (\<lambda>b. ap_id b = i) (review_data st r n now) t) \<subseteq> insert (ap_email a, st) (?p ` set t)"
    proof
      fix p assume "p \<in> ?p ` set (update_where (\<lambda>b. ap_id b = i) (review_data st r n now) t)"
      then obtain q where q: "q \<in> set t" "p = ?p (if ap_id q = i then review_data st r n now q else q)"
        by (auto simp: in_update_where)
      then show "p \<in> insert (ap_email a, st) (?p ` set t)"
        using c[of q] by (cases "ap_id q = i") auto
    qed
    moreover have "?p b \<noteq> (ap_email a, st)" "?p b \<notin> ?p ` set t"
      using Cons.prems(2,5) False by auto
    ultimately have "?p b \<notin> ?p ` set (update_where (\<lambda>b. ap_id b = i) (review_data st r n now) t)" by blast
    moreover have "distinct (map ?p (update_where (\<lambda>b. ap_id b = i) (review_data st r n now) t))"
      using Cons.prems a by (intro Cons.IH) auto
    ultimately show ?thesis using False by simp
  qed
qed simp

lemma set_review_wf:
  assumes "set_review i st r n now s = Inr s'" "onboarding_wf s" "st = Ap_APPROVED \<Longrightarrow> a \<in> set (on_applications s) \<Longrightarrow> ap_id a = i \<Longrightarrow> onboarded a s"
    and a: "find (\<lambda>a. ap_id a = i) (on_applications s) = Some a"
  shows "onboarding_wf s'"
proof -
  let ?u = "update_where (\<lambda>b. ap_id b = i) (review_data st r n now) (on_applications s)"
  have s': "s' = s\<lparr>on_applications := ?u\<rparr>"
    and no: "\<not> (\<exists>b \<in> set (on_applications s). ap_id b \<noteq> i \<and> ap_email b = ap_email a \<and> ap_status b = st)"
    using assms(1) a by (auto simp: set_review_def list_ex_iff split: if_splits)
  have ai: "a \<in> set (on_applications s)" "ap_id a = i" using find_in[OF a] by simp_all
  have u: "ap_status b = Ap_APPROVED \<longrightarrow> onboarded b s'" if b: "b \<in> set ?u" for b
  proof
    assume st: "ap_status b = Ap_APPROVED"
    from b obtain c where c: "c \<in> set (on_applications s)"
      "b = (if ap_id c = i then review_data st r n now c else c)" by (auto simp: in_update_where)
    have "onboarded c s"
    proof (cases "ap_id c = i")
      case True
      have "distinct (map ap_id (on_applications s))" using assms(2) by (simp add: onboarding_wf_def)
      then have "c = a" by (rule distinct_key_eq[OF _ c(1) ai(1)]) (simp add: ai(2) True)
      then show ?thesis using assms(3) ai st c True by simp
    next
      case False
      then show ?thesis using assms(2) c st by (auto simp: onboarding_wf_def list_all_iff)
    qed
    then show "onboarded b s'"
      using c(2) onboarded_cong[of b c s' s] s' by (auto split: if_splits)
  qed
  have "distinct (map (\<lambda>a. (ap_email a, ap_status a)) ?u)"
    using assms(2) ai no by (intro distinct_update_pair) (auto simp: onboarding_wf_def)
  moreover have "distinct (map ap_id ?u)"
    using assms(2) by (simp add: map_update_where onboarding_wf_def)
  moreover have "list_all (\<lambda>a. is_slug (ap_theaterSlug a)) ?u"
    using assms(2) by (auto simp: onboarding_wf_def list_all_iff in_update_where)
  moreover have "list_all (\<lambda>b. ap_status b = Ap_APPROVED \<longrightarrow> onboarded b s') ?u"
    unfolding list_all_iff using u by blast
  ultimately show ?thesis
    using assms(2) unfolding onboarding_wf_def s' by simp
qed


lemma onboard_wf:
  assumes "onboarding_wf s" "find (\<lambda>t. ot_slug t = ap_theaterSlug a) (on_tenants s) = None"
    "find (\<lambda>u. ou_email u = ap_email a) (on_users s) = None" "ri_tenantId ids \<notin> ot_id ` set (on_tenants s)"
  shows "onboarding_wf (onboard hash ids a r s)"
proof -
  have "ap_theaterSlug a \<notin> ot_slug ` set (on_tenants s)" "ap_email a \<notin> ou_email ` set (on_users s)"
    using assms(2,3) by (auto simp: find_None_iff)
  moreover have "list_all (\<lambda>b. ap_status b = Ap_APPROVED \<longrightarrow> onboarded b (onboard hash ids a r s)) (on_applications s)"
    using assms(1) onboarded_mono by (auto simp: onboarding_wf_def list_all_iff)
  ultimately show ?thesis
    using assms(1,4) by (simp add: onboarding_wf_def onboard_def)
qed

lemma wf_audit: "onboarding_wf (s\<lparr>on_audit := l\<rparr>) = onboarding_wf s"
  by (simp add: onboarding_wf_def onboarded_def)

text \<open>A decision on a row read at any earlier time: its identity, slug and email are those of the row.\<close>

lemma decide_wf:
  assumes "onboarding_wf s" "c \<in> set (on_applications s)" "ap_id a = ap_id c" "ap_theaterSlug a = ap_theaterSlug c"
    "ap_email a = ap_email c"
  shows "onboarding_wf (fst (decide_review hash ids a r action notes s))"
proof -
  have "distinct (map ap_id (on_applications s))" using assms(1) by (simp add: onboarding_wf_def)
  then have f: "find (\<lambda>b. ap_id b = ap_id a) (on_applications s) = Some c"
    using assms(2,3) by (intro find_distinct_key) simp_all
  show ?thesis
  proof (cases action)
    case REJECT
    have "onboarding_wf s'" if "set_review (ap_id a) Ap_REJECTED r notes (ri_now ids) s = Inr s'" for s'
      using set_review_wf[OF that assms(1) _ f] by simp
    then show ?thesis
      using REJECT assms(1) by (auto simp: decide_review_def rejectApplication_def wf_audit split: sum.splits option.splits)
  next
    case APPROVE
    let ?o = "onboard hash ids a r s"
    have "onboarded c ?o"
      using onboard_onboarded[of a hash ids r s] onboarded_cong[of a c ?o ?o] assms(4,5) by simp
    moreover have "find (\<lambda>b. ap_id b = ap_id a) (on_applications ?o) = Some c"
      using f by (simp add: onboard_def)
    ultimately have "onboarding_wf s'"
      if "set_review (ap_id a) Ap_APPROVED r notes (ri_now ids) ?o = Inr s'" "onboarding_wf ?o" for s'
      using set_review_wf[OF that(1,2)] by blast
    then show ?thesis
      using APPROVE assms(1) onboard_wf[OF assms(1)]
      by (auto simp: decide_review_def approveApplication_def wf_audit split: sum.splits)
  qed
qed

section \<open>Any sequence of applications and reviews\<close>

text \<open>Reviews may overlap: a decision uses a row that was read in any earlier state.\<close>

inductive onboarding_step :: "onboarding \<Rightarrow> onboarding \<Rightarrow> bool" where
  applies: "onboarding_step s (fst (apply_theater newId now dto s))"
| decides: "c \<in> set (on_applications s) \<Longrightarrow> ap_id a = ap_id c \<Longrightarrow> ap_theaterSlug a = ap_theaterSlug c \<Longrightarrow>
    ap_email a = ap_email c \<Longrightarrow> onboarding_step s (fst (decide_review hash ids a r action notes s))"

interpretation onboardings: invariant_system onboarding_step onboarding_wf
proof
  fix s t
  assume "onboarding_wf s" "onboarding_step s t"
  then show "onboarding_wf t"
    by (auto elim!: onboarding_step.cases intro: apply_wf decide_wf)
qed

lemma review_is_a_step:
  assumes "reviewApplication hash ids appId r action notes s = (s', Inr v)"
  shows "onboarding_step s s'"
proof -
  obtain a where a: "check_review appId s = Inr a" "decide_review hash ids a r action notes s = (s', Inr v)"
    using assms by (auto simp: reviewApplication_def split: sum.splits)
  then have "a \<in> set (on_applications s)"
    by (auto simp: check_review_def dest: find_in split: option.splits if_splits)
  then have "onboarding_step s (fst (decide_review hash ids a r action notes s))"
    by (rule decides) simp_all
  then show ?thesis using a(2) by simp
qed

text \<open>C29. Whatever sequence of applications and reviews, overlapping reviews included: slugs, emails and identities
  stay unique, every slug is in normal form, and an approved application always has its tenant with a theater and an
  administrator of both.\<close>

theorem onboarding_keeps_its_promise:
  assumes "run onboarding_step s t" "onboarding_wf s"
  shows "onboarding_wf t"
  using assms by (rule onboardings.run_inv)

definition sample_application :: application_dto where
  "sample_application = \<lparr>ad_theaterName = ''PVR  Hyderabad'', ad_ownerName = ''A'', ad_email = ''a@b.c'', ad_phone = ''1'',
     ad_address = ''x'', ad_city = ''y'', ad_state = ''z'', ad_gstNumber = None\<rparr>"

definition no_onboarding :: onboarding where
  "no_onboarding = \<lparr>on_applications = [], on_tenants = [], on_theaters = [], on_users = [], on_feeChanges = [], on_audit = []\<rparr>"

lemma onboarding_keeps_its_promise_witness:
  "onboarding_wf (fst (apply_theater ''1'' 0 sample_application no_onboarding))"
proof (rule onboarding_keeps_its_promise)
  show "run onboarding_step no_onboarding (fst (apply_theater ''1'' 0 sample_application no_onboarding))"
    by (rule run_step, rule run_refl, rule applies)
  show "onboarding_wf no_onboarding" by (simp add: onboarding_wf_def no_onboarding_def)
qed

section \<open>Reviews\<close>

lemma set_review_row:
  assumes "set_review i st r n now s = Inr s'"
  shows "\<exists>a. find (\<lambda>b. ap_id b = i) (on_applications s') = Some a \<and> ap_status a = st"
proof -
  obtain a where a: "find (\<lambda>b. ap_id b = i) (on_applications s) = Some a"
    and s': "s' = s\<lparr>on_applications := update_where (\<lambda>b. ap_id b = i) (review_data st r n now) (on_applications s)\<rparr>"
    using assms by (auto simp: set_review_def split: option.splits if_splits)
  then show ?thesis
    by (simp add: find_update_where_key[of ap_id])
qed

lemma decide_sets_status:
  assumes "decide_review hash ids a r action notes s = (s', Inr v)"
  shows "\<exists>q s1. set_review (ap_id a) (case action of APPROVE \<Rightarrow> Ap_APPROVED | REJECT \<Rightarrow> Ap_REJECTED) r notes (ri_now ids) q
      = Inr s1 \<and> on_applications s' = on_applications s1"
proof (cases action)
  case APPROVE
  let ?q = "set_review (ap_id a) Ap_APPROVED r notes (ri_now ids) (onboard hash ids a r s)"
  have "\<exists>s1. ?q = Inr s1 \<and> on_applications s' = on_applications s1"
    using assms APPROVE by (cases ?q) (auto simp: decide_review_def approveApplication_def split: if_splits)
  then show ?thesis using APPROVE by auto
next
  case REJECT
  let ?q = "set_review (ap_id a) Ap_REJECTED r notes (ri_now ids) s"
  have "\<exists>s1. ?q = Inr s1 \<and> on_applications s' = on_applications s1"
    using assms REJECT by (cases ?q) (auto simp: decide_review_def rejectApplication_def split: option.splits)
  then show ?thesis using REJECT by auto
qed

text \<open>A reviewed application is not reviewed again, and an error leaves every table as it was.\<close>

theorem reviewed_once:
  assumes "reviewApplication hash ids appId r action notes s = (s', Inr v)"
  shows "reviewApplication hash ids' appId r' action' notes' s' =
    (s', Inl (BadRequest ''Application has already been reviewed''))"
proof -
  obtain a where a: "check_review appId s = Inr a" "decide_review hash ids a r action notes s = (s', Inr v)"
    using assms by (auto simp: reviewApplication_def split: sum.splits)
  then have i: "ap_id a = appId" by (auto simp: check_review_def dest: find_in split: option.splits if_splits)
  let ?st = "case action of APPROVE \<Rightarrow> Ap_APPROVED | REJECT \<Rightarrow> Ap_REJECTED"
  obtain q s1 where s1: "set_review appId ?st r notes (ri_now ids) q = Inr s1" "on_applications s' = on_applications s1"
    using decide_sets_status[OF a(2)] i by blast
  obtain b where "find (\<lambda>b. ap_id b = appId) (on_applications s1) = Some b" "ap_status b = ?st"
    using set_review_row[OF s1(1)] by blast
  moreover have "?st \<noteq> Ap_PENDING" by (cases action) simp_all
  ultimately show ?thesis
    using s1 by (simp add: reviewApplication_def check_review_def)
qed

lemma failed_review_changes_nothing:
  "snd (reviewApplication hash ids appId r action notes s) = Inl e \<Longrightarrow>
   fst (reviewApplication hash ids appId r action notes s) = s"
  by (cases action)
    (auto simp: reviewApplication_def decide_review_def approveApplication_def rejectApplication_def
      split: sum.splits option.splits if_splits)

definition sample_ids :: review_ids where
  "sample_ids = \<lparr>ri_tenantId = ''t'', ri_theaterId = ''h'', ri_tempPassword = ''p'', ri_now = 1\<rparr>"

lemma reviewed_once_witness:
  "let s = fst (apply_theater ''1'' 0 sample_application no_onboarding);
       s' = fst (reviewApplication id sample_ids ''1'' ''root'' APPROVE None s)
   in reviewApplication id sample_ids ''1'' ''root'' REJECT None s'
      = (s', Inl (BadRequest ''Application has already been reviewed''))"
proof -
  let ?s = "fst (apply_theater ''1'' 0 sample_application no_onboarding)"
  let ?r = "reviewApplication id sample_ids ''1'' ''root'' APPROVE None ?s"
  have "\<exists>v. snd ?r = Inr v"
    by (simp add: apply_theater_def no_onboarding_def sample_application_def reviewApplication_def check_review_def
        new_application_def decide_review_def approveApplication_def set_review_def onboard_def sample_ids_def Let_def)
  then obtain v where "?r = (fst ?r, Inr v)" by (metis prod.collapse)
  from reviewed_once[OF this] show ?thesis by (simp only: Let_def)
qed

text \<open>An email that was rejected before cannot be rejected again: the unique index on email and status refuses the
  update, so the application stays pending.\<close>

lemma second_rejection_fails:
  assumes "distinct (map ap_id (on_applications s))"
    "find (\<lambda>a. ap_id a = i) (on_applications s) = Some a" "ap_status a = Ap_PENDING"
    "b \<in> set (on_applications s)" "ap_email b = ap_email a" "ap_status b = Ap_REJECTED"
  shows "reviewApplication hash ids i r REJECT notes s = (s, Inl unique_violation)"
proof -
  have a: "a \<in> set (on_applications s)" "ap_id a = i" using find_in[OF assms(2)] by simp_all
  have "ap_id b \<noteq> i"
    using distinct_key_eq[OF assms(1) assms(4) a(1)] a(2) assms(3,6) by auto
  then have "list_ex (\<lambda>b. ap_id b \<noteq> i \<and> ap_email b = ap_email a \<and> ap_status b = Ap_REJECTED) (on_applications s)"
    using assms(4-6) by (auto simp: list_ex_iff)
  then show ?thesis using assms(2,3) a
    by (simp add: reviewApplication_def check_review_def decide_review_def rejectApplication_def set_review_def)
qed

text \<open>A rejection decided on a row read before the approval rejects the approved application and leaves its tenant.\<close>

lemma rejection_overtakes_approval:
  assumes "find (\<lambda>b. ap_id b = ap_id a) (on_applications s) = Some c"
    "\<not> list_ex (\<lambda>b. ap_id b \<noteq> ap_id a \<and> ap_email b = ap_email c \<and> ap_status b = Ap_REJECTED) (on_applications s)"
  shows "on_tenants (fst (decide_review hash ids a r REJECT notes s)) = on_tenants s
    \<and> (\<exists>d. snd (decide_review hash ids a r REJECT notes s) = Inr (Rejected d) \<and> ap_status d = Ap_REJECTED)"
  using assms
  by (simp add: decide_review_def rejectApplication_def set_review_def find_update_where_key[of ap_id])

text \<open>A name without a word character gets the empty slug, which can be taken only once.\<close>

lemma symbols_take_the_empty_slug:
  assumes "list_all (\<lambda>c. \<not> is_word c) (ad_theaterName dto)" "t \<in> set (on_tenants s)" "ot_slug t = []"
  shows "apply_theater newId now dto s = (s, Inl (Conflict ''Theater name is already taken''))"
  using assms slug_of_symbols[OF assms(1)] by (auto simp: apply_theater_def find_None_iff)

end
