(* ===== verification/Analytics.thy ===== *)
theory Analytics
  imports PaymentStore Texts "HOL-Library.Multiset"
begin

text \<open>
  The reports of \<open>backend/src/analytics/analytics.service.ts\<close> on the rows they read. Amounts are in
  hundredths, times in milliseconds; a rate is the exact quotient of which the code takes the nearest
  double. \<open>groupBy\<close> returns one row per value that occurs, here in the order of first occurrence.
\<close>

section \<open>Rows\<close>

record analytics_booking =
  ab_id :: string
  ab_userId :: string
  ab_showId :: string
  ab_tenantId :: string
  ab_status :: booking_status
  ab_totalAmount :: int
  ab_ticketAmount :: int
  ab_platformFeeAmount :: int
  ab_refundAmount :: int
  ab_createdAt :: int

record analytics_ledger =
  al_bookingId :: string
  al_type :: ledger_type
  al_amount :: int
  al_status :: ledger_status
  al_tenantId :: string
  al_createdAt :: int

record analytics_show =
  ah_id :: string
  ah_eventTenantId :: string
  ah_totalCapacity :: int

record analytics_store =
  an_bookings :: "analytics_booking list"
  an_ledger :: "analytics_ledger list"
  an_shows :: "analytics_show list"
  an_seats :: "string list"
  an_tenantsCreated :: "int list"

text \<open>\<open>an_seats\<close> holds the booking of every booked seat, \<open>an_tenantsCreated\<close> the creation of every tenant.\<close>

definition in_period :: "int option \<Rightarrow> int option \<Rightarrow> int \<Rightarrow> bool" where
  "in_period since till t \<longleftrightarrow> (case since of None \<Rightarrow> True | Some f \<Rightarrow> f \<le> t) \<and> (case till of None \<Rightarrow> True | Some u \<Rightarrow> t \<le> u)"

definition total_of :: "('r \<Rightarrow> int) \<Rightarrow> 'r list \<Rightarrow> int" where
  "total_of f rs = sum_list (map f rs)"

definition group_counts :: "('r \<Rightarrow> 'k) \<Rightarrow> 'r list \<Rightarrow> ('k \<times> nat) list" where
  "group_counts key rs = map (\<lambda>k. (k, count_where (\<lambda>r. key r = k) rs)) (dedupe (map key rs))"

definition group_sums :: "('r \<Rightarrow> 'k) \<Rightarrow> ('r \<Rightarrow> int) \<Rightarrow> 'r list \<Rightarrow> ('k \<times> int) list" where
  "group_sums key f rs = map (\<lambda>k. (k, total_of f (filter (\<lambda>r. key r = k) rs))) (dedupe (map key rs))"

definition count_if :: "('k \<Rightarrow> bool) \<Rightarrow> ('k \<times> nat) list \<Rightarrow> nat" where
  "count_if P gs = sum_list (map (\<lambda>(k, n). if P k then n else 0) gs)"

definition rate_of :: "int \<Rightarrow> int \<Rightarrow> rat" where
  "rate_of a b = (if b > 0 then of_int a / of_int b else 0)"

definition confirmed_statuses :: "booking_status list" where
  "confirmed_statuses = [CONFIRMED, REFUND_INITIATED, REFUNDED, REFUND_FAILED]"

definition bookings_of :: "string \<Rightarrow> int option \<Rightarrow> int option \<Rightarrow> analytics_store \<Rightarrow> analytics_booking list" where
  "bookings_of tenantId from to s = filter (\<lambda>b. ab_tenantId b = tenantId \<and> in_period from to (ab_createdAt b)) (an_bookings s)"

section \<open>Revenue\<close>

record revenue_summary =
  rs_totalRevenue :: int
  rs_totalRefunds :: int
  rs_netRevenue :: int
  rs_totalBookings :: nat
  rs_conversionRate :: rat
  rs_averageTicketValue :: rat
  rs_refundRate :: rat

text \<open>The loop over the ledger adds up payments and refunds.\<close>

fun add_entry :: "int \<times> int \<Rightarrow> analytics_ledger \<Rightarrow> int \<times> int" where
  "add_entry (revenue, refunds) entry =
     (if al_type entry = Lt_PAYMENT then revenue + al_amount entry else revenue,
      if al_type entry = Lt_REFUND then refunds + al_amount entry else refunds)"

definition getTheaterRevenueSummary ::
  "string \<Rightarrow> int option \<Rightarrow> int option \<Rightarrow> analytics_store \<Rightarrow> revenue_summary" where
  "getTheaterRevenueSummary tenantId from to s =
     (let entries = filter (\<lambda>l. al_tenantId l = tenantId \<and> al_status l = Ls_SUCCESS \<and> in_period from to (al_createdAt l))
                      (an_ledger s);
          (revenue, refunds) = foldl add_entry (0, 0) entries;
          groups = group_counts ab_status (bookings_of tenantId from to s);
          confirmedCount = count_if (\<lambda>st. st \<in> set confirmed_statuses) groups;
          initiations = count_if (\<lambda>_. True) groups
      in \<lparr>rs_totalRevenue = revenue, rs_totalRefunds = refunds, rs_netRevenue = revenue - refunds,
          rs_totalBookings = confirmedCount, rs_conversionRate = rate_of (int confirmedCount) (int initiations),
          rs_averageTicketValue = rate_of revenue (int confirmedCount), rs_refundRate = rate_of refunds revenue\<rparr>)"

record platform_summary =
  pf_globalRevenue :: int
  pf_globalRefunds :: int
  pf_netPlatformRevenue :: int
  pf_totalBookings :: nat
  pf_activeTheaters :: nat

definition sum_at :: "'k \<Rightarrow> ('k \<times> int) list \<Rightarrow> int" where
  "sum_at k gs = foldl (\<lambda>v (q, n). if q = k then n else v) 0 gs"

definition getPlatformSummary ::
  "string \<Rightarrow> int option \<Rightarrow> int option \<Rightarrow> analytics_store \<Rightarrow> platform_summary outcome" where
  "getPlatformSummary userRole from to s =
     (if userRole \<noteq> ''SUPER_ADMIN'' then Inl (Forbidden ''Only SUPER_ADMIN can access platform summaries'')
      else
        let groups = group_sums al_type al_amount
              (filter (\<lambda>l. al_status l = Ls_SUCCESS \<and> in_period from to (al_createdAt l)) (an_ledger s));
            revenue = sum_at Lt_PAYMENT groups;
            refunds = sum_at Lt_REFUND groups
        in Inr \<lparr>pf_globalRevenue = revenue, pf_globalRefunds = refunds, pf_netPlatformRevenue = revenue - refunds,
             pf_totalBookings = count_where (\<lambda>b. ab_status b \<in> set confirmed_statuses \<and> in_period from to (ab_createdAt b))
               (an_bookings s),
             pf_activeTheaters = count_where (in_period from to) (an_tenantsCreated s)\<rparr>)"

record settlement =
  se_grossRevenue :: int
  se_platformRevenue :: int
  se_theaterNetPayable :: int
  se_totalRefunds :: int
  se_confirmedBookings :: nat

definition getSettlementAnalytics :: "string \<Rightarrow> int option \<Rightarrow> int option \<Rightarrow> analytics_store \<Rightarrow> settlement" where
  "getSettlementAnalytics tenantId from to s =
     (let rows = filter (\<lambda>b. ab_status b = CONFIRMED) (bookings_of tenantId from to s);
          ticketTotal = total_of ab_ticketAmount rows;
          refundTotal = total_of ab_refundAmount rows;
          platformRevenue = total_of ab_platformFeeAmount rows;
          gross = ticketTotal - refundTotal
      in \<lparr>se_grossRevenue = gross, se_platformRevenue = platformRevenue, se_theaterNetPayable = gross - platformRevenue,
          se_totalRefunds = refundTotal, se_confirmedBookings = length rows\<rparr>)"

section \<open>Shows and the booking funnel\<close>

record show_analytics =
  sa_seatsSold :: nat
  sa_occupancyRate :: rat
  sa_revenue :: int
  sa_refunds :: int
  sa_netRevenue :: int

definition getShowAnalytics :: "string \<Rightarrow> string \<Rightarrow> analytics_store \<Rightarrow> show_analytics outcome" where
  "getShowAnalytics showId tenantId s =
     (case find (\<lambda>h. ah_id h = showId \<and> ah_eventTenantId h = tenantId) (an_shows s) of
        None \<Rightarrow> Inl (Forbidden ''Show not found or unauthorized'')
      | Some h \<Rightarrow>
          let own = (\<lambda>b. ab_showId b = showId \<and> ab_tenantId b = tenantId);
              seatsSold = count_where (\<lambda>i. list_ex (\<lambda>b. ab_id b = i \<and> own b \<and> ab_status b = CONFIRMED) (an_bookings s))
                (an_seats s);
              entries = filter (\<lambda>l. al_status l = Ls_SUCCESS \<and> list_ex (\<lambda>b. ab_id b = al_bookingId l \<and> own b) (an_bookings s))
                (an_ledger s);
              rev = total_of (\<lambda>l. if al_type l = Lt_PAYMENT then al_amount l else 0) entries;
              ref = total_of (\<lambda>l. if al_type l = Lt_REFUND then al_amount l else 0) entries
          in Inr \<lparr>sa_seatsSold = seatsSold, sa_occupancyRate = rate_of (int seatsSold) (ah_totalCapacity h) * 100,
               sa_revenue = rev, sa_refunds = ref, sa_netRevenue = rev - ref\<rparr>)"

record funnel =
  fu_totalInitiations :: nat
  fu_totalLocks :: nat
  fu_paymentInitiated :: nat
  fu_confirmed :: nat
  fu_expired :: nat
  fu_refunded :: nat
  fu_conversionRate :: rat

definition refunded_statuses :: "booking_status list" where
  "refunded_statuses = [REFUNDED, REFUND_INITIATED, REFUND_FAILED]"

definition add_group :: "funnel \<Rightarrow> booking_status \<times> nat \<Rightarrow> funnel" where
  "add_group f m =
     (let (st, c) = m
      in f\<lparr>fu_totalInitiations := fu_totalInitiations f + c,
           fu_totalLocks := (if st = LOCKED then fu_totalLocks f + c else fu_totalLocks f),
           fu_paymentInitiated := (if st = PAYMENT_IN_PROGRESS then fu_paymentInitiated f + c else fu_paymentInitiated f),
           fu_confirmed := (if st = CONFIRMED then fu_confirmed f + c else fu_confirmed f),
           fu_expired := (if st = EXPIRED then fu_expired f + c else fu_expired f),
           fu_refunded := (if st \<in> set refunded_statuses then fu_refunded f + c else fu_refunded f)\<rparr>)"

definition empty_funnel :: funnel where
  "empty_funnel = \<lparr>fu_totalInitiations = 0, fu_totalLocks = 0, fu_paymentInitiated = 0, fu_confirmed = 0,
     fu_expired = 0, fu_refunded = 0, fu_conversionRate = 0\<rparr>"

definition getBookingFunnelMetrics :: "string \<Rightarrow> int option \<Rightarrow> int option \<Rightarrow> analytics_store \<Rightarrow> funnel" where
  "getBookingFunnelMetrics tenantId from to s =
     (let f = foldl add_group empty_funnel (group_counts ab_status (bookings_of tenantId from to s))
      in f\<lparr>fu_conversionRate := rate_of (int (fu_confirmed f)) (int (fu_totalInitiations f))\<rparr>)"

section \<open>Days\<close>

text \<open>\<open>Date.prototype.toISOString\<close> for the years 0 to 9999: the civil date of a day counted from 1970-01-01.\<close>

definition civil :: "int \<Rightarrow> int \<times> int \<times> int" where
  "civil days =
     (let z = days + 719468; era = z div 146097; doe = z - era * 146097;
          yoe = (doe - doe div 1460 + doe div 36524 - doe div 146096) div 365;
          doy = doe - (365 * yoe + yoe div 4 - yoe div 100);
          mp = (5 * doy + 2) div 153;
          m = (if mp < 10 then mp + 3 else mp - 9)
      in (yoe + era * 400 + (if m \<le> 2 then 1 else 0), m, doy - (153 * mp + 2) div 5 + 1))"

definition padded :: "nat \<Rightarrow> int \<Rightarrow> string" where
  "padded w n = (let d = show_int n in replicate (w - length d) (CHR ''0'') @ d)"

definition date_text :: "int \<Rightarrow> string" where
  "date_text t = (case civil (t div 86400000) of (y, m, d) \<Rightarrow> padded 4 y @ ''-'' @ padded 2 m @ ''-'' @ padded 2 d)"

definition toISOString :: "int \<Rightarrow> string" where
  "toISOString t =
     (let r = t mod 86400000
      in date_text t @ ''T'' @ padded 2 (r div 3600000) @ '':'' @ padded 2 (r div 60000 mod 60) @ '':''
         @ padded 2 (r div 1000 mod 60) @ ''.'' @ padded 3 (r mod 1000) @ ''Z'')"

definition dateKey :: "int \<Rightarrow> string" where
  "dateKey t = hd (split_on (CHR ''T'') (toISOString t))"

text \<open>A map in the order its keys were first set.\<close>

fun bump :: "'k \<Rightarrow> int \<Rightarrow> ('k \<times> int) list \<Rightarrow> ('k \<times> int) list" where
  "bump k v [] = [(k, v)]"
| "bump k v ((q, n) # m) = (if q = k then (q, n + v) # m else (q, n) # bump k v m)"

definition getDailyRevenueTimeSeries ::
  "string \<Rightarrow> int option \<Rightarrow> int option \<Rightarrow> analytics_store \<Rightarrow> (string \<times> int) list" where
  "getDailyRevenueTimeSeries tenantId from to s =
     (let rows = filter (\<lambda>b. ab_status b = CONFIRMED) (bookings_of tenantId from to s);
          byTime = sort_key fst (group_sums ab_createdAt ab_totalAmount rows)
      in foldl (\<lambda>m (t, v). bump (dateKey t) v m) [] byTime)"

section \<open>The export\<close>

text \<open>A \<open>Decimal\<close> as text: no trailing zeros.\<close>

definition decimal_text :: "int \<Rightarrow> string" where
  "decimal_text cents =
     (let a = \<bar>cents\<bar>; sign = (if cents < 0 then ''-'' else ''''); r = a mod 100
      in sign @ show_int (a div 100)
         @ (if r = 0 then '''' else if r mod 10 = 0 then ''.'' @ show_int (r div 10)
            else ''.'' @ show_int (r div 10) @ show_int (r mod 10)))"

definition newline :: string where
  "newline = [CHR 10]"

definition csv_row :: "analytics_booking \<Rightarrow> string" where
  "csv_row b = ab_id b @ '','' @ ab_userId b @ '','' @ ab_showId b @ '','' @ decimal_text (ab_totalAmount b) @ '',''
     @ status_name (ab_status b) @ '','' @ toISOString (ab_createdAt b) @ newline"

definition exportRevenueCsvStream :: "string \<Rightarrow> int option \<Rightarrow> int option \<Rightarrow> analytics_store \<Rightarrow> string" where
  "exportRevenueCsvStream tenantId from to s =
     ''BookingID,UserID,ShowID,Amount,Status,CreatedAt'' @ newline
     @ concat (map csv_row (bookings_of tenantId from to s))"

section \<open>Totals\<close>

lemma total_of_simps [simp]: "total_of f [] = 0" "total_of f (r # rs) = f r + total_of f rs"
  "total_of f (rs @ ss) = total_of f rs + total_of f ss"
  by (simp_all add: total_of_def)

lemma sum_by_key:
  assumes "distinct ks" "key ` set rs \<subseteq> set ks"
  shows "sum_list (map (\<lambda>k. if P k then total_of f (filter (\<lambda>r. key r = k) rs) else 0) ks)
    = total_of f (filter (\<lambda>r. P (key r)) rs)"
  using assms(2)
proof (induction rs)
  case Nil
  then show ?case by (induction ks) simp_all
next
  case (Cons r rs)
  have one: "sum_list (map (\<lambda>k. if P k \<and> key r = k then f r else 0) ks) = (if P (key r) \<and> key r \<in> set ks then f r else 0)"
    using assms(1) by (induction ks) auto
  have "sum_list (map (\<lambda>k. if P k then total_of f (filter (\<lambda>q. key q = k) (r # rs)) else 0) ks)
    = sum_list (map (\<lambda>k. (if P k \<and> key r = k then f r else 0)
        + (if P k then total_of f (filter (\<lambda>q. key q = k) rs) else 0)) ks)"
    by (rule arg_cong[where f = sum_list], rule map_cong) auto
  also have "\<dots> = (if P (key r) \<and> key r \<in> set ks then f r else 0) + total_of f (filter (\<lambda>q. P (key q)) rs)"
    unfolding sum_list_addf one using Cons by simp
  finally show ?case using Cons.prems by simp
qed

lemma count_total: "int (count_where P rs) = total_of (\<lambda>_. 1) (filter P rs)"
  by (induction rs) (simp_all add: count_where_def)

lemma int_sum_list: "int (sum_list ns) = sum_list (map int ns)"
  by (induction ns) simp_all

lemma count_if_groups: "count_if P (group_counts key rs) = count_where (\<lambda>r. P (key r)) rs"
proof -
  have "int (count_if P (group_counts key rs)) =
      sum_list (map (\<lambda>k. if P k then total_of (\<lambda>_. 1) (filter (\<lambda>r. key r = k) rs) else 0) (dedupe (map key rs)))"
    by (simp add: count_if_def group_counts_def comp_def count_total[symmetric] if_distrib[of int] int_sum_list cong: if_cong)
  also have "\<dots> = int (count_where (\<lambda>r. P (key r)) rs)"
    by (subst sum_by_key) (simp_all add: count_total)
  finally show ?thesis by simp
qed

lemma sum_groups_total: "sum_list (map snd (group_sums key f rs)) = total_of f rs"
  using sum_by_key[of "dedupe (map key rs)" key rs "\<lambda>_. True" f] by (simp add: group_sums_def comp_def)

lemma sum_at_group:
  assumes "distinct (map fst gs)"
  shows "sum_at k gs = (case map_of gs k of None \<Rightarrow> 0 | Some n \<Rightarrow> n)"
proof -
  have none: "k \<notin> fst ` set gs \<Longrightarrow> foldl (\<lambda>v (q, n). if q = k then n else v) w gs = w" for w gs
    by (induction gs arbitrary: w) auto
  have "foldl (\<lambda>v (q, n). if q = k then n else v) w gs = (case map_of gs k of None \<Rightarrow> w | Some n \<Rightarrow> n)" for w
    using assms
  proof (induction gs arbitrary: w)
    case (Cons g gs)
    then show ?case using none[of gs] by (cases g) auto
  qed simp
  then show ?thesis by (simp add: sum_at_def)
qed

lemma sum_at_sums: "sum_at k (group_sums key f rs) = total_of f (filter (\<lambda>r. key r = k) rs)"
proof -
  have "map_of (map (\<lambda>k. (k, g k)) ks) k = (if k \<in> set ks then Some (g k) else None)" for g :: "'a \<Rightarrow> int" and ks
    by (induction ks) auto
  moreover have "total_of f (filter (\<lambda>r. key r = k) rs) = 0" if "k \<notin> key ` set rs"
    using that by (induction rs) auto
  moreover have "distinct (map fst (group_sums key f rs))"
    by (simp add: group_sums_def comp_def)
  ultimately show ?thesis
    by (auto simp: sum_at_group group_sums_def)
qed

section \<open>What the reports say\<close>

lemma add_entries:
  "foldl add_entry (a, b) es = (a + total_of al_amount (filter (\<lambda>l. al_type l = Lt_PAYMENT) es),
     b + total_of al_amount (filter (\<lambda>l. al_type l = Lt_REFUND) es))"
  by (induction es arbitrary: a b) auto

definition settled_entries :: "string \<Rightarrow> int option \<Rightarrow> int option \<Rightarrow> analytics_store \<Rightarrow> analytics_ledger list" where
  "settled_entries tenantId since till s =
     filter (\<lambda>l. al_tenantId l = tenantId \<and> al_status l = Ls_SUCCESS \<and> in_period since till (al_createdAt l)) (an_ledger s)"

lemma rate_of_unit: "0 \<le> a \<Longrightarrow> a \<le> b \<Longrightarrow> 0 \<le> rate_of a b \<and> rate_of a b \<le> 1"
  by (simp add: rate_of_def)

lemma count_where_mono: "(\<And>r. P r \<Longrightarrow> Q r) \<Longrightarrow> count_where P rs \<le> count_where Q rs"
  by (induction rs) (auto simp: count_where_def)

text \<open>The summary adds up the settled payments and refunds of the tenant and counts its confirmed bookings once.\<close>

theorem summary_is_exact:
  "let r = getTheaterRevenueSummary tenantId since till s; bs = bookings_of tenantId since till s;
       ls = settled_entries tenantId since till s
   in rs_totalRevenue r = total_of al_amount (filter (\<lambda>l. al_type l = Lt_PAYMENT) ls)
    \<and> rs_totalRefunds r = total_of al_amount (filter (\<lambda>l. al_type l = Lt_REFUND) ls)
    \<and> rs_netRevenue r = rs_totalRevenue r - rs_totalRefunds r
    \<and> rs_totalBookings r = count_where (\<lambda>b. ab_status b \<in> set confirmed_statuses) bs
    \<and> rs_conversionRate r = rate_of (int (rs_totalBookings r)) (int (length bs))
    \<and> rs_averageTicketValue r = rate_of (rs_totalRevenue r) (int (rs_totalBookings r))
    \<and> 0 \<le> rs_conversionRate r \<and> rs_conversionRate r \<le> 1"
proof -
  have n: "count_where (\<lambda>_. True) bs = length bs" for bs :: "analytics_booking list"
    by (simp add: count_where_def)
  have le: "count_where (\<lambda>b. ab_status b \<in> set confirmed_statuses) bs \<le> length bs" for bs
    by (simp add: count_where_def)
  have u: "0 \<le> rate_of (int (count_where (\<lambda>b. ab_status b \<in> set confirmed_statuses) bs)) (int (length bs))
      \<and> rate_of (int (count_where (\<lambda>b. ab_status b \<in> set confirmed_statuses) bs)) (int (length bs)) \<le> 1" for bs
    using le[of bs] by (intro rate_of_unit) simp_all
  show ?thesis
    using u by (simp add: getTheaterRevenueSummary_def Let_def settled_entries_def[symmetric] add_entries count_if_groups n)
qed

text \<open>The platform's totals are those of all tenants together, and only a super administrator reads them.\<close>

lemma platform_summary_total:
  assumes "getPlatformSummary role since till s = Inr p"
  shows "role = ''SUPER_ADMIN''"
    "pf_netPlatformRevenue p = total_of (\<lambda>l. case al_type l of Lt_PAYMENT \<Rightarrow> al_amount l | Lt_REFUND \<Rightarrow> - al_amount l)
       (filter (\<lambda>l. al_status l = Ls_SUCCESS \<and> in_period since till (al_createdAt l)) (an_ledger s))"
proof -
  have split: "total_of al_amount (filter (\<lambda>l. al_type l = Lt_PAYMENT) ls) - total_of al_amount (filter (\<lambda>l. al_type l = Lt_REFUND) ls)
      = total_of (\<lambda>l. case al_type l of Lt_PAYMENT \<Rightarrow> al_amount l | Lt_REFUND \<Rightarrow> - al_amount l) ls" for ls
    by (induction ls) (auto split: ledger_type.splits)
  show "role = ''SUPER_ADMIN''"
    "pf_netPlatformRevenue p = total_of (\<lambda>l. case al_type l of Lt_PAYMENT \<Rightarrow> al_amount l | Lt_REFUND \<Rightarrow> - al_amount l)
       (filter (\<lambda>l. al_status l = Ls_SUCCESS \<and> in_period since till (al_createdAt l)) (an_ledger s))"
    using assms by (auto simp: getPlatformSummary_def Let_def sum_at_sums split simp del: filter_filter split: if_splits)
qed

lemma add_group_simps [simp]:
  "fu_totalInitiations (add_group f (st, c)) = fu_totalInitiations f + c"
  "fu_totalLocks (add_group f (st, c)) = fu_totalLocks f + (if st = LOCKED then c else 0)"
  "fu_paymentInitiated (add_group f (st, c)) = fu_paymentInitiated f + (if st = PAYMENT_IN_PROGRESS then c else 0)"
  "fu_confirmed (add_group f (st, c)) = fu_confirmed f + (if st = CONFIRMED then c else 0)"
  "fu_expired (add_group f (st, c)) = fu_expired f + (if st = EXPIRED then c else 0)"
  "fu_refunded (add_group f (st, c)) = fu_refunded f + (if st \<in> set refunded_statuses then c else 0)"
  by (simp_all add: add_group_def)

lemma add_groups:
  "fu_totalInitiations (foldl add_group f gs) = fu_totalInitiations f + count_if (\<lambda>_. True) gs"
  "fu_totalLocks (foldl add_group f gs) = fu_totalLocks f + count_if (\<lambda>st. st = LOCKED) gs"
  "fu_paymentInitiated (foldl add_group f gs) = fu_paymentInitiated f + count_if (\<lambda>st. st = PAYMENT_IN_PROGRESS) gs"
  "fu_confirmed (foldl add_group f gs) = fu_confirmed f + count_if (\<lambda>st. st = CONFIRMED) gs"
  "fu_expired (foldl add_group f gs) = fu_expired f + count_if (\<lambda>st. st = EXPIRED) gs"
  "fu_refunded (foldl add_group f gs) = fu_refunded f + count_if (\<lambda>st. st \<in> set refunded_statuses) gs"
  by (induction gs arbitrary: f; force simp: count_if_def)+

text \<open>Every booking of the period is in at most one stage of the funnel, and those in none are pending, failed or
  cancelled.\<close>

lemma funnel_partition:
  "let f = getBookingFunnelMetrics tenantId since till s; bs = bookings_of tenantId since till s
   in fu_totalInitiations f = length bs
    \<and> fu_totalLocks f + fu_paymentInitiated f + fu_confirmed f + fu_expired f + fu_refunded f
       + count_where (\<lambda>b. ab_status b \<in> {PENDING, FAILED, CANCELLED}) bs = length bs"
proof -
  have "count_where (\<lambda>b. ab_status b = LOCKED) bs + count_where (\<lambda>b. ab_status b = PAYMENT_IN_PROGRESS) bs
      + count_where (\<lambda>b. ab_status b = CONFIRMED) bs + count_where (\<lambda>b. ab_status b = EXPIRED) bs
      + count_where (\<lambda>b. ab_status b \<in> set refunded_statuses) bs
      + count_where (\<lambda>b. ab_status b \<in> {PENDING, FAILED, CANCELLED}) bs = length bs" for bs
  proof (induction bs)
    case (Cons b bs)
    then show ?case by (cases "ab_status b") (simp_all add: count_where_def refunded_statuses_def)
  qed (simp add: count_where_def)
  then show ?thesis
    by (simp add: getBookingFunnelMetrics_def add_groups count_if_groups empty_funnel_def Let_def)
      (simp add: count_where_def)
qed

section \<open>The series by day\<close>

lemma map_fst_bump: "map fst (bump k v m) = (if k \<in> fst ` set m then map fst m else map fst m @ [k])"
  by (induction k v m rule: bump.induct) auto

lemma sum_bump: "sum_list (map snd (bump k v m)) = sum_list (map snd m) + v"
  by (induction k v m rule: bump.induct) auto

lemma sum_sort_key: "sum_list (map snd (sort_key fst gs)) = sum_list (map (snd :: 'k::linorder \<times> int \<Rightarrow> int) gs)"
  by (metis mset_map mset_sort sum_mset_sum_list)

lemma foldl_bump:
  assumes "distinct (map fst m)"
  shows "distinct (map fst (foldl (\<lambda>m (t, v). bump (g t) v m) m gs))
    \<and> sum_list (map snd (foldl (\<lambda>m (t, v). bump (g t) v m) m gs)) = sum_list (map snd m) + sum_list (map snd gs)"
  using assms
proof (induction gs arbitrary: m)
  case (Cons p gs)
  obtain t v where p: "p = (t, v)" by (cases p)
  have "distinct (map fst (bump (g t) v m))" using Cons.prems by (auto simp: map_fst_bump)
  from Cons.IH[OF this] show ?case by (simp add: p sum_bump)
qed simp

text \<open>The series has one point per day and loses nothing: its values add up to the amounts of the confirmed
  bookings of the period.\<close>

theorem series_conserves_revenue:
  "let series = getDailyRevenueTimeSeries tenantId since till s
   in distinct (map fst series)
    \<and> sum_list (map snd series) =
      total_of ab_totalAmount (filter (\<lambda>b. ab_status b = CONFIRMED) (bookings_of tenantId since till s))"
  using foldl_bump[of "[]" dateKey] by (simp add: getDailyRevenueTimeSeries_def Let_def sum_sort_key sum_groups_total)

text \<open>No report of a tenant depends on the rows of another.\<close>

lemma reports_are_isolated:
  assumes "filter (\<lambda>b. ab_tenantId b = tid) (an_bookings s) = filter (\<lambda>b. ab_tenantId b = tid) (an_bookings s')"
    "filter (\<lambda>l. al_tenantId l = tid) (an_ledger s) = filter (\<lambda>l. al_tenantId l = tid) (an_ledger s')"
  shows "getTheaterRevenueSummary tid since till s = getTheaterRevenueSummary tid since till s'
    \<and> getDailyRevenueTimeSeries tid since till s = getDailyRevenueTimeSeries tid since till s'
    \<and> getSettlementAnalytics tid since till s = getSettlementAnalytics tid since till s'
    \<and> getBookingFunnelMetrics tid since till s = getBookingFunnelMetrics tid since till s'
    \<and> exportRevenueCsvStream tid since till s = exportRevenueCsvStream tid since till s'"
proof -
  have b: "bookings_of tid since till q = filter (\<lambda>b. in_period since till (ab_createdAt b)) (filter (\<lambda>b. ab_tenantId b = tid) (an_bookings q))" for q
    by (simp add: bookings_of_def conj_commute)
  have l: "settled_entries tid since till q = filter (\<lambda>l. al_status l = Ls_SUCCESS \<and> in_period since till (al_createdAt l))
      (filter (\<lambda>l. al_tenantId l = tid) (an_ledger q))" for q
    by (simp add: settled_entries_def)
  have "bookings_of tid since till s = bookings_of tid since till s'" "settled_entries tid since till s = settled_entries tid since till s'"
    by (simp_all only: b l assms)
  then show ?thesis
    by (simp add: getTheaterRevenueSummary_def getDailyRevenueTimeSeries_def getSettlementAnalytics_def
        getBookingFunnelMetrics_def exportRevenueCsvStream_def settled_entries_def)
qed

text \<open>Dates.\<close>

lemma iso_examples:
  "toISOString 951868799999 = ''2000-02-29T23:59:59.999Z'' \<and> dateKey 1771632000000 = ''2026-02-21''
   \<and> decimal_text 12050 = ''120.5'' \<and> decimal_text 700 = ''7''"
  by code_simp

end
