(* ===== verification/Recommendations.thy ===== *)
theory Recommendations
  imports Complex_Main "HOL-Library.Multiset"
begin

text \<open>
  Recommendations: \<open>backend/src/recommendation/recommendation.service.ts\<close>. The preferences of a user
  are counted in the last twenty confirmed bookings, a hundred coming shows are scored by them and by
  demand, and the ten best are returned and cached for two minutes. The hour of a time is its local hour.
  The cache is a parameter and may fail; its JSON round trip is the identity here.
\<close>

section \<open>Preferences\<close>

record past_booking =
  pa_type :: string
  pa_language :: string
  pa_city :: string
  pa_hour :: nat

text \<open>An object used as a counter, in the order its keys were added.\<close>

fun count_key :: "string \<Rightarrow> (string \<times> nat) list \<Rightarrow> (string \<times> nat) list" where
  "count_key k [] = [(k, 1)]"
| "count_key k ((q, n) # m) = (if q = k then (q, n + 1) # m else (q, n) # count_key k m)"

definition counted :: "('b \<Rightarrow> string) \<Rightarrow> 'b list \<Rightarrow> (string \<times> nat) list" where
  "counted f bs = foldl (\<lambda>m b. count_key (f b) m) [] bs"

definition timeOfDay :: "nat \<Rightarrow> string" where
  "timeOfDay hour = (if hour < 12 then ''morning'' else if hour < 17 then ''afternoon'' else ''evening'')"

fun top_key :: "int \<Rightarrow> string option \<Rightarrow> (string \<times> nat) list \<Rightarrow> string option" where
  "top_key mx topKey [] = topKey"
| "top_key mx topKey ((k, n) # m) = (if int n > mx then top_key (int n) (Some k) m else top_key mx topKey m)"

definition getTopKey :: "(string \<times> nat) list \<Rightarrow> string option" where
  "getTopKey counts = top_key (- 1) None counts"

record preferences =
  pr_type :: "string option"
  pr_language :: "string option"
  pr_city :: "string option"
  pr_time :: "string option"

definition inferred :: "past_booking list \<Rightarrow> preferences" where
  "inferred bs =
     \<lparr>pr_type = getTopKey (counted pa_type bs), pr_language = getTopKey (counted pa_language bs),
      pr_city = getTopKey (counted pa_city bs), pr_time = getTopKey (counted (\<lambda>b. timeOfDay (pa_hour b)) bs)\<rparr>"

section \<open>Scores\<close>

record candidate =
  ca_id :: string
  ca_type :: string
  ca_language :: string
  ca_city :: string
  ca_hour :: nat
  ca_bookings :: nat
  ca_totalRows :: nat
  ca_seatsPerRow :: nat

text \<open>\<open>preferred && x === preferred\<close>: an empty preference is falsy.\<close>

definition prefers :: "string option \<Rightarrow> string \<Rightarrow> bool" where
  "prefers p x \<longleftrightarrow> p = Some x \<and> x \<noteq> []"

definition feature_score :: "preferences \<Rightarrow> candidate \<Rightarrow> nat" where
  "feature_score p c =
     (if prefers (pr_type p) (ca_type c) then 4 else 0) + (if prefers (pr_language p) (ca_language c) then 3 else 0)
     + (if prefers (pr_city p) (ca_city c) then 2 else 0) + (if prefers (pr_time p) (timeOfDay (ca_hour c)) then 2 else 0)"

text \<open>\<open>bookings / capacity\<close> against 0.8 and 0.5, cross-multiplied: a screen without seats is \<open>NaN\<close> without a
  booking and \<open>Infinity\<close> with one.\<close>

definition demandMultiplier :: "candidate \<Rightarrow> nat" where
  "demandMultiplier c =
     (let booked = ca_bookings c; capacity = ca_totalRows c * ca_seatsPerRow c
      in if 5 * booked > 4 * capacity then 3 else if 2 * booked > capacity then 2 else 1)"

definition score :: "preferences \<Rightarrow> candidate \<Rightarrow> nat" where
  "score p c = feature_score p c * demandMultiplier c"

definition ranked :: "preferences \<Rightarrow> candidate list \<Rightarrow> (candidate \<times> nat) list" where
  "ranked p cs = take 10 (sort_key (\<lambda>x. - int (snd x)) (map (\<lambda>c. (c, score p c)) cs))"

definition computeRecommendations :: "past_booking list \<Rightarrow> candidate list \<Rightarrow> (candidate \<times> nat) list" where
  "computeRecommendations history upcoming = ranked (inferred (take 20 history)) (take 100 upcoming)"

text \<open>The cache: \<open>None\<close> when Redis is not configured; a failing read counts as a miss, a failing write is ignored.\<close>

definition getRecommendations ::
  "('c \<Rightarrow> string \<Rightarrow> 'v option) \<Rightarrow> (string \<Rightarrow> 'v \<Rightarrow> nat \<Rightarrow> 'c \<Rightarrow> 'c) \<Rightarrow> 'v \<Rightarrow> string \<Rightarrow> 'c option \<Rightarrow> 'c option \<times> 'v" where
  "getRecommendations get put computed userId redis =
     (let cacheKey = ''user:'' @ userId @ '':recommendations''
      in case redis of
           None \<Rightarrow> (None, computed)
         | Some c \<Rightarrow> (case get c cacheKey of Some v \<Rightarrow> (Some c, v) | None \<Rightarrow> (Some (put cacheKey computed 120 c), computed)))"

section \<open>The most frequent key\<close>

lemma map_fst_count_key: "map fst (count_key k m) = (if k \<in> fst ` set m then map fst m else map fst m @ [k])"
  by (induction k m rule: count_key.induct) auto

lemma map_of_count_key:
  "map_of (count_key k m) q = (if q = k then Some (case map_of m k of None \<Rightarrow> 1 | Some n \<Rightarrow> n + 1) else map_of m q)"
  by (induction k m rule: count_key.induct) auto

lemma counted_snoc: "counted f (bs @ [b]) = count_key (f b) (counted f bs)"
  by (simp add: counted_def)

lemma distinct_counted: "distinct (map fst (counted f bs))"
  by (induction bs rule: rev_induct) (auto simp: counted_snoc map_fst_count_key, simp add: counted_def)

lemma map_of_counted:
  "map_of (counted f bs) k = (let n = length (filter (\<lambda>b. f b = k) bs) in if n = 0 then None else Some n)"
proof (induction bs rule: rev_induct)
  case Nil
  then show ?case by (simp add: counted_def)
next
  case (snoc b bs)
  then show ?case by (auto simp: counted_snoc map_of_count_key Let_def)
qed

lemma top_key_max:
  assumes "top_key mx t m = Some k" "distinct (map fst m)"
  shows "(t = Some k \<and> (\<forall>(q, n) \<in> set m. int n \<le> mx))
    \<or> (\<exists>n. (k, n) \<in> set m \<and> int n > mx \<and> (\<forall>(q, i) \<in> set m. i \<le> n))"
  using assms
proof (induction mx t m rule: top_key.induct)
  case (2 mx t k' n m)
  have d: "distinct (map fst m)" using 2(4) by simp
  show ?case
  proof (cases "int n > mx")
    case True
    have "top_key (int n) (Some k') m = Some k" using 2(3) True by simp
    from 2(1)[OF True this d] show ?thesis
    proof
      assume "Some k' = Some k \<and> (\<forall>(q, i) \<in> set m. int i \<le> int n)"
      then show ?thesis using True by (intro disjI2 exI[of _ n]) auto
    next
      assume "\<exists>i. (k, i) \<in> set m \<and> int n < int i \<and> (\<forall>(q, j) \<in> set m. j \<le> i)"
      then obtain i where "(k, i) \<in> set m" "int n < int i" "\<forall>(q, j) \<in> set m. j \<le> i" by blast
      then show ?thesis using True by (intro disjI2 exI[of _ i]) auto
    qed
  next
    case False
    have "top_key mx t m = Some k" using 2(3) False by simp
    from 2(2)[OF False this d] show ?thesis
    proof
      assume "t = Some k \<and> (\<forall>(q, i) \<in> set m. int i \<le> mx)"
      then show ?thesis using False by (intro disjI1) auto
    next
      assume "\<exists>i. (k, i) \<in> set m \<and> mx < int i \<and> (\<forall>(q, j) \<in> set m. j \<le> i)"
      then obtain i where "(k, i) \<in> set m" "mx < int i" "\<forall>(q, j) \<in> set m. j \<le> i" by blast
      then show ?thesis using False by (intro disjI2 exI[of _ i]) auto
    qed
  qed
qed simp

lemma top_key_None: "top_key mx t m = None \<Longrightarrow> t = None \<and> (\<forall>(q, n) \<in> set m. int n \<le> mx)"
  by (induction mx t m rule: top_key.induct) (auto split: if_splits)

text \<open>The preferred value is one that no other value of the history exceeds, and there is one unless the history is
  empty.\<close>

theorem preference_is_most_frequent:
  "case getTopKey (counted f bs) of
     None \<Rightarrow> bs = []
   | Some k \<Rightarrow> (\<forall>q. length (filter (\<lambda>b. f b = q) bs) \<le> length (filter (\<lambda>b. f b = k) bs)) \<and> k \<in> f ` set bs"
proof (cases "getTopKey (counted f bs)")
  case None
  then have "\<forall>(q, n) \<in> set (counted f bs). int n \<le> - 1" using top_key_None[of "- 1" None "counted f bs"] by (simp add: getTopKey_def)
  then have e: "counted f bs = []" by (cases "counted f bs") auto
  have "bs = []"
  proof (rule ccontr)
    assume "bs \<noteq> []"
    then have "length (filter (\<lambda>b. f b = f (hd bs)) bs) \<noteq> 0" by (cases bs) auto
    then show False using map_of_counted[of f bs "f (hd bs)"] e by (simp add: Let_def)
  qed
  then show ?thesis using None by simp
next
  case (Some k)
  have d: "distinct (map fst (counted f bs))" by (rule distinct_counted)
  from Some obtain n where n: "(k, n) \<in> set (counted f bs)" "\<forall>(q, i) \<in> set (counted f bs). i \<le> n"
    using top_key_max[OF _ d] by (fastforce simp: getTopKey_def)
  then have k: "map_of (counted f bs) k = Some n" using d by simp
  have "length (filter (\<lambda>b. f b = q) bs) \<le> n" for q
  proof (cases "length (filter (\<lambda>b. f b = q) bs) = 0")
    case False
    then have "map_of (counted f bs) q = Some (length (filter (\<lambda>b. f b = q) bs))"
      unfolding map_of_counted Let_def by (simp only: if_False)
    then show ?thesis using n(2) map_of_SomeD by fastforce
  qed simp
  moreover have l: "length (filter (\<lambda>b. f b = k) bs) = n" "n \<noteq> 0"
    using k unfolding map_of_counted Let_def by (auto split: if_splits)
  moreover have "k \<in> f ` set bs"
    using l by (metis (mono_tags, lifting) filter_False imageI length_0_conv)
  ultimately show ?thesis using Some by simp
qed

section \<open>The ranking\<close>

lemma demand_bounds: "1 \<le> demandMultiplier c \<and> demandMultiplier c \<le> 3"
  by (simp add: demandMultiplier_def Let_def)

lemma score_bound: "score p c \<le> 33"
proof -
  have "feature_score p c \<le> 11" by (simp add: feature_score_def)
  then have "score p c \<le> 11 * 3" unfolding score_def using demand_bounds by (intro mult_le_mono) auto
  then show ?thesis by simp
qed

lemma demand_exact:
  assumes "0 < ca_totalRows c * ca_seatsPerRow c"
  shows "demandMultiplier c = (let occupancy = (of_nat (ca_bookings c) :: rat) / of_nat (ca_totalRows c * ca_seatsPerRow c)
    in if occupancy > 8 / 10 then 3 else if occupancy > 5 / 10 then 2 else 1)"
proof -
  let ?n = "ca_totalRows c * ca_seatsPerRow c" and ?b = "ca_bookings c"
  have p: "(0 :: rat) < of_nat ?n" using assms by (simp only: of_nat_0_less_iff)
  have "8 / 10 < (of_nat ?b :: rat) / of_nat ?n \<longleftrightarrow> 4 * of_nat ?n < (5 * of_nat ?b :: rat)"
    using p by (simp add: less_divide_eq) linarith
  also have "\<dots> \<longleftrightarrow> 4 * ?n < 5 * ?b"
    by (metis of_nat_less_iff of_nat_mult of_nat_numeral)
  moreover have "5 / 10 < (of_nat ?b :: rat) / of_nat ?n \<longleftrightarrow> of_nat ?n < (2 * of_nat ?b :: rat)"
    using p by (simp add: less_divide_eq) linarith
  moreover have "of_nat ?n < (2 * of_nat ?b :: rat) \<longleftrightarrow> ?n < 2 * ?b"
    by (metis of_nat_less_iff of_nat_mult of_nat_numeral)
  ultimately show ?thesis unfolding demandMultiplier_def Let_def by simp
qed

lemma sorted_take_drop:
  assumes "sorted (map f xs)" "x \<in> set (take n xs)" "y \<in> set (drop n xs)"
  shows "f x \<le> f y"
proof -
  have "sorted (map f (take n xs) @ map f (drop n xs))" using assms(1) by (simp flip: map_append)
  then show ?thesis using assms(2,3) by (simp add: sorted_append)
qed

text \<open>At most ten of the candidates are returned, the best first, and none left out scores higher than one
  returned.\<close>

theorem ranking_is_best:
  "length (ranked p cs) = min 10 (length cs)
   \<and> sorted (map (\<lambda>x. - int (snd x)) (ranked p cs))
   \<and> (\<exists>rest. mset (map fst (ranked p cs)) + mset rest = mset cs
        \<and> (\<forall>x \<in> set (ranked p cs). snd x = score p (fst x) \<and> (\<forall>c \<in> set rest. score p c \<le> snd x)))"
proof -
  let ?key = "\<lambda>x :: candidate \<times> nat. - int (snd x)"
  let ?all = "sort_key ?key (map (\<lambda>c. (c, score p c)) cs)"
  let ?rest = "map fst (drop 10 ?all)"
  have s: "sorted (map ?key ?all)" by simp
  have "sorted (map ?key (take 10 ?all))" using s by (metis sorted_wrt_take take_map)
  moreover have "mset (map fst (take 10 ?all)) + mset ?rest = mset cs"
  proof -
    have "mset (map fst (take 10 ?all)) + mset ?rest = mset (map fst ?all)"
      by (metis append_take_drop_id map_append mset_append)
    also have "\<dots> = image_mset fst (mset (map (\<lambda>c. (c, score p c)) cs))" by simp
    also have "\<dots> = mset (map fst (map (\<lambda>c. (c, score p c)) cs))" by (simp only: mset_map)
    finally show ?thesis by (simp add: comp_def)
  qed
  moreover have best: "snd x = score p (fst x) \<and> (\<forall>c \<in> set ?rest. score p c \<le> snd x)" if x: "x \<in> set (take 10 ?all)" for x
  proof
    have all: "snd y = score p (fst y)" if "y \<in> set ?all" for y using that by auto
    show "snd x = score p (fst x)" using all[OF in_set_takeD[OF x]] .
    show "\<forall>c \<in> set ?rest. score p c \<le> snd x"
    proof
      fix c assume "c \<in> set ?rest"
      then obtain y where y: "y \<in> set (drop 10 ?all)" "c = fst y" by auto
      have "snd y = score p c" using all[OF in_set_dropD[OF y(1)]] y(2) by simp
      then show "score p c \<le> snd x" using sorted_take_drop[OF s x y(1)] by simp
    qed
  qed
  moreover have "length (take 10 ?all) = min 10 (length cs)" by simp
  ultimately show ?thesis
    unfolding ranked_def by blast
qed

definition sample_candidate :: "string \<Rightarrow> nat \<Rightarrow> candidate" where
  "sample_candidate i booked = \<lparr>ca_id = i, ca_type = ''MOVIE'', ca_language = ''Hindi'', ca_city = ''Pune'', ca_hour = 20,
     ca_bookings = booked, ca_totalRows = 2, ca_seatsPerRow = 5\<rparr>"

definition sample_preferences :: preferences where
  "sample_preferences = \<lparr>pr_type = Some ''MOVIE'', pr_language = None, pr_city = None, pr_time = None\<rparr>"

lemma ranking_is_best_witness:
  "length (ranked sample_preferences [sample_candidate ''a'' 1, sample_candidate ''b'' 9]) = 2
   \<and> sorted (map (\<lambda>x. - int (snd x)) (ranked sample_preferences [sample_candidate ''a'' 1, sample_candidate ''b'' 9]))"
  using ranking_is_best[of sample_preferences "[sample_candidate ''a'' 1, sample_candidate ''b'' 9]"] by simp

text \<open>Within two minutes the answer is the cached one.\<close>

lemma recommendations_cached:
  assumes "\<And>v c. get (put (''user:'' @ u @ '':recommendations'') v 120 c) (''user:'' @ u @ '':recommendations'') = Some v"
    "getRecommendations get put a u (Some c) = (Some c', v)" "get c (''user:'' @ u @ '':recommendations'') = None"
  shows "getRecommendations get put b u (Some c') = (Some c', a)"
  using assms by (auto simp: getRecommendations_def Let_def)

end
