(* ===== verification/Administration.thy ===== *)
theory Administration
  imports Complex_Main Anomalies
begin

text \<open>
  The administrator's and the platform's operations: \<open>backend/src/admin/admin.service.ts\<close>,
  \<open>platform/platform.service.ts\<close>, \<open>platform/reliability.processor.ts\<close> and
  \<open>wishlist/wishlist.service.ts\<close>. Identities and times are arguments. The seat locks that the overview
  counts in Redis are an argument: the batches its scan returns.
\<close>

section \<open>Monetization\<close>

datatype fee_type = Fee_PERCENTAGE | Fee_FLAT

record fee_tenant =
  ft_id :: string
  ft_status :: string
  ft_isActive :: bool
  ft_plan :: string
  ft_bookingLimit :: int
  ft_monthlyBookingCount :: int
  ft_monthlyRevenue :: rat
  ft_platformFeeEnabled :: bool
  ft_platformFeeType :: fee_type
  ft_platformFeeValue :: rat

record fee_audit =
  fa_tenantId :: string
  fa_oldFeeType :: fee_type
  fa_oldPercentage :: "rat option"
  fa_oldFlatFee :: "rat option"
  fa_newFeeType :: fee_type
  fa_newPercentage :: "rat option"
  fa_newFlatFee :: "rat option"
  fa_changedByUserId :: string

record monetization_dto =
  md_enabled :: "bool option"
  md_type :: "fee_type option"
  md_value :: "rat option"

definition find_fee_tenant :: "string \<Rightarrow> fee_tenant list \<Rightarrow> fee_tenant option" where
  "find_fee_tenant i ts = find (\<lambda>t. ft_id t = i) ts"

text \<open>\<open>x ?? y\<close>.\<close>

definition default_to :: "'a option \<Rightarrow> 'a \<Rightarrow> 'a" where
  "default_to x y = (case x of None \<Rightarrow> y | Some v \<Rightarrow> v)"

definition fee_change_of :: "fee_tenant \<Rightarrow> monetization_dto \<Rightarrow> string \<Rightarrow> fee_audit" where
  "fee_change_of t dto changedBy =
     (let newType = default_to (md_type dto) (ft_platformFeeType t);
          newValue = default_to (md_value dto) (ft_platformFeeValue t)
      in \<lparr>fa_tenantId = ft_id t, fa_oldFeeType = ft_platformFeeType t,
          fa_oldPercentage = (if ft_platformFeeType t = Fee_PERCENTAGE then Some (ft_platformFeeValue t) else None),
          fa_oldFlatFee = (if ft_platformFeeType t = Fee_FLAT then Some (ft_platformFeeValue t) else None),
          fa_newFeeType = newType,
          fa_newPercentage = (if newType = Fee_PERCENTAGE then Some newValue else None),
          fa_newFlatFee = (if newType = Fee_FLAT then Some newValue else None),
          fa_changedByUserId = changedBy\<rparr>)"

text \<open>An undefined member of the update leaves its column.\<close>

definition fee_update :: "monetization_dto \<Rightarrow> fee_tenant \<Rightarrow> fee_tenant" where
  "fee_update dto t = t\<lparr>ft_platformFeeEnabled := default_to (md_enabled dto) (ft_platformFeeEnabled t),
     ft_platformFeeType := default_to (md_type dto) (ft_platformFeeType t),
     ft_platformFeeValue := default_to (md_value dto) (ft_platformFeeValue t)\<rparr>"

text \<open>\<open>value && value > cap\<close>.\<close>

definition exceeds :: "rat option \<Rightarrow> rat \<Rightarrow> bool" where
  "exceeds x cap = (case x of None \<Rightarrow> False | Some v \<Rightarrow> v \<noteq> 0 \<and> v > cap)"

definition updateMonetization ::
  "string \<Rightarrow> monetization_dto \<Rightarrow> string \<Rightarrow> fee_tenant list \<times> fee_audit list \<Rightarrow>
   (fee_tenant list \<times> fee_audit list) \<times> fee_tenant outcome" where
  "updateMonetization tenantId dto changedBy s =
     (case find_fee_tenant tenantId (fst s) of
        None \<Rightarrow> (s, Inl (NotFound ''Tenant not found''))
      | Some t \<Rightarrow>
          if md_type dto = Some Fee_PERCENTAGE \<and> exceeds (md_value dto) 20
          then (s, Inl (BadRequest ''Percentage fee cannot exceed 20%''))
          else if md_type dto = Some Fee_FLAT \<and> exceeds (md_value dto) 1000
          then (s, Inl (BadRequest ''Flat fee cannot exceed 1000 rupees''))
          else ((update_where (\<lambda>r. ft_id r = tenantId) (fee_update dto) (fst s), snd s @ [fee_change_of t dto changedBy]),
                Inr (fee_update dto t)))"

section \<open>Shows and events\<close>

record admin_event =
  ae_title :: string
  ae_type :: string
  ae_language :: string
  ae_duration :: int
  ae_date :: int
  ae_location :: string
  ae_price :: rat
  ae_totalSeats :: "int option"
  ae_availableSeats :: "int option"
  ae_posterUrl :: "string option"
  ae_bannerUrl :: "string option"
  ae_description :: "string option"
  ae_isActive :: bool
  ae_tenantId :: string

record event_dto =
  ed_title :: string
  ed_type :: string
  ed_language :: string
  ed_duration :: int
  ed_date :: int
  ed_location :: string
  ed_price :: rat
  ed_totalSeats :: "int option"
  ed_posterUrl :: "string option"
  ed_bannerUrl :: "string option"
  ed_description :: "string option"

definition createAdminEvent :: "event_dto \<Rightarrow> string \<Rightarrow> admin_event list \<Rightarrow> admin_event list" where
  "createAdminEvent dto tenantId events =
     events @ [\<lparr>ae_title = ed_title dto, ae_type = ed_type dto, ae_language = ed_language dto, ae_duration = ed_duration dto,
        ae_date = ed_date dto, ae_location = ed_location dto, ae_price = ed_price dto, ae_totalSeats = ed_totalSeats dto,
        ae_availableSeats = ed_totalSeats dto, ae_posterUrl = ed_posterUrl dto, ae_bannerUrl = ed_bannerUrl dto,
        ae_description = ed_description dto, ae_isActive = True, ae_tenantId = tenantId\<rparr>]"

definition getAllEvents :: "string option \<Rightarrow> admin_event list \<Rightarrow> admin_event list" where
  "getAllEvents tenantId events =
     take 100 (sort_key (\<lambda>e. - ae_date e) (filter (\<lambda>e. \<not> truthy tenantId \<or> tenantId = Some (ae_tenantId e)) events))"

record screen_row =
  sc_id :: string
  sc_seats :: "string list"

record admin_show =
  as_id :: string
  as_eventId :: string
  as_eventTitle :: string
  as_screenId :: string
  as_startTime :: int
  as_price :: rat
  as_totalCapacity :: nat
  as_remainingCapacity :: nat
  as_tenantId :: string
  as_isActive :: bool

record show_seat =
  ss_showId :: string
  ss_seatId :: string
  ss_available :: bool
  ss_tenantId :: string

definition createShow ::
  "string \<Rightarrow> string \<Rightarrow> string \<Rightarrow> string \<Rightarrow> int \<Rightarrow> rat \<Rightarrow> string \<Rightarrow> screen_row list \<Rightarrow> admin_show list \<times> show_seat list \<Rightarrow>
   (admin_show list \<times> show_seat list) \<times> admin_show outcome" where
  "createShow newId eventId eventTitle screenId startTime price tenantId screens s =
     (case find (\<lambda>c. sc_id c = screenId) screens of
        None \<Rightarrow> (s, Inl (NotFound ''Screen not found''))
      | Some c \<Rightarrow>
          let sh = \<lparr>as_id = newId, as_eventId = eventId, as_eventTitle = eventTitle, as_screenId = screenId,
                as_startTime = startTime, as_price = price, as_totalCapacity = length (sc_seats c),
                as_remainingCapacity = length (sc_seats c), as_tenantId = tenantId, as_isActive = True\<rparr>
          in if newId \<in> as_id ` set (fst s) then (s, Inl (Internal ''Unique constraint failed''))
             else ((fst s @ [sh],
                    snd s @ map (\<lambda>i. \<lparr>ss_showId = newId, ss_seatId = i, ss_available = True, ss_tenantId = tenantId\<rparr>)
                      (sc_seats c)), Inr sh))"

record show_filters =
  sf_search :: "string option"
  sf_startDate :: "int option"
  sf_endDate :: "int option"

fun contains :: "string \<Rightarrow> string \<Rightarrow> bool" where
  "contains [] p = (p = [])"
| "contains (c # s) p = (take (length p) (c # s) = p \<or> contains s p)"

definition show_matches :: "show_filters \<Rightarrow> admin_show \<Rightarrow> bool" where
  "show_matches f h \<longleftrightarrow> (truthy (sf_search f) \<longrightarrow> contains (to_lower (as_eventTitle h)) (to_lower (the (sf_search f))))
     \<and> (case sf_startDate f of None \<Rightarrow> True | Some d \<Rightarrow> d \<le> as_startTime h)
     \<and> (case sf_endDate f of None \<Rightarrow> True | Some d \<Rightarrow> as_startTime h \<le> d)"

text \<open>The page after the cursor, which the query itself includes, and the \<open>total\<close> of the answer.\<close>

definition getShows :: "nat \<Rightarrow> string option \<Rightarrow> show_filters \<Rightarrow> admin_show list \<Rightarrow> admin_show list \<times> nat" where
  "getShows limit cursor f all =
     (let found = sort_key as_startTime (filter (show_matches f) all);
          rest = (if truthy cursor then drop 1 (dropWhile (\<lambda>h. as_id h \<noteq> the cursor) found) else found);
          page = take limit rest
      in (page, length page))"

section \<open>The overview and the bookings\<close>

record listed_booking =
  lb_id :: string
  lb_status :: string
  lb_tenantId :: string
  lb_totalAmount :: rat
  lb_createdAt :: int

record overview =
  ov_totalRevenue :: rat
  ov_totalBookings :: nat
  ov_activeUsers :: nat
  ov_activeLocks :: nat
  ov_pendingActions :: nat

definition of_tenant :: "string option \<Rightarrow> string \<Rightarrow> bool" where
  "of_tenant tenantId t \<longleftrightarrow> \<not> truthy tenantId \<or> tenantId = Some t"

definition getAnalyticsOverview ::
  "string option \<Rightarrow> string list list option \<Rightarrow> listed_booking list \<Rightarrow> string option list \<Rightarrow> overview" where
  "getAnalyticsOverview tenantId lockBatches bookings userTenants =
     (let own = filter (\<lambda>b. of_tenant tenantId (lb_tenantId b)) bookings;
          confirmed = filter (\<lambda>b. lb_status b = ''CONFIRMED'') own
      in \<lparr>ov_totalRevenue = sum_list (map lb_totalAmount confirmed), ov_totalBookings = length confirmed,
          ov_activeUsers = (if truthy tenantId then count_where (\<lambda>t. t = tenantId) userTenants else length userTenants),
          ov_activeLocks = (case lockBatches of None \<Rightarrow> 0 | Some bs \<Rightarrow> foldl (\<lambda>n b. n + length b) 0 bs),
          ov_pendingActions = count_where (\<lambda>b. lb_status b \<in> set [''CANCELLED'', ''FAILED'']) own\<rparr>)"

definition split_commas :: "string \<Rightarrow> string list" where
  "split_commas s = foldr (\<lambda>c ws. if c = CHR '','' then [] # ws else case ws of [] \<Rightarrow> [[c]] | w # rest \<Rightarrow> (c # w) # rest) s [[]]"

definition getBookings :: "string option \<Rightarrow> listed_booking list \<Rightarrow> listed_booking list" where
  "getBookings status bookings =
     take 100 (sort_key (\<lambda>b. - lb_createdAt b)
       (filter (\<lambda>b. \<not> truthy status \<or> lb_status b \<in> set (split_commas (the status))) bookings))"

section \<open>The platform\<close>

definition getDefaultLimit :: "string \<Rightarrow> int" where
  "getDefaultLimit plan =
     (if plan = ''FREE'' then 100 else if plan = ''BASIC'' then 1000 else if plan = ''PRO'' then 10000
      else if plan = ''ENTERPRISE'' then 1000000 else 100)"

definition update_tenant :: "string \<Rightarrow> (fee_tenant \<Rightarrow> fee_tenant) \<Rightarrow> fee_tenant list \<Rightarrow> fee_tenant list outcome" where
  "update_tenant i f ts =
     (if find_fee_tenant i ts = None then Inl (NotFound ''Record to update not found'')
      else Inr (update_where (\<lambda>t. ft_id t = i) f ts))"

definition updateTenantStatus :: "string \<Rightarrow> string \<Rightarrow> fee_tenant list \<Rightarrow> fee_tenant list outcome" where
  "updateTenantStatus i status ts =
     update_tenant i (\<lambda>t. t\<lparr>ft_status := status, ft_isActive := (status = ''ACTIVE'' \<or> status = ''TRIAL'')\<rparr>) ts"

definition updateTenantPlan :: "string \<Rightarrow> string \<Rightarrow> int option \<Rightarrow> fee_tenant list \<Rightarrow> fee_tenant list outcome" where
  "updateTenantPlan i plan limit ts =
     update_tenant i (\<lambda>t. t\<lparr>ft_plan := plan, ft_bookingLimit := default_to limit (getDefaultLimit plan)\<rparr>) ts"

definition getTenantById :: "string \<Rightarrow> fee_tenant list \<Rightarrow> fee_tenant outcome" where
  "getTenantById i ts = (case find_fee_tenant i ts of None \<Rightarrow> Inl (NotFound ''Tenant not found'') | Some t \<Rightarrow> Inr t)"

record platform_stats =
  ps_totalTenants :: nat
  ps_activeTenants :: nat
  ps_totalTheaters :: nat
  ps_totalEvents :: nat
  ps_totalBookings :: nat
  ps_totalRevenue :: rat
  ps_activeUsers7d :: nat

definition getGlobalStats :: 
  "int \<Rightarrow> fee_tenant list \<Rightarrow> nat \<Rightarrow> nat \<Rightarrow> listed_booking list \<Rightarrow> int list \<Rightarrow> platform_stats" where
  "getGlobalStats now ts theaters events bookings usersCreated =
     (let sevenDaysAgo = now - 7 * 86400000
      in \<lparr>ps_totalTenants = length ts, ps_activeTenants = count_where (\<lambda>t. ft_status t = ''ACTIVE'') ts,
          ps_totalTheaters = theaters, ps_totalEvents = events, ps_totalBookings = length bookings,
          ps_totalRevenue = sum_list (map lb_totalAmount (filter (\<lambda>b. lb_status b = ''CONFIRMED'') bookings)),
          ps_activeUsers7d = count_where (\<lambda>t. t \<ge> sevenDaysAgo) usersCreated\<rparr>)"

record logged_audit =
  au_tenantId :: "string option"
  au_actorRole :: "string option"
  au_action :: string
  au_createdAt :: int

text \<open>An undefined filter is no condition; a given one is compared as it is.\<close>

definition getAuditLogs ::
  "string option \<Rightarrow> string option \<Rightarrow> int option \<Rightarrow> int option \<Rightarrow> logged_audit list \<Rightarrow> logged_audit list" where
  "getAuditLogs tenantId role since till logs =
     take 100 (sort_key (\<lambda>l. - au_createdAt l)
       (filter (\<lambda>l. (tenantId = None \<or> au_tenantId l = tenantId) \<and> (role = None \<or> au_actorRole l = role)
          \<and> (case since of None \<Rightarrow> True | Some d \<Rightarrow> d \<le> au_createdAt l)
          \<and> (case till of None \<Rightarrow> True | Some d \<Rightarrow> au_createdAt l \<le> d)) logs))"

record tenant_health =
  th_tenantId :: string
  th_status :: string
  th_plan :: string
  th_realtime :: health
  th_bookings24h :: nat
  th_failures24h :: nat

text \<open>The payment logs of status MISMATCH are given by tenant and time.\<close>

definition getTenantHealth ::
  "int \<Rightarrow> string \<Rightarrow> fee_tenant list \<Rightarrow> detector \<Rightarrow> listed_booking list \<Rightarrow> (string \<times> int) list \<Rightarrow> tenant_health outcome" where
  "getTenantHealth now i ts metrics bookings mismatches =
     (case getTenantById i ts of
        Inl e \<Rightarrow> Inl e
      | Inr t \<Rightarrow> Inr \<lparr>th_tenantId = i, th_status = ft_status t, th_plan = ft_plan t, th_realtime = getHealth i now metrics,
          th_bookings24h = count_where (\<lambda>b. lb_tenantId b = i \<and> lb_createdAt b \<ge> now - 86400000) bookings,
          th_failures24h = count_where (\<lambda>m. fst m = i \<and> snd m \<ge> now - 86400000) mismatches\<rparr>)"

text \<open>Every tenant with the number of its bookings; the theaters are counted alike.\<close>

definition getAllTenants :: "fee_tenant list \<Rightarrow> listed_booking list \<Rightarrow> (fee_tenant \<times> nat) list" where
  "getAllTenants ts bookings = map (\<lambda>t. (t, count_where (\<lambda>b. lb_tenantId b = ft_id t) bookings)) ts"

datatype job_answer = Skipped | Completed | Reset_completed | No_action_required | Unknown_job

definition handlePaymentReconciliation :: "(string \<times> string) list \<Rightarrow> string \<Rightarrow> job_answer" where
  "handlePaymentReconciliation statuses bookingId =
     (if map_of statuses bookingId \<noteq> Some ''PENDING'' then Skipped else Completed)"

text \<open>The day of the month is that of the server's clock.\<close>

definition handleUsageReset :: "nat \<Rightarrow> fee_tenant list \<Rightarrow> fee_tenant list \<times> job_answer" where
  "handleUsageReset day ts =
     (if day = 1 then (map (\<lambda>t. t\<lparr>ft_monthlyRevenue := 0\<rparr>) ts, Reset_completed) else (ts, No_action_required))"

definition process_reliability :: "string \<Rightarrow> string \<Rightarrow> nat \<Rightarrow> (string \<times> string) list \<Rightarrow> fee_tenant list \<Rightarrow> fee_tenant list \<times> job_answer" where
  "process_reliability name bookingId day statuses ts =
     (if name = ''payment-reconciliation-check'' then (ts, handlePaymentReconciliation statuses bookingId)
      else if name = ''daily-usage-reset'' then handleUsageReset day ts
      else (ts, Unknown_job))"

section \<open>Wishlists\<close>

record wish =
  wi_userId :: string
  wi_eventId :: string
  wi_tenantId :: "string option"
  wi_createdAt :: int

definition addToWishlist :: "string option \<Rightarrow> int \<Rightarrow> string \<Rightarrow> string \<Rightarrow> wish list \<Rightarrow> wish list \<times> wish outcome" where
  "addToWishlist tenantId now userId eventId ws =
     (if find (\<lambda>w. wi_userId w = userId \<and> wi_eventId w = eventId) ws \<noteq> None
      then (ws, Inl (BadRequest ''Event already in wishlist''))
      else let w = \<lparr>wi_userId = userId, wi_eventId = eventId, wi_tenantId = tenantId, wi_createdAt = now\<rparr>
           in (ws @ [w], Inr w))"

text \<open>An undefined tenant is no condition.\<close>

definition wish_of :: "string option \<Rightarrow> string \<Rightarrow> wish \<Rightarrow> bool" where
  "wish_of tenantId userId w \<longleftrightarrow> wi_userId w = userId \<and> (tenantId = None \<or> wi_tenantId w = tenantId)"

definition removeFromWishlist :: "string option \<Rightarrow> string \<Rightarrow> string \<Rightarrow> wish list \<Rightarrow> wish list \<times> nat" where
  "removeFromWishlist tenantId userId eventId ws =
     (let P = (\<lambda>w. wish_of tenantId userId w \<and> wi_eventId w = eventId) in (filter (\<lambda>w. \<not> P w) ws, count_where P ws))"

definition getUserWishlist :: "string option \<Rightarrow> string \<Rightarrow> wish list \<Rightarrow> wish list" where
  "getUserWishlist tenantId userId ws = sort_key (\<lambda>w. - wi_createdAt w) (filter (wish_of tenantId userId) ws)"

section \<open>Fees\<close>

definition fee_within_cap :: "fee_tenant \<Rightarrow> bool" where
  "fee_within_cap t \<longleftrightarrow> ft_platformFeeValue t \<le> (case ft_platformFeeType t of Fee_PERCENTAGE \<Rightarrow> 20 | Fee_FLAT \<Rightarrow> 1000)"

lemma exceeds_iff: "0 \<le> cap \<Longrightarrow> exceeds (Some v) cap \<longleftrightarrow> cap < v"
  by (auto simp: exceeds_def)

lemma exceeds_None [simp]: "\<not> exceeds None cap"
  by (simp add: exceeds_def)

lemma fee_update_id [simp]: "ft_id (fee_update dto t) = ft_id t"
  by (simp add: fee_update_def)

text \<open>An update that names both the type and the value keeps the caps, and writes one audit row with the values it
  found and the values it left.\<close>

theorem monetization_is_capped_and_audited:
  assumes "updateMonetization tid dto admin (ts, audit) = ((ts', audit'), Inr t')"
    "md_type dto = Some ty" "md_value dto = Some v"
  shows "fee_within_cap t' \<and> find_fee_tenant tid ts' = Some t'
    \<and> (\<exists>t a. find_fee_tenant tid ts = Some t \<and> audit' = audit @ [a] \<and> fa_tenantId a = tid
         \<and> fa_oldFeeType a = ft_platformFeeType t \<and> fa_newFeeType a = ft_platformFeeType t'
         \<and> (case ft_platformFeeType t of Fee_PERCENTAGE \<Rightarrow> fa_oldPercentage a | Fee_FLAT \<Rightarrow> fa_oldFlatFee a) = Some (ft_platformFeeValue t)
         \<and> (case ft_platformFeeType t' of Fee_PERCENTAGE \<Rightarrow> fa_newPercentage a | Fee_FLAT \<Rightarrow> fa_newFlatFee a) = Some (ft_platformFeeValue t'))"
proof -
  obtain t where f: "find_fee_tenant tid ts = Some t"
    using assms(1) by (cases "find_fee_tenant tid ts") (simp_all add: updateMonetization_def)
  let ?bad = "md_type dto = Some Fee_PERCENTAGE \<and> exceeds (md_value dto) 20"
    and ?bad' = "md_type dto = Some Fee_FLAT \<and> exceeds (md_value dto) 1000"
  have ok: "\<not> ?bad" "\<not> ?bad'"
    using assms(1) f by (auto simp: updateMonetization_def split: if_splits)
  have t: "find_fee_tenant tid ts = Some t" "t' = fee_update dto t"
    "ts' = update_where (\<lambda>r. ft_id r = tid) (fee_update dto) ts" "audit' = audit @ [fee_change_of t dto admin]"
    using assms(1) f ok by (simp_all add: updateMonetization_def)
  have "ty = Fee_PERCENTAGE \<longrightarrow> \<not> exceeds (Some v) 20" "ty = Fee_FLAT \<longrightarrow> \<not> exceeds (Some v) 1000"
    using ok unfolding assms(2,3) by blast+
  then have cap: "ty = Fee_PERCENTAGE \<Longrightarrow> v \<le> 20" "ty = Fee_FLAT \<Longrightarrow> v \<le> 1000"
    by (metis exceeds_iff not_less zero_le_numeral)+
  have "ft_id t = tid" using find_key_in[of ft_id tid ts t] t(1) by (simp add: find_fee_tenant_def)
  moreover have "find_fee_tenant tid ts' = Some t'"
    using t by (simp add: find_fee_tenant_def find_update_where_key[of ft_id])
  ultimately show ?thesis
    using t(1,2,4) assms(2,3) cap
    by (cases ty; cases "ft_platformFeeType t")
      (auto simp: fee_within_cap_def fee_update_def default_to_def fee_change_of_def)
qed

definition sample_tenant :: fee_tenant where
  "sample_tenant = \<lparr>ft_id = ''t'', ft_status = ''ACTIVE'', ft_isActive = True, ft_plan = ''FREE'', ft_bookingLimit = 100,
     ft_monthlyBookingCount = 0, ft_monthlyRevenue = 0, ft_platformFeeEnabled = True, ft_platformFeeType = Fee_PERCENTAGE,
     ft_platformFeeValue = 2\<rparr>"

lemma monetization_is_capped_and_audited_witness:
  "\<exists>r. updateMonetization ''t'' \<lparr>md_enabled = None, md_type = Some Fee_FLAT, md_value = Some 50\<rparr> ''root'' ([sample_tenant], [])
    = r \<and> (\<exists>t'. snd r = Inr t' \<and> fee_within_cap t')"
proof -
  let ?dto = "\<lparr>md_enabled = None, md_type = Some Fee_FLAT, md_value = Some 50\<rparr>"
  have "updateMonetization ''t'' ?dto ''root'' ([sample_tenant], [])
    = (([fee_update ?dto sample_tenant], [fee_change_of sample_tenant ?dto ''root'']), Inr (fee_update ?dto sample_tenant))"
    by (simp add: updateMonetization_def find_fee_tenant_def sample_tenant_def exceeds_def)
  from monetization_is_capped_and_audited[OF this, of Fee_FLAT 50] this show ?thesis by simp
qed

text \<open>An update of the value alone is not checked against the type the tenant has.\<close>

lemma value_alone_is_not_capped:
  assumes "find_fee_tenant tid ts = Some t" "ft_platformFeeType t = Fee_PERCENTAGE"
  shows "\<exists>t'. snd (updateMonetization tid \<lparr>md_enabled = None, md_type = None, md_value = Some 1000\<rparr> admin (ts, audit)) = Inr t'
    \<and> ft_platformFeeType t' = Fee_PERCENTAGE \<and> ft_platformFeeValue t' = 1000"
  using assms by (simp add: updateMonetization_def fee_update_def default_to_def)

text \<open>Nor is a change of the type alone checked against the value.\<close>

lemma type_alone_is_not_capped:
  assumes "find_fee_tenant tid ts = Some t" "ft_platformFeeType t = Fee_FLAT" "ft_platformFeeValue t > 20"
  shows "\<exists>t'. snd (updateMonetization tid \<lparr>md_enabled = None, md_type = Some Fee_PERCENTAGE, md_value = None\<rparr> admin (ts, audit)) = Inr t'
    \<and> \<not> fee_within_cap t'"
  using assms by (simp add: updateMonetization_def fee_update_def default_to_def fee_within_cap_def)

section \<open>Shows\<close>

text \<open>A new show has as many available seats as its capacity, one for every seat of its screen.\<close>

lemma new_show_seats:
  assumes "createShow i e title c st price tid screens (shows, seats) = ((shows', seats'), Inr sh)"
    "\<forall>x \<in> set seats. ss_showId x \<in> as_id ` set shows"
  shows "length (filter (\<lambda>x. ss_showId x = i) seats') = as_totalCapacity sh"
    "as_remainingCapacity sh = as_totalCapacity sh"
    "\<forall>x \<in> set seats'. ss_showId x = i \<longrightarrow> ss_available x \<and> ss_tenantId x = tid"
    "\<forall>x \<in> set seats'. ss_showId x \<in> as_id ` set shows'"
proof -
  obtain cc where c: "find (\<lambda>s. sc_id s = c) screens = Some cc" "i \<notin> as_id ` set shows"
    "shows' = shows @ [sh]" "as_id sh = i" "as_totalCapacity sh = length (sc_seats cc)" "as_remainingCapacity sh = length (sc_seats cc)"
    "seats' = seats @ map (\<lambda>x. \<lparr>ss_showId = i, ss_seatId = x, ss_available = True, ss_tenantId = tid\<rparr>) (sc_seats cc)"
    using assms(1) by (auto simp: createShow_def Let_def split: option.splits if_splits)
  have n: "filter (\<lambda>x. ss_showId x = i) seats = []" using assms(2) c(2) by (auto simp: filter_empty_conv)
  show "length (filter (\<lambda>x. ss_showId x = i) seats') = as_totalCapacity sh" using c n by (simp add: comp_def)
  show "as_remainingCapacity sh = as_totalCapacity sh" using c by simp
  show "\<forall>x \<in> set seats'. ss_showId x = i \<longrightarrow> ss_available x \<and> ss_tenantId x = tid"
    using c n by (auto simp: filter_empty_conv)
  show "\<forall>x \<in> set seats'. ss_showId x \<in> as_id ` set shows'" using c assms(2) by auto
qed

text \<open>The \<open>total\<close> of a page of shows is the length of the page.\<close>

lemma shows_total_is_page: "getShows limit cursor f hs = (page, n) \<Longrightarrow> n = length page \<and> n \<le> limit"
  by (auto simp: getShows_def Let_def)

text \<open>The list of bookings is that of every tenant.\<close>

lemma bookings_of_all_tenants:
  assumes "length bookings \<le> 100"
  shows "set (getBookings None bookings) = set bookings"
  using assms by (simp add: getBookings_def)

section \<open>Plans and usage\<close>

text \<open>The reset leaves the count of bookings that the plan limits.\<close>

lemma reset_keeps_booking_count:
  "map ft_monthlyBookingCount (fst (handleUsageReset day ts)) = map ft_monthlyBookingCount ts"
  by (simp add: handleUsageReset_def comp_def)

text \<open>A tenant of whom nothing was recorded is never anomalous.\<close>

lemma unrecorded_tenant_is_healthy:
  "metrics i = None \<Longrightarrow> getTenantHealth now i ts metrics bs ms = Inr h \<Longrightarrow> \<not> he_anomalyFlag (th_realtime h)"
  by (auto simp: getTenantHealth_def getHealth_def split: sum.splits)

lemma status_and_activity_agree:
  assumes "updateTenantStatus i st ts = Inr ts'"
  shows "\<exists>t. find_fee_tenant i ts' = Some t \<and> ft_status t = st \<and> (ft_isActive t \<longleftrightarrow> st \<in> {''ACTIVE'', ''TRIAL''})"
proof -
  obtain t where "find_fee_tenant i ts = Some t"
    "ts' = update_where (\<lambda>t. ft_id t = i) (\<lambda>t. t\<lparr>ft_status := st, ft_isActive := (st = ''ACTIVE'' \<or> st = ''TRIAL'')\<rparr>) ts"
    using assms by (auto simp: updateTenantStatus_def update_tenant_def split: if_splits)
  then show ?thesis by (simp add: find_fee_tenant_def find_update_where_key[of ft_id])
qed

section \<open>Wishlist laws\<close>

text \<open>An event added is listed, can be added once, and is gone once removed; nobody else's list changes.\<close>

lemma wish_listed:
  assumes "addToWishlist tid now u e ws = (ws', Inr w)"
  shows "w \<in> set (getUserWishlist tid u ws')" "snd (addToWishlist tid' now' u e ws') = Inl (BadRequest ''Event already in wishlist'')"
    "\<And>v. v \<noteq> u \<Longrightarrow> getUserWishlist t v ws' = getUserWishlist t v ws"
  using assms
  by (auto simp: addToWishlist_def getUserWishlist_def wish_of_def Let_def find_None_iff split: if_splits)

lemma wish_removed:
  "removeFromWishlist tid u e ws = (ws', n) \<Longrightarrow> \<forall>w \<in> set (getUserWishlist tid u ws'). wi_eventId w \<noteq> e"
  by (auto simp: removeFromWishlist_def getUserWishlist_def Let_def)

text \<open>The duplicate check is not scoped to the tenant but the removal is: an entry of another tenant can be neither
  added again nor removed.\<close>

lemma wish_of_another_tenant:
  assumes "w \<in> set ws" "wi_userId w = u" "wi_eventId w = e" "wi_tenantId w \<noteq> Some tid"
  shows "snd (addToWishlist (Some tid) now u e ws) = Inl (BadRequest ''Event already in wishlist'')"
    "w \<in> set (fst (removeFromWishlist (Some tid) u e ws))"
  using assms by (auto simp: addToWishlist_def removeFromWishlist_def wish_of_def Let_def find_None_iff)

end
