(* ===== verification/SeatPicker.thy ===== *)
theory SeatPicker
  imports Complex_Main Texts "HOL-Library.Multiset" "HOL-Library.Char_ord" "HOL-Library.List_Lexorder"
begin

text \<open>
  Choosing seats in the browser: the booking page
  (\<open>frontend/src/app/(protected)/booking/[eventId]/page.tsx\<close>) with its grid
  (\<open>features/booking/components/SeatGrid.tsx\<close>), and the show page
  (\<open>app/(protected)/shows/[id]/page.tsx\<close>) with its grid and timer (\<open>features/seats\<close>). The state of
  a page is its React state; a handler is a function on it. What the server answers is an argument.
\<close>

section \<open>Seats and the grid\<close>

record seat_cell =
  ce_seatId :: string
  ce_row :: "string option"
  ce_number :: int
  ce_status :: string

text \<open>The template \<open>${row}${number}\<close>; a missing row prints as \<open>undefined\<close>.\<close>

definition seat_code :: "seat_cell \<Rightarrow> string" where
  "seat_code c = (case ce_row c of None \<Rightarrow> ''undefined'' | Some r \<Rightarrow> r) @ show_int (ce_number c)"

definition row_key :: "seat_cell \<Rightarrow> string" where
  "row_key c = (case ce_row c of None \<Rightarrow> ''Unknown'' | Some r \<Rightarrow> r)"

text \<open>The reduction into an object of rows, its sorted keys, and every row sorted by number.\<close>

fun push_row :: "string \<Rightarrow> seat_cell \<Rightarrow> (string \<times> seat_cell list) list \<Rightarrow> (string \<times> seat_cell list) list" where
  "push_row k c [] = [(k, [c])]"
| "push_row k c ((q, cs) # rows) = (if q = k then (q, cs @ [c]) # rows else (q, cs) # push_row k c rows)"

definition rows_of :: "seat_cell list \<Rightarrow> (string \<times> seat_cell list) list" where
  "rows_of seats = foldl (\<lambda>acc c. push_row (row_key c) c acc) [] seats"

definition seat_grid :: "seat_cell list \<Rightarrow> (string \<times> seat_cell list) list" where
  "seat_grid seats = map (\<lambda>(k, cs). (k, sort_key ce_number cs)) (sort_key fst (rows_of seats))"

definition isUnavailable :: "seat_cell \<Rightarrow> bool" where
  "isUnavailable c \<longleftrightarrow> ce_status c = ''BOOKED'' \<or> ce_status c = ''LOCKED''"

section \<open>The booking page\<close>

record show_with_seats =
  sh_id :: string
  sh_seats :: "seat_cell list"

record booking_page =
  bp_selected :: "string list"
  bp_live :: "string \<Rightarrow> string option"
  bp_warned :: bool

definition fresh_page :: booking_page where
  "fresh_page = \<lparr>bp_selected = [], bp_live = (\<lambda>_. None), bp_warned = False\<rparr>"

definition activeShow :: "show_with_seats list \<Rightarrow> string option \<Rightarrow> show_with_seats option" where
  "activeShow shows showIdParam =
     (case shows of [] \<Rightarrow> None
      | s # _ \<Rightarrow> if truthy showIdParam
          then (case find (\<lambda>h. Some (sh_id h) = showIdParam) shows of None \<Rightarrow> Some s | Some h \<Rightarrow> Some h) else Some s)"

text \<open>The seats as shown: a live status overrides the fetched one.\<close>

definition live_seats :: "show_with_seats \<Rightarrow> booking_page \<Rightarrow> seat_cell list" where
  "live_seats h p = map (\<lambda>c. c\<lparr>ce_status := (case bp_live p (ce_seatId c) of None \<Rightarrow> ce_status c | Some st \<Rightarrow> st)\<rparr>) (sh_seats h)"

definition handleSeatLocked :: "show_with_seats \<Rightarrow> string \<Rightarrow> string \<Rightarrow> booking_page \<Rightarrow> booking_page" where
  "handleSeatLocked h showId seatId p =
     (if showId \<noteq> sh_id h then p
      else let p' = p\<lparr>bp_live := (bp_live p)(seatId \<mapsto> ''LOCKED'')\<rparr>
           in case find (\<lambda>c. ce_seatId c = seatId) (sh_seats h) of
                None \<Rightarrow> p'
              | Some c \<Rightarrow> p'\<lparr>bp_selected := filter (\<lambda>n. n \<noteq> seat_code c) (bp_selected p')\<rparr>)"

definition handleSeatReleased :: "show_with_seats \<Rightarrow> string \<Rightarrow> string \<Rightarrow> booking_page \<Rightarrow> booking_page" where
  "handleSeatReleased h showId seatId p =
     (if showId \<noteq> sh_id h then p else p\<lparr>bp_live := (bp_live p)(seatId := None)\<rparr>)"

definition handleSeatBooked :: "show_with_seats \<Rightarrow> string \<Rightarrow> string \<Rightarrow> booking_page \<Rightarrow> booking_page" where
  "handleSeatBooked h showId seatId p =
     (if showId \<noteq> sh_id h then p else p\<lparr>bp_live := (bp_live p)(seatId \<mapsto> ''BOOKED'')\<rparr>)"

definition handleSelect :: "string \<Rightarrow> booking_page \<Rightarrow> booking_page" where
  "handleSelect seatNumber p =
     (if seatNumber \<in> set (bp_selected p) then p\<lparr>bp_selected := filter (\<lambda>n. n \<noteq> seatNumber) (bp_selected p)\<rparr>
      else if length (bp_selected p) \<ge> 6 then p\<lparr>bp_warned := True\<rparr>
      else p\<lparr>bp_selected := bp_selected p @ [seatNumber]\<rparr>)"

text \<open>A click on a cell of the grid: the button of an unavailable seat is disabled.\<close>

definition click :: "seat_cell \<Rightarrow> booking_page \<Rightarrow> booking_page" where
  "click c p = (if isUnavailable c then p else handleSelect (seat_code c) p)"

text \<open>The error of the booking request: a collision deselects everything.\<close>

definition booking_error :: "int \<Rightarrow> booking_page \<Rightarrow> booking_page" where
  "booking_error status p = (if status = 409 then p\<lparr>bp_selected := []\<rparr> else p)"

definition totalPrice :: "rat \<Rightarrow> booking_page \<Rightarrow> rat" where
  "totalPrice price p = of_nat (length (bp_selected p)) * price"

section \<open>The show page\<close>

datatype show_type = Seated | General_admission

record show_page =
  sg_selected :: "string list"
  sg_gaQuantity :: int
  sg_lockedUntil :: "int option"
  sg_bookingId :: "string option"
  sg_ticketPrice :: rat
  sg_showType :: show_type
  sg_remainingCapacity :: int

definition quantity :: "show_page \<Rightarrow> int" where
  "quantity p = (case sg_showType p of Seated \<Rightarrow> int (length (sg_selected p)) | General_admission \<Rightarrow> sg_gaQuantity p)"

definition handleSeatToggle :: "string \<Rightarrow> show_page \<Rightarrow> show_page" where
  "handleSeatToggle seatNumber p =
     (if sg_lockedUntil p \<noteq> None then p
      else p\<lparr>sg_selected := (if seatNumber \<in> set (sg_selected p) then filter (\<lambda>s. s \<noteq> seatNumber) (sg_selected p)
                            else sg_selected p @ [seatNumber])\<rparr>)"

datatype session_request = Lock_seats "string list" | Lock_quantity int | To_login

definition handleLockSession :: "bool \<Rightarrow> show_page \<Rightarrow> session_request" where
  "handleLockSession loggedIn p =
     (if \<not> loggedIn then To_login
      else case sg_showType p of Seated \<Rightarrow> Lock_seats (sg_selected p) | General_admission \<Rightarrow> Lock_quantity (sg_gaQuantity p))"

definition lock_success :: "int \<Rightarrow> string \<Rightarrow> show_page \<Rightarrow> show_page" where
  "lock_success now bookingId p = p\<lparr>sg_lockedUntil := Some (now + 5 * 60 * 1000), sg_bookingId := Some bookingId\<rparr>"

definition lock_error :: "show_page \<Rightarrow> show_page" where
  "lock_error p = (case sg_showType p of Seated \<Rightarrow> p\<lparr>sg_selected := []\<rparr> | General_admission \<Rightarrow> p)"

definition handleTimerExpire :: "show_page \<Rightarrow> show_page" where
  "handleTimerExpire p = p\<lparr>sg_lockedUntil := None, sg_selected := [], sg_gaQuantity := 1\<rparr>"

definition decrement :: "show_page \<Rightarrow> show_page" where
  "decrement p = p\<lparr>sg_gaQuantity := max 1 (sg_gaQuantity p - 1)\<rparr>"

definition increment :: "show_page \<Rightarrow> show_page" where
  "increment p = p\<lparr>sg_gaQuantity := sg_gaQuantity p + 1\<rparr>"

definition handleGoToCheckout :: "show_page \<Rightarrow> string option" where
  "handleGoToCheckout p = (if truthy (sg_bookingId p) then Some (''/checkout?bookingId='' @ the (sg_bookingId p)) else None)"

text \<open>One tick of the timer: the seconds left, and whether it stops and reports the expiry.\<close>

definition timer_tick :: "int \<Rightarrow> int \<Rightarrow> int \<times> bool" where
  "timer_tick now expiresAt = (let diff = max 0 ((expiresAt - now) div 1000) in (diff, diff \<le> 0))"

text \<open>The timer started now, ticking every second: the number of the tick that reports the expiry.\<close>

fun timer_run :: "nat \<Rightarrow> int \<Rightarrow> int \<Rightarrow> nat option" where
  "timer_run 0 now expiresAt = None"
| "timer_run (Suc n) now expiresAt =
     (if snd (timer_tick (now + 1000) expiresAt) then Some 1 else map_option Suc (timer_run n (now + 1000) expiresAt))"

section \<open>The socket hook of the seat list\<close>

record listed_seat =
  li_id :: string
  li_seatId :: string
  li_status :: string
  li_lockedBy :: "string option"
  li_lockedUntil :: "int option"

datatype seat_message =
    Seat_locked string string string
  | Seat_booked string string string

definition useSeatSocket :: "string \<Rightarrow> seat_message \<Rightarrow> listed_seat list option \<Rightarrow> listed_seat list option" where
  "useSeatSocket showId msg old =
     (case msg of
        Seat_locked sid seatId userId \<Rightarrow>
          if sid \<noteq> showId then old
          else map_option (update_where (\<lambda>s. li_id s = seatId) (\<lambda>s. s\<lparr>li_status := ''LOCKED'', li_lockedBy := Some userId\<rparr>)) old
      | Seat_booked sid seatId userId \<Rightarrow>
          if sid \<noteq> showId then old
          else map_option (update_where (\<lambda>s. li_id s = seatId)
                 (\<lambda>s. s\<lparr>li_status := ''BOOKED'', li_lockedBy := None, li_lockedUntil := None\<rparr>)) old)"

section \<open>The grid shows every seat once\<close>

lemma push_row_mset: "mset (concat (map snd (push_row k c rows))) = add_mset c (mset (concat (map snd rows)))"
  by (induction k c rows rule: push_row.induct) auto

lemma rows_of_snoc: "rows_of (seats @ [c]) = push_row (row_key c) c (rows_of seats)"
  by (simp add: rows_of_def)

lemma rows_of_mset: "mset (concat (map snd (rows_of seats))) = mset seats"
  by (induction seats rule: rev_induct) (simp_all add: rows_of_snoc push_row_mset, simp add: rows_of_def)

lemma map_fst_push_row: "map fst (push_row k c rows) = (if k \<in> fst ` set rows then map fst rows else map fst rows @ [k])"
  by (induction k c rows rule: push_row.induct) auto

lemma rows_of_distinct: "distinct (map fst (rows_of seats))"
  by (induction seats rule: rev_induct) (auto simp: rows_of_snoc map_fst_push_row, simp add: rows_of_def)

lemma push_row_keys:
  "(\<forall>(q, cs) \<in> set rows. \<forall>x \<in> set cs. row_key x = q) \<Longrightarrow> row_key c = k \<Longrightarrow>
   (\<forall>(q, cs) \<in> set (push_row k c rows). \<forall>x \<in> set cs. row_key x = q)"
  by (induction k c rows rule: push_row.induct) auto

lemma rows_of_keys: "\<forall>(q, cs) \<in> set (rows_of seats). \<forall>x \<in> set cs. row_key x = q"
proof (induction seats rule: rev_induct)
  case (snoc c seats)
  then show ?case using push_row_keys[OF snoc refl] by (simp add: rows_of_snoc)
qed (simp add: rows_of_def)

lemma concat_mset: "mset (concat (map snd rows)) = sum_mset (image_mset (mset \<circ> snd) (mset rows))"
  by (induction rows) auto

text \<open>Every seat appears in exactly one place of the grid, the rows are in order and each row by number.\<close>

theorem grid_shows_every_seat_once:
  "mset (concat (map snd (seat_grid seats))) = mset seats
   \<and> sorted_wrt (<) (map fst (seat_grid seats))
   \<and> list_all (\<lambda>(k, cs). sorted (map ce_number cs) \<and> list_all (\<lambda>c. row_key c = k) cs) (seat_grid seats)"
proof (intro conjI)
  let ?s = "sort_key fst (rows_of seats)"
  have "map (mset \<circ> snd) (seat_grid seats) = map (mset \<circ> snd) ?s"
    by (auto simp: seat_grid_def)
  then have "mset (concat (map snd (seat_grid seats))) = mset (concat (map snd ?s))"
    unfolding concat_mset by (metis mset_map)
  also have "\<dots> = mset (concat (map snd (rows_of seats)))"
    unfolding concat_mset by simp
  finally show "mset (concat (map snd (seat_grid seats))) = mset seats"
    by (simp add: rows_of_mset)
next
  have k: "map fst (seat_grid seats) = map fst (sort_key fst (rows_of seats))"
    by (auto simp: seat_grid_def)
  have "sorted (map fst (sort_key fst (rows_of seats)))" by simp
  moreover have "distinct (map fst (sort_key fst (rows_of seats)))"
    using rows_of_distinct[of seats] by (metis mset_eq_imp_distinct_iff mset_map mset_sort)
  ultimately show "sorted_wrt (<) (map fst (seat_grid seats))"
    unfolding k by (simp add: strict_sorted_iff)
next
  show "list_all (\<lambda>(k, cs). sorted (map ce_number cs) \<and> list_all (\<lambda>c. row_key c = k) cs) (seat_grid seats)"
    using rows_of_keys[of seats] by (auto simp: seat_grid_def list_all_iff)
qed

section \<open>What is selected\<close>

text \<open>At most six seats, none twice, all of them seats of the show.\<close>

definition selection_ok :: "show_with_seats \<Rightarrow> booking_page \<Rightarrow> bool" where
  "selection_ok h p \<longleftrightarrow> length (bp_selected p) \<le> 6 \<and> distinct (bp_selected p)
     \<and> list_all (\<lambda>n. list_ex (\<lambda>c. seat_code c = n) (sh_seats h)) (bp_selected p)"

inductive page_step :: "show_with_seats \<Rightarrow> booking_page \<Rightarrow> booking_page \<Rightarrow> bool" for h where
  clicked: "c \<in> set (live_seats h p) \<Longrightarrow> page_step h p (click c p)"
| locked: "page_step h p (handleSeatLocked h showId seatId p)"
| released: "page_step h p (handleSeatReleased h showId seatId p)"
| booked: "page_step h p (handleSeatBooked h showId seatId p)"
| failed: "page_step h p (booking_error status p)"

lemma filter_selection_ok:
  "selection_ok h p \<Longrightarrow> selection_ok h (p\<lparr>bp_live := l, bp_selected := filter P (bp_selected p)\<rparr>)"
  by (auto simp: selection_ok_def list_all_iff intro: order_trans[OF length_filter_le])

lemma live_code: "c \<in> set (live_seats h p) \<Longrightarrow> list_ex (\<lambda>d. seat_code d = seat_code c) (sh_seats h)"
  by (auto simp: live_seats_def list_ex_iff seat_code_def)

interpretation picker: invariant_system "page_step h" "selection_ok h" for h
proof
  fix p q
  assume ok: "selection_ok h p" and s: "page_step h p q"
  from s show "selection_ok h q"
  proof cases
    case (clicked c)
    then show ?thesis
      using ok live_code[OF clicked(2)] filter_selection_ok[OF ok, where l = "bp_live p" and P = "\<lambda>n. n \<noteq> seat_code c"]
      by (auto simp: click_def handleSelect_def selection_ok_def)
  next
    case (locked showId seatId)
    then show ?thesis
      using ok filter_selection_ok[OF ok]
      by (auto simp: handleSeatLocked_def selection_ok_def Let_def split: option.splits)
  qed (use ok in \<open>auto simp: handleSeatReleased_def handleSeatBooked_def booking_error_def selection_ok_def\<close>)
qed

text \<open>C30. Whatever clicks, messages and errors: never more than six seats, none twice, all of the show.\<close>

theorem selection_stays_valid:
  assumes "run (page_step h) fresh_page p"
  shows "selection_ok h p"
  using picker.run_inv[OF assms] by (simp add: selection_ok_def fresh_page_def)

definition sample_show :: show_with_seats where
  "sample_show = \<lparr>sh_id = ''s'', sh_seats = [\<lparr>ce_seatId = ''i'', ce_row = Some ''A'', ce_number = 1, ce_status = ''AVAILABLE''\<rparr>]\<rparr>"

lemma selection_stays_valid_witness:
  "selection_ok sample_show (click \<lparr>ce_seatId = ''i'', ce_row = Some ''A'', ce_number = 1, ce_status = ''AVAILABLE''\<rparr> fresh_page)"
proof (rule selection_stays_valid)
  show "run (page_step sample_show) fresh_page
     (click \<lparr>ce_seatId = ''i'', ce_row = Some ''A'', ce_number = 1, ce_status = ''AVAILABLE''\<rparr> fresh_page)"
    by (rule run_step, rule run_refl, rule clicked) (simp add: live_seats_def sample_show_def fresh_page_def)
qed

text \<open>A seat another user locks is deselected.\<close>

lemma locked_seat_is_deselected:
  assumes "c \<in> set (sh_seats h)" "\<And>d. d \<in> set (sh_seats h) \<Longrightarrow> ce_seatId d = ce_seatId c \<Longrightarrow> d = c"
  shows "seat_code c \<notin> set (bp_selected (handleSeatLocked h (sh_id h) (ce_seatId c) p))"
proof -
  have "find (\<lambda>d. ce_seatId d = ce_seatId c) (sh_seats h) = Some c"
    using assms by (intro find_unique) auto
  then show ?thesis by (simp add: handleSeatLocked_def Let_def)
qed

text \<open>A seat that is booked is not.\<close>

lemma booked_seat_stays_selected:
  "bp_selected (handleSeatBooked h showId seatId p) = bp_selected p"
  by (simp add: handleSeatBooked_def)

text \<open>A release shows the fetched status again, so a seat that was locked when the page was loaded stays locked.\<close>

lemma release_restores_fetched_status:
  "c \<in> set (sh_seats h) \<Longrightarrow> ce_status c = ''LOCKED'' \<Longrightarrow>
   c \<in> set (live_seats h (handleSeatReleased h (sh_id h) (ce_seatId c) p))"
  by (force simp: live_seats_def handleSeatReleased_def)

text \<open>Two seats can have one code: a click on one selects both.\<close>

lemma codes_collide:
  "seat_code \<lparr>ce_seatId = ''x'', ce_row = Some ''A'', ce_number = 11, ce_status = ''AVAILABLE''\<rparr>
   = seat_code \<lparr>ce_seatId = ''y'', ce_row = Some ''A1'', ce_number = 1, ce_status = ''AVAILABLE''\<rparr>"
  by code_simp

section \<open>The session of the show page\<close>

text \<open>While a session is locked the selection is frozen.\<close>

lemma locked_selection_is_frozen: "sg_lockedUntil p \<noteq> None \<Longrightarrow> handleSeatToggle n p = p"
  by (simp add: handleSeatToggle_def)

text \<open>An expired session keeps its booking.\<close>

lemma expired_session_keeps_booking:
  "sg_bookingId p = Some b \<Longrightarrow> b \<noteq> [] \<Longrightarrow> handleGoToCheckout (handleTimerExpire p) = Some (''/checkout?bookingId='' @ b)"
  by (simp add: handleGoToCheckout_def handleTimerExpire_def)

text \<open>The page asks for any number of seats.\<close>

lemma quantity_is_unbounded: "sg_showType p = General_admission \<Longrightarrow> quantity ((increment ^^ n) p) = sg_gaQuantity p + int n"
proof -
  have t: "sg_showType ((increment ^^ n) p) = sg_showType p" for n by (induction n) (simp_all add: increment_def)
  assume "sg_showType p = General_admission"
  then show ?thesis using t by (induction n) (simp_all add: increment_def quantity_def)
qed

text \<open>The timer reports the expiry after exactly the remaining whole seconds, the first tick being one second in.\<close>

lemma timer_run_fires:
  "0 \<le> expiresAt - now \<Longrightarrow> n = nat ((expiresAt - now) div 1000) \<Longrightarrow> 0 < n \<Longrightarrow> timer_run n now expiresAt = Some n"
proof (induction n arbitrary: now)
  case (Suc n)
  show ?case
  proof (cases "n = 0")
    case True
    then have "(expiresAt - now) div 1000 = 1" using Suc.prems by linarith
    then have "(expiresAt - (now + 1000)) div 1000 = 0" by linarith
    then show ?thesis using True by (simp add: timer_tick_def Let_def)
  next
    case False
    have d: "(expiresAt - (now + 1000)) div 1000 = (expiresAt - now) div 1000 - 1" by linarith
    have n: "n = nat ((expiresAt - (now + 1000)) div 1000)" using Suc.prems(2) d by linarith
    moreover have "0 \<le> expiresAt - (now + 1000)" using n False by linarith
    ultimately have "timer_run n (now + 1000) expiresAt = Some n" using Suc.IH False by blast
    moreover have "\<not> snd (timer_tick (now + 1000) expiresAt)" using n False by (simp add: timer_tick_def Let_def)
    ultimately show ?thesis by simp
  qed
qed simp

text \<open>A locked session lasts three hundred ticks.\<close>

lemma session_lasts_five_minutes: "timer_run 300 now (now + 5 * 60 * 1000) = Some 300"
  by (rule timer_run_fires) simp_all

text \<open>The socket hook compares the identity of the availability row with that of the seat.\<close>

lemma socket_misses_seat:
  assumes "\<forall>s \<in> set seats. li_id s \<noteq> seatId"
  shows "useSeatSocket showId (Seat_booked showId seatId u) (Some seats) = Some seats"
  using assms by (simp add: useSeatSocket_def update_where_none)

end
