(* ===== verification/Checkout.thy ===== *)
theory Checkout
  imports Pricing
begin

text \<open>
  The checkout page, \<open>frontend/src/app/(protected)/checkout/page.tsx\<close>, with the order summary
  \<open>components/CheckoutSummary.tsx\<close>. The state of the page is its React state with the calls it made; what
  the server, the payment script and the payment window answer are arguments. A handler that awaits is
  modelled with its answers, in the order it awaits them. The notices of a saved amount and the busy
  flags of the two discount buttons are left out.
\<close>

section \<open>State\<close>

record discount_view =
  dv_totalAmount :: rat
  dv_couponDiscountAmount :: rat
  dv_giftCardDiscountAmount :: rat
  dv_discountAmount :: rat
  dv_finalAmount :: rat

record fetched_booking =
  fb_totalAmount :: "rat option"
  fb_couponDiscountAmount :: "rat option"
  fb_giftCardDiscountAmount :: "rat option"
  fb_discountAmount :: "rat option"
  fb_finalAmount :: rat
  fb_orderCreatedAt :: "int option"
  fb_seatPrices :: "rat list"

datatype page_call =
    Applied_discount
  | Refused_discount
  | Created_order string
  | Refused_order
  | Confirmed string
  | Refused_confirmation

record checkout_page =
  co_booking :: "fetched_booking option"
  co_isLoading :: bool
  co_isProcessing :: bool
  co_isSuccess :: bool
  co_razorpayReady :: bool
  co_couponCode :: string
  co_giftCardCode :: string
  co_discount :: "discount_view option"
  co_orderLocked :: bool
  co_toasts :: "string list"
  co_pushed :: "string list"
  co_calls :: "page_call list"

definition fresh_checkout :: checkout_page where
  "fresh_checkout = \<lparr>co_booking = None, co_isLoading = True, co_isProcessing = False, co_isSuccess = False,
     co_razorpayReady = False, co_couponCode = [], co_giftCardCode = [], co_discount = None, co_orderLocked = False,
     co_toasts = [], co_pushed = [], co_calls = []\<rparr>"

definition toast :: "string \<Rightarrow> checkout_page \<Rightarrow> checkout_page" where
  "toast m p = p\<lparr>co_toasts := co_toasts p @ [m]\<rparr>"

definition logged_call :: "page_call \<Rightarrow> checkout_page \<Rightarrow> checkout_page" where
  "logged_call c p = p\<lparr>co_calls := co_calls p @ [c]\<rparr>"

text \<open>\<open>x ?? 0\<close> on amounts.\<close>

definition amount_or_0 :: "rat option \<Rightarrow> rat" where
  "amount_or_0 x = (case x of None \<Rightarrow> 0 | Some v \<Rightarrow> v)"

section \<open>Loading\<close>

definition restored_discount :: "fetched_booking \<Rightarrow> discount_view option" where
  "restored_discount bk =
     (if amount_or_0 (fb_discountAmount bk) > 0
      then Some \<lparr>dv_totalAmount = amount_or_0 (fb_totalAmount bk),
             dv_couponDiscountAmount = amount_or_0 (fb_couponDiscountAmount bk),
             dv_giftCardDiscountAmount = amount_or_0 (fb_giftCardDiscountAmount bk),
             dv_discountAmount = amount_or_0 (fb_discountAmount bk), dv_finalAmount = fb_finalAmount bk\<rparr>
      else None)"

definition fetchBooking :: "fetched_booking option \<Rightarrow> checkout_page \<Rightarrow> checkout_page" where
  "fetchBooking answer p =
     (case answer of
        None \<Rightarrow> (toast ''Failed to load booking details'' p)\<lparr>co_pushed := co_pushed p @ [''/events''], co_isLoading := False\<rparr>
      | Some bk \<Rightarrow>
          p\<lparr>co_booking := Some bk,
            co_discount := (case restored_discount bk of None \<Rightarrow> co_discount p | Some d \<Rightarrow> Some d),
            co_orderLocked := (co_orderLocked p \<or> fb_orderCreatedAt bk \<noteq> None), co_isLoading := False\<rparr>)"

section \<open>Discounts\<close>

definition trimmed :: "string \<Rightarrow> string" where
  "trimmed s = rev (dropWhile (\<lambda>c. c = CHR '' '') (rev (dropWhile (\<lambda>c. c = CHR '' '') s)))"

text \<open>The answer of \<open>applyDiscount\<close>: the breakdown, or an error with the server's message.\<close>

type_synonym discount_answer = "string option + discount_view"

definition apply_answer :: "string \<Rightarrow> discount_answer \<Rightarrow> checkout_page \<Rightarrow> checkout_page" where
  "apply_answer fallback answer p =
     (case answer of
        Inl m \<Rightarrow> toast (or_str m fallback) (logged_call Refused_discount p)
      | Inr result \<Rightarrow> (logged_call Applied_discount p)\<lparr>co_discount := Some result\<rparr>)"

definition handleApplyCoupon :: "discount_answer \<Rightarrow> checkout_page \<Rightarrow> checkout_page" where
  "handleApplyCoupon answer p =
     (if trimmed (co_couponCode p) = [] then p else apply_answer ''Invalid or expired coupon code'' answer p)"

definition handleApplyGiftCard :: "discount_answer \<Rightarrow> checkout_page \<Rightarrow> checkout_page" where
  "handleApplyGiftCard answer p =
     (if trimmed (co_giftCardCode p) = [] then p else apply_answer ''Invalid or expired gift card'' answer p)"

text \<open>When the two buttons are enabled. A discount of zero counts as none.\<close>

definition coupon_enabled :: "checkout_page \<Rightarrow> bool" where
  "coupon_enabled p \<longleftrightarrow> trimmed (co_couponCode p) \<noteq> [] \<and> \<not> co_orderLocked p
     \<and> (case co_discount p of None \<Rightarrow> True | Some d \<Rightarrow> dv_couponDiscountAmount d = 0)"

definition gift_enabled :: "checkout_page \<Rightarrow> bool" where
  "gift_enabled p \<longleftrightarrow> trimmed (co_giftCardCode p) \<noteq> [] \<and> \<not> co_orderLocked p
     \<and> (case co_discount p of None \<Rightarrow> True | Some d \<Rightarrow> dv_giftCardDiscountAmount d = 0)"

definition type_coupon :: "string \<Rightarrow> checkout_page \<Rightarrow> checkout_page" where
  "type_coupon s p = p\<lparr>co_couponCode := to_upper s\<rparr>"

definition type_gift :: "string \<Rightarrow> checkout_page \<Rightarrow> checkout_page" where
  "type_gift s p = p\<lparr>co_giftCardCode := to_upper s\<rparr>"

section \<open>Paying\<close>

text \<open>The payment script: present, loaded on demand, failing to load, or loaded without its global.\<close>

datatype sdk = Present | Loads | Fails | Missing

record order_view =
  ow_orderId :: "string option"
  ow_amount :: int
  ow_currency :: "string option"

text \<open>What the payment window reports: a payment with the backend's answer to its confirmation, the user closing
  the window, or a failed payment, after which the window stays open.\<close>

datatype modal_event =
    Paid "string option + string"
  | Dismissed
  | Payment_failed "string option"

definition modal_step :: "modal_event \<Rightarrow> checkout_page \<Rightarrow> checkout_page" where
  "modal_step e p =
     (case e of
        Paid (Inr bookingId) \<Rightarrow>
          (toast ''Payment successful! Booking confirmed.'' (logged_call (Confirmed bookingId) p))
            \<lparr>co_isSuccess := True, co_pushed := co_pushed p @ [''/booking/success/'' @ bookingId], co_isProcessing := False\<rparr>
      | Paid (Inl m) \<Rightarrow>
          (toast (or_str m ''Confirmation failed. Check My Bookings.'') (logged_call Refused_confirmation p))\<lparr>co_isProcessing := False\<rparr>
      | Dismissed \<Rightarrow> p\<lparr>co_isProcessing := False\<rparr>
      | Payment_failed m \<Rightarrow> (toast (or_str m ''Payment failed'') p)\<lparr>co_isProcessing := False\<rparr>)"

definition sdk_unavailable :: "checkout_page \<Rightarrow> checkout_page" where
  "sdk_unavailable p = (toast ''Payment system unavailable. Please refresh the page.'' p)\<lparr>co_isProcessing := False\<rparr>"

text \<open>With no event the window is still open and the page waits.\<close>

definition open_order :: "string option + order_view \<Rightarrow> modal_event list \<Rightarrow> checkout_page \<Rightarrow> checkout_page" where
  "open_order answer events p =
     (case answer of
        Inl m \<Rightarrow> (toast (or_str m ''Failed to create payment order'') (logged_call Refused_order p))\<lparr>co_isProcessing := False\<rparr>
      | Inr w \<Rightarrow>
          if \<not> truthy (ow_orderId w)
          then (toast ''Invalid order response from server'' (logged_call Refused_order p))\<lparr>co_isProcessing := False\<rparr>
          else fold modal_step events ((logged_call (Created_order (the (ow_orderId w))) p)\<lparr>co_orderLocked := True\<rparr>))"

definition handlePay ::
  "sdk \<Rightarrow> string option + order_view \<Rightarrow> modal_event list \<Rightarrow> checkout_page \<Rightarrow> checkout_page" where
  "handlePay script answer events p =
     (if co_booking p = None \<or> co_isProcessing p then p
      else let p1 = p\<lparr>co_isProcessing := True\<rparr>
           in case script of
                Fails \<Rightarrow> sdk_unavailable p1
              | Missing \<Rightarrow> sdk_unavailable (p1\<lparr>co_razorpayReady := True\<rparr>)
              | Present \<Rightarrow> open_order answer events p1
              | Loads \<Rightarrow> open_order answer events (p1\<lparr>co_razorpayReady := True\<rparr>))"

section \<open>The amounts shown\<close>

definition bookingTotal :: "fetched_booking \<Rightarrow> rat" where
  "bookingTotal bk =
     (let rawTotal = amount_or_0 (fb_totalAmount bk); computedFromSeats = foldl d_add 0 (fb_seatPrices bk)
      in if rawTotal > 0 then rawTotal else computedFromSeats)"

definition payable :: "fetched_booking \<Rightarrow> discount_view option \<Rightarrow> rat" where
  "payable bk discount = (case discount of None \<Rightarrow> bookingTotal bk | Some d \<Rightarrow> dv_finalAmount d)"

record order_summary =
  os_ticketSubtotal :: rat
  os_totalConvenienceFee :: rat
  os_baseTotal :: rat
  os_displayTotal :: rat
  os_hasDiscount :: bool

definition CheckoutSummary :: "rat list \<Rightarrow> discount_view option \<Rightarrow> rat option \<Rightarrow> order_summary" where
  "CheckoutSummary prices discount finalAmount =
     (let ticketSubtotal = foldl d_add 0 prices;
          percentageFee = to_fixed2 (d_mul ticketSubtotal (to_double (2 / 100)));
          totalConvenienceFee = to_fixed2 (d_add (to_double (1999 / 100)) percentageFee);
          baseTotal = to_fixed2 (d_add ticketSubtotal totalConvenienceFee)
      in \<lparr>os_ticketSubtotal = ticketSubtotal, os_totalConvenienceFee = totalConvenienceFee, os_baseTotal = baseTotal,
          os_displayTotal = (case finalAmount of None \<Rightarrow> baseTotal | Some a \<Rightarrow> a),
          os_hasDiscount = (case discount of None \<Rightarrow> False | Some d \<Rightarrow> dv_discountAmount d > 0)\<rparr>)"

section \<open>The page as a system\<close>

text \<open>What can happen: the booking arrives, codes are typed, an enabled button is pressed, the user pays, the
  window reports another event after a failed payment.\<close>

inductive checkout_step :: "checkout_page \<Rightarrow> checkout_page \<Rightarrow> bool" where
  fetches: "checkout_step p (fetchBooking answer p)"
| types_coupon: "checkout_step p (type_coupon s p)"
| types_gift: "checkout_step p (type_gift s p)"
| applies_coupon: "coupon_enabled p \<Longrightarrow> checkout_step p (handleApplyCoupon answer p)"
| applies_gift: "gift_enabled p \<Longrightarrow> checkout_step p (handleApplyGiftCard answer p)"
| pays: "checkout_step p (handlePay script answer' events p)"
| reports: "co_orderLocked p \<Longrightarrow> checkout_step p (modal_step e p)"

fun is_order :: "page_call \<Rightarrow> bool" where
  "is_order (Created_order i) = True"
| "is_order _ = False"

fun is_discount :: "page_call \<Rightarrow> bool" where
  "is_discount Applied_discount = True"
| "is_discount Refused_discount = True"
| "is_discount _ = False"

fun is_confirmation :: "page_call \<Rightarrow> bool" where
  "is_confirmation (Confirmed b) = True"
| "is_confirmation _ = False"

text \<open>No discount is asked for after an order was created.\<close>

definition no_discount_after_order :: "page_call list \<Rightarrow> bool" where
  "no_discount_after_order cs \<longleftrightarrow> \<not> list_ex is_discount (dropWhile (\<lambda>c. \<not> is_order c) cs)"

definition checkout_ok :: "checkout_page \<Rightarrow> bool" where
  "checkout_ok p \<longleftrightarrow> (co_isSuccess p \<longrightarrow> list_ex is_confirmation (co_calls p))
     \<and> (list_ex is_order (co_calls p) \<longrightarrow> co_orderLocked p)
     \<and> (list_ex is_confirmation (co_calls p) \<longrightarrow> co_orderLocked p)
     \<and> no_discount_after_order (co_calls p)"

lemma no_discount_snoc:
  "no_discount_after_order (cs @ [c]) \<longleftrightarrow>
     no_discount_after_order cs \<and> \<not> (list_ex is_order cs \<and> is_discount c)"
proof (cases "list_ex is_order cs")
  case True
  then obtain x where "x \<in> set cs" "is_order x" by (auto simp: list_ex_iff)
  then have "dropWhile (\<lambda>c. \<not> is_order c) (cs @ [c]) = dropWhile (\<lambda>c. \<not> is_order c) cs @ [c]"
    by (intro dropWhile_append1) auto
  then show ?thesis using True by (simp add: no_discount_after_order_def)
next
  case False
  then have n: "\<And>x. x \<in> set cs \<Longrightarrow> \<not> is_order x" by (auto simp: list_ex_iff)
  then have e: "dropWhile (\<lambda>c. \<not> is_order c) cs = []" by simp
  have d: "dropWhile (\<lambda>c. \<not> is_order c) (cs @ [c]) = (if is_order c then [c] else [])"
    using n by (simp add: dropWhile_append2)
  show ?thesis unfolding no_discount_after_order_def e d using False by (cases c) simp_all
qed

lemma page_simps [simp]:
  "co_calls (toast m p) = co_calls p" "co_orderLocked (toast m p) = co_orderLocked p" "co_isSuccess (toast m p) = co_isSuccess p"
  "co_calls (logged_call c p) = co_calls p @ [c]" "co_orderLocked (logged_call c p) = co_orderLocked p"
  "co_isSuccess (logged_call c p) = co_isSuccess p" "co_isProcessing (toast m p) = co_isProcessing p"
  "co_isProcessing (logged_call c p) = co_isProcessing p" "co_discount (toast m p) = co_discount p"
  "co_discount (logged_call c p) = co_discount p" "co_booking (toast m p) = co_booking p" "co_booking (logged_call c p) = co_booking p"
  by (simp_all add: toast_def logged_call_def)

lemma modal_step_ok: "checkout_ok p \<Longrightarrow> co_orderLocked p \<Longrightarrow> checkout_ok (modal_step e p) \<and> co_orderLocked (modal_step e p)"
  by (auto simp: modal_step_def checkout_ok_def no_discount_snoc split: modal_event.splits sum.splits)

lemma modal_steps_ok: "checkout_ok p \<Longrightarrow> co_orderLocked p \<Longrightarrow> checkout_ok (fold modal_step es p) \<and> co_orderLocked (fold modal_step es p)"
  by (induction es arbitrary: p) (auto simp: modal_step_ok)

lemma apply_answer_ok: "checkout_ok p \<Longrightarrow> \<not> co_orderLocked p \<Longrightarrow> checkout_ok (apply_answer f a p)"
  by (auto simp: apply_answer_def checkout_ok_def no_discount_snoc split: sum.splits)

lemma open_order_ok: "checkout_ok p \<Longrightarrow> checkout_ok (open_order a es p)"
proof -
  assume ok: "checkout_ok p"
  have "checkout_ok ((logged_call (Created_order i) p)\<lparr>co_orderLocked := True\<rparr>)" for i
    using ok by (auto simp: checkout_ok_def no_discount_snoc)
  then have "checkout_ok (fold modal_step es ((logged_call (Created_order i) p)\<lparr>co_orderLocked := True\<rparr>))" for i
    using modal_steps_ok by simp
  then show ?thesis
    using ok by (auto simp: open_order_def checkout_ok_def no_discount_snoc split: sum.splits)
qed

lemma checkout_ok_cong:
  "co_calls q = co_calls p \<Longrightarrow> co_orderLocked q = co_orderLocked p \<Longrightarrow> co_isSuccess q = co_isSuccess p \<Longrightarrow>
   checkout_ok q = checkout_ok p"
  by (simp add: checkout_ok_def)

interpretation checkouts: invariant_system checkout_step checkout_ok
proof
  fix p q
  assume ok: "checkout_ok p" and s: "checkout_step p q"
  from s show "checkout_ok q"
  proof cases
    case (fetches answer)
    then show ?thesis using ok by (auto simp: fetchBooking_def checkout_ok_def split: option.splits)
  next
    case (types_coupon s)
    then show ?thesis using ok by (simp add: type_coupon_def checkout_ok_def)
  next
    case (types_gift s)
    then show ?thesis using ok by (simp add: type_gift_def checkout_ok_def)
  next
    case (applies_coupon answer)
    then show ?thesis using ok apply_answer_ok by (simp add: handleApplyCoupon_def coupon_enabled_def)
  next
    case (applies_gift answer)
    then show ?thesis using ok apply_answer_ok by (simp add: handleApplyGiftCard_def gift_enabled_def)
  next
    case (pays script answer' events)
    have "checkout_ok (p\<lparr>co_isProcessing := True\<rparr>)" "checkout_ok (p\<lparr>co_isProcessing := True, co_razorpayReady := True\<rparr>)"
      using ok by (simp_all add: checkout_ok_def)
    then show ?thesis
      using pays ok open_order_ok
      by (auto simp: handlePay_def sdk_unavailable_def checkout_ok_def Let_def split: sdk.splits)
  next
    case (reports e)
    then show ?thesis using ok modal_step_ok by simp
  qed
qed

text \<open>Whatever the user does and the others answer: the page shows success only after a confirmed payment, and
  once an order exists no discount is asked for any more.\<close>

theorem checkout_is_consistent:
  assumes "run checkout_step fresh_checkout p"
  shows "(co_isSuccess p \<longrightarrow> list_ex is_confirmation (co_calls p)) \<and> no_discount_after_order (co_calls p)"
proof -
  have "checkout_ok fresh_checkout" by (simp add: checkout_ok_def fresh_checkout_def no_discount_after_order_def)
  with assms have "checkout_ok p" by (rule checkouts.run_inv)
  then show ?thesis by (simp add: checkout_ok_def)
qed

lemma checkout_is_consistent_witness:
  "no_discount_after_order (co_calls (type_coupon ''star20'' fresh_checkout))"
proof -
  have "run checkout_step fresh_checkout (type_coupon ''star20'' fresh_checkout)"
    by (rule run_step, rule run_refl, rule types_coupon)
  from checkout_is_consistent[OF this] show ?thesis by simp
qed

lemma modal_not_processing: "es \<noteq> [] \<Longrightarrow> \<not> co_isProcessing (fold modal_step es p)"
proof (induction es rule: rev_induct)
  case (snoc e es)
  show ?case by (simp add: modal_step_def split: modal_event.splits sum.splits)
qed simp

text \<open>A payment attempt always releases the page, except while the payment window is open.\<close>

lemma pay_releases_page:
  assumes "events \<noteq> []" "\<not> co_isProcessing p"
  shows "\<not> co_isProcessing (handlePay script answer events p)"
  using assms modal_not_processing
  by (auto simp: handlePay_def open_order_def sdk_unavailable_def Let_def split: sdk.splits sum.splits)

text \<open>While an attempt is processed a second click does nothing.\<close>

lemma second_click_ignored: "co_isProcessing p \<Longrightarrow> handlePay script answer events p = p"
  by (simp add: handlePay_def)

lemma modal_keeps_discount: "co_discount (fold modal_step es p) = co_discount p"
  by (induction es arbitrary: p) (auto simp: modal_step_def split: modal_event.splits sum.splits)

text \<open>Paying changes neither the discount nor the amount shown.\<close>

lemma pay_keeps_amount: "co_discount (handlePay script answer events p) = co_discount p"
  by (auto simp: handlePay_def open_order_def sdk_unavailable_def modal_keeps_discount Let_def split: sdk.splits sum.splits)

text \<open>The total shown is the amount payable, not the one the summary computes.\<close>

lemma display_is_payable: "os_displayTotal (CheckoutSummary prices d (Some (payable bk d))) = payable bk d"
  by (simp add: CheckoutSummary_def Let_def)

text \<open>The summary charges the fixed fee once, the pricing engine for every seat.\<close>

lemma summary_undercharges:
  "os_baseTotal (CheckoutSummary [100, 100] None None) < pt_total (calculateTotal default_pricing (Named 100 2))"
  by code_simp

end
