(* ===== verification/SignIn.thy ===== *)
theory SignIn
  imports PortalGuards
begin

text \<open>
  Signing in: the login page (\<open>frontend/src/app/(public)/login/page.tsx\<close>) and the two interceptors of
  the client (\<open>lib/api.ts\<close>), on the session of \<open>lib/authStore.ts\<close>. What the server answers is an
  argument; a page change is the path the router is given.
\<close>

section \<open>The login page\<close>

datatype login_step = EMAIL | OTP

record login_page_state =
  lo_email :: string
  lo_otp :: string
  lo_password :: string
  lo_step :: login_step
  lo_isLoading :: bool
  lo_error :: string
  lo_replaced :: "string option"

type_synonym login_answer = "string option + (string \<times> portal_user)"

definition privileged :: "string list" where
  "privileged = [''SUPER_ADMIN'', ''ADMIN'', ''THEATER_MANAGER'', ''SCANNER_DEVICE'']"

text \<open>Where a session found on arrival is sent, and where a role is sent after a login.\<close>

definition arrival_destination :: "string \<Rightarrow> string option \<Rightarrow> string" where
  "arrival_destination role redirect =
     (if role \<in> set privileged then (case role_redirect role of None \<Rightarrow> ''/'' | Some h \<Rightarrow> h)
      else (case redirect of None \<Rightarrow> ''/'' | Some r \<Rightarrow> r))"

definition destination :: "string \<Rightarrow> string option \<Rightarrow> string" where
  "destination role redirect =
     (if role = ''SUPER_ADMIN'' then ''/super-admin''
      else if role = ''ADMIN'' then ''/admin''
      else if role = ''THEATER_MANAGER'' then ''/theatre''
      else if role = ''SCANNER_DEVICE'' then ''/scanner''
      else (case redirect of None \<Rightarrow> ''/'' | Some r \<Rightarrow> r))"

definition arrive :: "string option \<Rightarrow> login_page_state \<Rightarrow> session \<Rightarrow> login_page_state \<times> session" where
  "arrive redirect l s =
     (if \<not> se_hasHydrated s then (l, s)
      else case se_user s of
        None \<Rightarrow> (l, s)
      | Some u \<Rightarrow>
          if \<not> truthy (se_token s) then (l, s)
          else (l\<lparr>lo_replaced := Some (arrival_destination (us_role u) redirect)\<rparr>, s\<lparr>se_cookie := se_token s\<rparr>))"

text \<open>Both logins store the session and go to the destination of the role; an error is shown.\<close>

definition logged_in :: "string option \<Rightarrow> string \<Rightarrow> login_answer \<Rightarrow> login_page_state \<Rightarrow> session \<Rightarrow> login_page_state \<times> session" where
  "logged_in redirect fallback answer l s =
     (case answer of
        Inl m \<Rightarrow> (l\<lparr>lo_error := or_str m fallback, lo_isLoading := False\<rparr>, s)
      | Inr (token, user) \<Rightarrow>
          (l\<lparr>lo_error := [], lo_replaced := Some (destination (us_role user) redirect), lo_isLoading := False\<rparr>,
           setAuth user token (s\<lparr>se_cookie := Some token\<rparr>)))"

definition handleLoginPassword :: "string option \<Rightarrow> login_answer \<Rightarrow> login_page_state \<Rightarrow> session \<Rightarrow> login_page_state \<times> session" where
  "handleLoginPassword redirect answer l s = logged_in redirect ''Invalid credentials'' answer l s"

definition handleVerifyOTP :: "string option \<Rightarrow> login_answer \<Rightarrow> login_page_state \<Rightarrow> session \<Rightarrow> login_page_state \<times> session" where
  "handleVerifyOTP redirect answer l s = logged_in redirect ''Invalid OTP'' answer l s"

definition handleRequestOTP :: "string option option \<Rightarrow> login_page_state \<Rightarrow> login_page_state" where
  "handleRequestOTP failure l =
     (case failure of
        None \<Rightarrow> l\<lparr>lo_error := [], lo_step := OTP, lo_isLoading := False\<rparr>
      | Some m \<Rightarrow> l\<lparr>lo_error := or_str m ''Failed to send OTP'', lo_isLoading := False\<rparr>)"

definition handleEmailSubmit ::
  "string option \<Rightarrow> login_answer \<Rightarrow> string option option \<Rightarrow> login_page_state \<Rightarrow> session \<Rightarrow> login_page_state \<times> session" where
  "handleEmailSubmit redirect answer failure l s =
     (if lo_password l \<noteq> [] then handleLoginPassword redirect answer l s else (handleRequestOTP failure l, s))"

section \<open>The client\<close>

definition outgoing_headers :: "string option \<Rightarrow> session \<Rightarrow> (string \<times> string) list" where
  "outgoing_headers configuredSlug s =
     (if truthy (se_localToken s) then [(''Authorization'', ''Bearer '' @ the (se_localToken s))] else [])
     @ [(''x-tenant-slug'', or_str (se_localSlug s) (or_str configuredSlug ''starpass''))]"

text \<open>A rejected answer: the session after it, the page it leads to and the message shown.\<close>

definition rejected :: "int option \<Rightarrow> session \<Rightarrow> session \<times> string option \<times> string option" where
  "rejected status s =
     (if status = Some 401 then (logout s, Some ''/login'', Some ''Session expired. Please login again.'')
      else if status = Some 403 then (s, None, Some ''Access denied. You do not have permission.'')
      else if (case status of None \<Rightarrow> False | Some c \<Rightarrow> c \<ge> 500)
      then (s, None, Some ''Internal server error. Please try again later.'')
      else (s, None, None))"

section \<open>Where a login leads\<close>

lemma destination_privileged: "role \<in> set privileged \<Longrightarrow> destination role redirect = arrival_destination role redirect"
  by (auto simp: privileged_def destination_def arrival_destination_def role_redirect_def)

lemma destination_user:
  "role \<notin> set privileged \<Longrightarrow> destination role redirect = (case redirect of None \<Rightarrow> ''/'' | Some r \<Rightarrow> r)"
  by (simp add: privileged_def destination_def)

text \<open>Arriving with a session and logging in lead to the same page.\<close>

lemma destinations_agree: "destination role redirect = arrival_destination role redirect"
  by (cases "role \<in> set privileged") (simp_all add: destination_privileged destination_user, simp add: arrival_destination_def)

text \<open>The request the browser makes for the page a login leads to.\<close>

definition landing_request :: "login_page_state \<Rightarrow> session \<Rightarrow> page_request" where
  "landing_request l s = \<lparr>pg_path = the (lo_replaced l), pg_cookie = se_cookie s, pg_authorization = None\<rparr>"

lemma destination_home:
  "destination role None = (case role_redirect role of None \<Rightarrow> ''/'' | Some h \<Rightarrow> h)"
  by (auto simp: destination_def role_redirect_def)

text \<open>A login of any role leads to a page that is served at once, when the token verifies to the role of the user
  and no other page was asked for, except for an administrator without a tenant.\<close>

theorem login_lands:
  assumes "logged_in None fallback (Inr (token, user)) l s = (l', s')" "token \<noteq> []"
    "verifyToken token = Some c" "cl_role c = us_role user" "\<not> tenantless_admin c"
  shows "lets_through (middleware verifyToken (landing_request l' s'))"
proof -
  have l: "lo_replaced l' = Some (destination (us_role user) None)" "se_cookie s' = Some token"
    using assms(1) by (auto simp: logged_in_def setAuth_def)
  let ?h = "case role_redirect (cl_role c) of None \<Rightarrow> ''/'' | Some h \<Rightarrow> h"
  have "landing_request l' s' = \<lparr>pg_path = ?h, pg_cookie = Some token, pg_authorization = None\<rparr>"
    using l assms(4) by (simp add: landing_request_def destination_home)
  then have "middleware verifyToken (landing_request l' s') = check_guards ?h c"
    using assms(2,3) homes_are_not_public[of "cl_role c"] by (simp add: middleware_def request_token_def)
  then show ?thesis using home_lets_in[OF assms(5)] by simp
qed

definition empty_login :: login_page_state where
  "empty_login = \<lparr>lo_email = [], lo_otp = [], lo_password = [], lo_step = EMAIL, lo_isLoading = False, lo_error = [], lo_replaced = None\<rparr>"

definition empty_session :: session where
  "empty_session = \<lparr>se_user = None, se_token = None, se_hasHydrated = True, se_persisted = (None, None), se_localToken = None,
     se_localSlug = None, se_cookie = None\<rparr>"

lemma login_lands_witness:
  "lets_through (middleware (\<lambda>t. Some \<lparr>cl_role = ''THEATER_MANAGER'', cl_tenantId = None, cl_tenantSlug = None\<rparr>)
     (case logged_in None ''Invalid OTP'' (Inr (''t'', \<lparr>us_role = ''THEATER_MANAGER'', us_tenantSlug = None\<rparr>)) empty_login empty_session
      of (l, s) \<Rightarrow> landing_request l s))"
proof -
  obtain l s where r: "logged_in None ''Invalid OTP'' (Inr (''t'', \<lparr>us_role = ''THEATER_MANAGER'', us_tenantSlug = None\<rparr>))
      empty_login empty_session = (l, s)" by fastforce
  show ?thesis unfolding r prod.case by (rule login_lands[OF r _ refl]) (simp_all add: tenantless_admin_def)
qed

text \<open>A user without a portal is sent wherever the query says.\<close>

lemma redirect_is_not_checked:
  "role \<notin> set privileged \<Longrightarrow>
   lo_replaced (fst (logged_in (Some target) f (Inr (t, \<lparr>us_role = role, us_tenantSlug = g\<rparr>)) l s)) = Some target"
  by (simp add: logged_in_def destination_user)

text \<open>A failed login leaves the session as it was.\<close>

lemma failed_login_keeps_session: "snd (logged_in r f (Inl m) l s) = s"
  by (simp add: logged_in_def)

text \<open>After an expired session no request carries a token, and every guarded page leads to the login page.\<close>

lemma expired_session_is_cleared:
  assumes "rejected (Some 401) s = (s', page, m)"
  shows "page = Some ''/login''" "map_of (outgoing_headers slug s') ''Authorization'' = None"
    "(p, roles) \<in> set route_guards \<Longrightarrow> startsWith path p \<Longrightarrow>
       middleware v (page_of s' path) = Redirect ''/login'' [(''redirect'', path)] False"
  using assms logout_is_complete(1)[of p roles path v s]
  by (auto simp: rejected_def outgoing_headers_def logout_def)

text \<open>A tenant is always named; a login of a user without one keeps the tenant of the session before.\<close>

lemma tenant_always_named: "\<exists>v. map_of (outgoing_headers slug s) ''x-tenant-slug'' = Some v \<and> v \<noteq> []"
  by (auto simp: outgoing_headers_def or_str_def split: option.splits)

lemma tenant_of_earlier_session:
  assumes "se_localSlug s = Some g" "g \<noteq> []" "us_tenantSlug u = None"
  shows "map_of (outgoing_headers slug (snd (logged_in r f (Inr (t, u)) l s))) ''x-tenant-slug'' = Some g"
  using assms by (simp add: outgoing_headers_def logged_in_def setAuth_def or_str_def)

end
