(* ===== verification/LiveMonitor.thy ===== *)
theory LiveMonitor
  imports SeatPicker
begin

text \<open>
  Live monitoring of a show by an administrator: the two socket gateways
  (\<open>backend/src/websocket/booking.gateway.ts\<close>, \<open>backend/src/admin/admin.gateway.ts\<close>), the socket
  client of the frontend (\<open>frontend/src/lib/socket.ts\<close>), the monitor
  (\<open>features/admin/components/LiveSeatMonitor.tsx\<close>) with the seat grid of \<open>features/seats\<close>, and the
  activity page (\<open>app/admin/live/page.tsx\<close>). The verifier of session tokens is a parameter.
\<close>

section \<open>The gateways\<close>

text \<open>A gateway serves one namespace of the socket library, which joins every socket to the room of its
  own id, delivers an emission to the sockets in the room, and forgets a socket that disconnects.\<close>

datatype gateway_space = Root_space | Admin_space

record admin_claims =
  ac_sub :: string
  ac_role :: string
  ac_tenantId :: "string option"

record socket_client =
  so_id :: string
  so_space :: gateway_space
  so_user :: "admin_claims option"
  so_rooms :: "string list"

datatype live_message =
    Live_locked string string string
  | Live_released string string
  | Live_confirmed string string "string list"
  | Live_booked string string string

fun show_of :: "live_message \<Rightarrow> string" where
  "show_of (Live_locked showId _ _) = showId"
| "show_of (Live_released showId _) = showId"
| "show_of (Live_confirmed showId _ _) = showId"
| "show_of (Live_booked showId _ _) = showId"

text \<open>What a socket received; the admin gateway adds the time of the emission.\<close>

record live_delivery =
  ld_to :: socket_client
  ld_message :: live_message
  ld_timestamp :: "int option"

record live_server =
  lv_sockets :: "socket_client list"
  lv_delivered :: "live_delivery list"

definition no_sockets :: live_server where
  "no_sockets = \<lparr>lv_sockets = [], lv_delivered = []\<rparr>"

definition deliver_live :: "gateway_space \<Rightarrow> int option \<Rightarrow> live_message \<Rightarrow> live_server \<Rightarrow> live_server" where
  "deliver_live sp at_time m s = s\<lparr>lv_delivered := lv_delivered s @
     map (\<lambda>c. \<lparr>ld_to = c, ld_message = m, ld_timestamp = at_time\<rparr>)
       (filter (\<lambda>c. so_space c = sp \<and> show_of m \<in> set (so_rooms c)) (lv_sockets s))\<rparr>"

definition join_room :: "string \<Rightarrow> string \<Rightarrow> live_server \<Rightarrow> live_server" where
  "join_room socketId room s =
     s\<lparr>lv_sockets := update_where (\<lambda>c. so_id c = socketId)
         (\<lambda>c. c\<lparr>so_rooms := (if room \<in> set (so_rooms c) then so_rooms c else so_rooms c @ [room])\<rparr>) (lv_sockets s)\<rparr>"

definition drop_socket :: "string \<Rightarrow> live_server \<Rightarrow> live_server" where
  "drop_socket socketId s = s\<lparr>lv_sockets := filter (\<lambda>c. so_id c \<noteq> socketId) (lv_sockets s)\<rparr>"

definition open_socket :: "gateway_space \<Rightarrow> string \<Rightarrow> live_server \<Rightarrow> live_server" where
  "open_socket sp socketId s =
     (if socketId \<in> so_id ` set (lv_sockets s) then s
      else s\<lparr>lv_sockets := lv_sockets s @
        [\<lparr>so_id = socketId, so_space = sp, so_user = None, so_rooms = [socketId]\<rparr>]\<rparr>)"

section \<open>\<open>BookingGateway\<close>\<close>

definition handleJoinShow :: "string \<Rightarrow> string \<Rightarrow> live_server \<Rightarrow> live_server \<times> (string \<times> string)" where
  "handleJoinShow showId socketId s = (join_room socketId showId s, (''joined_show'', showId))"

definition booking_emitSeatLocked :: "string \<Rightarrow> string \<Rightarrow> string \<Rightarrow> live_server \<Rightarrow> live_server" where
  "booking_emitSeatLocked showId seatId userId = deliver_live Root_space None (Live_locked showId seatId userId)"

definition booking_emitSeatReleased :: "string \<Rightarrow> string \<Rightarrow> live_server \<Rightarrow> live_server" where
  "booking_emitSeatReleased showId seatId = deliver_live Root_space None (Live_released showId seatId)"

definition booking_emitBookingConfirmed :: "string \<Rightarrow> string \<Rightarrow> string list \<Rightarrow> live_server \<Rightarrow> live_server" where
  "booking_emitBookingConfirmed showId bookingId seatIds = deliver_live Root_space None (Live_confirmed showId bookingId seatIds)"

definition booking_emitSeatBooked :: "string \<Rightarrow> string \<Rightarrow> string \<Rightarrow> live_server \<Rightarrow> live_server" where
  "booking_emitSeatBooked showId seatId userId = deliver_live Root_space None (Live_booked showId seatId userId)"

section \<open>\<open>AdminGateway\<close>\<close>

record handshake =
  hs_auth_token :: "string option"
  hs_query_token :: "string option"
  hs_authorization :: "string option"

definition extractToken :: "handshake \<Rightarrow> string option" where
  "extractToken h =
     (if truthy (hs_auth_token h) then hs_auth_token h
      else if truthy (hs_query_token h) then hs_query_token h
      else if \<not> truthy (hs_authorization h) then None
      else case split_on (CHR '' '') (the (hs_authorization h)) of
             scheme # token # _ \<Rightarrow> (if scheme = ''Bearer'' then Some token else None)
           | _ \<Rightarrow> None)"

text \<open>The end of \<open>handleConnection\<close>: the socket is open while the token is being verified.\<close>

definition handleConnection :: "(string \<Rightarrow> admin_claims option) \<Rightarrow> handshake \<Rightarrow> string \<Rightarrow> live_server \<Rightarrow> live_server" where
  "handleConnection verify h socketId s =
     (if \<not> truthy (extractToken h) then drop_socket socketId s
      else case verify (the (extractToken h)) of
             None \<Rightarrow> drop_socket socketId s
           | Some payload \<Rightarrow>
               if ac_role payload \<noteq> ''ADMIN'' then drop_socket socketId s
               else s\<lparr>lv_sockets := update_where (\<lambda>c. so_id c = socketId) (\<lambda>c. c\<lparr>so_user := Some payload\<rparr>) (lv_sockets s)\<rparr>)"

definition handleMonitorShow :: "string \<Rightarrow> string \<Rightarrow> live_server \<Rightarrow> live_server \<times> (string \<times> string) outcome" where
  "handleMonitorShow showId socketId s =
     (case find (\<lambda>c. so_id c = socketId) (lv_sockets s) of
        None \<Rightarrow> (s, Inl (Unauthorized ''Unauthorized''))
      | Some c \<Rightarrow>
          if so_user c = None then (s, Inl (Unauthorized ''Unauthorized''))
          else (join_room socketId showId s, Inr (''monitoring_started'', showId)))"

definition admin_emitSeatLocked :: "int \<Rightarrow> string \<Rightarrow> string \<Rightarrow> string \<Rightarrow> live_server \<Rightarrow> live_server" where
  "admin_emitSeatLocked now showId seatId userId = deliver_live Admin_space (Some now) (Live_locked showId seatId userId)"

definition admin_emitSeatReleased :: "int \<Rightarrow> string \<Rightarrow> string \<Rightarrow> live_server \<Rightarrow> live_server" where
  "admin_emitSeatReleased now showId seatId = deliver_live Admin_space (Some now) (Live_released showId seatId)"

definition admin_emitBookingConfirmed :: "int \<Rightarrow> string \<Rightarrow> string \<Rightarrow> string list \<Rightarrow> live_server \<Rightarrow> live_server" where
  "admin_emitBookingConfirmed now showId bookingId seatIds =
     deliver_live Admin_space (Some now) (Live_confirmed showId bookingId seatIds)"

text \<open>What happens at the two gateways, in any order. Verification of a socket runs between its opening and
  its \<open>handleConnection\<close> step; messages of the socket may be served in between.\<close>

text \<open>\<open>H\<close> says which handshakes the clients send.\<close>

inductive live_step :: "(string \<Rightarrow> admin_claims option) \<Rightarrow> (handshake \<Rightarrow> bool) \<Rightarrow> live_server \<Rightarrow> live_server \<Rightarrow> bool"
  for verify H where
  live_open: "live_step verify H s (open_socket sp socketId s)"
| live_verified: "c \<in> set (lv_sockets s) \<Longrightarrow> so_space c = Admin_space \<Longrightarrow> H h \<Longrightarrow>
    live_step verify H s (handleConnection verify h (so_id c) s)"
| live_close: "live_step verify H s (drop_socket socketId s)"
| live_join: "c \<in> set (lv_sockets s) \<Longrightarrow> so_space c = Root_space \<Longrightarrow>
    live_step verify H s (fst (handleJoinShow showId (so_id c) s))"
| live_monitor: "c \<in> set (lv_sockets s) \<Longrightarrow> so_space c = Admin_space \<Longrightarrow>
    live_step verify H s (fst (handleMonitorShow showId (so_id c) s))"
| live_root_locked: "live_step verify H s (booking_emitSeatLocked showId seatId userId s)"
| live_root_released: "live_step verify H s (booking_emitSeatReleased showId seatId s)"
| live_root_confirmed: "live_step verify H s (booking_emitBookingConfirmed showId bookingId seatIds s)"
| live_root_booked: "live_step verify H s (booking_emitSeatBooked showId seatId userId s)"
| live_admin_locked: "live_step verify H s (admin_emitSeatLocked now showId seatId userId s)"
| live_admin_released: "live_step verify H s (admin_emitSeatReleased now showId seatId s)"
| live_admin_confirmed: "live_step verify H s (admin_emitBookingConfirmed now showId bookingId seatIds s)"

lemmas emit_defs = booking_emitSeatLocked_def booking_emitSeatReleased_def booking_emitBookingConfirmed_def
  booking_emitSeatBooked_def admin_emitSeatLocked_def admin_emitSeatReleased_def admin_emitBookingConfirmed_def

section \<open>The socket client of the frontend\<close>

record client_socket =
  cs_serial :: nat
  cs_space :: gateway_space
  cs_handshake :: handshake
  cs_connected :: bool

text \<open>One socket per namespace is remembered; \<open>cl_opened\<close> counts those ever opened.\<close>

record socket_service =
  cl_instance :: "client_socket option"
  cl_admin :: "client_socket option"
  cl_opened :: nat

definition getInstance :: "gateway_space \<Rightarrow> socket_service \<Rightarrow> client_socket option" where
  "getInstance sp c = (case sp of Root_space \<Rightarrow> cl_instance c | Admin_space \<Rightarrow> cl_admin c)"

definition remember_socket :: "gateway_space \<Rightarrow> client_socket option \<Rightarrow> socket_service \<Rightarrow> socket_service" where
  "remember_socket sp k c =
     (case sp of Root_space \<Rightarrow> c\<lparr>cl_instance := k\<rparr> | Admin_space \<Rightarrow> c\<lparr>cl_admin := k\<rparr>)"

definition auth_handshake :: "string option \<Rightarrow> handshake" where
  "auth_handshake token =
     \<lparr>hs_auth_token = (if truthy token then Some (''Bearer '' @ the token) else None),
      hs_query_token = None, hs_authorization = None\<rparr>"

definition connect_socket :: "string option \<Rightarrow> gateway_space \<Rightarrow> socket_service \<Rightarrow> socket_service \<times> client_socket" where
  "connect_socket token sp c =
     (let k = \<lparr>cs_serial = cl_opened c, cs_space = sp, cs_handshake = auth_handshake token, cs_connected = False\<rparr>;
          opened = (remember_socket sp (Some k) (c\<lparr>cl_opened := cl_opened c + 1\<rparr>), k)
      in case getInstance sp c of
           None \<Rightarrow> opened
         | Some old \<Rightarrow> if cs_connected old then (c, old) else opened)"

definition disconnect_socket :: "gateway_space \<Rightarrow> socket_service \<Rightarrow> socket_service" where
  "disconnect_socket sp c = remember_socket sp None c"

section \<open>The seats of a show as the interface lists them\<close>

text \<open>\<open>seatsApi.getSeats\<close>: the nested row is flattened; missing fields take defaults.\<close>

record seat_api_row =
  ar_id :: string
  ar_seatId :: string
  ar_seat :: "(string option \<times> int option) option"
  ar_row :: "string option"
  ar_number :: "int option"
  ar_status :: "string option"
  ar_userId :: "string option"
  ar_lockedUntil :: "string option"
  ar_price :: "rat option"

record live_seat =
  se_id :: string
  se_seatId :: string
  se_row :: string
  se_number :: int
  se_status :: string
  se_lockedBy :: "string option"
  se_lockedUntil :: "string option"
  se_price :: rat

definition orElse :: "'a option \<Rightarrow> 'a option \<Rightarrow> 'a option" where
  "orElse x y = (case x of None \<Rightarrow> y | Some _ \<Rightarrow> x)"

definition or_default :: "'a \<Rightarrow> 'a option \<Rightarrow> 'a" where
  "or_default d x = (case x of None \<Rightarrow> d | Some v \<Rightarrow> v)"

definition getSeats :: "seat_api_row list \<Rightarrow> live_seat list" where
  "getSeats raw = map (\<lambda>a.
     \<lparr>se_id = ar_id a, se_seatId = ar_seatId a,
      se_row = or_default [] (orElse (Option.bind (ar_seat a) fst) (ar_row a)),
      se_number = or_default 0 (orElse (Option.bind (ar_seat a) snd) (ar_number a)),
      se_status = or_default ''AVAILABLE'' (ar_status a),
      se_lockedBy = ar_userId a, se_lockedUntil = ar_lockedUntil a,
      se_price = or_default 0 (ar_price a)\<rparr>) raw"

text \<open>The grid of \<open>features/seats\<close>: rows by letter, the colour of every seat. Rendering throws when the list
  of selected seats is missing and a seat is neither booked nor locked; \<open>None\<close> is that exception.\<close>

definition cell_of :: "live_seat \<Rightarrow> seat_cell" where
  "cell_of s = \<lparr>ce_seatId = se_id s, ce_row = Some (se_row s), ce_number = se_number s, ce_status = se_status s\<rparr>"

definition cell_status :: "string list option \<Rightarrow> seat_cell \<Rightarrow> string option" where
  "cell_status selectedSeatNumbers c =
     (if ce_status c = ''BOOKED'' then Some ''BOOKED''
      else if ce_status c = ''LOCKED'' then Some ''LOCKED''
      else case selectedSeatNumbers of
             None \<Rightarrow> None
           | Some ns \<Rightarrow> Some (if seat_code c \<in> set ns then ''SELECTED'' else ''AVAILABLE''))"

fun render_all :: "('a \<Rightarrow> 'b option) \<Rightarrow> 'a list \<Rightarrow> 'b list option" where
  "render_all f [] = Some []"
| "render_all f (x # xs) =
     (case f x of None \<Rightarrow> None
      | Some y \<Rightarrow> (case render_all f xs of None \<Rightarrow> None | Some ys \<Rightarrow> Some (y # ys)))"

definition SeatGrid :: "string list option \<Rightarrow> live_seat list \<Rightarrow> (string \<times> (seat_cell \<times> string) list) list option" where
  "SeatGrid selectedSeatNumbers seats =
     render_all (\<lambda>(k, cs). map_option (Pair k)
         (render_all (\<lambda>c. map_option (Pair c) (cell_status selectedSeatNumbers c)) cs))
       (seat_grid (map cell_of seats))"

text \<open>A seat of the grid: its colour and whether it can be clicked.\<close>

datatype seat_look = Look_booked | Look_locked | Look_mine | Look_selected | Look_free

definition isLockedByCurrentUser :: "string option \<Rightarrow> live_seat \<Rightarrow> bool" where
  "isLockedByCurrentUser currentUserId s \<longleftrightarrow> truthy (se_lockedBy s) \<and> truthy currentUserId \<and> se_lockedBy s = currentUserId"

definition look_of_seat :: "string \<Rightarrow> bool \<Rightarrow> seat_look" where
  "look_of_seat status mine =
     (if status = ''BOOKED'' then Look_booked
      else if status = ''LOCKED'' \<and> \<not> mine then Look_locked
      else if status = ''LOCKED'' \<and> mine then Look_mine
      else if status = ''SELECTED'' then Look_selected
      else Look_free)"

definition isSelectable :: "string \<Rightarrow> bool" where
  "isSelectable status \<longleftrightarrow> status = ''AVAILABLE'' \<or> status = ''SELECTED''"

section \<open>The monitor\<close>

text \<open>\<open>LiveSeatMonitor\<close>: its seats follow the messages of the admin namespace.\<close>

fun monitor_handler :: "live_message \<Rightarrow> live_seat list \<Rightarrow> live_seat list" where
  "monitor_handler (Live_locked _ seatId userId) seats =
     update_where (\<lambda>s. se_id s = seatId) (\<lambda>s. s\<lparr>se_status := ''LOCKED'', se_lockedBy := Some userId\<rparr>) seats"
| "monitor_handler (Live_released _ seatId) seats =
     update_where (\<lambda>s. se_id s = seatId) (\<lambda>s. s\<lparr>se_status := ''AVAILABLE'', se_lockedBy := None\<rparr>) seats"
| "monitor_handler (Live_confirmed _ _ seatIds) seats =
     update_where (\<lambda>s. se_id s \<in> set seatIds) (\<lambda>s. s\<lparr>se_status := ''BOOKED''\<rparr>) seats"
| "monitor_handler (Live_booked _ _ _) seats = seats"

definition count_available :: "live_seat list \<Rightarrow> nat" where
  "count_available seats = count_where (\<lambda>s. se_status s = ''AVAILABLE'') seats"

definition count_occupied :: "live_seat list \<Rightarrow> nat" where
  "count_occupied seats = count_where (\<lambda>s. se_status s \<noteq> ''AVAILABLE'') seats"

text \<open>The monitor renders the grid without the list of selected seats: it passes a property of another name.\<close>

definition LiveSeatMonitor :: "live_message list \<Rightarrow> live_seat list \<Rightarrow> (string \<times> (seat_cell \<times> string) list) list option" where
  "LiveSeatMonitor messages initialSeats = SeatGrid None (fold monitor_handler messages initialSeats)"

section \<open>The activity page\<close>

datatype log_type = Log_seat_locked | Log_booking_confirmed | Log_booking_cancelled | Log_booking_failed | Log_seat_released

record activity =
  lg_id :: string
  lg_type :: log_type
  lg_timestamp :: int
  lg_details :: string

definition addLog :: "activity \<Rightarrow> activity list \<Rightarrow> activity list" where
  "addLog e prev = e # take 49 prev"

datatype log_icon = Icon_check | Icon_lock | Icon_activity | Icon_cross | Icon_alert

fun getEventIcon :: "log_type \<Rightarrow> log_icon" where
  "getEventIcon Log_booking_confirmed = Icon_check"
| "getEventIcon Log_seat_locked = Icon_lock"
| "getEventIcon Log_seat_released = Icon_activity"
| "getEventIcon Log_booking_cancelled = Icon_cross"
| "getEventIcon Log_booking_failed = Icon_alert"

fun getEventColor :: "log_type \<Rightarrow> string" where
  "getEventColor Log_booking_confirmed = ''bg-green-400/10 border-green-400/20''"
| "getEventColor Log_seat_locked = ''bg-yellow-400/10 border-yellow-400/20''"
| "getEventColor Log_seat_released = ''bg-blue-400/10 border-blue-400/20''"
| "getEventColor Log_booking_cancelled = ''bg-red-400/10 border-red-400/20''"
| "getEventColor Log_booking_failed = ''bg-red-500/10 border-red-500/20''"

section \<open>Who receives the messages of the admin namespace\<close>

text \<open>The users of sockets come from verified administrator tokens; a socket of the admin namespace is in a room
  besides its own only when it has a user; messages with a time stamp went to such sockets.\<close>

definition admitted_user :: "(string \<Rightarrow> admin_claims option) \<Rightarrow> (handshake \<Rightarrow> bool) \<Rightarrow> admin_claims \<Rightarrow> bool" where
  "admitted_user verify H p \<longleftrightarrow> ac_role p = ''ADMIN'' \<and>
     (\<exists>h. H h \<and> truthy (extractToken h) \<and> verify (the (extractToken h)) = Some p)"

definition socket_ok :: "(string \<Rightarrow> admin_claims option) \<Rightarrow> (handshake \<Rightarrow> bool) \<Rightarrow> socket_client \<Rightarrow> bool" where
  "socket_ok verify H c \<longleftrightarrow> (\<forall>p. so_user c = Some p \<longrightarrow> admitted_user verify H p) \<and>
     (so_space c = Admin_space \<longrightarrow> (\<forall>r \<in> set (so_rooms c). r = so_id c \<or> so_user c \<noteq> None))"

definition delivery_ok :: "(string \<Rightarrow> admin_claims option) \<Rightarrow> (handshake \<Rightarrow> bool) \<Rightarrow> live_delivery \<Rightarrow> bool" where
  "delivery_ok verify H d \<longleftrightarrow> socket_ok verify H (ld_to d) \<and> show_of (ld_message d) \<in> set (so_rooms (ld_to d)) \<and>
     (ld_timestamp d \<noteq> None \<longrightarrow> so_space (ld_to d) = Admin_space)"

definition live_ok :: "(string \<Rightarrow> admin_claims option) \<Rightarrow> (handshake \<Rightarrow> bool) \<Rightarrow> live_server \<Rightarrow> bool" where
  "live_ok verify H s \<longleftrightarrow> distinct (map so_id (lv_sockets s)) \<and>
     (\<forall>c \<in> set (lv_sockets s). socket_ok verify H c) \<and> (\<forall>d \<in> set (lv_delivered s). delivery_ok verify H d)"

lemma live_ok_deliver:
  "live_ok verify H s \<Longrightarrow> (t \<noteq> None \<Longrightarrow> sp = Admin_space) \<Longrightarrow> live_ok verify H (deliver_live sp t m s)"
  by (auto simp: live_ok_def deliver_live_def delivery_ok_def)

lemma live_ok_drop: "live_ok verify H s \<Longrightarrow> live_ok verify H (drop_socket k s)"
  by (auto simp: live_ok_def drop_socket_def distinct_map_filter)

lemma live_ok_update:
  assumes "live_ok verify H s" and "\<And>c. so_id (f c) = so_id c"
    and "\<And>c. c \<in> set (lv_sockets s) \<Longrightarrow> so_id c = k \<Longrightarrow> socket_ok verify H c \<Longrightarrow> socket_ok verify H (f c)"
  shows "live_ok verify H (s\<lparr>lv_sockets := update_where (\<lambda>c. so_id c = k) f (lv_sockets s)\<rparr>)"
  using assms(1) map_update_where [of "\<lambda>c. so_id c = k" so_id f "lv_sockets s"] assms(2,3)
  by (auto simp: live_ok_def in_update_where)

lemma live_ok_open: "live_ok verify H s \<Longrightarrow> live_ok verify H (open_socket sp k s)"
  by (auto simp: live_ok_def open_socket_def socket_ok_def)

lemma live_ok_connection:
  assumes "live_ok verify H s" and "H h"
  shows "live_ok verify H (handleConnection verify h k s)"
proof (cases "truthy (extractToken h) \<and> (\<exists>p. verify (the (extractToken h)) = Some p \<and> ac_role p = ''ADMIN'')")
  case True
  then obtain p where p: "truthy (extractToken h)" "verify (the (extractToken h)) = Some p" "ac_role p = ''ADMIN''"
    by blast
  with assms(2) have "admitted_user verify H p" by (auto simp: admitted_user_def)
  then have "live_ok verify H (s\<lparr>lv_sockets := update_where (\<lambda>c. so_id c = k) (\<lambda>c. c\<lparr>so_user := Some p\<rparr>) (lv_sockets s)\<rparr>)"
    by (intro live_ok_update assms(1)) (auto simp: socket_ok_def)
  with p show ?thesis by (simp add: handleConnection_def)
next
  case False
  then show ?thesis using live_ok_drop [OF assms(1)]
    by (auto simp: handleConnection_def split: option.split)
qed

lemma live_ok_join:
  assumes "live_ok verify H s" and "\<And>c. c \<in> set (lv_sockets s) \<Longrightarrow> so_id c = k \<Longrightarrow> so_space c = Root_space \<or> so_user c \<noteq> None"
  shows "live_ok verify H (join_room k r s)"
  unfolding join_room_def using assms(2)
  by (intro live_ok_update assms(1)) (fastforce simp: socket_ok_def split: if_splits)+

lemma live_ok_unique: "live_ok verify H s \<Longrightarrow> c \<in> set (lv_sockets s) \<Longrightarrow> d \<in> set (lv_sockets s) \<Longrightarrow> so_id d = so_id c \<Longrightarrow> d = c"
  by (auto simp: live_ok_def intro: distinct_key_eq)

lemma live_ok_monitor:
  assumes "live_ok verify H s" and "c \<in> set (lv_sockets s)"
  shows "live_ok verify H (fst (handleMonitorShow r (so_id c) s))"
proof -
  have "find (\<lambda>d. so_id d = so_id c) (lv_sockets s) = Some c"
    using assms by (auto simp: live_ok_def intro: find_distinct_key)
  moreover have "live_ok verify H (join_room (so_id c) r s)" if "so_user c \<noteq> None"
    using that live_ok_unique [OF assms] by (intro live_ok_join assms(1)) auto
  ultimately show ?thesis using assms(1) by (simp add: handleMonitorShow_def)
qed

lemma live_ok_step:
  assumes "live_ok verify H s" and "live_step verify H s t"
  shows "live_ok verify H t"
  using assms(2)
proof cases
  case (live_join c r)
  then show ?thesis using live_ok_unique [OF assms(1)]
    by (auto simp: handleJoinShow_def intro!: live_ok_join [OF assms(1)])
qed (auto simp: emit_defs intro: assms(1) live_ok_deliver live_ok_open live_ok_drop live_ok_connection live_ok_monitor)

interpretation live: invariant_system "live_step verify H" "live_ok verify H" for verify H
  by unfold_locales (rule live_ok_step)

lemma live_run_ok: "run (live_step verify H) no_sockets s \<Longrightarrow> live_ok verify H s"
  by (rule live.run_inv) (auto simp: live_ok_def no_sockets_def)

text \<open>
  A message of the admin gateway is only ever received by a socket of the admin namespace, and outside the room of the
  socket's own id only by one whose token was verified as an administrator's: whatever the order of openings,
  verifications, requests to monitor and emissions. Requests sent before the verification has ended are refused.
\<close>
theorem admin_messages_reach_admins:
  assumes "run (live_step verify H) no_sockets s" and "d \<in> set (lv_delivered s)" and "ld_timestamp d \<noteq> None"
  shows "so_space (ld_to d) = Admin_space \<and> (show_of (ld_message d) = so_id (ld_to d) \<or>
    (\<exists>p token. so_user (ld_to d) = Some p \<and> ac_role p = ''ADMIN'' \<and> verify token = Some p))"
proof -
  have "delivery_ok verify H d" using live_run_ok [OF assms(1)] assms(2) by (simp add: live_ok_def)
  with assms(3) show ?thesis by (fastforce simp: delivery_ok_def socket_ok_def admitted_user_def)
qed

text \<open>A concrete run: an administrator is admitted, monitors a show and hears of a lock.\<close>

definition demo_claims :: admin_claims where
  "demo_claims = \<lparr>ac_sub = ''u1'', ac_role = ''ADMIN'', ac_tenantId = Some ''t1''\<rparr>"

definition demo_verify :: "string \<Rightarrow> admin_claims option" where
  "demo_verify t = (if t = ''tok'' then Some demo_claims else None)"

definition demo_socket :: "string list \<Rightarrow> socket_client" where
  "demo_socket rooms = \<lparr>so_id = ''k1'', so_space = Admin_space, so_user = Some demo_claims, so_rooms = rooms\<rparr>"

definition demo_delivery :: live_delivery where
  "demo_delivery = \<lparr>ld_to = demo_socket [''k1'', ''s1''], ld_message = Live_locked ''s1'' ''A1'' ''u9'', ld_timestamp = Some 7\<rparr>"

definition demo_hand :: handshake where
  "demo_hand = \<lparr>hs_auth_token = None, hs_query_token = None, hs_authorization = Some ''Bearer tok''\<rparr>"

lemma demo_opened:
  "open_socket Admin_space ''k1'' no_sockets =
     no_sockets\<lparr>lv_sockets := [\<lparr>so_id = ''k1'', so_space = Admin_space, so_user = None, so_rooms = [''k1'']\<rparr>]\<rparr>"
  by (simp add: open_socket_def no_sockets_def)

lemma demo_run:
  "run (live_step demo_verify (\<lambda>h. True)) no_sockets
     \<lparr>lv_sockets = [demo_socket [''k1'', ''s1'']], lv_delivered = [demo_delivery]\<rparr>"
proof -
  let ?R = "live_step demo_verify (\<lambda>h. True)"
  let ?c = "\<lparr>so_id = ''k1'', so_space = Admin_space, so_user = None, so_rooms = [''k1'']\<rparr>"
  have 1: "?R no_sockets (no_sockets\<lparr>lv_sockets := [?c]\<rparr>)"
    using live_open [of demo_verify "\<lambda>h. True" no_sockets Admin_space "''k1''"] by (simp add: demo_opened)
  have 2: "?R (no_sockets\<lparr>lv_sockets := [?c]\<rparr>) (no_sockets\<lparr>lv_sockets := [demo_socket [''k1'']]\<rparr>)"
    using live_verified [of ?c "no_sockets\<lparr>lv_sockets := [?c]\<rparr>" "\<lambda>h. True" demo_hand demo_verify]
    by (simp add: handleConnection_def extractToken_def demo_hand_def demo_verify_def demo_claims_def demo_socket_def
        truthy_simps no_sockets_def)
  have 3: "?R (no_sockets\<lparr>lv_sockets := [demo_socket [''k1'']]\<rparr>) (no_sockets\<lparr>lv_sockets := [demo_socket [''k1'', ''s1'']]\<rparr>)"
    using live_monitor [of "demo_socket [''k1'']" "no_sockets\<lparr>lv_sockets := [demo_socket [''k1'']]\<rparr>" demo_verify "\<lambda>h. True" "''s1''"]
    by (simp add: handleMonitorShow_def join_room_def demo_socket_def no_sockets_def)
  have 4: "?R (no_sockets\<lparr>lv_sockets := [demo_socket [''k1'', ''s1'']]\<rparr>)
      \<lparr>lv_sockets = [demo_socket [''k1'', ''s1'']], lv_delivered = [demo_delivery]\<rparr>"
    using live_admin_locked [of demo_verify "\<lambda>h. True" "no_sockets\<lparr>lv_sockets := [demo_socket [''k1'', ''s1'']]\<rparr>" 7 "''s1''" "''A1''" "''u9''"]
    by (simp add: admin_emitSeatLocked_def deliver_live_def demo_socket_def demo_delivery_def no_sockets_def)
  have "run ?R no_sockets (no_sockets\<lparr>lv_sockets := [demo_socket [''k1'']]\<rparr>)"
    using 1 2 by (blast intro: run.intros)
  with 3 4 show ?thesis by (blast intro: run.intros)
qed

lemma admin_messages_reach_admins_witness:
  "demo_delivery \<in> set [demo_delivery] \<and> so_space (ld_to demo_delivery) = Admin_space \<and>
   (show_of (ld_message demo_delivery) = so_id (ld_to demo_delivery) \<or>
    (\<exists>p token. so_user (ld_to demo_delivery) = Some p \<and> ac_role p = ''ADMIN'' \<and> demo_verify token = Some p))"
  using admin_messages_reach_admins [OF demo_run, of demo_delivery] by (simp add: demo_delivery_def)

section \<open>The frontend never gets there\<close>

text \<open>
  The socket client of the frontend sends the token as \<open>Bearer <token>\<close> in the handshake's \<open>auth\<close>, where the
  admin gateway expects the bare token. A verifier that refuses texts with a blank, as every verifier of compact
  web tokens does, refuses all of them: whatever the sessions and the order of the steps, no socket of this client is
  admitted and none receives a message of a show it monitors.
\<close>
theorem live_monitor_is_never_admitted:
  assumes "\<And>t. CHR '' '' \<in> set t \<Longrightarrow> verify t = None"
    and "run (live_step verify (\<lambda>h. \<exists>session. h = auth_handshake session)) no_sockets s"
    and "d \<in> set (lv_delivered s)" and "ld_timestamp d \<noteq> None"
  shows "so_user (ld_to d) = None \<and> show_of (ld_message d) = so_id (ld_to d)"
proof -
  let ?H = "\<lambda>h. \<exists>session. h = auth_handshake session"
  have "\<not> admitted_user verify ?H p" for p
    using assms(1) [of "''Bearer '' @ t" for t] by (auto simp: admitted_user_def auth_handshake_def extractToken_def split: if_splits)
  moreover have "delivery_ok verify ?H d" using live_run_ok [OF assms(2)] assms(3) by (simp add: live_ok_def)
  ultimately show ?thesis using assms(4) by (fastforce simp: delivery_ok_def socket_ok_def)
qed

lemma refused_run:
  "run (live_step demo_verify (\<lambda>h. \<exists>session. h = auth_handshake session)) no_sockets
     (admin_emitSeatLocked 7 ''k1'' ''A1'' ''u9'' (open_socket Admin_space ''k1'' no_sockets))"
  by (blast intro: run.intros live_step.intros)

lemma live_monitor_is_never_admitted_witness:
  "so_user \<lparr>so_id = ''k1'', so_space = Admin_space, so_user = None, so_rooms = [''k1'']\<rparr> = None \<and>
   show_of (Live_locked ''k1'' ''A1'' ''u9'') = ''k1''"
  using live_monitor_is_never_admitted [OF _ refused_run,
      of "\<lparr>ld_to = \<lparr>so_id = ''k1'', so_space = Admin_space, so_user = None, so_rooms = [''k1'']\<rparr>,
           ld_message = Live_locked ''k1'' ''A1'' ''u9'', ld_timestamp = Some 7\<rparr>"]
  by (simp add: demo_opened demo_verify_def admin_emitSeatLocked_def deliver_live_def no_sockets_def)

text \<open>Connecting again before the connection stands opens a second socket and forgets the first.\<close>

lemma connect_before_connected:
  assumes "connect_socket token sp c = (c1, k1)" and "getInstance sp c = None" and "connect_socket token' sp c1 = (c2, k2)"
  shows "cl_opened c2 = cl_opened c + 2 \<and> getInstance sp c2 = Some k2 \<and> cs_serial k2 \<noteq> cs_serial k1"
  using assms by (cases sp) (auto simp: connect_socket_def getInstance_def remember_socket_def Let_def)

lemma connected_is_reused:
  "getInstance sp c = Some k \<Longrightarrow> cs_connected k \<Longrightarrow> connect_socket token sp c = (c, k)"
  by (simp add: connect_socket_def Let_def)

text \<open>A socket that joined no room, as that of the activity page, hears of no show.\<close>

lemma activity_page_hears_nothing:
  assumes "so_rooms c = [so_id c]" and "show_of m \<noteq> so_id c"
    and "d \<in> set (drop (length (lv_delivered s)) (lv_delivered (deliver_live sp t m s)))"
  shows "ld_to d \<noteq> c"
  using assms by (auto simp: deliver_live_def)

section \<open>What the monitor shows\<close>

lemma render_all_None: "render_all f xs = None \<longleftrightarrow> (\<exists>x \<in> set xs. f x = None)"
  by (induction xs) (auto split: option.splits)

lemma render_all_Some: "render_all f xs = Some ys \<Longrightarrow> length ys = length xs"
  by (induction xs arbitrary: ys) (auto split: option.splits)

lemma cells_of_grid: "(\<Union>(k, cs) \<in> set (seat_grid seats). set cs) = set seats"
proof -
  have "(\<Union>(k, cs) \<in> set (seat_grid seats). set cs) = (\<Union>(k, cs) \<in> set (rows_of seats). set cs)"
    by (force simp: seat_grid_def)
  also have "\<dots> = set (concat (map snd (rows_of seats)))" by force
  also have "\<dots> = set seats" using mset_eq_setD [OF rows_of_mset] .
  finally show ?thesis .
qed

lemma SeatGrid_None:
  "SeatGrid sel seats = None \<longleftrightarrow> (\<exists>s \<in> set seats. cell_status sel (cell_of s) = None)"
proof -
  have "SeatGrid sel seats = None \<longleftrightarrow>
      (\<exists>c \<in> (\<Union>(k, cs) \<in> set (seat_grid (map cell_of seats)). set cs). cell_status sel c = None)"
    by (auto simp: SeatGrid_def render_all_None split: prod.splits)
  then show ?thesis by (simp only: cells_of_grid) auto
qed

text \<open>
  The monitor cannot show a seat that is free: it leaves out the list of selected seats, and rendering throws as soon
  as one seat of the show is neither booked nor locked. With a list, the same grid always renders.
\<close>
theorem monitor_shows_full_houses_only:
  "(LiveSeatMonitor ms seats = None) =
     list_ex (\<lambda>s. se_status s \<noteq> ''BOOKED'' \<and> se_status s \<noteq> ''LOCKED'') (fold monitor_handler ms seats)
   \<and> SeatGrid (Some ns) seats \<noteq> None"
  by (auto simp: LiveSeatMonitor_def SeatGrid_None cell_status_def cell_of_def list_ex_iff)

text \<open>The seats follow the messages: a seat's status is that of the last message that names it.\<close>

fun status_told :: "string \<Rightarrow> live_message \<Rightarrow> string option" where
  "status_told k (Live_locked _ seatId _) = (if seatId = k then Some ''LOCKED'' else None)"
| "status_told k (Live_released _ seatId) = (if seatId = k then Some ''AVAILABLE'' else None)"
| "status_told k (Live_confirmed _ _ seatIds) = (if k \<in> set seatIds then Some ''BOOKED'' else None)"
| "status_told k (Live_booked _ _ _) = None"

definition last_told :: "string \<Rightarrow> live_message list \<Rightarrow> string \<Rightarrow> string" where
  "last_told k ms st = fold (\<lambda>m st. or_default st (status_told k m)) ms st"

lemma monitor_handler_status:
  "map (\<lambda>s. (se_id s, se_status s)) (monitor_handler m seats) =
   map (\<lambda>s. (se_id s, or_default (se_status s) (status_told (se_id s) m))) seats"
  by (cases m) (auto simp: update_where_def or_default_def)

lemma monitor_follows_messages:
  "map (\<lambda>s. (se_id s, se_status s)) (fold monitor_handler ms seats) =
   map (\<lambda>s. (se_id s, last_told (se_id s) ms (se_status s))) seats"
proof (induction ms arbitrary: seats)
  case Nil
  then show ?case by (simp add: last_told_def)
next
  case (Cons m ms)
  let ?f = "\<lambda>(k, st). (k, last_told k ms st)"
  have "map (\<lambda>s. (se_id s, se_status s)) (fold monitor_handler (m # ms) seats) =
      map ?f (map (\<lambda>s. (se_id s, se_status s)) (monitor_handler m seats))"
    using Cons by (simp add: comp_def)
  also have "\<dots> = map (\<lambda>s. (se_id s, last_told (se_id s) (m # ms) (se_status s))) seats"
    by (simp only: monitor_handler_status) (simp add: comp_def last_told_def)
  finally show ?case .
qed

lemma counts_are_complete: "count_available seats + count_occupied seats = length seats"
  using sum_length_filter_compl [of "\<lambda>s. se_status s = ''AVAILABLE''" seats]
  by (simp add: count_available_def count_occupied_def count_where_def)

text \<open>The monitor ignores \<open>seat_booked\<close>, which the gateway of the root namespace alone sends.\<close>

lemma booked_message_is_ignored: "monitor_handler (Live_booked a b c) = id"
  by (rule ext) simp

text \<open>The activity log holds the last fifty events, the newest first.\<close>

lemma activity_log_is_latest: "fold addLog es [] = take 50 (rev es)"
  by (induction es rule: rev_induct) (simp_all add: addLog_def)

end
