(* ===== verification/Responses.thy ===== *)
theory Responses
  imports Doubles Json
begin

text \<open>
  What surrounds every request: the exception filter (\<open>backend/src/common/filters\<close> and
  \<open>common/exceptions\<close>), request ids (\<open>common/middleware/request-id.middleware.ts\<close>,
  \<open>requestId.middleware.ts\<close>, \<open>common/interceptors/request-correlation.interceptor.ts\<close>), the audit trail
  (\<open>common/interceptors/audit.interceptor.ts\<close>, \<open>audit/audit.service.ts\<close>, \<open>common/system-event.service.ts\<close>). Logs and tables are lists.
\<close>

section \<open>The exception filter\<close>

datatype error_code = SYSTEM_ERROR | VALIDATION_ERROR | AUTH_ERROR | PLAN_LIMIT_EXCEEDED | FEATURE_DISABLED
  | PAYMENT_ERROR | PAYMENT_VERIFICATION_FAILED | CIRCUIT_OPEN | RESOURCE_NOT_FOUND | DUPLICATE_REQUEST

fun code_name :: "error_code \<Rightarrow> string" where
  "code_name SYSTEM_ERROR = ''SYSTEM_ERROR''"
| "code_name VALIDATION_ERROR = ''VALIDATION_ERROR''"
| "code_name AUTH_ERROR = ''AUTH_ERROR''"
| "code_name PLAN_LIMIT_EXCEEDED = ''PLAN_LIMIT_EXCEEDED''"
| "code_name FEATURE_DISABLED = ''FEATURE_DISABLED''"
| "code_name PAYMENT_ERROR = ''PAYMENT_ERROR''"
| "code_name PAYMENT_VERIFICATION_FAILED = ''PAYMENT_VERIFICATION_FAILED''"
| "code_name CIRCUIT_OPEN = ''CIRCUIT_OPEN''"
| "code_name RESOURCE_NOT_FOUND = ''RESOURCE_NOT_FOUND''"
| "code_name DUPLICATE_REQUEST = ''DUPLICATE_REQUEST''"

text \<open>The answer an \<open>HttpException\<close> carries: a text, or an object with or without \<open>message\<close>.\<close>

datatype http_body = Text_body string | Message_body string | Messages_body "string list" | Object_body

datatype exception =
    App_exception error_code string nat "(string \<times> json) list option"
  | Http_exception nat string http_body
  | Prisma_error string string
  | Plain_error string
  | Not_an_error string

record error_answer =
  ea_status :: nat
  ea_message :: string
  ea_errorCode :: string
  ea_metadata :: "(string \<times> json) list option"
  ea_timestamp :: int
  ea_path :: string
  ea_requestId :: string

datatype log_line = Log_error string | Log_warn string | Log_info string | Console_error string

definition line_feed :: char where "line_feed = char_of (10 :: nat)"

fun exception_status :: "exception \<Rightarrow> nat" where
  "exception_status (App_exception _ _ status _) = status"
| "exception_status (Http_exception status _ _) = status"
| "exception_status _ = 500"

definition or_text :: "string option \<Rightarrow> string \<Rightarrow> string" where
  "or_text x d = (if truthy x then the x else d)"

fun described :: "exception \<Rightarrow> error_answer \<Rightarrow> error_answer" where
  "described (App_exception code message _ metadata) a =
     a\<lparr>ea_message := message, ea_errorCode := code_name code, ea_metadata := metadata\<rparr>"
| "described (Http_exception status message body) a =
     a\<lparr>ea_message := (case body of Message_body m \<Rightarrow> m | Messages_body ms \<Rightarrow> join_with '', '' ms | _ \<Rightarrow> message),
       ea_errorCode := ''HTTP_'' @ show_nat status\<rparr>"
| "described (Prisma_error code message) a =
     a\<lparr>ea_message := ''Database Error: '' @ or_text (Some (last (split_on line_feed message))) ''Unknown Prisma Error'',
       ea_errorCode := ''PRISMA_'' @ code\<rparr>"
| "described (Plain_error _) a = a"
| "described (Not_an_error _) a = a"

text \<open>The logged stack of an error is given by \<open>stack\<close>; a thrown value that is no error is printed itself.\<close>

definition catch_exception ::
  "(exception \<Rightarrow> string) \<Rightarrow> int \<Rightarrow> string \<Rightarrow> string option \<Rightarrow> exception \<Rightarrow> error_answer \<times> log_line list" where
  "catch_exception stack now url assignedId e =
     (let requestId = or_text assignedId ''unknown'';
          body = described e
            \<lparr>ea_status = exception_status e, ea_message = ''Internal server error'', ea_errorCode = ''SYSTEM_ERROR'',
             ea_metadata = None, ea_timestamp = now, ea_path = url, ea_requestId = requestId\<rparr>;
          line = ''['' @ requestId @ ''] '' @ ea_message body
      in (body, if 500 \<le> exception_status e
                then [Log_error line, Console_error (case e of Not_an_error v \<Rightarrow> v | _ \<Rightarrow> stack e)]
                else [Log_warn line]))"

lemma described_simps [simp]:
  "ea_status (described e a) = ea_status a" "ea_requestId (described e a) = ea_requestId a"
  "ea_path (described e a) = ea_path a" "ea_timestamp (described e a) = ea_timestamp a"
  by (cases e; simp)+

text \<open>The status of the answer is the exception's, and an unexpected error keeps its text to the log.\<close>

lemma unexpected_errors_are_opaque:
  assumes "\<exists>m. e = Plain_error m \<or> e = Not_an_error m"
  shows "fst (catch_exception stack now url i e) =
    \<lparr>ea_status = 500, ea_message = ''Internal server error'', ea_errorCode = ''SYSTEM_ERROR'', ea_metadata = None,
     ea_timestamp = now, ea_path = url, ea_requestId = or_text i ''unknown''\<rparr>"
  using assms by (auto simp: catch_exception_def Let_def)

lemma answer_keeps_status: "ea_status (fst (catch_exception stack now url i e)) = exception_status e"
  by (simp add: catch_exception_def Let_def)

text \<open>A database error is not opaque: the last line of its message is answered to the client.\<close>

lemma database_error_is_answered:
  assumes "line_feed \<notin> set line" and "line \<noteq> []"
  shows "ea_message (fst (catch_exception stack now url i (Prisma_error code line))) = ''Database Error: '' @ line"
  using assms by (simp add: catch_exception_def Let_def split_on_none or_text_def)

section \<open>Request ids\<close>

text \<open>Either middleware, then the interceptor; each draws its own fresh id where it needs one.\<close>

record http_request =
  rq_headerId :: "string option"
  rq_id :: "string option"
  rq_method :: string
  rq_url :: string
  rq_tenantSlug :: "string option"

record http_reply =
  rp_idHeader :: "string option"
  rp_statusCode :: nat

definition request_id_middleware :: "string \<Rightarrow> http_request \<Rightarrow> http_reply \<Rightarrow> http_request \<times> http_reply" where
  "request_id_middleware uuid r a =
     (let i = or_text (rq_headerId r) uuid in (r\<lparr>rq_id := Some i\<rparr>, a\<lparr>rp_idHeader := Some i\<rparr>))"

definition requestId_middleware :: "string \<Rightarrow> http_request \<Rightarrow> http_reply \<Rightarrow> http_request \<times> http_reply" where
  "requestId_middleware uuid r a = (r\<lparr>rq_id := Some uuid\<rparr>, a\<lparr>rp_idHeader := Some uuid\<rparr>)"

text \<open>The interceptor: the handler answers a status code or fails with a message and perhaps a status.\<close>

definition correlation_intercept ::
  "string \<Rightarrow> int \<Rightarrow> int \<Rightarrow> (nat, string \<times> nat option) sum \<Rightarrow> http_request \<Rightarrow> http_reply \<Rightarrow>
   http_request \<times> http_reply \<times> log_line" where
  "correlation_intercept uuid startTime endTime handled r a =
     (let i = or_text (rq_headerId r) uuid;
          duration = json_string (show_int (endTime - startTime) @ ''ms'');
          start = [(''requestId'', json_string i), (''method'', json_string (rq_method r)), (''url'', json_string (rq_url r))]
      in (r\<lparr>rq_id := Some i\<rparr>, a\<lparr>rp_idHeader := Some i\<rparr>,
          case handled of
            Inl statusCode \<Rightarrow> Log_info (json_object (start @
              [(''statusCode'', show_nat statusCode), (''duration'', duration),
               (''tenantSlug'', json_string (or_text (rq_tenantSlug r) ''none''))]))
          | Inr (message, status) \<Rightarrow> Log_error (json_object (start @
              [(''error'', json_string message),
               (''statusCode'', show_nat (case status of None \<Rightarrow> 500 | Some n \<Rightarrow> if n = 0 then 500 else n)),
               (''duration'', duration)]))))"

text \<open>An id the client sends survives both; without one the interceptor replaces the id of the middleware.\<close>

lemma client_id_survives:
  assumes "truthy (rq_headerId r)"
    and "request_id_middleware u1 r a = (r1, a1)" and "correlation_intercept u2 t0 t1 handled r1 a1 = (r2, a2, l)"
  shows "rq_id r2 = rq_headerId r \<and> rp_idHeader a2 = rq_headerId r \<and> rq_id r1 = rq_headerId r"
  using assms by (auto simp: request_id_middleware_def correlation_intercept_def or_text_def Let_def dest!: truthyD)

lemma middleware_id_is_replaced:
  assumes "\<not> truthy (rq_headerId r)" and "u1 \<noteq> u2"
    and "request_id_middleware u1 r a = (r1, a1)" and "correlation_intercept u2 t0 t1 handled r1 a1 = (r2, a2, l)"
  shows "rq_id r1 \<noteq> rq_id r2 \<and> rp_idHeader a2 = Some u2"
  using assms by (auto simp: request_id_middleware_def correlation_intercept_def or_text_def Let_def)

section \<open>The audit trail\<close>

record trail_row =
  ad_action :: string
  ad_metadata :: json
  ad_userId :: "string option"
  ad_actorRole :: "string option"
  ad_tenantId :: "string option"
  ad_entity :: "string option"
  ad_before :: "json option"
  ad_after :: "json option"

definition truthy_json :: "json option \<Rightarrow> json option" where
  "truthy_json v = (case v of None \<Rightarrow> None | Some j \<Rightarrow> if json_truthy j then Some j else None)"

text \<open>\<open>AuditService.log\<close>; an insertion that fails (\<open>fails\<close>) is only printed.\<close>

definition audit_log :: "bool \<Rightarrow> trail_row \<Rightarrow> trail_row list \<Rightarrow> trail_row list" where
  "audit_log fails row trail =
     (if fails then trail else trail @ [row\<lparr>ad_before := truthy_json (ad_before row), ad_after := truthy_json (ad_after row)\<rparr>])"

definition sensitiveMethods :: "string list" where
  "sensitiveMethods = [''POST'', ''PATCH'', ''DELETE'', ''PUT'']"

definition sensitiveFields :: "string list" where
  "sensitiveFields = [''password'', ''token'', ''otp'']"

definition mask_field :: "string \<Rightarrow> (string \<times> json) list \<Rightarrow> (string \<times> json) list" where
  "mask_field field = map (\<lambda>(k, v). (k, if k = field \<and> json_truthy v then Str ''********'' else v))"

definition maskedBody :: "(string \<times> json) list \<Rightarrow> (string \<times> json) list" where
  "maskedBody body = fold mask_field sensitiveFields body"

record audited_request =
  au_method :: string
  au_url :: string
  au_body :: "(string \<times> json) list"
  au_ip :: json
  au_userAgent :: json
  au_userId :: "string option"
  au_userRole :: "string option"
  au_tenantId :: "string option"

text \<open>The interceptor: it logs after the handler answered; nothing is logged for a failed request.\<close>

definition audit_intercept ::
  "bool \<Rightarrow> audited_request \<Rightarrow> ('e + 'v) \<Rightarrow> trail_row list \<Rightarrow> trail_row list \<times> ('e + 'v)" where
  "audit_intercept fails r handled trail =
     (case handled of
        Inl e \<Rightarrow> (trail, handled)
      | Inr v \<Rightarrow>
          if au_method r \<notin> set sensitiveMethods then (trail, handled)
          else (audit_log fails
             \<lparr>ad_action = au_method r @ '' '' @ au_url r,
              ad_metadata = Obj [(''body'', Obj (maskedBody (au_body r))), (''ip'', au_ip r), (''userAgent'', au_userAgent r)],
              ad_userId = au_userId r, ad_actorRole = au_userRole r, ad_tenantId = au_tenantId r,
              ad_entity = None, ad_before = None, ad_after = None\<rparr> trail, handled))"

lemma maskedBody_alt:
  "maskedBody body = map (\<lambda>(k, v). (k, if k \<in> set sensitiveFields \<and> json_truthy v then Str ''********'' else v)) body"
  by (auto simp: maskedBody_def sensitiveFields_def mask_field_def)

lemma maskedBody_keys [simp]: "map fst (maskedBody body) = map fst body"
  by (simp add: maskedBody_alt case_prod_beta comp_def)

text \<open>
  The audit trail of requests: a row is added exactly for a successful request that changes state, under its method
  and address; the body in it has the same fields, every password, token and one-time code masked and every other
  field as sent.
\<close>
theorem audit_masks_credentials:
  assumes "audit_intercept False r (Inr v) trail = (trail', reply)" and "au_method r \<in> set sensitiveMethods"
  shows "reply = Inr v \<and> (\<exists>row body. trail' = trail @ [row] \<and> ad_action row = au_method r @ '' '' @ au_url r \<and>
     json_get ''body'' (ad_metadata row) = Obj body \<and> map fst body = map fst (au_body r) \<and>
     list_all (\<lambda>(k, v). if k \<in> set sensitiveFields then json_truthy v = (v = Str ''********'')
                        else (k, v) \<in> set (au_body r)) body)"
proof -
  let ?row = "\<lparr>ad_action = au_method r @ '' '' @ au_url r,
      ad_metadata = Obj [(''body'', Obj (maskedBody (au_body r))), (''ip'', au_ip r), (''userAgent'', au_userAgent r)],
      ad_userId = au_userId r, ad_actorRole = au_userRole r, ad_tenantId = au_tenantId r,
      ad_entity = None, ad_before = None, ad_after = None\<rparr>"
  have "reply = Inr v" and "trail' = trail @ [?row]"
    using assms by (auto simp: audit_intercept_def audit_log_def truthy_json_def)
  moreover have "json_get ''body'' (ad_metadata ?row) = Obj (maskedBody (au_body r))" by (simp add: json_get_def)
  moreover have "map fst (maskedBody (au_body r)) = map fst (au_body r)" by simp
  moreover have "list_all (\<lambda>(k, v). if k \<in> set sensitiveFields then json_truthy v = (v = Str ''********'')
      else (k, v) \<in> set (au_body r)) (maskedBody (au_body r))"
    by (auto simp: list_all_iff maskedBody_alt)
  ultimately show ?thesis by force
qed

definition sample_request :: audited_request where
  "sample_request = \<lparr>au_method = ''POST'', au_url = ''/auth/login'',
     au_body = [(''email'', Str ''a@b''), (''password'', Str ''pw'')], au_ip = Str ''::1'', au_userAgent = Null,
     au_userId = None, au_userRole = None, au_tenantId = None\<rparr>"

lemma audit_masks_credentials_witness:
  "\<exists>trail'. audit_intercept False sample_request (Inr () :: string + unit) [] = (trail', Inr ()) \<and>
     (\<exists>row body. trail' = [row] \<and> ad_action row = ''POST /auth/login'' \<and> json_get ''body'' (ad_metadata row) = Obj body \<and>
       map fst body = [''email'', ''password''])"
  using audit_masks_credentials [of sample_request "()" "[]" "fst (audit_intercept False sample_request (Inr () :: string + unit) [])" "Inr ()"]
  by (auto simp: sample_request_def audit_intercept_def sensitiveMethods_def)

text \<open>Only the outer fields are looked at, and only under these three names.\<close>

lemma nested_password_is_logged:
  "maskedBody [(''user'', Obj [(''password'', Str pw)]), (''newPassword'', Str pw)] =
     [(''user'', Obj [(''password'', Str pw)]), (''newPassword'', Str pw)]"
  by (simp add: maskedBody_def sensitiveFields_def mask_field_def)

lemma failed_request_is_not_audited: "audit_intercept fails r (Inl e) trail = (trail, Inl e)"
  by (simp add: audit_intercept_def)

text \<open>\<open>SystemEventService.log\<close>.\<close>

datatype system_event_type = PAYMENT_FAILED | LOCK_CONFLICT | LOCK_EXPIRED | WEBHOOK_REPLAY | REFUND_FAILED_EVENT
  | BOOKING_CANCELLED | BOOKING_REFUNDED | BOOKING_FAILED | REFUND_INITIATED_EVENT

record system_event =
  sy_eventType :: system_event_type
  sy_entityId :: "string option"
  sy_metadata :: json

definition system_event_log ::
  "bool \<Rightarrow> system_event_type \<Rightarrow> string option \<Rightarrow> json option \<Rightarrow> system_event list \<Rightarrow> system_event list" where
  "system_event_log fails eventType entityId metadata trail =
     (if fails then trail
      else trail @ [\<lparr>sy_eventType = eventType, sy_entityId = entityId,
                   sy_metadata = (case metadata of None \<Rightarrow> Null | Some m \<Rightarrow> m)\<rparr>])"

end
