(* ===== verification/Outgoing.thy ===== *)
theory Outgoing
  imports Responses
begin

text \<open>
  What leaves the process: monitoring (\<open>backend/src/monitoring/monitoring.module.ts\<close>), mails
  (\<open>notification/notification.service.ts\<close>, \<open>notification.processor.ts\<close>), metrics
  (\<open>metrics/metrics.controller.ts\<close>), the payment providers (\<open>payments/providers\<close>) and the socket adapter
  (\<open>common/adapters/redis-io.adapter.ts\<close>). Other services are parameters, output
  streams are lists; the characters of log texts outside ASCII (a dash, pictographs) are left out.
\<close>

section \<open>Monitoring\<close>

datatype extra_value = Text_extra "string option" | Texts_extra "string list" | Count_extra nat

record captured_error =
  ce_message :: string
  ce_extras :: "(string \<times> extra_value) list"

record monitor_state =
  mo_initialized :: bool
  mo_captured :: "captured_error list"
  mo_log :: "log_line list"

definition fresh_monitor :: monitor_state where
  "fresh_monitor = \<lparr>mo_initialized = False, mo_captured = [], mo_log = []\<rparr>"

definition mo_print :: "log_line \<Rightarrow> monitor_state \<Rightarrow> monitor_state" where
  "mo_print l m = m\<lparr>mo_log := mo_log m @ [l]\<rparr>"

text \<open>The import of the monitoring package: absent, started, or failing in its \<open>init\<close>.\<close>

datatype sentry = Sentry_missing | Sentry_started | Sentry_failing string

definition initialize :: "string option \<Rightarrow> sentry \<Rightarrow> monitor_state \<Rightarrow> monitor_state" where
  "initialize dsn package m =
     (if \<not> truthy dsn then mo_print (Log_warn ''SENTRY_DSN not configured - monitoring disabled'') m
      else case package of
             Sentry_missing \<Rightarrow> m
           | Sentry_started \<Rightarrow> mo_print (Log_info ''Sentry monitoring initialized'') (m\<lparr>mo_initialized := True\<rparr>)
           | Sentry_failing e \<Rightarrow> mo_print (Log_warn (''Sentry initialization failed: '' @ e)) m)"

definition captureError :: "string \<Rightarrow> (string \<times> extra_value) list \<Rightarrow> monitor_state \<Rightarrow> monitor_state" where
  "captureError message context m =
     (let m1 = mo_print (Log_error (''[MONITOR] '' @ message)) m
      in if mo_initialized m then m1\<lparr>mo_captured := mo_captured m1 @ [\<lparr>ce_message = message, ce_extras = context\<rparr>]\<rparr> else m1)"

text \<open>A template literal prints a missing tenant as \<open>undefined\<close>.\<close>

definition shown :: "string option \<Rightarrow> string" where
  "shown x = (case x of None \<Rightarrow> ''undefined'' | Some v \<Rightarrow> v)"

definition alertPaymentFailure :: "string \<Rightarrow> string \<Rightarrow> string option \<Rightarrow> monitor_state \<Rightarrow> monitor_state" where
  "alertPaymentFailure bookingId reason tenantId m =
     captureError (''Payment failure: '' @ reason)
       [(''bookingId'', Text_extra (Some bookingId)), (''tenantId'', Text_extra tenantId),
        (''category'', Text_extra (Some ''payment_failure''))]
       (mo_print (Log_error (''[PAYMENT FAILURE] bookingId='' @ bookingId @ '' reason='' @ reason @ '' tenantId='' @ shown tenantId)) m)"

definition alertSeatConflict :: "string \<Rightarrow> string list \<Rightarrow> string option \<Rightarrow> monitor_state \<Rightarrow> monitor_state" where
  "alertSeatConflict showId seatNumbers tenantId m =
     captureError (''Seat lock conflict: '' @ join_with '','' seatNumbers)
       [(''showId'', Text_extra (Some showId)), (''seatNumbers'', Texts_extra seatNumbers),
        (''tenantId'', Text_extra tenantId), (''category'', Text_extra (Some ''seat_conflict''))]
       (mo_print (Log_warn (''[SEAT CONFLICT] showId='' @ showId @ '' seats='' @ join_with '','' seatNumbers)) m)"

definition alertWebhookFailure :: "string \<Rightarrow> string \<Rightarrow> string \<Rightarrow> nat \<Rightarrow> monitor_state \<Rightarrow> monitor_state" where
  "alertWebhookFailure razorpayEventId bookingId err retryCount m =
     (let m1 = mo_print (Log_error (''[WEBHOOK FAILURE] eventId='' @ razorpayEventId @ '' booking='' @ bookingId @
                 '' retry='' @ show_nat retryCount @ '' error='' @ err)) m
      in if 3 \<le> retryCount
         then captureError (''Webhook dead-letter: '' @ err)
           [(''razorpayEventId'', Text_extra (Some razorpayEventId)), (''bookingId'', Text_extra (Some bookingId)),
            (''retryCount'', Count_extra retryCount), (''category'', Text_extra (Some ''webhook_dead_letter''))] m1
         else m1)"

definition alertRedisFailure :: "string \<Rightarrow> string \<Rightarrow> monitor_state \<Rightarrow> monitor_state" where
  "alertRedisFailure operation err m =
     captureError (''Redis failure: '' @ err)
       [(''operation'', Text_extra (Some operation)), (''category'', Text_extra (Some ''redis_failure''))]
       (mo_print (Log_error (''[REDIS FAILURE] operation='' @ operation @ '' error='' @ err)) m)"

lemma mo_print_simps [simp]:
  "mo_initialized (mo_print l m) = mo_initialized m" "mo_captured (mo_print l m) = mo_captured m"
  "mo_log (mo_print l m) = mo_log m @ [l]"
  by (simp_all add: mo_print_def)

lemma captureError_simps [simp]:
  "mo_initialized (captureError e x m) = mo_initialized m"
  "mo_captured (captureError e x m) = mo_captured m @ (if mo_initialized m then [\<lparr>ce_message = e, ce_extras = x\<rparr>] else [])"
  "mo_log (captureError e x m) = mo_log m @ [Log_error (''[MONITOR] '' @ e)]"
  by (simp_all add: captureError_def Let_def)

text \<open>A webhook failure is reported from the third retry on, and only when monitoring runs; it is logged always.\<close>

lemma webhook_alert_threshold:
  "length (mo_captured (alertWebhookFailure e b err n m)) =
     length (mo_captured m) + (if 3 \<le> n \<and> mo_initialized m then 1 else 0)"
  "length (mo_log (alertWebhookFailure e b err n m)) = length (mo_log m) + (if 3 \<le> n then 2 else 1)"
  by (simp_all add: alertWebhookFailure_def Let_def)

lemma unconfigured_monitor_reports_nothing:
  "mo_captured (alertPaymentFailure b r t (initialize None p fresh_monitor)) = []"
  by (simp add: alertPaymentFailure_def initialize_def fresh_monitor_def)

section \<open>Mails\<close>

record mail_job =
  mj_bookingId :: string
  mj_attempts :: nat
  mj_delay :: int

definition queueConfirmationEmail :: "string \<Rightarrow> mail_job list \<Rightarrow> mail_job list" where
  "queueConfirmationEmail bookingId q = q @ [\<lparr>mj_bookingId = bookingId, mj_attempts = 5, mj_delay = 5000\<rparr>]"

record mail =
  ma_from :: "string option"
  ma_to :: string
  ma_subject :: string
  ma_bookingId :: string

definition confirmation_mail :: "string option \<Rightarrow> string \<Rightarrow> mail" where
  "confirmation_mail sender bookingId =
     \<lparr>ma_from = sender, ma_to = ''test@starpass.dev'', ma_subject = ''Booking Confirmed - StarPass'', ma_bookingId = bookingId\<rparr>"

text \<open>One run of the job: \<open>send\<close> is the transport, \<open>None\<close> its success; an error is thrown again.\<close>

definition handleBookingConfirmation ::
  "(mail \<Rightarrow> string option) \<Rightarrow> string option \<Rightarrow> string \<Rightarrow> mail list \<Rightarrow> mail list \<times> string option" where
  "handleBookingConfirmation send sender bookingId sent =
     (let m = confirmation_mail sender bookingId
      in case send m of None \<Rightarrow> (sent @ [m], None) | Some e \<Rightarrow> (sent, Some e))"

text \<open>The queue runs a job up to its number of attempts, the transport answering each attempt anew; the delays
  before the retries double.\<close>

fun run_mail_job ::
  "(mail \<Rightarrow> string option) list \<Rightarrow> nat \<Rightarrow> int \<Rightarrow> string option \<Rightarrow> string \<Rightarrow> mail list \<Rightarrow> mail list \<times> int list" where
  "run_mail_job transports 0 delay sender bookingId sent = (sent, [])"
| "run_mail_job [] (Suc n) delay sender bookingId sent = (sent, [])"
| "run_mail_job (send # transports) (Suc n) delay sender bookingId sent =
     (case handleBookingConfirmation send sender bookingId sent of
        (sent', None) \<Rightarrow> (sent', [])
      | (sent', Some _) \<Rightarrow>
          if n = 0 then (sent', [])
          else (let (r, ds) = run_mail_job transports n (2 * delay) sender bookingId sent' in (r, delay # ds)))"

lemma mail_is_sent_at_most_once:
  "fst (run_mail_job ts n d f b sent) = sent \<or> fst (run_mail_job ts n d f b sent) = sent @ [confirmation_mail f b]"
  by (induction ts n d f b sent rule: run_mail_job.induct)
    (auto simp: handleBookingConfirmation_def Let_def split: option.splits prod.splits)

text \<open>A job is given up after five failing attempts; a transport that fails four times and then works gets it through.\<close>

lemma mail_retries:
  "run_mail_job (replicate 4 (\<lambda>_. Some e) @ [\<lambda>_. None]) 5 5000 f b [] =
     ([confirmation_mail f b], [5000, 10000, 20000, 40000])"
  "run_mail_job (replicate 5 (\<lambda>_. Some e) @ [\<lambda>_. None]) 5 5000 f b [] = ([], [5000, 10000, 20000, 40000])"
  by (simp_all add: numeral_eq_Suc handleBookingConfirmation_def Let_def)

text \<open>The receiver is a fixed address, whoever booked.\<close>

lemma mail_goes_to_fixed_address: "ma_to (confirmation_mail f b) = ''test@starpass.dev''"
  by (simp add: confirmation_mail_def)

section \<open>Metrics\<close>

definition is_word_char :: "char \<Rightarrow> bool" where
  "is_word_char c \<longleftrightarrow> is_digit c \<or> (65 \<le> (of_char c :: nat) \<and> (of_char c :: nat) \<le> 90)
     \<or> (97 \<le> (of_char c :: nat) \<and> (of_char c :: nat) \<le> 122) \<or> c = CHR ''_''"

text \<open>The first match of a prefix followed by what \<open>m\<close> recognises.\<close>

fun match_after :: "string \<Rightarrow> (string \<Rightarrow> string option) \<Rightarrow> string \<Rightarrow> string option" where
  "match_after p m [] = (if p = [] then m [] else None)"
| "match_after p m (c # s) =
     (case (if take (length p) (c # s) = p then m (drop (length p) (c # s)) else None) of
        Some v \<Rightarrow> Some v | None \<Rightarrow> match_after p m s)"

definition match_digits :: "string \<Rightarrow> string option" where
  "match_digits s = (let d = takeWhile is_digit s in if d = [] then None else Some d)"

definition match_dotted :: "string \<Rightarrow> string option" where
  "match_dotted s =
     (let a = takeWhile is_word_char s; r = dropWhile is_word_char s
      in case r of
           [] \<Rightarrow> None
         | c # t \<Rightarrow> let b = takeWhile is_word_char t
             in if a = [] \<or> c \<noteq> CHR ''.'' \<or> b = [] then None else Some (a @ [c] @ b))"

record extended_metrics =
  em_active_connections :: int
  em_pool_mode :: string
  em_used_memory :: string
  em_connected_clients :: "int option"
  em_timestamp :: int

text \<open>\<open>None\<close> for the number of clients is the \<open>NaN\<close> of a text that is no number.\<close>

definition getExtendedMetrics :: "int option \<Rightarrow> string \<Rightarrow> int \<Rightarrow> extended_metrics" where
  "getExtendedMetrics activeConnections redisInfo now =
     \<lparr>em_active_connections = (case activeConnections of None \<Rightarrow> 0 | Some n \<Rightarrow> n),
      em_pool_mode = ''transaction (via pgbouncer)'',
      em_used_memory = or_text (match_after ''used_memory_human:'' match_dotted redisInfo) ''unknown'',
      em_connected_clients = map_option read_digits (match_after ''connected_clients:'' match_digits redisInfo),
      em_timestamp = now\<rparr>"

lemma is_word_digit: "is_digit c \<Longrightarrow> is_word_char c"
  by (simp add: is_word_char_def)

text \<open>The number of clients is read back from the text Redis prints, wherever the line stands first.\<close>

lemma match_here: "m s \<noteq> None \<Longrightarrow> match_after p m (p @ s) = m s"
proof (cases "p @ s")
  case (Cons a t)
  then have "take (length p) (a # t) = p" "drop (length p) (a # t) = s" by (simp_all flip: Cons)
  then show "m s \<noteq> None \<Longrightarrow> ?thesis" unfolding Cons by auto
qed auto

lemma clients_are_read:
  assumes "0 \<le> n" and "r = [] \<or> \<not> is_digit (hd r)"
  shows "em_connected_clients (getExtendedMetrics a (''connected_clients:'' @ show_digits n @ r) now) = Some n"
proof -
  have "match_digits (show_digits n @ r) = Some (show_digits n)"
    using assms show_digits_digits [of n] show_digits_nonempty [of n]
    by (cases r) (auto simp: match_digits_def takeWhile_append2 takeWhile_eq_all_conv [THEN iffD2] Let_def)
  then show ?thesis using match_here [of match_digits "show_digits n @ r" "''connected_clients:''"] assms(1)
    by (simp add: getExtendedMetrics_def read_show_digits del: match_after.simps)
qed

section \<open>Payment providers\<close>

record provider_keys =
  pk_keyId :: "string option"
  pk_keySecret :: string

definition razorpay_provider :: "string option \<Rightarrow> string option \<Rightarrow> provider_keys outcome" where
  "razorpay_provider keyId keySecret =
     (if \<not> truthy keyId \<or> \<not> truthy keySecret then Inl (Internal ''Razorpay configuration missing'')
      else Inr \<lparr>pk_keyId = keyId, pk_keySecret = or_text keySecret []\<rparr>)"

record order_options =
  oo_amount :: int
  oo_currency :: string
  oo_receipt :: string

definition razorpay_createOrder :: "(order_options \<Rightarrow> string outcome) \<Rightarrow> rat \<Rightarrow> string \<Rightarrow> string \<Rightarrow> string outcome" where
  "razorpay_createOrder create amount currency receipt =
     (case create \<lparr>oo_amount = half_up (d_mul amount 100), oo_currency = currency, oo_receipt = receipt\<rparr> of
        Inl _ \<Rightarrow> Inl (Internal ''Payment processing failed'')
      | Inr orderId \<Rightarrow> Inr orderId)"

text \<open>A hash function that throws makes the answer false.\<close>

definition razorpay_verifyPayment ::
  "(string \<Rightarrow> string \<Rightarrow> string option) \<Rightarrow> provider_keys \<Rightarrow> string \<Rightarrow> string \<Rightarrow> string \<Rightarrow> bool" where
  "razorpay_verifyPayment hmac k orderId paymentId signature =
     (case hmac (pk_keySecret k) (orderId @ ''|'' @ paymentId) of None \<Rightarrow> False | Some g \<Rightarrow> g = signature)"

definition mock_createOrder :: "string \<Rightarrow> rat \<Rightarrow> string \<Rightarrow> string \<Rightarrow> string outcome" where
  "mock_createOrder uuid amount currency receipt = Inr (''mock_'' @ uuid)"

definition mock_verifyPayment :: "string \<Rightarrow> string \<Rightarrow> string \<Rightarrow> bool" where
  "mock_verifyPayment orderId paymentId signature = True"

text \<open>The signed text joins the ids with a bar: ids that hold one can be shifted under the same signature.\<close>

lemma signature_is_ambiguous:
  "razorpay_verifyPayment hmac k (a @ ''|'' @ b) c = razorpay_verifyPayment hmac k a (b @ ''|'' @ c)"
  by (rule ext) (simp add: razorpay_verifyPayment_def)

lemma verified_payment_is_signed:
  "razorpay_verifyPayment hmac k o1 p g \<longleftrightarrow> hmac (pk_keySecret k) (o1 @ ''|'' @ p) = Some g"
  by (auto simp: razorpay_verifyPayment_def split: option.split)

section \<open>The socket adapter\<close>

record socket_adapter =
  sa_redis :: bool
  sa_log :: "log_line list"

text \<open>\<open>connect\<close> is the first failure of the two connections, if any. In production a failure is thrown.\<close>

definition connectToRedis :: "string option \<Rightarrow> string option \<Rightarrow> string option \<Rightarrow> socket_adapter \<Rightarrow> socket_adapter outcome" where
  "connectToRedis redisUrl nodeEnv connect a =
     (case connect of
        None \<Rightarrow> Inr (a\<lparr>sa_redis := True,
                     sa_log := sa_log a @ [Log_info (''Socket.IO Redis adapter connected: '' @ or_text redisUrl ''redis://127.0.0.1:6379'')]\<rparr>)
      | Some err \<Rightarrow>
          if nodeEnv = Some ''production'' then Inl (Internal err)
          else Inr (a\<lparr>sa_redis := False, sa_log := sa_log a @ [Log_warn (''Redis unavailable ('' @ err @
                   ''). Socket.IO running with in-memory adapter - single process only. Start Redis to enable cross-instance pub/sub.'')]\<rparr>))"

record io_server =
  io_origin :: string
  io_path :: string
  io_shared :: bool

definition createIOServer :: "string option \<Rightarrow> string option \<Rightarrow> socket_adapter \<Rightarrow> io_server \<times> log_line list" where
  "createIOServer frontendUrl path a =
     (\<lparr>io_origin = or_text frontendUrl ''http://localhost:3000'', io_path = or_text path ''/socket.io'', io_shared = sa_redis a\<rparr>,
      if sa_redis a then [] else [Log_warn (''Socket.IO using default in-memory adapter (Redis unavailable). '' @
        ''WebSocket events will not be broadcast across multiple server instances.'')])"

text \<open>In production no server is created over the in-memory adapter after a connection attempt.\<close>

lemma production_server_is_shared:
  assumes "connectToRedis url (Some ''production'') connect a = Inr a'"
  shows "io_shared (fst (createIOServer f p a')) \<and> connect = None"
  using assms by (auto simp: connectToRedis_def createIOServer_def split: option.splits)

end
