(* ===== verification/Routes.thy ===== *)
theory Routes
  imports Texts
begin

text \<open>
  Who answers a request: the routes every controller of the backend declares (\<open>@Controller\<close>, \<open>@Get\<close>, \<open>@UseGuards\<close>,
  the service operation the handler calls and where its arguments come from), the modules that mount controllers
  (\<open>backend/src/**/*.module.ts\<close>, \<open>app.module.ts\<close>), the request pipeline (global prefix and validation of
  \<open>main.ts\<close>, then guards), and the calls the frontend makes (\<open>frontend/src/**/api\<close>).
\<close>

section \<open>Paths\<close>

datatype http_verb = HTTP_GET | HTTP_POST | HTTP_PATCH | HTTP_DELETE

datatype segment = Lit string | Param string

definition segment_of :: "string \<Rightarrow> segment" where
  "segment_of s = (case s of [] \<Rightarrow> Lit [] | c # n \<Rightarrow> if c = CHR '':'' then Param n else Lit s)"

definition pattern_of :: "string \<Rightarrow> segment list" where
  "pattern_of p = map segment_of (filter (\<lambda>s. s \<noteq> []) (split_on (CHR ''/'') p))"

definition path_of :: "string \<Rightarrow> string list" where
  "path_of p = filter (\<lambda>s. s \<noteq> []) (split_on (CHR ''/'') p)"

fun segment_matches :: "segment \<Rightarrow> string \<Rightarrow> bool" where
  "segment_matches (Lit a) s \<longleftrightarrow> s = a"
| "segment_matches (Param _) s \<longleftrightarrow> True"

definition path_matches :: "segment list \<Rightarrow> string list \<Rightarrow> bool" where
  "path_matches pat path \<longleftrightarrow> list_all2 segment_matches pat path"

section \<open>Routes\<close>

text \<open>The roles of \<open>RolesGuard\<close> and \<open>RoleGuard\<close> come from \<open>@Roles\<close>.\<close>

datatype route_guard = JwtAuthGuard | TenantGuard | OptionalJwtAuthGuard | RolesGuard "string list" | RoleGuard "string list"
  | ThrottlerGuard | ScanAuthGuard | DeviceJwtAuthGuard

text \<open>Where a handler takes an argument of the service operation from.\<close>

datatype arg = From_param string | From_query string | From_body string | Whole_body | Whole_query
  | From_user string | Whole_user | From_tenant string | Whole_tenant | Request_tenantId | Raw_body | From_header string
  | Request_ip | Int_query string int | Date_body string | Const string | Or_else arg arg | If_device arg arg | Reply

record route =
  ro_verb :: http_verb
  ro_path :: string
  ro_guards :: "route_guard list"
  ro_status :: nat
  ro_dto :: "(string \<times> bool) list option"
  ro_calls :: string
  ro_args :: "arg list"

definition rt :: "http_verb \<Rightarrow> string \<Rightarrow> route_guard list \<Rightarrow> string \<Rightarrow> arg list \<Rightarrow> route" where
  "rt verb path guards calls args = \<lparr>ro_verb = verb, ro_path = path, ro_guards = guards,
     ro_status = (if verb = HTTP_POST then 201 else 200), ro_dto = None, ro_calls = calls, ro_args = args\<rparr>"

text \<open>The fields of a validated body and whether they are required.\<close>

definition with_body :: "(string \<times> bool) list \<Rightarrow> route \<Rightarrow> route" where
  "with_body dto r = r\<lparr>ro_dto := Some dto\<rparr>"

definition with_status :: "nat \<Rightarrow> route \<Rightarrow> route" where
  "with_status n r = r\<lparr>ro_status := n\<rparr>"

definition login_fields :: "(string \<times> bool) list" where
  "login_fields = [(''email'', True), (''password'', True)]"

definition register_fields :: "(string \<times> bool) list" where
  "register_fields = [(''email'', True), (''name'', True), (''password'', True)]"

definition initiateBooking_fields :: "(string \<times> bool) list" where
  "initiateBooking_fields = [(''eventId'', True), (''seatIds'', True), (''amount'', True), (''currency'', False)]"

definition verifyTicket_fields :: "(string \<times> bool) list" where
  "verifyTicket_fields = [(''ticketCode'', True)]"

definition createEvent_fields :: "(string \<times> bool) list" where
  "createEvent_fields = [(''name'', True), (''startsAt'', True), (''totalSeats'', True), (''seatStartNumber'', False)]"

definition lockSeat_fields :: "(string \<times> bool) list" where
  "lockSeat_fields = [(''eventId'', True), (''seatId'', True)]"

definition unlockSeat_fields :: "(string \<times> bool) list" where
  "unlockSeat_fields = [(''eventId'', True), (''seatId'', True)]"

definition createTenant_fields :: "(string \<times> bool) list" where
  "createTenant_fields = [(''slug'', True), (''name'', False)]"

subsection \<open>The controllers the application mounts\<close>

definition AuthController :: "route list" where
  "AuthController =
     [with_body register_fields (rt HTTP_POST ''auth/register'' [] ''authService.register'' [Whole_body]),
      with_body login_fields (rt HTTP_POST ''auth/login'' [] ''authService.login'' [Whole_body])]"

definition BookingsController :: "route list" where
  "BookingsController =
     [with_body initiateBooking_fields (rt HTTP_POST ''bookings/initiate'' [JwtAuthGuard, TenantGuard]
        ''bookingsService.initiateBooking'' [Whole_tenant, From_user ''id'', Whole_body]),
      rt HTTP_GET ''bookings/me'' [JwtAuthGuard, TenantGuard]
        ''bookingsService.listMyBookings'' [From_tenant ''id'', From_user ''id''],
      rt HTTP_GET ''bookings/:bookingId/ticket'' [JwtAuthGuard, TenantGuard]
        ''bookingsService.getTicketByBookingId'' [From_tenant ''id'', From_param ''bookingId'', From_user ''id''],
      with_body verifyTicket_fields (rt HTTP_POST ''bookings/verify-ticket'' [TenantGuard]
        ''bookingsService.verifyTicket'' [From_tenant ''id'', Whole_body])]"

definition SeatLocksController :: "route list" where
  "SeatLocksController =
     [with_body lockSeat_fields (rt HTTP_POST ''seat-locks'' [JwtAuthGuard, TenantGuard]
        ''seatLocksService.lockSeat'' [From_tenant ''slug'', From_body ''eventId'', From_body ''seatId'', From_user ''id'']),
      with_body unlockSeat_fields (rt HTTP_DELETE ''seat-locks'' [JwtAuthGuard, TenantGuard]
        ''seatLocksService.unlockSeat'' [From_tenant ''slug'', From_body ''eventId'', From_body ''seatId'', From_user ''id''])]"

definition EventsController :: "route list" where
  "EventsController =
     [with_body createEvent_fields (rt HTTP_POST ''events'' [JwtAuthGuard, TenantGuard]
        ''eventsService.createEvent'' [From_tenant ''id'', Whole_body]),
      rt HTTP_GET ''events'' [TenantGuard] ''eventsService.listEvents'' [From_tenant ''id''],
      rt HTTP_GET ''events/:eventId/seats'' [OptionalJwtAuthGuard, TenantGuard]
        ''eventsService.getSeatMap'' [From_tenant ''id'', From_tenant ''slug'', From_param ''eventId'', From_user ''id'']]"

definition TenantsController :: "route list" where
  "TenantsController =
     [with_body createTenant_fields (rt HTTP_POST ''tenants'' [] ''tenantsService.create'' [Whole_body]),
      rt HTTP_GET ''tenants/:slug'' [] ''tenantsService.getBySlug'' [From_param ''slug'']]"

definition PaymentsController :: "route list" where
  "PaymentsController =
     [with_status 200 (rt HTTP_POST ''payments/webhook'' [] ''bookingsService.processPaymentWebhook''
        [Or_else Raw_body (Const []), From_header ''x-razorpay-signature'', From_header ''x-razorpay-event-id'', Whole_body])]"

definition HealthController :: "route list" where
  "HealthController = [rt HTTP_GET ''health'' [] ''health'' []]"

subsection \<open>The other controllers\<close>

definition AdminController :: "route list" where
  "AdminController =
     (let g = [JwtAuthGuard, RolesGuard [''ADMIN'']]
      in [rt HTTP_GET ''admin/stats'' g ''adminService.getAnalyticsOverview'' [From_tenant ''id''],
          rt HTTP_GET ''admin/summary'' g ''adminService.getAnalyticsOverview'' [From_tenant ''id''],
          rt HTTP_GET ''admin/analytics/overview'' g ''adminService.getAnalyticsOverview'' [From_tenant ''id''],
          rt HTTP_GET ''admin/events'' g ''adminService.getAllEvents'' [],
          rt HTTP_POST ''admin/events'' g ''adminService.createEvent'' [Whole_body, From_tenant ''id''],
          rt HTTP_POST ''admin/bookings/:id/refund'' g ''paymentService.refundPayment'' [From_param ''id''],
          rt HTTP_GET ''admin/bookings'' g ''adminService.getBookings'' [From_query ''status''],
          rt HTTP_GET ''admin/shows'' g ''adminService.getShows''
            [Int_query ''limit'' 10, From_query ''cursor'', From_query ''search'', From_query ''startDate'', From_query ''endDate''],
          rt HTTP_POST ''admin/shows'' g ''adminService.createShow''
            [From_body ''eventId'', From_body ''screenId'', Date_body ''startTime'', From_body ''basePrice'', From_tenant ''id''],
          rt HTTP_GET ''admin/theaters'' g ''adminService.getTheaters'' [],
          rt HTTP_GET ''admin/theaters/:id/screens'' g ''adminService.getScreens'' [From_param ''id'']])"

definition MonetizationController :: "route list" where
  "MonetizationController =
     [rt HTTP_PATCH ''tenants/:tenantId/monetization'' [JwtAuthGuard, RolesGuard [''SUPER_ADMIN'']]
        ''adminService.updateMonetization'' [From_param ''tenantId'', Whole_body, From_user ''sub'']]"

definition AnalyticsController :: "route list" where
  "AnalyticsController =
     (let g = (\<lambda>roles. [JwtAuthGuard, RolesGuard roles]); ta = [''TENANT_ADMIN'', ''SUPER_ADMIN''];
          tenant = Or_else Request_tenantId (Const []); range = [From_query ''from'', From_query ''to'']
      in [rt HTTP_GET ''analytics/revenue-summary'' (g ta) ''analyticsService.getTheaterRevenueSummary'' (tenant # range),
          rt HTTP_GET ''analytics/show/:showId'' (g ta) ''analyticsService.getShowAnalytics'' [From_param ''showId'', tenant],
          rt HTTP_GET ''analytics/funnel'' (g ta) ''analyticsService.getBookingFunnelMetrics'' (tenant # range),
          rt HTTP_GET ''analytics/daily-revenue'' (g ta) ''analyticsService.getDailyRevenueTimeSeries'' (tenant # range),
          rt HTTP_GET ''analytics/settlement'' (g ta) ''analyticsService.getSettlementAnalytics'' (From_query ''tenantId'' # range),
          rt HTTP_GET ''analytics/platform-summary'' (g [''SUPER_ADMIN'']) ''analyticsService.getPlatformSummary''
            (From_user ''role'' # range),
          rt HTTP_GET ''analytics/export'' (g ta) ''analyticsService.exportRevenueCsvStream'' (tenant # Reply # range)])"

definition DevicesController :: "route list" where
  "DevicesController =
     (let g = [JwtAuthGuard, RolesGuard [''TENANT_ADMIN'', ''SUPER_ADMIN'']]
      in [rt HTTP_POST ''devices/register'' g ''devicesService.registerDevice'' [From_body ''name'', From_body ''tenantId''],
          rt HTTP_POST ''devices/authenticate'' [] ''devicesService.authenticateDevice'' [From_body ''deviceId'', From_body ''deviceKey''],
          rt HTTP_POST ''devices/sync-scans'' [DeviceJwtAuthGuard] ''devicesService.syncOfflineScans''
            [From_user ''deviceId'', From_user ''tenantId'', From_body ''scans''],
          rt HTTP_PATCH ''devices/:id/deactivate'' g ''devicesService.deactivateDevice'' [From_param ''id'', From_body ''tenantId'']])"

definition DiscountController :: "route list" where
  "DiscountController =
     [with_status 200 (rt HTTP_POST ''discounts/apply'' [JwtAuthGuard] ''discountService.applyDiscounts''
        [From_body ''bookingId'', From_body ''couponCode'', From_body ''giftCardCode''])]"

definition PlatformController :: "route list" where
  "PlatformController =
     (let g = [JwtAuthGuard, RolesGuard [''SUPER_ADMIN'']]
      in [rt HTTP_GET ''platform/tenants'' g ''platformService.getAllTenants'' [],
          rt HTTP_GET ''platform/tenants/:id'' g ''platformService.getTenantById'' [From_param ''id''],
          rt HTTP_PATCH ''platform/tenants/:id/status'' g ''platformService.updateTenantStatus'' [From_param ''id'', From_body ''status''],
          rt HTTP_PATCH ''platform/tenants/:id/plan'' g ''platformService.updateTenantPlan''
            [From_param ''id'', From_body ''plan'', From_body ''bookingLimit''],
          rt HTTP_GET ''platform/analytics'' g ''platformService.getGlobalStats'' [],
          rt HTTP_GET ''platform/audit-logs'' g ''platformService.getAuditLogs''
            [From_query ''tenantId'', From_query ''role'', From_query ''from'', From_query ''to''],
          rt HTTP_GET ''platform/tenants/:id/health'' g ''platformService.getTenantHealth'' [From_param ''id'']])"

text \<open>Its \<open>calculate\<close> looks the price up when the query has none or zero.\<close>

definition PricingController :: "route list" where
  "PricingController =
     [rt HTTP_GET ''pricing/:showId'' [] ''pricingService.getDynamicPrices'' [From_param ''showId''],
      rt HTTP_GET ''pricing/:showId/calculate'' [] ''pricingService.calculateTotal''
        [Or_else (From_query ''price'') (From_param ''showId''), From_query ''qty'']]"

definition RecommendationController :: "route list" where
  "RecommendationController =
     [rt HTTP_GET ''recommendations'' [JwtAuthGuard] ''recommendationService.getRecommendations'' [From_user ''id'']]"

definition TheaterOnboardingController :: "route list" where
  "TheaterOnboardingController =
     (let g = [JwtAuthGuard, RoleGuard [''SUPER_ADMIN'']]
      in [rt HTTP_POST ''theater/apply'' [ThrottlerGuard] ''onboardingService.apply'' [Whole_body],
          rt HTTP_GET ''superadmin/theater-applications'' g ''onboardingService.getApplications''
            [From_query ''status'', Int_query ''skip'' 0, Int_query ''take'' 10],
          rt HTTP_PATCH ''superadmin/theater-applications/:id/review'' g ''onboardingService.reviewApplication''
            [From_param ''id'', From_user ''id'', Whole_body]])"

definition TicketsController :: "route list" where
  "TicketsController =
     [rt HTTP_POST ''tickets/scan'' [ScanAuthGuard, RolesGuard [''STAFF'', ''TENANT_ADMIN'', ''SUPER_ADMIN'', ''SCANNER_DEVICE'']]
        ''ticketsService.scanTicket''
        [From_body ''qrToken'', If_device (From_user ''deviceId'') (From_user ''userId''),
         If_device (From_user ''tenantId'') (Or_else (From_tenant ''id'') (Const [])),
         If_device (From_user ''deviceId'') (Or_else (From_body ''deviceId'') Request_ip),
         If_device (Const ''DEVICE'') (Const ''STAFF'')],
      rt HTTP_GET ''tickets/booking/:bookingId'' [JwtAuthGuard, RolesGuard [''USER'', ''STAFF'', ''TENANT_ADMIN'', ''SUPER_ADMIN'']]
        ''ticketsService.getTicketsForBooking'' [From_param ''bookingId'', Or_else Request_tenantId (Const [])]]"

definition ValidationController :: "route list" where
  "ValidationController =
     (let g = [JwtAuthGuard, RolesGuard [''ADMIN'']]
      in [rt HTTP_POST ''validate-ticket'' g ''validationService.validateTicket'' [From_body ''bookingId'', From_body ''qrToken'', From_user ''id''],
          rt HTTP_GET ''admin/scan-logs'' g ''validationService.getScanLogs'' []])"

definition WishlistController :: "route list" where
  "WishlistController =
     [rt HTTP_POST ''wishlist/:eventId'' [JwtAuthGuard] ''wishlistService.addToWishlist'' [From_user ''id'', From_param ''eventId''],
      rt HTTP_DELETE ''wishlist/:eventId'' [JwtAuthGuard] ''wishlistService.removeFromWishlist'' [From_user ''id'', From_param ''eventId''],
      rt HTTP_GET ''wishlist/my'' [JwtAuthGuard] ''wishlistService.getUserWishlist'' [From_user ''id'']]"

definition ShowController :: "route list" where
  "ShowController =
     [rt HTTP_GET ''shows/:id/seats'' [] ''bookingService.getSeats'' [From_param ''id''],
      rt HTTP_POST ''shows/:id/lock-seats'' [JwtAuthGuard] ''bookingService.lockSeats''
        [From_param ''id'', From_body ''seatIds'', From_user ''id'', From_user ''tenantId'']]"

text \<open>The second controller of this name, in \<open>bookings\<close>; no module declares it.\<close>

definition BookingsShowController :: "route list" where
  "BookingsShowController =
     (let g = [JwtAuthGuard, JwtAuthGuard, RolesGuard [''ADMIN'']]
      in [rt HTTP_POST ''shows/:id/lock-seats'' [JwtAuthGuard] ''bookingService.lockSeats''
            [From_param ''id'', From_body ''seatNumbers'', From_user ''id'', From_user ''tenantId''],
          rt HTTP_POST ''shows/:id/lock-ga'' [JwtAuthGuard] ''bookingService.lockGeneralAdmission''
            [From_user ''id'', From_param ''id'', From_body ''qty''],
          rt HTTP_GET ''shows/:id/seats'' [JwtAuthGuard] ''bookingService.getSeats'' [From_param ''id''],
          rt HTTP_POST ''shows'' g ''bookingService.createShow'' [Whole_body],
          rt HTTP_POST ''shows/:id/delete'' g ''bookingService.deleteShow'' [From_param ''id'']])"

definition PaymentWebhookController :: "route list" where
  "PaymentWebhookController =
     [with_status 200 (rt HTTP_POST ''payment/webhook'' [] ''handleWebhook'' [From_header ''x-razorpay-signature'', Raw_body])]"

definition MetricsController :: "route list" where
  "MetricsController = [rt HTTP_GET ''metrics/extended'' [] ''getExtendedMetrics'' []]"

definition DebugController :: "route list" where
  "DebugController =
     [rt HTTP_GET ''debug/ping'' [] ''getPing'' [], rt HTTP_GET ''debug/config'' [] ''getConfig'' [],
      rt HTTP_POST ''debug/log'' [] ''log'' [From_body ''type'', From_body ''args''],
      rt HTTP_POST ''debug/ensure-availability'' [] ''eventService.ensureTestEventAvailability'' []]"

end
