(* ===== verification/Serving.thy ===== *)
theory Serving
  imports Base Routes
begin

text \<open>
  The running application: which routes it mounts (\<open>backend/src/app.module.ts\<close> and the modules it imports), how a
  request is answered (\<open>main.ts\<close>: prefix, guards, validation), and what the calls of the frontend meet.
\<close>

section \<open>Modules\<close>

text \<open>The modules of the repository; the imports named \<open>External\<close> are packages, or files the repository does not have.\<close>

datatype nest_module = AppModule | PrismaModule | RedisModule | QueueModule | RealtimeModule | AuthModule | TenantsModule
  | EventsModule | SeatLocksModule | BookingsModule | PaymentsModule | WorkersModule | AdminModule | AnalyticsModule
  | AuditModule | LoggerModule | DevicesModule | DiscountModule | HealthModule | MetricsModule | MonitoringModule
  | NotificationModule | PlatformModule | PricingModule | RecommendationModule | ShowModule | TheaterOnboardingModule
  | TicketsModule | ValidationModule | WebsocketModule | WishlistModule | External string

fun module_imports :: "nest_module \<Rightarrow> nest_module list" where
  "module_imports AppModule = [External ''ConfigModule'', PrismaModule, RedisModule, QueueModule, RealtimeModule, AuthModule,
     TenantsModule, EventsModule, SeatLocksModule, BookingsModule, PaymentsModule, WorkersModule]"
| "module_imports QueueModule = [External ''BullModule'']"
| "module_imports AuthModule = [External ''PassportModule'', External ''JwtModule'']"
| "module_imports EventsModule = [SeatLocksModule]"
| "module_imports SeatLocksModule = [QueueModule]"
| "module_imports BookingsModule = [QueueModule, SeatLocksModule]"
| "module_imports PaymentsModule = [BookingsModule]"
| "module_imports WorkersModule = [SeatLocksModule, BookingsModule]"
| "module_imports AdminModule = [PricingModule, AuthModule, External ''ConfigModule'', External ''PaymentModule'']"
| "module_imports AnalyticsModule = [PrismaModule]"
| "module_imports LoggerModule = [External ''WinstonModule'']"
| "module_imports DevicesModule = [External ''ConfigModule'', PrismaModule, External ''PassportModule'', External ''JwtModule'']"
| "module_imports DiscountModule = [PrismaModule]"
| "module_imports HealthModule = [External ''TerminusModule'', PrismaModule]"
| "module_imports NotificationModule = [External ''BullModule'']"
| "module_imports PlatformModule = [External ''BullModule'', External ''PaymentModule'']"
| "module_imports PricingModule = [PrismaModule, External ''ConfigModule'']"
| "module_imports RecommendationModule = [LoggerModule]"
| "module_imports ShowModule = [External ''BookingModule'']"
| "module_imports TheaterOnboardingModule = [PrismaModule, AuthModule]"
| "module_imports TicketsModule = [PrismaModule, DevicesModule]"
| "module_imports ValidationModule = [LoggerModule, AuditModule]"
| "module_imports WebsocketModule = [LoggerModule]"
| "module_imports _ = []"

fun module_routes :: "nest_module \<Rightarrow> route list" where
  "module_routes AppModule = HealthController"
| "module_routes AuthModule = AuthController"
| "module_routes TenantsModule = TenantsController"
| "module_routes EventsModule = EventsController"
| "module_routes SeatLocksModule = SeatLocksController"
| "module_routes BookingsModule = BookingsController"
| "module_routes PaymentsModule = PaymentsController"
| "module_routes AdminModule = AdminController @ MonetizationController"
| "module_routes AnalyticsModule = AnalyticsController"
| "module_routes DevicesModule = DevicesController"
| "module_routes DiscountModule = DiscountController"
| "module_routes HealthModule = HealthController"
| "module_routes MetricsModule = MetricsController"
| "module_routes PlatformModule = PlatformController"
| "module_routes PricingModule = PricingController"
| "module_routes RecommendationModule = RecommendationController"
| "module_routes ShowModule = ShowController"
| "module_routes TheaterOnboardingModule = TheaterOnboardingController"
| "module_routes TicketsModule = TicketsController"
| "module_routes ValidationModule = ValidationController"
| "module_routes WishlistModule = WishlistController"
| "module_routes _ = []"

text \<open>The scan of the module graph: every module once, its imports before what was waiting.\<close>

fun scan_modules :: "nat \<Rightarrow> nest_module list \<Rightarrow> nest_module list \<Rightarrow> nest_module list" where
  "scan_modules 0 todo seen = seen"
| "scan_modules (Suc n) [] seen = seen"
| "scan_modules (Suc n) (m # todo) seen =
     (if m \<in> set seen then scan_modules n todo seen else scan_modules n (module_imports m @ todo) (seen @ [m]))"

definition loaded_modules :: "nest_module list" where
  "loaded_modules = scan_modules 100 [AppModule] []"

definition mounted :: "route list" where
  "mounted = concat (map module_routes loaded_modules)"

lemma loaded_modules_value:
  "loaded_modules = [AppModule, External ''ConfigModule'', PrismaModule, RedisModule, QueueModule, External ''BullModule'',
     RealtimeModule, AuthModule, External ''PassportModule'', External ''JwtModule'', TenantsModule, EventsModule,
     SeatLocksModule, BookingsModule, PaymentsModule, WorkersModule]"
  by (simp add: loaded_modules_def numeral_eq_Suc)

lemma mounted_value:
  "mounted = HealthController @ AuthController @ TenantsController @ EventsController @ SeatLocksController @
     BookingsController @ PaymentsController"
  by (simp add: mounted_def loaded_modules_value)

lemma scanned_are_imported:
  "(\<forall>m \<in> set todo \<union> set seen. (AppModule, m) \<in> {(a, b). b \<in> set (module_imports a)}\<^sup>*) \<Longrightarrow>
   m \<in> set (scan_modules n todo seen) \<Longrightarrow> (AppModule, m) \<in> {(a, b). b \<in> set (module_imports a)}\<^sup>*"
  by (induction n todo seen rule: scan_modules.induct) (auto split: if_splits intro: rtrancl_into_rtrancl)

text \<open>The scan finds exactly the modules imported from \<open>AppModule\<close>, directly or through others.\<close>

lemma loaded_modules_exact:
  "set loaded_modules = {m. (AppModule, m) \<in> {(a, b). b \<in> set (module_imports a)}\<^sup>*}"
proof
  show "set loaded_modules \<subseteq> {m. (AppModule, m) \<in> {(a, b). b \<in> set (module_imports a)}\<^sup>*}"
    using scanned_are_imported [of "[AppModule]" "[]"] by (auto simp: loaded_modules_def)
  have "m \<in> set loaded_modules" if "(AppModule, m) \<in> {(a, b). b \<in> set (module_imports a)}\<^sup>*" for m
    using that by (induction rule: rtrancl_induct) (auto simp: loaded_modules_value)
  then show "{m. (AppModule, m) \<in> {(a, b). b \<in> set (module_imports a)}\<^sup>*} \<subseteq> set loaded_modules" by blast
qed

section \<open>Answering a request\<close>

text \<open>The path is split at its slashes; the user is that of the verified token; of the body only the names of its
  fields matter here.\<close>

record web_request =
  wr_verb :: http_verb
  wr_path :: "string list"
  wr_user :: "string option"
  wr_tenantHeader :: "string option"
  wr_body :: "string list"

datatype answer = No_route | Refused http_error | Called route

text \<open>Guards in their order; \<open>other\<close> decides for those no mounted route uses.\<close>

definition run_guard ::
  "(route_guard \<Rightarrow> web_request \<Rightarrow> http_error option) \<Rightarrow> (string \<Rightarrow> string option) \<Rightarrow> web_request \<Rightarrow> route_guard \<Rightarrow> http_error option" where
  "run_guard other tenants q g =
     (case g of
        JwtAuthGuard \<Rightarrow> if wr_user q = None then Some (Unauthorized ''Unauthorized'') else None
      | TenantGuard \<Rightarrow>
          if \<not> truthy (wr_tenantHeader q) then Some (BadRequest ''x-tenant-slug header is required'')
          else if tenants (the (wr_tenantHeader q)) = None then Some (NotFound ''Tenant not found'') else None
      | OptionalJwtAuthGuard \<Rightarrow> None
      | _ \<Rightarrow> other g q)"

fun first_error :: "('g \<Rightarrow> http_error option) \<Rightarrow> 'g list \<Rightarrow> http_error option" where
  "first_error f [] = None"
| "first_error f (g # gs) = (case f g of Some e \<Rightarrow> Some e | None \<Rightarrow> first_error f gs)"

text \<open>The validation pipe: unknown fields are refused, required ones must be there.\<close>

definition body_error :: "(string \<times> bool) list option \<Rightarrow> string list \<Rightarrow> http_error option" where
  "body_error dto body =
     (case dto of None \<Rightarrow> None
      | Some fs \<Rightarrow>
          (case find (\<lambda>b. b \<notin> fst ` set fs) body of
             Some b \<Rightarrow> Some (BadRequest (''property '' @ b @ '' should not exist''))
           | None \<Rightarrow>
               (case find (\<lambda>(f, required). required \<and> f \<notin> set body) fs of
                  Some (f, _) \<Rightarrow> Some (BadRequest (f @ '' must be a string''))
                | None \<Rightarrow> None)))"

definition route_fits :: "web_request \<Rightarrow> string list \<Rightarrow> route \<Rightarrow> bool" where
  "route_fits q path r \<longleftrightarrow> ro_verb r = wr_verb q \<and> path_matches (pattern_of (ro_path r)) path"

definition handle_request ::
  "(route_guard \<Rightarrow> web_request \<Rightarrow> http_error option) \<Rightarrow> (string \<Rightarrow> string option) \<Rightarrow> web_request \<Rightarrow> answer" where
  "handle_request other tenants q =
     (case wr_path q of
        [] \<Rightarrow> No_route
      | p # path \<Rightarrow>
          if p \<noteq> ''api'' then No_route
          else case find (route_fits q path) mounted of
                 None \<Rightarrow> No_route
               | Some r \<Rightarrow>
                   (case first_error (run_guard other tenants q) (ro_guards r) of
                      Some e \<Rightarrow> Refused e
                    | None \<Rightarrow> (case body_error (ro_dto r) (wr_body q) of Some e \<Rightarrow> Refused e | None \<Rightarrow> Called r)))"

lemma first_error_None: "first_error f gs = None \<longleftrightarrow> (\<forall>g \<in> set gs. f g = None)"
  by (induction gs) (auto split: option.splits)

lemma called_route:
  assumes "handle_request other tenants q = Called r"
  shows "r \<in> set mounted \<and> (\<forall>g \<in> set (ro_guards r). run_guard other tenants q g = None) \<and>
    body_error (ro_dto r) (wr_body q) = None"
  using assms by (auto simp: handle_request_def first_error_None split: list.splits if_splits option.splits dest!: find_in)

lemmas controller_defs = HealthController_def AuthController_def TenantsController_def EventsController_def
  SeatLocksController_def BookingsController_def PaymentsController_def rt_def with_body_def with_status_def


definition sample_web_request :: web_request where
  "sample_web_request = \<lparr>wr_verb = HTTP_GET, wr_path = [''api'', ''tenants'', ''acme''], wr_user = None, wr_tenantHeader = None, wr_body = []\<rparr>"

lemma pattern_of_tenant: "pattern_of ''tenants/:slug'' = [Lit ''tenants'', Param ''slug'']"
  by code_simp

lemma sample_call:
  "handle_request (\<lambda>_ _. None) (\<lambda>_. None) sample_web_request =
     Called (rt HTTP_GET ''tenants/:slug'' [] ''tenantsService.getBySlug'' [From_param ''slug''])"
  by code_simp


text \<open>
  What a handler reads is there: a mounted handler that takes the tenant or a part of it runs only for a request whose
  header named an existing tenant, and one that needs the user only for a verified user (the seat map takes an absent
  user as none).
\<close>
theorem handlers_get_what_they_read:
  assumes "handle_request other tenants q = Called r"
  shows "(\<forall>f. (From_tenant f \<in> set (ro_args r) \<or> Whole_tenant \<in> set (ro_args r)) \<longrightarrow>
      (\<exists>slug t. wr_tenantHeader q = Some slug \<and> tenants slug = Some t)) \<and>
    (\<forall>f. From_user f \<in> set (ro_args r) \<and> ro_calls r \<noteq> ''eventsService.getSeatMap'' \<longrightarrow> wr_user q \<noteq> None)"
proof -
  have "TenantGuard \<in> set (ro_guards r) \<Longrightarrow> \<exists>slug t. wr_tenantHeader q = Some slug \<and> tenants slug = Some t"
    using called_route [OF assms] by (fastforce simp: run_guard_def split: if_splits dest!: truthyD)
  moreover have "JwtAuthGuard \<in> set (ro_guards r) \<Longrightarrow> wr_user q \<noteq> None"
    using called_route [OF assms] by (auto simp: run_guard_def split: if_splits dest!: bspec [of _ _ JwtAuthGuard])
  ultimately show ?thesis using called_route [OF assms]
    by (auto simp: mounted_value controller_defs)
qed

definition sample_tenant_request :: web_request where
  "sample_tenant_request =
     \<lparr>wr_verb = HTTP_GET, wr_path = [''api'', ''events''], wr_user = None, wr_tenantHeader = Some ''acme'', wr_body = []\<rparr>"

definition sample_tenants :: "string \<Rightarrow> string option" where
  "sample_tenants = [''acme'' \<mapsto> ''t1'']"

lemma sample_tenant_call:
  "handle_request (\<lambda>_ _. None) sample_tenants sample_tenant_request =
     Called (rt HTTP_GET ''events'' [TenantGuard] ''eventsService.listEvents'' [From_tenant ''id''])"
  by code_simp

lemma handlers_get_what_they_read_witness:
  "\<exists>slug t. wr_tenantHeader sample_tenant_request = Some slug \<and> sample_tenants slug = Some t"
  using handlers_get_what_they_read [OF sample_tenant_call] by (simp add: rt_def)

section \<open>What the calls of the frontend meet\<close>

text \<open>A call: its verb, its path with a placeholder for every inserted id, the fields of its body.\<close>

record api_call =
  ca_verb :: http_verb
  ca_path :: string
  ca_body :: "string list"

definition call :: "http_verb \<Rightarrow> string \<Rightarrow> string list \<Rightarrow> api_call" where
  "call verb path body = \<lparr>ca_verb = verb, ca_path = path, ca_body = body\<rparr>"

definition bookings_api :: "api_call list" where
  "bookings_api = [call HTTP_GET ''/bookings/my-bookings'' [], call HTTP_POST ''/bookings/:bookingId/cancel'' []]"

definition booking_api :: "api_call list" where
  "booking_api =
     [call HTTP_POST ''/bookings/lock'' [''showId'', ''seatNumbers'', ''idempotencyKey''],
      call HTTP_POST ''/bookings/confirm'' [''razorpayOrderId'', ''razorpayPaymentId'', ''razorpaySignature''],
      call HTTP_GET ''/bookings/:id'' []]"

definition seats_api :: "api_call list" where
  "seats_api =
     [call HTTP_GET ''/shows/:showId/seats'' [],
      call HTTP_POST ''/bookings/lock'' [''showId'', ''seatNumbers'', ''idempotencyKey''],
      call HTTP_POST ''/bookings/lock-ga'' [''showId'', ''qty''],
      call HTTP_POST ''/bookings/confirm'' [''razorpayOrderId'', ''razorpayPaymentId'', ''razorpaySignature''],
      call HTTP_GET ''/pricing/:showId/calculate'' []]"

definition payment_api :: "api_call list" where
  "payment_api =
     [call HTTP_POST ''/payments/create-order'' [''bookingId''],
      call HTTP_POST ''/bookings/confirm'' [''bookingId'', ''razorpayPaymentId'', ''razorpayOrderId'', ''razorpaySignature''],
      call HTTP_POST ''/discounts/apply'' [''bookingId'', ''couponCode'', ''giftCardCode'']]"

definition events_api :: "api_call list" where
  "events_api = [call HTTP_GET ''/events'' [], call HTTP_GET ''/events/:id'' []]"

definition wishlist_api :: "api_call list" where
  "wishlist_api =
     [call HTTP_POST ''/wishlist/:eventId'' [], call HTTP_DELETE ''/wishlist/:eventId'' [], call HTTP_GET ''/wishlist/my'' []]"

definition admin_api :: "api_call list" where
  "admin_api =
     [call HTTP_GET ''/admin/summary'' [], call HTTP_GET ''/admin/events'' [], call HTTP_POST ''/admin/events'' [],
      call HTTP_GET ''/admin/bookings'' [], call HTTP_POST ''/admin/bookings/:bookingId/cancel'' [],
      call HTTP_GET ''/admin/shows'' [], call HTTP_POST ''/shows/:showId/delete'' [], call HTTP_POST ''/shows'' [],
      call HTTP_GET ''/admin/theaters'' [], call HTTP_GET ''/admin/theaters/:theaterId/screens'' []]"

definition admin_bookings_api :: "api_call list" where
  "admin_bookings_api = [call HTTP_GET ''/admin/bookings'' [], call HTTP_GET ''/admin/analytics/overview'' []]"

definition admin_events_api :: "api_call list" where
  "admin_events_api =
     [call HTTP_GET ''/admin/events'' [], call HTTP_POST ''/admin/events'' [], call HTTP_DELETE ''/admin/events/:id'' []]"

definition platform_api :: "api_call list" where
  "platform_api =
     [call HTTP_GET ''/platform/stats'' [], call HTTP_GET ''/platform/tenants'' [],
      call HTTP_PATCH ''/platform/tenant/:id/plan'' [''plan''], call HTTP_GET ''/platform/features'' [],
      call HTTP_PATCH ''/platform/feature/:id/toggle'' [''enabled''], call HTTP_GET ''/platform/audit-logs'' []]"

text \<open>The login page, then the calls pages make themselves.\<close>

definition login_calls :: "api_call list" where
  "login_calls =
     [call HTTP_POST ''/auth/otp/request'' [''email''], call HTTP_POST ''/auth/login/password'' [''email'', ''password''],
      call HTTP_POST ''/auth/login'' [''email'', ''otp'']]"

definition page_calls :: "api_call list" where
  "page_calls =
     [call HTTP_GET ''/platform/admins'' [], call HTTP_GET ''/platform/payments'' [], call HTTP_GET ''/platform/payments/summary'' [],
      call HTTP_GET ''/health'' [], call HTTP_GET ''/platform/bookings'' [], call HTTP_GET ''/platform/analytics'' [],
      call HTTP_GET ''/platform/analytics/growth'' [], call HTTP_GET ''/admin/stats'' [],
      call HTTP_POST ''/tickets/scan'' [''qrHash''], call HTTP_GET ''/shows'' []]"

definition frontend_calls :: "api_call list" where
  "frontend_calls = login_calls @ events_api @ seats_api @ booking_api @ bookings_api @ payment_api @ wishlist_api @
     admin_api @ admin_bookings_api @ admin_events_api @ platform_api @ page_calls"

text \<open>A call meets a route when it does for every inserted id.\<close>

fun segment_covers :: "segment \<Rightarrow> segment \<Rightarrow> bool" where
  "segment_covers (Param _) s \<longleftrightarrow> True"
| "segment_covers (Lit a) s \<longleftrightarrow> s = Lit a"

definition meets :: "api_call \<Rightarrow> route \<Rightarrow> bool" where
  "meets c r \<longleftrightarrow> ro_verb r = ca_verb c \<and> list_all2 segment_covers (pattern_of (ro_path r)) (pattern_of (ca_path c))"

fun fill :: "(string \<Rightarrow> string) \<Rightarrow> segment \<Rightarrow> string" where
  "fill ids (Lit a) = a"
| "fill ids (Param k) = ids k"

definition route_words :: "string list" where
  "route_words = concat (map (\<lambda>r. concat (map (\<lambda>s. case s of Lit a \<Rightarrow> [a] | Param _ \<Rightarrow> []) (pattern_of (ro_path r)))) mounted)"

lemma covers_fill: "g \<notin> Lit ` range ids \<Longrightarrow> segment_matches g (fill ids s) \<longleftrightarrow> segment_covers g s"
  by (cases g; cases s) auto

lemma matches_fill:
  "set pat \<inter> Lit ` range ids = {} \<Longrightarrow> path_matches pat (map (fill ids) segs) \<longleftrightarrow> list_all2 segment_covers pat segs"
proof (induction pat arbitrary: segs)
  case (Cons g pat)
  then show ?case by (cases segs) (auto simp: path_matches_def covers_fill)
qed (simp add: path_matches_def)

lemma in_route_words: "r \<in> set mounted \<Longrightarrow> Lit a \<in> set (pattern_of (ro_path r)) \<Longrightarrow> a \<in> set route_words"
  by (force simp: route_words_def)

lemma call_meets:
  assumes "\<forall>k. ids k \<notin> set route_words" and "wr_verb q = ca_verb c"
    and "wr_path q = ''api'' # map (fill ids) (pattern_of (ca_path c))"
  shows "handle_request other tenants q = No_route \<longleftrightarrow> list_all (\<lambda>r. \<not> meets c r) mounted"
proof -
  have "route_fits q (map (fill ids) (pattern_of (ca_path c))) r \<longleftrightarrow> meets c r" if "r \<in> set mounted" for r
  proof -
    have "set (pattern_of (ro_path r)) \<inter> Lit ` range ids = {}"
      using assms(1) in_route_words [OF that] by blast
    from matches_fill [OF this] show ?thesis using assms(2) by (simp add: route_fits_def meets_def)
  qed
  then show ?thesis using assms(3)
    by (auto simp: handle_request_def list_all_iff find_None_iff split: option.splits dest!: find_in)
qed

lemma unmet_calls:
  "filter (\<lambda>c. \<not> list_all (\<lambda>r. \<not> meets c r) mounted) frontend_calls =
     [call HTTP_POST ''/auth/login'' [''email'', ''otp''], call HTTP_GET ''/events'' [], call HTTP_GET ''/health'' []]"
  unfolding mounted_value by code_simp


definition sample_history_request :: web_request where
  "sample_history_request = \<lparr>wr_verb = HTTP_GET, wr_path = [''api'', ''bookings'', ''my-bookings''], wr_user = Some ''u1'',
     wr_tenantHeader = Some ''acme'', wr_body = []\<rparr>"


text \<open>The address the build sets (\<open>docker-compose.yml\<close>, \<open>lib/api.ts\<close>) has no \<open>api\<close>: then nothing at all is answered.\<close>

lemma unprefixed_calls_meet_nothing:
  assumes "wr_path q = map (fill ids) (pattern_of (ca_path c))" and "c \<in> set frontend_calls"
  shows "handle_request other tenants q = No_route"
proof -
  have "list_all (\<lambda>c. case pattern_of (ca_path c) of Lit a # _ \<Rightarrow> a \<noteq> ''api'' | _ \<Rightarrow> False) frontend_calls" by code_simp
  then have "case pattern_of (ca_path c) of Lit a # _ \<Rightarrow> a \<noteq> ''api'' | _ \<Rightarrow> False"
    unfolding list_all_iff using assms(2) by (rule bspec)
  then obtain a segs where "pattern_of (ca_path c) = Lit a # segs" and "a \<noteq> ''api''"
    by (auto split: list.split_asm segment.split_asm)
  then show ?thesis using assms(1) by (simp add: handle_request_def)
qed

end
