(* ===== verification/History.thy ===== *)
theory History
  imports BookingStates Json SignIn Doubles
begin

text \<open>
  What a customer and an administrator are shown of a booking: the currency formatter
  (\<open>frontend/src/lib/formatINR.ts\<close>), the booking card with its cancel button
  (\<open>features/bookings/components/BookingCard.tsx\<close>), the pages that list the cards, the pages a
  payment ends on, and the amounts of the administrator's lists. Dates are printed by the browser
  and are a parameter; an amount is the JSON value of the answer, so a missing one is \<open>Null\<close> and a
  decimal the server sent as text is \<open>Str\<close>.
\<close>

section \<open>Amounts\<close>

text \<open>The separators of the \<open>en-IN\<close> locale: a comma before the last three digits and before every
  two digits further left. The text is reversed here.\<close>

fun group_pairs :: "string \<Rightarrow> string" where
  "group_pairs (a # b # c # s) = a # b # CHR '','' # group_pairs (c # s)"
| "group_pairs s = s"

definition group_indian :: "string \<Rightarrow> string" where
  "group_indian ds = rev (case rev ds of
     a # b # c # d # s \<Rightarrow> a # b # c # CHR '','' # group_pairs (d # s)
   | s \<Rightarrow> s)"

text \<open>The three bytes of the rupee sign.\<close>

definition rupee :: string where
  "rupee = [char_of (226 :: nat), char_of (130 :: nat), char_of (185 :: nat)]"

definition inr_currency :: "rat \<Rightarrow> string" where
  "inr_currency v = (let n = \<bar>half_up (v * 100)\<bar> in
     (if v < 0 then ''-'' else []) @ rupee @ group_indian (show_digits (n div 100)) @ ''.''
     @ [digit_char (nat (n div 10 mod 10)), digit_char (nat (n mod 10))])"

definition formatINR :: "json \<Rightarrow> string" where
  "formatINR amount = inr_currency (case amount of Num x \<Rightarrow> x | _ \<Rightarrow> 0)"

section \<open>The booking card\<close>

record booking_dto =
  bd_id :: string
  bd_qrToken :: "string option"
  bd_status :: string
  bd_totalAmount :: json
  bd_discountAmount :: json
  bd_couponDiscountAmount :: json
  bd_giftCardDiscountAmount :: json
  bd_finalAmount :: json
  bd_paidAmount :: json
  bd_couponCode :: "string option"
  bd_giftCardCode :: "string option"
  bd_eventTitle :: string
  bd_posterUrl :: string
  bd_startTime :: string
  bd_theater :: string
  bd_screen :: string
  bd_seats :: "string list"
  bd_cancelledAt :: "string option"
  bd_refundedAt :: "string option"
  bd_razorpayRefundId :: "string option"

text \<open>\<open>a ?? b\<close>, and \<open>(a ?? 0) > 0\<close>. Comparing a text reads it as a number; of the texts only the
  numerals a decimal library prints are read, any other compares as false.\<close>

definition nullish :: "json \<Rightarrow> json \<Rightarrow> json" where
  "nullish a b = (if a = Null then b else a)"

definition positive :: "json \<Rightarrow> bool" where
  "positive a = (case a of
     Num x \<Rightarrow> 0 < x
   | Bool b \<Rightarrow> b
   | Str s \<Rightarrow> (case parse_number s of Some (Num x, []) \<Rightarrow> 0 < x | _ \<Rightarrow> False)
   | _ \<Rightarrow> False)"

definition discounted_amount :: "json \<Rightarrow> json \<Rightarrow> json \<Rightarrow> json" where
  "discounted_amount amount discount final =
     (if positive discount \<and> final \<noteq> Null then final else amount)"

definition getPaidAmount :: "booking_dto \<Rightarrow> json" where
  "getPaidAmount b = nullish (bd_paidAmount b)
     (discounted_amount (bd_totalAmount b) (bd_discountAmount b) (bd_finalAmount b))"

record status_config =
  sc_label :: string
  sc_color :: string
  sc_icon :: "string option"

definition getStatusConfig :: "string \<Rightarrow> status_config" where
  "getStatusConfig s =
     (if s = ''CONFIRMED'' then \<lparr>sc_label = ''Confirmed'', sc_color = ''green'', sc_icon = Some ''CheckCircle2''\<rparr>
      else if s = ''CANCELLED'' then \<lparr>sc_label = ''Cancelled'', sc_color = ''gray'', sc_icon = Some ''XCircle''\<rparr>
      else if s = ''REFUND_INITIATED'' then \<lparr>sc_label = ''Refund in Progress'', sc_color = ''amber'', sc_icon = Some ''RefreshCw''\<rparr>
      else if s = ''REFUNDED'' then \<lparr>sc_label = ''Refunded'', sc_color = ''green'', sc_icon = Some ''CheckCircle2''\<rparr>
      else if s = ''REFUND_FAILED'' then \<lparr>sc_label = ''Refund Failed'', sc_color = ''red'', sc_icon = Some ''AlertCircle''\<rparr>
      else \<lparr>sc_label = s, sc_color = ''gray'', sc_icon = None\<rparr>)"

datatype refund_panel =
    Refund_running string
  | Refund_completed string "string option" "string option"
  | Refund_unsuccessful string

definition RefundPanel :: "(string \<Rightarrow> string) \<Rightarrow> booking_dto \<Rightarrow> refund_panel option" where
  "RefundPanel medium_date b =
     (if bd_status b = ''REFUND_INITIATED'' then Some (Refund_running (formatINR (bd_paidAmount b)))
      else if bd_status b = ''REFUNDED'' then
        Some (Refund_completed (formatINR (bd_paidAmount b))
          (if truthy (bd_refundedAt b) then map_option medium_date (bd_refundedAt b) else None)
          (if truthy (bd_razorpayRefundId b) then bd_razorpayRefundId b else None))
      else if bd_status b = ''REFUND_FAILED'' then Some (Refund_unsuccessful ''mailto:support@starpass.app'')
      else None)"

definition canCancel :: "booking_dto \<Rightarrow> bool" where
  "canCancel b \<longleftrightarrow> bd_status b = ''CONFIRMED''"

definition isCancelled :: "booking_dto \<Rightarrow> bool" where
  "isCancelled b \<longleftrightarrow> bd_status b = ''CANCELLED'' \<or> bd_status b = ''REFUND_INITIATED''
     \<or> bd_status b = ''REFUNDED'' \<or> bd_status b = ''REFUND_FAILED''"

definition ribbon :: "booking_dto \<Rightarrow> string option" where
  "ribbon b = (if \<not> isCancelled b then None
     else Some (if bd_status b = ''CANCELLED'' then ''Cancelled''
       else map (\<lambda>c. if c = CHR ''_'' then CHR '' '' else c) (bd_status b)))"

text \<open>The entry code of a confirmed booking: the code itself and the text below it.\<close>

definition entry_code :: "booking_dto \<Rightarrow> (string option \<times> string) option" where
  "entry_code b = (if bd_status b \<noteq> ''CONFIRMED'' then None
     else if truthy (bd_qrToken b)
       then Some (bd_qrToken b, take 8 (or_str (bd_qrToken b) []) @ ''...'')
       else Some (None, ''---...''))"

record card_view =
  cv_image :: "string \<times> string"
  cv_ribbon :: "string option"
  cv_title :: string
  cv_when :: string
  cv_where :: string
  cv_seats :: string
  cv_refund :: "refund_panel option"
  cv_amount_label :: string
  cv_amount :: string
  cv_struck :: "string option"
  cv_saved :: "string option"
  cv_cancel :: "(string \<times> bool) option"
  cv_badge :: status_config
  cv_code :: "(string option \<times> string) option"

text \<open>\<open>fmt_day\<close>, \<open>fmt_time\<close> and \<open>fmt_medium\<close> are the browser's date formats.\<close>

definition BookingCard ::
  "(string \<Rightarrow> string) \<Rightarrow> (string \<Rightarrow> string) \<Rightarrow> (string \<Rightarrow> string) \<Rightarrow> bool \<Rightarrow> booking_dto \<Rightarrow> card_view" where
  "BookingCard fmt_day fmt_time fmt_medium isCancelling b =
     (let discounted = positive (bd_discountAmount b) in
      \<lparr>cv_image = (bd_posterUrl b, bd_eventTitle b), cv_ribbon = ribbon b, cv_title = bd_eventTitle b,
       cv_when = fmt_day (bd_startTime b) @ '' * '' @ fmt_time (bd_startTime b),
       cv_where = bd_theater b @ '', '' @ bd_screen b, cv_seats = join_with '', '' (bd_seats b),
       cv_refund = RefundPanel fmt_medium b,
       cv_amount_label = (if discounted then ''Amount Paid'' else ''Total Amount''),
       cv_amount = formatINR (getPaidAmount b),
       cv_struck = (if discounted then Some (formatINR (bd_totalAmount b)) else None),
       cv_saved = (if discounted then Some (formatINR (bd_discountAmount b)) else None),
       cv_cancel = (if canCancel b
         then Some (if isCancelling then ''Cancelling...'' else ''Cancel Booking'', isCancelling) else None),
       cv_badge = getStatusConfig (bd_status b), cv_code = entry_code b\<rparr>)"

text \<open>Pressing the button: the question to the user, the call, the message and whether the page that
  shows the card is told. An answer is the server's error message or success.\<close>

record cancel_effects =
  ce_calls :: "(string \<times> string) list"
  ce_toast :: "(bool \<times> string) option"
  ce_notified :: "string option"

definition cancel_path :: "string \<Rightarrow> string" where
  "cancel_path bookingId = ''/bookings/'' @ bookingId @ ''/cancel''"

definition handleCancel :: "bool \<Rightarrow> (string option + unit) \<Rightarrow> booking_dto \<Rightarrow> cancel_effects" where
  "handleCancel sure answer b =
     (if \<not> sure then \<lparr>ce_calls = [], ce_toast = None, ce_notified = None\<rparr>
      else case answer of
        Inr _ \<Rightarrow> \<lparr>ce_calls = [(''POST'', cancel_path (bd_id b))],
            ce_toast = Some (True, ''Booking cancelled. Refund has been initiated.''),
            ce_notified = Some (bd_id b)\<rparr>
      | Inl m \<Rightarrow> \<lparr>ce_calls = [(''POST'', cancel_path (bd_id b))],
            ce_toast = Some (False, or_str m ''Failed to cancel booking''), ce_notified = None\<rparr>)"

section \<open>The pages that list the cards\<close>

text \<open>The history page fetches when it is opened and after a cancellation; a failed fetch keeps the
  list it had. \<open>Inl\<close> is a failed call.\<close>

record history_page =
  hp_bookings :: "booking_dto list"
  hp_isLoading :: bool

definition fresh_history :: history_page where
  "fresh_history = \<lparr>hp_bookings = [], hp_isLoading = True\<rparr>"

definition fetchBookings :: "(unit + booking_dto list) \<Rightarrow> history_page \<Rightarrow> history_page" where
  "fetchBookings answer p = (case answer of
     Inr bs \<Rightarrow> \<lparr>hp_bookings = bs, hp_isLoading = False\<rparr>
   | Inl _ \<Rightarrow> \<lparr>hp_bookings = hp_bookings p, hp_isLoading = False\<rparr>)"

datatype list_view = Spinner | Empty_collection | Load_error | Cards "booking_dto list" | Blank

definition ProtectedRoute :: "string option \<Rightarrow> 'a \<Rightarrow> 'a option \<times> string option" where
  "ProtectedRoute token children = (if truthy token then (Some children, None) else (None, Some ''/login''))"

definition BookingHistoryPage :: "string option \<Rightarrow> history_page \<Rightarrow> list_view option \<times> string option" where
  "BookingHistoryPage token p = ProtectedRoute token
     (if hp_isLoading p then Spinner
      else if hp_bookings p = [] then Empty_collection else Cards (hp_bookings p))"

text \<open>One card of the history page is cancelled: the card reports, and the page fetches again.\<close>

definition cancel_on_history ::
  "bool \<Rightarrow> (string option + unit) \<Rightarrow> (unit + booking_dto list) \<Rightarrow> booking_dto \<Rightarrow> history_page \<Rightarrow> history_page" where
  "cancel_on_history sure answer refetched b p =
     (case ce_notified (handleCancel sure answer b) of None \<Rightarrow> p | Some _ \<Rightarrow> fetchBookings refetched p)"

text \<open>The dashboard reads the list through the query cache and passes no handler to its cards.\<close>

datatype bookings_query = Query_loading | Query_error | Query_data "booking_dto list"

definition DashboardPage :: "portal_user option \<Rightarrow> bookings_query \<Rightarrow> list_view \<times> string option" where
  "DashboardPage user q =
     (let away = (if user = None then Some ''/login'' else None) in
      if q = Query_loading then (Spinner, away)
      else if user = None then (Blank, away)
      else case q of
        Query_data bs \<Rightarrow> (if bs = [] then Empty_collection else Cards bs, away)
      | _ \<Rightarrow> (Load_error, away))"

section \<open>The pages after a payment\<close>

text \<open>The booking as the server answers it; the parts it may leave out are optional. Numbers are
  printed as they are.\<close>

record paid_booking =
  pd_totalAmount :: json
  pd_discountAmount :: json
  pd_finalAmount :: json
  pd_status :: string
  pd_event :: "string option"
  pd_theater :: "string option"
  pd_screen :: "string option"
  pd_seats :: "(string \<times> string) list option"
  pd_qrToken :: "string option"

record success_page =
  sp_booking :: "paid_booking option"
  sp_loading :: bool
  sp_error :: string
  sp_replaced :: "string option"

definition fresh_success :: success_page where
  "fresh_success = \<lparr>sp_booking = None, sp_loading = True, sp_error = [], sp_replaced = None\<rparr>"

text \<open>\<open>None\<close> within an answer is an empty body, which is not stored.\<close>

definition fetchPaidBooking :: "string \<Rightarrow> (unit + paid_booking option) \<Rightarrow> success_page \<Rightarrow> success_page" where
  "fetchPaidBooking bookingId answer p =
     (if bookingId = [] then p\<lparr>sp_replaced := Some ''/events''\<rparr>
      else case answer of
        Inr None \<Rightarrow> p\<lparr>sp_loading := False\<rparr>
      | Inr (Some b) \<Rightarrow> p\<lparr>sp_booking := Some b, sp_loading := False\<rparr>
      | Inl _ \<Rightarrow> p\<lparr>sp_error := ''Unable to load booking details. Please check My Bookings.'', sp_loading := False\<rparr>)"

datatype paid_amount = Paid_discounted json json json | Paid_total json | Paid_unknown

definition amount_paid :: "paid_booking option \<Rightarrow> paid_amount" where
  "amount_paid booking = (case booking of
     None \<Rightarrow> Paid_unknown
   | Some b \<Rightarrow>
       if positive (pd_discountAmount b)
       then Paid_discounted (nullish (pd_finalAmount b) (pd_totalAmount b)) (pd_totalAmount b) (pd_discountAmount b)
       else if json_truthy (pd_totalAmount b) then Paid_total (pd_totalAmount b) else Paid_unknown)"

record success_details =
  sd_event :: string
  sd_theater :: string
  sd_screen :: string
  sd_count :: "nat option"
  sd_seats :: string
  sd_code :: "string option"

definition success_details_of :: "paid_booking \<Rightarrow> success_details" where
  "success_details_of b =
     \<lparr>sd_event = or_str (pd_event b) ''Event'', sd_theater = or_str (pd_theater b) ''Theater'',
      sd_screen = or_str (pd_screen b) ''Screen'', sd_count = map_option length (pd_seats b),
      sd_seats = (case pd_seats b of None \<Rightarrow> [] | Some ss \<Rightarrow> join_with '', '' (map (\<lambda>(row, number). row @ number) ss)),
      sd_code = (if truthy (pd_qrToken b) then pd_qrToken b else None)\<rparr>"

datatype success_view =
    Success_loading
  | Success_error string
  | Booking_Confirmed "string option" string paid_amount "success_details option"

definition SuccessContent :: "string option \<Rightarrow> string \<Rightarrow> success_page \<Rightarrow> success_view" where
  "SuccessContent email bookingId p =
     (if sp_loading p then Success_loading
      else if sp_error p \<noteq> [] then Success_error (sp_error p)
      else Booking_Confirmed email bookingId (amount_paid (sp_booking p))
             (map_option success_details_of (sp_booking p)))"

text \<open>The page of the old address reads the id from either parameter.\<close>

definition RedirectToNewSuccess :: "string option \<Rightarrow> string option \<Rightarrow> string" where
  "RedirectToNewSuccess bookingId id_param =
     (let i = (if truthy bookingId then bookingId else id_param) in
      if truthy i then ''/booking/success/'' @ or_str i [] else ''/events'')"

section \<open>The administrator's lists\<close>

record admin_booking =
  ad_id :: string
  ad_totalAmount :: json
  ad_discountAmount :: json
  ad_finalAmount :: json
  ad_paymentId :: "string option"
  ad_status :: string
  ad_createdAt :: string
  ad_user :: "string \<times> string"
  ad_event :: "string \<times> string"

text \<open>A user is the name and the e-mail, an event the title and the start of the show.

  The amount column of the refund queue and of the list of bookings: the amount and the one
  struck out.\<close>

definition refund_amount :: "admin_booking \<Rightarrow> string \<times> string option" where
  "refund_amount b =
     (formatINR (discounted_amount (ad_totalAmount b) (ad_discountAmount b) (ad_finalAmount b)),
      if positive (ad_discountAmount b) then Some (''was '' @ formatINR (ad_totalAmount b)) else None)"

definition listed_amount :: "admin_booking \<Rightarrow> string \<times> string option" where
  "listed_amount b =
     (formatINR (if positive (ad_discountAmount b) \<and> ad_finalAmount b \<noteq> Null then ad_finalAmount b
        else ad_totalAmount b),
      if positive (ad_discountAmount b) then Some (''was '' @ formatINR (ad_totalAmount b)) else None)"

record refund_queue =
  rq_bookings :: "admin_booking list"
  rq_isLoading :: bool

text \<open>One fetch of the queue: the address asked for, and the state after the answer; \<open>None\<close> is a
  failed call, \<open>Some (ok, rows)\<close> an answer.\<close>

definition refund_url :: "string \<Rightarrow> string" where
  "refund_url base = base @ ''/admin/bookings?status=CANCELLED,FAILED''"

definition fetchRefunds :: "(bool \<times> admin_booking list) option \<Rightarrow> refund_queue \<Rightarrow> refund_queue" where
  "fetchRefunds answer q = (case answer of
     Some (True, rows) \<Rightarrow> \<lparr>rq_bookings = rows, rq_isLoading = False\<rparr>
   | _ \<Rightarrow> q\<lparr>rq_isLoading := False\<rparr>)"

definition queue_row ::
  "(string \<Rightarrow> string) \<Rightarrow> admin_booking \<Rightarrow> string \<times> (string \<times> string) \<times> (string \<times> string option) \<times> string \<times> (string \<times> string) \<times> string" where
  "queue_row short_date b = (ad_id b, ad_user b, refund_amount b, or_str (ad_paymentId b) ''N/A'',
     (if ad_status b = ''CANCELLED'' then ''red'' else ''orange'', ad_status b), short_date (ad_createdAt b))"

definition RefundQueue :: "(string \<Rightarrow> string) \<Rightarrow> refund_queue \<Rightarrow> _ list option" where
  "RefundQueue short_date q =
     (if rq_bookings q = [] then None else Some (map (queue_row short_date) (rq_bookings q)))"

text \<open>The filter of the list of bookings, and its status colours.\<close>

definition booking_filters :: "(string \<times> string) list" where
  "booking_filters = [([], ''All Status''), (''CONFIRMED'', ''Confirmed''), (''PENDING'', ''Pending''),
     (''CANCELLED'', ''Cancelled'')]"

definition status_argument :: "string \<Rightarrow> string option" where
  "status_argument statusFilter = (if statusFilter = [] then None else Some statusFilter)"

definition status_color :: "string \<Rightarrow> string" where
  "status_color s = (if s = ''CONFIRMED'' then ''green'' else if s = ''PENDING'' then ''yellow'' else ''red'')"

definition listed_row ::
  "(string \<Rightarrow> string) \<Rightarrow> (string \<Rightarrow> string) \<Rightarrow> admin_booking \<Rightarrow> string \<times> (string \<times> string) \<times> (string \<times> string) \<times> (string \<times> string option) \<times> (string \<times> string) \<times> string" where
  "listed_row long_date date b = (take 8 (ad_id b) @ ''...'', ad_user b, (fst (ad_event b), long_date (snd (ad_event b))),
     listed_amount b, (status_color (ad_status b), ad_status b), date (ad_createdAt b))"

definition AdminBookingsPage :: "(string \<Rightarrow> string) \<Rightarrow> (string \<Rightarrow> string) \<Rightarrow> admin_booking list option \<Rightarrow> _ list" where
  "AdminBookingsPage long_date date bookings =
     (case bookings of None \<Rightarrow> [] | Some bs \<Rightarrow> map (listed_row long_date date) bs)"

section \<open>Amounts can be read back\<close>

lemma filter_group_pairs: "\<not> P CHR '','' \<Longrightarrow> filter P (group_pairs s) = filter P s"
  by (induction s rule: group_pairs.induct) simp_all

lemma filter_group_indian:
  assumes "\<not> P CHR '',''"
  shows "filter P (group_indian s) = filter P s"
proof -
  have "filter P (rev (group_indian s)) = filter P (rev s)"
    using assms by (auto simp: group_indian_def filter_group_pairs split: list.split)
  then show ?thesis by (metis rev_filter rev_rev_ident)
qed

lemma read_digits_append:
  "read_digits (s @ t) = read_digits s * 10 ^ length t + read_digits t"
proof (induction t rule: rev_induct)
  case (snoc c t)
  then show ?case by (simp add: read_digits_def algebra_simps)
qed (simp add: read_digits_def)

lemma read_three_parts:
  assumes "0 \<le> a" "0 \<le> b" "b < 10" "0 \<le> c" "c < 10"
  shows "read_digits (show_digits a @ [digit_char (nat b), digit_char (nat c)]) = a * 100 + (b * 10 + c)"
proof -
  have "nat b < 10" "nat c < 10" using assms by linarith+
  then have "read_digits [digit_char (nat b), digit_char (nat c)] = b * 10 + c"
    using assms by (simp add: read_digits_def)
  then show ?thesis using assms(1) by (simp add: read_digits_append)
qed

lemma digits_of_amount:
  assumes "0 \<le> n"
  shows "read_digits (show_digits (n div 100) @ [digit_char (nat (n div 10 mod 10)), digit_char (nat (n mod 10))]) = n"
proof -
  have hundreds: "n div 100 = n div 10 div 10" using zdiv_zmult2_eq [of 10 n 10] by simp
  have "read_digits (show_digits (n div 100) @ [digit_char (nat (n div 10 mod 10)), digit_char (nat (n mod 10))])
      = n div 100 * 100 + (n div 10 mod 10 * 10 + n mod 10)"
    by (rule read_three_parts) (use assms in simp_all)
  also have "\<dots> = (n div 10 div 10 * 10 + n div 10 mod 10) * 10 + n mod 10"
    unfolding hundreds by (simp only: algebra_simps)
  also have "\<dots> = n" by (simp only: div_mult_mod_eq)
  finally show ?thesis .
qed

lemma filter_digits: "0 \<le> n \<Longrightarrow> filter is_digit (show_digits n) = show_digits n"
  using show_digits_digits by (simp add: filter_id_conv)

lemma no_digit_signs [simp]: "\<not> is_digit CHR '',''" "\<not> is_digit CHR ''.''" "\<not> is_digit CHR ''-''"
  "filter is_digit rupee = []"
  by (simp_all add: is_digit_def rupee_def of_char_of)

lemma rupee_hd [simp]: "hd rupee \<noteq> CHR ''-''" "rupee \<noteq> []"
  by code_simp (simp add: rupee_def)

lemma half_up_abs: "\<bar>half_up x\<bar> = half_up \<bar>x\<bar>"
proof -
  have "0 \<le> \<lfloor>x + 1 / 2\<rfloor>" if "0 \<le> x" using that by (simp add: zero_le_floor)
  moreover have "0 \<le> \<lfloor>- x + 1 / 2\<rfloor>" if "x < 0" using that by (simp add: zero_le_floor)
  ultimately show ?thesis by (auto simp: half_up_def)
qed

text \<open>
  C33. What a customer reads is the amount: the digits of the printed text, separators left out, are its
  value in paise rounded to the nearest paisa, so the printed amount is off by at most half a paisa,
  and the minus sign is printed exactly for a negative amount.\<close>

theorem amount_reads_back:
  "read_digits (filter is_digit (formatINR (Num v))) = \<bar>half_up (v * 100)\<bar>
   \<and> \<bar>of_int (read_digits (filter is_digit (formatINR (Num v)))) / 100 - \<bar>v\<bar>\<bar> \<le> 1 / 200
   \<and> (hd (formatINR (Num v)) = CHR ''-'' \<longleftrightarrow> v < 0)"
proof -
  let ?n = "\<bar>half_up (v * 100)\<bar>"
  have "filter is_digit (formatINR (Num v))
      = show_digits (?n div 100) @ [digit_char (nat (?n div 10 mod 10)), digit_char (nat (?n mod 10))]"
    by (simp add: formatINR_def inr_currency_def Let_def filter_group_indian filter_digits nat_less_iff)
  then have n: "read_digits (filter is_digit (formatINR (Num v))) = ?n" by (simp add: digits_of_amount)
  have "\<bar>of_int ?n - \<bar>v * 100\<bar>\<bar> \<le> 1 / 2" unfolding half_up_abs by (rule half_up_error)
  then have "\<bar>of_int ?n - \<bar>v\<bar> * 100\<bar> \<le> (1 / 2 :: rat)" by (simp add: abs_mult)
  then have "\<bar>of_int ?n / 100 - \<bar>v\<bar>\<bar> \<le> 1 / 200" unfolding abs_le_iff by linarith
  moreover have "hd (formatINR (Num v)) = CHR ''-'' \<longleftrightarrow> v < 0"
    by (simp add: formatINR_def inr_currency_def Let_def)
  ultimately show ?thesis using n by simp
qed

text \<open>An amount the server sends as text is shown as zero.\<close>

lemma text_amount_shows_zero: "formatINR (Str s) = formatINR (Num 0)" "formatINR Null = formatINR (Num 0)"
  by (simp_all add: formatINR_def)

section \<open>The card and the status machine\<close>

lemma run_status_inv:
  assumes "run status_step a b" "P a" "\<And>s t. P s \<Longrightarrow> t \<in> set (allowed_transitions s) \<Longrightarrow> P t"
  shows "P b"
  using assms(1,2) by (induction rule: run.induct) (auto simp: status_step_iff intro: assms(3))

lemma after_cancellation:
  "run status_step CANCELLED s \<longleftrightarrow> s \<in> {CANCELLED, REFUND_INITIATED, REFUNDED, REFUND_FAILED}"
proof
  assume "run status_step CANCELLED s"
  then show "s \<in> {CANCELLED, REFUND_INITIATED, REFUNDED, REFUND_FAILED}"
    by (rule run_status_inv) auto
next
  have one: "run status_step CANCELLED REFUND_INITIATED"
    by (rule run_step [OF run_refl]) (simp add: status_step_iff)
  have "run status_step CANCELLED t" if "t \<in> set (allowed_transitions REFUND_INITIATED)" for t
    by (rule run_step [OF one]) (use that in \<open>simp add: status_step_iff\<close>)
  then show "run status_step CANCELLED s" if "s \<in> {CANCELLED, REFUND_INITIATED, REFUNDED, REFUND_FAILED}"
    using that one by (auto intro: run_refl)
qed

lemma after_refund_start:
  "run status_step REFUND_INITIATED s \<longleftrightarrow> s \<in> {REFUND_INITIATED, REFUNDED, REFUND_FAILED}"
proof
  assume "run status_step REFUND_INITIATED s"
  then show "s \<in> {REFUND_INITIATED, REFUNDED, REFUND_FAILED}"
    by (rule run_status_inv) auto
next
  have "run status_step REFUND_INITIATED t" if "t \<in> set (allowed_transitions REFUND_INITIATED)" for t
    by (rule run_step [OF run_refl]) (use that in \<open>simp add: status_step_iff\<close>)
  then show "run status_step REFUND_INITIATED s" if "s \<in> {REFUND_INITIATED, REFUNDED, REFUND_FAILED}"
    using that by (auto intro: run_refl)
qed

definition sample_dto :: "string \<Rightarrow> booking_dto" where
  "sample_dto s = \<lparr>bd_id = ''b1'', bd_qrToken = None, bd_status = s, bd_totalAmount = Num 500,
     bd_discountAmount = Null, bd_couponDiscountAmount = Null, bd_giftCardDiscountAmount = Null,
     bd_finalAmount = Null, bd_paidAmount = Num 500, bd_couponCode = None, bd_giftCardCode = None, bd_eventTitle = ''Concert'',
     bd_posterUrl = [], bd_startTime = ''2026-01-01'', bd_theater = ''Hall'', bd_screen = ''One'',
     bd_seats = [''A1'', ''A2''], bd_cancelledAt = None, bd_refundedAt = None, bd_razorpayRefundId = None\<rparr>"

lemma sample_dto_status [simp]: "bd_status (sample_dto s) = s"
  by (simp add: sample_dto_def)

text \<open>
  C34. The card follows the status machine of the server. For a booking in any of its statuses, the cancel
  button is offered exactly if the machine lets the booking be cancelled and also be refunded, the
  card is shown as cancelled exactly if a cancellation leads to its status, the entry code is shown
  exactly where the button is, and a refund panel only after the refund was started.\<close>

theorem card_follows_status_machine:
  assumes "bd_status b = status_name s"
  shows "(cv_cancel (BookingCard fd ft fm c b) \<noteq> None
      \<longleftrightarrow> is_ok (validateTransition s CANCELLED) \<and> is_ok (validateTransition s REFUND_INITIATED))
    \<and> (cv_ribbon (BookingCard fd ft fm c b) \<noteq> None \<longleftrightarrow> run status_step CANCELLED s)
    \<and> (cv_code (BookingCard fd ft fm c b) \<noteq> None \<longleftrightarrow> cv_cancel (BookingCard fd ft fm c b) \<noteq> None)
    \<and> (cv_refund (BookingCard fd ft fm c b) \<noteq> None \<longleftrightarrow> run status_step REFUND_INITIATED s)"
proof -
  have "run status_step CANCELLED s \<longleftrightarrow> isCancelled b"
    using assms by (cases s) (simp_all add: after_cancellation isCancelled_def)
  moreover have "run status_step REFUND_INITIATED s \<longleftrightarrow> RefundPanel fm b \<noteq> None"
    using assms by (cases s) (simp_all add: after_refund_start RefundPanel_def)
  moreover have "is_ok (validateTransition s CANCELLED) \<and> is_ok (validateTransition s REFUND_INITIATED)
      \<longleftrightarrow> canCancel b"
    using assms by (cases s) (simp_all add: validateTransition_def canCancel_def)
  ultimately show ?thesis
    by (simp add: BookingCard_def Let_def ribbon_def entry_code_def canCancel_def)
qed

theorem card_follows_status_machine_witness:
  "cv_cancel (BookingCard id id id False (sample_dto ''CONFIRMED'')) = Some (''Cancel Booking'', False)
   \<and> cv_cancel (BookingCard id id id False (sample_dto ''REFUND_FAILED'')) = None
   \<and> cv_refund (BookingCard id id id False (sample_dto ''REFUND_FAILED'')) \<noteq> None"
proof -
  have "cv_cancel (BookingCard id id id False (sample_dto ''CONFIRMED'')) \<noteq> None"
    using card_follows_status_machine [of "sample_dto ''CONFIRMED''" CONFIRMED id id id False, THEN conjunct1]
    by (simp add: validateTransition_def)
  moreover have "cv_cancel (BookingCard id id id False (sample_dto ''REFUND_FAILED'')) = None"
    using card_follows_status_machine [of "sample_dto ''REFUND_FAILED''" REFUND_FAILED id id id False, THEN conjunct1]
    by (simp add: validateTransition_def del: not_None_eq)
  moreover have "cv_refund (BookingCard id id id False (sample_dto ''REFUND_FAILED'')) \<noteq> None"
    using card_follows_status_machine [of "sample_dto ''REFUND_FAILED''" REFUND_FAILED id id id False,
        THEN conjunct2, THEN conjunct2, THEN conjunct2]
    by (simp add: after_refund_start)
  ultimately show ?thesis by (auto simp: BookingCard_def Let_def split: if_splits)
qed

text \<open>A status of the server that the page's type does not name is shown by its raw name.\<close>

lemma unnamed_status_is_raw:
  "s \<in> {PENDING, LOCKED, PAYMENT_IN_PROGRESS, FAILED, EXPIRED}
   \<Longrightarrow> sc_label (getStatusConfig (status_name s)) = status_name s"
  by (auto simp: getStatusConfig_def)

section \<open>One amount on every page\<close>

text \<open>The card, the refund queue, the list of bookings and the success page agree on the amount of a
  booking whose paid amount is missing or is the one its comment describes.\<close>

lemma pages_agree_on_amount:
  assumes "bd_paidAmount b = Null
      \<or> bd_paidAmount b = discounted_amount (bd_totalAmount b) (bd_discountAmount b) (bd_finalAmount b)"
    and "ad_totalAmount a = bd_totalAmount b" "ad_discountAmount a = bd_discountAmount b"
      "ad_finalAmount a = bd_finalAmount b"
  shows "fst (refund_amount a) = cv_amount (BookingCard fd ft fm c b)" "refund_amount a = listed_amount a"
  using assms by (auto simp: refund_amount_def listed_amount_def BookingCard_def Let_def getPaidAmount_def
      nullish_def discounted_amount_def)

text \<open>The refund panel reads the paid amount alone: where it is missing, the refund shown is zero,
  whatever the card says below.\<close>

lemma refund_panel_shows_zero:
  assumes "bd_status b = ''REFUND_INITIATED''" "bd_paidAmount b = Null"
  shows "cv_refund (BookingCard fd ft fm c b) = Some (Refund_running (formatINR (Num 0)))"
  using assms by (simp add: BookingCard_def Let_def RefundPanel_def text_amount_shows_zero)

section \<open>The pages\<close>

text \<open>After a cancellation whose refetch fails the page still offers to cancel.\<close>

lemma failed_refetch_keeps_card:
  "b \<in> set (hp_bookings p) \<Longrightarrow> canCancel b
   \<Longrightarrow> b \<in> set (hp_bookings (cancel_on_history True (Inr ()) (Inl ()) b p))"
  by (simp add: cancel_on_history_def handleCancel_def fetchBookings_def)

text \<open>The success page announces a confirmed booking whatever the status of the answer, and for an
  empty answer too.\<close>

lemma success_page_ignores_status:
  assumes "bookingId \<noteq> []"
  shows "SuccessContent email bookingId (fetchPaidBooking bookingId (Inr (Some (b\<lparr>pd_status := s\<rparr>))) fresh_success)
       = SuccessContent email bookingId (fetchPaidBooking bookingId (Inr (Some b)) fresh_success)"
    "SuccessContent email bookingId (fetchPaidBooking bookingId (Inr None) fresh_success)
       = Booking_Confirmed email bookingId Paid_unknown None"
  using assms by (simp_all add: fetchPaidBooking_def fresh_success_def SuccessContent_def amount_paid_def
      success_details_of_def)

lemma failed_booking_fetch_says_so:
  "bookingId \<noteq> [] \<Longrightarrow>
   SuccessContent email bookingId (fetchPaidBooking bookingId (Inl ()) fresh_success)
     = Success_error ''Unable to load booking details. Please check My Bookings.''"
  by (simp add: fetchPaidBooking_def fresh_success_def SuccessContent_def)

text \<open>The old address leads to the page of the booking named by either parameter.\<close>

lemma old_success_address:
  "i \<noteq> [] \<Longrightarrow> RedirectToNewSuccess (Some i) j = ''/booking/success/'' @ i"
  "RedirectToNewSuccess None None = ''/events''"
  by (simp_all add: RedirectToNewSuccess_def Let_def truthy_def or_str_def)

end
