(* ===== verification/Wishes.thy ===== *)
theory Wishes
  imports Administration
begin

text \<open>
  The wishlist as the pages keep it: the cached list of
  \<open>frontend/src/features/wishlist/hooks/useWishlist.ts\<close> together with the server's table
  (\<open>backend/src/wishlist/wishlist.service.ts\<close>, theory Administration). The cache is filled once and
  then only edited from the answers; the theorem says that it stays the list the server would send.
\<close>

section \<open>The hook\<close>

definition isInWishlist :: "string \<Rightarrow> wish list \<Rightarrow> bool" where
  "isInWishlist eventId wishlist \<longleftrightarrow> (\<exists>w \<in> set wishlist. wi_eventId w = eventId)"

definition add_succeeded :: "wish \<Rightarrow> wish list \<Rightarrow> wish list" where
  "add_succeeded newItem old = newItem # old"

definition remove_succeeded :: "string \<Rightarrow> wish list \<Rightarrow> wish list" where
  "remove_succeeded eventId old = filter (\<lambda>w. wi_eventId w \<noteq> eventId) old"

text \<open>A toggle that the server answers: the table and the cache after it. An error edits nothing.\<close>

definition toggleWishlist ::
  "string option \<Rightarrow> string \<Rightarrow> int \<Rightarrow> string \<Rightarrow> wish list \<times> wish list \<Rightarrow> wish list \<times> wish list" where
  "toggleWishlist tenantId userId now eventId s = (case s of (ws, cache) \<Rightarrow>
     if isInWishlist eventId cache
     then (fst (removeFromWishlist tenantId userId eventId ws), remove_succeeded eventId cache)
     else case addToWishlist tenantId now userId eventId ws of
       (ws', Inr w) \<Rightarrow> (ws', add_succeeded w cache)
     | (ws', Inl _) \<Rightarrow> (ws', cache))"

text \<open>A second press before the first answer sees the same cache: the second call adds again.\<close>

definition double_add ::
  "string option \<Rightarrow> string \<Rightarrow> int \<Rightarrow> string \<Rightarrow> wish list \<times> wish list \<Rightarrow> wish list \<times> wish list" where
  "double_add tenantId userId now eventId s = (case s of (ws, cache) \<Rightarrow>
     let (ws1, a1) = addToWishlist tenantId now userId eventId ws;
         (ws2, a2) = addToWishlist tenantId now userId eventId ws1;
         edit = (\<lambda>a c. case a of Inr w \<Rightarrow> add_succeeded w c | Inl _ \<Rightarrow> c)
     in (ws2, edit a2 (edit a1 cache)))"

text \<open>The wishlist page.\<close>

datatype wishlist_view = Wishlist_blank | Wishlist_loading | Wishlist_empty | Wishlist_cards "string list"

definition WishlistPage :: "bool \<Rightarrow> bool \<Rightarrow> bool \<Rightarrow> wish list \<Rightarrow> wishlist_view \<times> string option" where
  "WishlistPage hasHydrated signedIn isLoading wishlist =
     (if \<not> hasHydrated \<or> \<not> signedIn then Wishlist_blank
      else if isLoading then Wishlist_loading
      else if wishlist = [] then Wishlist_empty else Wishlist_cards (map wi_eventId wishlist),
      if hasHydrated \<and> \<not> signedIn then Some ''/login'' else None)"

section \<open>The cache follows the server\<close>

text \<open>What can happen to the table and the cache of one user: the user toggles, later than any entry was
  made, or presses twice; another user adds or removes.\<close>

inductive wish_step :: "string option \<Rightarrow> string \<Rightarrow> wish list \<times> wish list \<Rightarrow> wish list \<times> wish list \<Rightarrow> bool"
  for tid u where
  wish_toggle: "(\<And>w. w \<in> set ws \<Longrightarrow> wi_createdAt w < now)
    \<Longrightarrow> wish_step tid u (ws, cache) (toggleWishlist tid u now e (ws, cache))"
| wish_twice: "(\<And>w. w \<in> set ws \<Longrightarrow> wi_createdAt w < now) \<Longrightarrow> \<not> isInWishlist e cache
    \<Longrightarrow> wish_step tid u (ws, cache) (double_add tid u now e (ws, cache))"
| wish_other_add: "v \<noteq> u \<Longrightarrow> wish_step tid u (ws, cache) (fst (addToWishlist tid' now v e ws), cache)"
| wish_other_remove: "v \<noteq> u \<Longrightarrow> wish_step tid u (ws, cache) (fst (removeFromWishlist tid' v e ws), cache)"

lemma sort_newest:
  "(\<And>x. x \<in> set xs \<Longrightarrow> f w < f x) \<Longrightarrow> sort_key f (xs @ [w]) = w # sort_key (f :: 'a \<Rightarrow> int) xs"
proof (induction xs)
  case (Cons x xs)
  then have "\<not> f x \<le> f w" by (simp add: linorder_not_le)
  with Cons show ?case by simp
qed simp

lemma add_keeps_cache:
  assumes "cache = getUserWishlist tid u ws" "\<And>w. w \<in> set ws \<Longrightarrow> wi_createdAt w < now"
    and "addToWishlist tid now u e ws = (ws', a)"
  shows "(case a of Inr w \<Rightarrow> add_succeeded w cache | Inl _ \<Rightarrow> cache) = getUserWishlist tid u ws'"
proof -
  have "- wi_createdAt w < - wi_createdAt x" if "wi_createdAt w = now" "x \<in> set (filter (wish_of tid u) ws)" for w x
    using that assms(2) by simp
  from sort_newest [of "filter (wish_of tid u) ws" "\<lambda>w. - wi_createdAt w", OF this] show ?thesis
    using assms(1,3)
    by (auto simp: addToWishlist_def Let_def getUserWishlist_def add_succeeded_def wish_of_def split: if_splits)
qed

lemma remove_keeps_cache:
  assumes "cache = getUserWishlist tid u ws"
  shows "remove_succeeded e cache = getUserWishlist tid u (fst (removeFromWishlist tid u e ws))"
proof -
  have "filter (\<lambda>w. wi_eventId w \<noteq> e) (filter (wish_of tid u) ws)
      = filter (wish_of tid u) (filter (\<lambda>w. \<not> (wish_of tid u w \<and> wi_eventId w = e)) ws)"
    by (auto intro: filter_cong)
  then show ?thesis
    by (simp add: assms getUserWishlist_def remove_succeeded_def removeFromWishlist_def Let_def filter_sort)
qed

lemma add_again_refused:
  assumes "addToWishlist tid now u e ws = (ws', a)"
  shows "addToWishlist tid now' u e ws' = (ws', Inl (BadRequest ''Event already in wishlist''))"
proof -
  have "find (\<lambda>w. wi_userId w = u \<and> wi_eventId w = e) ws' \<noteq> None"
  proof (cases "find (\<lambda>w. wi_userId w = u \<and> wi_eventId w = e) ws")
    case None
    then have "\<And>w. w \<in> set ws \<Longrightarrow> \<not> (wi_userId w = u \<and> wi_eventId w = e)" by (auto simp: find_None_iff)
    from find_append_fresh [of ws "\<lambda>w. wi_userId w = u \<and> wi_eventId w = e", OF this] None assms
    show ?thesis by (auto simp: addToWishlist_def Let_def)
  next
    case (Some w)
    with assms show ?thesis by (simp add: addToWishlist_def)
  qed
  then show ?thesis by (simp add: addToWishlist_def del: not_None_eq)
qed

lemma other_user_keeps_list:
  assumes "v \<noteq> u"
  shows "getUserWishlist tid u (fst (addToWishlist tid' now v e ws)) = getUserWishlist tid u ws"
    "getUserWishlist tid u (fst (removeFromWishlist tid' v e ws)) = getUserWishlist tid u ws"
proof -
  show "getUserWishlist tid u (fst (addToWishlist tid' now v e ws)) = getUserWishlist tid u ws"
    using assms by (simp add: addToWishlist_def getUserWishlist_def wish_of_def Let_def)
  have "filter (wish_of tid u) (filter (\<lambda>w. \<not> (wish_of tid' v w \<and> wi_eventId w = e)) ws) = filter (wish_of tid u) ws"
    using assms by (auto simp: wish_of_def intro: filter_cong)
  then show "getUserWishlist tid u (fst (removeFromWishlist tid' v e ws)) = getUserWishlist tid u ws"
    by (simp add: removeFromWishlist_def getUserWishlist_def Let_def)
qed

definition cache_ok :: "string option \<Rightarrow> string \<Rightarrow> wish list \<times> wish list \<Rightarrow> bool" where
  "cache_ok tid u s \<longleftrightarrow> snd s = getUserWishlist tid u (fst s)"

lemma cache_ok_step:
  assumes "wish_step tid u s t" "cache_ok tid u s"
  shows "cache_ok tid u t"
  using assms
proof (induction rule: wish_step.induct)
  case (wish_toggle ws now cache e)
  obtain ws' a where "addToWishlist tid now u e ws = (ws', a)" by (meson surj_pair)
  with wish_toggle show ?case
    using add_keeps_cache [of cache tid u ws now e ws' a] remove_keeps_cache [of cache tid u ws e]
    by (auto simp: cache_ok_def toggleWishlist_def split: sum.splits)
next
  case (wish_twice ws now e cache)
  obtain ws' a where a: "addToWishlist tid now u e ws = (ws', a)" by (meson surj_pair)
  note again = add_again_refused [OF a]
  from wish_twice a again [of now] show ?case
    using add_keeps_cache [of cache tid u ws now e ws' a] by (cases a) (simp_all add: cache_ok_def double_add_def)
qed (simp_all add: cache_ok_def other_user_keeps_list)

interpretation wishlist_cache: invariant_system "wish_step tid u" "cache_ok tid u" for tid u
  by unfold_locales (rule cache_ok_step)


text \<open>A toggle is undone by a toggle, and reaches the server.\<close>

lemma toggled_event:
  assumes "cache = getUserWishlist tid u ws" "toggleWishlist tid u now e (ws, cache) = (ws', cache')"
    and "\<not> (\<exists>w \<in> set ws. wi_userId w = u \<and> wi_eventId w = e \<and> \<not> wish_of tid u w)"
  shows "isInWishlist e cache' \<longleftrightarrow> \<not> isInWishlist e cache"
proof (cases "isInWishlist e cache")
  case True
  with assms(2) show ?thesis by (auto simp: toggleWishlist_def isInWishlist_def remove_succeeded_def)
next
  case False
  then have "find (\<lambda>w. wi_userId w = u \<and> wi_eventId w = e) ws = None"
    using assms(1,3) by (auto simp: isInWishlist_def getUserWishlist_def find_None_iff)
  with False assms(2) show ?thesis
    by (auto simp: toggleWishlist_def addToWishlist_def Let_def isInWishlist_def add_succeeded_def)
qed

definition sample_wish :: "string \<Rightarrow> string \<Rightarrow> int \<Rightarrow> wish" where
  "sample_wish u e t = \<lparr>wi_userId = u, wi_eventId = e, wi_tenantId = Some ''t1'', wi_createdAt = t\<rparr>"


end
