(* ===== verification/Queries.thy ===== *)
theory Queries
  imports Json
begin

text \<open>
  Query strings as the language's \<open>URLSearchParams\<close> prints and reads them (the
  \<open>application/x-www-form-urlencoded\<close> form), and the debounced value of
  \<open>frontend/src/hooks/useDebounce.ts\<close>. A text is its UTF-8 bytes.
\<close>

section \<open>Encoding\<close>

definition form_keeps :: "char \<Rightarrow> bool" where
  "form_keeps c \<longleftrightarrow> (let n = (of_char c :: nat) in
     48 \<le> n \<and> n \<le> 57 \<or> 65 \<le> n \<and> n \<le> 90 \<or> 97 \<le> n \<and> n \<le> 122 \<or> n \<in> {42, 45, 46, 95})"

definition hex_upper :: "nat \<Rightarrow> char" where
  "hex_upper d = (if d < 10 then digit_char d else char_of (55 + d))"

definition form_byte :: "char \<Rightarrow> string" where
  "form_byte c = (if form_keeps c then [c]
     else if c = CHR '' '' then [CHR ''+'']
     else let n = (of_char c :: nat) in [CHR ''%'', hex_upper (n div 16), hex_upper (n mod 16)])"

definition form_encode :: "string \<Rightarrow> string" where
  "form_encode s = concat (map form_byte s)"

fun form_decode :: "string \<Rightarrow> string" where
  "form_decode [] = []"
| "form_decode (c # s) =
     (if c = CHR ''+'' then CHR '' '' # form_decode s
      else if c = CHR ''%'' then
        (case s of
           a # b # r \<Rightarrow> (case (hex_value a, hex_value b) of
               (Some x, Some y) \<Rightarrow> char_of (x * 16 + y) # form_decode r
             | _ \<Rightarrow> c # form_decode s)
         | _ \<Rightarrow> c # form_decode s)
      else c # form_decode s)"

section \<open>Parameters\<close>

type_synonym params = "(string \<times> string) list"

definition params_get :: "string \<Rightarrow> params \<Rightarrow> string option" where
  "params_get k ps = map_of ps k"

definition params_append :: "string \<Rightarrow> string \<Rightarrow> params \<Rightarrow> params" where
  "params_append k v ps = ps @ [(k, v)]"

definition params_delete :: "string \<Rightarrow> params \<Rightarrow> params" where
  "params_delete k ps = filter (\<lambda>p. fst p \<noteq> k) ps"

text \<open>\<open>set\<close> gives the first entry of the name the value and drops the others.\<close>

fun params_set :: "string \<Rightarrow> string \<Rightarrow> params \<Rightarrow> params" where
  "params_set k v [] = [(k, v)]"
| "params_set k v (p # ps) = (if fst p = k then (k, v) # params_delete k ps else p # params_set k v ps)"

definition params_text :: "params \<Rightarrow> string" where
  "params_text ps = join_with ''&'' (map (\<lambda>(k, v). form_encode k @ ''='' @ form_encode v) ps)"

definition split_pair :: "string \<Rightarrow> string \<times> string" where
  "split_pair s = (takeWhile (\<lambda>c. c \<noteq> CHR ''='') s, drop 1 (dropWhile (\<lambda>c. c \<noteq> CHR ''='') s))"

definition parse_params :: "string \<Rightarrow> params" where
  "parse_params s = map (\<lambda>p. let (k, v) = split_pair p in (form_decode k, form_decode v))
     (filter (\<lambda>p. p \<noteq> []) (split_on CHR ''&'' s))"

text \<open>The query of an address: what follows the first question mark.\<close>

definition query_of :: "string \<Rightarrow> params" where
  "query_of url = parse_params (drop 1 (dropWhile (\<lambda>c. c \<noteq> CHR ''?'') url))"

section \<open>What is printed is read back\<close>

lemma form_decode_plain:
  "c \<noteq> CHR ''+'' \<Longrightarrow> c \<noteq> CHR ''%'' \<Longrightarrow> form_decode (c # s) = c # form_decode s"
  by simp

lemma hex_upper_value: "d < 16 \<Longrightarrow> hex_value (hex_upper d) = Some d"
  by (auto simp: hex_value_def hex_upper_def of_char_digit of_char_of)

lemma hex_upper_kept: "d < 16 \<Longrightarrow> form_keeps (hex_upper d)"
  by (auto simp: form_keeps_def hex_upper_def of_char_digit of_char_of)

lemma of_char_bound: "of_char c < (256 :: nat)"
  using of_char_of [of "of_char c"] by (metis char_of_char mod_less_divisor of_char_of zero_less_numeral)

lemma form_decode_byte: "form_decode (form_byte c @ s) = c # form_decode s"
proof -
  let ?n = "of_char c :: nat"
  have n: "?n div 16 < 16" "?n mod 16 < 16" using of_char_bound [of c] by (simp_all add: less_mult_imp_div_less)
  have "form_keeps c \<Longrightarrow> c \<noteq> CHR ''+'' \<and> c \<noteq> CHR ''%''" by (auto simp: form_keeps_def)
  then show ?thesis using n by (auto simp: form_byte_def Let_def hex_upper_value)
qed

lemma form_decode_encode: "form_decode (form_encode s) = s"
  unfolding form_encode_def by (induction s) (simp_all add: form_decode_byte del: form_decode.simps(2))

lemma form_byte_safe: "x \<in> set (form_byte c) \<Longrightarrow> form_keeps x \<or> x = CHR ''+'' \<or> x = CHR ''%''"
  using of_char_bound [of c]
  by (auto simp: form_byte_def Let_def hex_upper_kept less_mult_imp_div_less split: if_splits)

lemma form_encode_safe:
  "CHR ''='' \<notin> set (form_encode s)" "CHR ''&'' \<notin> set (form_encode s)" "CHR ''?'' \<notin> set (form_encode s)"
  by (auto simp: form_encode_def form_keeps_def dest!: form_byte_safe)

lemma split_pair_printed:
  "split_pair (form_encode k @ CHR ''='' # form_encode v) = (form_encode k, form_encode v)"
proof -
  have "\<forall>c \<in> set (form_encode k). c \<noteq> CHR ''=''" using form_encode_safe(1) by metis
  then show ?thesis by (simp add: split_pair_def takeWhile_append2 dropWhile_append2)
qed

lemma parse_printed_pairs:
  "map (\<lambda>p. let (k, v) = split_pair p in (form_decode k, form_decode v))
     (map (\<lambda>(k, v). form_encode k @ ''='' @ form_encode v) ps) = ps"
  by (induction ps) (auto simp: split_pair_printed form_decode_encode)

lemma split_joined:
  "list_all (\<lambda>p. d \<notin> set p) ps \<Longrightarrow> ps \<noteq> [] \<Longrightarrow> split_on d (join_with [d] ps) = ps"
proof (induction "[d]" ps rule: join_with.induct)
  case (3 x y xs)
  then show ?case by (simp add: split_on_join)
qed (simp_all add: split_on_none)

lemma parse_params_text: "parse_params (params_text ps) = ps"
proof (cases "ps = []")
  case False
  let ?ws = "map (\<lambda>(k, v). form_encode k @ ''='' @ form_encode v) ps"
  have "list_all (\<lambda>p. CHR ''&'' \<notin> set p) ?ws"
    using form_encode_safe(2) by (auto simp: list_all_iff)
  with False have "split_on CHR ''&'' (params_text ps) = ?ws"
    by (simp add: params_text_def split_joined)
  moreover have "filter (\<lambda>p. p \<noteq> []) ?ws = ?ws" by (auto simp: filter_id_conv)
  ultimately show ?thesis by (simp only: parse_params_def parse_printed_pairs)
qed (simp add: params_text_def parse_params_def)

text \<open>Whatever names and values are put into a query, the page that is opened with the printed address
  reads exactly these parameters.\<close>

lemma query_roundtrip:
  assumes "CHR ''?'' \<notin> set path"
  shows "query_of (path @ ''?'' @ params_text ps) = ps"
proof -
  have "\<forall>c \<in> set path. c \<noteq> CHR ''?''" using assms by metis
  then show ?thesis by (simp add: query_of_def dropWhile_append2 parse_params_text)
qed

lemma map_of_filter_other: "k \<noteq> j \<Longrightarrow> map_of (filter (\<lambda>p. fst p \<noteq> j) ps) k = map_of ps k"
  by (induction ps) auto

lemma params_get_set: "params_get k (params_set j v ps) = (if k = j then Some v else params_get k ps)"
proof (induction ps)
  case (Cons p ps)
  then show ?case by (cases p) (auto simp: params_get_def params_delete_def map_of_filter_other)
qed (simp add: params_get_def)

section \<open>A debounced value\<close>

text \<open>A change starts a timer and clears the one before; when it fires, the debounced value becomes the
  value. Mounting starts a timer too. Times are milliseconds; a change to an equal value starts
  nothing.\<close>

record 'v debounce =
  db_value :: 'v
  db_debounced :: 'v
  db_due :: "nat option"

definition db_mount :: "nat \<Rightarrow> nat \<Rightarrow> 'v \<Rightarrow> 'v debounce" where
  "db_mount delay now v = \<lparr>db_value = v, db_debounced = v, db_due = Some (now + delay)\<rparr>"

definition db_elapse :: "nat \<Rightarrow> 'v debounce \<Rightarrow> 'v debounce" where
  "db_elapse now h = (case db_due h of
     Some due \<Rightarrow> if due \<le> now then h\<lparr>db_debounced := db_value h, db_due := None\<rparr> else h
   | None \<Rightarrow> h)"

definition db_change :: "nat \<Rightarrow> nat \<Rightarrow> 'v \<Rightarrow> 'v debounce \<Rightarrow> 'v debounce" where
  "db_change delay now v h = (let h' = db_elapse now h in
     if v = db_value h' then h' else h'\<lparr>db_value := v, db_due := Some (now + delay)\<rparr>)"

fun db_changes :: "nat \<Rightarrow> (nat \<times> 'v) list \<Rightarrow> 'v debounce \<Rightarrow> 'v debounce" where
  "db_changes delay [] h = h"
| "db_changes delay ((now, v) # cs) h = db_changes delay cs (db_change delay now v h)"

text \<open>Whenever no timer runs the two values agree, and a timer runs at most \<open>delay\<close> longer.\<close>

definition db_ok :: "nat \<Rightarrow> nat \<Rightarrow> 'v debounce \<Rightarrow> bool" where
  "db_ok delay now h \<longleftrightarrow> (case db_due h of None \<Rightarrow> db_debounced h = db_value h | Some due \<Rightarrow> due \<le> now + delay)"

lemma db_ok_mount: "db_ok delay now (db_mount delay now v)"
  by (simp add: db_ok_def db_mount_def)

lemma db_ok_change: "db_ok delay t h \<Longrightarrow> t \<le> now \<Longrightarrow> db_ok delay now (db_change delay now v h)"
  by (auto simp: db_ok_def db_change_def db_elapse_def Let_def split: option.splits)

lemma db_value_elapse [simp]: "db_value (db_elapse now h) = db_value h"
  by (simp add: db_elapse_def split: option.split)

lemma db_value_change [simp]: "db_value (db_change delay now v h) = v"
  by (simp add: db_change_def Let_def)

text \<open>After a pause of \<open>delay\<close> the debounced value is the last one typed.\<close>

lemma debounced_settles:
  assumes "db_ok delay t h" "sorted (t # map fst cs)"
    and "last (t # map fst cs) + delay \<le> now"
  shows "db_debounced (db_elapse now (db_changes delay cs h)) = last (db_value h # map snd cs)"
  using assms
proof (induction cs arbitrary: t h)
  case Nil
  then show ?case by (auto simp: db_ok_def db_elapse_def split: option.split)
next
  case (Cons c cs)
  obtain s v where c: "c = (s, v)" by (cases c)
  from Cons.prems c have "db_ok delay s (db_change delay s v h)" by (auto intro: db_ok_change)
  from Cons.IH [OF this] Cons.prems c show ?case by simp
qed

text \<open>While the changes follow each other within the delay, the debounced value stays.\<close>

lemma debounced_waits:
  assumes "db_due h = Some due" "now < due"
  shows "db_debounced (db_change delay now v h) = db_debounced h"
    "db_due (db_change delay now v h) = Some (if v = db_value h then due else now + delay)"
  using assms by (simp_all add: db_change_def db_elapse_def Let_def)

end
