(* ===== verification/Calendar.thy ===== *)
theory Calendar
  imports Texts
begin

text \<open>
  Dates as the language's \<open>Date\<close> prints them: a time is a number of milliseconds since 1 January 1970,
  \<open>toISOString\<close> prints its UTC date and time, \<open>getDay\<close> and \<open>setDate\<close> work on the local day. The
  local time is UTC plus a fixed offset, as in a zone without summer time. The main lemma is that the
  printed dates, compared as texts, are ordered as the days are.
\<close>

section \<open>The civil calendar\<close>

type_synonym civil = "nat \<times> nat \<times> nat"

definition leap_year :: "nat \<Rightarrow> bool" where
  "leap_year y \<longleftrightarrow> y mod 4 = 0 \<and> (y mod 100 \<noteq> 0 \<or> y mod 400 = 0)"

definition month_length :: "nat \<Rightarrow> nat \<Rightarrow> nat" where
  "month_length y m =
     (if m = 2 then if leap_year y then 29 else 28
      else if m \<in> {4, 6, 9, 11} then 30 else 31)"

fun next_day :: "civil \<Rightarrow> civil" where
  "next_day (y, m, d) =
     (if d < month_length y m then (y, m, d + 1)
      else if m < 12 then (y, m + 1, 1) else (y + 1, 1, 1))"

definition civil_of :: "nat \<Rightarrow> civil" where
  "civil_of day = (next_day ^^ day) (1970, 1, 1)"

fun earlier :: "civil \<Rightarrow> civil \<Rightarrow> bool" where
  "earlier (y, m, d) (y', m', d') \<longleftrightarrow> y < y' \<or> (y = y' \<and> (m < m' \<or> (m = m' \<and> d < d')))"

fun civil_ok :: "civil \<Rightarrow> bool" where
  "civil_ok (y, m, d) \<longleftrightarrow> m \<in> {1..12} \<and> d \<in> {1..31}"

lemma month_length_bounds: "28 \<le> month_length y m" "month_length y m \<le> 31"
  by (auto simp: month_length_def)

lemma next_day_later: "earlier c (next_day c)"
  by (cases c rule: next_day.cases) auto

lemma next_day_ok: "civil_ok c \<Longrightarrow> civil_ok (next_day c)"
proof (cases c rule: next_day.cases)
  case (1 y m d)
  then show "civil_ok c \<Longrightarrow> civil_ok (next_day c)"
    using month_length_bounds(2) [of y m] by auto
qed

lemma earlier_trans: "earlier a b \<Longrightarrow> earlier b c \<Longrightarrow> earlier a c"
  by (cases a rule: next_day.cases, cases b rule: next_day.cases, cases c rule: next_day.cases) auto

lemma earlier_irrefl: "\<not> earlier a a"
  by (cases a rule: next_day.cases) auto

lemma civil_of_Suc: "civil_of (Suc n) = next_day (civil_of n)"
  by (simp add: civil_of_def)

lemma civil_of_ok: "civil_ok (civil_of n)"
  by (induction n) (simp_all add: civil_of_Suc next_day_ok, simp add: civil_of_def)

lemma civil_of_later: "m < n \<Longrightarrow> earlier (civil_of m) (civil_of n)"
proof (induction n)
  case (Suc n)
  then show ?case
    using next_day_later [of "civil_of n"] by (auto simp: civil_of_Suc less_Suc_eq intro: earlier_trans)
qed simp

lemma civil_of_less_iff: "earlier (civil_of m) (civil_of n) \<longleftrightarrow> m < n"
  by (metis civil_of_later earlier_irrefl earlier_trans linorder_neqE_nat)

lemma civil_of_inject: "civil_of m = civil_of n \<longleftrightarrow> m = n"
  by (metis civil_of_later earlier_irrefl linorder_neqE_nat)

definition year_of :: "nat \<Rightarrow> nat" where
  "year_of day = fst (civil_of day)"

lemma year_of_mono: "m \<le> n \<Longrightarrow> year_of m \<le> year_of n"
  using civil_of_later [of m n]
  by (cases "civil_of m" rule: next_day.cases, cases "civil_of n" rule: next_day.cases) (auto simp: year_of_def le_less)

section \<open>Texts in order\<close>

text \<open>\<open>a < b\<close> and \<open>a <= b\<close> on texts: by the codes of the characters, a prefix first.\<close>

fun text_less :: "string \<Rightarrow> string \<Rightarrow> bool" where
  "text_less s [] = False"
| "text_less [] (c # t) = True"
| "text_less (a # s) (b # t) = (of_char a < (of_char b :: nat) \<or> (a = b \<and> text_less s t))"

definition text_le :: "string \<Rightarrow> string \<Rightarrow> bool" where
  "text_le s t \<longleftrightarrow> \<not> text_less t s"

lemma text_less_irrefl: "\<not> text_less s s"
  by (induction s) auto

lemma text_less_append: "text_less (p @ s) (p @ t) = text_less s t"
  by (induction p) auto

lemma text_less_split:
  "length p = length q \<Longrightarrow> text_less (p @ s) (q @ t) \<longleftrightarrow> text_less p q \<or> (p = q \<and> text_less s t)"
  by (induction p q rule: list_induct2) auto

text \<open>Numerals of a fixed number of digits (\<open>padStart\<close> with zeros).\<close>

fun padded :: "nat \<Rightarrow> nat \<Rightarrow> string" where
  "padded 0 n = []"
| "padded (Suc w) n = padded w (n div 10) @ [digit_char (n mod 10)]"

lemma length_padded [simp]: "length (padded w n) = w"
  by (induction w arbitrary: n) auto

lemma digit_less [simp]: "m < 10 \<Longrightarrow> n < 10 \<Longrightarrow> of_char (digit_char m) < (of_char (digit_char n) :: nat) \<longleftrightarrow> m < n"
  by (simp add: of_char_digit)

lemma digit_char_eq: "m < 10 \<Longrightarrow> n < 10 \<Longrightarrow> digit_char m = digit_char n \<longleftrightarrow> m = n"
  by (metis char_digit_char)

lemma padded_eq: "a < 10 ^ w \<Longrightarrow> b < 10 ^ w \<Longrightarrow> padded w a = padded w b \<longleftrightarrow> a = b"
proof (induction w arbitrary: a b)
  case (Suc w)
  then have "padded w (a div 10) = padded w (b div 10) \<longleftrightarrow> a div 10 = b div 10"
    by (simp add: less_mult_imp_div_less)
  then show ?case
    by (auto simp: digit_char_eq) (metis div_mult_mod_eq)
qed simp

lemma less_by_digits: "(a :: nat) < b \<longleftrightarrow> a div 10 < b div 10 \<or> (a div 10 = b div 10 \<and> a mod 10 < b mod 10)"
proof -
  have "a = a div 10 * 10 + a mod 10" "b = b div 10 * 10 + b mod 10" "a mod 10 < 10" "b mod 10 < 10" by simp_all
  then show ?thesis by linarith
qed

lemma padded_less:
  "a < 10 ^ w \<Longrightarrow> b < 10 ^ w \<Longrightarrow> text_less (padded w a) (padded w b) \<longleftrightarrow> a < b"
proof (induction w arbitrary: a b)
  case (Suc w)
  then have d: "a div 10 < 10 ^ w" "b div 10 < 10 ^ w" by (simp_all add: less_mult_imp_div_less)
  have "text_less (padded (Suc w) a) (padded (Suc w) b)
      \<longleftrightarrow> a div 10 < b div 10 \<or> (a div 10 = b div 10 \<and> a mod 10 < b mod 10)"
    using Suc.IH [OF d] padded_eq [OF d] by (simp add: text_less_split)
  also have "\<dots> \<longleftrightarrow> a < b" by (rule less_by_digits [symmetric])
  finally show ?case .
qed simp

section \<open>Printed dates\<close>

fun iso_civil :: "civil \<Rightarrow> string" where
  "iso_civil (y, m, d) = padded 4 y @ ''-'' @ padded 2 m @ ''-'' @ padded 2 d"

definition iso_date :: "nat \<Rightarrow> string" where
  "iso_date day = iso_civil (civil_of day)"

definition day_ms :: nat where
  "day_ms = 86400000"

text \<open>\<open>toISOString\<close>, for the years up to 9999.\<close>

definition iso_time :: "nat \<Rightarrow> string" where
  "iso_time ms = padded 2 (ms div 3600000) @ '':'' @ padded 2 (ms div 60000 mod 60) @ '':''
     @ padded 2 (ms div 1000 mod 60) @ ''.'' @ padded 3 (ms mod 1000) @ ''Z''"

definition iso_datetime :: "nat \<Rightarrow> string" where
  "iso_datetime t = iso_date (t div day_ms) @ ''T'' @ iso_time (t mod day_ms)"

lemma length_iso_date [simp]: "length (iso_date day) = 10"
  by (cases "civil_of day" rule: next_day.cases) (simp add: iso_date_def)

lemma iso_civil_less:
  assumes "civil_ok a" "civil_ok b" "fst a < 10000" "fst b < 10000"
  shows "text_less (iso_civil a) (iso_civil b) \<longleftrightarrow> earlier a b"
proof -
  obtain y m d y' m' d' where ab: "a = (y, m, d)" "b = (y', m', d')"
    by (cases a rule: next_day.cases, cases b rule: next_day.cases) blast
  then have "y < 10 ^ 4" "y' < 10 ^ 4" "m < 10 ^ 2" "m' < 10 ^ 2" "d < 10 ^ 2" "d' < 10 ^ 2"
    using assms by auto
  then show ?thesis
    unfolding ab iso_civil.simps by (simp add: text_less_split padded_less padded_eq)
qed

text \<open>Dates compared as texts are in the order of the days.\<close>

lemma iso_date_less:
  assumes "year_of m < 10000" "year_of n < 10000"
  shows "text_less (iso_date m) (iso_date n) \<longleftrightarrow> m < n"
  using assms iso_civil_less [OF civil_of_ok civil_of_ok, of m n]
  by (simp add: iso_date_def year_of_def civil_of_less_iff)

lemma iso_date_inject:
  assumes "year_of m < 10000" "year_of n < 10000" "iso_date m = iso_date n"
  shows "m = n"
  using assms(3) iso_date_less [OF assms(1,2)] iso_date_less [OF assms(2,1)]
  by (metis linorder_neqE_nat text_less_irrefl)

text \<open>A date with a time is after the date alone, so it is at most another date exactly if its day is
  earlier.\<close>

lemma datetime_le_date:
  assumes "year_of (t div day_ms) < 10000" "year_of n < 10000"
  shows "text_le (iso_datetime t) (iso_date n) \<longleftrightarrow> t div day_ms < n"
proof -
  have "text_less (iso_date n) (iso_datetime t)
      \<longleftrightarrow> text_less (iso_date n) (iso_date (t div day_ms)) \<or> iso_date n = iso_date (t div day_ms)"
    using text_less_split [of "iso_date n" "iso_date (t div day_ms)" "[]" "''T'' @ iso_time (t mod day_ms)"]
    by (simp add: iso_datetime_def)
  also have "\<dots> \<longleftrightarrow> n \<le> t div day_ms"
    using iso_date_less [OF assms(2,1)] iso_date_inject [OF assms(2,1)] by auto
  finally show ?thesis by (auto simp: text_le_def)
qed

section \<open>Local days\<close>

text \<open>\<open>tz\<close> is the offset of the zone in milliseconds. Day 0 was a Thursday; \<open>getDay\<close> counts from Sunday.\<close>

definition local_day :: "nat \<Rightarrow> nat \<Rightarrow> nat" where
  "local_day tz now = (now + tz) div day_ms"

definition getDay :: "nat \<Rightarrow> nat \<Rightarrow> nat" where
  "getDay tz now = (local_day tz now + 4) mod 7"

text \<open>\<open>d.setDate(d.getDate() + k)\<close> keeps the local time of the day.\<close>

definition add_days :: "nat \<Rightarrow> nat \<Rightarrow> nat" where
  "add_days k now = now + k * day_ms"

text \<open>\<open>toISOString().split('T')[0]\<close>\<close>

definition utc_date :: "nat \<Rightarrow> string" where
  "utc_date now = hd (split_on CHR ''T'' (iso_datetime now))"

lemma padded_no_letter: "c \<in> set (padded w n) \<Longrightarrow> is_digit c"
  by (induction w arbitrary: n) auto

lemma utc_date_eq: "utc_date now = iso_date (now div day_ms)"
proof -
  have "CHR ''T'' \<notin> set (iso_date (now div day_ms))"
    by (cases "civil_of (now div day_ms)" rule: next_day.cases)
      (auto simp: iso_date_def is_digit_def dest: padded_no_letter)
  from split_on_join [OF this, of "iso_time (now mod day_ms)"] show ?thesis
    by (simp add: utc_date_def iso_datetime_def)
qed

lemma add_days_div [simp]: "add_days k now div day_ms = now div day_ms + k"
  by (simp add: add_days_def day_ms_def)

lemma local_day_add [simp]: "local_day tz (add_days k now) = local_day tz now + k"
proof -
  have "now + k * day_ms + tz = now + tz + k * day_ms" by simp
  then show ?thesis by (simp add: local_day_def add_days_def day_ms_def)
qed

end
