(* ===== verification/Catalogue.thy ===== *)
theory Catalogue
  imports Queries Calendar History Slugs
begin

text \<open>
  Finding an event: the home page with its search, quick filters and sections
  (\<open>frontend/src/features/home/components\<close>), the client of the event list
  (\<open>features/events/api/events.api.ts\<close>), the list page (\<open>app/(protected)/events/page.tsx\<close>), the event
  card and the page of one event (\<open>app/(protected)/events/[id]/page.tsx\<close>). The router is given an
  address and opens the page with the parameters of its query.
\<close>

section \<open>The client of the list\<close>

record event_filters =
  ef_page :: "int option"
  ef_limit :: "int option"
  ef_search :: "string option"
  ef_type :: "string option"
  ef_date :: "string option"
  ef_minPrice :: "string option"
  ef_maxPrice :: "string option"
  ef_cursor :: "string option"

definition no_filters :: event_filters where
  "no_filters = \<lparr>ef_page = None, ef_limit = None, ef_search = None, ef_type = None, ef_date = None,
     ef_minPrice = None, ef_maxPrice = None, ef_cursor = None\<rparr>"

definition number_param :: "string \<Rightarrow> int option \<Rightarrow> params" where
  "number_param k v = (case v of None \<Rightarrow> [] | Some n \<Rightarrow> if n = 0 then [] else [(k, show_int n)])"

definition text_param :: "string \<Rightarrow> string option \<Rightarrow> params" where
  "text_param k v = (if truthy v then [(k, or_str v [])] else [])"

text \<open>A price is its printed form; only an undefined and an empty one are left out.\<close>

definition getEvents_params :: "event_filters \<Rightarrow> params" where
  "getEvents_params f =
     number_param ''page'' (ef_page f) @ number_param ''limit'' (ef_limit f)
     @ text_param ''search'' (ef_search f) @ text_param ''type'' (ef_type f) @ text_param ''date'' (ef_date f)
     @ text_param ''minPrice'' (ef_minPrice f) @ text_param ''maxPrice'' (ef_maxPrice f)
     @ text_param ''cursor'' (ef_cursor f)"

definition getEvents_url :: "event_filters \<Rightarrow> string" where
  "getEvents_url f = ''/events?'' @ params_text (getEvents_params f)"

definition getEventById_url :: "string \<Rightarrow> string" where
  "getEventById_url i = ''/events/'' @ i"

section \<open>Events\<close>

text \<open>A time of an event is the text the server sent; \<open>parse\<close> reads it as milliseconds, \<open>None\<close> for an
  invalid date. An absent number is \<open>None\<close>, which is smaller than nothing.\<close>

record catalog_show =
  cs_id :: "string option"
  cs_startTime :: "string option"
  cs_basePrice :: json
  cs_price :: json
  cs_screen :: "string option"
  cs_theater :: "(string option \<times> string option) option"

record catalog_event =
  ce_id :: string
  ce_title :: string
  ce_type :: "string option"
  ce_date :: string
  ce_location :: "string option"
  ce_price :: json
  ce_availableSeats :: "int option"
  ce_posterUrl :: "string option"
  ce_bannerUrl :: "string option"
  ce_description :: string
  ce_language :: "string option"
  ce_duration :: json
  ce_genre :: "string option"
  ce_shows :: "catalog_show list"

definition firstShow :: "catalog_event \<Rightarrow> catalog_show option" where
  "firstShow e = (case ce_shows e of [] \<Rightarrow> None | h # _ \<Rightarrow> Some h)"

definition js_or :: "json \<Rightarrow> json \<Rightarrow> json" where
  "js_or a b = (if json_truthy a then a else b)"

definition isPast :: "(string \<Rightarrow> int option) \<Rightarrow> int \<Rightarrow> catalog_event \<Rightarrow> bool" where
  "isPast parse now e = (case parse (ce_date e) of None \<Rightarrow> False | Some t \<Rightarrow> t < now)"

definition sold_out :: "int option \<Rightarrow> bool" where
  "sold_out seats = (case seats of None \<Rightarrow> False | Some n \<Rightarrow> n \<le> 0)"

definition seats_below :: "int \<Rightarrow> int option \<Rightarrow> bool" where
  "seats_below k seats = (case seats of None \<Rightarrow> False | Some n \<Rightarrow> n < k)"

section \<open>The event card\<close>

definition type_config :: "string option \<Rightarrow> string \<times> string" where
  "type_config t =
     (if t = Some ''MOVIE'' then (''Movie'', ''violet'')
      else if t = Some ''CONCERT'' then (''Concert'', ''pink'')
      else if t = Some ''GENERAL_ADMISSION'' then (''Sports'', ''emerald'')
      else (''Stage Show'', ''amber''))"

record event_card_view =
  ec_href :: string
  ec_image :: string
  ec_sold_out :: bool
  ec_config :: "string \<times> string"
  ec_completed :: bool
  ec_title :: string
  ec_place :: string
  ec_price :: string
  ec_left :: "int option"

definition theater_name :: "catalog_event \<Rightarrow> string option" where
  "theater_name e = (case firstShow e of None \<Rightarrow> None
     | Some h \<Rightarrow> (case cs_theater h of None \<Rightarrow> None | Some (n, _) \<Rightarrow> n))"

definition EventCard :: "(string \<Rightarrow> int option) \<Rightarrow> int \<Rightarrow> bool \<Rightarrow> catalog_event \<Rightarrow> event_card_view" where
  "EventCard parse now imageError e =
     (let past = isPast parse now e; gone = sold_out (ce_availableSeats e) in
      \<lparr>ec_href = ''/events/'' @ ce_id e,
       ec_image = (if truthy (ce_posterUrl e) \<and> \<not> imageError then or_str (ce_posterUrl e) [] else ''/placeholder.jpg''),
       ec_sold_out = (gone \<and> \<not> past), ec_config = type_config (ce_type e), ec_completed = past,
       ec_title = ce_title e,
       ec_place = or_str (theater_name e) (or_str (ce_location e) ''Location TBA''),
       ec_price = formatINR (case firstShow e of None \<Rightarrow> Num 0 | Some h \<Rightarrow> js_or (cs_basePrice h) (js_or (cs_price h) (Num 0))),
       ec_left = (if \<not> past \<and> \<not> gone \<and> seats_below 50 (ce_availableSeats e) then ce_availableSeats e else None)\<rparr>)"

section \<open>The page of one event\<close>

record event_page =
  ep_realtimeSeats :: "int option"
  ep_imageError :: bool
  ep_bannerError :: bool

definition fresh_event_page :: event_page where
  "fresh_event_page = \<lparr>ep_realtimeSeats = None, ep_imageError = False, ep_bannerError = False\<rparr>"

definition handleSeatUpdate :: "string \<Rightarrow> string \<Rightarrow> int \<Rightarrow> event_page \<Rightarrow> event_page" where
  "handleSeatUpdate i eventId availableSeats p =
     (if eventId = i then p\<lparr>ep_realtimeSeats := Some availableSeats\<rparr> else p)"

definition displaySeats :: "event_page \<Rightarrow> catalog_event \<Rightarrow> int option" where
  "displaySeats p e = (case ep_realtimeSeats p of None \<Rightarrow> ce_availableSeats e | Some n \<Rightarrow> Some n)"

definition type_label :: "string option \<Rightarrow> string" where
  "type_label t =
     (if t = Some ''MOVIE'' then ''Cinematic Experience''
      else if t = Some ''CONCERT'' then ''Live Music Performance''
      else if t = Some ''EVENT'' then ''Stage & Theater''
      else if t = Some ''GENERAL_ADMISSION'' then ''Sports & Games''
      else ''Featured Experience'')"

text \<open>A button: whether it is enabled, its text, and what pressing it does.\<close>

datatype press = Go string | Toast_error string | Nothing_happens

record button =
  bu_enabled :: bool
  bu_text :: string
  bu_press :: press

definition booking_press :: "press \<Rightarrow> catalog_event \<Rightarrow> press" where
  "booking_press otherwise e = (case firstShow e of
     Some h \<Rightarrow> if truthy (cs_id h) then Go (''/shows/'' @ or_str (cs_id h) []) else otherwise
   | None \<Rightarrow> otherwise)"

record event_details =
  dt_banner :: string
  dt_poster :: string
  dt_sold_out :: bool
  dt_completed :: bool
  dt_type :: "string option"
  dt_label :: string
  dt_language :: string
  dt_duration :: json
  dt_genre :: string
  dt_venue :: "string option"
  dt_hall :: string
  dt_address :: string
  dt_doors :: string
  dt_price :: string
  dt_seats :: "int option \<times> bool"
  dt_button :: "button option"
  dt_mobile :: "button option"

definition event_banner :: "event_page \<Rightarrow> catalog_event \<Rightarrow> string" where
  "event_banner p e =
     (if (truthy (ce_bannerUrl e) \<or> truthy (ce_posterUrl e)) \<and> \<not> ep_bannerError p
      then or_str (ce_bannerUrl e) (or_str (ce_posterUrl e) []) else ''/placeholder.jpg'')"

definition standard_price :: "catalog_event \<Rightarrow> json" where
  "standard_price e = (case firstShow e of None \<Rightarrow> ce_price e | Some h \<Rightarrow> js_or (cs_basePrice h) (ce_price e))"

definition show_field :: "(catalog_show \<Rightarrow> string option) \<Rightarrow> catalog_event \<Rightarrow> string option" where
  "show_field f e = (case firstShow e of None \<Rightarrow> None | Some h \<Rightarrow> f h)"

definition event_details_of :: "(string \<Rightarrow> int option) \<Rightarrow> int \<Rightarrow> event_page \<Rightarrow> catalog_event \<Rightarrow> event_details" where
  "event_details_of parse now p e =
     (let past = isPast parse now e; seats = displaySeats p e; gone = sold_out seats in
      \<lparr>dt_banner = event_banner p e,
       dt_poster = (if truthy (ce_posterUrl e) \<and> \<not> ep_imageError p then or_str (ce_posterUrl e) [] else ''/placeholder.jpg''),
       dt_sold_out = (gone \<and> \<not> past), dt_completed = past, dt_type = ce_type e, dt_label = type_label (ce_type e),
       dt_language = or_str (ce_language e) ''English'', dt_duration = js_or (ce_duration e) (Num 120),
       dt_genre = or_str (ce_genre e) ''Action / Drama'',
       dt_venue = (if truthy (theater_name e) then theater_name e else ce_location e),
       dt_hall = or_str (show_field cs_screen e) ''Main Hall'',
       dt_address = or_str (show_field (\<lambda>h. case cs_theater h of None \<Rightarrow> None | Some (_, a) \<Rightarrow> a) e)
         ''Address information available at checkout.'',
       dt_doors = or_str (show_field cs_startTime e) (ce_date e),
       dt_price = formatINR (standard_price e), dt_seats = (if gone then None else seats, seats_below 10 seats),
       dt_button = (if past then None else Some \<lparr>bu_enabled = (\<not> gone),
         bu_text = (if gone then ''Sold Out'' else ''Confirm Booking''),
         bu_press = booking_press (Toast_error ''Shows fully booked'') e\<rparr>),
       dt_mobile = (if past then None else Some \<lparr>bu_enabled = (\<not> gone),
         bu_text = (if gone then ''Sold Out'' else ''Book Tickets''), bu_press = booking_press Nothing_happens e\<rparr>)\<rparr>)"

datatype event_view = Event_blank | Event_skeleton | Event_not_found | Event_shown event_details

definition EventDetailsPage ::
  "(string \<Rightarrow> int option) \<Rightarrow> int \<Rightarrow> bool \<Rightarrow> bool \<Rightarrow> bool \<Rightarrow> catalog_event option \<Rightarrow> event_page \<Rightarrow> event_view" where
  "EventDetailsPage parse now hasHydrated isLoading isError event p =
     (if \<not> hasHydrated then Event_blank
      else if isLoading then Event_skeleton
      else case event of
        None \<Rightarrow> Event_not_found
      | Some e \<Rightarrow> if isError then Event_not_found else Event_shown (event_details_of parse now p e))"

section \<open>The list page\<close>

text \<open>\<open>ps\<close> are the parameters of the page's address. The search box starts as the parameter and is
  debounced by 300 milliseconds.\<close>

definition querySearch :: "params \<Rightarrow> string" where
  "querySearch ps = or_str (params_get ''search'' ps) []"

definition queryType :: "params \<Rightarrow> string option" where
  "queryType ps = params_get ''type'' ps"

definition open_events :: "nat \<Rightarrow> params \<Rightarrow> string debounce" where
  "open_events now ps = db_mount 300 now (querySearch ps)"

definition type_search :: "nat \<Rightarrow> string \<Rightarrow> string debounce \<Rightarrow> string debounce" where
  "type_search now s h = db_change 300 now s h"

definition list_filters :: "string \<Rightarrow> params \<Rightarrow> string option \<Rightarrow> event_filters" where
  "list_filters debouncedSearch ps cursor =
     no_filters\<lparr>ef_cursor := cursor, ef_limit := Some 9, ef_search := Some debouncedSearch, ef_type := queryType ps\<rparr>"

definition list_request :: "string \<Rightarrow> params \<Rightarrow> string option \<Rightarrow> string" where
  "list_request debouncedSearch ps cursor = getEvents_url (list_filters debouncedSearch ps cursor)"

text \<open>The pages fetched so far; the next one is asked for with the cursor of the last.\<close>

record catalog_page =
  pg_data :: "catalog_event list"
  pg_nextCursor :: "string option"

definition hasNextPage :: "catalog_page list \<Rightarrow> bool" where
  "hasNextPage pages = (pages \<noteq> [] \<and> pg_nextCursor (last pages) \<noteq> None)"

definition fetchNextPage :: "(string \<Rightarrow> catalog_page) \<Rightarrow> string \<Rightarrow> params \<Rightarrow> catalog_page list \<Rightarrow> catalog_page list" where
  "fetchNextPage answer debouncedSearch ps pages =
     (if pages = [] then [answer (list_request debouncedSearch ps None)]
      else if hasNextPage pages then pages @ [answer (list_request debouncedSearch ps (pg_nextCursor (last pages)))]
      else pages)"

definition apply_update :: "string \<times> string option \<Rightarrow> params \<Rightarrow> params" where
  "apply_update u ps = (case u of (k, v) \<Rightarrow> if truthy v then params_set k (or_str v []) ps else params_delete k ps)"

definition handleFilterChange :: "string \<Rightarrow> (string \<times> string option) list \<Rightarrow> params \<Rightarrow> string" where
  "handleFilterChange pathname updates ps = pathname @ ''?'' @ params_text (fold apply_update updates ps)"

definition category_options :: "(string \<times> string) list" where
  "category_options = [([], ''All Categories''), (''MOVIE'', ''Movies''), (''CONCERT'', ''Concerts''), (''EVENT'', ''Live Events'')]"

definition list_heading :: "params \<Rightarrow> string" where
  "list_heading ps = (if truthy (queryType ps)
     then let t = or_str (queryType ps) [] in take 1 t @ to_lower (drop 1 t) @ ''s'' else ''Explore Events'')"

datatype list_page_view =
    List_blank
  | List_error string
  | List_skeletons
  | List_empty string string bool
  | List_grid "catalog_event list" bool

definition empty_heading :: "string \<Rightarrow> params \<Rightarrow> string" where
  "empty_heading debouncedSearch ps =
     (if debouncedSearch \<noteq> [] then ''No match found for your search''
      else if truthy (queryType ps) then ''No '' @ to_lower (or_str (queryType ps) []) @ ''s scheduled''
      else ''No events available'')"

definition empty_hint :: "string \<Rightarrow> string" where
  "empty_hint debouncedSearch =
     (if debouncedSearch \<noteq> [] then ''Try using different keywords or clearing filters.''
      else ''Check back later for new dates and shows.'')"

text \<open>The query of the page: it is loading, failed with a message, or has pages.\<close>

datatype list_query = List_loading | List_failed string | List_pages "catalog_page list"

definition EventsPage :: "bool \<Rightarrow> string \<Rightarrow> params \<Rightarrow> list_query \<Rightarrow> list_page_view" where
  "EventsPage hasHydrated debouncedSearch ps q =
     (if \<not> hasHydrated then List_blank
      else case q of
        List_failed m \<Rightarrow> List_error (if m = [] then ''There was a problem connecting to our servers.'' else m)
      | List_loading \<Rightarrow> List_skeletons
      | List_pages pages \<Rightarrow>
          if pages = [] \<or> pg_data (hd pages) = []
          then List_empty (empty_heading debouncedSearch ps) (empty_hint debouncedSearch)
                 (debouncedSearch \<noteq> [] \<or> truthy (queryType ps))
          else List_grid (concat (map pg_data pages)) (hasNextPage pages))"

section \<open>The home page\<close>

text \<open>White space beyond ASCII is left to the reader's locale.\<close>

definition trim_query :: "string \<Rightarrow> string" where
  "trim_query s = (let blank = (\<lambda>c. is_space c \<and> of_char c < (128 :: nat)) in
     rev (dropWhile blank (rev (dropWhile blank s))))"

definition handleSearch :: "string \<Rightarrow> string" where
  "handleSearch query = ''/events?'' @ params_text
     (if trim_query query \<noteq> [] then params_set ''search'' (trim_query query) [] else [])"

definition getTodayDate :: "nat \<Rightarrow> string" where
  "getTodayDate now = utc_date now"

definition getWeekendDateRange :: "nat \<Rightarrow> nat \<Rightarrow> string" where
  "getWeekendDateRange tz now =
     (let day = getDay tz now; daysToSat = (if day = 0 then 6 else 6 - day)
      in utc_date (add_days daysToSat now))"

datatype quick_filter = Today | This_weekend | Movies_filter | Concerts_filter

definition quick_filters :: "quick_filter list" where
  "quick_filters = [Today, This_weekend, Movies_filter, Concerts_filter]"

fun handleQuickFilter :: "nat \<Rightarrow> nat \<Rightarrow> quick_filter \<Rightarrow> string" where
  "handleQuickFilter tz now Movies_filter = ''/events?type=MOVIE''"
| "handleQuickFilter tz now Concerts_filter = ''/events?type=CONCERT''"
| "handleQuickFilter tz now Today = ''/events?date='' @ getTodayDate now"
| "handleQuickFilter tz now This_weekend = ''/events?date='' @ getWeekendDateRange tz now"

definition category_links :: "(string \<times> string) list" where
  "category_links = [(''Movies'', ''/events?type=MOVIE''), (''Concerts'', ''/events?type=CONCERT''),
     (''Theater'', ''/events?type=EVENT''), (''Sports Events'', ''/events?type=GENERAL_ADMISSION'')]"

text \<open>The city picker of the hero section: nothing reads the city.\<close>

record hero =
  he_query :: string
  he_city :: string
  he_cityOpen :: bool

definition fresh_hero :: hero where
  "fresh_hero = \<lparr>he_query = [], he_city = ''Mumbai'', he_cityOpen = False\<rparr>"

definition cities :: "string list" where
  "cities = [''Mumbai'', ''Delhi'', ''Bengaluru'', ''Hyderabad'', ''Chennai'', ''Pune'', ''Kolkata'', ''Ahmedabad'']"

definition toggle_cities :: "hero \<Rightarrow> hero" where
  "toggle_cities h = h\<lparr>he_cityOpen := \<not> he_cityOpen h\<rparr>"

definition click_outside :: "hero \<Rightarrow> hero" where
  "click_outside h = h\<lparr>he_cityOpen := False\<rparr>"

definition choose_city :: "string \<Rightarrow> hero \<Rightarrow> hero" where
  "choose_city c h = h\<lparr>he_city := c, he_cityOpen := False\<rparr>"

definition submit_hero :: "hero \<Rightarrow> string" where
  "submit_hero h = handleSearch (he_query h)"

text \<open>The weekend section asks for the events from today on and keeps those dated up to Sunday,
  compared as texts; if none is left it shows the first of all.\<close>

definition todayISO :: "nat \<Rightarrow> string" where
  "todayISO now = utc_date now"

definition weekendEndISO :: "nat \<Rightarrow> nat \<Rightarrow> string" where
  "weekendEndISO tz now =
     (let daysUntilSunday = (if getDay tz now = 0 then 0 else 7 - getDay tz now)
      in utc_date (add_days daysUntilSunday now))"

definition weekend_request :: "nat \<Rightarrow> string" where
  "weekend_request now = getEvents_url (no_filters\<lparr>ef_date := Some (todayISO now), ef_limit := Some 12\<rparr>)"

definition this_weekend :: "nat \<Rightarrow> nat \<Rightarrow> catalog_event \<Rightarrow> bool" where
  "this_weekend tz now e \<longleftrightarrow> ce_date e \<noteq> [] \<and> text_le (ce_date e) (weekendEndISO tz now)"

definition weekend_events :: "nat \<Rightarrow> nat \<Rightarrow> catalog_event list \<Rightarrow> catalog_event list" where
  "weekend_events tz now es =
     (let filtered = take 8 (filter (this_weekend tz now) es) in if filtered \<noteq> [] then filtered else take 8 es)"

definition featured_request :: string where
  "featured_request = getEvents_url (no_filters\<lparr>ef_type := Some ''MOVIE'', ef_limit := Some 8\<rparr>)"

definition featured_movies :: "catalog_event list \<Rightarrow> catalog_event list" where
  "featured_movies es = take 8 es"

text \<open>Both lists must arrive.\<close>

definition trending_requests :: "string \<times> string" where
  "trending_requests = (getEvents_url (no_filters\<lparr>ef_type := Some ''CONCERT'', ef_limit := Some 6\<rparr>),
     getEvents_url (no_filters\<lparr>ef_type := Some ''EVENT'', ef_limit := Some 4\<rparr>))"

definition trending_events :: "catalog_event list option \<Rightarrow> catalog_event list option \<Rightarrow> catalog_event list" where
  "trending_events concerts events = (case (concerts, events) of
     (Some cs, Some es) \<Rightarrow> take 10 (cs @ es) | _ \<Rightarrow> [])"

text \<open>A section is shown while it loads or has events.\<close>

definition section_shown :: "bool \<Rightarrow> catalog_event list \<Rightarrow> bool" where
  "section_shown isLoading es \<longleftrightarrow> isLoading \<or> es \<noteq> []"

text \<open>The badge of a movie, from the first and the last character of its id; an empty id has none, and the
  card fails.\<close>

definition urgency_labels :: "string list" where
  "urgency_labels = [''Selling Fast'', ''Limited Seats'', ''Trending'', ''Popular Pick'']"

definition getUrgencyBadge :: "string \<Rightarrow> string option" where
  "getUrgencyBadge i = (if i = [] then None
     else Some (urgency_labels ! ((of_char (hd i) + of_char (last i)) mod length urgency_labels)))"

section \<open>A search reaches the server\<close>

lemma query_of_list: "query_of (''/events?'' @ params_text ps) = ps"
  using query_roundtrip [of "''/events''" ps] by simp

lemma query_of_request: "query_of (getEvents_url f) = getEvents_params f"
  by (simp only: getEvents_url_def query_of_list)

lemma query_of_filter_change:
  "CHR ''?'' \<notin> set pathname \<Longrightarrow> query_of (handleFilterChange pathname us ps) = fold apply_update us ps"
  by (simp add: handleFilterChange_def query_roundtrip del: append.simps)

lemma params_get_delete: "params_get k (params_delete j ps) = (if k = j then None else params_get k ps)"
  by (auto simp: params_get_def params_delete_def map_of_filter_other map_of_eq_None_iff)

text \<open>Changing a filter changes its own parameter of the address and no other.\<close>

lemma filter_change_is_local:
  assumes "CHR ''?'' \<notin> set pathname"
  shows "params_get k (query_of (handleFilterChange pathname [(j, v)] ps))
    = (if k \<noteq> j then params_get k ps else if truthy v then v else None)"
  using assms by (cases v) (auto simp: query_of_filter_change apply_update_def params_get_set params_get_delete truthy_def or_str_def)

lemma first_request:
  "query_of (list_request (db_debounced (open_events now ps)) ps None)
     = (''limit'', show_int 9) # text_param ''search'' (params_get ''search'' ps) @ text_param ''type'' (params_get ''type'' ps)"
  by (simp add: list_request_def query_of_request list_filters_def getEvents_params_def no_filters_def
      number_param_def text_param_def open_events_def db_mount_def querySearch_def queryType_def
      truthy_def or_str_def split: option.split)

text \<open>
  What is searched on the home page is what the server is asked for: for any text typed into the
  search box, separators and other bytes included, the list page that opens sends its first request
  with exactly the trimmed text as search parameter, or with none if nothing but white space was
  typed.\<close>

theorem home_search_reaches_server:
  "query_of (list_request (db_debounced (open_events now (query_of (submit_hero h)))) (query_of (submit_hero h)) None)
   = (''limit'', ''9'') # (if trim_query (he_query h) = [] then [] else [(''search'', trim_query (he_query h))])"
proof -
  have "show_int 9 = ''9''" by code_simp
  moreover have "query_of (submit_hero h)
      = (if trim_query (he_query h) = [] then [] else [(''search'', trim_query (he_query h))])"
    unfolding submit_hero_def handleSearch_def query_of_list by simp
  ultimately show ?thesis
    unfolding first_request by (simp add: params_get_def text_param_def truthy_def or_str_def)
qed

text \<open>Text typed into the list page is asked for once the user has paused.\<close>

lemma typed_search_is_requested:
  assumes "sorted (t # map fst cs)" "last (t # map fst cs) + 300 \<le> now"
  shows "list_request (db_debounced (db_elapse now (db_changes 300 cs (open_events t ps)))) ps c
    = list_request (last (querySearch ps # map snd cs)) ps c"
  using debounced_settles [OF db_ok_mount assms] by (simp add: open_events_def db_mount_def)

section \<open>Quick filters\<close>

lemma form_keeps_date: "c \<in> set (iso_date n) \<Longrightarrow> form_keeps c"
  by (cases "civil_of n" rule: next_day.cases)
    (auto simp: iso_date_def form_keeps_def is_digit_def dest!: padded_no_letter)

lemma form_encode_kept: "\<forall>c \<in> set s. form_keeps c \<Longrightarrow> form_encode s = s"
  unfolding form_encode_def by (induction s) (simp_all add: form_byte_def)

lemma query_of_date: "query_of (''/events?date='' @ iso_date n) = [(''date'', iso_date n)]"
proof -
  have "''/events?date='' @ iso_date n = ''/events?'' @ params_text [(''date'', iso_date n)]"
    by (simp add: params_text_def form_encode_kept form_keeps_date) (simp add: form_encode_def form_byte_def form_keeps_def)
  then show ?thesis by (simp only: query_of_list)
qed

text \<open>The date of a quick filter is in the address and is read by nobody: the page asks for what it would ask
  for without a filter.\<close>

lemma date_filter_is_lost:
  fixes tz now :: nat
  assumes "f \<in> {Today, This_weekend}"
  defines "ps \<equiv> query_of (handleQuickFilter tz now f)"
  shows "params_get ''date'' ps \<noteq> None"
    "list_request (db_debounced (open_events t ps)) ps c = list_request (db_debounced (open_events t [])) [] c"
proof -
  obtain n where "handleQuickFilter tz now f = ''/events?date='' @ iso_date n"
    using assms(1) by (auto simp: getTodayDate_def getWeekendDateRange_def Let_def utc_date_eq)
  then have "ps = [(''date'', iso_date n)]" unfolding ps_def by (simp only: query_of_date)
  then show "params_get ''date'' ps \<noteq> None"
    "list_request (db_debounced (open_events t ps)) ps c = list_request (db_debounced (open_events t [])) [] c"
    by (simp_all add: params_get_def list_request_def list_filters_def queryType_def querySearch_def
        open_events_def db_mount_def)
qed

text \<open>The weekend filter names a Saturday of the coming week when local time is UTC. On a Sunday it is the next
  weekend's.\<close>

lemma weekend_is_saturday:
  obtains d where "getWeekendDateRange 0 now = iso_date d" "(d + 4) mod 7 = 6" "now div day_ms \<le> d" "d < now div day_ms + 7"
proof -
  let ?n = "now div day_ms"
  let ?k = "if getDay 0 now = 0 then 6 else 6 - getDay 0 now"
  have "(?n + 4) mod 7 \<le> 6" using mod_less_divisor [of 7 "?n + 4"] by linarith
  then have "?n + 4 + (6 - (?n + 4) mod 7) = 7 * ((?n + 4) div 7) + 6"
    using mult_div_mod_eq [of 7 "?n + 4"] by linarith
  moreover have "?k = 6 - (?n + 4) mod 7" by (simp add: getDay_def local_day_def)
  ultimately have "(?n + ?k + 4) mod 7 = 6" "?k < 7" by (simp_all add: ac_simps)
  moreover have "getWeekendDateRange 0 now = iso_date (?n + ?k)"
    by (simp add: getWeekendDateRange_def Let_def utc_date_eq)
  ultimately show ?thesis using that [of "?n + ?k"] by simp
qed

text \<open>East of Greenwich the printed day is the day before until the offset has passed: shortly after midnight
  \<open>Today\<close> asks for yesterday.\<close>

lemma today_is_yesterday_at_night:
  assumes "(now + tz) mod day_ms < tz" "tz < day_ms" "tz \<le> now"
  shows "getTodayDate now = iso_date (local_day tz now - 1)"
proof -
  have "now + tz = local_day tz now * day_ms + (now + tz) mod day_ms" by (simp add: local_day_def)
  with assms have n: "now < local_day tz now * day_ms" "local_day tz now * day_ms \<le> now + tz" by linarith+
  then have pos: "0 < local_day tz now" by (cases "local_day tz now") auto
  then have "(local_day tz now - 1) * day_ms + day_ms = local_day tz now * day_ms"
    by (cases "local_day tz now") auto
  with n assms(2) have "(local_day tz now - 1) * day_ms \<le> now" "now < (local_day tz now - 1) * day_ms + day_ms"
    by linarith+
  then have "now div day_ms = local_day tz now - 1" by (intro div_nat_eqI) (simp_all add: algebra_simps)
  then show ?thesis by (simp add: getTodayDate_def utc_date_eq)
qed

section \<open>The weekend section\<close>

text \<open>
  The weekend section keeps an event exactly if its day is before the Sunday it ends on: an event dated
  with a time on that Sunday is a longer text than the date and sorts after it, so the Sunday of the
  weekend is never shown, and on a Sunday nothing of the day is.\<close>

theorem weekend_section_excludes_sunday:
  assumes "ce_date e = iso_datetime t" "year_of (t div day_ms) < 10000" "year_of (now div day_ms + 6) < 10000"
  shows "this_weekend tz now e
    \<longleftrightarrow> t div day_ms < now div day_ms + (if getDay tz now = 0 then 0 else 7 - getDay tz now)"
proof -
  let ?k = "if getDay tz now = 0 then 0 else 7 - getDay tz now"
  have "year_of (now div day_ms + ?k) \<le> year_of (now div day_ms + 6)" by (rule year_of_mono) (cases "getDay tz now = 0", auto)
  with assms(3) have "year_of (now div day_ms + ?k) < 10000" by simp
  moreover have "iso_datetime t \<noteq> []" by (simp add: iso_datetime_def)
  ultimately show ?thesis
    using assms(1) datetime_le_date [OF assms(2)]
    by (simp add: this_weekend_def weekendEndISO_def Let_def utc_date_eq split del: if_split)
qed

text \<open>On Friday, 2 January 1970, a concert on Saturday is a highlight, one on Sunday is not.\<close>

definition sample_event :: "nat \<Rightarrow> catalog_event" where
  "sample_event t = \<lparr>ce_id = ''e1'', ce_title = ''Concert'', ce_type = Some ''CONCERT'', ce_date = iso_datetime t,
     ce_location = None, ce_price = Num 100, ce_availableSeats = Some 5, ce_posterUrl = None, ce_bannerUrl = None,
     ce_description = [], ce_language = None, ce_duration = Null, ce_genre = None, ce_shows = []\<rparr>"

lemma early_years: "year_of 1 < 10000" "year_of 2 < 10000" "year_of 3 < 10000" "year_of 7 < 10000"
  by (simp_all add: year_of_def civil_of_def month_length_def eval_nat_numeral)

theorem weekend_section_excludes_sunday_witness:
  "this_weekend 0 86400000 (sample_event 172800000) \<and> \<not> this_weekend 0 86400000 (sample_event 259200000)"
  using weekend_section_excludes_sunday [of "sample_event 172800000" 172800000 86400000 0]
    weekend_section_excludes_sunday [of "sample_event 259200000" 259200000 86400000 0] early_years
  by (simp add: sample_event_def day_ms_def getDay_def local_day_def)

text \<open>If no event is left the section shows the first of all upcoming ones as this weekend's.\<close>

lemma weekend_fallback:
  "\<forall>e \<in> set es. \<not> this_weekend tz now e \<Longrightarrow> weekend_events tz now es = take 8 es"
  by (simp add: weekend_events_def filter_empty_conv[THEN iffD2])

section \<open>Booking from the page of an event\<close>

lemma buttons_of_details:
  "dt_button (event_details_of parse now p e) = (if isPast parse now e then None
     else Some \<lparr>bu_enabled = (\<not> sold_out (displaySeats p e)),
       bu_text = (if sold_out (displaySeats p e) then ''Sold Out'' else ''Confirm Booking''),
       bu_press = booking_press (Toast_error ''Shows fully booked'') e\<rparr>)"
  "dt_mobile (event_details_of parse now p e) = (if isPast parse now e then None
     else Some \<lparr>bu_enabled = (\<not> sold_out (displaySeats p e)),
       bu_text = (if sold_out (displaySeats p e) then ''Sold Out'' else ''Book Tickets''),
       bu_press = booking_press Nothing_happens e\<rparr>)"
  by (simp_all add: event_details_of_def Let_def)

text \<open>Both buttons agree: there is one exactly for an event that is not over, it is enabled exactly if seats are
  left, and pressing either leads to the same show.\<close>

lemma booking_buttons:
  "dt_button (event_details_of parse now p e) \<noteq> None \<longleftrightarrow> \<not> isPast parse now e"
  "map_option bu_enabled (dt_mobile (event_details_of parse now p e))
     = map_option bu_enabled (dt_button (event_details_of parse now p e))"
  "dt_button (event_details_of parse now p e) = Some b \<Longrightarrow> bu_enabled b \<longleftrightarrow> \<not> sold_out (displaySeats p e)"
  "booking_press (Toast_error m) e = Go url \<longleftrightarrow> booking_press Nothing_happens e = Go url"
  by (auto simp: buttons_of_details booking_press_def split: option.split if_splits)

text \<open>A message that the last seat is gone disables the button at once.\<close>

lemma last_seat_disables_button:
  "dt_button (event_details_of parse now (handleSeatUpdate i i 0 p) e) = Some b \<Longrightarrow> \<not> bu_enabled b"
  by (auto simp: buttons_of_details handleSeatUpdate_def displaySeats_def sold_out_def split: if_splits)

text \<open>The card and the page agree on an event without live updates.\<close>

lemma card_agrees_with_page:
  "ec_sold_out (EventCard parse now im e) = dt_sold_out (event_details_of parse now fresh_event_page e)"
  "ec_completed (EventCard parse now im e) = dt_completed (event_details_of parse now fresh_event_page e)"
  by (simp_all add: EventCard_def event_details_of_def Let_def displaySeats_def fresh_event_page_def)

text \<open>The price of the card is zero for an event without shows, where the page shows its own price.\<close>

lemma card_price_without_shows:
  assumes "ce_shows e = []"
  shows "ec_price (EventCard parse now im e) = formatINR (Num 0)"
    "dt_price (event_details_of parse now p e) = formatINR (ce_price e)"
  using assms by (simp_all add: EventCard_def event_details_of_def Let_def firstShow_def standard_price_def)

text \<open>Every id but the empty one has a badge.\<close>

lemma badge_exists:
  assumes "i \<noteq> []"
  shows "\<exists>b \<in> set urgency_labels. getUrgencyBadge i = Some b"
proof -
  have "(of_char (hd i) + of_char (last i)) mod length urgency_labels < length urgency_labels"
    by (simp add: urgency_labels_def)
  from nth_mem [OF this] assms show ?thesis unfolding getUrgencyBadge_def by auto
qed

end
