(* ===== verification/Navigation.thy ===== *)
theory Navigation
  imports SignIn Routes
begin

text \<open>
  Moving around the frontend: the pages that exist (the directory \<open>frontend/src/app\<close>, in which a group
  in parentheses is no part of the address), the links of the layouts, sidebars, footer and menus, which
  link is shown as active, the guards that wrap pages, and the ways to sign out.
\<close>

section \<open>Pages\<close>

definition pages :: "string list" where
  "pages = [''/'', ''/admin'', ''/admin/bookings'', ''/admin/dashboard'', ''/admin/events'', ''/admin/events/new'',
     ''/admin/live'', ''/admin/pricing'', ''/admin/refunds'', ''/admin/shows'', ''/admin/theaters'',
     ''/booking/:eventId'', ''/booking/failure'', ''/booking/success'', ''/booking/success/:bookingId'', ''/checkout'',
     ''/dashboard'', ''/events'', ''/events/:id'', ''/login'', ''/platform/admins'', ''/platform/analytics'',
     ''/platform/audit-logs'', ''/platform/bookings'', ''/platform/dashboard'', ''/platform/feature-flags'',
     ''/platform/payments'', ''/platform/system-health'', ''/platform/tenants'', ''/platform/tenants/:id'',
     ''/profile/bookings'', ''/profile/wishlist'', ''/scanner'', ''/shows/:id'', ''/super-admin'', ''/theatre'']"

definition page_path :: "string \<Rightarrow> string" where
  "page_path url = takeWhile (\<lambda>c. c \<noteq> CHR ''?'') url"

definition page_exists :: "string \<Rightarrow> bool" where
  "page_exists url \<longleftrightarrow> list_ex (\<lambda>p. path_matches (pattern_of p) (path_of (page_path url))) pages"

section \<open>Links\<close>

type_synonym nav_item = "string \<times> string"

definition admin_nav :: "nav_item list" where
  "admin_nav = [(''Dashboard'', ''/admin''), (''Theaters'', ''/admin/theaters''), (''Events'', ''/admin/events''),
     (''Shows'', ''/admin/shows''), (''Pricing'', ''/admin/pricing''), (''Bookings'', ''/admin/bookings''),
     (''Staff'', ''/admin/staff''), (''Reports'', ''/admin/reports'')]"

definition theatre_nav :: "nav_item list" where
  "theatre_nav = [(''Today's Shows'', ''/theatre''), (''Seat Map'', ''/theatre/seat-map''),
     (''Scan Tickets'', ''/theatre/scan''), (''Local Reports'', ''/theatre/reports'')]"

definition super_admin_nav :: "nav_item list" where
  "super_admin_nav = [(''Dashboard'', ''/super-admin''), (''Tenants'', ''/super-admin/tenants''),
     (''Platform Admins'', ''/super-admin/admins''), (''Revenue'', ''/super-admin/revenue''),
     (''System Health'', ''/super-admin/system-health''), (''Audit Logs'', ''/super-admin/audit-logs'')]"

definition platform_nav :: "nav_item list" where
  "platform_nav = [(''Dashboard'', ''/platform/dashboard''), (''Tenants'', ''/platform/tenants''),
     (''All Bookings'', ''/platform/bookings''), (''Payments'', ''/platform/payments''),
     (''Analytics'', ''/platform/analytics''), (''System Health'', ''/platform/system-health''),
     (''Audit Logs'', ''/platform/audit-logs''), (''Feature Flags'', ''/platform/feature-flags''),
     (''Admins'', ''/platform/admins'')]"

definition sidebar_menu :: "nav_item list" where
  "sidebar_menu = [(''Dashboard'', ''/admin''), (''Live Monitor'', ''/admin/live''), (''Refund Queue'', ''/admin/refunds'')]"

definition footer_links :: "nav_item list" where
  "footer_links = [(''Movies'', ''/events?type=MOVIE''), (''Concerts'', ''/events?type=CONCERT''),
     (''Theater'', ''/events?type=EVENT''), (''Sports Events'', ''/events?type=GENERAL_ADMISSION''),
     (''My Bookings'', ''/profile/bookings''), (''Offers & Coupons'', ''/events''), (''Wishlist'', ''/profile/wishlist'')]"

definition user_menu :: "nav_item list" where
  "user_menu = [(''My Bookings'', ''/profile/bookings''), (''Profile'', ''/profile'')]"

text \<open>The item of a sidebar that is highlighted: its page, or one below it; the older sidebar compares whole
  addresses.\<close>

definition nav_active :: "string \<Rightarrow> nav_item \<Rightarrow> bool" where
  "nav_active pathname item \<longleftrightarrow> pathname = snd item \<or> startsWith pathname (snd item @ ''/'')"

definition sidebar_active :: "string \<Rightarrow> nav_item \<Rightarrow> bool" where
  "sidebar_active pathname item \<longleftrightarrow> pathname = snd item"

section \<open>Guards of pages\<close>

text \<open>What a guard shows of a page, and where it sends the user.\<close>

definition AuthGuard :: "session \<Rightarrow> 'a \<Rightarrow> 'a option \<times> string option" where
  "AuthGuard s children = (if se_user s = None then (None, Some ''/login'') else (Some children, None))"

definition RoleGuard :: "string \<Rightarrow> session \<Rightarrow> 'a \<Rightarrow> 'a option \<times> string option" where
  "RoleGuard role s children = (case se_user s of
     None \<Rightarrow> (None, Some ''/login'')
   | Some u \<Rightarrow> if us_role u \<noteq> role then (None, Some ''/'') else (Some children, None))"

datatype 'a layout = Layout_wait | Layout_hidden "string option" | Layout_shown "string option" 'a

text \<open>The four portals wrap their pages in the portal guard; the platform pages test the role themselves.\<close>

definition portal_layout :: "string list \<Rightarrow> session \<Rightarrow> 'a \<Rightarrow> 'a layout" where
  "portal_layout roles s children =
     (if \<not> se_hasHydrated s then Layout_wait
      else case usePortalGuard roles s of (away, isAuthorized) \<Rightarrow>
        if isAuthorized then Layout_shown away children else Layout_hidden away)"

definition TenantAdminLayout :: "session \<Rightarrow> 'a \<Rightarrow> 'a layout" where
  "TenantAdminLayout = portal_layout [''ADMIN'']"

definition TheatreLayout :: "session \<Rightarrow> 'a \<Rightarrow> 'a layout" where
  "TheatreLayout = portal_layout [''THEATER_MANAGER'']"

definition ScannerLayout :: "session \<Rightarrow> 'a \<Rightarrow> 'a layout" where
  "ScannerLayout = portal_layout [''SCANNER_DEVICE'']"

definition SuperAdminLayout :: "session \<Rightarrow> 'a \<Rightarrow> 'a layout" where
  "SuperAdminLayout = portal_layout [''SUPER_ADMIN'']"

definition PlatformLayout :: "session \<Rightarrow> 'a \<Rightarrow> 'a layout" where
  "PlatformLayout s children =
     (if \<not> se_hasHydrated s then Layout_wait
      else case se_user s of
        None \<Rightarrow> Layout_hidden (Some ''/auth/login'')
      | Some u \<Rightarrow> if us_role u \<noteq> ''SUPER_ADMIN'' then Layout_hidden (Some ''/auth/login'') else Layout_shown None children)"

definition layout_shows :: "'a layout \<Rightarrow> bool" where
  "layout_shows l = (case l of Layout_shown _ _ \<Rightarrow> True | _ \<Rightarrow> False)"

section \<open>Signing out\<close>

text \<open>The portals also clear the local storage, so nothing persisted is left.\<close>

definition clear_storage :: "session \<Rightarrow> session" where
  "clear_storage s = s\<lparr>se_persisted := (None, None), se_localToken := None, se_localSlug := None\<rparr>"

definition portal_logout :: "session \<Rightarrow> session \<times> string" where
  "portal_logout s = (clear_storage (logout s), ''/login'')"

definition menu_logout :: "session \<Rightarrow> session \<times> string" where
  "menu_logout s = (logout s, ''/'')"

definition platform_sign_out :: "session \<Rightarrow> session \<times> string" where
  "platform_sign_out s = (logout s, ''/auth/login'')"

text \<open>The menu of a signed-in user: the initials and the name shown.\<close>

definition local_part :: "string \<Rightarrow> string" where
  "local_part email = takeWhile (\<lambda>c. c \<noteq> CHR ''@'') email"

definition menu_initials :: "string \<Rightarrow> string" where
  "menu_initials email = to_upper (take 2 (local_part email))"

definition menu_name :: "string option \<Rightarrow> string \<Rightarrow> string" where
  "menu_name name email = or_str name (local_part email)"

section \<open>Links and pages\<close>

definition all_links :: "string list" where
  "all_links = map snd (admin_nav @ theatre_nav @ super_admin_nav @ platform_nav @ sidebar_menu @ footer_links @ user_menu)"

text \<open>
  Of the links in the sidebars, the footer and the user menu exactly these lead to no page: staff and
  reports of the tenant administrator, everything but the first item of the theatre and of the super
  administrator, and the profile.\<close>

theorem dead_links_exact:
  "filter (\<lambda>l. \<not> page_exists l) all_links =
     [''/admin/staff'', ''/admin/reports'', ''/theatre/seat-map'', ''/theatre/scan'', ''/theatre/reports'',
      ''/super-admin/tenants'', ''/super-admin/admins'', ''/super-admin/revenue'', ''/super-admin/system-health'',
      ''/super-admin/audit-logs'', ''/profile'']"
  by code_simp

lemma sign_out_page_is_missing: "\<not> page_exists ''/auth/login''"
  by code_simp

lemma homes_exist: "role_redirect role = Some h \<Longrightarrow> page_exists h"
proof -
  have "page_exists ''/super-admin'' \<and> page_exists ''/admin'' \<and> page_exists ''/theatre'' \<and> page_exists ''/''
      \<and> page_exists ''/scanner''" by code_simp
  then show "role_redirect role = Some h \<Longrightarrow> page_exists h"
    by (auto simp: role_redirect_def split: if_splits)
qed

text \<open>Below the first item of a portal two items are highlighted.\<close>

lemma two_items_active:
  "filter (nav_active ''/admin/events/new'') admin_nav = [(''Dashboard'', ''/admin''), (''Events'', ''/admin/events'')]"
  "filter (sidebar_active ''/admin/live'') sidebar_menu = [(''Live Monitor'', ''/admin/live'')]"
  by code_simp+

section \<open>Who sees a portal\<close>

text \<open>Every link of a portal is under the guard of the role that the portal's layout asks for.\<close>

lemma portal_links_are_guarded:
  "list_all (\<lambda>i. startsWith (snd i) ''/admin'') admin_nav"
  "list_all (\<lambda>i. startsWith (snd i) ''/theatre'') theatre_nav"
  "list_all (\<lambda>i. startsWith (snd i) ''/super-admin'') super_admin_nav"
  by code_simp+

text \<open>The platform pages are under no guard of the route middleware: any token that verifies is served them, and
  only the layout in the browser tests the role.\<close>

lemma platform_pages_are_unguarded:
  assumes "item \<in> set platform_nav" "verifyToken token = Some c" "token \<noteq> []"
  shows "middleware verifyToken \<lparr>pg_path = snd item, pg_cookie = Some token, pg_authorization = None\<rparr>
    = Next_with (forwarded_headers c)"
proof -
  have "list_all (\<lambda>i. snd i \<noteq> ''/login'' \<and> \<not> isPublic (snd i) \<and> list_all (\<lambda>g. \<not> startsWith (snd i) (fst g)) route_guards) platform_nav"
    by code_simp
  with assms(1) have "snd item \<noteq> ''/login''" "\<not> isPublic (snd item)"
    "find (\<lambda>g. startsWith (snd item) (fst g)) route_guards = None"
    unfolding list_all_iff find_None_iff by fastforce+
  then show ?thesis
    using assms(2,3) by (simp add: middleware_def request_token_def truthy_def check_guards_def)
qed

lemma portal_layout_shown:
  "portal_layout roles s x = Layout_shown away y \<longleftrightarrow>
     se_hasHydrated s \<and> y = x \<and> (\<exists>u. se_user s = Some u \<and> us_role u \<in> set roles)
     \<and> away = (if truthy (se_token s) then None else Some ''/login'')"
  by (auto simp: portal_layout_def usePortalGuard_def split: option.splits if_splits)

text \<open>
  Signing out closes everything. After any of the three ways to sign out, and also after the page is
  loaded again, no guard and no layout shows its page, and a request for a page that is not public is
  sent to the login page.\<close>

theorem sign_out_closes_every_portal:
  assumes "t \<in> {fst (portal_logout s), fst (menu_logout s), fst (platform_sign_out s)}"
    and "r \<in> {t, rehydrate t}" and "path \<noteq> ''/login''" "\<not> isPublic path"
  shows "fst (AuthGuard r x) = None \<and> fst (RoleGuard role r x) = None
    \<and> \<not> layout_shows (portal_layout roles r x) \<and> \<not> layout_shows (PlatformLayout r x)
    \<and> middleware verifyToken (page_of r path) = Redirect ''/login'' [(''redirect'', path)] False"
proof -
  have "se_user r = None \<and> se_cookie r = None"
    using assms(1,2)
    by (auto simp: portal_logout_def menu_logout_def platform_sign_out_def clear_storage_def logout_def
        rehydrate_def truthy_def)
  then show ?thesis
    using assms(3,4)
    by (simp add: AuthGuard_def RoleGuard_def layout_shows_def portal_layout_def usePortalGuard_def
        PlatformLayout_def middleware_def page_of_def request_token_def truthy_def)
qed

definition sample_session :: session where
  "sample_session = \<lparr>se_user = Some \<lparr>us_role = ''ADMIN'', us_tenantSlug = Some ''t1''\<rparr>, se_token = Some ''x'',
     se_hasHydrated = True, se_persisted = (None, None), se_localToken = Some ''x'', se_localSlug = Some ''t1'',
     se_cookie = Some ''x''\<rparr>"

theorem sign_out_closes_every_portal_witness:
  "layout_shows (TenantAdminLayout sample_session ())
   \<and> \<not> layout_shows (TenantAdminLayout (rehydrate (fst (portal_logout sample_session))) ())"
proof -
  have "\<not> layout_shows (portal_layout [''ADMIN''] (rehydrate (fst (portal_logout sample_session))) ())"
    using sign_out_closes_every_portal [of "fst (portal_logout sample_session)" sample_session
        "rehydrate (fst (portal_logout sample_session))" "''/admin''" "()" "''ADMIN''" "[''ADMIN'']" "\<lambda>_. None"]
    by (simp add: isPublic_def public_paths_def startsWith_def)
  moreover have "layout_shows (TenantAdminLayout sample_session ())"
    by (simp add: TenantAdminLayout_def portal_layout_def usePortalGuard_def layout_shows_def sample_session_def)
  ultimately show ?thesis by (simp add: TenantAdminLayout_def)
qed

end
