(* ===== verification/Console.thy ===== *)
theory Console
  imports History Access
begin

text \<open>
  The consoles of the staff: the ticket scanner (\<open>frontend/src/app/scanner/page.tsx\<close>), the platform
  pages (tenants, payments, bookings, system health, feature flags), the administrator's dashboard and
  forms, and the shared query client (\<open>app/providers.tsx\<close>) with the mutations that refresh lists.
\<close>

section \<open>The scanner\<close>

datatype scanner_status = Scan_idle | Scan_scanning | Scan_success | Scan_error

text \<open>The page with the requests under way and the reset timers, by the time they fire: no timer is ever
  cleared.\<close>

record scanner =
  sn_status :: scanner_status
  sn_message :: string
  sn_ticket :: "string option"
  sn_requests :: "string list"
  sn_timers :: "nat list"

definition idle_message :: string where
  "idle_message = ''Point camera at a QR ticket''"

definition fresh_scanner :: scanner where
  "fresh_scanner = \<lparr>sn_status = Scan_idle, sn_message = idle_message, sn_ticket = None, sn_requests = [], sn_timers = []\<rparr>"

definition blank_text :: "string \<Rightarrow> bool" where
  "blank_text s \<longleftrightarrow> list_all (\<lambda>c. (of_char c :: nat) \<in> {9, 10, 11, 12, 13, 32}) s"

definition handleScan :: "string \<Rightarrow> scanner \<Rightarrow> scanner" where
  "handleScan qrHash p =
     (if blank_text qrHash \<or> sn_status p = Scan_scanning then p
      else p\<lparr>sn_status := Scan_scanning, sn_requests := sn_requests p @ [qrHash]\<rparr>)"

text \<open>An answer: the ticket, or the message of the error. Three seconds later a timer resets the page.\<close>

definition scan_answered :: "nat \<Rightarrow> string \<Rightarrow> (string option + string) \<Rightarrow> scanner \<Rightarrow> scanner" where
  "scan_answered now qrHash answer p =
     (let q = (case answer of
          Inr ticket \<Rightarrow> p\<lparr>sn_ticket := Some ticket, sn_status := Scan_success, sn_message := ''Ticket Valid''\<rparr>
        | Inl m \<Rightarrow> p\<lparr>sn_status := Scan_error, sn_ticket := None,
            sn_message := (case m of None \<Rightarrow> ''Invalid or already used ticket'' | Some t \<Rightarrow> t)\<rparr>)
      in q\<lparr>sn_requests := remove1 qrHash (sn_requests p), sn_timers := sn_timers p @ [now + 3000]\<rparr>)"

definition reset_scanner :: "nat \<Rightarrow> scanner \<Rightarrow> scanner" where
  "reset_scanner due p = p\<lparr>sn_status := Scan_idle, sn_message := idle_message, sn_ticket := None,
     sn_timers := remove1 due (sn_timers p)\<rparr>"

definition scanner_ticket :: "scanner \<Rightarrow> string option" where
  "scanner_ticket p = (if sn_status p = Scan_success then sn_ticket p else None)"

definition scanner_color :: "scanner \<Rightarrow> string" where
  "scanner_color p = (case sn_status p of Scan_success \<Rightarrow> ''green'' | Scan_error \<Rightarrow> ''red'' | _ \<Rightarrow> ''black'')"

text \<open>The network of the device, as the layout shows it.\<close>

definition network_label :: "bool \<Rightarrow> string" where
  "network_label isOnline = (if isOnline then ''Online'' else ''Offline Mode'')"

inductive scanner_step :: "scanner \<Rightarrow> scanner \<Rightarrow> bool" where
  scan_started: "scanner_step p (handleScan qr p)"
| scan_finished: "qr \<in> set (sn_requests p) \<Longrightarrow> scanner_step p (scan_answered now qr a p)"
| scan_reset: "due \<in> set (sn_timers p) \<Longrightarrow> scanner_step p (reset_scanner due p)"

section \<open>The query client\<close>

text \<open>Whether a failed query is tried again: the failures before and the status, if the server answered.\<close>

definition retry_query :: "nat \<Rightarrow> nat option \<Rightarrow> bool" where
  "retry_query failureCount status = (case status of
     None \<Rightarrow> False
   | Some s \<Rightarrow> if s = 0 then False else if 400 \<le> s \<and> s < 500 then False else failureCount < 1)"

text \<open>The requests a query sends, by the failures it meets; \<open>n\<close> failures came before.\<close>

fun query_attempts :: "nat \<Rightarrow> nat option list \<Rightarrow> nat" where
  "query_attempts n [] = 1"
| "query_attempts n (f # fs) = (if retry_query n f then 1 + query_attempts (n + 1) fs else 1)"

definition stale_time :: nat where
  "stale_time = 60 * 1000"

text \<open>A list that is mounted again is fetched again if it was invalidated or is older than the stale time.\<close>

definition refetched :: "bool \<Rightarrow> nat \<Rightarrow> bool" where
  "refetched invalidated age \<longleftrightarrow> invalidated \<or> stale_time \<le> age"

text \<open>A key invalidates the queries whose key it starts.\<close>

type_synonym query_key = "string list"

definition invalidates :: "query_key \<Rightarrow> query_key \<Rightarrow> bool" where
  "invalidates k q \<longleftrightarrow> take (length k) q = k"

datatype admin_mutation =
    Delete_show | Create_show | Create_event_form | Create_event_page | Delete_event | Cancel_booking
  | Toggle_flag | Toggle_tenant string | Update_plan

fun invalidated_keys :: "admin_mutation \<Rightarrow> query_key list" where
  "invalidated_keys Delete_show = [[''admin'', ''shows'']]"
| "invalidated_keys Create_show = [[''shows'', ''admin'']]"
| "invalidated_keys Create_event_form = [[''admin-events'']]"
| "invalidated_keys Create_event_page = []"
| "invalidated_keys Delete_event = [[''events'', ''admin'']]"
| "invalidated_keys Cancel_booking = [[''admin-bookings''], [''admin-stats'']]"
| "invalidated_keys Toggle_flag = [[''platform'', ''feature-flags'']]"
| "invalidated_keys (Toggle_tenant i) = [[''platform'', ''tenant'', i], [''platform'', ''tenants'']]"
| "invalidated_keys Update_plan = [[''platform'', ''tenants'']]"

text \<open>The key of the list that shows what the mutation changed; \<open>search\<close> is the filter of the shows.\<close>

fun list_key :: "string \<Rightarrow> admin_mutation \<Rightarrow> query_key" where
  "list_key search Delete_show = [''admin'', ''shows'', search]"
| "list_key search Create_show = [''admin'', ''shows'', search]"
| "list_key search Create_event_form = [''admin-events'']"
| "list_key search Create_event_page = [''events'', ''admin'']"
| "list_key search Delete_event = [''events'', ''admin'']"
| "list_key search Cancel_booking = [''admin-bookings'']"
| "list_key search Toggle_flag = [''platform'', ''feature-flags'']"
| "list_key search (Toggle_tenant i) = [''platform'', ''tenants'']"
| "list_key search Update_plan = [''platform'', ''tenants'']"

definition refreshes_list :: "string \<Rightarrow> admin_mutation \<Rightarrow> bool" where
  "refreshes_list search m \<longleftrightarrow> list_ex (\<lambda>k. invalidates k (list_key search m)) (invalidated_keys m)"

section \<open>Tenants\<close>

record console_tenant =
  ct_name :: string
  ct_slug :: string
  ct_subdomain :: "string option"
  ct_isActive :: bool
  ct_count :: int
  ct_limit :: int

text \<open>The search of the list; \<open>None\<close> is the error of a tenant without a subdomain.\<close>

definition contains_lower :: "string \<Rightarrow> string \<Rightarrow> bool" where
  "contains_lower t term = contains_text (to_lower t) (to_lower term)"

definition tenant_found :: "string \<Rightarrow> console_tenant \<Rightarrow> bool option" where
  "tenant_found term t =
     (if contains_lower (ct_name t) term then Some True
      else case ct_subdomain t of None \<Rightarrow> None | Some d \<Rightarrow> Some (contains_lower d term))"

fun filtered_tenants :: "string \<Rightarrow> console_tenant list \<Rightarrow> console_tenant list option" where
  "filtered_tenants term [] = Some []"
| "filtered_tenants term (t # ts) = (case tenant_found term t of
     None \<Rightarrow> None
   | Some b \<Rightarrow> map_option (\<lambda>rs. if b then t # rs else rs) (filtered_tenants term ts))"

text \<open>The usage bar of a tenant.\<close>

definition usagePct :: "int \<Rightarrow> int \<Rightarrow> int" where
  "usagePct monthlyBookingCount bookingLimit =
     min (math_round (d_mul (d_div (of_int monthlyBookingCount) (of_int (if bookingLimit = 0 then 1 else bookingLimit))) 100)) 100"

definition usage_color :: "int \<Rightarrow> string" where
  "usage_color pct = (if 90 < pct then ''red'' else if 70 < pct then ''yellow'' else ''blue'')"

definition usage_warning :: "int \<Rightarrow> string option" where
  "usage_warning pct = (if 90 < pct then Some ''Approaching booking limit - consider upgrading plan'' else None)"

text \<open>The dialog that suspends or activates a tenant: opened by the button, closed by cancelling or when the
  call succeeds. The call sends the opposite of the fetched status.\<close>

definition status_action :: "console_tenant \<Rightarrow> string" where
  "status_action t = (if ct_isActive t then ''suspend'' else ''activate'')"

definition toggle_status_call :: "console_tenant \<Rightarrow> bool" where
  "toggle_status_call t = (\<not> ct_isActive t)"

definition confirm_dialog :: "console_tenant \<Rightarrow> string option \<Rightarrow> string option" where
  "confirm_dialog t confirmAction = (case confirmAction of None \<Rightarrow> None
     | Some a \<Rightarrow> Some (''Are you sure you want to '' @ a @ '' tenant '' @ ct_name t @ ''?''))"

section \<open>Pages of rows\<close>

text \<open>The platform's lists of payments and bookings: twenty rows a page. A change of the filter or the
  search starts at the first page.\<close>

record row_pages =
  rp_page :: nat
  rp_status :: string
  rp_search :: string

definition fresh_pages :: row_pages where
  "fresh_pages = \<lparr>rp_page = 1, rp_status = ''ALL'', rp_search = []\<rparr>"

definition totalPages :: "nat \<Rightarrow> nat" where
  "totalPages n = (n + 19) div 20"

definition page_params :: "row_pages \<Rightarrow> (string \<times> string) list" where
  "page_params p = [(''page'', show_nat (rp_page p)), (''limit'', ''20'')]
     @ (if rp_status p \<noteq> ''ALL'' then [(''status'', rp_status p)] else [])
     @ (if rp_search p \<noteq> [] then [(''search'', rp_search p)] else [])"

definition set_filter :: "string \<Rightarrow> row_pages \<Rightarrow> row_pages" where
  "set_filter s p = p\<lparr>rp_status := s, rp_page := 1\<rparr>"

definition set_row_search :: "string \<Rightarrow> row_pages \<Rightarrow> row_pages" where
  "set_row_search s p = p\<lparr>rp_search := s, rp_page := 1\<rparr>"

definition prev_page :: "row_pages \<Rightarrow> row_pages" where
  "prev_page p = p\<lparr>rp_page := max 1 (rp_page p - 1)\<rparr>"

definition next_page :: "nat \<Rightarrow> row_pages \<Rightarrow> row_pages" where
  "next_page n p = p\<lparr>rp_page := min (totalPages n) (rp_page p + 1)\<rparr>"

text \<open>The buttons are shown for more than one page; each is disabled at its end.\<close>

definition prev_enabled :: "nat \<Rightarrow> row_pages \<Rightarrow> bool" where
  "prev_enabled n p \<longleftrightarrow> 1 < totalPages n \<and> rp_page p \<noteq> 1"

definition next_enabled :: "nat \<Rightarrow> row_pages \<Rightarrow> bool" where
  "next_enabled n p \<longleftrightarrow> 1 < totalPages n \<and> rp_page p \<noteq> totalPages n"

section \<open>System health\<close>

text \<open>What the server's health check answers, and the page's reading of an answer; \<open>None\<close> is a query without
  data, because it failed or has not come.\<close>

definition health_answer :: json where
  "health_answer = Obj [(''ok'', Bool True), (''service'', Str ''OMNIPAX'')]"

definition service_statuses :: "json option \<Rightarrow> (string \<times> json) list" where
  "service_statuses data =
     (let answer = (case data of None \<Rightarrow> Null | Some d \<Rightarrow> d);
          check = (\<lambda>k. nullish (json_get k (json_get ''checks'' answer)) (Str ''healthy''))
      in [(''API Server'', nullish (json_get ''status'' answer) (Str ''healthy'')), (''Database'', check ''database''),
          (''Redis'', check ''redis''), (''WebSocket'', check ''websocket'')])"

definition overall_status :: "json option \<Rightarrow> string" where
  "overall_status data =
     (let ss = map snd (service_statuses data) in
      if list_all (\<lambda>s. s = Str ''healthy'') ss then ''healthy''
      else if list_ex (\<lambda>s. s = Str ''down'') ss then ''down'' else ''degraded'')"

definition health_banner :: "json option \<Rightarrow> string" where
  "health_banner data = (if overall_status data = ''healthy'' then ''All Systems Operational''
     else if overall_status data = ''degraded'' then ''Degraded'' else ''Incident Active'')"

section \<open>The administrator's dashboard\<close>

record dashboard_stats =
  ds_totalRevenue :: json
  ds_totalBookings :: json
  ds_totalEvents :: json

text \<open>The figures of the three cards, zero where there is none; the revenue is printed with a dollar sign.\<close>

definition stat_value :: "(dashboard_stats \<Rightarrow> json) \<Rightarrow> dashboard_stats option \<Rightarrow> json" where
  "stat_value f stats = (case stats of None \<Rightarrow> Num 0 | Some s \<Rightarrow> if json_truthy (f s) then f s else Num 0)"

definition sold_of_total :: "int \<Rightarrow> int \<Rightarrow> string" where
  "sold_of_total totalSeats availableSeats = show_int (totalSeats - availableSeats) @ '' / '' @ show_int totalSeats"

definition event_state :: "int \<Rightarrow> string" where
  "event_state availableSeats = (if 0 < availableSeats then ''Active'' else ''Sold Out'')"

record admin_dashboard =
  da_activeTab :: string
  da_showCreateModal :: bool

definition fresh_dashboard :: admin_dashboard where
  "fresh_dashboard = \<lparr>da_activeTab = ''events'', da_showCreateModal = False\<rparr>"

definition toggle_create_form :: "admin_dashboard \<Rightarrow> admin_dashboard" where
  "toggle_create_form d = d\<lparr>da_showCreateModal := \<not> da_showCreateModal d\<rparr>"

definition choose_tab :: "string \<Rightarrow> admin_dashboard \<Rightarrow> admin_dashboard" where
  "choose_tab tab d = d\<lparr>da_activeTab := tab\<rparr>"

text \<open>Cancelling a booking: the call, if the question was confirmed, and the message after the answer.\<close>

definition handleCancelBooking :: "bool \<Rightarrow> bool \<Rightarrow> string \<Rightarrow> (string \<times> string) option \<times> (bool \<times> string) option" where
  "handleCancelBooking sure ok i =
     (if \<not> sure then (None, None)
      else (Some (''POST'', ''/admin/bookings/'' @ i @ ''/cancel''),
            Some (ok, if ok then ''Booking cancelled'' else ''Failed to cancel booking'')))"

definition admin_can_cancel :: "string \<Rightarrow> bool" where
  "admin_can_cancel status \<longleftrightarrow> status = ''CONFIRMED''"

section \<open>Forms\<close>

text \<open>\<open>Number\<close> of a form's text: an empty one is zero, \<open>None\<close> is not a number. Of the notations the decimal
  one is read.\<close>

definition form_number :: "string \<Rightarrow> rat option" where
  "form_number s = (if blank_text s then Some 0
     else case parse_number s of Some (Num x, []) \<Rightarrow> Some x | _ \<Rightarrow> None)"

record event_form =
  fo_title :: string
  fo_date :: string
  fo_location :: string
  fo_description :: string
  fo_price :: string
  fo_totalSeats :: string
  fo_posterUrl :: string

text \<open>The first rule of the form that a field breaks, with its message.\<close>

definition required :: "string \<Rightarrow> string \<Rightarrow> string option" where
  "required message v = (if v = [] then Some message else None)"

definition at_least :: "rat \<Rightarrow> string \<Rightarrow> bool" where
  "at_least k v = (case form_number v of None \<Rightarrow> True | Some x \<Rightarrow> k \<le> x)"

definition event_form_errors :: "event_form \<Rightarrow> (string \<times> string) list" where
  "event_form_errors f =
     (let req = (\<lambda>k m v. if v = [] then [(k, m)] else []) in
      req ''title'' ''Title is required'' (fo_title f) @ req ''date'' ''Date is required'' (fo_date f)
      @ req ''location'' ''Location is required'' (fo_location f)
      @ req ''description'' ''Description is required'' (fo_description f)
      @ (if fo_price f = [] then [(''price'', ''Price is required'')]
         else if at_least 0 (fo_price f) then [] else [(''price'', [])])
      @ (if fo_totalSeats f = [] then [(''totalSeats'', ''Total Seats is required'')]
         else if at_least 1 (fo_totalSeats f) then [] else [(''totalSeats'', [])]))"

record event_payload =
  py_form :: event_form
  py_price :: "rat option"
  py_totalSeats :: "rat option"

definition submit_event_form :: "event_form \<Rightarrow> (string \<times> string) list + event_payload" where
  "submit_event_form f =
     (if event_form_errors f \<noteq> [] then Inl (event_form_errors f)
      else Inr \<lparr>py_form = f, py_price = form_number (fo_price f), py_totalSeats = form_number (fo_totalSeats f)\<rparr>)"

text \<open>The body of a new show: the theater is left out, the price is a number, and the start time is the text of
  the input, which names no time zone.\<close>

record show_form =
  sf_eventId :: string
  sf_theaterId :: string
  sf_screenId :: string
  sf_startTime :: string
  sf_basePrice :: string

definition show_form_errors :: "show_form \<Rightarrow> string list" where
  "show_form_errors f =
     (let req = (\<lambda>m v. if v = [] then [m] else []) in
      req ''Event is required'' (sf_eventId f) @ req ''Theater is required'' (sf_theaterId f)
      @ req ''Screen is required'' (sf_screenId f) @ req ''Start time is required'' (sf_startTime f)
      @ req ''Price is required'' (sf_basePrice f)
      @ (if sf_basePrice f \<noteq> [] \<and> \<not> at_least 0 (sf_basePrice f) then [[]] else []))"

definition show_payload :: "show_form \<Rightarrow> (string \<times> json) list" where
  "show_payload f = [(''eventId'', Str (sf_eventId f)), (''screenId'', Str (sf_screenId f)),
     (''startTime'', Str (sf_startTime f)),
     (''basePrice'', case form_number (sf_basePrice f) of None \<Rightarrow> Null | Some x \<Rightarrow> Num x)]"

text \<open>What the handler of \<open>POST /shows\<close> requires of its body.\<close>

definition create_show_fields :: "string list" where
  "create_show_fields = [''startTime'', ''price'', ''eventId'', ''screenId'']"

text \<open>The table of shows: a show with bookings cannot be deleted, nor while a deletion runs.\<close>

definition delete_enabled :: "bool \<Rightarrow> nat \<Rightarrow> bool" where
  "delete_enabled isDeleting totalBookings \<longleftrightarrow> \<not> (isDeleting \<or> 0 < totalBookings)"

text \<open>The audit log marks a dangerous action.\<close>

definition audit_color :: "string \<Rightarrow> string" where
  "audit_color action = (if contains_text action ''SUSPEND'' \<or> contains_text action ''DELETE'' then ''red'' else ''green'')"

section \<open>The scanner shows what was answered\<close>

text \<open>A ticket is kept only on a page that is not idle, a message of success goes with a ticket, and every
  result has a timer that will reset it.\<close>

definition scanner_ok :: "scanner \<Rightarrow> bool" where
  "scanner_ok p \<longleftrightarrow>
     (sn_status p = Scan_success \<longrightarrow> sn_ticket p \<noteq> None)
     \<and> (sn_status p = Scan_idle \<longrightarrow> sn_ticket p = None \<and> sn_message p = idle_message)
     \<and> (sn_status p = Scan_error \<longrightarrow> sn_ticket p = None)
     \<and> (sn_status p \<in> {Scan_success, Scan_error} \<longrightarrow> sn_timers p \<noteq> [])
     \<and> (sn_status p = Scan_scanning \<longrightarrow> sn_requests p \<noteq> [])"

lemma scanner_ok_step: "scanner_ok p \<Longrightarrow> scanner_step p q \<Longrightarrow> scanner_ok q"
  by (erule scanner_step.cases)
    (auto simp: scanner_ok_def handleScan_def scan_answered_def reset_scanner_def Let_def split: sum.split)

interpretation scanning: invariant_system scanner_step scanner_ok
  by unfold_locales (rule scanner_ok_step)

text \<open>In every run of the scanner, whatever the order of scans, answers and timers, a ticket is shown exactly
  while the page is green, a scan that is under way has its request, and a shown result has a timer.\<close>

theorem scanner_shows_answers_only:
  assumes "run scanner_step fresh_scanner p"
  shows "(scanner_ticket p \<noteq> None \<longleftrightarrow> scanner_color p = ''green'')
    \<and> (sn_status p = Scan_scanning \<longrightarrow> sn_requests p \<noteq> [])
    \<and> (scanner_color p \<noteq> ''black'' \<longrightarrow> sn_timers p \<noteq> [])"
proof -
  have "scanner_ok fresh_scanner" by (simp add: scanner_ok_def fresh_scanner_def)
  from scanning.run_inv [OF assms this] show ?thesis
    by (auto simp: scanner_ok_def scanner_ticket_def scanner_color_def split: scanner_status.split)
qed

theorem scanner_shows_answers_only_witness:
  "scanner_color (scan_answered 0 ''q'' (Inr ''A1'') (handleScan ''q'' fresh_scanner)) = ''green''
   \<and> sn_timers (scan_answered 0 ''q'' (Inr ''A1'') (handleScan ''q'' fresh_scanner)) \<noteq> []"
proof -
  let ?p = "handleScan ''q'' fresh_scanner"
  let ?q = "scan_answered 0 ''q'' (Inr ''A1'') ?p"
  have "''q'' \<in> set (sn_requests ?p)" by (simp add: handleScan_def fresh_scanner_def blank_text_def)
  from scan_finished [OF this] have "scanner_step ?p ?q" .
  moreover have "run scanner_step fresh_scanner ?p" by (rule run_step [OF run_refl]) (rule scan_started)
  ultimately have "run scanner_step fresh_scanner ?q" by (rule run_step [rotated])
  from scanner_shows_answers_only [OF this] show ?thesis
    by (simp add: scan_answered_def Let_def scanner_color_def)
qed

text \<open>The timer of an earlier result resets the page of a later one, here after a tenth of a second; and a scan
  under way is forgotten by the timer before it, so that the next scan starts beside it.\<close>

lemma earlier_timer_resets_later_result:
  fixes r :: "string option + string"
  assumes "\<not> blank_text a" "\<not> blank_text b"
  defines "p \<equiv> scan_answered 0 a r (handleScan a fresh_scanner)"
  shows "sn_status (reset_scanner 3000 (scan_answered 2900 b s (handleScan b p))) = Scan_idle"
    "3000 \<in> set (sn_timers (scan_answered 2900 b s (handleScan b p)))"
    "sn_requests (handleScan b (reset_scanner 3000 (handleScan b p))) = [b, b]"
  using assms(1,2)
  by (auto simp: p_def reset_scanner_def scan_answered_def handleScan_def fresh_scanner_def Let_def split: sum.split)

section \<open>Queries end, and lists are refreshed\<close>

text \<open>A query is sent at most twice, and once if the first failure is a refusal or the server is silent.\<close>

lemma query_attempts_bound: "query_attempts n fs \<le> (if n = 0 then 2 else 1)"
  by (cases fs; cases "tl fs") (auto simp: retry_query_def split: option.split)

lemma refused_query_is_sent_once:
  "f = None \<or> (\<exists>s. f = Some s \<and> 400 \<le> s \<and> s < 500) \<Longrightarrow> query_attempts 0 (f # fs) = 1"
  by (auto simp: retry_query_def)

text \<open>Every mutation refreshes the list that shows its change, but for a new show, whose keys are in the other
  order, and a new event, which refreshes nothing: these lists stay as they are until they are a minute
  old.\<close>

lemma mutations_refresh_lists: "refreshes_list search m \<longleftrightarrow> m \<notin> {Create_show, Create_event_page}"
  by (cases m) (simp_all add: refreshes_list_def invalidates_def)

section \<open>Tenants of the console\<close>

text \<open>A search fails as soon as some tenant without a subdomain, which no tenant of the server has, does not match
  by name.\<close>

lemma tenant_search_fails:
  assumes "t \<in> set ts" "ct_subdomain t = None" "\<not> contains_lower (ct_name t) term"
  shows "filtered_tenants term ts = None"
  using assms
proof (induction ts)
  case (Cons u us)
  then show ?case by (cases "t = u") (auto simp: tenant_found_def split: option.split)
qed simp

lemma usage_of_full_tenant:
  assumes "0 < l" "l \<le> c"
  shows "usagePct c l = 100"
proof -
  have one: "to_double 1 = 1" using to_double_int [of 1] by simp
  have "(1 :: rat) \<le> of_int c / of_int l" using assms by simp
  from to_double_mono [OF _ this] have "1 \<le> d_div (of_int c) (of_int l)" by (simp add: d_div_def one)
  then have "(100 :: rat) \<le> d_div (of_int c) (of_int l) * 100" by simp
  from to_double_mono [OF _ this] have "100 \<le> d_mul (d_div (of_int c) (of_int l)) 100"
    using to_double_int [of 100] by (simp add: d_mul_def)
  then have "100 \<le> math_round (d_mul (d_div (of_int c) (of_int l)) 100)"
    by (simp add: math_round_def le_floor_iff)
  with assms show ?thesis by (simp add: usagePct_def)
qed

lemma usage_is_percentage:
  assumes "0 \<le> c" "0 \<le> l"
  shows "0 \<le> usagePct c l" "usagePct c l \<le> 100"
proof -
  have zero: "to_double 0 = 0" by (simp add: to_double_def)
  let ?l = "if l = 0 then 1 else l"
  have "(0 :: rat) \<le> of_int c / of_int ?l" using assms by simp
  from to_double_mono [OF order_refl this] have "0 \<le> d_div (of_int c) (of_int ?l)" by (simp add: d_div_def zero)
  then have "(0 :: rat) \<le> d_div (of_int c) (of_int ?l) * 100" by simp
  from to_double_mono [OF order_refl this] have "0 \<le> d_mul (d_div (of_int c) (of_int ?l)) 100"
    by (simp add: d_mul_def zero)
  then have "0 \<le> math_round (d_mul (d_div (of_int c) (of_int ?l)) 100)"
    by (simp add: math_round_def le_floor_iff)
  then show "0 \<le> usagePct c l" by (simp add: usagePct_def)
  show "usagePct c l \<le> 100" by (simp add: usagePct_def)
qed

text \<open>
  The console warns of a tenant whose bookings the server refuses: if the plan guard rejects a booking
  of an active tenant with a positive limit, the usage bar of that tenant is full, red and carries the
  warning; and the bar is a percentage for every tenant.\<close>

theorem refused_tenant_is_warned:
  assumes "find (\<lambda>t. pt_id t = i) tenants = Some t" "guard_tenant req = Some i" "i \<noteq> []"
    and "pt_status t \<in> {''ACTIVE'', ''TRIAL''}" "0 < pt_bookingLimit t" "0 \<le> pt_monthlyBookingCount t"
    and "\<not> is_ok (plan_guard tenants req)"
  shows "usagePct (pt_monthlyBookingCount t) (pt_bookingLimit t) = 100
    \<and> usage_color (usagePct (pt_monthlyBookingCount t) (pt_bookingLimit t)) = ''red''
    \<and> usage_warning (usagePct (pt_monthlyBookingCount t) (pt_bookingLimit t)) \<noteq> None"
proof -
  have "pt_bookingLimit t \<le> pt_monthlyBookingCount t"
    using assms by (auto simp: plan_guard_def truthy_def split: if_splits)
  from usage_of_full_tenant [OF assms(5) this] show ?thesis by (simp add: usage_color_def usage_warning_def)
qed

text \<open>A limit of zero refuses every booking, and the bar of an unused tenant is empty.\<close>

lemma zero_limit_shows_empty_bar: "usagePct 0 0 = 0"
  by code_simp

section \<open>Every row is on a page\<close>

lemma totalPages_pos: "0 < n \<Longrightarrow> 1 \<le> totalPages n"
  by (simp add: totalPages_def Suc_le_eq div_greater_zero_iff)

lemma pages_in_range:
  assumes "0 < n" "1 \<le> rp_page p" "rp_page p \<le> totalPages n"
  shows "1 \<le> rp_page (next_page n p) \<and> rp_page (next_page n p) \<le> totalPages n"
    "1 \<le> rp_page (prev_page p) \<and> rp_page (prev_page p) \<le> totalPages n"
    "1 \<le> rp_page (set_filter s p) \<and> rp_page (set_filter s p) \<le> totalPages n"
  using assms totalPages_pos [OF assms(1)] by (auto simp: next_page_def prev_page_def set_filter_def)

lemma page_reached: "k < totalPages n \<Longrightarrow> rp_page ((next_page n ^^ k) fresh_pages) = k + 1"
  by (induction k) (simp_all add: fresh_pages_def next_page_def)

lemma rows_on_pages:
  "concat (map (\<lambda>k. take 20 (drop (20 * k) rows)) [0..<totalPages (length rows)]) = rows"
proof -
  have "concat (map (\<lambda>k. take 20 (drop (20 * k) rows)) [0..<m]) = take (m * 20) rows" for m
  proof (induction m)
    case (Suc m)
    have "take (Suc m * 20) rows = take (m * 20 + 20) rows" by (simp add: add.commute)
    with Suc show ?case by (simp add: take_add mult.commute)
  qed simp
  moreover have "length rows \<le> totalPages (length rows) * 20" unfolding totalPages_def by presburger
  ultimately show ?thesis by simp
qed

section \<open>System health is always operational\<close>

text \<open>The health check of the server has none of the members the page reads, and a missing answer counts as
  healthy: the page shows the same whether the server answers or is down.\<close>

lemma health_page_ignores_outage:
  "health_banner None = ''All Systems Operational''"
  "health_banner (Some health_answer) = ''All Systems Operational''"
  by (simp_all add: health_banner_def overall_status_def service_statuses_def health_answer_def Let_def
      nullish_def json_get_def)

section \<open>What the forms send\<close>

text \<open>The body of a new show lacks the price that its handler requires and has a member it does not know.\<close>

lemma show_form_is_refused:
  "''price'' \<in> set create_show_fields" "''price'' \<notin> fst ` set (show_payload f)"
  "''basePrice'' \<in> fst ` set (show_payload f)" "''basePrice'' \<notin> set create_show_fields"
  by (simp_all add: create_show_fields_def show_payload_def)

text \<open>A submitted event has a title, a price that is not negative and at least one seat.\<close>

lemma submitted_event:
  assumes "submit_event_form f = Inr y" "py_price y = Some x" "py_totalSeats y = Some n"
  shows "fo_title f \<noteq> [] \<and> 0 \<le> x \<and> 1 \<le> n"
  using assms
  by (auto simp: submit_event_form_def event_form_errors_def Let_def at_least_def split: if_splits)

text \<open>Both consoles offer to cancel exactly the bookings whose card offers it.\<close>

lemma admin_cancels_as_customer: "admin_can_cancel (bd_status b) \<longleftrightarrow> canCancel b"
  by (simp add: admin_can_cancel_def canCancel_def)

end
