(* ===== verification/Dtos.thy ===== *)
theory Dtos
  imports Json Slugs
begin

text \<open>
  The bodies the backend accepts: the validation pipe of \<open>main.ts\<close> (\<open>whitelist\<close>, \<open>forbidNonWhitelisted\<close>,
  \<open>transform\<close>) and the classes that describe bodies, \<open>backend/src/*/dto\<close> and \<open>shared/dto\<close>. A class is the list of
  its properties, a decorator a named test. The tests on the format of a text that a package decides (addresses of
  mails and pages, dates, identifiers, phone numbers) are parameters. Lengths count bytes.
\<close>

section \<open>Values\<close>

text \<open>What a property of the object holds: nothing, a number that is none (or not finite), or a value of the body.\<close>

datatype field_value = Undefined | Not_a_number | Given json

text \<open>\<open>Number(text)\<close>: blanks around it do not count, an empty text is zero; hexadecimal, octal and binary numerals
  and the decimal ones.\<close>

definition radix_number :: "nat \<Rightarrow> string \<Rightarrow> rat option" where
  "radix_number b ds =
     (if ds \<noteq> [] \<and> list_all (\<lambda>c. case hex_value c of None \<Rightarrow> False | Some v \<Rightarrow> v < b) ds
      then Some (to_double (of_nat (foldl (\<lambda>n c. n * b + the (hex_value c)) 0 ds))) else None)"

definition decimal_number :: "string \<Rightarrow> rat option" where
  "decimal_number s =
     (let signed = (s \<noteq> [] \<and> (hd s = CHR ''-'' \<or> hd s = CHR ''+''));
          sign = (if signed \<and> hd s = CHR ''-'' then - 1 else 1);
          s1 = (if signed then tl s else s);
          ds = takeWhile is_digit s1;
          s2 = dropWhile is_digit s1;
          point = (s2 \<noteq> [] \<and> hd s2 = CHR ''.'');
          fs = (if point then takeWhile is_digit (tl s2) else []);
          s3 = (if point then dropWhile is_digit (tl s2) else s2)
      in if ds = [] \<and> fs = [] then None
         else case parse_exponent s3 of
           Some (e, []) \<Rightarrow> Some (to_double (sign * (of_int (read_digits (ds @ fs)) / 10 ^ length fs) * e))
         | _ \<Rightarrow> None)"

definition text_number :: "string \<Rightarrow> rat option" where
  "text_number text =
     (let s = trim_text text; p = to_lower (take 2 s)
      in if s = [] then Some 0
         else if p = ''0x'' then radix_number 16 (drop 2 s)
         else if p = ''0o'' then radix_number 8 (drop 2 s)
         else if p = ''0b'' then radix_number 2 (drop 2 s)
         else decimal_number s)"

definition number_of :: "json \<Rightarrow> field_value" where
  "number_of v = (case v of
     Num x \<Rightarrow> Given (Num x)
   | Bool b \<Rightarrow> Given (Num (if b then 1 else 0))
   | Str s \<Rightarrow> (case text_number s of None \<Rightarrow> Not_a_number | Some x \<Rightarrow> Given (Num x))
   | Null \<Rightarrow> Given Null
   | Arr xs \<Rightarrow> Given (Arr xs)
   | Obj _ \<Rightarrow> Not_a_number)"

text \<open>\<open>@Type(() => Number)\<close>; a list stays a list, whatever its elements become.\<close>

definition type_Number :: "field_value \<Rightarrow> field_value" where
  "type_Number v = (case v of Given j \<Rightarrow> number_of j | _ \<Rightarrow> v)"

section \<open>Tests\<close>

definition isString :: "field_value \<Rightarrow> bool" where
  "isString v = (case v of Given (Str _) \<Rightarrow> True | _ \<Rightarrow> False)"

definition isBoolean :: "field_value \<Rightarrow> bool" where
  "isBoolean v = (case v of Given (Bool _) \<Rightarrow> True | _ \<Rightarrow> False)"

definition number_test :: "(rat \<Rightarrow> bool) \<Rightarrow> field_value \<Rightarrow> bool" where
  "number_test p v = (case v of Given (Num x) \<Rightarrow> p x | _ \<Rightarrow> False)"

definition text_test :: "(string \<Rightarrow> bool) \<Rightarrow> field_value \<Rightarrow> bool" where
  "text_test p v = (case v of Given (Str s) \<Rightarrow> p s | _ \<Rightarrow> False)"

definition list_test :: "(json list \<Rightarrow> bool) \<Rightarrow> field_value \<Rightarrow> bool" where
  "list_test p v = (case v of Given (Arr xs) \<Rightarrow> p xs | _ \<Rightarrow> False)"

definition whole :: "rat \<Rightarrow> bool" where
  "whole x \<longleftrightarrow> of_int \<lfloor>x\<rfloor> = x"

definition isNotEmpty :: "field_value \<Rightarrow> bool" where
  "isNotEmpty v \<longleftrightarrow> v \<noteq> Undefined \<and> v \<noteq> Given Null \<and> v \<noteq> Given (Str [])"

text \<open>\<open>each: true\<close> tests the elements of a list, and a value that is no list itself.\<close>

definition each :: "(field_value \<Rightarrow> bool) \<Rightarrow> field_value \<Rightarrow> bool" where
  "each p v = (case v of Given (Arr xs) \<Rightarrow> list_all (\<lambda>x. p (Given x)) xs | _ \<Rightarrow> p v)"

type_synonym constraint = "string \<times> (field_value \<Rightarrow> bool)"

definition IsString :: constraint where "IsString = (''isString'', isString)"
definition IsBoolean :: constraint where "IsBoolean = (''isBoolean'', isBoolean)"
definition IsNumber :: constraint where "IsNumber = (''isNumber'', number_test (\<lambda>_. True))"
definition IsInt :: constraint where "IsInt = (''isInt'', number_test whole)"
definition IsNotEmpty :: constraint where "IsNotEmpty = (''isNotEmpty'', isNotEmpty)"
definition IsArray :: constraint where "IsArray = (''isArray'', list_test (\<lambda>_. True))"
definition Minimum :: "rat \<Rightarrow> constraint" where "Minimum k = (''min'', number_test (\<lambda>x. k \<le> x))"
definition Maximum :: "rat \<Rightarrow> constraint" where "Maximum k = (''max'', number_test (\<lambda>x. x \<le> k))"
definition MinLength :: "nat \<Rightarrow> constraint" where "MinLength n = (''minLength'', text_test (\<lambda>s. n \<le> length s))"
definition TextLength :: "nat \<Rightarrow> nat \<Rightarrow> constraint" where
  "TextLength m n = (''isLength'', text_test (\<lambda>s. m \<le> length s \<and> length s \<le> n))"
definition Matches :: "(string \<Rightarrow> bool) \<Rightarrow> constraint" where "Matches p = (''matches'', text_test p)"
definition IsEnum :: "string list \<Rightarrow> constraint" where "IsEnum xs = (''isEnum'', text_test (\<lambda>s. s \<in> set xs))"
definition ArrayMinSize :: "nat \<Rightarrow> constraint" where "ArrayMinSize n = (''arrayMinSize'', list_test (\<lambda>xs. n \<le> length xs))"
definition ArrayMaxSize :: "nat \<Rightarrow> constraint" where "ArrayMaxSize n = (''arrayMaxSize'', list_test (\<lambda>xs. length xs \<le> n))"
definition Each :: "constraint \<Rightarrow> constraint" where "Each c = (fst c, each (snd c))"

lemmas constraint_defs = IsString_def IsBoolean_def IsNumber_def IsInt_def IsNotEmpty_def IsArray_def Minimum_def
  Maximum_def MinLength_def TextLength_def Matches_def IsEnum_def ArrayMinSize_def ArrayMaxSize_def Each_def

text \<open>The formats a package decides.\<close>

record formats =
  fm_email :: "string \<Rightarrow> bool"
  fm_date :: "string \<Rightarrow> bool"
  fm_url :: "string \<Rightarrow> bool"
  fm_uuid :: "string \<Rightarrow> bool"
  fm_phone :: "string \<Rightarrow> bool"

definition IsEmail :: "formats \<Rightarrow> constraint" where "IsEmail fm = (''isEmail'', text_test (fm_email fm))"
definition IsDateString :: "formats \<Rightarrow> constraint" where "IsDateString fm = (''isDateString'', text_test (fm_date fm))"
definition IsUrl :: "formats \<Rightarrow> constraint" where "IsUrl fm = (''isUrl'', text_test (fm_url fm))"
definition IsUUID :: "formats \<Rightarrow> constraint" where "IsUUID fm = (''isUuid'', text_test (fm_uuid fm))"
definition IsPhoneNumber :: "formats \<Rightarrow> constraint" where "IsPhoneNumber fm = (''isPhoneNumber'', text_test (fm_phone fm))"

lemmas format_defs = IsEmail_def IsDateString_def IsUrl_def IsUUID_def IsPhoneNumber_def

section \<open>The pipe\<close>

record property =
  pr_name :: string
  pr_optional :: bool
  pr_convert :: "field_value \<Rightarrow> field_value"
  pr_checks :: "constraint list"

definition field :: "string \<Rightarrow> constraint list \<Rightarrow> property" where
  "field n cs = \<lparr>pr_name = n, pr_optional = False, pr_convert = id, pr_checks = cs\<rparr>"

definition optional :: "property \<Rightarrow> property" where
  "optional p = p\<lparr>pr_optional := True\<rparr>"

definition converted :: "property \<Rightarrow> property" where
  "converted p = p\<lparr>pr_convert := type_Number\<rparr>"

type_synonym body = "(string \<times> json) list"

definition value_of :: "body \<Rightarrow> string \<Rightarrow> field_value" where
  "value_of b k = (case map_of (rev b) k of None \<Rightarrow> Undefined | Some v \<Rightarrow> Given v)"

definition property_value :: "body \<Rightarrow> property \<Rightarrow> field_value" where
  "property_value b p = pr_convert p (value_of b (pr_name p))"

definition skipped :: "property \<Rightarrow> field_value \<Rightarrow> bool" where
  "skipped p v \<longleftrightarrow> pr_optional p \<and> (v = Undefined \<or> v = Given Null)"

definition property_errors :: "body \<Rightarrow> property \<Rightarrow> (string \<times> string) list" where
  "property_errors b p =
     (let v = property_value b p
      in if skipped p v then [] else map (\<lambda>c. (pr_name p, fst c)) (filter (\<lambda>c. \<not> snd c v) (pr_checks p)))"

definition unknown_properties :: "property list \<Rightarrow> body \<Rightarrow> string list" where
  "unknown_properties dto b = filter (\<lambda>k. k \<notin> pr_name ` set dto) (map fst b)"

definition body_errors :: "property list \<Rightarrow> body \<Rightarrow> (string \<times> string) list" where
  "body_errors dto b =
     map (\<lambda>k. (k, ''whitelistValidation'')) (unknown_properties dto b) @ concat (map (property_errors b) dto)"

definition accepts :: "property list \<Rightarrow> body \<Rightarrow> bool" where
  "accepts dto b \<longleftrightarrow> body_errors dto b = []"

text \<open>The object the handler gets.\<close>

definition transformed :: "property list \<Rightarrow> body \<Rightarrow> string \<Rightarrow> field_value" where
  "transformed dto b k = (case find (\<lambda>p. pr_name p = k) dto of None \<Rightarrow> Undefined | Some p \<Rightarrow> property_value b p)"

definition validation_pipe :: "property list \<Rightarrow> body \<Rightarrow> (string \<times> string) list + (string \<Rightarrow> field_value)" where
  "validation_pipe dto b = (if body_errors dto b = [] then Inr (transformed dto b) else Inl (body_errors dto b))"

text \<open>\<open>@ValidateNested()\<close> with \<open>@Type(() => Class)\<close>: an absent value passes, an object is validated by its class,
  a list element by element.\<close>

fun nested_json :: "property list \<Rightarrow> json \<Rightarrow> bool" where
  "nested_json dto Null = True"
| "nested_json dto (Obj ms) = accepts dto ms"
| "nested_json dto (Arr xs) = list_all (nested_json dto) xs"
| "nested_json dto _ = False"

definition ValidateNested :: "property list \<Rightarrow> constraint" where
  "ValidateNested dto = (''nestedValidation'', \<lambda>v. case v of Undefined \<Rightarrow> True | Not_a_number \<Rightarrow> False | Given j \<Rightarrow> nested_json dto j)"

text \<open>\<open>PartialType\<close>\<close>

definition PartialType :: "property list \<Rightarrow> property list" where
  "PartialType dto = map optional dto"

section \<open>Patterns\<close>

text \<open>\<open>/^[a-z0-9-]+$/\<close>, \<open>/^[A-Za-z]+\d+$/\<close> and the pattern of a tax number.\<close>

definition is_lower :: "char \<Rightarrow> bool" where
  "is_lower c \<longleftrightarrow> (let n = (of_char c :: nat) in 97 \<le> n \<and> n \<le> 122)"

definition is_letter :: "char \<Rightarrow> bool" where
  "is_letter c \<longleftrightarrow> is_lower c \<or> is_upper c"

definition slug_pattern :: "string \<Rightarrow> bool" where
  "slug_pattern s \<longleftrightarrow> s \<noteq> [] \<and> list_all (\<lambda>c. is_lower c \<or> is_digit c \<or> c = dash) s"

definition seat_pattern :: "string \<Rightarrow> bool" where
  "seat_pattern s \<longleftrightarrow>
     (let ls = takeWhile is_letter s; ds = dropWhile is_letter s in ls \<noteq> [] \<and> ds \<noteq> [] \<and> list_all is_digit ds)"

definition gst_classes :: "(char \<Rightarrow> bool) list" where
  "gst_classes =
     replicate 2 is_digit @ replicate 5 is_upper @ replicate 4 is_digit @
     [is_upper, \<lambda>c. is_digit c \<and> c \<noteq> CHR ''0'' \<or> is_upper c, \<lambda>c. c = CHR ''Z'', \<lambda>c. is_digit c \<or> is_upper c]"

definition gst_pattern :: "string \<Rightarrow> bool" where
  "gst_pattern s \<longleftrightarrow> list_all2 (\<lambda>p c. p c) gst_classes s"

section \<open>The classes of the backend\<close>

subsection \<open>Accounts\<close>

definition RegisterDto_rules :: "formats \<Rightarrow> property list" where
  "RegisterDto_rules fm = [field ''email'' [IsEmail fm], field ''name'' [IsString, MinLength 2],
     field ''password'' [IsString, MinLength 8]]"

definition LoginDto_rules :: "formats \<Rightarrow> property list" where
  "LoginDto_rules fm = [field ''email'' [IsEmail fm], field ''password'' [IsString, MinLength 8]]"

definition LoginPasswordDto_rules :: "formats \<Rightarrow> property list" where
  "LoginPasswordDto_rules fm = [field ''email'' [IsEmail fm, IsNotEmpty], field ''password'' [IsString, IsNotEmpty]]"

definition RequestOtpDto_rules :: "formats \<Rightarrow> property list" where
  "RequestOtpDto_rules fm = [field ''email'' [IsEmail fm, IsNotEmpty]]"

definition ForgotPasswordDto_rules :: "formats \<Rightarrow> property list" where
  "ForgotPasswordDto_rules fm = [field ''email'' [IsEmail fm, IsNotEmpty]]"

definition otp_field :: property where
  "otp_field = field ''otp'' [IsString, IsNotEmpty, TextLength 6 6]"

definition LoginOtpDto_rules :: "formats \<Rightarrow> property list" where
  "LoginOtpDto_rules fm = [field ''email'' [IsEmail fm, IsNotEmpty], otp_field]"

definition VerifyOtpDto_rules :: "formats \<Rightarrow> property list" where
  "VerifyOtpDto_rules fm = [field ''email'' [IsEmail fm, IsNotEmpty], otp_field]"

definition ResetPasswordDto_rules :: "formats \<Rightarrow> property list" where
  "ResetPasswordDto_rules fm = [field ''email'' [IsEmail fm, IsNotEmpty], otp_field,
     field ''newPassword'' [IsString, IsNotEmpty, MinLength 6]]"

definition SetPasswordDto_rules :: "formats \<Rightarrow> property list" where
  "SetPasswordDto_rules fm = [field ''email'' [IsEmail fm, IsNotEmpty],
     field ''password'' [IsString, IsNotEmpty, MinLength 6]]"

definition CreateTenantDto_rules :: "property list" where
  "CreateTenantDto_rules = [field ''slug'' [IsString, MinLength 3, Matches slug_pattern],
     optional (field ''name'' [IsString, MinLength 2])]"

subsection \<open>Events, seats and bookings\<close>

definition CreateEventDto_rules :: "formats \<Rightarrow> property list" where
  "CreateEventDto_rules fm = [field ''name'' [IsString], field ''startsAt'' [IsDateString fm],
     converted (field ''totalSeats'' [IsInt, Minimum 1]),
     optional (converted (field ''seatStartNumber'' [IsInt, Minimum 1]))]"

definition UpdateEventDto_rules :: "formats \<Rightarrow> property list" where
  "UpdateEventDto_rules fm = PartialType (CreateEventDto_rules fm)"

definition seat_fields :: "property list" where
  "seat_fields = [field ''eventId'' [IsString], field ''seatId'' [IsString]]"

definition LockSeatDto_rules :: "property list" where
  "LockSeatDto_rules = seat_fields"

definition UnlockSeatDto_rules :: "property list" where
  "UnlockSeatDto_rules = seat_fields"

definition InitiateBookingDto_rules :: "property list" where
  "InitiateBookingDto_rules = [field ''eventId'' [IsString],
     field ''seatIds'' [IsArray, ArrayMinSize 1, Each IsString],
     converted (field ''amount'' [IsInt, Minimum 1]),
     optional (field ''currency'' [IsString])]"

definition VerifyTicketDto_rules :: "property list" where
  "VerifyTicketDto_rules = [field ''ticketCode'' [IsString, MinLength 6]]"

definition LockSeatsDto_rules :: "property list" where
  "LockSeatsDto_rules = [field ''showId'' [IsString, IsNotEmpty],
     field ''seatNumbers'' [IsArray, ArrayMinSize 1, ArrayMaxSize 10, Each IsString, Each (Matches seat_pattern)]]"

definition bookings_LockSeatDto_rules :: "property list" where
  "bookings_LockSeatDto_rules = [field ''showId'' [IsString], field ''seatId'' [IsString]]"

definition PaymentDetailsDto_rules :: "property list" where
  "PaymentDetailsDto_rules = [field ''paymentId'' [IsString, IsNotEmpty], optional (field ''orderId'' [IsString]),
     optional (field ''signature'' [IsString])]"

definition ConfirmBookingDto_rules :: "property list" where
  "ConfirmBookingDto_rules = [field ''showId'' [IsString, IsNotEmpty],
     field ''seatIds'' [IsArray, Each IsString, IsNotEmpty],
     field ''paymentDetails'' [ValidateNested PaymentDetailsDto_rules, IsNotEmpty]]"

definition ApplyDiscountDto_rules :: "property list" where
  "ApplyDiscountDto_rules = [field ''bookingId'' [IsString], optional (field ''couponCode'' [IsString]),
     optional (field ''giftCardCode'' [IsString])]"

definition CreateShowDto_rules :: "formats \<Rightarrow> property list" where
  "CreateShowDto_rules fm = [field ''startTime'' [IsDateString fm], field ''price'' [IsNumber, Minimum 0],
     field ''eventId'' [IsString], field ''screenId'' [IsString]]"

subsection \<open>Administration, platform and devices\<close>

text \<open>The enumerations of the generated client are a parameter.\<close>

definition admin_CreateEventDto_rules :: "formats \<Rightarrow> string list \<Rightarrow> property list" where
  "admin_CreateEventDto_rules fm eventTypes = [field ''title'' [IsString], field ''type'' [IsEnum eventTypes],
     field ''language'' [IsString], field ''duration'' [IsInt, Minimum 1], field ''date'' [IsDateString fm],
     field ''location'' [IsString], field ''price'' [IsNumber, Minimum 0],
     optional (field ''totalSeats'' [IsInt, Minimum 0]), optional (field ''posterUrl'' [IsUrl fm]),
     optional (field ''bannerUrl'' [IsUrl fm]), optional (field ''description'' [IsString])]"

definition admin_CreateShowDto_rules :: "formats \<Rightarrow> property list" where
  "admin_CreateShowDto_rules fm = [field ''eventId'' [IsString], field ''screenId'' [IsString],
     field ''startTime'' [IsDateString fm], field ''basePrice'' [IsNumber, Minimum 0]]"

definition CreateScreenDto_rules :: "property list" where
  "CreateScreenDto_rules = [field ''theaterId'' [IsString], field ''name'' [IsString], field ''totalSeats'' [IsInt, Minimum 1]]"

definition CreateTheaterDto_rules :: "property list" where
  "CreateTheaterDto_rules = [field ''name'' [IsString], field ''city'' [IsString], field ''address'' [IsString]]"

definition UpdateMonetizationDto_rules :: "string list \<Rightarrow> property list" where
  "UpdateMonetizationDto_rules feeTypes = [optional (field ''enabled'' [IsBoolean]),
     optional (field ''type'' [IsEnum feeTypes]),
     optional (field ''value'' [IsNumber, Minimum 0, Maximum 1000])]"

definition TenantStatus_values :: "string list" where
  "TenantStatus_values = [''ACTIVE'', ''SUSPENDED'', ''TRIAL'']"

definition TenantPlan_values :: "string list" where
  "TenantPlan_values = [''FREE'', ''BASIC'', ''PRO'', ''ENTERPRISE'']"

definition UpdateTenantStatusDto_rules :: "property list" where
  "UpdateTenantStatusDto_rules = [field ''status'' [IsEnum TenantStatus_values], optional (field ''reason'' [IsString])]"

definition UpdateTenantPlanDto_rules :: "property list" where
  "UpdateTenantPlanDto_rules = [field ''plan'' [IsEnum TenantPlan_values], optional (field ''bookingLimit'' [IsInt, Minimum 0])]"

definition UpdateTenantBillingDto_rules :: "formats \<Rightarrow> property list" where
  "UpdateTenantBillingDto_rules fm = [field ''billingEmail'' [IsEmail fm]]"

definition RegisterDeviceDto_rules :: "formats \<Rightarrow> property list" where
  "RegisterDeviceDto_rules fm = [field ''name'' [IsString, IsNotEmpty], field ''tenantId'' [IsUUID fm, IsNotEmpty]]"

definition AuthenticateDeviceDto_rules :: "formats \<Rightarrow> property list" where
  "AuthenticateDeviceDto_rules fm = [field ''deviceId'' [IsUUID fm, IsNotEmpty], field ''deviceKey'' [IsString, IsNotEmpty]]"

definition OfflineScanDto_rules :: "property list" where
  "OfflineScanDto_rules = [field ''qrToken'' [IsString, IsNotEmpty], field ''scannedAt'' [IsString, IsNotEmpty]]"

definition SyncScansDto_rules :: "property list" where
  "SyncScansDto_rules = [field ''scans'' [IsArray, ValidateNested OfflineScanDto_rules, IsNotEmpty]]"

definition ScanTicketDto_rules :: "property list" where
  "ScanTicketDto_rules = [field ''qrToken'' [IsString, IsNotEmpty], optional (field ''deviceId'' [IsString])]"

definition DateRangeDto_rules :: "formats \<Rightarrow> property list" where
  "DateRangeDto_rules fm = [optional (field ''from'' [IsDateString fm]), optional (field ''to'' [IsDateString fm])]"

section \<open>The shared classes\<close>

definition ReviewAction_values :: "string list" where
  "ReviewAction_values = [''APPROVE'', ''REJECT'']"

definition EventType_values :: "string list" where
  "EventType_values = [''CONCERT'', ''MOVIE'', ''SPORTS'', ''OTHER'']"

definition CreateTheaterApplicationDto_rules :: "formats \<Rightarrow> property list" where
  "CreateTheaterApplicationDto_rules fm =
     [field ''theaterName'' [IsString, IsNotEmpty], field ''ownerName'' [IsString, IsNotEmpty],
      field ''email'' [IsEmail fm, IsNotEmpty], field ''phone'' [IsPhoneNumber fm, IsNotEmpty],
      field ''address'' [IsString, IsNotEmpty], field ''city'' [IsString, IsNotEmpty], field ''state'' [IsString, IsNotEmpty],
      optional (field ''gstNumber'' [IsString, Matches gst_pattern])]"

definition ReviewTheaterApplicationDto_rules :: "property list" where
  "ReviewTheaterApplicationDto_rules = [field ''action'' [IsEnum ReviewAction_values, IsNotEmpty],
     optional (field ''reviewNotes'' [IsString])]"

definition shared_CreateEventDto_rules :: "formats \<Rightarrow> property list" where
  "shared_CreateEventDto_rules fm = [field ''title'' [IsString], field ''type'' [IsEnum EventType_values],
     field ''language'' [IsString], field ''duration'' [IsInt], optional (field ''posterUrl'' [IsUrl fm]),
     optional (field ''description'' [IsString]), field ''date'' [IsDateString fm], field ''location'' [IsString],
     field ''price'' [IsInt], optional (field ''totalSeats'' [IsInt]), optional (field ''availableSeats'' [IsInt])]"

definition shared_UpdateEventDto_rules :: "property list" where
  "shared_UpdateEventDto_rules = [optional (field ''title'' [IsString]), optional (field ''type'' [IsEnum EventType_values]),
     optional (field ''language'' [IsString]), optional (field ''duration'' [IsInt])]"

definition shared_FilterEventsDto_rules :: "formats \<Rightarrow> property list" where
  "shared_FilterEventsDto_rules fm = [optional (field ''city'' [IsString]), optional (field ''type'' [IsEnum EventType_values]),
     optional (field ''from'' [IsDateString fm]), optional (field ''to'' [IsDateString fm]),
     optional (field ''search'' [IsString]), optional (field ''date'' [IsDateString fm])]"

definition shared_LockSeatsDto_rules :: "property list" where
  "shared_LockSeatsDto_rules = [field ''seatIds'' [IsArray, IsNotEmpty, Each IsString]]"

definition shared_ConfirmBookingDto_rules :: "property list" where
  "shared_ConfirmBookingDto_rules = [field ''bookingId'' [IsString], field ''razorpayPaymentId'' [IsString],
     field ''razorpayOrderId'' [IsString], field ''razorpaySignature'' [IsString]]"

definition shared_LoginDto_rules :: "formats \<Rightarrow> property list" where
  "shared_LoginDto_rules fm = [field ''email'' [IsEmail fm], field ''otp'' [IsString, TextLength 6 6]]"

definition shared_CreateShowDto_rules :: "formats \<Rightarrow> property list" where
  "shared_CreateShowDto_rules fm = [field ''eventId'' [IsString], field ''screenId'' [IsString],
     field ''startTime'' [IsDateString fm], field ''basePrice'' [IsNumber, Minimum 0]]"

definition UserDto_rules :: "formats \<Rightarrow> property list" where
  "UserDto_rules fm = [field ''id'' [IsString], field ''email'' [IsEmail fm], optional (field ''name'' [IsString]),
     field ''role'' [IsString]]"

section \<open>What acceptance means\<close>

definition property_ok :: "body \<Rightarrow> property \<Rightarrow> bool" where
  "property_ok b p \<longleftrightarrow> skipped p (property_value b p) \<or> list_all (\<lambda>c. snd c (property_value b p)) (pr_checks p)"

lemma property_errors_Nil: "property_errors b p = [] \<longleftrightarrow> property_ok b p"
  by (auto simp: property_errors_def property_ok_def Let_def filter_empty_conv list_all_iff)

lemma accepts_iff:
  "accepts dto b \<longleftrightarrow> (\<forall>k \<in> fst ` set b. k \<in> pr_name ` set dto) \<and> list_all (property_ok b) dto"
  by (auto simp: accepts_def body_errors_def unknown_properties_def filter_empty_conv property_errors_Nil list_all_iff)

lemma field_ok:
  "property_ok b (field n cs) \<longleftrightarrow> list_all (\<lambda>c. snd c (value_of b n)) cs"
  by (simp add: property_ok_def skipped_def property_value_def field_def)

lemma optional_field_ok:
  "property_ok b (optional (field n cs)) \<longleftrightarrow>
     value_of b n = Undefined \<or> value_of b n = Given Null \<or> list_all (\<lambda>c. snd c (value_of b n)) cs"
  by (auto simp: property_ok_def skipped_def property_value_def field_def optional_def)

lemma converted_field_ok:
  "property_ok b (converted (field n cs)) \<longleftrightarrow> list_all (\<lambda>c. snd c (type_Number (value_of b n))) cs"
  by (simp add: property_ok_def skipped_def property_value_def field_def converted_def)

lemma field_names [simp]:
  "pr_name (field n cs) = n" "pr_name (optional p) = pr_name p" "pr_name (converted p) = pr_name p"
  by (simp_all add: field_def optional_def converted_def)

lemmas accept_simps = accepts_iff field_ok optional_field_ok converted_field_ok

lemma test_simps [simp]:
  "isString v \<longleftrightarrow> (\<exists>s. v = Given (Str s))"
  "isBoolean v \<longleftrightarrow> (\<exists>b. v = Given (Bool b))"
  "number_test p v \<longleftrightarrow> (\<exists>x. v = Given (Num x) \<and> p x)"
  "text_test q v \<longleftrightarrow> (\<exists>s. v = Given (Str s) \<and> q s)"
  "list_test r v \<longleftrightarrow> (\<exists>xs. v = Given (Arr xs) \<and> r xs)"
  by (auto simp: isString_def isBoolean_def number_test_def text_test_def list_test_def
      split: field_value.splits json.splits)

lemma value_of_simps [simp]:
  "value_of [] k = Undefined"
  "value_of (b @ [(j, v)]) k = (if k = j then Given v else value_of b k)"
  by (simp_all add: value_of_def)

lemma value_of_Cons: "value_of ((j, v) # b) k = (if k = j \<and> k \<notin> fst ` set b then Given v else value_of b k)"
  by (induction b rule: rev_induct) (auto simp: value_of_def map_of_append map_add_def split: option.splits)

text \<open>An accepted body may leave out or null exactly the optional properties, and a partial class accepts what the
  class accepts.\<close>

lemma partial_accepts: "accepts dto b \<Longrightarrow> accepts (PartialType dto) b"
  by (auto simp: accepts_iff PartialType_def list_all_iff property_ok_def skipped_def property_value_def optional_def
      image_image)

lemma partial_accepts_nothing: "list_all (\<lambda>p. pr_convert p Undefined = Undefined) dto \<Longrightarrow> accepts (PartialType dto) []"
  by (auto simp: accepts_iff PartialType_def list_all_iff property_ok_def skipped_def property_value_def optional_def)

lemma partial_exact:
  assumes "\<forall>p \<in> set dto. \<not> skipped (optional p) (property_value b p)"
  shows "accepts (PartialType dto) b \<longleftrightarrow> accepts dto b"
  using assms
  by (auto simp: accepts_iff PartialType_def list_all_iff property_ok_def skipped_def property_value_def optional_def
      image_image)

lemma accepted_names: "accepts dto b \<Longrightarrow> (k, v) \<in> set b \<Longrightarrow> k \<in> pr_name ` set dto"
  by (force simp: accepts_iff)

text \<open>One unknown property refuses the whole body.\<close>

lemma unknown_refused: "k \<notin> pr_name ` set dto \<Longrightarrow> \<not> accepts dto (b @ (k, v) # b')"
  by (auto simp: accepts_iff)

end
