(* ===== verification/Requests.thy ===== *)
theory Requests
  imports Dtos BookingGuarantees Onboarding Administration SeatPicker Console Serving
begin

text \<open>
  What the validation of bodies means for both of its sides: which inputs reach the services, and which bodies of the
  frontend are accepted. The bodies are those of \<open>frontend/src/features/*/api\<close> and of the forms in
  \<open>features/admin/components/CreateEventForm.tsx\<close> and \<open>app/admin/events/new/page.tsx\<close>.
\<close>

section \<open>Booking\<close>

definition text_of :: "json \<Rightarrow> string" where
  "text_of v = (case v of Str s \<Rightarrow> s | _ \<Rightarrow> [])"

definition optional_text :: "field_value \<Rightarrow> string option" where
  "optional_text v = (case v of Given (Str s) \<Rightarrow> Some s | _ \<Rightarrow> None)"

text \<open>The object that the handler of \<open>POST /bookings/initiate\<close> gets.\<close>

definition initiate_dto :: "body \<Rightarrow> InitiateBookingDto option" where
  "initiate_dto b =
     (let t = transformed InitiateBookingDto_rules b
      in case (t ''eventId'', t ''seatIds'', t ''amount'') of
           (Given (Str e), Given (Arr xs), Given (Num x)) \<Rightarrow>
             Some \<lparr>ib_eventId = e, ib_seatIds = map text_of xs, ib_amount = \<lfloor>x\<rfloor>, ib_currency = optional_text (t ''currency'')\<rparr>
         | _ \<Rightarrow> None)"

definition initiate_body :: "InitiateBookingDto \<Rightarrow> body" where
  "initiate_body dto =
     [(''eventId'', Str (ib_eventId dto)), (''seatIds'', Arr (map Str (ib_seatIds dto))),
      (''amount'', Num (of_int (ib_amount dto)))] @
     (case ib_currency dto of None \<Rightarrow> [] | Some c \<Rightarrow> [(''currency'', Str c)])"

lemma transformed_initiate:
  "transformed InitiateBookingDto_rules b ''eventId'' = value_of b ''eventId''"
  "transformed InitiateBookingDto_rules b ''seatIds'' = value_of b ''seatIds''"
  "transformed InitiateBookingDto_rules b ''amount'' = type_Number (value_of b ''amount'')"
  "transformed InitiateBookingDto_rules b ''currency'' = value_of b ''currency''"
  by (simp_all add: transformed_def InitiateBookingDto_rules_def property_value_def)
    (simp_all add: field_def optional_def converted_def)

lemma accepts_initiate:
  "accepts InitiateBookingDto_rules b \<longleftrightarrow>
     (\<forall>k \<in> fst ` set b. k \<in> {''eventId'', ''seatIds'', ''amount'', ''currency''}) \<and>
     (\<exists>e. value_of b ''eventId'' = Given (Str e)) \<and>
     (\<exists>xs. value_of b ''seatIds'' = Given (Arr xs) \<and> xs \<noteq> [] \<and> list_all (\<lambda>x. \<exists>s. x = Str s) xs) \<and>
     (\<exists>x. type_Number (value_of b ''amount'') = Given (Num x) \<and> whole x \<and> 1 \<le> x) \<and>
     (value_of b ''currency'' = Undefined \<or> value_of b ''currency'' = Given Null \<or> (\<exists>c. value_of b ''currency'' = Given (Str c)))"
  unfolding InitiateBookingDto_rules_def accept_simps
  by (auto simp: constraint_defs each_def accept_simps Suc_le_eq)

lemma map_text_of [simp]: "map (text_of \<circ> Str) xs = xs"
  by (simp add: text_of_def comp_def)

lemma initiate_body_values:
  "value_of (initiate_body dto) ''eventId'' = Given (Str (ib_eventId dto))"
  "value_of (initiate_body dto) ''seatIds'' = Given (Arr (map Str (ib_seatIds dto)))"
  "value_of (initiate_body dto) ''amount'' = Given (Num (of_int (ib_amount dto)))"
  "value_of (initiate_body dto) ''currency'' = (case ib_currency dto of None \<Rightarrow> Undefined | Some c \<Rightarrow> Given (Str c))"
  by (auto simp: initiate_body_def value_of_Cons split: option.split)

lemma initiate_body_read: "initiate_dto (initiate_body dto) = Some dto"
  by (simp add: initiate_dto_def transformed_initiate initiate_body_values type_Number_def number_of_def
      optional_text_def split: option.split)

lemma initiate_body_accepted:
  "accepts InitiateBookingDto_rules (initiate_body dto) \<longleftrightarrow> ib_seatIds dto \<noteq> [] \<and> 1 \<le> ib_amount dto"
proof -
  have "fst ` set (initiate_body dto) \<subseteq> {''eventId'', ''seatIds'', ''amount'', ''currency''}"
    by (auto simp: initiate_body_def split: option.splits)
  then have k: "\<forall>k \<in> fst ` set (initiate_body dto). k \<in> {''eventId'', ''seatIds'', ''amount'', ''currency''}" by blast
  have s: "list_all (\<lambda>x. \<exists>s. x = Str s) (map Str xs)" for xs by (simp add: list_all_iff)
  have a: "type_Number (Given (Num (of_int n))) = Given (Num (of_int n))" "whole (of_int n)" for n
    by (simp_all add: type_Number_def number_of_def whole_def)
  show "accepts InitiateBookingDto_rules (initiate_body dto) \<longleftrightarrow> ib_seatIds dto \<noteq> [] \<and> 1 \<le> ib_amount dto"
    unfolding accepts_initiate initiate_body_values using k s by (cases "ib_currency dto") (simp_all add: a)
qed

text \<open>
  A body and the object made of it say the same: the body of an object is read back as that object, and it is
  accepted exactly if the object has a seat and a positive amount.
\<close>

theorem initiate_body_roundtrip:
  "initiate_dto (initiate_body dto) = Some dto
   \<and> (accepts InitiateBookingDto_rules (initiate_body dto) \<longleftrightarrow> ib_seatIds dto \<noteq> [] \<and> 1 \<le> ib_amount dto)"
  using initiate_body_read initiate_body_accepted by blast

lemma accepted_initiate:
  assumes "accepts InitiateBookingDto_rules b"
  obtains dto where "initiate_dto b = Some dto" "ib_seatIds dto \<noteq> []" "1 \<le> ib_amount dto"
proof -
  from assms obtain e xs x where v: "value_of b ''eventId'' = Given (Str e)" "value_of b ''seatIds'' = Given (Arr xs)"
    "xs \<noteq> []" "type_Number (value_of b ''amount'') = Given (Num x)" "1 \<le> x"
    unfolding accepts_initiate by (elim conjE exE) (rule that, assumption+)
  let ?dto = "\<lparr>ib_eventId = e, ib_seatIds = map text_of xs, ib_amount = \<lfloor>x\<rfloor>,
    ib_currency = optional_text (value_of b ''currency'')\<rparr>"
  have "initiate_dto b = Some ?dto" by (simp add: initiate_dto_def transformed_initiate v)
  moreover have "1 \<le> \<lfloor>x\<rfloor>" using v(5) by linarith
  ultimately show thesis using that [of ?dto] v(3) by simp
qed

text \<open>
  C36. From the request to the table: whatever body the pipe lets through, a booking that is initiated from it has a
  positive amount and at least one seat, whose identifiers are those of the body.
\<close>

theorem validated_booking:
  assumes "accepts InitiateBookingDto_rules b"
  shows "\<exists>dto. initiate_dto b = Some dto \<and>
    (case initiateBooking co ttl clk rnd newId tenant u dto s of
       (s', Inl e) \<Rightarrow> s' = s
     | (s', Inr r) \<Rightarrow> \<exists>row xs. db_bookings s' = db_bookings s @ [row] \<and> 1 \<le> bk_amount row \<and> xs \<noteq> [] \<and>
         set xs = set (ib_seatIds dto) \<and>
         db_bookingSeats s' = db_bookingSeats s @ map (\<lambda>x. \<lparr>bs_bookingId = newId, bs_seatId = x\<rparr>) xs)"
proof -
  obtain dto where d: "initiate_dto b = Some dto" "ib_seatIds dto \<noteq> []" "1 \<le> ib_amount dto"
    using accepted_initiate [OF assms] .
  show ?thesis
  proof (cases rule: initiateBooking_cases [of co ttl clk rnd newId tenant u dto s])
    case (error e)
    with d show ?thesis by simp
  next
    case (booked xs order)
    then have xs: "xs = dedupe (ib_seatIds dto)" by (simp add: initiate_checks_ok)
    then have "xs \<noteq> []" "set xs = set (ib_seatIds dto)"
      using d(2) set_dedupe [of "ib_seatIds dto"] by (metis set_empty)+
    then show ?thesis
    proof (cases rule: initiate_commit_cases [of ttl clk newId tenant u dto xs order s])
      case refused
      with booked(4) show ?thesis by simp
    next
      case (created s' r)
      with booked(3) d \<open>xs \<noteq> []\<close> \<open>set xs = set (ib_seatIds dto)\<close> show ?thesis by (auto simp: new_booking_def)
    qed
  qed
qed

theorem validated_booking_witness:
  "\<exists>row. db_bookings (fst (initiateBooking (sc_createOrder demo_config) 5 (demo_clock 2000) ''a'' ''b1'' demo_tenant
     ''ann'' demo_dto demo_store)) = db_bookings demo_store @ [row] \<and> 1 \<le> bk_amount row"
proof -
  let ?r = "initiateBooking (sc_createOrder demo_config) 5 (demo_clock 2000) ''a'' ''b1'' demo_tenant ''ann''
    demo_dto demo_store"
  have "is_ok (snd ?r)" by code_simp
  then obtain s' r where r: "?r = (s', Inr r)" by (cases ?r) (auto simp: is_ok_iff)
  have "ib_seatIds demo_dto \<noteq> [] \<and> 1 \<le> ib_amount demo_dto" by (simp add: demo_dto_def)
  then have "accepts InitiateBookingDto_rules (initiate_body demo_dto)" using initiate_body_accepted by blast
  from validated_booking [OF this, where co = "sc_createOrder demo_config" and ttl = 5 and clk = "demo_clock 2000"
      and rnd = "''a''" and newId = "''b1''" and tenant = demo_tenant and u = "''ann''" and s = demo_store]
  show ?thesis by (auto simp: initiate_body_read r)
qed

section \<open>Slugs\<close>

lemma underscore_code: "(of_char c :: nat) = 95 \<longleftrightarrow> c = CHR ''_''"
proof
  assume "(of_char c :: nat) = 95"
  then have "c = char_of (95 :: nat)" by (metis char_of_char)
  moreover have "char_of (95 :: nat) = CHR ''_''" by code_simp
  ultimately show "c = CHR ''_''" by simp
qed simp

lemma slug_char: "(is_word c \<or> c = dash) \<and> \<not> is_upper c \<longleftrightarrow> is_lower c \<or> is_digit c \<or> c = dash \<or> c = CHR ''_''"
proof -
  have "is_word c \<and> \<not> is_upper c \<longleftrightarrow> is_lower c \<or> is_digit c \<or> (of_char c :: nat) = 95"
    by (auto simp: is_word_def is_upper_def is_lower_def is_digit_def Let_def)
  then show ?thesis using dash_is_lower underscore_code by metis
qed

text \<open>
  The slugs of onboarding and those of \<open>POST /tenants\<close> differ in the underscore: a computed slug is accepted there
  exactly if it has three characters and no underscore.
\<close>

lemma computed_slug_accepted:
  "accepts CreateTenantDto_rules [(''slug'', Str (slugify name))] \<longleftrightarrow>
     3 \<le> length (slugify name) \<and> CHR ''_'' \<notin> set (slugify name)"
proof -
  have "slug_pattern (slugify name) \<longleftrightarrow> slugify name \<noteq> [] \<and> CHR ''_'' \<notin> set (slugify name)"
    using slugify_chars [of _ name] slug_char
    by (auto simp: slug_pattern_def list_all_iff is_lower_def is_digit_def)
  then show ?thesis
    by (auto simp: CreateTenantDto_rules_def accept_simps constraint_defs value_of_Cons)
qed

lemma underscored_slug_refused:
  "slugify ''Cine_Max Hall'' = ''cine_max-hall''"
  "\<not> accepts CreateTenantDto_rules [(''slug'', Str (slugify ''Cine_Max Hall''))]"
proof -
  show s: "slugify ''Cine_Max Hall'' = ''cine_max-hall''" by code_simp
  show "\<not> accepts CreateTenantDto_rules [(''slug'', Str (slugify ''Cine_Max Hall''))]"
    using computed_slug_accepted [of "''Cine_Max Hall''"] by (simp add: s)
qed

section \<open>Seats\<close>

text \<open>The pattern is the concatenation of letters and digits; the letters end where the digits start.\<close>

lemma seat_pattern_iff:
  "seat_pattern s \<longleftrightarrow> (\<exists>ls ds. s = ls @ ds \<and> ls \<noteq> [] \<and> ds \<noteq> [] \<and> list_all is_letter ls \<and> list_all is_digit ds)"
proof
  assume "seat_pattern s"
  then have "s = takeWhile is_letter s @ dropWhile is_letter s \<and> takeWhile is_letter s \<noteq> [] \<and> dropWhile is_letter s \<noteq> []
      \<and> list_all is_letter (takeWhile is_letter s) \<and> list_all is_digit (dropWhile is_letter s)"
    by (auto simp: seat_pattern_def Let_def list_all_iff dest: set_takeWhileD)
  then show "\<exists>ls ds. s = ls @ ds \<and> ls \<noteq> [] \<and> ds \<noteq> [] \<and> list_all is_letter ls \<and> list_all is_digit ds" by blast
next
  assume "\<exists>ls ds. s = ls @ ds \<and> ls \<noteq> [] \<and> ds \<noteq> [] \<and> list_all is_letter ls \<and> list_all is_digit ds"
  then obtain ls ds where s: "s = ls @ ds" "ls \<noteq> []" "ds \<noteq> []" "list_all is_letter ls" "list_all is_digit ds" by blast
  have "\<not> is_letter (hd ds)"
    using s(3,5) by (cases ds) (auto simp: is_letter_def is_lower_def is_upper_def is_digit_def Let_def)
  then have "takeWhile is_letter s = ls" "dropWhile is_letter s = ds"
    using s by (cases ds; simp add: list_all_iff)+
  then show "seat_pattern s" using s by (simp add: seat_pattern_def)
qed

lemma numbered_seat: "0 \<le> n \<Longrightarrow> row \<noteq> [] \<Longrightarrow> list_all is_letter row \<Longrightarrow> seat_pattern (row @ show_int n)"
  unfolding seat_pattern_iff
  by (intro exI [of _ row] exI [of _ "show_int n"])
    (auto simp: show_int_def list_all_iff intro: show_digits_digits)

text \<open>
  What the booking page sends of a selection is accepted as a list of seats if rows are letters; a seat without a
  row passes as one of the row \<open>undefined\<close>.
\<close>

lemma selection_accepted:
  assumes "cells \<noteq> []" "length cells \<le> 6" "showId \<noteq> []"
    and "\<forall>c \<in> set cells. 0 \<le> ce_number c \<and> (case ce_row c of None \<Rightarrow> True | Some r \<Rightarrow> r \<noteq> [] \<and> list_all is_letter r)"
  shows "accepts LockSeatsDto_rules [(''showId'', Str showId), (''seatNumbers'', Arr (map (Str \<circ> seat_code) cells))]"
proof -
  have u: "list_all is_letter ''undefined''" by code_simp
  have "seat_pattern (seat_code c)" if "c \<in> set cells" for c
    using assms(4) that numbered_seat [OF _ _ u, of "ce_number c"]
    by (cases "ce_row c") (auto simp: seat_code_def intro!: numbered_seat)
  then show ?thesis using assms(1-3)
    by (auto simp: LockSeatsDto_rules_def accept_simps constraint_defs each_def value_of_Cons list_all_iff Suc_le_eq isNotEmpty_def)
qed

text \<open>
  The class is written for \<open>POST /bookings/lock\<close>, says its comment; but every call sent there carries a third
  member, and that refuses it.\<close>

lemma lock_call_refused:
  assumes "a \<in> set (booking_api @ seats_api)" "ca_path a = ''/bookings/lock''" "map fst b = ca_body a"
  shows "\<not> accepts LockSeatsDto_rules b"
proof -
  have "''idempotencyKey'' \<in> fst ` set b"
    using assms by (auto simp: booking_api_def seats_api_def call_def simp flip: set_map)
  then obtain v where "(''idempotencyKey'', v) \<in> set b" by auto
  then show ?thesis using accepted_names [of LockSeatsDto_rules b] by (auto simp: LockSeatsDto_rules_def)
qed

section \<open>Events\<close>

text \<open>The body of the dashboard's form, and the rules its server class sets for it.\<close>

definition number_json :: "rat option \<Rightarrow> json" where
  "number_json x = (case x of None \<Rightarrow> Null | Some v \<Rightarrow> Num v)"

definition event_body :: "event_payload \<Rightarrow> body" where
  "event_body y = (let f = py_form y in
     [(''title'', Str (fo_title f)), (''date'', Str (fo_date f)), (''location'', Str (fo_location f)),
      (''description'', Str (fo_description f)), (''price'', number_json (py_price y)),
      (''totalSeats'', number_json (py_totalSeats y)), (''posterUrl'', Str (fo_posterUrl f))])"

lemma dashboard_event_refused: "\<not> accepts (admin_CreateEventDto_rules fm types) (event_body y)"
  by (simp add: admin_CreateEventDto_rules_def accepts_iff field_ok event_body_def Let_def value_of_Cons constraint_defs)

text \<open>The form of \<open>/admin/events/new\<close>: its fields, the ones that must be filled, and the body it posts. The date
  is rewritten by \<open>toISOString\<close>, which throws for a text that is no date.\<close>

record new_event =
  nw_title :: string
  nw_type :: string
  nw_language :: string
  nw_duration :: string
  nw_price :: string
  nw_date :: string
  nw_location :: string
  nw_posterUrl :: string
  nw_description :: string

definition new_event_valid :: "new_event \<Rightarrow> bool" where
  "new_event_valid f \<longleftrightarrow> nw_title f \<noteq> [] \<and> nw_type f \<noteq> [] \<and> nw_language f \<noteq> [] \<and> nw_duration f \<noteq> [] \<and>
     at_least 1 (nw_duration f) \<and> nw_price f \<noteq> [] \<and> at_least 0 (nw_price f) \<and> nw_date f \<noteq> [] \<and> nw_location f \<noteq> []"

definition new_event_body :: "(string \<Rightarrow> string option) \<Rightarrow> new_event \<Rightarrow> body option" where
  "new_event_body toISO f = map_option (\<lambda>d.
     [(''title'', Str (nw_title f)), (''type'', Str (nw_type f)), (''language'', Str (nw_language f)),
      (''duration'', number_json (form_number (nw_duration f))), (''price'', number_json (form_number (nw_price f))),
      (''date'', Str d), (''location'', Str (nw_location f)), (''posterUrl'', Str (nw_posterUrl f)),
      (''description'', Str (nw_description f))]) (toISO (nw_date f))"

definition submit_new_event :: "(string \<Rightarrow> string option) \<Rightarrow> new_event \<Rightarrow> body option" where
  "submit_new_event toISO f = (if new_event_valid f then new_event_body toISO f else None)"


definition sample_new_event :: new_event where
  "sample_new_event = \<lparr>nw_title = ''T'', nw_type = ''MOVIE'', nw_language = ''English'', nw_duration = ''120'', nw_price = ''250'',
     nw_date = ''2026-04-01T18:30'', nw_location = ''Hall'', nw_posterUrl = [], nw_description = []\<rparr>"

lemma form_numbers: "form_number ''120'' = Some 120" "form_number ''250'' = Some 250"
  by code_simp+


text \<open>The two classes of an event disagree: the server's asks for a positive duration and a price that is not
  negative, the shared one for a price without paise.\<close>

definition sample_event_body :: "int \<Rightarrow> rat \<Rightarrow> body" where
  "sample_event_body duration price = [(''title'', Str ''T''), (''type'', Str ''MOVIE''), (''language'', Str ''English''),
     (''duration'', Num (of_int duration)), (''date'', Str ''2026-04-01''), (''location'', Str ''Hall''), (''price'', Num price)]"

lemma whole_of_int [simp]: "whole (of_int n)"
  by (simp add: whole_def)

lemma event_classes_differ:
  assumes "fm_date fm ''2026-04-01''"
  shows "accepts (admin_CreateEventDto_rules fm EventType_values) (sample_event_body n x) \<longleftrightarrow> 1 \<le> n \<and> 0 \<le> x"
    "accepts (shared_CreateEventDto_rules fm) (sample_event_body n x) \<longleftrightarrow> whole x"
  using assms
  by (simp_all add: admin_CreateEventDto_rules_def shared_CreateEventDto_rules_def EventType_values_def accept_simps
      sample_event_body_def value_of_Cons constraint_defs format_defs)

section \<open>Fees\<close>

text \<open>The object of an accepted change of the platform fee, with the two types of the shared enumeration.\<close>

definition fee_type_values :: "string list" where
  "fee_type_values = [''PERCENTAGE'', ''FLAT'']"

definition monetization_of :: "body \<Rightarrow> monetization_dto" where
  "monetization_of b =
     \<lparr>md_enabled = (case value_of b ''enabled'' of Given (Bool e) \<Rightarrow> Some e | _ \<Rightarrow> None),
      md_type = (case value_of b ''type'' of
        Given (Str s) \<Rightarrow> if s = ''PERCENTAGE'' then Some Fee_PERCENTAGE else if s = ''FLAT'' then Some Fee_FLAT else None
      | _ \<Rightarrow> None),
      md_value = (case value_of b ''value'' of Given (Num x) \<Rightarrow> Some x | _ \<Rightarrow> None)\<rparr>"

lemma accepted_fee_value:
  assumes "accepts (UpdateMonetizationDto_rules types) b" "md_value (monetization_of b) = Some v"
  shows "0 \<le> v \<and> v \<le> 1000"
  using assms
  by (auto simp: UpdateMonetizationDto_rules_def accept_simps constraint_defs monetization_of_def
      split: field_value.splits json.splits)

definition fees_in_range :: "fee_tenant list \<Rightarrow> bool" where
  "fees_in_range ts \<longleftrightarrow> list_all (\<lambda>t. 0 \<le> ft_platformFeeValue t \<and> ft_platformFeeValue t \<le> 1000) ts"

text \<open>
  Validation and service together keep every fee of the table between zero and a thousand, whatever accepted bodies
  arrive in whatever order.
\<close>

theorem validated_fees_in_range:
  assumes "fees_in_range (fst s)" "list_all (\<lambda>(i, b, by). accepts (UpdateMonetizationDto_rules types) b) requests"
  shows "fees_in_range (fst (fold (\<lambda>(i, b, by) s. fst (updateMonetization i (monetization_of b) by s)) requests s))"
  using assms
proof (induction requests arbitrary: s)
  case (Cons q requests)
  obtain i b who where q: "q = (i, b, who)" by (cases q)
  have v: "0 \<le> v \<and> v \<le> 1000" if "md_value (monetization_of b) = Some v" for v
    using accepted_fee_value [of types b v] that Cons.prems(2) q by simp
  have "fees_in_range (fst (fst (updateMonetization i (monetization_of b) who s)))"
    using Cons.prems(1) v
    by (auto simp: updateMonetization_def fees_in_range_def list_all_iff fee_update_def default_to_def in_update_where
        split: option.splits)
  with Cons q show ?case by simp
qed simp

theorem validated_fees_in_range_witness:
  "fees_in_range (fst (fst (updateMonetization ''t'' (monetization_of [(''value'', Num 1000)]) ''root'' ([sample_tenant], []))))"
  using validated_fees_in_range [of "([sample_tenant], [])" "[]" "[(''t'', [(''value'', Num 1000)], ''root'')]"]
  by (simp add: fees_in_range_def sample_tenant_def UpdateMonetizationDto_rules_def accept_simps constraint_defs value_of_Cons)

text \<open>But the range of the class is that of flat fees: an accepted body takes a percentage fee to a thousand.\<close>

lemma thousand_percent:
  "accepts (UpdateMonetizationDto_rules fee_type_values) [(''value'', Num 1000)]"
  "map_option ft_platformFeeValue (find_fee_tenant ''t'' (fst (fst (updateMonetization ''t''
     (monetization_of [(''value'', Num 1000)]) ''root'' ([sample_tenant], []))))) = Some 1000"
  "ft_platformFeeType sample_tenant = Fee_PERCENTAGE"
  by (simp_all add: UpdateMonetizationDto_rules_def accept_simps constraint_defs value_of_Cons monetization_of_def
      updateMonetization_def find_fee_tenant_def sample_tenant_def fee_update_def default_to_def)

section \<open>Offline scans and passwords\<close>

definition scan_json :: "string \<times> string \<Rightarrow> json" where
  "scan_json s = Obj [(''qrToken'', Str (fst s)), (''scannedAt'', Str (snd s))]"

lemma nested_scan: "nested_json OfflineScanDto_rules (scan_json s) \<longleftrightarrow> fst s \<noteq> [] \<and> snd s \<noteq> []"
  by (auto simp: scan_json_def OfflineScanDto_rules_def accept_simps constraint_defs value_of_Cons isNotEmpty_def)

text \<open>An upload is accepted if every scan has a token and a time; that the time is a date is not tested, and an
  element that is \<open>null\<close> passes.\<close>

lemma upload_accepted:
  "accepts SyncScansDto_rules [(''scans'', Arr (map scan_json xs))] \<longleftrightarrow> list_all (\<lambda>s. fst s \<noteq> [] \<and> snd s \<noteq> []) xs"
  by (auto simp: SyncScansDto_rules_def accept_simps constraint_defs value_of_Cons isNotEmpty_def ValidateNested_def
      nested_scan list_all_iff)

lemma null_scan_accepted: "accepts SyncScansDto_rules [(''scans'', Arr [Null])]"
  by (simp add: SyncScansDto_rules_def accept_simps constraint_defs value_of_Cons isNotEmpty_def ValidateNested_def)

text \<open>A password of six or seven characters can be set but not used to log in.\<close>

lemma short_password:
  assumes "fm_email fm e" "e \<noteq> []" "length p \<in> {6, 7}"
  shows "accepts (SetPasswordDto_rules fm) [(''email'', Str e), (''password'', Str p)]"
    "\<not> accepts (LoginDto_rules fm) [(''email'', Str e), (''password'', Str p)]"
  using assms
  by (auto simp: SetPasswordDto_rules_def LoginDto_rules_def accept_simps constraint_defs format_defs value_of_Cons isNotEmpty_def)

text \<open>An accepted tax number has fifteen characters and names a valid entity code.\<close>

lemma gst_length: "gst_pattern s \<Longrightarrow> length s = 15 \<and> s ! 13 = CHR ''Z''"
proof -
  assume g: "gst_pattern s"
  then have l: "length s = 15" by (auto simp: gst_pattern_def gst_classes_def dest!: list_all2_lengthD)
  moreover have "(gst_classes ! 13) (s ! 13)"
    using list_all2_nthD [of "\<lambda>p c. p c" gst_classes s 13] g by (simp add: gst_pattern_def gst_classes_def)
  ultimately show ?thesis by (simp add: gst_classes_def numeral_eq_Suc)
qed

end
