(* ===== verification/Maintenance.thy ===== *)
theory Maintenance
  imports Dtos
begin

text \<open>
  The scripts that repair a database, \<open>backend/src/scripts\<close>: \<open>repair-seat-availability.ts\<close>,
  \<open>backfill-tenant.ts\<close> with its audit \<open>tenant-audit.ts\<close>, and \<open>fix-show-dates.ts\<close>. They run on the older tables. A
  script may be run twice; what that does is the interface \<open>repeatable\<close>.
\<close>

section \<open>Jobs that may be repeated\<close>

text \<open>A job whose environment (fresh identifiers, the clock) differs from run to run, with a state it leaves alone.\<close>

locale repeatable =
  fixes job :: "'e \<Rightarrow> 's \<Rightarrow> 's"
    and ready :: "'e \<Rightarrow> 's \<Rightarrow> bool"
    and settled :: "'s \<Rightarrow> bool"
  assumes settles: "ready e s \<Longrightarrow> settled (job e s)"
    and stays: "settled s \<Longrightarrow> job e s = s"
begin

lemma job_twice: "ready e s \<Longrightarrow> job e' (job e s) = job e s"
  by (rule stays) (rule settles)

lemma job_many: "ready e s \<Longrightarrow> fold job es (job e s) = job e s"
  by (induction es) (simp_all add: job_twice)

end

section \<open>Seats of screens and shows\<close>

record repair_seat =
  ms_id :: string
  ms_screenId :: string
  ms_row :: string
  ms_number :: nat

record repair_show_row =
  mh_id :: string
  mh_screenId :: string
  mh_totalCapacity :: nat
  mh_remainingCapacity :: nat

record availability =
  ma_showId :: string
  ma_seatId :: string
  ma_status :: string

record repair_screen_row =
  mc_id :: string
  mc_totalRows :: "nat option"
  mc_seatsPerRow :: "nat option"

record seat_tables =
  mt_screens :: "repair_screen_row list"
  mt_seats :: "repair_seat list"
  mt_shows :: "repair_show_row list"
  mt_availability :: "availability list"

text \<open>\<open>createMany\<close> with \<open>skipDuplicates\<close>: a row whose key exists is left out.\<close>

definition create_missing :: "('r \<Rightarrow> 'k) \<Rightarrow> 'r list \<Rightarrow> 'r list \<Rightarrow> 'r list" where
  "create_missing key rows t = fold (\<lambda>r t. if key r \<in> key ` set t then t else t @ [r]) rows t"

text \<open>\<open>String.fromCharCode(65 + r)\<close>\<close>

definition row_label :: "nat \<Rightarrow> string" where
  "row_label r = utf8 (65 + r)"

type_synonym id_source = "string \<Rightarrow> nat \<Rightarrow> nat \<Rightarrow> string"

definition generated_seats :: "id_source \<Rightarrow> repair_screen_row \<Rightarrow> repair_seat list" where
  "generated_seats newId screen =
     (let rows = (case mc_totalRows screen of None \<Rightarrow> 10 | Some n \<Rightarrow> n);
          perRow = (case mc_seatsPerRow screen of None \<Rightarrow> 10 | Some n \<Rightarrow> n)
      in concat (map (\<lambda>r. map (\<lambda>s. \<lparr>ms_id = newId (mc_id screen) r s, ms_screenId = mc_id screen,
           ms_row = row_label r, ms_number = s\<rparr>) [1 ..< perRow + 1]) [0 ..< rows]))"

definition seats_on :: "string \<Rightarrow> seat_tables \<Rightarrow> repair_seat list" where
  "seats_on i db = filter (\<lambda>s. ms_screenId s = i) (mt_seats db)"

definition rows_of_show :: "string \<Rightarrow> seat_tables \<Rightarrow> availability list" where
  "rows_of_show h db = filter (\<lambda>a. ma_showId a = h) (mt_availability db)"

definition shows_on :: "string \<Rightarrow> seat_tables \<Rightarrow> repair_show_row list" where
  "shows_on i db = filter (\<lambda>h. mh_screenId h = i) (mt_shows db)"

text \<open>Step 1; \<open>snap\<close> is what the first query of the script has read.\<close>

definition create_seats :: "id_source \<Rightarrow> seat_tables \<Rightarrow> repair_screen_row \<Rightarrow> seat_tables \<Rightarrow> seat_tables" where
  "create_seats newId snap screen db =
     (if seats_on (mc_id screen) snap = []
      then db\<lparr>mt_seats := create_missing ms_id (generated_seats newId screen) (mt_seats db)\<rparr> else db)"

text \<open>Step 2.\<close>

definition repair_show :: "seat_tables \<Rightarrow> repair_seat list \<Rightarrow> repair_show_row \<Rightarrow> seat_tables \<Rightarrow> seat_tables" where
  "repair_show snap freshSeats h db =
     (if rows_of_show (mh_id h) snap \<noteq> [] then db
      else db\<lparr>mt_availability := create_missing (\<lambda>a. (ma_showId a, ma_seatId a))
                (map (\<lambda>s. \<lparr>ma_showId = mh_id h, ma_seatId = ms_id s, ma_status = ''AVAILABLE''\<rparr>) freshSeats)
                (mt_availability db),
              mt_shows := update_where (\<lambda>x. mh_id x = mh_id h)
                (\<lambda>x. x\<lparr>mh_totalCapacity := length freshSeats, mh_remainingCapacity := length freshSeats\<rparr>) (mt_shows db)\<rparr>)"

definition repair_screen :: "id_source \<Rightarrow> seat_tables \<Rightarrow> repair_screen_row \<Rightarrow> seat_tables \<Rightarrow> seat_tables" where
  "repair_screen newId snap screen db =
     (let db' = create_seats newId snap screen db
      in fold (repair_show snap (seats_on (mc_id screen) db')) (shows_on (mc_id screen) snap) db')"

definition repair_availability :: "id_source \<Rightarrow> seat_tables \<Rightarrow> seat_tables" where
  "repair_availability newId db = fold (repair_screen newId db) (mt_screens db) db"

section \<open>The repair is repeatable\<close>

text \<open>A repaired screen: it has seats, if it is to have any, and every show of it has rows, or there is no seat and
  the show has no capacity.\<close>

definition show_settled :: "seat_tables \<Rightarrow> repair_show_row \<Rightarrow> bool" where
  "show_settled db h \<longleftrightarrow> rows_of_show (mh_id h) db \<noteq> [] \<or>
     seats_on (mh_screenId h) db = [] \<and> mh_totalCapacity h = 0 \<and> mh_remainingCapacity h = 0"

definition no_seats_planned :: "repair_screen_row \<Rightarrow> bool" where
  "no_seats_planned screen \<longleftrightarrow> mc_totalRows screen = Some 0 \<or> mc_seatsPerRow screen = Some 0"

definition screen_settled :: "seat_tables \<Rightarrow> repair_screen_row \<Rightarrow> bool" where
  "screen_settled db screen \<longleftrightarrow> (seats_on (mc_id screen) db \<noteq> [] \<or> no_seats_planned screen) \<and>
     list_all (show_settled db) (shows_on (mc_id screen) db)"

definition tables_settled :: "seat_tables \<Rightarrow> bool" where
  "tables_settled db \<longleftrightarrow> distinct (map mh_id (mt_shows db)) \<and> list_all (screen_settled db) (mt_screens db)"

lemma generated_Nil: "generated_seats newId screen = [] \<longleftrightarrow> no_seats_planned screen"
  by (auto simp: generated_seats_def no_seats_planned_def Let_def split: option.splits intro: exI [of _ 0])

lemma create_missing_Nil [simp]: "create_missing key [] t = t"
  by (simp add: create_missing_def)

lemma create_missing_Cons:
  "create_missing key (r # rows) t = create_missing key rows (if key r \<in> key ` set t then t else t @ [r])"
  by (simp add: create_missing_def)

lemma create_missing_keys: "key ` set (create_missing key rows t) = key ` set t \<union> key ` set rows"
  by (induction rows arbitrary: t) (auto simp: create_missing_Cons)

lemma create_missing_filter:
  assumes "\<forall>r \<in> set rows. \<not> P r"
  shows "filter P (create_missing key rows t) = filter P t"
  using assms
proof (induction rows arbitrary: t)
  case (Cons r rows)
  then show ?case by (simp add: create_missing_Cons)
qed simp

lemma stays_settled:
  assumes "tables_settled db"
  shows "repair_availability newId db = db"
proof -
  have idle: "repair_show db fresh h db = db"
    if h: "h \<in> set (shows_on i db)" "show_settled db h" "fresh = seats_on i db" for h i fresh
  proof (cases "rows_of_show (mh_id h) db = []")
    case True
    with h have e: "fresh = []" "mh_totalCapacity h = 0" "mh_remainingCapacity h = 0" "h \<in> set (mt_shows db)"
      by (auto simp: show_settled_def shows_on_def)
    have "x = h" if "x \<in> set (mt_shows db)" "mh_id x = mh_id h" for x
      using assms that e(4) by (auto simp: tables_settled_def dest: distinct_key_eq)
    then have "update_where (\<lambda>x. mh_id x = mh_id h) (\<lambda>x. x\<lparr>mh_totalCapacity := 0, mh_remainingCapacity := 0\<rparr>) (mt_shows db) = mt_shows db"
      using e by (intro update_where_id) (metis repair_show_row.surjective repair_show_row.update_convs(3,4))
    then show ?thesis using True e(1) by (simp add: repair_show_def)
  qed (simp add: repair_show_def)
  have "repair_screen newId db screen db = db" if s: "screen \<in> set (mt_screens db)" for screen
  proof -
    have t: "screen_settled db screen" using assms s by (simp add: tables_settled_def list_all_iff)
    then have c: "create_seats newId db screen db = db"
      using generated_Nil [of newId screen] by (auto simp: create_seats_def screen_settled_def)
    have "fold (repair_show db (seats_on (mc_id screen) db)) hs db = db" if "set hs \<subseteq> set (shows_on (mc_id screen) db)" for hs
      using that
    proof (induction hs)
      case (Cons h hs)
      then have "repair_show db (seats_on (mc_id screen) db) h db = db"
        using t by (intro idle [of _ "mc_id screen"]) (auto simp: screen_settled_def list_all_iff)
      then show ?case using Cons by simp
    qed simp
    then show ?thesis by (simp add: repair_screen_def c)
  qed
  note one = this
  have "fold (repair_screen newId db) screens db = db" if "set screens \<subseteq> set (mt_screens db)" for screens
    using that by (induction screens) (simp_all add: one)
  then show ?thesis by (simp add: repair_availability_def)
qed

text \<open>What the script leaves alone, and that rows only grow.\<close>

definition show_keys :: "seat_tables \<Rightarrow> (string \<times> string) list" where
  "show_keys db = map (\<lambda>h. (mh_id h, mh_screenId h)) (mt_shows db)"

definition capacity_is :: "nat \<Rightarrow> string \<Rightarrow> seat_tables \<Rightarrow> bool" where
  "capacity_is n i db \<longleftrightarrow> (\<forall>x \<in> set (mt_shows db). mh_id x = i \<longrightarrow> mh_totalCapacity x = n \<and> mh_remainingCapacity x = n)"

lemma rows_of_show_iff: "rows_of_show i db \<noteq> [] \<longleftrightarrow> i \<in> ma_showId ` set (mt_availability db)"
  by (auto simp: rows_of_show_def filter_empty_conv)

lemma created_shows:
  "ma_showId ` set (create_missing (\<lambda>a. (ma_showId a, ma_seatId a)) rows t) = ma_showId ` set t \<union> ma_showId ` set rows"
proof -
  have "ma_showId ` A = fst ` (\<lambda>a. (ma_showId a, ma_seatId a)) ` A" for A by (simp add: image_image)
  then show ?thesis by (metis create_missing_keys image_Un)
qed

lemma repair_show_simps [simp]:
  "mt_seats (repair_show snap fresh h db) = mt_seats db" "mt_screens (repair_show snap fresh h db) = mt_screens db"
  "show_keys (repair_show snap fresh h db) = show_keys db"
  by (simp_all add: repair_show_def show_keys_def update_where_def)

lemma repair_show_rows: "rows_of_show i db \<noteq> [] \<Longrightarrow> rows_of_show i (repair_show snap fresh h db) \<noteq> []"
  unfolding rows_of_show_iff by (auto simp: repair_show_def created_shows)

lemma repair_show_fills:
  "rows_of_show (mh_id h) snap = [] \<Longrightarrow> fresh \<noteq> [] \<Longrightarrow> rows_of_show (mh_id h) (repair_show snap fresh h db) \<noteq> []"
  unfolding rows_of_show_iff by (cases fresh) (auto simp: repair_show_def created_shows rows_of_show_iff [symmetric])

lemma repair_show_capacity:
  "rows_of_show (mh_id h) snap = [] \<Longrightarrow> capacity_is (length fresh) (mh_id h) (repair_show snap fresh h db)"
  "capacity_is (length fresh) i db \<Longrightarrow> capacity_is (length fresh) i (repair_show snap fresh h db)"
  by (auto simp: repair_show_def capacity_is_def in_update_where)

lemma repair_shows_keep:
  "mt_seats (fold (repair_show snap fresh) hs db) = mt_seats db \<and> mt_screens (fold (repair_show snap fresh) hs db) = mt_screens db
   \<and> show_keys (fold (repair_show snap fresh) hs db) = show_keys db
   \<and> (rows_of_show i db \<noteq> [] \<longrightarrow> rows_of_show i (fold (repair_show snap fresh) hs db) \<noteq> [])
   \<and> (capacity_is (length fresh) i db \<longrightarrow> capacity_is (length fresh) i (fold (repair_show snap fresh) hs db))"
  by (induction hs arbitrary: db) (simp_all add: repair_show_rows repair_show_capacity(2))

lemma repair_shows_done:
  assumes "h \<in> set hs" "rows_of_show (mh_id h) snap = []"
  shows "(fresh \<noteq> [] \<longrightarrow> rows_of_show (mh_id h) (fold (repair_show snap fresh) hs db) \<noteq> [])
    \<and> capacity_is (length fresh) (mh_id h) (fold (repair_show snap fresh) hs db)"
  using assms
proof (induction hs arbitrary: db)
  case (Cons g hs)
  show ?case
  proof (cases "h = g")
    case True
    with Cons.prems show ?thesis
      using repair_shows_keep [of snap fresh hs "repair_show snap fresh g db" "mh_id g"]
        repair_show_fills [of g snap fresh db] repair_show_capacity(1) [of g snap fresh db] by simp
  qed (use Cons in simp)
qed simp

lemma repair_shows_other:
  "x \<in> set (mt_shows (fold (repair_show snap fresh) hs db)) \<Longrightarrow> mh_id x \<notin> mh_id ` set hs \<Longrightarrow> x \<in> set (mt_shows db)"
proof (induction hs arbitrary: db)
  case (Cons g hs)
  then have "x \<in> set (mt_shows (repair_show snap fresh g db))" by simp
  then show ?case using Cons.prems(2) by (auto simp: repair_show_def in_update_where split: if_splits)
qed simp

text \<open>The script runs on tables with unique identifiers, and its new identifiers are new and different.\<close>

definition repair_ready :: "id_source \<Rightarrow> seat_tables \<Rightarrow> bool" where
  "repair_ready newId db \<longleftrightarrow> distinct (map mh_id (mt_shows db)) \<and> distinct (map mc_id (mt_screens db)) \<and>
     (\<forall>i r s. newId i r s \<notin> ms_id ` set (mt_seats db)) \<and>
     (\<forall>i r s i' r' s'. newId i r s = newId i' r' s' \<longrightarrow> i = i')"

definition repair_progress :: "id_source \<Rightarrow> seat_tables \<Rightarrow> string set \<Rightarrow> seat_tables \<Rightarrow> bool" where
  "repair_progress newId snap finished db \<longleftrightarrow>
     show_keys db = show_keys snap \<and> mt_screens db = mt_screens snap \<and>
     (\<forall>i. i \<notin> finished \<longrightarrow> seats_on i db = seats_on i snap) \<and>
     ms_id ` set (mt_seats db) \<subseteq> ms_id ` set (mt_seats snap) \<union> {newId i r s | i r s. i \<in> finished} \<and>
     (\<forall>i. rows_of_show i snap \<noteq> [] \<longrightarrow> rows_of_show i db \<noteq> []) \<and>
     (\<forall>screen \<in> set (mt_screens snap). mc_id screen \<in> finished \<longrightarrow> screen_settled db screen)"

lemma create_missing_sub: "set (create_missing key rows t) \<subseteq> set t \<union> set rows"
proof (induction rows arbitrary: t)
  case (Cons r rows)
  show ?case using Cons.IH [of t] Cons.IH [of "t @ [r]"] by (auto simp: create_missing_Cons)
qed simp

lemma generated_screen: "s \<in> set (generated_seats newId screen) \<Longrightarrow>
    ms_screenId s = mc_id screen \<and> (\<exists>r n. ms_id s = newId (mc_id screen) r n)"
  by (auto simp: generated_seats_def Let_def simp del: ex_simps) blast+

lemma create_seats_simps [simp]:
  "mt_shows (create_seats newId snap screen db) = mt_shows db" "show_keys (create_seats newId snap screen db) = show_keys db"
  "mt_screens (create_seats newId snap screen db) = mt_screens db"
  "rows_of_show i (create_seats newId snap screen db) = rows_of_show i db"
  by (simp_all add: create_seats_def show_keys_def rows_of_show_def)

lemma create_seats_other: "i \<noteq> mc_id screen \<Longrightarrow> seats_on i (create_seats newId snap screen db) = seats_on i db"
  using generated_screen [of _ newId screen] by (auto simp: create_seats_def seats_on_def intro!: create_missing_filter)

lemma create_seats_ids:
  "ms_id ` set (mt_seats (create_seats newId snap screen db)) \<subseteq> ms_id ` set (mt_seats db) \<union> {newId (mc_id screen) r n | r n. True}"
  using generated_screen [of _ newId screen]
  by (auto simp: create_seats_def dest!: subsetD [OF create_missing_sub])

lemma create_seats_done:
  assumes "seats_on (mc_id screen) db = seats_on (mc_id screen) snap" "\<forall>r n. newId (mc_id screen) r n \<notin> ms_id ` set (mt_seats db)"
  shows "seats_on (mc_id screen) (create_seats newId snap screen db) \<noteq> [] \<or> no_seats_planned screen"
proof (cases "seats_on (mc_id screen) snap = [] \<and> \<not> no_seats_planned screen")
  case True
  then obtain g where g: "g \<in> set (generated_seats newId screen)"
    using generated_Nil [of newId screen] by (cases "generated_seats newId screen") auto
  then have "ms_id g \<in> ms_id ` set (create_missing ms_id (generated_seats newId screen) (mt_seats db))"
    by (simp add: create_missing_keys)
  then obtain x where x: "x \<in> set (create_missing ms_id (generated_seats newId screen) (mt_seats db))" "ms_id x = ms_id g"
    by (metis imageE)
  have "ms_id g \<notin> ms_id ` set (mt_seats db)" using generated_screen [OF g] assms(2) by force
  then have "x \<notin> set (mt_seats db)" by (metis x(2) imageI)
  then have "x \<in> set (generated_seats newId screen)" using subsetD [OF create_missing_sub x(1)] by simp
  then have "x \<in> set (seats_on (mc_id screen) (create_seats newId snap screen db))"
    using x(1) True generated_screen [of x newId screen] by (simp add: create_seats_def seats_on_def)
  then show ?thesis by (metis empty_iff empty_set)
next
  case False
  with assms(1) show ?thesis by (auto simp: create_seats_def)
qed

lemma show_keys_fst: "map fst (show_keys db) = map mh_id (mt_shows db)"
  by (simp add: show_keys_def)

lemma show_ids: "show_keys db = show_keys snap \<Longrightarrow> map mh_id (mt_shows db) = map mh_id (mt_shows snap)"
  by (metis (no_types) show_keys_fst)

lemma shows_of_keys:
  assumes "show_keys db = show_keys snap" "x \<in> set (mt_shows db)"
  obtains h where "h \<in> set (mt_shows snap)" "mh_id h = mh_id x" "mh_screenId h = mh_screenId x"
proof -
  have "(mh_id x, mh_screenId x) \<in> set (show_keys db)" using assms(2) by (auto simp: show_keys_def)
  then show thesis using that unfolding assms(1) by (auto simp: show_keys_def)
qed

lemma seats_on_cong: "mt_seats a = mt_seats b \<Longrightarrow> seats_on i a = seats_on i b"
  by (simp add: seats_on_def)

lemma repair_screen_keeps:
  assumes "distinct (map mh_id (mt_shows snap))" "show_keys db = show_keys snap"
    and "screen_settled db other" "mc_id other \<noteq> mc_id screen"
  shows "screen_settled (repair_screen newId snap screen db) other"
proof -
  let ?a = "create_seats newId snap screen db"
  let ?hs = "shows_on (mc_id screen) snap" and ?fresh = "seats_on (mc_id screen) ?a"
  let ?b = "fold (repair_show snap ?fresh) ?hs ?a"
  have keep: "mt_seats ?b = mt_seats ?a" "show_keys ?b = show_keys ?a"
    "rows_of_show i db \<noteq> [] \<Longrightarrow> rows_of_show i ?b \<noteq> []" for i
    using repair_shows_keep [of snap ?fresh ?hs ?a i] by simp_all
  have seats: "seats_on (mc_id other) ?b = seats_on (mc_id other) db"
    using seats_on_cong [OF keep(1)] create_seats_other [OF assms(4)] by simp
  have "show_settled ?b x" if "x \<in> set (shows_on (mc_id other) ?b)" for x
  proof -
    have x: "x \<in> set (mt_shows ?b)" "mh_screenId x = mc_id other" using that by (simp_all add: shows_on_def)
    obtain g where g: "g \<in> set (mt_shows snap)" "mh_id g = mh_id x" "mh_screenId g = mh_screenId x"
      using shows_of_keys [of ?b snap x] keep(2) assms(2) x(1) by auto
    have "mh_id x \<notin> mh_id ` set ?hs"
    proof
      assume "mh_id x \<in> mh_id ` set ?hs"
      then obtain h where "h \<in> set (mt_shows snap)" "mh_id h = mh_id x" "mh_screenId h = mc_id screen"
        by (auto simp: shows_on_def)
      then show False using distinct_key_eq [OF assms(1), of h g] g x(2) assms(4) by simp
    qed
    then have "x \<in> set (mt_shows db)" using repair_shows_other [OF x(1)] by simp
    then have "show_settled db x" using assms(3) x(2) by (simp add: screen_settled_def shows_on_def list_all_iff)
    then show ?thesis using keep(3) [of "mh_id x"] seats x(2) by (auto simp: show_settled_def)
  qed
  then show ?thesis
    using assms(3) seats by (simp add: screen_settled_def repair_screen_def Let_def list_all_iff)
qed

lemma repair_screen_settles:
  assumes "show_keys db = show_keys snap" "seats_on (mc_id screen) db = seats_on (mc_id screen) snap"
    "\<forall>i. rows_of_show i snap \<noteq> [] \<longrightarrow> rows_of_show i db \<noteq> []" "\<forall>r n. newId (mc_id screen) r n \<notin> ms_id ` set (mt_seats db)"
  shows "screen_settled (repair_screen newId snap screen db) screen"
proof -
  let ?a = "create_seats newId snap screen db"
  let ?hs = "shows_on (mc_id screen) snap" and ?fresh = "seats_on (mc_id screen) ?a"
  let ?b = "fold (repair_show snap ?fresh) ?hs ?a"
  have keep: "mt_seats ?b = mt_seats ?a" "show_keys ?b = show_keys ?a"
    "rows_of_show i db \<noteq> [] \<Longrightarrow> rows_of_show i ?b \<noteq> []" for i
    using repair_shows_keep [of snap ?fresh ?hs ?a i] by simp_all
  have seats: "seats_on (mc_id screen) ?b = ?fresh" by (rule seats_on_cong [OF keep(1)])
  have "show_settled ?b x" if "x \<in> set (shows_on (mc_id screen) ?b)" for x
  proof -
    have x: "x \<in> set (mt_shows ?b)" "mh_screenId x = mc_id screen" using that by (simp_all add: shows_on_def)
    obtain h where h: "h \<in> set (mt_shows snap)" "mh_id h = mh_id x" "mh_screenId h = mh_screenId x"
      using shows_of_keys [of ?b snap x] keep(2) assms(1) x(1) by auto
    show ?thesis
    proof (cases "rows_of_show (mh_id x) snap = []")
      case True
      then show ?thesis
        using repair_shows_done [of h ?hs snap ?fresh ?a] h x seats
        by (auto simp: shows_on_def show_settled_def capacity_is_def)
    next
      case False
      then show ?thesis using keep(3) assms(3) by (simp add: show_settled_def)
    qed
  qed
  then show ?thesis
    using create_seats_done [of screen db snap newId, OF assms(2,4)] seats by (simp add: screen_settled_def repair_screen_def Let_def list_all_iff)
qed

lemma repair_progress_step:
  assumes "repair_ready newId snap" "repair_progress newId snap finished db"
    and "screen \<in> set (mt_screens snap)" "mc_id screen \<notin> finished"
  shows "repair_progress newId snap (insert (mc_id screen) finished) (repair_screen newId snap screen db)"
proof -
  let ?a = "create_seats newId snap screen db"
  let ?b = "repair_screen newId snap screen db"
  have d: "show_keys db = show_keys snap" "mt_screens db = mt_screens snap"
    "\<And>i. i \<notin> finished \<Longrightarrow> seats_on i db = seats_on i snap"
    "ms_id ` set (mt_seats db) \<subseteq> ms_id ` set (mt_seats snap) \<union> {newId i r s | i r s. i \<in> finished}"
    "\<And>i. rows_of_show i snap \<noteq> [] \<Longrightarrow> rows_of_show i db \<noteq> []"
    "\<And>sc. sc \<in> set (mt_screens snap) \<Longrightarrow> mc_id sc \<in> finished \<Longrightarrow> screen_settled db sc"
    using assms(2) by (simp_all add: repair_progress_def)
  have r: "distinct (map mh_id (mt_shows snap))" "distinct (map mc_id (mt_screens snap))"
    "\<And>i r s. newId i r s \<notin> ms_id ` set (mt_seats snap)"
    using assms(1) by (simp_all add: repair_ready_def)
  have inj: "\<forall>i r s i' r' s'. newId i r s = newId i' r' s' \<longrightarrow> i = i'" using assms(1) by (simp add: repair_ready_def)
  have b: "mt_seats ?b = mt_seats ?a" "mt_screens ?b = mt_screens db" "show_keys ?b = show_keys db"
    "rows_of_show i db \<noteq> [] \<Longrightarrow> rows_of_show i ?b \<noteq> []" for i
    using repair_shows_keep [of snap _ _ ?a i] by (simp_all add: repair_screen_def Let_def)
  have new: "\<forall>r n. newId (mc_id screen) r n \<notin> ms_id ` set (mt_seats db)"
  proof (intro allI notI)
    fix r n
    assume "newId (mc_id screen) r n \<in> ms_id ` set (mt_seats db)"
    then have "newId (mc_id screen) r n \<in> {newId i r s | i r s. i \<in> finished}" using subsetD [OF d(4)] r(3) by blast
    then obtain i r' s' where "newId (mc_id screen) r n = newId i r' s'" "i \<in> finished" by auto
    then show False using inj [rule_format] assms(4) by metis
  qed
  have "screen_settled ?b screen"
    using d(5) repair_screen_settles [of db snap screen newId, OF d(1) d(3) [OF assms(4)] _ new] by simp
  then have "screen_settled ?b sc" if "sc \<in> set (mt_screens snap)" "mc_id sc \<in> insert (mc_id screen) finished" for sc
    using that repair_screen_keeps [OF r(1) d(1) d(6)] distinct_key_eq [OF r(2) that(1) assms(3)] by auto
  moreover have "seats_on i ?b = seats_on i snap" if "i \<notin> insert (mc_id screen) finished" for i
    using that seats_on_cong [OF b(1)] create_seats_other [of i screen] d(3) by simp
  moreover have "ms_id ` set (mt_seats ?b) \<subseteq> ms_id ` set (mt_seats snap) \<union> {newId i r s | i r s. i \<in> insert (mc_id screen) finished}"
    using create_seats_ids [of newId snap screen db] d(4) unfolding b(1) by blast
  ultimately show ?thesis
    using b(2-4) d(1,2,5) by (simp add: repair_progress_def)
qed

lemma repair_settles:
  assumes "repair_ready newId db"
  shows "tables_settled (repair_availability newId db)"
proof -
  have "repair_progress newId db (mc_id ` set screens \<union> finished) (fold (repair_screen newId db) screens s)"
    if "repair_progress newId db finished s" "set screens \<subseteq> set (mt_screens db)" "distinct (map mc_id screens)"
      "mc_id ` set screens \<inter> finished = {}" for screens finished s
    using that
  proof (induction screens arbitrary: finished s)
    case (Cons screen screens)
    then have "repair_progress newId db (insert (mc_id screen) finished) (repair_screen newId db screen s)"
      by (intro repair_progress_step assms) auto
    moreover have "mc_id ` set screens \<inter> insert (mc_id screen) finished = {}" using Cons.prems(3,4) by auto
    ultimately show ?case using Cons.IH [of "insert (mc_id screen) finished"] Cons.prems by simp
  qed simp
  from this [of "{}" db "mt_screens db"] have p: "repair_progress newId db (mc_id ` set (mt_screens db)) (repair_availability newId db)"
    using assms by (simp add: repair_progress_def repair_ready_def repair_availability_def)
  then have "map mh_id (mt_shows (repair_availability newId db)) = map mh_id (mt_shows db)"
    by (metis repair_progress_def show_ids)
  then show ?thesis using p assms by (simp add: tables_settled_def repair_progress_def repair_ready_def list_all_iff)
qed

interpretation seat_repair: repeatable repair_availability repair_ready tables_settled
  by unfold_locales (auto intro: repair_settles stays_settled)

text \<open>
  C40. The script keeps its promise: whatever the tables, a second run, with whatever identifiers, changes nothing.
\<close>

theorem repair_is_idempotent:
  assumes "repair_ready newId db"
  shows "repair_availability newId' (repair_availability newId db) = repair_availability newId db"
  by (rule seat_repair.job_twice) (rule assms)

definition sample_ids :: id_source where
  "sample_ids i r s = replicate r (CHR ''r'') @ ''-'' @ replicate s (CHR ''s'') @ ''-'' @ i"

definition sample_tables :: seat_tables where
  "sample_tables = \<lparr>mt_screens = [\<lparr>mc_id = ''c'', mc_totalRows = Some 1, mc_seatsPerRow = Some 2\<rparr>], mt_seats = [],
     mt_shows = [\<lparr>mh_id = ''h'', mh_screenId = ''c'', mh_totalCapacity = 0, mh_remainingCapacity = 0\<rparr>], mt_availability = []\<rparr>"

lemma repaired_sample:
  "map ma_seatId (mt_availability (repair_availability sample_ids sample_tables)) = [''-s-c'', ''-ss-c'']
   \<and> map mh_remainingCapacity (mt_shows (repair_availability sample_ids sample_tables)) = [2]"
  by code_simp

lemma sample_ids_screen:
  "tl (dropWhile (\<lambda>c. c \<noteq> CHR ''-'') (tl (dropWhile (\<lambda>c. c \<noteq> CHR ''-'') (sample_ids i r s)))) = i"
  by (simp add: sample_ids_def dropWhile_append)

theorem repair_is_idempotent_witness:
  "repair_availability (\<lambda>i _ _. i) (repair_availability sample_ids sample_tables) = repair_availability sample_ids sample_tables"
proof (rule repair_is_idempotent)
  have "i = j" if "sample_ids i r s = sample_ids j r' s'" for i j r r' s s'
    using that sample_ids_screen by metis
  then show "repair_ready sample_ids sample_tables" by (auto simp: repair_ready_def sample_tables_def)
qed

text \<open>Rows beyond the twenty-sixth are not labelled by letters, and their seats cannot be locked.\<close>

lemma row_labels:
  "row_label 0 = ''A'' \<and> row_label 25 = ''Z'' \<and> row_label 26 = ''[''" "\<not> seat_pattern (row_label 26 @ show_nat 1)"
  by code_simp+

section \<open>Tenants\<close>

text \<open>The tables the scripts visit, each with the tenants of its rows.\<close>

definition tenant_models :: "string list" where
  "tenant_models = [''user'', ''theater'', ''screen'', ''event'', ''show'', ''seat'', ''seatAvailability'', ''booking'',
     ''bookingSeat'', ''coupon'', ''giftCard'', ''wishlist'']"

record tenant_tables =
  tt_tenants :: "(string \<times> string \<times> string) list"
  tt_rows :: "string \<Rightarrow> string option list"

definition default_tenant :: "string \<Rightarrow> tenant_tables \<Rightarrow> tenant_tables \<times> string" where
  "default_tenant newId db =
     (case find (\<lambda>t. fst (snd t) = ''default'') (tt_tenants db) of
        Some t \<Rightarrow> (db, fst t)
      | None \<Rightarrow> (db\<lparr>tt_tenants := tt_tenants db @ [(newId, ''default'', ''Default Tenant'')]\<rparr>, newId))"

definition backfill_model :: "string \<Rightarrow> string \<Rightarrow> tenant_tables \<Rightarrow> tenant_tables" where
  "backfill_model tenantId model db =
     db\<lparr>tt_rows := (tt_rows db)(model := update_where (\<lambda>r. r = None) (\<lambda>_. Some tenantId) (tt_rows db model))\<rparr>"

definition backfill_tenant :: "string \<Rightarrow> tenant_tables \<Rightarrow> tenant_tables" where
  "backfill_tenant newId db =
     (case default_tenant newId db of (db', tenantId) \<Rightarrow> fold (backfill_model tenantId) tenant_models db')"

text \<open>The audit: all rows of a table, those with a tenant and those without.\<close>

definition tenant_audit :: "tenant_tables \<Rightarrow> string \<Rightarrow> nat \<times> nat \<times> nat" where
  "tenant_audit db model =
     (length (tt_rows db model), count_where (\<lambda>r. r \<noteq> None) (tt_rows db model), count_where (\<lambda>r. r = None) (tt_rows db model))"

definition tenants_complete :: "tenant_tables \<Rightarrow> bool" where
  "tenants_complete db \<longleftrightarrow> find (\<lambda>t. fst (snd t) = ''default'') (tt_tenants db) \<noteq> None \<and>
     list_all (\<lambda>m. None \<notin> set (tt_rows db m)) tenant_models"

lemma backfill_rows:
  "distinct ms \<Longrightarrow> tt_rows (fold (backfill_model t) ms db) m =
     (if m \<in> set ms then update_where (\<lambda>r. r = None) (\<lambda>_. Some t) (tt_rows db m) else tt_rows db m)"
  by (induction ms arbitrary: db) (auto simp: backfill_model_def)

lemma backfill_tenants: "tt_tenants (fold (backfill_model t) ms db) = tt_tenants db"
  by (induction ms arbitrary: db) (auto simp: backfill_model_def)

lemma distinct_models: "distinct tenant_models"
  by (simp add: tenant_models_def)

lemma default_tenant_rows: "default_tenant newId db = (db', t) \<Longrightarrow> tt_rows db' = tt_rows db"
  by (auto simp: default_tenant_def split: option.splits)

lemma filtered_tenants:
  "filter (\<lambda>r. r = None) (update_where (\<lambda>r. r = None) (\<lambda>_. Some t) rows) = []"
  "filter (\<lambda>r. r \<noteq> None) (update_where (\<lambda>r. r = None) (\<lambda>_. Some t) rows) = update_where (\<lambda>r. r = None) (\<lambda>_. Some t) rows"
  by (induction rows) simp_all

text \<open>After the backfill the audit finds no row without a tenant, no row was lost, and the rows that had a tenant
  keep it.\<close>

lemma backfill_completes:
  assumes "m \<in> set tenant_models"
  shows "tenant_audit (backfill_tenant newId db) m = (length (tt_rows db m), length (tt_rows db m), 0)"
proof -
  obtain db' t where d: "default_tenant newId db = (db', t)" by (cases "default_tenant newId db")
  have "tt_rows (backfill_tenant newId db) m = update_where (\<lambda>r. r = None) (\<lambda>_. Some t) (tt_rows db m)"
    using assms distinct_models default_tenant_rows [OF d] by (simp add: backfill_tenant_def d backfill_rows)
  then show ?thesis by (simp add: tenant_audit_def count_where_def filtered_tenants del: not_None_eq)
qed

lemma backfill_settles: "tenants_complete (backfill_tenant newId db)"
proof -
  obtain db' t where d: "default_tenant newId db = (db', t)" by (cases "default_tenant newId db")
  then have "find (\<lambda>t. fst (snd t) = ''default'') (tt_tenants db') \<noteq> None"
    by (cases "find (\<lambda>t. fst (snd t) = ''default'') (tt_tenants db)") (auto simp: default_tenant_def find_None_iff)
  then show ?thesis
    using distinct_models
    by (auto simp: tenants_complete_def backfill_tenant_def d backfill_tenants backfill_rows list_all_iff update_where_def)
qed

lemma backfill_stays:
  assumes "tenants_complete db"
  shows "backfill_tenant newId db = db"
proof -
  have "backfill_model t m db = db" if "m \<in> set tenant_models" for t m
  proof -
    have "None \<notin> set (tt_rows db m)" using assms that by (simp add: tenants_complete_def list_all_iff)
    then have "update_where (\<lambda>r. r = None) (\<lambda>_. Some t) (tt_rows db m) = tt_rows db m"
      by (intro update_where_none) metis
    then show ?thesis by (simp add: backfill_model_def)
  qed
  then have "fold (backfill_model t) ms db = db" if "set ms \<subseteq> set tenant_models" for t ms
    using that by (induction ms) simp_all
  then show ?thesis using assms by (auto simp: backfill_tenant_def default_tenant_def tenants_complete_def)
qed

interpretation tenant_backfill: repeatable backfill_tenant "\<lambda>_ _. True" tenants_complete
  by unfold_locales (auto intro: backfill_settles backfill_stays)

section \<open>Dates of a development database\<close>

record dated_show =
  ds_startTime :: int
  ds_isActive :: bool

definition fix_show_dates :: "int \<Rightarrow> dated_show list \<times> int list \<Rightarrow> dated_show list \<times> int list" where
  "fix_show_dates now db =
     (let newShowTime = now + 7 * 24 * 60 * 60 * 1000
      in (update_where (\<lambda>_. True) (\<lambda>s. s\<lparr>ds_startTime := newShowTime, ds_isActive := True\<rparr>) (fst db),
          update_where (\<lambda>_. True) (\<lambda>_. newShowTime) (snd db)))"

text \<open>Every show and event lies in the future afterwards; all start at the same moment, and cancelled shows are
  active again.\<close>

lemma fixed_dates:
  "list_all (\<lambda>s. now < ds_startTime s \<and> ds_isActive s) (fst (fix_show_dates now db))"
  "list_all (\<lambda>d. now < d) (snd (fix_show_dates now db))"
  "length (fst (fix_show_dates now db)) = length (fst db)"
  by (auto simp: fix_show_dates_def Let_def list_all_iff update_where_def)

end
