(* ===== verification/Seeding.thy ===== *)
theory Seeding
  imports Maintenance
begin

text \<open>
  The first rows of a database: \<open>backend/prisma/seed.ts\<close> and \<open>prisma/create-super-admin.ts\<close>. Both are written to be
  run again; \<open>repeatable\<close> of \<open>Maintenance\<close> says for which runs that is so. The identifiers that the database makes,
  the hash of the password and the clock are arguments.
\<close>

section \<open>Tables\<close>

record seed_tenant =
  zt_id :: string
  zt_slug :: string
  zt_name :: string
  zt_isActive :: bool

record seed_user =
  zu_email :: string
  zu_password :: string
  zu_name :: string
  zu_role :: string
  zu_isVerified :: bool
  zu_tenantId :: "string option"

record seed_theater =
  zh_id :: string
  zh_name :: string
  zh_city :: string
  zh_address :: string
  zh_tenantId :: string

record seed_screen =
  zc_id :: string
  zc_name :: string
  zc_totalRows :: nat
  zc_seatsPerRow :: nat
  zc_theaterId :: string
  zc_tenantId :: string

record seed_seat =
  zs_id :: string
  zs_screenId :: string
  zs_row :: string
  zs_number :: nat
  zs_tenantId :: string

record seed_event =
  ze_id :: string
  ze_title :: string
  ze_type :: string
  ze_language :: string
  ze_duration :: int
  ze_location :: string
  ze_price :: int
  ze_availableSeats :: int
  ze_totalSeats :: int
  ze_isActive :: bool
  ze_date :: int
  ze_tenantId :: string

record seed_show =
  zw_id :: string
  zw_startTime :: int
  zw_price :: int
  zw_totalCapacity :: nat
  zw_remainingCapacity :: nat
  zw_eventId :: string
  zw_screenId :: string
  zw_tenantId :: string

record seed_availability =
  za_showId :: string
  za_seatId :: string
  za_status :: string
  za_tenantId :: string

record seed_db =
  zd_tenants :: "seed_tenant list"
  zd_users :: "seed_user list"
  zd_theaters :: "seed_theater list"
  zd_screens :: "seed_screen list"
  zd_seats :: "seed_seat list"
  zd_events :: "seed_event list"
  zd_shows :: "seed_show list"
  zd_availability :: "seed_availability list"

text \<open>What differs from run to run: the identifier of a new tenant, of the new seats, and the salted hash.\<close>

record seed_env =
  zv_tenant :: string
  zv_seat :: "nat \<Rightarrow> nat \<Rightarrow> string"
  zv_hash :: "string \<Rightarrow> string"

section \<open>Upsert\<close>

text \<open>The row found is updated, or a new one is added; the call returns it as it is then.\<close>

definition upsert :: "('r \<Rightarrow> bool) \<Rightarrow> ('r \<Rightarrow> 'r) \<Rightarrow> 'r \<Rightarrow> 'r list \<Rightarrow> 'r list \<times> 'r" where
  "upsert key upd new t = (case find key t of None \<Rightarrow> (t @ [new], new) | Some r \<Rightarrow> (update_where key upd t, upd r))"

lemma find_update_where: "(\<And>r. key r \<Longrightarrow> key (upd r)) \<Longrightarrow> find key (update_where key upd t) = map_option upd (find key t)"
  by (induction t) auto

lemma update_where_twice:
  "(\<And>r. key r \<Longrightarrow> key (upd r)) \<Longrightarrow> (\<And>r. upd (upd r) = upd r) \<Longrightarrow> update_where key upd (update_where key upd t) = update_where key upd t"
  by (induction t) auto

text \<open>An upsert with the same key and the same update changes nothing the second time, whatever it would create.\<close>

lemma upsert_again:
  assumes "key new" "upd new = new" "\<And>r. key r \<Longrightarrow> key (upd r)" "\<And>r. upd (upd r) = upd r"
  shows "upsert key upd new' (fst (upsert key upd new t)) = upsert key upd new t"
proof (cases "find key t")
  case None
  then have "find key (t @ [new]) = Some new" using assms(1) by (induction t) (auto split: if_splits)
  moreover have "update_where key upd t = t" using None by (intro update_where_none) (auto simp: find_None_iff)
  ultimately show ?thesis using None assms(1,2) by (simp add: upsert_def update_where_append)
next
  case (Some r)
  then show ?thesis using assms(3,4) by (simp add: upsert_def find_update_where update_where_twice)
qed

lemma upsert_row: "key new \<Longrightarrow> (\<And>r. key r \<Longrightarrow> key (upd r)) \<Longrightarrow> key (snd (upsert key upd new t))"
  by (auto simp: upsert_def dest: find_in split: option.splits)

section \<open>The seed\<close>

text \<open>Each step writes one table and returns the row that the later steps use.\<close>

definition ensure_tenant :: "seed_env \<Rightarrow> seed_db \<Rightarrow> seed_tenant list \<times> seed_tenant" where
  "ensure_tenant e db = upsert (\<lambda>t. zt_slug t = ''starpass'') (\<lambda>t. t\<lparr>zt_name := ''StarPass Main'', zt_isActive := True\<rparr>)
     \<lparr>zt_id = zv_tenant e, zt_slug = ''starpass'', zt_name = ''StarPass Main'', zt_isActive = True\<rparr> (zd_tenants db)"

definition ensure_admin :: "seed_env \<Rightarrow> seed_tenant \<Rightarrow> seed_db \<Rightarrow> seed_user list \<times> seed_user" where
  "ensure_admin e t db = upsert (\<lambda>u. zu_email u = ''admin@example.com'')
     (\<lambda>u. u\<lparr>zu_role := ''ADMIN'', zu_isVerified := True, zu_tenantId := Some (zt_id t)\<rparr>)
     \<lparr>zu_email = ''admin@example.com'', zu_password = zv_hash e ''admin123'', zu_name = ''System Admin'', zu_role = ''ADMIN'',
      zu_isVerified = True, zu_tenantId = Some (zt_id t)\<rparr> (zd_users db)"

definition ensure_theater :: "seed_tenant \<Rightarrow> seed_db \<Rightarrow> seed_theater list \<times> seed_theater" where
  "ensure_theater t db = upsert (\<lambda>h. zh_id h = ''default-theater'')
     (\<lambda>h. h\<lparr>zh_name := ''StarPass Premium Cinema'', zh_city := ''Mumbai'', zh_address := ''StarPass Plaza, Mumbai'', zh_tenantId := zt_id t\<rparr>)
     \<lparr>zh_id = ''default-theater'', zh_name = ''StarPass Premium Cinema'', zh_city = ''Mumbai'',
      zh_address = ''StarPass Plaza, Mumbai'', zh_tenantId = zt_id t\<rparr> (zd_theaters db)"

definition ensure_screen :: "seed_tenant \<Rightarrow> seed_theater \<Rightarrow> seed_db \<Rightarrow> seed_screen list \<times> seed_screen" where
  "ensure_screen t h db = upsert (\<lambda>c. zc_id c = ''default-screen-1'')
     (\<lambda>c. c\<lparr>zc_name := ''IMAX Screen 1'', zc_totalRows := 10, zc_seatsPerRow := 12, zc_theaterId := zh_id h, zc_tenantId := zt_id t\<rparr>)
     \<lparr>zc_id = ''default-screen-1'', zc_name = ''IMAX Screen 1'', zc_totalRows = 10, zc_seatsPerRow = 12,
      zc_theaterId = zh_id h, zc_tenantId = zt_id t\<rparr> (zd_screens db)"

definition seed_seats :: "seed_env \<Rightarrow> seed_tenant \<Rightarrow> seed_screen \<Rightarrow> seed_seat list" where
  "seed_seats e t c = concat (map (\<lambda>r. map (\<lambda>s.
     \<lparr>zs_id = zv_seat e r s, zs_screenId = zc_id c, zs_row = row_label r, zs_number = s, zs_tenantId = zt_id t\<rparr>) [1 ..< 13]) [0 ..< 10])"

definition ensure_seats :: "seed_env \<Rightarrow> seed_tenant \<Rightarrow> seed_screen \<Rightarrow> seed_db \<Rightarrow> seed_seat list" where
  "ensure_seats e t c db =
     (if count_where (\<lambda>s. zs_screenId s = zc_id c) (zd_seats db) = 0 then zd_seats db @ seed_seats e t c else zd_seats db)"

definition ensure_event :: "int \<Rightarrow> seed_tenant \<Rightarrow> seed_theater \<Rightarrow> seed_db \<Rightarrow> seed_event list \<times> seed_event" where
  "ensure_event now t h db = upsert (\<lambda>v. ze_id v = ''dune-part-2-starpass'')
     (\<lambda>v. v\<lparr>ze_title := ''Dune: Part Two'', ze_type := ''MOVIE'', ze_language := ''English'', ze_duration := 166,
        ze_location := zh_name h, ze_price := 350, ze_availableSeats := 120, ze_totalSeats := 120, ze_isActive := True,
        ze_date := now + 86400000 * 2, ze_tenantId := zt_id t\<rparr>)
     \<lparr>ze_id = ''dune-part-2-starpass'', ze_title = ''Dune: Part Two'', ze_type = ''MOVIE'', ze_language = ''English'',
      ze_duration = 166, ze_location = zh_name h, ze_price = 350, ze_availableSeats = 120, ze_totalSeats = 120,
      ze_isActive = True, ze_date = now + 86400000 * 2, ze_tenantId = zt_id t\<rparr> (zd_events db)"

definition ensure_show :: "seed_tenant \<Rightarrow> seed_screen \<Rightarrow> seed_event \<Rightarrow> seed_db \<Rightarrow> seed_show list \<times> seed_show" where
  "ensure_show t c v db = upsert (\<lambda>w. zw_id w = ''default-show-1'')
     (\<lambda>w. w\<lparr>zw_startTime := ze_date v, zw_price := ze_price v, zw_totalCapacity := 120, zw_remainingCapacity := 120,
        zw_eventId := ze_id v, zw_screenId := zc_id c, zw_tenantId := zt_id t\<rparr>)
     \<lparr>zw_id = ''default-show-1'', zw_startTime = ze_date v, zw_price = ze_price v, zw_totalCapacity = 120,
      zw_remainingCapacity = 120, zw_eventId = ze_id v, zw_screenId = zc_id c, zw_tenantId = zt_id t\<rparr> (zd_shows db)"

definition ensure_availability :: "seed_tenant \<Rightarrow> seed_screen \<Rightarrow> seed_show \<Rightarrow> seed_seat list \<Rightarrow> seed_db \<Rightarrow> seed_availability list" where
  "ensure_availability t c w seats db =
     (if count_where (\<lambda>a. za_showId a = zw_id w) (zd_availability db) = 0
      then zd_availability db @ map (\<lambda>s. \<lparr>za_showId = zw_id w, za_seatId = zs_id s, za_status = ''AVAILABLE'', za_tenantId = zt_id t\<rparr>)
             (filter (\<lambda>s. zs_screenId s = zc_id c) seats)
      else zd_availability db)"

definition seed :: "int \<Rightarrow> seed_env \<Rightarrow> seed_db \<Rightarrow> seed_db" where
  "seed now e db =
     (let (tenants, t) = ensure_tenant e db;
          (users, _) = ensure_admin e t db;
          (theaters, h) = ensure_theater t db;
          (screens, c) = ensure_screen t h db;
          seats = ensure_seats e t c db;
          (events, v) = ensure_event now t h db;
          (shows, w) = ensure_show t c v db
      in \<lparr>zd_tenants = tenants, zd_users = users, zd_theaters = theaters, zd_screens = screens, zd_seats = seats,
          zd_events = events, zd_shows = shows, zd_availability = ensure_availability t c w seats db\<rparr>)"

definition create_super_admin :: "(string \<Rightarrow> string) \<Rightarrow> seed_db \<Rightarrow> seed_db" where
  "create_super_admin hash db = db\<lparr>zd_users := fst (upsert (\<lambda>u. zu_email u = ''super@example.com'')
     (\<lambda>u. u\<lparr>zu_role := ''SUPER_ADMIN'', zu_isVerified := True\<rparr>)
     \<lparr>zu_email = ''super@example.com'', zu_password = hash ''super123'', zu_name = ''Super Admin'', zu_role = ''SUPER_ADMIN'',
      zu_isVerified = True, zu_tenantId = None\<rparr> (zd_users db))\<rparr>"

section \<open>Running them again\<close>

lemma screen_row: "zc_id (snd (ensure_screen t h db)) = ''default-screen-1''"
  unfolding ensure_screen_def by (rule upsert_row) simp_all

lemma show_row: "zw_id (snd (ensure_show t c v db)) = ''default-show-1''"
  unfolding ensure_show_def by (rule upsert_row) simp_all

text \<open>The steps on the tables they wrote.\<close>

lemma ensure_again:
  "zd_tenants d = fst (ensure_tenant e db) \<Longrightarrow> ensure_tenant e' d = ensure_tenant e db"
  "zd_users d = fst (ensure_admin e t db) \<Longrightarrow> ensure_admin e' t d = ensure_admin e t db"
  "zd_theaters d = fst (ensure_theater t db) \<Longrightarrow> ensure_theater t d = ensure_theater t db"
  "zd_screens d = fst (ensure_screen t h db) \<Longrightarrow> ensure_screen t h d = ensure_screen t h db"
  "zd_events d = fst (ensure_event now t h db) \<Longrightarrow> ensure_event now t h d = ensure_event now t h db"
  "zd_shows d = fst (ensure_show t c v db) \<Longrightarrow> ensure_show t c v d = ensure_show t c v db"
  unfolding ensure_tenant_def ensure_admin_def ensure_theater_def ensure_screen_def ensure_event_def ensure_show_def
  by (simp_all add: upsert_again)

lemma count_where_0: "count_where P t = 0 \<longleftrightarrow> (\<forall>r \<in> set t. \<not> P r)"
  by (auto simp: count_where_def filter_empty_conv)

lemma seed_seats_length: "length (seed_seats e t c) = 120"
  by (simp add: seed_seats_def length_concat comp_def sum_list_triv)

lemma seed_seats_screen: "s \<in> set (seed_seats e t c) \<Longrightarrow> zs_screenId s = zc_id c"
  by (auto simp: seed_seats_def)

lemma ensured_seats: "\<exists>s \<in> set (ensure_seats e t c db). zs_screenId s = zc_id c"
proof (cases "count_where (\<lambda>s. zs_screenId s = zc_id c) (zd_seats db) = 0")
  case True
  obtain s where "s \<in> set (seed_seats e t c)" using seed_seats_length [of e t c] by (cases "seed_seats e t c") auto
  then have "s \<in> set (ensure_seats e t c db)" "zs_screenId s = zc_id c"
    using True by (auto simp: ensure_seats_def dest: seed_seats_screen)
  then show ?thesis by blast
qed (auto simp: ensure_seats_def count_where_0)

lemma seats_again: "zd_seats d = ensure_seats e t c db \<Longrightarrow> ensure_seats e' t c d = ensure_seats e t c db"
  using ensured_seats [of e t c db] by (auto simp: ensure_seats_def [of e' t c d] count_where_0)

lemma availability_again:
  assumes "zd_availability d = ensure_availability t c w seats db" "\<exists>s \<in> set seats. zs_screenId s = zc_id c"
  shows "ensure_availability t c w seats d = ensure_availability t c w seats db"
proof -
  have "\<exists>a \<in> set (ensure_availability t c w seats db). za_showId a = zw_id w"
    using assms(2) by (auto simp: ensure_availability_def count_where_0 intro!: bexI)
  then show ?thesis using assms(1) by (auto simp: ensure_availability_def [of t c w seats d] count_where_0)
qed

text \<open>The tables of a seeded database, by the steps.\<close>

lemma seed_again: "seed now e' (seed now e db) = seed now e db"
proof -
  let ?d = "seed now e db"
  let ?t = "snd (ensure_tenant e db)"
  let ?h = "snd (ensure_theater ?t db)"
  let ?c = "snd (ensure_screen ?t ?h db)"
  let ?v = "snd (ensure_event now ?t ?h db)"
  let ?w = "snd (ensure_show ?t ?c ?v db)"
  have d: "zd_tenants ?d = fst (ensure_tenant e db)" "zd_users ?d = fst (ensure_admin e ?t db)"
    "zd_theaters ?d = fst (ensure_theater ?t db)" "zd_screens ?d = fst (ensure_screen ?t ?h db)"
    "zd_seats ?d = ensure_seats e ?t ?c db" "zd_events ?d = fst (ensure_event now ?t ?h db)"
    "zd_shows ?d = fst (ensure_show ?t ?c ?v db)" "zd_availability ?d = ensure_availability ?t ?c ?w (ensure_seats e ?t ?c db) db"
    by (simp_all add: seed_def case_prod_beta Let_def)
  note same = ensure_again(1) [OF d(1)] ensure_again(2) [OF d(2)] ensure_again(3) [OF d(3)] ensure_again(4) [OF d(4)]
    seats_again [OF d(5)] ensure_again(5) [OF d(6)] ensure_again(6) [OF d(7)] availability_again [OF d(8) ensured_seats]
  show ?thesis
    unfolding seed_def [of now e' ?d] case_prod_beta Let_def same
    using d by simp
qed

text \<open>While the clock stands still the seed is repeatable; so is the other script.\<close>

interpretation reseeding: repeatable "seed now" "\<lambda>_ _. True" "\<lambda>db. \<exists>e old. db = seed now e old" for now
  by unfold_locales (auto simp: seed_again)

lemma super_admin_again: "create_super_admin hash' (create_super_admin hash db) = create_super_admin hash db"
  by (simp add: create_super_admin_def upsert_again)

interpretation super_admin: repeatable create_super_admin "\<lambda>_ _. True" "\<lambda>db. \<exists>hash old. db = create_super_admin hash old"
  by unfold_locales (auto simp: super_admin_again)

text \<open>
  Any number of further runs of the seed at one time, with whatever identifiers and hashes, change nothing.
\<close>

theorem seed_is_idempotent: "fold (seed now) es (seed now e db) = seed now e db"
  by (rule reseeding.job_many) simp

section \<open>Seats and capacities\<close>

text \<open>Into an empty database the seed puts as many free seats as it says the show has.\<close>

lemma fresh_seed_fits:
  assumes "zd_seats db = []" "zd_availability db = []"
  shows "length (zd_availability (seed now e db)) = 120"
    and "\<forall>w \<in> set (zd_shows (seed now e db)). zw_id w = ''default-show-1'' \<longrightarrow> zw_remainingCapacity w = 120 \<and> zw_totalCapacity w = 120"
proof -
  have "filter (\<lambda>s. zs_screenId s = zc_id c) (seed_seats e t c) = seed_seats e t c" for t c
    using seed_seats_screen by (intro filter_True) blast
  then show "length (zd_availability (seed now e db)) = 120"
    using assms by (simp add: seed_def case_prod_beta Let_def ensure_availability_def ensure_seats_def count_where_def seed_seats_length)
qed (auto simp: seed_def case_prod_beta Let_def ensure_show_def upsert_def update_where_def find_None_iff split: option.splits)

text \<open>On a database with bookings it gives the show back its full capacity, while the seats stay as they are.\<close>

lemma reseed_forgets_bookings:
  assumes "\<exists>a \<in> set (zd_availability db). za_showId a = ''default-show-1''"
  shows "zd_availability (seed now e db) = zd_availability db"
    and "\<forall>w \<in> set (zd_shows (seed now e db)). zw_id w = ''default-show-1'' \<longrightarrow> zw_remainingCapacity w = 120"
proof -
  show "zd_availability (seed now e db) = zd_availability db"
    using assms by (auto simp: seed_def case_prod_beta Let_def ensure_availability_def show_row count_where_0)
qed (auto simp: seed_def case_prod_beta Let_def ensure_show_def upsert_def update_where_def find_None_iff split: option.splits)

section \<open>The accounts\<close>

text \<open>An account that exists keeps its password, whoever has registered it, and gets the role.\<close>

lemma existing_account_is_promoted:
  assumes "u \<in> set (zd_users db)" "zu_email u = ''super@example.com''"
  shows "u\<lparr>zu_role := ''SUPER_ADMIN'', zu_isVerified := True\<rparr> \<in> set (zd_users (create_super_admin hash db))"
  using assms by (auto simp: create_super_admin_def upsert_def update_where_def find_None_iff image_iff split: option.splits intro!: bexI)

text \<open>The seeded passwords pass the validation of the login.\<close>

lemma seeded_passwords_accepted:
  "accepts (LoginDto_rules fm) [(''email'', Str ''admin@example.com''), (''password'', Str ''admin123'')] \<longleftrightarrow> fm_email fm ''admin@example.com''"
  by (auto simp: LoginDto_rules_def accept_simps value_of_Cons constraint_defs format_defs)

end
