(* ===== verification/ScriptLoader.thy ===== *)
theory ScriptLoader
  imports Base
begin

text \<open>
  Loading the payment window's script. \<open>loadRazorpaySDK\<close> of
  \<open>frontend/src/app/(protected)/checkout/page.tsx\<close> keeps a promise across calls and puts one script element into the
  document; \<open>loadRazorpay\<close> of \<open>app/(protected)/booking/[eventId]/page.tsx\<close> puts in one for every call. The state is
  the document, the kept promise and every promise made so far; the browser answers a script element once, by its
  load or its error event.
\<close>

section \<open>State\<close>

datatype promise_state = Pending | Resolved | Rejected

datatype tag_state = Tag_loading | Tag_loaded | Tag_failed

text \<open>A script element with the promises that wait for its event.\<close>

record script_tag =
  tg_state :: tag_state
  tg_listeners :: "nat list"

text \<open>Promises are numbered in the order they are made.\<close>

record loader_state =
  sd_razorpay :: bool
  sd_tags :: "script_tag list"
  sd_cached :: "nat option"
  sd_promises :: "promise_state list"

definition fresh_sdk :: loader_state where
  "fresh_sdk = \<lparr>sd_razorpay = False, sd_tags = [], sd_cached = None, sd_promises = []\<rparr>"

text \<open>A promise is settled once.\<close>

definition settle :: "promise_state \<Rightarrow> nat list \<Rightarrow> promise_state list \<Rightarrow> promise_state list" where
  "settle st is ps = map (\<lambda>(i, p). if i \<in> set is \<and> p = Pending then st else p) (enumerate 0 ps)"

section \<open>The loader of the checkout page\<close>

text \<open>The function given to \<open>new Promise\<close> runs at once, for the promise with number \<open>n\<close>.\<close>

definition executor :: "nat \<Rightarrow> loader_state \<Rightarrow> loader_state" where
  "executor n s =
     (if sd_razorpay s then s\<lparr>sd_promises := settle Resolved [n] (sd_promises s)\<rparr>
      else case sd_tags s of
        t # ts \<Rightarrow> s\<lparr>sd_tags := t\<lparr>tg_listeners := tg_listeners t @ [n]\<rparr> # ts\<rparr>
      | [] \<Rightarrow> s\<lparr>sd_tags := [\<lparr>tg_state = Tag_loading, tg_listeners = [n]\<rparr>]\<rparr>)"

definition loadRazorpaySDK :: "loader_state \<Rightarrow> loader_state \<times> nat" where
  "loadRazorpaySDK s =
     (let n = length (sd_promises s)
      in if sd_razorpay s then (s\<lparr>sd_promises := sd_promises s @ [Resolved]\<rparr>, n)
         else case sd_cached s of
           Some p \<Rightarrow> (s, p)
         | None \<Rightarrow> ((executor n (s\<lparr>sd_promises := sd_promises s @ [Pending]\<rparr>))\<lparr>sd_cached := Some n\<rparr>, n))"

text \<open>The two events. A promise that is rejected clears the kept one, once in \<open>onerror\<close> and once in the handler
  of its own rejection.\<close>

definition script_loads :: "loader_state \<Rightarrow> loader_state" where
  "script_loads s = (case sd_tags s of
     [] \<Rightarrow> s
   | t # ts \<Rightarrow> s\<lparr>sd_razorpay := True, sd_tags := t\<lparr>tg_state := Tag_loaded\<rparr> # ts,
                 sd_promises := settle Resolved (tg_listeners t) (sd_promises s)\<rparr>)"

definition script_fails :: "loader_state \<Rightarrow> loader_state" where
  "script_fails s = (case sd_tags s of
     [] \<Rightarrow> s
   | t # ts \<Rightarrow> s\<lparr>sd_tags := t\<lparr>tg_state := Tag_failed\<rparr> # ts, sd_cached := None,
                 sd_promises := settle Rejected (tg_listeners t) (sd_promises s)\<rparr>)"

definition tag_waits :: "loader_state \<Rightarrow> bool" where
  "tag_waits s \<longleftrightarrow> sd_tags s \<noteq> [] \<and> tg_state (hd (sd_tags s)) = Tag_loading"

inductive loader_step :: "loader_state \<Rightarrow> loader_state \<Rightarrow> bool" where
  step_call: "loader_step s (fst (loadRazorpaySDK s))"
| step_load: "tag_waits s \<Longrightarrow> loader_step s (script_loads s)"
| step_fail: "tag_waits s \<Longrightarrow> loader_step s (script_fails s)"

section \<open>The invariant\<close>

definition pending :: "loader_state \<Rightarrow> nat \<Rightarrow> bool" where
  "pending s p \<longleftrightarrow> p < length (sd_promises s) \<and> sd_promises s ! p = Pending"

text \<open>At most one script element; before it there is nothing to wait for, while it loads everybody waits for it, once
  it has loaded nobody waits, and once it has failed the kept promise is one that waits in vain.\<close>

definition loader_ok :: "loader_state \<Rightarrow> bool" where
  "loader_ok s \<longleftrightarrow> (case sd_tags s of
     [] \<Rightarrow> \<not> sd_razorpay s \<and> sd_cached s = None \<and> (\<forall>p. \<not> pending s p)
   | t # ts \<Rightarrow> ts = [] \<and> (case tg_state t of
         Tag_loading \<Rightarrow> \<not> sd_razorpay s \<and> (\<forall>p. pending s p \<longrightarrow> p \<in> set (tg_listeners t)) \<and>
           (\<exists>p. sd_cached s = Some p \<and> pending s p)
       | Tag_loaded \<Rightarrow> sd_razorpay s \<and> (\<forall>p. \<not> pending s p)
       | Tag_failed \<Rightarrow> \<not> sd_razorpay s \<and> (\<forall>p. sd_cached s = Some p \<longrightarrow> pending s p)))"

lemma length_settle [simp]: "length (settle st is ps) = length ps"
  by (simp add: settle_def)

lemma nth_settle: "i < length ps \<Longrightarrow> settle st is ps ! i = (if i \<in> set is \<and> ps ! i = Pending then st else ps ! i)"
  by (simp add: settle_def nth_enumerate_eq)

lemma pending_settle:
  "st \<noteq> Pending \<Longrightarrow> pending (s\<lparr>sd_promises := settle st is (sd_promises s)\<rparr>) p \<longleftrightarrow> pending s p \<and> p \<notin> set is"
  by (auto simp: pending_def nth_settle split: if_splits)

lemma pending_loaded [simp]:
  "st \<noteq> Pending \<Longrightarrow> pending (s\<lparr>sd_razorpay := r, sd_tags := ts, sd_promises := settle st is (sd_promises s)\<rparr>) p \<longleftrightarrow> pending s p \<and> p \<notin> set is"
  "st \<noteq> Pending \<Longrightarrow> pending (s\<lparr>sd_tags := ts, sd_cached := c, sd_promises := settle st is (sd_promises s)\<rparr>) p \<longleftrightarrow> pending s p \<and> p \<notin> set is"
  by (auto simp: pending_def nth_settle split: if_splits)

lemma pending_simps [simp]:
  "pending (s\<lparr>sd_tags := ts\<rparr>) = pending s" "pending (s\<lparr>sd_cached := c\<rparr>) = pending s" "pending (s\<lparr>sd_razorpay := r\<rparr>) = pending s"
  by (simp_all add: pending_def fun_eq_iff)

lemma pending_append: "pending (s\<lparr>sd_promises := sd_promises s @ [q]\<rparr>) p \<longleftrightarrow>
    pending s p \<or> p = length (sd_promises s) \<and> q = Pending"
  by (auto simp: pending_def nth_append)

lemma fresh_ok: "loader_ok fresh_sdk"
  by (simp add: loader_ok_def fresh_sdk_def pending_def)

lemma load_ok:
  assumes "loader_ok s"
  shows "loader_ok (fst (loadRazorpaySDK s))"
proof (cases "sd_razorpay s \<or> sd_cached s \<noteq> None")
  case True
  then show ?thesis using assms
    by (auto simp: loader_ok_def loadRazorpaySDK_def Let_def pending_append split: list.splits tag_state.splits)
next
  case False
  then show ?thesis using assms
    by (auto simp: loader_ok_def loadRazorpaySDK_def Let_def executor_def pending_append split: list.splits tag_state.splits)
qed

lemma loads_ok:
  assumes "loader_ok s" "tag_waits s"
  shows "loader_ok (script_loads s)"
  using assms
  by (auto simp: loader_ok_def tag_waits_def script_loads_def pending_settle split: list.splits)

lemma fails_ok:
  assumes "loader_ok s" "tag_waits s"
  shows "loader_ok (script_fails s)"
  using assms
  by (auto simp: loader_ok_def tag_waits_def script_fails_def pending_settle split: list.splits)

lemma loader_step_ok: "loader_ok s \<Longrightarrow> loader_step s t \<Longrightarrow> loader_ok t"
  by (erule loader_step.cases) (auto intro: load_ok loads_ok fails_ok)

interpretation loading: invariant_system loader_step loader_ok
  by unfold_locales (rule loader_step_ok)

section \<open>What callers get\<close>

text \<open>The promise a call returns, at any later time.\<close>

lemma called_promise:
  assumes "loader_ok s" "loadRazorpaySDK s = (t, p)"
  shows "p < length (sd_promises t) \<and> (sd_razorpay s \<longrightarrow> sd_promises t ! p = Resolved) \<and> (\<not> sd_razorpay s \<longrightarrow> pending t p)"
proof (cases "sd_razorpay s \<or> sd_cached s \<noteq> None")
  case True
  then show ?thesis using assms
    by (auto simp: loader_ok_def loadRazorpaySDK_def Let_def pending_def split: list.splits tag_state.splits)
next
  case False
  then show ?thesis using assms
    by (auto simp: loader_ok_def loadRazorpaySDK_def Let_def executor_def pending_def split: list.splits)
qed

text \<open>Once the script has failed there is no way back: the element stays in the document, so every later call waits
  for an event that has passed.\<close>

definition script_failed :: "loader_state \<Rightarrow> bool" where
  "script_failed s \<longleftrightarrow> loader_ok s \<and> (\<exists>t. sd_tags s = [t] \<and> tg_state t = Tag_failed)"

lemma failed_step:
  assumes "script_failed s" "loader_step s t"
  shows "script_failed t \<and> (\<forall>p. pending s p \<longrightarrow> pending t p)"
proof -
  have "\<not> tag_waits s" using assms(1) by (auto simp: script_failed_def tag_waits_def)
  then have t: "t = fst (loadRazorpaySDK s)" using assms(2) by (auto elim: loader_step.cases)
  have ok: "loader_ok t" using assms loader_step_ok by (auto simp: script_failed_def)
  obtain g where g: "sd_tags s = [g]" "tg_state g = Tag_failed" "\<not> sd_razorpay s"
    using assms(1) by (auto simp: script_failed_def loader_ok_def)
  show ?thesis
    using ok g unfolding t
    by (auto simp: script_failed_def loadRazorpaySDK_def Let_def executor_def pending_append split: option.splits)
qed

lemma failed_run:
  assumes "run loader_step s t" "script_failed s"
  shows "script_failed t \<and> (\<forall>p. pending s p \<longrightarrow> pending t p)"
  using assms by (induction rule: run.induct) (auto dest: failed_step)

lemma waits_failed:
  assumes "loader_ok s" "tag_waits s"
  shows "script_failed (script_fails s)"
proof -
  obtain g where "sd_tags s = [g]" using assms by (auto simp: loader_ok_def tag_waits_def split: list.splits)
  then show ?thesis using fails_ok [OF assms] by (simp add: script_failed_def script_fails_def)
qed

text \<open>
  C39. After a failed load no retry ends. If the script fails once, the promise of every call made at any later time is
  still waiting at any time after that, so a customer who presses the pay button again waits forever, although the
  loader clears its promise to allow exactly this.
\<close>

theorem failed_script_is_never_retried:
  assumes "run loader_step fresh_sdk s" "tag_waits s" "run loader_step (script_fails s) t"
    and "loadRazorpaySDK t = (u, p)" "run loader_step u v"
  shows "pending v p"
proof -
  have s: "loader_ok s" using loading.run_inv [OF assms(1)] fresh_ok by simp
  have t: "script_failed t" using failed_run [OF assms(3)] waits_failed [OF s assms(2)] by simp
  then have r: "\<not> sd_razorpay t" by (auto simp: script_failed_def loader_ok_def)
  have "loader_step t u" using step_call [of t] by (simp add: assms(4))
  then have "script_failed u" using failed_step [OF t] by simp
  moreover have "pending u p" using called_promise [OF _ assms(4)] t r by (simp add: script_failed_def)
  ultimately show ?thesis using failed_run [OF assms(5)] by simp
qed

text \<open>
  Otherwise it works: there is never more than one script element, and once it has loaded no promise waits and
  every call is answered at once.
\<close>

theorem loaded_script_serves_all:
  assumes "run loader_step fresh_sdk s"
  shows "length (sd_tags s) \<le> 1 \<and> (sd_razorpay s \<longrightarrow> (\<forall>p. \<not> pending s p) \<and>
    sd_promises (fst (loadRazorpaySDK s)) ! snd (loadRazorpaySDK s) = Resolved)"
proof -
  have s: "loader_ok s" using loading.run_inv [OF assms] fresh_ok by simp
  then have "length (sd_tags s) \<le> 1" "sd_razorpay s \<longrightarrow> (\<forall>p. \<not> pending s p)"
    by (auto simp: loader_ok_def split: list.splits tag_state.splits)
  then show ?thesis using called_promise [OF s, of "fst (loadRazorpaySDK s)" "snd (loadRazorpaySDK s)"] by simp
qed

text \<open>The test of the window inside the promise is never true: the function runs at once, not after a tick.\<close>

lemma inner_test_is_dead:
  "\<not> sd_razorpay s \<Longrightarrow> executor n s = (case sd_tags s of
     t # ts \<Rightarrow> s\<lparr>sd_tags := t\<lparr>tg_listeners := tg_listeners t @ [n]\<rparr> # ts\<rparr>
   | [] \<Rightarrow> s\<lparr>sd_tags := [\<lparr>tg_state = Tag_loading, tg_listeners = [n]\<rparr>]\<rparr>)"
  by (simp add: executor_def)

definition called_once :: loader_state where
  "called_once = fst (loadRazorpaySDK fresh_sdk)"

lemma called_once_run: "run loader_step fresh_sdk called_once"
  unfolding called_once_def using run_step [where step = loader_step, OF run_refl step_call [of fresh_sdk]] by simp

theorem failed_script_is_never_retried_witness:
  "pending (fst (loadRazorpaySDK (script_fails called_once))) (snd (loadRazorpaySDK (script_fails called_once)))"
proof (rule failed_script_is_never_retried [OF called_once_run _ run_refl _ run_refl])
  show "tag_waits called_once" by code_simp
qed simp

theorem loaded_script_serves_all_witness:
  "sd_razorpay (script_loads called_once) \<and> (\<forall>p. \<not> pending (script_loads called_once) p)"
proof -
  have "tag_waits called_once" by code_simp
  then have "run loader_step fresh_sdk (script_loads called_once)"
    by (rule run_step [OF called_once_run step_load])
  moreover have "sd_razorpay (script_loads called_once)" by code_simp
  ultimately show ?thesis using loaded_script_serves_all by blast
qed

section \<open>The loader of the booking page\<close>

text \<open>It keeps nothing: without the script every call adds an element, and its answer is that element's event. The
  result is the number of elements and whether the script is there.\<close>

definition loadRazorpay :: "bool \<Rightarrow> nat \<times> bool \<Rightarrow> (nat \<times> bool) \<times> bool" where
  "loadRazorpay loads s = (case s of (elements, razorpay) \<Rightarrow>
     if razorpay then (s, True) else ((elements + 1, loads), loads))"

text \<open>What follows the answer of the booking call: the window's options, and where each end of it leads.\<close>

record booking_answer =
  ba_bookingId :: string
  ba_orderId :: string
  ba_razorpayOrderId :: "string option"
  ba_amount :: int
  ba_currency :: "string option"

record window_options =
  wo_amount :: int
  wo_currency :: string
  wo_description :: string
  wo_order_id :: string
  wo_prefill :: "string option \<times> string option"

definition window_of :: "string \<Rightarrow> (string option \<times> string option) \<Rightarrow> booking_answer \<Rightarrow> window_options" where
  "window_of title user data =
     \<lparr>wo_amount = ba_amount data, wo_currency = (case ba_currency data of None \<Rightarrow> ''INR'' | Some c \<Rightarrow> c),
      wo_description = ''Booking for '' @ title,
      wo_order_id = (case ba_razorpayOrderId data of None \<Rightarrow> ba_orderId data | Some i \<Rightarrow> i),
      wo_prefill = (if truthy (fst user) then fst user else snd user, snd user)\<rparr>"

datatype booking_end = Sdk_missing string | Window_open window_options

definition booking_created :: "bool \<Rightarrow> string \<Rightarrow> (string option \<times> string option) \<Rightarrow> booking_answer \<Rightarrow> nat \<times> bool \<Rightarrow> (nat \<times> bool) \<times> booking_end" where
  "booking_created loads title user data s =
     (case loadRazorpay loads s of (s', loaded) \<Rightarrow>
        (s', if \<not> loaded then Sdk_missing ''Razorpay SDK failed to load'' else Window_open (window_of title user data)))"

text \<open>The handler of a paid window: the confirmation call decides the page.\<close>

definition window_paid :: "bool \<Rightarrow> string \<Rightarrow> string" where
  "window_paid verified bookingId = (if verified then ''/booking/success/'' @ bookingId else ''/booking/failure'')"

text \<open>Unlike the other loader this one can be tried again after a failure, at the price of one more element.\<close>

lemma booking_page_retries:
  "snd (loadRazorpay True (fst (loadRazorpay False s))) \<and> (snd s \<or> fst (fst (loadRazorpay False s)) = fst s + 1)"
  by (cases s) (simp add: loadRazorpay_def)

text \<open>A customer whose payment succeeded but whose confirmation call failed is told that the booking failed.\<close>

lemma paid_but_failed: "window_paid False i = ''/booking/failure''"
  by (simp add: window_paid_def)

end
