(* ===== verification/PurchasePages.thy ===== *)
theory PurchasePages
  imports ScriptLoader Checkout History SignIn SeatPicker Dtos
begin

text \<open>
  What the pages on the way to a ticket show: the login form (\<open>frontend/src/app/(public)/login/page.tsx\<close>), the
  booking page (\<open>app/(protected)/booking/[eventId]/page.tsx\<close>), the show page (\<open>app/(protected)/shows/[id]/page.tsx\<close>)
  with its summary (\<open>features/seats/components/BookingSummary.tsx\<close>) and the checkout page
  (\<open>app/(protected)/checkout/page.tsx\<close>) with \<open>components/CheckoutSummary.tsx\<close>. Each is a function from the state of
  the page, which the theories imported here keep, to what is written on it and which buttons are enabled. Style,
  icons and animation are left out; how the browser prints a number or a date is an argument.
\<close>

record page_button =
  pb_label :: string
  pb_enabled :: bool
  pb_spinning :: bool

section \<open>The login form\<close>

datatype login_view =
    Email_form string string "string option" page_button page_button
  | Otp_form string "string option" page_button

definition shown_error :: "login_page_state \<Rightarrow> string option" where
  "shown_error l = (if lo_error l = [] then None else Some (lo_error l))"

definition LoginForm :: "login_page_state \<Rightarrow> login_view" where
  "LoginForm l =
     (case lo_step l of
        EMAIL \<Rightarrow> Email_form (lo_email l) (lo_password l) (shown_error l)
          \<lparr>pb_label = ''Login with Password'', pb_enabled = (\<not> lo_isLoading l \<and> lo_password l \<noteq> []), pb_spinning = lo_isLoading l\<rparr>
          \<lparr>pb_label = ''Send Login OTP'', pb_enabled = (\<not> lo_isLoading l), pb_spinning = lo_isLoading l\<rparr>
      | OTP \<Rightarrow> Otp_form (lo_otp l) (shown_error l)
          \<lparr>pb_label = ''Verify & Login'', pb_enabled = (\<not> lo_isLoading l), pb_spinning = lo_isLoading l\<rparr>)"

text \<open>Typing; the field of the code takes six characters. The link back keeps everything else.\<close>

definition type_email :: "string \<Rightarrow> login_page_state \<Rightarrow> login_page_state" where
  "type_email s l = l\<lparr>lo_email := s\<rparr>"

definition type_password :: "string \<Rightarrow> login_page_state \<Rightarrow> login_page_state" where
  "type_password s l = l\<lparr>lo_password := s\<rparr>"

definition type_otp :: "string \<Rightarrow> login_page_state \<Rightarrow> login_page_state" where
  "type_otp s l = l\<lparr>lo_otp := take 6 s\<rparr>"

definition change_email :: "login_page_state \<Rightarrow> login_page_state" where
  "change_email l = l\<lparr>lo_step := EMAIL\<rparr>"

text \<open>The body of the login with a code.\<close>

definition otp_login_body :: "login_page_state \<Rightarrow> body" where
  "otp_login_body l = [(''email'', Str (lo_email l)), (''otp'', Str (lo_otp l))]"

text \<open>The route it is sent to asks for a password and refuses what it does not know, so whatever is typed is refused;
  the shared class of the same name would accept every code of six characters.\<close>

lemma otp_login_refused: "\<not> accepts (LoginDto_rules fm) (otp_login_body l)"
  by (simp add: LoginDto_rules_def accepts_iff otp_login_body_def)

lemma otp_login_shared:
  "accepts (shared_LoginDto_rules fm) (otp_login_body l) \<longleftrightarrow> fm_email fm (lo_email l) \<and> length (lo_otp l) = 6"
  by (auto simp: shared_LoginDto_rules_def accept_simps otp_login_body_def value_of_Cons constraint_defs format_defs)

text \<open>The message of a refused code is still shown after going back.\<close>

lemma error_survives_change:
  "handleVerifyOTP redirect (Inl m) l s = (l', s') \<Longrightarrow> shown_error (change_email l') = Some (or_str m ''Invalid OTP'')"
  by (auto simp: handleVerifyOTP_def logged_in_def change_email_def shown_error_def or_str_def truthy_def split: option.splits)

section \<open>The booking page\<close>

record booking_form =
  bf_title :: string
  bf_startTime :: string
  bf_total :: string
  bf_detail :: string
  bf_confirm :: page_button

datatype booking_view = Loading_event | Event_failed | No_shows | No_seats | Booking_form booking_form

text \<open>The fetched event: its title, its price and its shows with their start.\<close>

record booking_event =
  be_title :: string
  be_price :: "rat option"
  be_shows :: "(show_with_seats \<times> string option) list"

definition pricePerSeat :: "booking_event option \<Rightarrow> rat" where
  "pricePerSeat e = (case e of None \<Rightarrow> 0 | Some v \<Rightarrow> (case be_price v of None \<Rightarrow> 0 | Some x \<Rightarrow> x))"

definition active_start :: "booking_event \<Rightarrow> string option \<Rightarrow> string option" where
  "active_start e showIdParam =
     (case be_shows e of [] \<Rightarrow> None
      | s # _ \<Rightarrow> if truthy showIdParam
          then (case find (\<lambda>h. Some (sh_id (fst h)) = showIdParam) (be_shows e) of None \<Rightarrow> snd s | Some h \<Rightarrow> snd h) else snd s)"

definition BookingPage ::
  "(rat \<Rightarrow> string) \<Rightarrow> (string \<Rightarrow> string) \<Rightarrow> bool \<Rightarrow> bool \<Rightarrow> bool \<Rightarrow> booking_event option \<Rightarrow> string option \<Rightarrow> booking_page \<Rightarrow> booking_view" where
  "BookingPage str date isLoading isError isPending event showIdParam p =
     (if isLoading then Loading_event
      else case event of
        None \<Rightarrow> Event_failed
      | Some e \<Rightarrow>
          if isError then Event_failed
          else (case activeShow (map fst (be_shows e)) showIdParam of
                  None \<Rightarrow> No_shows
                | Some h \<Rightarrow>
                    if live_seats h p = [] then No_seats
                    else let n = length (bp_selected p); price = pricePerSeat event
                         in Booking_form
                           \<lparr>bf_title = ''Booking: '' @ be_title e,
                            bf_startTime = ''Show: '' @ (if truthy (active_start e showIdParam) then date (the (active_start e showIdParam)) else ''N/A''),
                            bf_total = rupee @ str (totalPrice price p),
                            bf_detail = show_nat n @ '' seat'' @ (if n \<noteq> 1 then ''s'' else []) @ '' '' @ utf8 215 @ utf8 160 @ rupee @ str price
                              @ (if n > 0 then '' ('' @ join_with '', '' (bp_selected p) @ '')'' else []),
                            bf_confirm = \<lparr>pb_label = (if isPending then ''Processing...'' else ''Confirm & Pay''),
                              pb_enabled = (\<not> isPending \<and> bp_selected p \<noteq> []), pb_spinning = False\<rparr>\<rparr>))"

text \<open>The page without an event shown at all, with one, and the button: it is enabled exactly for a selection that is
  not being booked.\<close>

lemma booking_form_shown:
  "(\<exists>f. BookingPage str date False False busy (Some e) i p = Booking_form f) \<longleftrightarrow>
     (\<exists>h. activeShow (map fst (be_shows e)) i = Some h \<and> sh_seats h \<noteq> [])"
  by (auto simp: BookingPage_def Let_def live_seats_def split: option.splits)

lemma booking_button:
  "BookingPage str date l er busy e i p = Booking_form f \<Longrightarrow>
     pb_enabled (bf_confirm f) \<longleftrightarrow> \<not> busy \<and> bp_selected p \<noteq> []"
  by (auto simp: BookingPage_def Let_def split: option.splits if_splits)

section \<open>The show page\<close>

text \<open>The details query: it goes through the first page of the event list, which carries the shows of each event.\<close>

record listed_event =
  le_general :: bool
  le_price :: "rat option"
  le_shows :: "(string \<times> rat option \<times> int option) list"

definition or_amount :: "rat option \<Rightarrow> rat \<Rightarrow> rat" where
  "or_amount x d = (case x of None \<Rightarrow> d | Some v \<Rightarrow> if v = 0 then d else v)"

fun show_details :: "string \<Rightarrow> listed_event list \<Rightarrow> show_page \<Rightarrow> show_page" where
  "show_details showId [] p = p"
| "show_details showId (e # es) p =
     (case find (\<lambda>h. fst h = showId) (le_shows e) of
        None \<Rightarrow> show_details showId es p
      | Some (_, price, capacity) \<Rightarrow>
          p\<lparr>sg_ticketPrice := or_amount price (or_amount (le_price e) 0),
            sg_showType := (if le_general e then General_admission else Seated),
            sg_remainingCapacity := (case capacity of None \<Rightarrow> 0 | Some c \<Rightarrow> c)\<rparr>)"

definition fresh_show_page :: show_page where
  "fresh_show_page = \<lparr>sg_selected = [], sg_gaQuantity = 1, sg_lockedUntil = None, sg_bookingId = None, sg_ticketPrice = 0,
     sg_showType = Seated, sg_remainingCapacity = 0\<rparr>"

text \<open>When the price is asked for, and the breakdown the page then has.\<close>

definition pricing_enabled :: "string \<Rightarrow> show_page \<Rightarrow> bool" where
  "pricing_enabled showId p \<longleftrightarrow> showId \<noteq> [] \<and> quantity p > 0 \<and> sg_ticketPrice p > 0"

record price_breakdown =
  pk_baseAmount :: rat
  pk_convenienceFee :: rat
  pk_serviceFee :: rat
  pk_totalAmount :: rat

definition page_breakdown :: "(int \<Rightarrow> rat \<Rightarrow> price_breakdown option) \<Rightarrow> string \<Rightarrow> show_page \<Rightarrow> price_breakdown option" where
  "page_breakdown answer showId p =
     (if pricing_enabled showId p then answer (quantity p) (sg_ticketPrice p) else None)"

record summary_card =
  bm_seats :: string
  bm_rows :: "(string \<times> string) list"
  bm_continue :: page_button

definition BookingSummary :: "int \<Rightarrow> bool \<Rightarrow> price_breakdown option \<Rightarrow> seat_cell list option \<Rightarrow> summary_card option" where
  "BookingSummary selectedSeatsCount isProcessing breakdown selectedSeats =
     (if selectedSeatsCount = 0 then None
      else case breakdown of
        None \<Rightarrow> None
      | Some b \<Rightarrow> Some
          \<lparr>bm_seats = (case selectedSeats of
             Some (s # ss) \<Rightarrow> join_with '', '' (map seat_code (s # ss))
           | _ \<Rightarrow> show_int selectedSeatsCount @ '' Qty''),
           bm_rows = [(''Base Price'', formatINR (Num (pk_baseAmount b))),
             (''Convenience Fee ('' @ rupee @ ''19.99 '' @ utf8 215 @ '' '' @ show_int selectedSeatsCount @ '')'', formatINR (Num (pk_convenienceFee b))),
             (''Service Fee (2%)'', formatINR (Num (pk_serviceFee b))), (''Total'', formatINR (Num (pk_totalAmount b)))],
           bm_continue = \<lparr>pb_label = (if isProcessing then ''Processing...'' else ''Continue to Payment''),
             pb_enabled = (\<not> isProcessing), pb_spinning = False\<rparr>\<rparr>)"

text \<open>The page: its heading, the countdown, the seats or the quantity, and below them the summary or, once the seats
  are locked, the way to the checkout.\<close>

record seats_form =
  sw_heading :: string
  sw_timer :: "int option"
  sw_grid :: "seat_cell list option"
  sw_quantity :: "(string \<times> string) option"
  sw_summary :: "summary_card option"
  sw_checkout :: "string option option"

datatype show_view = Show_loading | Show_failed | Show_form seats_form

definition selectedSeatsObject :: "seat_cell list \<Rightarrow> show_page \<Rightarrow> seat_cell list" where
  "selectedSeatsObject seats p = filter (\<lambda>s. seat_code s \<in> set (sg_selected p)) seats"

definition ShowSeatsPage ::
  "(int \<Rightarrow> rat \<Rightarrow> price_breakdown option) \<Rightarrow> bool \<Rightarrow> bool \<Rightarrow> bool \<Rightarrow> string \<Rightarrow> seat_cell list \<Rightarrow> show_page \<Rightarrow> show_view" where
  "ShowSeatsPage answer isLoading isError isPending showId seats p =
     (if isLoading then Show_loading else if isError then Show_failed
      else Show_form
        \<lparr>sw_heading = (if sg_showType p = General_admission then ''Select Quantity'' else ''Select Seats''),
         sw_timer = sg_lockedUntil p,
         sw_grid = (if sg_showType p = Seated then Some seats else None),
         sw_quantity = (if sg_showType p = Seated then None
           else Some (show_int (sg_gaQuantity p), show_int (sg_remainingCapacity p) @ '' tickets available'')),
         sw_summary = (if sg_lockedUntil p \<noteq> None then None
           else BookingSummary (quantity p) isPending (page_breakdown answer showId p)
             (if sg_showType p = Seated then Some (selectedSeatsObject seats p) else None)),
         sw_checkout = (if sg_lockedUntil p = None then None else Some (handleGoToCheckout p))\<rparr>)"

text \<open>What the customer can do before locking.\<close>

inductive choose_step :: "show_page \<Rightarrow> show_page \<Rightarrow> bool" where
  toggles: "choose_step p (handleSeatToggle n p)"
| more: "choose_step p (increment p)"
| fewer: "choose_step p (decrement p)"
| expires: "choose_step p (handleTimerExpire p)"

definition free_page :: "show_page \<Rightarrow> bool" where
  "free_page p \<longleftrightarrow> sg_ticketPrice p = 0"

lemma choose_keeps_price: "choose_step p q \<Longrightarrow> sg_ticketPrice q = sg_ticketPrice p"
  by (erule choose_step.cases) (simp_all add: handleSeatToggle_def increment_def decrement_def handleTimerExpire_def)

interpretation choosing: invariant_system choose_step free_page
  by unfold_locales (simp add: free_page_def choose_keeps_price)

lemma unlisted_details:
  "\<forall>e \<in> set events. showId \<notin> fst ` set (le_shows e) \<Longrightarrow> show_details showId events p = p"
proof (induction events)
  case (Cons e events)
  then have "find (\<lambda>h. fst h = showId) (le_shows e) = None" by (force simp: find_None_iff)
  with Cons show ?case by simp
qed simp

lemma free_details:
  "\<forall>e \<in> set events. \<forall>h \<in> set (le_shows e). fst h = showId \<longrightarrow> or_amount (fst (snd h)) (or_amount (le_price e) 0) = 0 \<Longrightarrow>
   free_page p \<Longrightarrow> free_page (show_details showId events p)"
proof (induction events)
  case (Cons e events)
  then show ?case
    by (auto simp: free_page_def dest!: find_in split: option.splits)
qed simp

text \<open>
  Which shows cannot be bought: if a show is not among the events of the first page of the list, or its ticket is
  free, then whatever the customer chooses, no summary appears and with it no button to go on.
\<close>

theorem unpriced_show_cannot_be_bought:
  assumes "\<forall>e \<in> set events. \<forall>h \<in> set (le_shows e). fst h = showId \<longrightarrow> or_amount (fst (snd h)) (or_amount (le_price e) 0) = 0"
    and "run choose_step (show_details showId events fresh_show_page) p"
    and "ShowSeatsPage answer l er busy showId seats p = Show_form f"
  shows "sw_summary f = None"
proof -
  have "free_page fresh_show_page" by (simp add: free_page_def fresh_show_page_def)
  then have "free_page p" using choosing.run_inv [OF assms(2)] free_details [OF assms(1)] by blast
  then have "page_breakdown answer showId p = None" by (simp add: free_page_def page_breakdown_def pricing_enabled_def)
  then show ?thesis using assms(3) by (auto simp: ShowSeatsPage_def BookingSummary_def split: if_splits)
qed

theorem unpriced_show_cannot_be_bought_witness:
  "\<exists>f. ShowSeatsPage (\<lambda>_ _. None) False False False ''h'' [] (increment (show_details ''h''
       [\<lparr>le_general = True, le_price = Some 0, le_shows = [(''h'', Some 0, Some 50)]\<rparr>] fresh_show_page)) = Show_form f
     \<and> sw_summary f = None"
proof -
  let ?es = "[\<lparr>le_general = True, le_price = Some 0, le_shows = [(''h'', Some 0, Some 50)]\<rparr>]"
  obtain f where f: "ShowSeatsPage (\<lambda>_ _. None) False False False ''h'' [] (increment (show_details ''h'' ?es fresh_show_page)) = Show_form f"
    by (simp add: ShowSeatsPage_def)
  have "sw_summary f = None"
    using unpriced_show_cannot_be_bought [OF _ run_step [where step = choose_step, OF run_refl more] f] by (simp add: or_amount_def)
  with f show ?thesis by blast
qed

section \<open>The checkout page\<close>

text \<open>The order summary: a seat per line, the two parts of the price, the discounts, the total and the button.\<close>

record summary_seat =
  ss_row :: string
  ss_number :: int
  ss_category :: string
  ss_price :: rat

record order_sheet =
  sy_lines :: "(string \<times> string) list"
  sy_original :: "string option"
  sy_total :: "string \<times> string"
  sy_saved :: "string option"
  sy_pay :: page_button

definition inr :: "rat \<Rightarrow> string" where
  "inr x = formatINR (Num x)"

definition discount_lines :: "discount_view option \<Rightarrow> (string \<times> string) list" where
  "discount_lines discount = (case discount of None \<Rightarrow> []
     | Some d \<Rightarrow> if dv_discountAmount d > 0
         then (if dv_couponDiscountAmount d > 0 then [(''Coupon Discount'', utf8 8211 @ inr (dv_couponDiscountAmount d))] else [])
            @ (if dv_giftCardDiscountAmount d > 0 then [(''Gift Card'', utf8 8211 @ inr (dv_giftCardDiscountAmount d))] else [])
         else [])"

definition summary_view :: "summary_seat list \<Rightarrow> discount_view option \<Rightarrow> rat option \<Rightarrow> bool \<Rightarrow> order_sheet" where
  "summary_view seats discount finalAmount isLoading =
     (let o' = CheckoutSummary (map ss_price seats) discount finalAmount; d = os_hasDiscount o'
      in \<lparr>sy_lines =
            (if seats = [] then [(''No seats selected'', [])]
             else map (\<lambda>s. (''Row '' @ ss_row s @ '', Seat '' @ show_int (ss_number s) @ '' ('' @ ss_category s @ '')'', inr (ss_price s))) seats
               @ [(''Ticket Price'', inr (os_ticketSubtotal o')),
                  (''Convenience Fee (Fixed '' @ rupee @ ''19.99 + 2%)'', inr (os_totalConvenienceFee o'))]
               @ discount_lines discount),
          sy_original = (if d then Some (inr (os_baseTotal o')) else None),
          sy_total = (if d then ''You Pay'' else ''Total Amount'', inr (os_displayTotal o')),
          sy_saved = (if d then map_option (\<lambda>v. ''You save '' @ inr (dv_discountAmount v)) discount else None),
          sy_pay = \<lparr>pb_label = ''Proceed to Payment'', pb_enabled = (seats \<noteq> [] \<and> \<not> isLoading), pb_spinning = isLoading\<rparr>\<rparr>)"

text \<open>The rest of the booking that the page shows.\<close>

record checkout_details =
  cd_title :: "string option"
  cd_imageUrl :: "string option"
  cd_startTime :: "string option"
  cd_theater :: "string option"
  cd_screen :: "string option"
  cd_seats :: "summary_seat list"

text \<open>A field for a code: its text, whether it is disabled, its button, and the line on what it saves.\<close>

record code_field =
  cf_text :: string
  cf_disabled :: bool
  cf_apply :: bool
  cf_saving :: "string option"

record checkout_sheet =
  cw_image :: string
  cw_title :: string
  cw_date :: string
  cw_time :: string
  cw_venue :: string
  cw_locked :: bool
  cw_coupon :: code_field
  cw_gift :: code_field
  cw_loading_note :: bool
  cw_summary :: order_sheet

datatype checkout_view = Checkout_spinner | Checkout_blank | Checkout_confirmed string | Checkout_form checkout_sheet

definition coupon_amount :: "checkout_page \<Rightarrow> rat" where
  "coupon_amount p = (case co_discount p of None \<Rightarrow> 0 | Some d \<Rightarrow> dv_couponDiscountAmount d)"

definition gift_amount :: "checkout_page \<Rightarrow> rat" where
  "gift_amount p = (case co_discount p of None \<Rightarrow> 0 | Some d \<Rightarrow> dv_giftCardDiscountAmount d)"

definition coupon_field :: "(rat \<Rightarrow> string) \<Rightarrow> checkout_page \<Rightarrow> code_field" where
  "coupon_field fixed2 p =
     \<lparr>cf_text = co_couponCode p, cf_disabled = (co_orderLocked p \<or> coupon_amount p \<noteq> 0), cf_apply = coupon_enabled p,
      cf_saving = (if coupon_amount p \<noteq> 0 then Some (utf8 10003 @ '' Coupon applied '' @ utf8 8212 @ '' saving '' @ rupee @ fixed2 (coupon_amount p)) else None)\<rparr>"

definition gift_field :: "(rat \<Rightarrow> string) \<Rightarrow> checkout_page \<Rightarrow> code_field" where
  "gift_field fixed2 p =
     \<lparr>cf_text = co_giftCardCode p, cf_disabled = (co_orderLocked p \<or> gift_amount p \<noteq> 0), cf_apply = gift_enabled p,
      cf_saving = (if gift_amount p \<noteq> 0 then Some (utf8 10003 @ '' Gift card applied '' @ utf8 8212 @ '' '' @ rupee @ fixed2 (gift_amount p) @ '' deducted'') else None)\<rparr>"

definition default_text :: "string option \<Rightarrow> string \<Rightarrow> string" where
  "default_text x d = (case x of None \<Rightarrow> d | Some s \<Rightarrow> s)"

definition checkout_form :: "(rat \<Rightarrow> string) \<Rightarrow> (string \<Rightarrow> string) \<Rightarrow> (string \<Rightarrow> string) \<Rightarrow> fetched_booking \<Rightarrow> checkout_details \<Rightarrow> checkout_page \<Rightarrow> checkout_sheet" where
  "checkout_form fixed2 date time bk c p =
     \<lparr>cw_image = default_text (cd_imageUrl c) ''https://placehold.co/120x176?text=Event'',
      cw_title = default_text (cd_title c) ''Event'',
      cw_date = (if truthy (cd_startTime c) then date (the (cd_startTime c)) else ''Date TBA''),
      cw_time = (if truthy (cd_startTime c) then time (the (cd_startTime c)) else ''Time TBA''),
      cw_venue = (case cd_theater c of Some t \<Rightarrow> t | None \<Rightarrow> default_text (cd_screen c) ''Venue TBA''),
      cw_locked = co_orderLocked p, cw_coupon = coupon_field fixed2 p, cw_gift = gift_field fixed2 p,
      cw_loading_note = (\<not> co_razorpayReady p),
      cw_summary = summary_view (cd_seats c) (co_discount p) (Some (payable bk (co_discount p))) (co_isProcessing p)\<rparr>"

definition CheckoutContent :: "(rat \<Rightarrow> string) \<Rightarrow> (string \<Rightarrow> string) \<Rightarrow> (string \<Rightarrow> string) \<Rightarrow> checkout_details \<Rightarrow> checkout_page \<Rightarrow> checkout_view" where
  "CheckoutContent fixed2 date time c p =
     (if co_isLoading p then Checkout_spinner
      else case co_booking p of
        None \<Rightarrow> Checkout_blank
      | Some bk \<Rightarrow> if co_isSuccess p then Checkout_confirmed (default_text (cd_title c) ''Event'')
                   else Checkout_form (checkout_form fixed2 date time bk c p))"


definition opened_checkout :: checkout_page where
  "opened_checkout = fetchBooking (Some \<lparr>fb_totalAmount = Some 500, fb_couponDiscountAmount = None, fb_giftCardDiscountAmount = None,
     fb_discountAmount = None, fb_finalAmount = 500, fb_orderCreatedAt = None, fb_seatPrices = [500]\<rparr>) fresh_checkout"


text \<open>A code can be applied exactly while its field is open and holds more than blanks.\<close>

lemma apply_needs_open_field:
  "cf_apply (coupon_field fx p) \<longleftrightarrow> \<not> cf_disabled (coupon_field fx p) \<and> trimmed (cf_text (coupon_field fx p)) \<noteq> []"
  "cf_apply (gift_field fx p) \<longleftrightarrow> \<not> cf_disabled (gift_field fx p) \<and> trimmed (cf_text (gift_field fx p)) \<noteq> []"
  by (auto simp: coupon_field_def gift_field_def coupon_enabled_def gift_enabled_def coupon_amount_def gift_amount_def
      split: option.splits)

section \<open>The pay button and the script\<close>

text \<open>The first part of \<open>handlePay\<close>, up to the promise it waits for, if it waits.\<close>

definition press_pay :: "loader_state \<Rightarrow> checkout_page \<Rightarrow> loader_state \<times> checkout_page \<times> nat option" where
  "press_pay s p =
     (if co_booking p = None \<or> co_isProcessing p then (s, p, None)
      else let p' = p\<lparr>co_isProcessing := True\<rparr>
           in if sd_razorpay s then (s, p', None)
              else (fst (loadRazorpaySDK s), p', Some (snd (loadRazorpaySDK s))))"

text \<open>After a failed load a press of the button waits for ever, and the button does not answer again.\<close>

lemma pay_waits_for_ever:
  assumes "script_failed s" "press_pay s p = (u, q, Some i)" "run loader_step u v"
  shows "pending v i \<and> handlePay script answer events q = q"
proof -
  have r: "\<not> sd_razorpay s" "loader_ok s" using assms(1) by (auto simp: script_failed_def loader_ok_def)
  have u: "u = fst (loadRazorpaySDK s)" "i = snd (loadRazorpaySDK s)" "co_isProcessing q"
    using assms(2) by (auto simp: press_pay_def Let_def split: if_splits)
  have "pending u i" using called_promise [OF r(2), of u i] r(1) u(1,2) by simp
  moreover have "script_failed u" using failed_step [OF assms(1) step_call] u(1) by simp
  ultimately show ?thesis using failed_run [OF assms(3)] u(3) by (simp add: handlePay_def)
qed

end
