(* ===== verification/StaffPages.thy ===== *)
theory StaffPages
  imports Console Administration
begin

text \<open>
  What the pages of the staff show (\<open>frontend/src/app/platform\<close>, \<open>app/admin\<close>, \<open>app/super-admin\<close>): tables with their
  filters and pages, the tenants, the figures of the dashboards, the flags, the audit trail. \<open>Console\<close> keeps the states
  and requests behind them. The rows are answers of the server, so they are JSON values; \<open>num\<close> prints a number,
  \<open>loc\<close> is \<open>Number(v).toLocaleString()\<close> and \<open>date\<close> prints a date of a row.
\<close>

section \<open>Cells\<close>

text \<open>What React writes for a value: nothing for null, undefined and the truth values.\<close>

fun react_text :: "(rat \<Rightarrow> string) \<Rightarrow> json \<Rightarrow> string" where
  "react_text num (Str s) = s"
| "react_text num (Num x) = num x"
| "react_text num v = []"

text \<open>\<open>v?.slice(0, n)\<close> and \<open>v?.length\<close>\<close>

fun json_slice :: "nat \<Rightarrow> json \<Rightarrow> json" where
  "json_slice n (Str s) = Str (take n s)"
| "json_slice n v = Null"

fun json_length :: "json \<Rightarrow> json" where
  "json_length (Arr vs) = Num (of_nat (length vs))"
| "json_length (Str s) = Num (of_nat (length s))"
| "json_length v = Null"

fun json_path :: "string list \<Rightarrow> json \<Rightarrow> json" where
  "json_path [] v = v"
| "json_path (k # ks) v = json_path ks (json_get k v)"

fun json_rows :: "json \<Rightarrow> json list" where
  "json_rows (Arr vs) = vs"
| "json_rows v = []"

definition em_dash :: string where
  "em_dash = utf8 8212"

definition ellipsis :: string where
  "ellipsis = utf8 8230"

definition or_dash :: "json \<Rightarrow> json" where
  "or_dash v = nullish v (Str em_dash)"

definition dated :: "(json \<Rightarrow> string) \<Rightarrow> json \<Rightarrow> string" where
  "dated date v = (if json_truthy v then date v else em_dash)"

section \<open>Tables with pages\<close>

record table_row =
  tr_cells :: "string list"
  tr_tone :: string

text \<open>While it loads a table has grey rows; without rows it has a line that says so.\<close>

datatype table_body = Skeleton nat nat | Empty_table string | Filled "table_row list"

definition rows_table :: "nat \<Rightarrow> nat \<Rightarrow> string \<Rightarrow> bool \<Rightarrow> table_row list \<Rightarrow> table_body" where
  "rows_table n m message isLoading rows = (if isLoading then Skeleton n m else if rows = [] then Empty_table message else Filled rows)"

definition pager :: "nat \<Rightarrow> row_pages \<Rightarrow> (string \<times> bool \<times> bool) option" where
  "pager amount p = (if totalPages amount > 1
     then Some (''Page '' @ show_nat (rp_page p) @ '' of '' @ show_nat (totalPages amount), prev_enabled amount p, next_enabled amount p)
     else None)"

record rows_page =
  rg_heading :: string
  rg_note :: string
  rg_cards :: "(string \<times> string) list"
  rg_filters :: "(string \<times> bool) list"
  rg_head :: "string list"
  rg_table :: table_body
  rg_pager :: "(string \<times> bool \<times> bool) option"

text \<open>The answer of a list: its rows and their total number.\<close>

definition answered_rows :: "json option \<Rightarrow> json list" where
  "answered_rows data = (case data of None \<Rightarrow> [] | Some d \<Rightarrow> json_rows (json_get ''data'' d))"

definition filter_buttons :: "string list \<Rightarrow> row_pages \<Rightarrow> (string \<times> bool) list" where
  "filter_buttons ss p = map (\<lambda>s. (s, rp_status p = s)) ss"

definition booking_tone :: "string \<Rightarrow> string" where
  "booking_tone s = (if s = ''CONFIRMED'' then ''green'' else if s = ''LOCKED'' then ''yellow'' else if s = ''CANCELLED'' then ''red''
     else if s = ''PENDING'' then ''blue'' else ''gray'')"

definition platform_booking_row :: "(rat \<Rightarrow> string) \<Rightarrow> (json \<Rightarrow> string) \<Rightarrow> (json \<Rightarrow> string) \<Rightarrow> json \<Rightarrow> table_row" where
  "platform_booking_row num loc date b =
     \<lparr>tr_cells = [react_text num (json_slice 8 (json_get ''id'' b)) @ ellipsis,
        react_text num (nullish (json_path [''tenant'', ''name''] b) (json_slice 8 (json_get ''tenantId'' b))),
        react_text num (or_dash (json_path [''show'', ''event'', ''title''] b)), react_text num (or_dash (json_path [''user'', ''email''] b)),
        react_text num (or_dash (json_length (json_get ''bookingSeats'' b))), rupee @ loc (nullish (json_get ''totalAmount'' b) (Num 0)),
        react_text num (json_get ''status'' b), dated date (json_get ''createdAt'' b)],
      tr_tone = booking_tone (react_text num (json_get ''status'' b))\<rparr>"

definition PlatformBookingsPage :: "(rat \<Rightarrow> string) \<Rightarrow> (json \<Rightarrow> string) \<Rightarrow> (json \<Rightarrow> string) \<Rightarrow> bool \<Rightarrow> json option \<Rightarrow> nat \<Rightarrow> row_pages \<Rightarrow> rows_page" where
  "PlatformBookingsPage num loc date isLoading data amount p =
     \<lparr>rg_heading = ''All Bookings'', rg_note = loc (Num (of_nat amount)) @ '' total bookings across all tenants'', rg_cards = [],
      rg_filters = filter_buttons [''ALL'', ''CONFIRMED'', ''LOCKED'', ''CANCELLED''] p,
      rg_head = [''Booking ID'', ''Tenant'', ''Event'', ''User'', ''Seats'', ''Amount'', ''Status'', ''Date''],
      rg_table = rows_table 8 8 ''No bookings found'' isLoading (map (platform_booking_row num loc date) (answered_rows data)),
      rg_pager = pager amount p\<rparr>"

definition payment_tone :: "string \<Rightarrow> string" where
  "payment_tone s = (if s = ''SUCCESS'' then ''green'' else if s = ''FAILED'' then ''red'' else if s = ''PENDING'' then ''yellow''
     else if s = ''REFUNDED'' then ''blue'' else ''gray'')"

definition platform_payment_row :: "(rat \<Rightarrow> string) \<Rightarrow> (json \<Rightarrow> string) \<Rightarrow> (json \<Rightarrow> string) \<Rightarrow> json \<Rightarrow> table_row" where
  "platform_payment_row num loc date q =
     \<lparr>tr_cells = [react_text num (nullish (json_get ''razorpayPaymentId'' q) (json_slice 12 (json_get ''id'' q))),
        react_text num (nullish (json_path [''tenant'', ''name''] q) (json_slice 8 (json_get ''tenantId'' q))),
        react_text num (json_slice 8 (json_get ''bookingId'' q)) @ ellipsis, rupee @ loc (nullish (json_get ''amount'' q) (Num 0)),
        react_text num (json_get ''status'' q), react_text num (nullish (json_get ''method'' q) (Str ''Razorpay'')),
        dated date (json_get ''createdAt'' q)],
      tr_tone = payment_tone (react_text num (json_get ''status'' q))\<rparr>"

definition summary_of :: "json option \<Rightarrow> string \<Rightarrow> json" where
  "summary_of summary k = nullish (case summary of None \<Rightarrow> Null | Some s \<Rightarrow> json_get k s) (Num 0)"

definition summary_cards :: "(rat \<Rightarrow> string) \<Rightarrow> (json \<Rightarrow> string) \<Rightarrow> json option \<Rightarrow> (string \<times> string) list" where
  "summary_cards num loc summary =
     [(''Total Revenue'', rupee @ loc (summary_of summary ''totalRevenue'')), (''Successful'', react_text num (summary_of summary ''successful'')),
      (''Failed'', react_text num (summary_of summary ''failed'')), (''Refunded'', rupee @ loc (summary_of summary ''refunded''))]"

definition PlatformPaymentsPage ::
  "(rat \<Rightarrow> string) \<Rightarrow> (json \<Rightarrow> string) \<Rightarrow> (json \<Rightarrow> string) \<Rightarrow> bool \<Rightarrow> json option \<Rightarrow> json option \<Rightarrow> nat \<Rightarrow> row_pages \<Rightarrow> rows_page" where
  "PlatformPaymentsPage num loc date isLoading data summary amount p =
     \<lparr>rg_heading = ''Payments'', rg_note = ''All payment transactions across tenants'', rg_cards = summary_cards num loc summary,
      rg_filters = filter_buttons [''ALL'', ''SUCCESS'', ''PENDING'', ''FAILED'', ''REFUNDED''] p,
      rg_head = [''Payment ID'', ''Tenant'', ''Booking'', ''Amount'', ''Status'', ''Method'', ''Date''],
      rg_table = rows_table 8 7 ''No payments found'' isLoading (map (platform_payment_row num loc date) (answered_rows data)),
      rg_pager = pager amount p\<rparr>"

text \<open>As long as the total stays, the button to the next page leads through all pages.\<close>

lemma next_leads_on:
  "k + 1 < totalPages n \<Longrightarrow> \<exists>t b. pager n ((next_page n ^^ k) fresh_pages) = Some (t, b, True)"
  using page_reached [of k n] by (simp add: pager_def next_enabled_def)

text \<open>When the list gets shorter while a later page is open, the buttons are gone with it: the table is empty, the
  request still names the later page, and nothing leads back but a filter.\<close>

lemma shrunk_list_strands:
  assumes "n \<le> 20" "1 < rp_page p"
  shows "pager n p = None \<and> map_of (page_params p) ''page'' = Some (show_nat (rp_page p)) \<and> totalPages n < rp_page p"
proof -
  have "totalPages n \<le> 1" using assms(1) unfolding totalPages_def by presburger
  then show ?thesis using assms(2) by (simp add: pager_def page_params_def)
qed

text \<open>Of the status filters of both pages exactly one is marked, as long as only they set the status.\<close>

lemma one_filter_marked:
  "distinct ss \<Longrightarrow> s \<in> set ss \<Longrightarrow> filter snd (filter_buttons ss (set_filter s p)) = [(s, True)]"
proof (induction ss)
  case (Cons a ss)
  have "filter snd (filter_buttons us (set_filter s p)) = []" if "s \<notin> set us" for us
    using that by (induction us) (auto simp: filter_buttons_def set_filter_def)
  with Cons show ?case by (auto simp: filter_buttons_def set_filter_def)
qed simp

section \<open>Tenants\<close>

text \<open>The list divides by the limit as it is, so the ratio may be no number.\<close>

datatype js_ratio = Ratio rat | Infinite bool | Not_a_number

definition usage_ratio :: "int \<Rightarrow> int \<Rightarrow> js_ratio" where
  "usage_ratio count limit =
     (if limit = 0 then (if count = 0 then Not_a_number else Infinite (0 < count)) else Ratio (d_div (of_int count) (of_int limit)))"

fun percent_text :: "js_ratio \<Rightarrow> string" where
  "percent_text (Ratio q) = show_int (math_round (d_mul q 100)) @ ''%''"
| "percent_text (Infinite up) = (if up then ''Infinity%'' else ''-Infinity%'')"
| "percent_text Not_a_number = ''NaN%''"

fun ratio_red :: "js_ratio \<Rightarrow> bool" where
  "ratio_red (Ratio q) \<longleftrightarrow> to_double (9 / 10) < q"
| "ratio_red (Infinite up) \<longleftrightarrow> up"
| "ratio_red Not_a_number \<longleftrightarrow> False"

record tenants_line =
  tw_name :: string
  tw_domain :: string
  tw_plan :: "string \<times> string"
  tw_usage :: string
  tw_percent :: string
  tw_red :: bool
  tw_revenue :: string
  tw_status :: string

definition status_word :: "bool \<Rightarrow> string" where
  "status_word active = (if active then ''Active'' else ''Suspended'')"

definition plan_tone :: "string \<Rightarrow> string" where
  "plan_tone plan = (if plan = ''ENTERPRISE'' then ''purple'' else if plan = ''PRO'' then ''brand'' else ''gray'')"

text \<open>Plan and printed revenue are members of the tenant that \<open>console_tenant\<close> leaves out; a missing revenue is
  written as nothing.\<close>

definition tenant_row_of :: "(console_tenant \<Rightarrow> string) \<Rightarrow> (console_tenant \<Rightarrow> string option) \<Rightarrow> console_tenant \<Rightarrow> tenants_line" where
  "tenant_row_of plan revenue t =
     \<lparr>tw_name = ct_name t, tw_domain = (case ct_subdomain t of None \<Rightarrow> ''undefined'' | Some d \<Rightarrow> d) @ ''.tickets.com'',
      tw_plan = (plan_tone (plan t), plan t),       tw_usage = show_int (ct_count t) @ '' / '' @ show_int (ct_limit t), tw_percent = percent_text (usage_ratio (ct_count t) (ct_limit t)),
      tw_red = ratio_red (usage_ratio (ct_count t) (ct_limit t)), tw_revenue = rupee @ (case revenue t of None \<Rightarrow> [] | Some x \<Rightarrow> x), tw_status = status_word (ct_isActive t)\<rparr>"

text \<open>The page; the error of its filter is \<open>None\<close>.\<close>

datatype tenants_view = Loading_tenants | Tenants_table "tenants_line list"

definition TenantsPage :: "(console_tenant \<Rightarrow> string) \<Rightarrow> (console_tenant \<Rightarrow> string option) \<Rightarrow> bool \<Rightarrow> string \<Rightarrow> console_tenant list option \<Rightarrow> tenants_view option" where
  "TenantsPage plan revenue isLoading searchTerm tenants =
     (if isLoading then Some Loading_tenants
      else case tenants of None \<Rightarrow> Some (Tenants_table [])
      | Some ts \<Rightarrow> map_option (\<lambda>us. Tenants_table (map (tenant_row_of plan revenue) us)) (filtered_tenants searchTerm ts))"

text \<open>A tenant without a limit is no number in the list, and an empty bar on its own page.\<close>

lemma unlimited_tenant: "ct_count t = 0 \<Longrightarrow> ct_limit t = 0 \<Longrightarrow> tw_percent (tenant_row_of plan revenue t) = ''NaN%''"
  by (simp add: tenant_row_of_def usage_ratio_def)

text \<open>Nine hundred and four of a thousand bookings are red in the list and yellow on the page, which rounds first.\<close>

lemma rounding_differs: "ratio_red (usage_ratio 904 1000) \<and> usage_color (usagePct 904 1000) = ''yellow''"
  by code_simp

section \<open>The page of a tenant\<close>

text \<open>The fetched status, the open question, and whether the call is under way.\<close>

record tenant_page =
  tg_isActive :: bool
  tg_confirmAction :: "string option"
  tg_isPending :: bool
  tg_sent :: "bool list"

definition fresh_tenant_page :: "bool \<Rightarrow> tenant_page" where
  "fresh_tenant_page active = \<lparr>tg_isActive = active, tg_confirmAction = None, tg_isPending = False, tg_sent = []\<rparr>"

definition ask_action :: "tenant_page \<Rightarrow> tenant_page" where
  "ask_action p = p\<lparr>tg_confirmAction := Some (if tg_isActive p then ''suspend'' else ''activate'')\<rparr>"

definition cancel_action :: "tenant_page \<Rightarrow> tenant_page" where
  "cancel_action p = p\<lparr>tg_confirmAction := None\<rparr>"

definition confirm_action :: "tenant_page \<Rightarrow> tenant_page" where
  "confirm_action p = (if tg_confirmAction p = None \<or> tg_isPending p then p
     else p\<lparr>tg_isPending := True, tg_sent := tg_sent p @ [\<not> tg_isActive p]\<rparr>)"

definition status_updated :: "bool \<Rightarrow> tenant_page \<Rightarrow> tenant_page" where
  "status_updated ok p = (if ok then p\<lparr>tg_isPending := False, tg_confirmAction := None\<rparr> else p\<lparr>tg_isPending := False\<rparr>)"

text \<open>A refetch brings the status the tenant has on the server by then.\<close>

definition tenant_refetched :: "bool \<Rightarrow> tenant_page \<Rightarrow> tenant_page" where
  "tenant_refetched active p = p\<lparr>tg_isActive := active\<rparr>"

inductive tenant_page_step :: "tenant_page \<Rightarrow> tenant_page \<Rightarrow> bool" where
  asks: "tenant_page_step p (ask_action p)"
| cancels: "tenant_page_step p (cancel_action p)"
| confirms: "tenant_page_step p (confirm_action p)"
| answered: "tg_isPending p \<Longrightarrow> tenant_page_step p (status_updated ok p)"
| refetches_idle: "tg_confirmAction p = None \<Longrightarrow> tenant_page_step p (tenant_refetched active p)"

text \<open>If the status is never refetched while the question is open, the question names what confirming it does.\<close>

definition question_fits :: "tenant_page \<Rightarrow> bool" where
  "question_fits p \<longleftrightarrow> tg_confirmAction p \<in> {None, Some (if tg_isActive p then ''suspend'' else ''activate'')}"

lemma question_step: "question_fits p \<Longrightarrow> tenant_page_step p q \<Longrightarrow> question_fits q"
  by (erule tenant_page_step.cases)
    (auto simp: question_fits_def ask_action_def cancel_action_def confirm_action_def status_updated_def tenant_refetched_def)

interpretation tenant_question: invariant_system tenant_page_step question_fits
  by unfold_locales (rule question_step)

lemma confirmed_question:
  assumes "run tenant_page_step (fresh_tenant_page active) p" "tg_confirmAction p = Some a" "\<not> tg_isPending p"
  shows "tg_sent (confirm_action p) = tg_sent p @ [a = ''activate'']"
proof -
  have "question_fits p" by (rule tenant_question.run_inv [OF assms(1)]) (simp add: question_fits_def fresh_tenant_page_def)
  then show ?thesis using assms(2,3) by (auto simp: question_fits_def confirm_action_def)
qed

text \<open>If somebody else suspends the tenant meanwhile, confirming the question whether to suspend it activates it.\<close>

lemma question_can_lie:
  "tg_confirmAction (tenant_refetched False (ask_action (fresh_tenant_page True))) = Some ''suspend''
   \<and> tg_sent (confirm_action (tenant_refetched False (ask_action (fresh_tenant_page True)))) = [True]"
  by (simp add: tenant_refetched_def ask_action_def fresh_tenant_page_def confirm_action_def)

text \<open>What the page shows.\<close>

record tenant_view =
  tv_title :: string
  tv_subtitle :: string
  tv_badge :: string
  tv_button :: string
  tv_question :: "(string \<times> string \<times> bool) option"
  tv_metrics :: "(string \<times> string) list"
  tv_usage :: "string \<times> string"
  tv_warning :: "string option"
  tv_health :: "(string \<times> string \<times> string) list"

datatype tenant_detail = Tenant_skeleton | Tenant_failed | Tenant_shown tenant_view

definition underscores_to_blanks :: "string \<Rightarrow> string" where
  "underscores_to_blanks s = map (\<lambda>c. if c = CHR ''_'' then CHR '' '' else c) s"

text \<open>\<open>x || 0\<close> on a count is the count.\<close>

definition tenant_figures :: "(json \<Rightarrow> string) \<Rightarrow> json \<Rightarrow> console_tenant \<Rightarrow> string option \<Rightarrow> (string \<times> string) list" where
  "tenant_figures loc revenue t subscription =
     [(''Monthly Revenue'', rupee @ loc (if json_truthy revenue then revenue else Num 0)), (''Bookings (MTD)'', show_int (ct_count t)),
      (''Booking Limit'', show_int (ct_limit t)), (''Subscription'', or_str subscription ''N/A'')]"

definition TenantDetailPage ::
  "(json \<Rightarrow> string) \<Rightarrow> (json \<Rightarrow> string) \<Rightarrow> bool \<Rightarrow> bool \<Rightarrow> (console_tenant \<times> string \<times> string option \<times> json) option \<Rightarrow> (string \<times> json) list option \<Rightarrow> tenant_page \<Rightarrow> tenant_detail" where
  "TenantDetailPage loc to_text isLoading isError tenant health p =
     (if isLoading then Tenant_skeleton
      else if isError then Tenant_failed
      else case tenant of None \<Rightarrow> Tenant_failed
      | Some (t, plan, subscription, revenue) \<Rightarrow>
          (let pct = usagePct (ct_count t) (ct_limit t)
           in Tenant_shown
             \<lparr>tv_title = ct_name t, tv_subtitle = ''Slug: '' @ ct_slug t @ '' '' @ utf8 183 @ '' Plan: '' @ plan,
              tv_badge = status_word (ct_isActive t), tv_button = (if ct_isActive t then ''Suspend'' else ''Activate''),
              tv_question = map_option (\<lambda>a. (''Are you sure you want to '' @ a @ '' tenant '' @ [CHR 0x22] @ ct_name t @ [CHR 0x22] @ ''?'',
                if tg_isPending p then ''Processing...'' else ''Confirm'', \<not> tg_isPending p)) (tg_confirmAction p),
              tv_metrics = tenant_figures loc revenue t subscription,
              tv_usage = (show_int (ct_count t) @ '' / '' @ show_int (ct_limit t) @ '' ('' @ show_int pct @ ''%)'', usage_color pct),
              tv_warning = usage_warning pct,
              tv_health = (case health of None \<Rightarrow> [] | Some es \<Rightarrow>
                map (\<lambda>(k, v). (underscores_to_blanks k, to_text v, if v = Str ''ok'' \<or> v = Bool True then ''green'' else ''red'')) es)\<rparr>))"

section \<open>The administrator's dashboard\<close>

text \<open>Events with their seats, bookings with the amount that was to be paid. A booking is cancelled from its row.\<close>

record dashboard_event =
  dv_title :: string
  dv_date :: string
  dv_totalSeats :: int
  dv_availableSeats :: int

record dashboard_booking =
  db_id :: string
  db_email :: "string option"
  db_title :: "string option"
  db_totalAmount :: json
  db_finalAmount :: json
  db_discountAmount :: json
  db_status :: string

definition dashboard_amount :: "(rat \<Rightarrow> string) \<Rightarrow> dashboard_booking \<Rightarrow> string \<times> string option" where
  "dashboard_amount num b =
     (let discounted = positive (nullish (db_discountAmount b) (Num 0))
      in (''$'' @ react_text num (if discounted \<and> db_finalAmount b \<noteq> Null then db_finalAmount b else db_totalAmount b),
          if discounted then Some (''was $'' @ react_text num (db_totalAmount b)) else None))"

definition dashboard_tone :: "string \<Rightarrow> string" where
  "dashboard_tone s = (if s = ''CONFIRMED'' then ''green'' else if s = ''PENDING'' then ''yellow'' else ''red'')"

record booking_line =
  bl_id :: string
  bl_user :: string
  bl_event :: string
  bl_amount :: "string \<times> string option"
  bl_status :: "string \<times> string"
  bl_cancel :: bool

definition booking_line_of :: "(rat \<Rightarrow> string) \<Rightarrow> dashboard_booking \<Rightarrow> booking_line" where
  "booking_line_of num b =
     \<lparr>bl_id = take 8 (db_id b) @ ''...'', bl_user = or_str (db_email b) ''N/A'', bl_event = or_str (db_title b) ''Unknown Event'',
      bl_amount = dashboard_amount num b, bl_status = (dashboard_tone (db_status b), db_status b), bl_cancel = admin_can_cancel (db_status b)\<rparr>"

datatype dashboard_table =
    Loading_table string
  | Events_table "(string \<times> string \<times> string \<times> string) list"
  | Bookings_table "booking_line list"
  | No_table

record dashboard_view =
  dw_button :: string
  dw_form :: bool
  dw_cards :: "(string \<times> json) list"
  dw_table :: dashboard_table

definition dashboard_cards :: "dashboard_stats option \<Rightarrow> (string \<times> json) list" where
  "dashboard_cards stats = [(''Total Revenue'', stat_value ds_totalRevenue stats), (''Total Bookings'', stat_value ds_totalBookings stats),
     (''Active Events'', stat_value ds_totalEvents stats)]"

definition AdminDashboardPage ::
  "(rat \<Rightarrow> string) \<Rightarrow> (string \<Rightarrow> string) \<Rightarrow> dashboard_stats option \<Rightarrow> dashboard_event list option \<Rightarrow> dashboard_booking list option \<Rightarrow>
   bool \<Rightarrow> bool \<Rightarrow> admin_dashboard \<Rightarrow> dashboard_view" where
  "AdminDashboardPage num date stats events bookings loadingEvents loadingBookings d =
     \<lparr>dw_button = (if da_showCreateModal d then ''Close Form'' else ''Create New Event''), dw_form = da_showCreateModal d,
      dw_cards = dashboard_cards stats,
      dw_table =
        (if da_activeTab d = ''events''
         then if loadingEvents then Loading_table ''Loading events...''
              else Events_table (map (\<lambda>e. (dv_title e, date (dv_date e), sold_of_total (dv_totalSeats e) (dv_availableSeats e),
                     event_state (dv_availableSeats e))) (case events of None \<Rightarrow> [] | Some es \<Rightarrow> es))
         else if da_activeTab d = ''bookings''
         then if loadingBookings then Loading_table ''Loading bookings...''
              else Bookings_table (map (booking_line_of num) (case bookings of None \<Rightarrow> [] | Some bs \<Rightarrow> bs))
         else No_table)\<rparr>"

text \<open>Every booking of the answer has its line, and a line can be cancelled exactly if its booking is confirmed.\<close>

lemma dashboard_lists_bookings:
  assumes "dw_table (AdminDashboardPage num date stats events (Some bs) False False (choose_tab ''bookings'' d)) = Bookings_table ls"
  shows "length ls = length bs \<and> (\<forall>i < length bs. bl_cancel (ls ! i) \<longleftrightarrow> db_status (bs ! i) = ''CONFIRMED'')"
  using assms by (auto simp: AdminDashboardPage_def choose_tab_def booking_line_of_def admin_can_cancel_def)

section \<open>Shows and events of the administrator\<close>

record shows_row =
  aw_id :: string
  aw_eventTitle :: string
  aw_posterUrl :: "string option"
  aw_startTime :: string
  aw_theater :: string
  aw_screen :: string
  aw_price :: rat
  aw_totalBookings :: nat

record show_line =
  sl_title :: string
  sl_poster :: "string option"
  sl_day :: string
  sl_time :: string
  sl_place :: "string \<times> string"
  sl_price :: string
  sl_bookings :: "string \<times> bool"
  sl_delete :: "bool \<times> string"

datatype shows_table = Loading_shows | No_shows_found | Shows_table "show_line list"

definition show_line_of :: "(rat \<Rightarrow> string) \<Rightarrow> (string \<Rightarrow> string) \<Rightarrow> (string \<Rightarrow> string) \<Rightarrow> bool \<Rightarrow> shows_row \<Rightarrow> show_line" where
  "show_line_of num day time isDeleting s =
     \<lparr>sl_title = aw_eventTitle s, sl_poster = (if truthy (aw_posterUrl s) then aw_posterUrl s else None),
      sl_day = day (aw_startTime s), sl_time = time (aw_startTime s), sl_place = (aw_theater s, aw_screen s),
      sl_price = rupee @ num (aw_price s), sl_bookings = (show_nat (aw_totalBookings s) @ '' booked'', 0 < aw_totalBookings s),
      sl_delete = (delete_enabled isDeleting (aw_totalBookings s),
        if 0 < aw_totalBookings s then ''Cannot delete show with bookings'' else ''Delete show'')\<rparr>"

definition ShowsTable :: "(rat \<Rightarrow> string) \<Rightarrow> (string \<Rightarrow> string) \<Rightarrow> (string \<Rightarrow> string) \<Rightarrow> bool \<Rightarrow> bool \<Rightarrow> shows_row list \<Rightarrow> shows_table" where
  "ShowsTable num day time isLoading isDeleting shows' =
     (if isLoading then Loading_shows else if shows' = [] then No_shows_found
      else Shows_table (map (show_line_of num day time isDeleting) shows'))"

text \<open>The page around it: its search, the form of a new show, and the show whose seats are watched.\<close>

record shows_page =
  sp_search :: string
  sp_isModalOpen :: bool
  sp_monitoring :: "(string \<times> string) option"

definition fresh_shows_page :: shows_page where
  "fresh_shows_page = \<lparr>sp_search = [], sp_isModalOpen = False, sp_monitoring = None\<rparr>"

definition handleMonitor :: "string \<Rightarrow> string \<Rightarrow> shows_page \<Rightarrow> shows_page" where
  "handleMonitor i title p = p\<lparr>sp_monitoring := Some (i, title)\<rparr>"

definition close_monitor :: "shows_page \<Rightarrow> shows_page" where
  "close_monitor p = p\<lparr>sp_monitoring := None\<rparr>"

definition open_show_form :: "bool \<Rightarrow> shows_page \<Rightarrow> shows_page" where
  "open_show_form v p = p\<lparr>sp_isModalOpen := v\<rparr>"

definition search_shows :: "string \<Rightarrow> shows_page \<Rightarrow> shows_page" where
  "search_shows s p = p\<lparr>sp_search := s\<rparr>"

text \<open>The calls that delete, if the question was confirmed, and the message after the answer. A deleted event has no
  message, a refused one neither.\<close>

definition handleDelete_show :: "bool \<Rightarrow> string \<Rightarrow> string option" where
  "handleDelete_show sure i = (if sure then Some i else None)"

definition deleted_message :: "(string option + unit) \<Rightarrow> bool \<times> string" where
  "deleted_message answer = (case answer of Inr _ \<Rightarrow> (True, ''Show deleted successfully'')
     | Inl m \<Rightarrow> (False, or_str m ''Failed to delete show''))"

definition AdminEventsPage :: "(string \<Rightarrow> string) \<Rightarrow> bool \<Rightarrow> (string \<times> string \<times> string \<times> string) list option \<Rightarrow> (string list \<times> string) list + string" where
  "AdminEventsPage date isLoading events =
     (if isLoading then Inr ''Loading events...''
      else case events of None \<Rightarrow> Inl []
      | Some [] \<Rightarrow> Inr ''No events found. Create one to get started.''
      | Some es \<Rightarrow> Inl (map (\<lambda>(title, type, day, location). ([title, type, date day, location], if type = ''MOVIE'' then ''blue'' else ''purple'')) es))"

text \<open>A show with bookings has no enabled button to delete it, and its title says why; without bookings the button is
  disabled only while a deletion runs.\<close>

lemma show_deletion_offered:
  "ShowsTable num day time l busy ss = Shows_table ls \<Longrightarrow> i < length ss \<Longrightarrow>
     (fst (sl_delete (ls ! i)) \<longleftrightarrow> \<not> busy \<and> aw_totalBookings (ss ! i) = 0)
     \<and> (snd (sl_delete (ls ! i)) = ''Delete show'' \<longleftrightarrow> aw_totalBookings (ss ! i) = 0)"
  by (auto simp: ShowsTable_def show_line_of_def delete_enabled_def split: if_splits)

section \<open>Flags, audit trail and health\<close>

record flag_card =
  fc_key :: string
  fc_on :: bool
  fc_text :: string
  fc_scope :: string
  fc_modified :: string
  fc_toggle :: "string \<times> json"

text \<open>A card for a flag; its button sends the opposite of the fetched state.\<close>

definition flag_card_of :: "(rat \<Rightarrow> string) \<Rightarrow> (json \<Rightarrow> string) \<Rightarrow> json \<Rightarrow> flag_card" where
  "flag_card_of num date f =
     \<lparr>fc_key = react_text num (json_get ''key'' f), fc_on = json_truthy (json_get ''enabled'' f),
      fc_text = (if json_truthy (json_get ''description'' f) then react_text num (json_get ''description'' f)
        else ''No description provided for this feature key.''),
      fc_scope = (if json_truthy (json_get ''scope'' f) then react_text num (json_get ''scope'' f) else ''Global''),
      fc_modified = date (json_get ''updatedAt'' f),
      fc_toggle = (''/platform/feature/'' @ react_text num (json_get ''id'' f) @ ''/toggle'', Bool (\<not> json_truthy (json_get ''enabled'' f)))\<rparr>"

definition FeatureFlagsPage :: "(rat \<Rightarrow> string) \<Rightarrow> (json \<Rightarrow> string) \<Rightarrow> bool \<Rightarrow> json option \<Rightarrow> flag_card list option" where
  "FeatureFlagsPage num date isLoading flags =
     (if isLoading then None else Some (map (flag_card_of num date) (case flags of None \<Rightarrow> [] | Some v \<Rightarrow> json_rows v)))"

record trail_entry =
  ay_action :: string
  ay_tone :: string
  ay_admin :: string
  ay_tenant :: string
  ay_time :: string
  ay_role :: string
  ay_metadata :: "string option"

text \<open>\<open>a || b\<close> on texts; \<open>print\<close> is \<open>JSON.stringify\<close> with two blanks.\<close>

definition text_or :: "json \<Rightarrow> string \<Rightarrow> string" where
  "text_or v d = (case v of Str s \<Rightarrow> if s = [] then d else s | _ \<Rightarrow> d)"

definition audit_entry_of :: "(json \<Rightarrow> string) \<Rightarrow> (json \<Rightarrow> string) \<Rightarrow> json \<Rightarrow> trail_entry" where
  "audit_entry_of print date l =
     (let action = text_or (json_get ''action'' l) []
      in \<lparr>ay_action = action, ay_tone = audit_color action,
          ay_admin = ''Admin ID: '' @ text_or (json_slice 8 (json_get ''userId'' l)) ''SYSTEM'',
          ay_tenant = ''Tenant: '' @ text_or (json_get ''tenantId'' l) ''GLOBAL'', ay_time = date (json_get ''createdAt'' l),
          ay_role = text_or (json_get ''actorRole'' l) ''INTERNAL'',
          ay_metadata = (if json_truthy (json_get ''metadata'' l) then Some (print (json_get ''metadata'' l)) else None)\<rparr>)"

definition AuditLogsPage :: "(json \<Rightarrow> string) \<Rightarrow> (json \<Rightarrow> string) \<Rightarrow> bool \<Rightarrow> json option \<Rightarrow> trail_entry list option" where
  "AuditLogsPage print date isLoading logs =
     (if isLoading then None else Some (map (audit_entry_of print date) (case logs of None \<Rightarrow> [] | Some v \<Rightarrow> json_rows v)))"

text \<open>The services of the health page with their colour; an unknown status has the icon of a healthy service and no
  colour of its own.\<close>

definition health_tone :: "json \<Rightarrow> string option" where
  "health_tone s = (if s = Str ''healthy'' then Some ''green'' else if s = Str ''degraded'' then Some ''yellow''
     else if s = Str ''down'' then Some ''red'' else None)"

record health_view =
  hv_checked :: string
  hv_banner :: "string \<times> string option"
  hv_services :: "(string \<times> json \<times> string option) list"
  hv_details :: "string option"

definition SystemHealthPage :: "(json \<Rightarrow> string) \<Rightarrow> string option \<Rightarrow> json option \<Rightarrow> health_view" where
  "SystemHealthPage print checked data =
     \<lparr>hv_checked = ''Last checked: '' @ (case checked of None \<Rightarrow> em_dash | Some t \<Rightarrow> t),
      hv_banner = (health_banner data, health_tone (Str (overall_status data))),
      hv_services = map (\<lambda>(n, s). (n, s, health_tone s)) (service_statuses data),
      hv_details = (case data of None \<Rightarrow> None | Some d \<Rightarrow> if json_truthy d then Some (print d) else None)\<rparr>"

lemma green_tone: "health_tone s = Some ''green'' \<longleftrightarrow> s = Str ''healthy''"
  by (simp add: health_tone_def)

text \<open>The banner is green exactly if every service is.\<close>

lemma green_banner:
  "snd (hv_banner (SystemHealthPage print c data)) = Some ''green'' \<longleftrightarrow>
     list_all (\<lambda>(n, s, tone). tone = Some ''green'') (hv_services (SystemHealthPage print c data))"
  by (simp add: SystemHealthPage_def overall_status_def Let_def green_tone list.pred_map comp_def split_def)

section \<open>Figures of the platform\<close>

text \<open>What the server knows of the platform, as the answer of its analytics route.\<close>

definition stats_answer :: "platform_stats \<Rightarrow> json" where
  "stats_answer s = Obj
     [(''totalTenants'', Num (of_nat (ps_totalTenants s))), (''activeTenants'', Num (of_nat (ps_activeTenants s))),
      (''totalTheaters'', Num (of_nat (ps_totalTheaters s))), (''totalEvents'', Num (of_nat (ps_totalEvents s))),
      (''totalBookings'', Num (of_nat (ps_totalBookings s))), (''totalRevenue'', Num (ps_totalRevenue s)),
      (''activeUsers7d'', Num (of_nat (ps_activeUsers7d s)))]"

definition stat_or_0 :: "string \<Rightarrow> json option \<Rightarrow> json" where
  "stat_or_0 k stats = nullish (case stats of None \<Rightarrow> Null | Some s \<Rightarrow> json_get k s) (Num 0)"

record kpi_card =
  kc_label :: string
  kc_value :: string
  kc_delta :: json

definition kpi_cards :: "(json \<Rightarrow> string) \<Rightarrow> json option \<Rightarrow> kpi_card list" where
  "kpi_cards loc stats =
     [\<lparr>kc_label = ''GMV (30 days)'', kc_value = rupee @ loc (stat_or_0 ''gmv30d'' stats), kc_delta = stat_or_0 ''gmvDelta'' stats\<rparr>,
      \<lparr>kc_label = ''Total Bookings'', kc_value = loc (stat_or_0 ''totalBookings'' stats), kc_delta = stat_or_0 ''bookingsDelta'' stats\<rparr>,
      \<lparr>kc_label = ''Active Users (30d)'', kc_value = loc (stat_or_0 ''activeUsers30d'' stats), kc_delta = stat_or_0 ''usersDelta'' stats\<rparr>,
      \<lparr>kc_label = ''Active Tenants'', kc_value = loc (stat_or_0 ''activeTenants'' stats), kc_delta = stat_or_0 ''tenantsDelta'' stats\<rparr>]"

definition delta_text :: "(rat \<Rightarrow> string) \<Rightarrow> rat \<Rightarrow> string \<times> string" where
  "delta_text num d = (if 0 \<le> d then ''green'' else ''red'', num \<bar>d\<bar> @ ''% vs last month'')"

text \<open>The bars of the trend: at least eight percent high, the highest a hundred.\<close>

definition bar_max :: "int list \<Rightarrow> int" where
  "bar_max cs = Max (set (map (\<lambda>c. if c = 0 then 1 else c) cs))"

definition bar_height :: "int list \<Rightarrow> int \<Rightarrow> rat" where
  "bar_height cs c = max 8 (d_mul (d_div (of_int c) (of_int (bar_max cs))) 100)"

definition trend_bars :: "(string \<times> int) list \<Rightarrow> (string \<times> rat \<times> string) list" where
  "trend_bars monthly = map (\<lambda>(m, c). (m @ '': '' @ show_int c @ '' bookings'', bar_height (map snd monthly) c, take 3 m)) monthly"

lemma bar_height_bounds:
  assumes "\<forall>c \<in> set cs. 0 \<le> c" "c \<in> set cs"
  shows "8 \<le> bar_height cs c" "bar_height cs c \<le> 100"
proof -
  have one: "to_double 1 = 1" using to_double_int [of 1] by simp
  have m: "(if c = 0 then 1 else c) \<le> bar_max cs" unfolding bar_max_def by (rule Max_ge) (use assms(2) in auto)
  then have "0 < bar_max cs" "c \<le> bar_max cs" using assms by (auto split: if_splits)
  then have q: "(of_int c :: rat) / of_int (bar_max cs) \<le> 1" by (simp add: divide_le_eq)
  have "d_div (of_int c) (of_int (bar_max cs)) \<le> 1"
    using assms \<open>0 < bar_max cs\<close> to_double_mono [OF _ q] by (simp add: d_div_def one)
  moreover have "0 \<le> d_div (of_int c) (of_int (bar_max cs))"
    using assms \<open>0 < bar_max cs\<close> to_double_mono [of 0 "of_int c / of_int (bar_max cs)"] by (simp add: d_div_def to_double_def [of 0])
  ultimately have "to_double (d_div (of_int c) (of_int (bar_max cs)) * 100) \<le> to_double 100" by (intro to_double_mono) simp_all
  then show "bar_height cs c \<le> 100" "8 \<le> bar_height cs c"
    using to_double_int [of 100] by (simp_all add: bar_height_def d_mul_def)
qed

text \<open>Of the four figures two are what the server says; the other two are zero whatever it says.\<close>

lemma analytics_reads_two_figures:
  "map kc_value (kpi_cards loc (Some (stats_answer s))) =
     [rupee @ loc (Num 0), loc (Num (of_nat (ps_totalBookings s))), loc (Num 0), loc (Num (of_nat (ps_activeTenants s)))]"
  by (simp add: kpi_cards_def stat_or_0_def stats_answer_def json_get_def nullish_def)

text \<open>The two dashboards.\<close>

record stat_panel =
  sc_title :: string
  sc_value :: string
  sc_trend :: "string option"

definition stat_card :: "string \<Rightarrow> string \<Rightarrow> (string \<times> bool) option \<Rightarrow> stat_panel" where
  "stat_card title value trend =
     \<lparr>sc_title = title, sc_value = value, sc_trend = map_option (\<lambda>(v, up). (if up then ''+'' else ''-'') @ v @ ''%'') trend\<rparr>"

definition or_0 :: "json \<Rightarrow> json" where
  "or_0 v = (if json_truthy v then v else Num 0)"

definition PlatformDashboard :: "(rat \<Rightarrow> string) \<Rightarrow> (json \<Rightarrow> string) \<Rightarrow> json option \<Rightarrow> stat_panel list" where
  "PlatformDashboard num loc stats =
     (let s = (case stats of None \<Rightarrow> Null | Some v \<Rightarrow> v); revenue = json_path [''revenue'', ''monthly''] s
      in [stat_card ''Total Tenants'' (react_text num (or_0 (json_path [''tenants'', ''total''] s))) (Some (''12'', True)),
          stat_card ''Active Monthly Revenue'' (rupee @ (if revenue = Null then ''0'' else loc revenue)) (Some (''8.4'', True)),
          stat_card ''Processing Volume'' (react_text num (or_0 (json_path [''bookings'', ''totalCount''] s))) None,
          stat_card ''System Alerts'' (react_text num (or_0 (json_path [''alerts'', ''count''] s))) (Some (''0'', True))])"

definition failed_stats :: json where
  "failed_stats = Obj [(''tenantCount'', Num 0), (''totalRevenue'', Num 0), (''activeUsers'', Num 0), (''systemHealth'', Str ''unknown'')]"

text \<open>An amount taken for paise: a hundredth of it is printed by \<open>indian\<close>; \<open>number\<close> is the conversion of \<open>/\<close>,
  \<open>None\<close> for \<open>NaN\<close>.\<close>

definition paise_text :: "(json \<Rightarrow> rat option) \<Rightarrow> (rat \<Rightarrow> string) \<Rightarrow> json \<Rightarrow> string" where
  "paise_text number indian v = rupee @ (case number v of None \<Rightarrow> ''NaN'' | Some x \<Rightarrow> indian (d_div x 100))"

text \<open>The cards of the other dashboard.\<close>

definition SuperAdminDashboard :: "(json \<Rightarrow> string) \<Rightarrow> (json \<Rightarrow> rat option) \<Rightarrow> (rat \<Rightarrow> string) \<Rightarrow> json option \<Rightarrow> (string \<times> string) list" where
  "SuperAdminDashboard to_text number indian answer =
     (let s = (case answer of None \<Rightarrow> failed_stats | Some v \<Rightarrow> v)
      in [(''Total Tenants'', to_text (nullish (json_get ''tenantCount'' s) (Num 0))),
          (''Platform Revenue'', paise_text number indian (nullish (json_get ''totalRevenue'' s) (Num 0))),
          (''Active Users'', to_text (nullish (json_get ''activeUsers'' s) (Num 0))),
          (''System Health'', case nullish (json_get ''systemHealth'' s) (Str ''N/A'') of Str h \<Rightarrow> h | _ \<Rightarrow> [])])"

text \<open>No figure of the first dashboard depends on what the server says, and of the other only the revenue, which the
  server keeps in rupees and the page takes for paise.\<close>

lemma dashboards_ignore_server:
  "PlatformDashboard num loc (Some (stats_answer s)) = PlatformDashboard num loc None"
  "SuperAdminDashboard to_text number indian (Some (stats_answer s)) =
     [(''Total Tenants'', to_text (Num 0)), (''Platform Revenue'', paise_text number indian (Num (ps_totalRevenue s))),
      (''Active Users'', to_text (Num 0)), (''System Health'', ''N/A'')]"
  by (simp_all add: PlatformDashboard_def SuperAdminDashboard_def stats_answer_def json_get_def nullish_def Let_def)

section \<open>The list of administrators\<close>

definition admin_line :: "(rat \<Rightarrow> string) \<Rightarrow> (json \<Rightarrow> string) \<Rightarrow> json \<Rightarrow> table_row \<times> bool" where
  "admin_line num date a =
     (\<lparr>tr_cells = [react_text num (nullish (json_get ''name'' a) (Str ''Unnamed'')), react_text num (json_get ''email'' a),
         react_text num (json_get ''role'' a), react_text num (nullish (json_path [''tenant'', ''name''] a) (Str ''Platform'')),
         dated date (json_get ''createdAt'' a)],
       tr_tone = (if json_get ''role'' a = Str ''SUPER_ADMIN'' then ''violet'' else ''blue'')\<rparr>,
      json_get ''role'' a \<noteq> Str ''SUPER_ADMIN'')"

definition PlatformAdminsPage :: "(rat \<Rightarrow> string) \<Rightarrow> (json \<Rightarrow> string) \<Rightarrow> bool \<Rightarrow> json option \<Rightarrow> table_body \<times> bool list" where
  "PlatformAdminsPage num date isLoading data =
     (let ls = map (admin_line num date) (case data of None \<Rightarrow> [] | Some v \<Rightarrow> json_rows v)
      in (rows_table 4 6 ''No platform admins found'' isLoading (map fst ls), map snd ls))"

end
