(* ===== verification/HomePage.thy ===== *)
theory HomePage
  imports Catalogue Navigation
begin

text \<open>
  What the home page shows (\<open>frontend/src/features/home/components\<close>): the menu with its mobile form, the search box
  and its city list, the sections of movies, weekend and live events with their cards, and the counters. What the
  sections ask for and keep is in \<open>Catalogue\<close>. How the browser prints a date is an argument.
\<close>

section \<open>The menu\<close>

record home_nav =
  hn_scrolled :: bool
  hn_menuOpen :: bool

definition fresh_home_nav :: home_nav where
  "fresh_home_nav = \<lparr>hn_scrolled = False, hn_menuOpen = False\<rparr>"

text \<open>One handler for scrolling and resizing; above 768 pixels the mobile menu is closed.\<close>

definition window_moved :: "nat \<Rightarrow> nat \<Rightarrow> home_nav \<Rightarrow> home_nav" where
  "window_moved scrollY innerWidth n =
     (let n' = n\<lparr>hn_scrolled := (scrollY > 40)\<rparr> in if innerWidth > 768 then n'\<lparr>hn_menuOpen := False\<rparr> else n')"

definition toggle_menu :: "home_nav \<Rightarrow> home_nav" where
  "toggle_menu n = n\<lparr>hn_menuOpen := \<not> hn_menuOpen n\<rparr>"

definition follow_menu_link :: "home_nav \<Rightarrow> home_nav" where
  "follow_menu_link n = n\<lparr>hn_menuOpen := False\<rparr>"

record home_nav_view =
  nv_solid :: bool
  nv_full_height :: bool
  nv_links :: "(string \<times> string) list"
  nv_actions :: "(string \<times> string) list"
  nv_user_menu :: bool
  nv_mobile :: "((string \<times> string) list \<times> (string \<times> string) list) option"

definition home_links :: "(string \<times> string) list" where
  "home_links = [(''Movies'', ''/events?type=MOVIE''), (''Concerts'', ''/events?type=CONCERT''), (''All Events'', ''/events'')]"

definition HomeNav :: "bool \<Rightarrow> bool \<Rightarrow> home_nav \<Rightarrow> home_nav_view option" where
  "HomeNav hasHydrated signed_in n =
     (if \<not> hasHydrated then None
      else Some
        \<lparr>nv_solid = (hn_scrolled n \<or> hn_menuOpen n), nv_full_height = hn_menuOpen n, nv_links = home_links,
         nv_actions = (if signed_in then [(''Book Now'', ''/events'')] else [(''Login'', ''/login''), (''Join StarPass'', ''/login'')]),
         nv_user_menu = signed_in,
         nv_mobile = (if hn_menuOpen n then Some (home_links,
           if signed_in then [(''Book Tickets Now'', ''/events'')] else [(''Sign In'', ''/login''), (''Join StarPass'', ''/login'')])
           else None)\<rparr>)"

text \<open>The mobile menu offers the pages of the desktop one, and a wide window never keeps it open.\<close>

lemma mobile_menu_complete:
  assumes "HomeNav True s n = Some v" "nv_mobile v = Some (links, actions)"
  shows "links = nv_links v \<and> map snd actions = map snd (nv_actions v)"
  using assms by (auto simp: HomeNav_def split: if_splits)

lemma wide_window_closes_menu: "768 < w \<Longrightarrow> HomeNav True s (window_moved y w n) = Some v \<Longrightarrow> nv_mobile v = None"
  by (auto simp: HomeNav_def window_moved_def Let_def)

section \<open>The search box\<close>

text \<open>The list of cities marks the chosen one. A click inside the picker does not reach the document.\<close>

record hero_view =
  hw_city :: string
  hw_cities :: "(string \<times> bool) list option"
  hw_query :: string
  hw_filters :: "quick_filter list"

definition HeroSection :: "hero \<Rightarrow> hero_view" where
  "HeroSection h =
     \<lparr>hw_city = he_city h, hw_cities = (if he_cityOpen h then Some (map (\<lambda>c. (c, he_city h = c)) cities) else None),
      hw_query = he_query h, hw_filters = quick_filters\<rparr>"

definition type_query :: "string \<Rightarrow> hero \<Rightarrow> hero" where
  "type_query s h = h\<lparr>he_query := s\<rparr>"

inductive hero_step :: "hero \<Rightarrow> hero \<Rightarrow> bool" where
  toggles_cities: "hero_step h (toggle_cities h)"
| clicks_outside: "hero_step h (click_outside h)"
| chooses_city: "c \<in> set cities \<Longrightarrow> he_cityOpen h \<Longrightarrow> hero_step h (choose_city c h)"
| types_query: "hero_step h (type_query s h)"

definition hero_ok :: "hero \<Rightarrow> bool" where
  "hero_ok h \<longleftrightarrow> he_city h \<in> set cities"

lemma hero_step_ok: "hero_ok h \<Longrightarrow> hero_step h g \<Longrightarrow> hero_ok g"
  by (erule hero_step.cases) (auto simp: hero_ok_def toggle_cities_def click_outside_def choose_city_def type_query_def)

interpretation heroes: invariant_system hero_step hero_ok
  by unfold_locales (rule hero_step_ok)

text \<open>Whatever is clicked, an open list of cities marks exactly one of them.\<close>

lemma one_city_marked:
  assumes "run hero_step fresh_hero h" "hw_cities (HeroSection h) = Some cs"
  shows "map fst (filter snd cs) = [he_city h]"
proof -
  have "hero_ok h" by (rule heroes.run_inv [OF assms(1)]) (simp add: hero_ok_def fresh_hero_def cities_def)
  moreover have cs: "cs = map (\<lambda>c. (c, he_city h = c)) cities" using assms(2) by (simp add: HeroSection_def split: if_splits)
  moreover have "map fst (filter snd (map (\<lambda>c. (c, x = c)) ys)) = (if x \<in> set ys then [x] else [])" if "distinct ys" for x :: string and ys
    using that by (induction ys) auto
  moreover have "distinct cities" by (simp add: cities_def)
  ultimately show ?thesis by (simp add: hero_ok_def)
qed

text \<open>And nothing of the page depends on the choice: the address of a search is that of the typed text.\<close>

lemma city_is_ignored: "submit_hero (choose_city c h) = submit_hero h"
  by (simp add: submit_hero_def choose_city_def)

section \<open>Cards of events\<close>

text \<open>The three cards: the link, the picture or the sign in its place, the badges, the lines and the price.\<close>

record home_card =
  hc_href :: string
  hc_image :: "string option"
  hc_badges :: "string list"
  hc_title :: string
  hc_lines :: "string list"
  hc_price_label :: string
  hc_price :: string

definition shown_image :: "catalog_event \<Rightarrow> string option" where
  "shown_image e = (if truthy (ce_posterUrl e) then ce_posterUrl e else None)"

definition truthy_line :: "string option \<Rightarrow> string list" where
  "truthy_line x = (if truthy x then [the x] else [])"

definition WeekendCard :: "(string \<Rightarrow> string) \<Rightarrow> catalog_event \<Rightarrow> home_card" where
  "WeekendCard short_date e =
     \<lparr>hc_href = ''/events/'' @ ce_id e, hc_image = shown_image e,
      hc_badges = [''This Weekend'', if ce_type e = Some ''MOVIE'' then ''Movie'' else if ce_type e = Some ''CONCERT'' then ''Concert'' else ''Event''],
      hc_title = ce_title e, hc_lines = short_date (ce_date e) # truthy_line (ce_location e),
      hc_price_label = ''From'', hc_price = formatINR (ce_price e)\<rparr>"

text \<open>\<open>None\<close> is the error of a movie whose id is empty.\<close>

definition MovieCard :: "catalog_event \<Rightarrow> home_card option" where
  "MovieCard e = (case getUrgencyBadge (ce_id e) of
     None \<Rightarrow> None
   | Some badge \<Rightarrow> Some
      \<lparr>hc_href = ''/events/'' @ ce_id e, hc_image = shown_image e, hc_badges = [badge], hc_title = ce_title e,
       hc_lines = truthy_line (ce_language e) @ truthy_line (ce_genre e),
       hc_price_label = ''Starting from'', hc_price = formatINR (ce_price e)\<rparr>)"

definition TrendingCard :: "(string \<Rightarrow> string) \<Rightarrow> catalog_event \<Rightarrow> home_card" where
  "TrendingCard date e =
     \<lparr>hc_href = ''/events/'' @ ce_id e, hc_image = shown_image e,
      hc_badges = [if ce_type e = Some ''CONCERT'' then ''Concert'' else if ce_type e = Some ''EVENT'' then ''Event'' else ''General''],
      hc_title = ce_title e, hc_lines = [case theater_name e of None \<Rightarrow> ''Venue TBA'' | Some n \<Rightarrow> n, date (ce_date e)],
      hc_price_label = ''Starting from'', hc_price = formatINR (ce_price e)\<rparr>"

text \<open>A section: nothing at all, grey cards while it loads, or the cards; with the way to the whole list.\<close>

datatype section_body = No_section | Grey_cards nat | Cards "home_card list"

record section_view =
  sv_heading :: string
  sv_all :: string
  sv_body :: section_body

definition home_section :: "string \<Rightarrow> string \<Rightarrow> nat \<Rightarrow> bool \<Rightarrow> catalog_event list \<Rightarrow> home_card list \<Rightarrow> section_view" where
  "home_section heading see_all grey isLoading es cards =
     \<lparr>sv_heading = heading, sv_all = see_all,
      sv_body = (if \<not> section_shown isLoading es then No_section else if isLoading then Grey_cards grey else Cards cards)\<rparr>"

definition ThisWeekend :: "(string \<Rightarrow> string) \<Rightarrow> nat \<Rightarrow> bool \<Rightarrow> catalog_event list \<Rightarrow> section_view" where
  "ThisWeekend short_date now isLoading es =
     home_section ''This Weekend Highlights'' (''/events?date='' @ todayISO now) 4 isLoading es (map (WeekendCard short_date) es)"

definition FeaturedMovies :: "bool \<Rightarrow> catalog_event list \<Rightarrow> section_view option" where
  "FeaturedMovies isLoading movies =
     (if list_ex (\<lambda>e. MovieCard e = None) movies \<and> \<not> isLoading then None
      else Some (home_section ''Now Showing'' ''/events?type=MOVIE'' 8 isLoading movies (List.map_filter MovieCard movies)))"

definition TrendingEvents :: "(string \<Rightarrow> string) \<Rightarrow> bool \<Rightarrow> catalog_event list \<Rightarrow> section_view" where
  "TrendingEvents date isLoading es =
     home_section ''Trending Live Events'' ''/events?type=CONCERT'' 4 isLoading es (map (TrendingCard date) es)"

text \<open>The buttons beside the last section scroll it by 320 pixels, if it is there.\<close>

definition scroll_by :: "bool \<Rightarrow> bool \<Rightarrow> int" where
  "scroll_by mounted right = (if mounted then if right then 320 else - 320 else 0)"

text \<open>The section of the weekend never has more than eight cards, each with the badge of the weekend, and each leads
  to the page of its event.\<close>

lemma weekend_cards:
  assumes "sv_body (ThisWeekend d now l (weekend_events tz now es)) = Cards cs"
  shows "length cs \<le> 8 \<and> list_all (\<lambda>c. hd (hc_badges c) = ''This Weekend'') cs
    \<and> map hc_href cs = map (\<lambda>e. ''/events/'' @ ce_id e) (weekend_events tz now es)"
proof -
  have cs: "cs = map (WeekendCard d) (weekend_events tz now es)"
    using assms by (simp add: ThisWeekend_def home_section_def split: if_splits)
  have "length (weekend_events tz now es) \<le> 8" by (simp add: weekend_events_def Let_def)
  then show ?thesis unfolding cs by (simp add: list_all_iff WeekendCard_def)
qed

text \<open>An event shown in the last section as a weekend's may be any upcoming one: if none falls in the weekend, the
  first eight of all have the badge.\<close>

lemma badge_of_other_days:
  assumes "\<forall>e \<in> set es. \<not> this_weekend tz now e" "e \<in> set (take 8 es)"
  shows "\<exists>cs. sv_body (ThisWeekend d now False (weekend_events tz now es)) = Cards cs \<and> WeekendCard d e \<in> set cs"
  using assms weekend_fallback [OF assms(1)]
  by (auto simp: ThisWeekend_def home_section_def section_shown_def)

text \<open>Movies with an id all have a card.\<close>

lemma movies_have_cards:
  assumes "\<forall>e \<in> set es. ce_id e \<noteq> []" "es \<noteq> []"
  shows "\<exists>v cs. FeaturedMovies False es = Some v \<and> sv_body v = Cards cs \<and> map hc_href cs = map (\<lambda>e. ''/events/'' @ ce_id e) es"
proof -
  have card: "\<exists>c. MovieCard e = Some c \<and> hc_href c = ''/events/'' @ ce_id e" if "e \<in> set es" for e
    using assms(1) that by (simp add: MovieCard_def getUrgencyBadge_def)
  then have "map hc_href (List.map_filter MovieCard xs) = map (\<lambda>e. ''/events/'' @ ce_id e) xs \<and> \<not> list_ex (\<lambda>e. MovieCard e = None) xs"
    if "set xs \<subseteq> set es" for xs
    using that
  proof (induction xs)
    case (Cons x xs)
    from Cons.prems obtain c where "MovieCard x = Some c" "hc_href c = ''/events/'' @ ce_id x" using card [of x] by auto
    with Cons show ?case by (simp add: map_filter_simps)
  qed (simp add: map_filter_simps)
  then show ?thesis using assms(2) by (simp add: FeaturedMovies_def home_section_def section_shown_def)
qed

section \<open>The counters\<close>

text \<open>A counter runs up in sixty steps, or as many as the sums of doubles need; a tick before the end is followed by
  another one.\<close>

definition counter_tick :: "rat \<Rightarrow> rat \<Rightarrow> rat" where
  "counter_tick value current = min (d_add current (d_div value 60)) value"

fun counter_run :: "nat \<Rightarrow> rat \<Rightarrow> rat \<Rightarrow> rat option" where
  "counter_run 0 value current = None"
| "counter_run (Suc n) value current =
     (let next = counter_tick value current in if value \<le> next then Some next else counter_run n value next)"

definition shown_count :: "bool \<Rightarrow> rat \<Rightarrow> rat" where
  "shown_count isDecimal current =
     (if isDecimal then to_double (of_int (half_up (current * 10)) / 10) else of_int \<lfloor>current\<rfloor>)"

lemma double_within: "0 \<le> x \<Longrightarrow> x - x / 2 ^ 53 \<le> to_double x \<and> to_double x \<le> x + x / 2 ^ 53"
proof -
  assume "0 \<le> x"
  then have "to_double x - x \<le> x / 2 ^ 53 \<and> - (to_double x - x) \<le> x / 2 ^ 53"
    using to_double_error [of x] by (simp only: abs_le_iff abs_of_nonneg)
  then show ?thesis by linarith
qed

lemma counter_progress:
  assumes "0 \<le> c" "c < v"
  shows "c + v / 61 \<le> d_add c (d_div v 60)"
proof -
  let ?i = "d_div v 60"
  have i: "v / 60 - v / 60 / 2 ^ 53 \<le> ?i" "?i \<le> v / 60 + v / 60 / 2 ^ 53"
    using double_within [of "v / 60"] assms by (simp_all add: d_div_def)
  have s: "(c + ?i) - (c + ?i) / 2 ^ 53 \<le> d_add c ?i"
  proof -
    have "0 \<le> c + ?i" using i(1) assms by simp
    then show ?thesis using double_within [of "c + ?i"] by (simp add: d_add_def)
  qed
  have "(c + ?i) / 2 ^ 53 \<le> 2 * v / 2 ^ 53" using i(2) assms by (simp add: divide_right_mono)
  then have "(c + ?i) - 2 * v / 2 ^ 53 \<le> d_add c ?i" using s by linarith
  then show ?thesis using i(1) assms by simp
qed

lemma counter_ends_within:
  assumes "0 < v" "0 \<le> c" "v \<le> c + of_nat n * (v / 61)" "c < v"
  shows "counter_run n v c = Some v"
  using assms
proof (induction n arbitrary: c)
  case (Suc n)
  let ?d = "d_add c (d_div v 60)"
  have p: "c + v / 61 \<le> ?d" by (rule counter_progress) (use Suc.prems in auto)
  show ?case
  proof (cases "v \<le> ?d")
    case True
    then show ?thesis by (simp add: counter_tick_def)
  next
    case False
    have "0 < v / 61" using Suc.prems(1) by simp
    then have "0 \<le> ?d" using p Suc.prems(2) by linarith
    moreover have "v \<le> c + v / 61 + of_nat n * (v / 61)" using Suc.prems(3) by (simp add: field_simps)
    then have "v \<le> ?d + of_nat n * (v / 61)" using p by linarith
    ultimately have "counter_run n v ?d = Some v" using Suc.IH [of ?d] Suc.prems(1) False by simp
    then show ?thesis using False by (simp add: counter_tick_def)
  qed
qed simp

text \<open>Every counter ends, after at most sixty-one ticks, and then shows its value.\<close>

lemma counter_ends: "0 < v \<Longrightarrow> counter_run 61 v 0 = Some v"
  by (rule counter_ends_within) simp_all

end
