(* ===== verification/PortalPages.thy ===== *)
theory PortalPages
  imports StaffPages LiveMonitor Navigation Catalogue SeatPicker
begin

text \<open>
  Frames and pages of the portals: the sidebars of \<open>app/admin\<close>, \<open>app/super-admin\<close>, \<open>app/theatre\<close> and
  \<open>components/platform/PlatformSidebar.tsx\<close>, the first pages of the administrator and the theatre, pricing and theaters,
  the scanner, the live activity and the seat monitor, the form of a new show; and what frames the public pages: the
  layout behind the login, the user menu, the seats of a booking, the pages shown after an error.
\<close>

section \<open>Frames\<close>

text \<open>The sidebar of a portal: its title, its items with the marked ones, and the user.\<close>

record frame_view =
  pf_title :: string
  pf_items :: "(nav_item \<times> bool) list"
  pf_initial :: string
  pf_name :: string
  pf_email :: string

text \<open>The user's tenant, name and e-mail; \<open>user?.name?.[0]\<close> of an empty name is not defined.\<close>

type_synonym frame_user = "(string option \<times> string option \<times> string option) option"

definition frame_name :: "frame_user \<Rightarrow> string option" where
  "frame_name u = (case u of None \<Rightarrow> None | Some (_, n, _) \<Rightarrow> n)"

definition frame_initial :: "frame_user \<Rightarrow> string option" where
  "frame_initial u = (case frame_name u of None \<Rightarrow> None | Some [] \<Rightarrow> None | Some (c # _) \<Rightarrow> Some [c])"

definition frame_email :: "frame_user \<Rightarrow> string" where
  "frame_email u = (case u of None \<Rightarrow> [] | Some (_, _, e) \<Rightarrow> (case e of None \<Rightarrow> [] | Some m \<Rightarrow> m))"

definition given_or :: "string option \<Rightarrow> string \<Rightarrow> string" where
  "given_or x d = (case x of None \<Rightarrow> d | Some s \<Rightarrow> s)"

definition portal_frame :: "string \<Rightarrow> nav_item list \<Rightarrow> string \<Rightarrow> string \<Rightarrow> string \<Rightarrow> frame_user \<Rightarrow> frame_view" where
  "portal_frame title items initial name pathname u =
     \<lparr>pf_title = title, pf_items = map (\<lambda>i. (i, nav_active pathname i)) items, pf_initial = given_or (frame_initial u) initial,
      pf_name = given_or (frame_name u) name, pf_email = frame_email u\<rparr>"

definition admin_frame :: "string \<Rightarrow> frame_user \<Rightarrow> frame_view" where
  "admin_frame pathname u = portal_frame (given_or (case u of None \<Rightarrow> None | Some (t, _) \<Rightarrow> t) ''Admin Panel'') admin_nav ''A'' ''Admin'' pathname u"

definition super_admin_frame :: "string \<Rightarrow> frame_user \<Rightarrow> frame_view" where
  "super_admin_frame = portal_frame ''Super Admin'' super_admin_nav ''S'' ''Super Admin''"

definition theatre_frame :: "string \<Rightarrow> frame_user \<Rightarrow> frame_view" where
  "theatre_frame = portal_frame ''Manager Portal'' theatre_nav ''M'' ''Manager''"

definition platform_frame :: "string \<Rightarrow> (nav_item \<times> bool) list" where
  "platform_frame pathname = map (\<lambda>i. (i, nav_active pathname i)) platform_nav"

text \<open>On the page of an item the item is marked. On the platform it is the only one; on the other portals the first
  item, whose address begins all others, is marked with it.\<close>

lemma own_item_marked: "i \<in> set items \<Longrightarrow> (i, True) \<in> set (pf_items (portal_frame t items a n (snd i) u))"
  by (auto simp: portal_frame_def nav_active_def)

lemma platform_item_unique:
  "list_all (\<lambda>i. map fst (filter snd (platform_frame (snd i))) = [i]) platform_nav"
  by code_simp

lemma first_item_always_marked:
  "list_all (\<lambda>i. map fst (filter snd (map (\<lambda>j. (j, nav_active (snd i) j)) admin_nav)) =
      (if i = hd admin_nav then [i] else [hd admin_nav, i])) admin_nav"
  by code_simp

section \<open>First pages\<close>

text \<open>The figures of the administrator's first page; \<open>to_text\<close> is \<open>String\<close>, \<open>None\<close> is the page while it loads.\<close>

definition waving :: string where
  "waving = CHR '' '' # map char_of [240 :: nat, 159, 145, 139]"

definition TenantAdminDashboard ::
  "(json \<Rightarrow> string) \<Rightarrow> (json \<Rightarrow> rat option) \<Rightarrow> (rat \<Rightarrow> string) \<Rightarrow> bool \<Rightarrow> string option \<Rightarrow> json option
    \<Rightarrow> (string \<times> (string \<times> string) list) option" where
  "TenantAdminDashboard to_text number indian loading name summary =
     (if loading then None
      else Some (''Welcome back, '' @ given_or name ''Admin'' @ waving,
        [(''Total Bookings'', to_text (stat_or_0 ''totalBookings'' summary)),
         (''Active Shows'', to_text (stat_or_0 ''activeShows'' summary)),
         (''Revenue Today'', paise_text number indian (stat_or_0 ''revenueToday'' summary)),
         (''Pending Actions'', to_text (stat_or_0 ''pending'' summary))]))"

text \<open>The page of prices and revenue; \<open>indian\<close> prints the number that an answer is converted to.\<close>

definition AdminPricingPage :: "(rat \<Rightarrow> string) \<Rightarrow> (json \<Rightarrow> string) \<Rightarrow> bool \<Rightarrow> json option \<Rightarrow> (string \<times> string) list option" where
  "AdminPricingPage num indian isLoading data =
     (if isLoading then None
      else Some [(''Total Revenue'', rupee @ indian (stat_or_0 ''totalRevenue'' data)),
        (''Total Bookings'', react_text num (stat_or_0 ''totalBookings'' data)),
        (''Pending Actions'', react_text num (stat_or_0 ''pendingActions'' data))])"

text \<open>What the server answers to both.\<close>

definition overview_answer :: "overview \<Rightarrow> json" where
  "overview_answer v = Obj
     [(''totalRevenue'', Num (ov_totalRevenue v)), (''totalBookings'', Num (of_nat (ov_totalBookings v))),
      (''activeUsers'', Num (of_nat (ov_activeUsers v))), (''activeLocks'', Num (of_nat (ov_activeLocks v))),
      (''pendingActions'', Num (of_nat (ov_pendingActions v)))]"

text \<open>Of the same answer one page shows all it asks for; the other shows the bookings and three zeros.\<close>

lemma pricing_shows_overview:
  "AdminPricingPage num indian False (Some (overview_answer v)) =
     Some [(''Total Revenue'', rupee @ indian (Num (ov_totalRevenue v))), (''Total Bookings'', num (of_nat (ov_totalBookings v))),
       (''Pending Actions'', num (of_nat (ov_pendingActions v)))]"
  by (simp add: AdminPricingPage_def overview_answer_def stat_or_0_def json_get_def nullish_def)

lemma first_page_misses_overview:
  "TenantAdminDashboard to_text number indian False name (Some (overview_answer v)) =
     Some (''Welcome back, '' @ given_or name ''Admin'' @ waving,
       [(''Total Bookings'', to_text (Num (of_nat (ov_totalBookings v)))), (''Active Shows'', to_text (Num 0)),
        (''Revenue Today'', paise_text number indian (Num 0)), (''Pending Actions'', to_text (Num 0))])"
  by (simp add: TenantAdminDashboard_def overview_answer_def stat_or_0_def json_get_def nullish_def)

text \<open>The answer of the theatre's list is a list, or an object with a list; \<open>None\<close> is a failed request. Anything else is
  taken as it is and fails when it is drawn, as does a list with \<open>null\<close> in it; then the page is \<open>None\<close>.\<close>

definition theatre_shows :: "json option \<Rightarrow> json" where
  "theatre_shows answer = (case answer of None \<Rightarrow> Arr [] | Some d \<Rightarrow> nullish (json_get ''data'' d) (nullish d (Arr [])))"

record theatre_card =
  th_title :: string
  th_time :: string
  th_seats :: string

definition theatre_card_of :: "(rat \<Rightarrow> string) \<Rightarrow> (json \<Rightarrow> string) \<Rightarrow> json \<Rightarrow> theatre_card" where
  "theatre_card_of num time h =
     \<lparr>th_title = react_text num (nullish (json_path [''event'', ''title''] h) (Str ''Show'')),
      th_time = (if json_truthy (json_get ''startTime'' h) then time (json_get ''startTime'' h) else ''TBD''),
      th_seats = react_text num (nullish (json_get ''remainingCapacity'' h) (Num 0)) @ ''/'' @ react_text num (nullish (json_get ''totalCapacity'' h) (Num 0))\<rparr>"

datatype theatre_view = Loading_theatre | No_shows_today | Shows_today "theatre_card list"

definition TheatreDashboard :: "(rat \<Rightarrow> string) \<Rightarrow> (json \<Rightarrow> string) \<Rightarrow> bool \<Rightarrow> json option \<Rightarrow> theatre_view option" where
  "TheatreDashboard num time loading answer =
     (if loading then Some Loading_theatre
      else case theatre_shows answer of
        Arr hs \<Rightarrow> (if hs = [] then Some No_shows_today
                   else if Null \<in> set hs then None
                   else Some (Shows_today (map (theatre_card_of num time) hs)))
      | Str s \<Rightarrow> (if s = [] then Some No_shows_today else None)
      | Obj ms \<Rightarrow> (if json_get ''length'' (Obj ms) = Num 0 then Some No_shows_today else None)
      | _ \<Rightarrow> None)"

text \<open>A list is drawn with a card for every show, whether it comes bare or under \<open>data\<close>; an object without a list
  breaks the page, although a failed request does not.\<close>

lemma theatre_lists:
  assumes "Null \<notin> set (h # hs)"
  shows "TheatreDashboard num time False (Some (Arr (h # hs))) = Some (Shows_today (map (theatre_card_of num time) (h # hs)))"
    "TheatreDashboard num time False (Some (Obj [(''data'', Arr (h # hs))])) = Some (Shows_today (map (theatre_card_of num time) (h # hs)))"
    "TheatreDashboard num time False None = Some No_shows_today"
  using assms by (auto simp: TheatreDashboard_def theatre_shows_def json_get_def nullish_def)

lemma theatre_page_breaks: "TheatreDashboard num time False (Some (Obj [(''shows'', Arr hs)])) = None"
  by (simp add: TheatreDashboard_def theatre_shows_def json_get_def nullish_def)

section \<open>Theaters\<close>

record theater_panel =
  tp_name :: string
  tp_address :: string
  tp_screens :: string
  tp_list :: "(string \<times> string) list"

text \<open>The screens of a theater may be missing in the answer.\<close>

definition theater_panel_of :: "string \<times> string \<times> string \<times> (string \<times> nat \<times> nat) list option \<Rightarrow> theater_panel" where
  "theater_panel_of t = (case t of (name, city, address, screens) \<Rightarrow>
     (let n = (case screens of None \<Rightarrow> 0 | Some ss \<Rightarrow> length ss)
      in \<lparr>tp_name = name, tp_address = city @ '' '' @ em_dash @ '' '' @ address,
          tp_screens = show_nat n @ '' screen'' @ (if map_option length screens \<noteq> Some 1 then ''s'' else []),
          tp_list = (case screens of None \<Rightarrow> [] | Some ss \<Rightarrow>
            map (\<lambda>(s, rows, seats). (s, show_nat rows @ '' rows '' @ utf8 215 @ '' '' @ show_nat seats @ '' seats'')) ss)\<rparr>))"

text \<open>The page: without an answer it has neither panels nor the remark that there are none.\<close>

definition AdminTheatersPage ::
  "bool \<Rightarrow> (string \<times> string \<times> string \<times> (string \<times> nat \<times> nat) list option) list option \<Rightarrow> string option \<times> theater_panel list" where
  "AdminTheatersPage isLoading theaters =
     (if isLoading then (Some ''Loading theaters...'', [])
      else case theaters of
        None \<Rightarrow> (None, [])
      | Some ts \<Rightarrow> (if ts = [] then Some ''No theaters found.'' else None, map theater_panel_of ts))"

text \<open>A theater without the list of its screens looks like one with an empty list.\<close>

lemma missing_screens: "theater_panel_of (n, c, a, None) = theater_panel_of (n, c, a, Some [])"
  by (simp add: theater_panel_of_def)

section \<open>The scanner\<close>

record scanner_view =
  sc_color :: string
  sc_icon :: string
  sc_message :: "string \<times> string"
  sc_details :: "(string \<times> string \<times> string) option"

text \<open>\<open>ticket\<close> reads seat, show and holder of the answer.\<close>

definition ScannerPage :: "(string \<Rightarrow> string option \<times> string option \<times> string option) \<Rightarrow> scanner \<Rightarrow> scanner_view" where
  "ScannerPage ticket p =
     \<lparr>sc_color = scanner_color p,
      sc_icon = (case sn_status p of Scan_idle \<Rightarrow> ''code'' | Scan_scanning \<Rightarrow> ''spinner'' | Scan_success \<Rightarrow> ''check'' | Scan_error \<Rightarrow> ''cross''),
      sc_message = (case sn_status p of Scan_success \<Rightarrow> ''green'' | Scan_error \<Rightarrow> ''red'' | _ \<Rightarrow> ''gray'', sn_message p),
      sc_details = map_option (\<lambda>t. case ticket t of (seat, title, holder) \<Rightarrow> (given_or seat ''Seat'', given_or title [], given_or holder [])) (scanner_ticket p)\<rparr>"

text \<open>Pressing enter, or the button, sends the text of the field and empties it, even if the scan is ignored.\<close>

definition submit_field :: "string \<Rightarrow> scanner \<Rightarrow> scanner \<times> string" where
  "submit_field s p = (handleScan s p, [])"

text \<open>In every run of the scanner the details of a ticket are shown exactly with the green check.\<close>

lemma details_with_check:
  assumes "run scanner_step fresh_scanner p"
  shows "sc_details (ScannerPage t p) \<noteq> None \<longleftrightarrow> sc_icon (ScannerPage t p) = ''check''"
proof -
  have "scanner_ok p" by (rule scanning.run_inv [OF assms]) (simp add: scanner_ok_def fresh_scanner_def)
  then show ?thesis by (auto simp: ScannerPage_def scanner_ticket_def scanner_ok_def split: scanner_status.splits)
qed

text \<open>A code typed while another is checked is lost.\<close>

lemma typed_code_is_lost: "sn_status p = Scan_scanning \<Longrightarrow> submit_field s p = (p, [])"
  by (simp add: submit_field_def handleScan_def)

section \<open>Live pages\<close>

text \<open>The activity page: a line for each event, \<open>replace\<close> takes the first underscore only.\<close>

fun log_words :: "log_type \<Rightarrow> string" where
  "log_words Log_seat_locked = ''seat locked''"
| "log_words Log_booking_confirmed = ''booking confirmed''"
| "log_words Log_booking_cancelled = ''booking cancelled''"
| "log_words Log_booking_failed = ''booking failed''"
| "log_words Log_seat_released = ''seat released''"

definition activity_page :: "(int \<Rightarrow> string) \<Rightarrow> activity list \<Rightarrow> (string \<times> string \<times> log_icon \<times> string \<times> string) list + string" where
  "activity_page time logs =
     (if logs = [] then Inr ''Waiting for events...''
      else Inl (map (\<lambda>l. (getEventColor (lg_type l), time (lg_timestamp l), getEventIcon (lg_type l), log_words (lg_type l), lg_details l)) logs))"

lemma activity_page_bounded:
  "length logs \<le> 50 \<Longrightarrow> activity_page time (addLog e logs) = Inl ls \<Longrightarrow> length ls \<le> 50"
  by (auto simp: activity_page_def addLog_def)

record monitor_view =
  mv_title :: string
  mv_total :: string
  mv_available :: string
  mv_occupied :: string
  mv_room :: string

definition monitor_counts :: "string \<Rightarrow> string \<Rightarrow> live_seat list \<Rightarrow> monitor_view" where
  "monitor_counts showId showTitle seats =
     \<lparr>mv_title = showTitle, mv_total = ''Total Seats: '' @ show_nat (length seats), mv_available = ''Available: '' @ show_nat (count_available seats),
      mv_occupied = ''Occupied: '' @ show_nat (count_occupied seats), mv_room = ''WS_NS: /admin | ROOM_ID: '' @ showId\<rparr>"

text \<open>The two counts are the total after every message.\<close>

lemma monitor_counts_add_up:
  "count_available (fold monitor_handler ms seats) + count_occupied (fold monitor_handler ms seats) = length seats"
proof -
  have "length (monitor_handler m seats) = length seats" for m seats by (cases m) simp_all
  then have "length (fold monitor_handler ms seats) = length seats" by (induction ms arbitrary: seats) simp_all
  then show ?thesis by (simp add: counts_are_complete)
qed

section \<open>The form of a new show\<close>

record show_modal =
  sm_events :: "(string \<times> string) list"
  sm_theaters :: "(string \<times> string) list"
  sm_screens :: "(string \<times> string) list"
  sm_screenDisabled :: bool
  sm_errors :: "string list"
  sm_submit :: "string \<times> bool"

text \<open>The choices of a list, with an empty one first; an answer may be missing.\<close>

definition choices :: "string \<Rightarrow> (string \<times> string) list option \<Rightarrow> (string \<times> string) list" where
  "choices prompt answer = ([], prompt) # (case answer of None \<Rightarrow> [] | Some xs \<Rightarrow> xs)"

text \<open>Messages appear once the form was submitted (\<open>tried\<close>), but none for the theater.\<close>

definition CreateShowModal ::
  "bool \<Rightarrow> bool \<Rightarrow> bool \<Rightarrow> (string \<times> string) list option \<Rightarrow> (string \<times> string) list option \<Rightarrow> (string \<times> string) list option
    \<Rightarrow> show_form \<Rightarrow> show_modal option" where
  "CreateShowModal isOpen isPending tried events theaters screens f =
     (if \<not> isOpen then None
      else Some \<lparr>sm_events = choices ''Choose an event...'' events, sm_theaters = choices ''Select Theater...'' theaters,
        sm_screens = choices ''Select Screen...'' screens, sm_screenDisabled = (sf_theaterId f = []),
        sm_errors = (if tried then filter (\<lambda>m. m \<noteq> ''Theater is required'') (show_form_errors f) else []),
        sm_submit = (if isPending then ''Creating...'' else ''Create Show'', isPending)\<rparr>)"

text \<open>A form without a theater is not sent, and no message says why.\<close>

lemma theater_refused_silently:
  assumes "CreateShowModal True p True es ts ss f = Some v" "show_form_errors f = [''Theater is required'']"
  shows "sm_errors v = []" "sm_screenDisabled v"
  using assms by (auto simp: CreateShowModal_def show_form_errors_def Let_def split: if_splits)

section \<open>Public frames\<close>

text \<open>\<open>app/(protected)/layout.tsx\<close> hides the page from a visitor, but sends nobody to the login.\<close>

definition ProtectedLayout :: "session \<Rightarrow> 'a \<Rightarrow> 'a layout" where
  "ProtectedLayout s children =
     (if \<not> se_hasHydrated s then Layout_wait
      else if se_user s = None then Layout_hidden None
      else Layout_shown None children)"

lemma protected_stranger_stays: "ProtectedLayout s c \<noteq> Layout_hidden (Some path)"
  by (simp add: ProtectedLayout_def)

text \<open>The user menu: whether it is open, and what changes that.\<close>

datatype menu_event = Menu_pressed | Pressed_outside | Router_replaced | Menu_signed_out

fun menu_step :: "menu_event \<Rightarrow> bool \<Rightarrow> bool" where
  "menu_step Menu_pressed isOpen = (\<not> isOpen)"
| "menu_step _ isOpen = False"

record menu_view =
  mw_initials :: string
  mw_name :: string
  mw_panel :: "(string \<times> nav_item list) option"

definition UserDropdown :: "(string option \<times> string) option \<Rightarrow> bool \<Rightarrow> menu_view option" where
  "UserDropdown user isOpen = (case user of
     None \<Rightarrow> None
   | Some (name, email) \<Rightarrow> Some \<lparr>mw_initials = menu_initials email, mw_name = menu_name name email,
       mw_panel = (if isOpen then Some (email, user_menu) else None)\<rparr>)"

text \<open>The menu is open exactly if it was pressed an odd number of times since it was last closed otherwise.\<close>

lemma menu_open_iff:
  "fold menu_step es False \<longleftrightarrow> odd (length (takeWhile (\<lambda>e. e = Menu_pressed) (rev es)))"
proof (induction es rule: rev_induct)
  case (snoc e es)
  then show ?case by (cases e) simp_all
qed simp

text \<open>A seat of the booking page: a button that is disabled, the seat it selects, its tip and its tones. \<open>clsx\<close> joins
  the tones of all conditions that hold.\<close>

datatype seat_tone = Tone_sold | Tone_held | Tone_chosen | Tone_free

record seat_button =
  sb_disabled :: bool
  sb_selects :: string
  sb_tip :: string
  sb_tones :: "seat_tone list"
  sb_label :: string

definition seat_button_of :: "string list \<Rightarrow> seat_cell \<Rightarrow> seat_button" where
  "seat_button_of selected c =
     (let chosen = seat_code c \<in> set selected
      in \<lparr>sb_disabled = isUnavailable c, sb_selects = seat_code c,
          sb_tip = ''Row '' @ given_or (ce_row c) ''undefined'' @ '' Seat '' @ show_int (ce_number c) @ '' '' @ em_dash @ '' '' @ ce_status c,
          sb_tones = map fst (filter snd [(Tone_sold, ce_status c = ''BOOKED''), (Tone_held, ce_status c = ''LOCKED''),
            (Tone_chosen, chosen), (Tone_free, \<not> isUnavailable c \<and> \<not> chosen)]),
          sb_label = show_int (ce_number c)\<rparr>)"

definition booking_seats :: "string list \<Rightarrow> seat_cell list \<Rightarrow> (string \<times> seat_button list) list" where
  "booking_seats selected seats = map (\<lambda>(k, cs). (k, map (seat_button_of selected) cs)) (seat_grid seats)"

text \<open>Every seat of the show has its button, one that can be pressed is free or chosen and nothing else, and a seat that
  was sold or held while chosen wears both tones.\<close>

lemma booking_seats_complete:
  "mset (concat (map snd (booking_seats selected seats))) = image_mset (seat_button_of selected) (mset seats)"
proof -
  have "concat (map snd (booking_seats selected seats)) = map (seat_button_of selected) (concat (map snd (seat_grid seats)))"
    by (simp add: booking_seats_def map_concat comp_def split_def)
  then show ?thesis using grid_shows_every_seat_once [of seats] by (metis mset_map)
qed

lemma seat_tones:
  "\<not> sb_disabled (seat_button_of selected c) \<Longrightarrow>
     sb_tones (seat_button_of selected c) = [if seat_code c \<in> set selected then Tone_chosen else Tone_free]"
  "ce_status c = ''LOCKED'' \<Longrightarrow> seat_code c \<in> set selected \<Longrightarrow> sb_tones (seat_button_of selected c) = [Tone_held, Tone_chosen]"
  by (auto simp: seat_button_of_def isUnavailable_def Let_def)

section \<open>Errors\<close>

text \<open>\<open>components/ErrorBoundary.tsx\<close>: whether drawing its pages failed, and with which message.\<close>

record boundary =
  eb_hasError :: bool
  eb_error :: "string option"

definition fresh_boundary :: boundary where
  "fresh_boundary = \<lparr>eb_hasError = False, eb_error = None\<rparr>"

definition getDerivedStateFromError :: "string \<Rightarrow> boundary \<Rightarrow> boundary" where
  "getDerivedStateFromError message b = b\<lparr>eb_hasError := True, eb_error := Some message\<rparr>"

definition reload_application :: "boundary \<Rightarrow> boundary" where
  "reload_application b = b\<lparr>eb_hasError := False\<rparr>"

definition boundary_view :: "boundary \<Rightarrow> 'a \<Rightarrow> string + 'a" where
  "boundary_view b children =
     (if eb_hasError b then Inl (or_str (eb_error b) ''An unexpected error occurred. Please try again.'') else Inr children)"

text \<open>\<open>app/error.tsx\<close>: the line that identifies the error.\<close>

definition error_line :: "string option \<Rightarrow> string option" where
  "error_line digest = (if truthy digest then Some (''Error ID: '' @ the digest) else None)"

text \<open>An error hides the pages until the button is pressed; there is always something to read.\<close>

lemma boundary_catches:
  "\<exists>m. boundary_view (getDerivedStateFromError message b) c = Inl m \<and> m \<noteq> [] \<and> (message \<noteq> [] \<longrightarrow> m = message)"
  "boundary_view (reload_application b) c = Inr c" "boundary_view fresh_boundary c = Inr c"
  by (auto simp: boundary_view_def getDerivedStateFromError_def reload_application_def fresh_boundary_def or_str_def)

end
