(* ===== verification/Spec2Isabelle.thy ===== *)
theory Spec2Isabelle
  imports BookingOperations PaymentGuarantees Discounts OrderGuarantees ExpiryGuarantees TicketGuarantees Validation TenantScope PortalGuards Access Anomalies Onboarding Analytics Recommendations Administration SeatPicker Checkout SignIn LiveMonitor Outgoing Serving History Wishes Catalogue Navigation Console Requests Seeding PurchasePages StaffPages HomePage PortalPages
begin

text \<open>
  Omnipax sells tickets: tenants (theaters) publish events, customers lock and pay for seats, tickets are scanned at
  the door. The repository holds a backend (\<open>src/backend\<close>, a module of controllers and services over a relational
  database, Redis and a job queue), a frontend (\<open>src/frontend\<close>, pages and their clients) and shared declarations.
  This library models the logic of both and proves what it keeps, and also where it fails.

  How to read it. A class becomes a record of its state, an enumeration a datatype, a method a function on the state it
  reads and writes; a thrown exception is the left side of a sum. A database is a record of tables, a table the list of
  its rows. An await at which another request may run splits a method in two, and the components with such methods have
  a step relation. Clock readings are arguments. Code that is not part of the repository (the payment provider, HMAC,
  bcrypt, token signing, the mail transport, the date parser) is an argument of the definitions that use it.
  Every definition keeps the name of its function, type or variable where the name is free.

  Foundations.
  \<^item> \<open>Base\<close>: results, tables with their queries, runs of a relation, and the interfaces \<open>invariant_system\<close>,
    \<open>monotone_system\<close> and \<open>unique_insert\<close>, which the components interpret on their own step relations and tables.
    Three more interfaces stand where they are used: \<open>repeatable\<close> in \<open>Maintenance\<close>, what running a script again does, \<open>lock_provider\<close> in \<open>SeatLocks\<close>, what a booking needs of a lock,
    and \<open>lawful_operation\<close> in \<open>PaymentStore\<close>, what every job on the ledger keeps.
  \<^item> \<open>Texts\<close>, \<open>Json\<close>, \<open>Base64\<close>, \<open>Queries\<close>, \<open>Calendar\<close>, \<open>Doubles\<close>: the parts of the language's library the
    source relies on (numerals, JSON, base64, query strings, dates, 53-bit numbers), each with its round trip or error
    bound. The JSON reader carries fuel: twice the length of the text and one, since no rule uses more than two steps
    for a character; that it suffices for everything printed is the round trip of that theory.

  Selling seats, in the order of the money.
  \<^item> \<open>BookingStates\<close>: \<open>bookings/bookings-state.machine.ts\<close>. \<open>SeatLocks\<close>: \<open>seat-locks/seat-locks.service.ts\<close> on Redis
    commands. \<open>SeatUpdates\<close>: \<open>realtime\<close>. \<open>Store\<close>, \<open>Accounts\<close>, \<open>Events\<close>, \<open>Bookings\<close>: the services of the mounted
    application. \<open>BookingSystem\<close> puts every request that changes the store into one step relation;
    \<open>BookingGuarantees\<close> and \<open>BookingOperations\<close> state what runs and single operations keep: no double booking
    (outside the race of a late payment, which is exhibited), signed confirmations only, redelivery, finality, expiry.
  \<^item> \<open>PaymentStore\<close>, \<open>PaymentProcessor\<close>, \<open>PaymentWebhook\<close>, \<open>Reconciliation\<close>, \<open>Payments\<close>: \<open>payments\<close>, the second
    generation of bookings with ledger, refunds, sweeps and circuit breaker; \<open>PaymentGuarantees\<close> and
    \<open>OrderGuarantees\<close> prove single refunds, lawful sweeps and the breaker's timing.
  \<^item> \<open>Pricing\<close>, \<open>Discounts\<close>: totals as the doubles of the source and their distance from the exact amount.
  \<^item> \<open>Expiry\<close>, \<open>ExpiryGuarantees\<close>: \<open>seat-lock.worker.ts\<close> and the expiry sweeps. The batch loop ends because every
    round removes the rows it has read; the measure is the number of expired rows.
  \<^item> \<open>QrTokens\<close>, \<open>Tickets\<close>, \<open>Devices\<close>, \<open>TicketGuarantees\<close>, \<open>Validation\<close>: signed tokens, generation, scanning online
    and offline, under every interleaving of scans and uploads.

  Around the services.
  \<^item> \<open>TenantScope\<close> (the query extension), \<open>Access\<close> (guards, feature flags, idempotency), \<open>Anomalies\<close>, \<open>Onboarding\<close>
    with \<open>Slugs\<close>, \<open>Analytics\<close>, \<open>Recommendations\<close>, \<open>Administration\<close> (administrators, platform, wishlists),
    \<open>LiveMonitor\<close> (both socket gateways with rooms), \<open>Responses\<close> (exception filter, audit trail), \<open>Outgoing\<close>
    (metrics, mails, queue attempts).
  \<^item> \<open>Routes\<close>, \<open>Serving\<close>: the routes of every controller, the module graph and the request pipeline. The application
    module reaches seven controllers; the others, and with them several services above, are modelled as written
    although no request of the running application reaches them. The scan of the module graph is given
    a hundred steps; it needs one for every module and every import it meets, and ends with the sixteen modules that
    the lemma on its value lists.

  \<^item> \<open>Dtos\<close>, \<open>Requests\<close>: the validation pipe and the class of every body, and what the handlers and the forms of the
    frontend make of them: which bodies are accepted, and which calls of the frontend never are.
  \<^item> \<open>Maintenance\<close>, \<open>Seeding\<close>: the scripts that repair or fill a database. Their interface \<open>repeatable\<close>, a job with a
    state it leaves alone, is interpreted on the repair of seats, the tenant backfill and both seeds.

  The browser.
  \<^item> \<open>Portal\<close>, \<open>PortalGuards\<close>, \<open>SignIn\<close>, \<open>Navigation\<close>: route middleware, session store, login, links and layouts. A
    browser is given four answers in the model; the theorem on the end of redirections shows that they are enough, but
    for an administrator without a tenant, who is sent to and fro without end.
  \<^item> \<open>SeatPicker\<close>, \<open>Checkout\<close>, \<open>History\<close>, \<open>Catalogue\<close>, \<open>Wishes\<close>: choosing seats (with the timer of three hundred
    seconds), paying, booking cards and amounts, search with its debounce of 300 ms, event lists, the cached wishlist.
    Pages are records of their state with one function per handler, and one function from the state to what is shown.
  \<^item> \<open>ScriptLoader\<close>, \<open>PurchasePages\<close>: the loaders of the payment script with their promises, and what the login, booking,
    show and checkout pages show in every state: the checkout never announces more than the server confirmed, and a
    script that failed once is waited for without end.
  \<^item> \<open>HomePage\<close>: menu, search box, sections and counters of the home page; a counter is given sixty-one ticks, which
    the lemma on its progress shows to be enough.
  \<^item> \<open>Console\<close>, \<open>StaffPages\<close>: scanner, platform tables, dashboards and forms of the staff, with the figures that the
    server's answers do not have.
  \<^item> \<open>PortalPages\<close>: sidebars and first pages of the portals, scanner, activity and monitor as they are drawn, the user
    menu, the seat buttons and the pages after an error.

  Not modelled: logging, the bootstrap code that only calls libraries, scripts that print the contents of a database
  or check a running server, tests, style and animation of pages, pages of constant text, files that no other file
  imports, and type declarations without behaviour. Included
  relations of database rows are left out where no code reads them. The matcher of Redis patterns, the parser of dates
  and the framework's page matcher are parameters. Integers of the source are doubles; the model uses integers where
  the source only counts, and \<open>Doubles\<close> where it multiplies amounts.
\<close>

end
